(* ===== verification/Prelude.thy ===== *)
theory Prelude
  imports Main "HOL-Library.Char_ord" "HOL-Library.List_Lexorder" "HOL-Library.FSet" "HOL-Library.Word"
begin

text \<open>
  Shared vocabulary of the development: the part of Rust's standard library the sources
  use on strings, options and results, and the lemma collections the component theories
  share.

  A Rust \<^verbatim>\<open>String\<close> is UTF-8 text; it is modelled by its bytes, a \<^typ>\<open>string\<close>
  (Isabelle's \<^typ>\<open>char\<close> is a byte).  Operations of the sources that count or cut
  \<^emph>\<open>characters\<close> (\<^verbatim>\<open>s.chars()\<close>) go through \<open>utf8_chars\<close>, which cuts the byte
  string in front of every byte that is not a continuation byte, so that one element is
  one code point of valid UTF-8.
\<close>

named_theorems eval_simps \<open>equations that unfold one step of an evaluator\<close>
named_theorems frame_simps \<open>components of a state an operation leaves alone\<close>

subsection \<open>Results\<close>

text \<open>\<^verbatim>\<open>Result<T, E>\<close> is a sum with the error on the left; \<open>res_bind\<close> is the \<^verbatim>\<open>?\<close> operator.\<close>

fun res_bind :: "'e + 'a \<Rightarrow> ('a \<Rightarrow> 'e + 'b) \<Rightarrow> 'e + 'b" where
  "res_bind (Inl e) f = Inl e"
| "res_bind (Inr x) f = f x"

lemma res_bind_eq_Inr: "res_bind r f = Inr y \<longleftrightarrow> (\<exists>x. r = Inr x \<and> f x = Inr y)"
  by (cases r) auto

lemma res_bind_eq_Inl: "res_bind r f = Inl e \<longleftrightarrow> r = Inl e \<or> (\<exists>x. r = Inr x \<and> f x = Inl e)"
  by (cases r) auto

fun or_else :: "'a option \<Rightarrow> 'a option \<Rightarrow> 'a option" where
  "or_else None d = d"
| "or_else (Some x) d = Some x"

fun unwrap_or :: "'a option \<Rightarrow> 'a \<Rightarrow> 'a" where
  "unwrap_or None d = d"
| "unwrap_or (Some x) d = x"

subsection \<open>Characters and strings\<close>

definition byte_of :: "char \<Rightarrow> nat" where
  "byte_of c = of_char c"

definition is_cont_byte :: "char \<Rightarrow> bool" where
  "is_cont_byte c \<longleftrightarrow> 128 \<le> byte_of c \<and> byte_of c < 192"

fun utf8_chars :: "string \<Rightarrow> string list" where
  "utf8_chars [] = []"
| "utf8_chars (c # cs) =
     (case utf8_chars cs of
        [] \<Rightarrow> [[c]]
      | g # gs \<Rightarrow> (case g of [] \<Rightarrow> [c] # gs
                   | d # _ \<Rightarrow> if is_cont_byte d then (c # g) # gs else [c] # g # gs))"

lemma concat_utf8_chars [simp]: "concat (utf8_chars s) = s"
proof (induction s)
  case (Cons c cs)
  then show ?case by (auto split: list.splits)
qed simp

lemma utf8_chars_eq_Nil [simp]: "utf8_chars s = [] \<longleftrightarrow> s = []"
  by (cases s) (auto split: list.splits)

lemma utf8_chars_ascii:
  "\<forall>c \<in> set s. \<not> is_cont_byte c \<Longrightarrow> utf8_chars s = map (\<lambda>c. [c]) s"
proof (induction s)
  case (Cons c cs)
  then show ?case by (cases cs) auto
qed simp

definition is_ascii_digit :: "char \<Rightarrow> bool" where
  "is_ascii_digit c \<longleftrightarrow> 48 \<le> byte_of c \<and> byte_of c \<le> 57"

definition is_ascii_upper :: "char \<Rightarrow> bool" where
  "is_ascii_upper c \<longleftrightarrow> 65 \<le> byte_of c \<and> byte_of c \<le> 90"

definition is_ascii_lower :: "char \<Rightarrow> bool" where
  "is_ascii_lower c \<longleftrightarrow> 97 \<le> byte_of c \<and> byte_of c \<le> 122"

definition is_ascii_alphabetic :: "char \<Rightarrow> bool" where
  "is_ascii_alphabetic c \<longleftrightarrow> is_ascii_upper c \<or> is_ascii_lower c"

definition is_ascii_alphanumeric :: "char \<Rightarrow> bool" where
  "is_ascii_alphanumeric c \<longleftrightarrow> is_ascii_alphabetic c \<or> is_ascii_digit c"

definition is_ascii_hexdigit :: "char \<Rightarrow> bool" where
  "is_ascii_hexdigit c \<longleftrightarrow> is_ascii_digit c
     \<or> (65 \<le> byte_of c \<and> byte_of c \<le> 70) \<or> (97 \<le> byte_of c \<and> byte_of c \<le> 102)"

definition is_ascii_whitespace :: "char \<Rightarrow> bool" where
  "is_ascii_whitespace c \<longleftrightarrow> byte_of c \<in> {32, 9, 10, 12, 13}"

definition to_ascii_lowercase :: "string \<Rightarrow> string" where
  "to_ascii_lowercase s =
     map (\<lambda>c. if is_ascii_upper c then char_of (byte_of c + 32) else c) s"

definition eq_ignore_ascii_case :: "string \<Rightarrow> string \<Rightarrow> bool" where
  "eq_ignore_ascii_case s t \<longleftrightarrow> to_ascii_lowercase s = to_ascii_lowercase t"

text \<open>
  \<^verbatim>\<open>str::trim\<close> removes code points with the Unicode property White\_Space at both ends;
  \<open>is_whitespace_cp\<close> lists them by their UTF-8 encoding.
\<close>

definition is_whitespace_cp :: "string \<Rightarrow> bool" where
  "is_whitespace_cp g \<longleftrightarrow> map byte_of g \<in>
     {[9], [10], [11], [12], [13], [32], [194, 133], [194, 160], [225, 154, 128],
      [226, 128, 128], [226, 128, 129], [226, 128, 130], [226, 128, 131], [226, 128, 132],
      [226, 128, 133], [226, 128, 134], [226, 128, 135], [226, 128, 136], [226, 128, 137],
      [226, 128, 138], [226, 128, 168], [226, 128, 169], [226, 128, 175], [226, 129, 159],
      [227, 128, 128]}"

definition trim_start :: "string \<Rightarrow> string" where
  "trim_start s = concat (dropWhile is_whitespace_cp (utf8_chars s))"

definition trim_end :: "string \<Rightarrow> string" where
  "trim_end s = concat (rev (dropWhile is_whitespace_cp (rev (utf8_chars s))))"

definition trim :: "string \<Rightarrow> string" where
  "trim s = trim_end (trim_start s)"

fun starts_with :: "string \<Rightarrow> string \<Rightarrow> bool" where
  "starts_with s [] = True"
| "starts_with [] (p # ps) = False"
| "starts_with (c # cs) (p # ps) = (c = p \<and> starts_with cs ps)"

lemma starts_with_iff: "starts_with s p \<longleftrightarrow> (\<exists>t. s = p @ t)"
  by (induction s p rule: starts_with.induct) auto

definition strip_prefix :: "string \<Rightarrow> string \<Rightarrow> string option" where
  "strip_prefix s p = (if starts_with s p then Some (drop (length p) s) else None)"

lemma strip_prefix_append [simp]: "strip_prefix (p @ t) p = Some t"
  by (simp add: strip_prefix_def starts_with_iff)

lemma strip_prefix_eq_Some: "strip_prefix s p = Some t \<longleftrightarrow> s = p @ t"
  by (auto simp: strip_prefix_def starts_with_iff)

text \<open>\<^verbatim>\<open>s.split(sep)\<close>: at least one piece, a piece for every occurrence of the separator and one more.\<close>

fun split_on :: "char \<Rightarrow> string \<Rightarrow> string list" where
  "split_on d [] = [[]]"
| "split_on d (c # cs) =
     (if c = d then [] # split_on d cs
      else (case split_on d cs of [] \<Rightarrow> [[c]] | g # gs \<Rightarrow> (c # g) # gs))"

lemma split_on_not_Nil [simp]: "split_on d s \<noteq> []"
  by (induction s) (auto split: list.splits)

lemma split_on_no_sep: "d \<notin> set s \<Longrightarrow> split_on d s = [s]"
  by (induction s) auto

lemma split_on_append_sep: "d \<notin> set s \<Longrightarrow> split_on d (s @ d # t) = s # split_on d t"
  by (induction s) auto

text \<open>\<^verbatim>\<open>s.find(c)\<close> and the two halves around the match.\<close>

fun split_once :: "char \<Rightarrow> string \<Rightarrow> (string \<times> string) option" where
  "split_once d [] = None"
| "split_once d (c # cs) =
     (if c = d then Some ([], cs)
      else (case split_once d cs of None \<Rightarrow> None | Some (a, b) \<Rightarrow> Some (c # a, b)))"

lemma split_once_SomeD: "split_once d s = Some (a, b) \<Longrightarrow> s = a @ d # b \<and> d \<notin> set a"
  by (induction s arbitrary: a) (auto split: if_splits option.splits)

lemma split_once_append: "d \<notin> set a \<Longrightarrow> split_once d (a @ d # b) = Some (a, b)"
  by (induction a) auto

lemma split_once_eq_Some: "split_once d s = Some (a, b) \<longleftrightarrow> s = a @ d # b \<and> d \<notin> set a"
  using split_once_SomeD [of d s a b] split_once_append [of d a b] by blast

lemma split_once_eq_None: "split_once d s = None \<longleftrightarrow> d \<notin> set s"
  by (induction s) (auto split: option.splits)

lemma split_once_length: "split_once d s = Some (a, b) \<Longrightarrow> length b < length s"
  by (auto simp: split_once_eq_Some)

text \<open>Code equations that evaluate in the kernel without unary numbers.\<close>

definition byte_int :: "char \<Rightarrow> int" where
  "byte_int c = of_char c"

lemma byte_int: "int (byte_of c) = byte_int c"
  by (cases c) (simp add: byte_int_def byte_of_def)

lemma byte_le_code: "numeral a \<le> byte_of c \<longleftrightarrow> numeral a \<le> byte_int c"
  by (metis byte_int of_nat_le_iff of_nat_numeral)

lemma byte_ge_code: "byte_of c \<le> numeral a \<longleftrightarrow> byte_int c \<le> numeral a"
  by (metis byte_int of_nat_le_iff of_nat_numeral)

lemma byte_less_code: "byte_of c < numeral a \<longleftrightarrow> byte_int c < numeral a"
  by (metis byte_int of_nat_less_iff of_nat_numeral)

lemmas byte_code = byte_le_code byte_ge_code byte_less_code
lemmas is_cont_byte_code [code] = is_cont_byte_def [unfolded byte_code]
lemmas is_ascii_digit_code [code] = is_ascii_digit_def [unfolded byte_code]
lemmas is_ascii_upper_code [code] = is_ascii_upper_def [unfolded byte_code]
lemmas is_ascii_lower_code [code] = is_ascii_lower_def [unfolded byte_code]

lemma map_byte_of_eq_iff: "map byte_of g = map byte_of h \<longleftrightarrow> g = h"
  by (rule inj_map_eq_map) (auto simp: inj_def byte_of_def)

definition whitespace_cps :: "string list" where
  "whitespace_cps = [[CHR 0x09], [CHR 0x0A], [CHR 0x0B], [CHR 0x0C], [CHR 0x0D], [CHR 0x20], [CHR 0xC2, CHR 0x85], [CHR 0xC2, CHR 0xA0],
     [CHR 0xE1, CHR 0x9A, CHR 0x80]] @ map (\<lambda>c. [CHR 0xE2, CHR 0x80, c])
       [CHR 0x80, CHR 0x81, CHR 0x82, CHR 0x83, CHR 0x84, CHR 0x85, CHR 0x86, CHR 0x87, CHR 0x88, CHR 0x89, CHR 0x8A, CHR 0xA8, CHR 0xA9, CHR 0xAF]
     @ [[CHR 0xE2, CHR 0x81, CHR 0x9F], [CHR 0xE3, CHR 0x80, CHR 0x80]]"

lemma is_whitespace_cp_code [code]: "is_whitespace_cp g \<longleftrightarrow> g \<in> set whitespace_cps"
proof -
  have "is_whitespace_cp g \<longleftrightarrow> map byte_of g \<in> set (map (map byte_of) whitespace_cps)"
    unfolding is_whitespace_cp_def whitespace_cps_def by (simp add: byte_of_def)
  also have "\<dots> \<longleftrightarrow> g \<in> set whitespace_cps" by (auto simp: map_byte_of_eq_iff)
  finally show ?thesis .
qed

subsection \<open>Integers as text\<close>

definition digit_char :: "nat \<Rightarrow> char" where
  "digit_char d = char_of (48 + d)"

fun nat_to_string :: "nat \<Rightarrow> string" where
  "nat_to_string n =
     (if n < 10 then [digit_char n] else nat_to_string (n div 10) @ [digit_char (n mod 10)])"

declare nat_to_string.simps [simp del]

definition int_to_string :: "int \<Rightarrow> string" where
  "int_to_string i = (if i < 0 then CHR ''-'' # nat_to_string (nat (- i)) else nat_to_string (nat i))"

text \<open>A decimal digit string read back; \<open>None\<close> for the empty string or a character that is no digit.\<close>

fun digits_value :: "nat \<Rightarrow> string \<Rightarrow> nat option" where
  "digits_value acc [] = Some acc"
| "digits_value acc (c # cs) =
     (if is_ascii_digit c then digits_value (10 * acc + (byte_of c - 48)) cs else None)"

definition parse_nat :: "string \<Rightarrow> nat option" where
  "parse_nat s = (if s = [] then None else digits_value 0 s)"

lemma digit_char_simps [simp]:
  assumes "d < 10"
  shows "is_ascii_digit (digit_char d)" "byte_of (digit_char d) = 48 + d"
  using assms by (auto simp: digit_char_def is_ascii_digit_def byte_of_def)

lemma digits_value_append:
  "digits_value acc (s @ t) = (case digits_value acc s of None \<Rightarrow> None | Some n \<Rightarrow> digits_value n t)"
  by (induction s arbitrary: acc) auto

lemma digits_value_nat_to_string: "digits_value 0 (nat_to_string n) = Some n"
proof (induction n rule: nat_to_string.induct)
  case (1 n)
  show ?case
  proof (cases "n < 10")
    case True
    then show ?thesis by (simp add: nat_to_string.simps [of n])
  next
    case False
    with "1.IH" show ?thesis by (simp add: nat_to_string.simps [of n] digits_value_append)
  qed
qed

lemma nat_to_string_not_Nil [simp]: "nat_to_string n \<noteq> []"
  by (simp add: nat_to_string.simps [of n])

lemma parse_nat_to_string [simp]: "parse_nat (nat_to_string n) = Some n"
  by (simp add: parse_nat_def digits_value_nat_to_string)

lemma set_nat_to_string: "c \<in> set (nat_to_string n) \<Longrightarrow> is_ascii_digit c"
proof (induction n rule: nat_to_string.induct)
  case (1 n)
  then show ?case
    by (subst (asm) nat_to_string.simps) (auto split: if_splits)
qed

text \<open>The range of \<^verbatim>\<open>i64\<close>, and \<^verbatim>\<open>str::parse::<i64>\<close>: an optional sign, digits, and a range check.\<close>

definition i64_min :: int where "i64_min = - (2 ^ 63)"
definition i64_max :: int where "i64_max = 2 ^ 63 - 1"

definition in_i64 :: "int \<Rightarrow> bool" where
  "in_i64 i \<longleftrightarrow> i64_min \<le> i \<and> i \<le> i64_max"

definition check_i64 :: "int \<Rightarrow> int option" where
  "check_i64 i = (if in_i64 i then Some i else None)"

definition parse_i64 :: "string \<Rightarrow> int option" where
  "parse_i64 s =
     (case s of
        CHR ''-'' # t \<Rightarrow> (case parse_nat t of None \<Rightarrow> None | Some n \<Rightarrow> check_i64 (- int n))
      | CHR ''+'' # t \<Rightarrow> (case parse_nat t of None \<Rightarrow> None | Some n \<Rightarrow> check_i64 (int n))
      | _ \<Rightarrow> (case parse_nat s of None \<Rightarrow> None | Some n \<Rightarrow> check_i64 (int n)))"

subsection \<open>Ordered maps\<close>

text \<open>
  A \<^verbatim>\<open>BTreeMap<String, V>\<close> (also the object of a JSON value) is the list of its entries in key order,
  which is the order the sources see when they iterate over it.
\<close>

fun btree_insert :: "string \<Rightarrow> 'v \<Rightarrow> (string \<times> 'v) list \<Rightarrow> (string \<times> 'v) list" where
  "btree_insert k v [] = [(k, v)]"
| "btree_insert k v ((k', v') # m) =
     (if k < k' then (k, v) # (k', v') # m
      else if k = k' then (k, v) # m
      else (k', v') # btree_insert k v m)"

definition norm_btree :: "(string \<times> 'v) list \<Rightarrow> bool" where
  "norm_btree m \<longleftrightarrow> sorted_wrt (<) (map fst m)"

lemma map_of_btree_insert: "map_of (btree_insert k v m) = (map_of m)(k \<mapsto> v)"
  by (induction m) (auto simp: fun_eq_iff)

lemma set_btree_insert: "map_of m k = None \<Longrightarrow> set (btree_insert k v m) = insert (k, v) (set m)"
  by (induction m) (auto split: if_splits)

lemma set_btree_insert_subset: "set (btree_insert k v m) \<subseteq> insert (k, v) (set m)"
  by (induction m) (auto split: if_splits)

lemma keys_btree_insert: "fst ` set (btree_insert k v m) = insert k (fst ` set m)"
proof (induction m)
  case (Cons kv m)
  then show ?case by (cases kv) (simp add: insert_commute)
qed simp

lemma norm_btree_insert: "norm_btree m \<Longrightarrow> norm_btree (btree_insert k v m)"
proof (induction m)
  case (Cons kv m)
  then show ?case by (cases kv) (auto simp: norm_btree_def keys_btree_insert dest: less_trans)
qed (simp add: norm_btree_def)

lemma norm_btree_distinct: "norm_btree m \<Longrightarrow> sorted (map fst m) \<and> distinct (map fst m)"
  by (simp add: norm_btree_def strict_sorted_iff)

lemma norm_btree_filter: "norm_btree m \<Longrightarrow> norm_btree (filter P m)"
  by (induction m) (auto simp: norm_btree_def)

end
