(* ===== verification/Float64.thy ===== *)
theory Float64
  imports Prelude
begin

text \<open>
  The part of Rust's \<^verbatim>\<open>f64\<close> the sources use: comparison, the conversion \<^verbatim>\<open>i64 as f64\<close>,
  \<^verbatim>\<open>str::parse::<f64>\<close> and \<^verbatim>\<open>to_string\<close>.  A finite value is a sign, a natural
  mantissa and a binary exponent, standing for \<open>\<plusminus> m * 2 ^ e\<close>; two representations of one
  number compare equal, as \<^verbatim>\<open>0.0 == -0.0\<close> does.  Arithmetic never happens in the
  sources, so none is defined.
\<close>

datatype f64 = F64_NaN | F64_Inf bool | F64_Fin bool nat int

fun f64_scaled :: "int \<Rightarrow> bool \<Rightarrow> nat \<Rightarrow> int \<Rightarrow> int" where
  "f64_scaled e0 neg m e = (if neg then - 1 else 1) * int m * 2 ^ nat (e - e0)"

fun f64_lt :: "f64 \<Rightarrow> f64 \<Rightarrow> bool" where
  "f64_lt F64_NaN y = False"
| "f64_lt x F64_NaN = False"
| "f64_lt (F64_Inf n) (F64_Inf n') = (n \<and> \<not> n')"
| "f64_lt (F64_Inf n) (F64_Fin s m e) = n"
| "f64_lt (F64_Fin s m e) (F64_Inf n) = (\<not> n)"
| "f64_lt (F64_Fin s m e) (F64_Fin s' m' e') =
     (let e0 = min e e' in f64_scaled e0 s m e < f64_scaled e0 s' m' e')"

fun f64_eq :: "f64 \<Rightarrow> f64 \<Rightarrow> bool" where
  "f64_eq (F64_Inf n) (F64_Inf n') = (n = n')"
| "f64_eq (F64_Fin s m e) (F64_Fin s' m' e') =
     (let e0 = min e e' in f64_scaled e0 s m e = f64_scaled e0 s' m' e')"
| "f64_eq _ _ = False"

definition f64_le :: "f64 \<Rightarrow> f64 \<Rightarrow> bool" where
  "f64_le x y \<longleftrightarrow> f64_lt x y \<or> f64_eq x y"

subsection \<open>Rounding a ratio to the nearest double, ties to even\<close>

fun bit_length :: "nat \<Rightarrow> nat" where
  "bit_length n = (if n = 0 then 0 else Suc (bit_length (n div 2)))"

declare bit_length.simps [simp del]

definition div_round_even :: "nat \<Rightarrow> nat \<Rightarrow> nat" where
  "div_round_even a b =
     (let q = a div b; r = a mod b
      in if 2 * r > b \<or> (2 * r = b \<and> odd q) then Suc q else q)"

definition scale_div :: "nat \<Rightarrow> nat \<Rightarrow> int \<Rightarrow> nat" where
  "scale_div num den e =
     (if 0 \<le> e then div_round_even num (den * 2 ^ nat e)
      else div_round_even (num * 2 ^ nat (- e)) den)"

definition f64_of_ratio :: "bool \<Rightarrow> nat \<Rightarrow> nat \<Rightarrow> f64" where
  "f64_of_ratio neg num den =
     (if num = 0 then F64_Fin neg 0 0
      else let e0 = int (bit_length num) - int (bit_length den) - 53;
               big = (if 0 \<le> e0 then den * 2 ^ nat e0 * 2 ^ 53 \<le> num
                      else den * 2 ^ 53 \<le> num * 2 ^ nat (- e0));
               e = max (if big then e0 + 1 else e0) (- 1074);
               q = scale_div num den e
           in if 971 < e \<or> (e = 971 \<and> q = 2 ^ 53) then F64_Inf neg else F64_Fin neg q e)"

definition f64_of_i64 :: "int \<Rightarrow> f64" where
  "f64_of_i64 i = (if i = 0 then F64_Fin False 0 0 else f64_of_ratio (i < 0) (nat \<bar>i\<bar>) 1)"

subsection \<open>Parsing\<close>

definition f64_of_decimal :: "bool \<Rightarrow> nat \<Rightarrow> int \<Rightarrow> f64" where
  "f64_of_decimal neg d k =
     (if 0 \<le> k then f64_of_ratio neg (d * 10 ^ nat k) 1 else f64_of_ratio neg d (10 ^ nat (- k)))"

fun parse_exponent :: "string \<Rightarrow> int option" where
  "parse_exponent [] = Some 0"
| "parse_exponent (c # cs) =
     (if c = CHR ''e'' then
        (case cs of
           CHR ''-'' # ds \<Rightarrow> map_option (\<lambda>n. - int n) (parse_nat ds)
         | CHR ''+'' # ds \<Rightarrow> map_option int (parse_nat ds)
         | _ \<Rightarrow> map_option int (parse_nat cs))
      else None)"

definition parse_f64_number :: "bool \<Rightarrow> string \<Rightarrow> f64 option" where
  "parse_f64_number neg s =
     (let ip = takeWhile is_ascii_digit s;
          r1 = dropWhile is_ascii_digit s;
          r2 = (case r1 of CHR ''.'' # t \<Rightarrow> t | _ \<Rightarrow> []);
          dotted = (case r1 of CHR ''.'' # t \<Rightarrow> True | _ \<Rightarrow> False);
          fp = (if dotted then takeWhile is_ascii_digit r2 else []);
          r3 = (if dotted then dropWhile is_ascii_digit r2 else r1)
      in case (parse_nat (ip @ fp), parse_exponent r3) of
           (Some d, Some x) \<Rightarrow> Some (f64_of_decimal neg d (x - int (length fp)))
         | _ \<Rightarrow> None)"

definition parse_f64_unsigned :: "bool \<Rightarrow> string \<Rightarrow> f64 option" where
  "parse_f64_unsigned neg s =
     (let l = to_ascii_lowercase s
      in if l = ''nan'' then Some F64_NaN
         else if l = ''inf'' \<or> l = ''infinity'' then Some (F64_Inf neg)
         else parse_f64_number neg l)"

definition parse_f64 :: "string \<Rightarrow> f64 option" where
  "parse_f64 s =
     (case s of
        CHR ''-'' # t \<Rightarrow> parse_f64_unsigned True t
      | CHR ''+'' # t \<Rightarrow> parse_f64_unsigned False t
      | _ \<Rightarrow> parse_f64_unsigned False s)"

subsection \<open>Printing: the shortest decimal that reads back\<close>

text \<open>
  \<open>dec_point num den\<close> is the \<open>k\<close> with \<open>10 ^ (k - 1) \<le> num / den < 10 ^ k\<close>; the search below
  one is bounded by 330 places, more than the 324 of the smallest positive double.
\<close>

fun leading_zeros :: "nat \<Rightarrow> nat \<Rightarrow> nat \<Rightarrow> nat" where
  "leading_zeros 0 num den = 0"
| "leading_zeros (Suc n) num den = (if den \<le> num then 0 else Suc (leading_zeros n (10 * num) den))"

definition dec_point :: "nat \<Rightarrow> nat \<Rightarrow> int" where
  "dec_point num den =
     (if den \<le> num then int (length (nat_to_string (num div den)))
      else 1 - int (leading_zeros 330 num den))"

fun shortest_digits :: "nat \<Rightarrow> nat \<Rightarrow> f64 \<Rightarrow> nat \<Rightarrow> nat \<Rightarrow> int \<Rightarrow> nat \<times> int" where
  "shortest_digits 0 n x num den k = (0, 0)"
| "shortest_digits (Suc fuel) n x num den k =
     (let s = k - int n;
          a = (if 0 \<le> s then num else num * 10 ^ nat (- s));
          b = (if 0 \<le> s then den * 10 ^ nat s else den);
          lo = a div b; r = a mod b;
          down = f64_eq (f64_of_decimal False lo s) x;
          up = f64_eq (f64_of_decimal False (Suc lo) s) x
      in if r = 0 then (lo, s)
         else if up \<and> (\<not> down \<or> b \<le> 2 * r) then (Suc lo, s)
         else if down then (lo, s)
         else shortest_digits fuel (Suc n) x num den k)"

definition place_digits :: "string \<Rightarrow> int \<Rightarrow> string" where
  "place_digits ds s =
     (let k = int (length ds) + s
      in if 0 \<le> s then ds @ replicate (nat s) (CHR ''0'')
         else if 0 < k then take (nat k) ds @ CHR ''.'' # drop (nat k) ds
         else ''0.'' @ replicate (nat (- k)) (CHR ''0'') @ ds)"

fun f64_to_string :: "f64 \<Rightarrow> string" where
  "f64_to_string F64_NaN = ''NaN''"
| "f64_to_string (F64_Inf neg) = (if neg then ''-inf'' else ''inf'')"
| "f64_to_string (F64_Fin neg m e) =
     (let num = (if 0 \<le> e then m * 2 ^ nat e else m);
          den = (if 0 \<le> e then 1 else 2 ^ nat (- e));
          body = (if m = 0 then ''0''
                  else let (d, s) = shortest_digits 20 1 (F64_Fin False m e) num den (dec_point num den)
                       in place_digits (nat_to_string d) s)
      in if neg then CHR ''-'' # body else body)"

subsection \<open>Order laws\<close>

text \<open>Finite values are totally ordered by \<open>f64_lt\<close>; a NaN is below, above and equal to nothing.\<close>

lemma f64_scaled_mono:
  assumes "e0 \<le> e1" "e1 \<le> e"
  shows "f64_scaled e0 s m e = f64_scaled e1 s m e * 2 ^ nat (e1 - e0)"
proof -
  have "nat (e - e0) = nat (e - e1) + nat (e1 - e0)"
    using assms by (simp add: nat_add_distrib [symmetric])
  then show ?thesis by (simp add: power_add)
qed

lemma f64_lt_scaled:
  assumes "e0 \<le> e" "e0 \<le> e'"
  shows "f64_lt (F64_Fin s m e) (F64_Fin s' m' e') \<longleftrightarrow> f64_scaled e0 s m e < f64_scaled e0 s' m' e'"
proof -
  let ?e = "min e e'"
  have "f64_scaled e0 s m e = f64_scaled ?e s m e * 2 ^ nat (?e - e0)"
    and "f64_scaled e0 s' m' e' = f64_scaled ?e s' m' e' * 2 ^ nat (?e - e0)"
    using assms by (intro f64_scaled_mono; simp)+
  then show ?thesis by (simp add: Let_def del: f64_scaled.simps)
qed

lemma f64_eq_scaled:
  assumes "e0 \<le> e" "e0 \<le> e'"
  shows "f64_eq (F64_Fin s m e) (F64_Fin s' m' e') \<longleftrightarrow> f64_scaled e0 s m e = f64_scaled e0 s' m' e'"
proof -
  let ?e = "min e e'"
  have "f64_scaled e0 s m e = f64_scaled ?e s m e * 2 ^ nat (?e - e0)"
    and "f64_scaled e0 s' m' e' = f64_scaled ?e s' m' e' * 2 ^ nat (?e - e0)"
    using assms by (intro f64_scaled_mono; simp)+
  then show ?thesis by (simp add: Let_def del: f64_scaled.simps)
qed

lemma f64_lt_irrefl [simp]: "\<not> f64_lt x x"
  by (cases x) auto

lemma f64_lt_asym: "f64_lt x y \<Longrightarrow> \<not> f64_lt y x"
  by (cases x; cases y) (auto simp: Let_def min.commute)

lemma f64_eq_sym: "f64_eq x y \<Longrightarrow> f64_eq y x"
  by (cases x; cases y) (auto simp: Let_def min.commute)

lemma f64_eq_not_lt: "f64_eq x y \<Longrightarrow> \<not> f64_lt x y"
  by (cases x; cases y) (auto simp: Let_def)

lemma f64_trichotomy: "x \<noteq> F64_NaN \<Longrightarrow> y \<noteq> F64_NaN \<Longrightarrow> f64_lt x y \<or> f64_eq x y \<or> f64_lt y x"
  by (cases x; cases y) (auto simp: Let_def min.commute)

end
