(* ===== verification/Json_Values.thy ===== *)
theory Json_Values
  imports Float64 "HOL-Library.AList"
begin

text \<open>
  The dynamically typed values the engine passes around (\<^verbatim>\<open>serde_json::Value\<close> for payloads,
  \<^verbatim>\<open>serde_yaml::Value\<close> for configuration fragments it does not interpret) and the dotted
  field paths of \<^verbatim>\<open>crates/ppe-apl-core/src/route.rs\<close>.

  A JSON number is an integer of \<^verbatim>\<open>-2^63 .. 2^64\<close> or a double.  An object (\<^verbatim>\<open>serde_json::Map\<close>, a
  \<^verbatim>\<open>BTreeMap\<close> without the \<^verbatim>\<open>preserve_order\<close> feature) is the list of its entries in key order
  (\<open>json_wf\<close>).
\<close>

datatype json =
    JNull
  | JBool bool
  | JInt int
  | JFloat f64
  | JStr string
  | JArr "json list"
  | JObj "(string \<times> json) list"

datatype yaml =
    YNull
  | YBool bool
  | YInt int
  | YFloat f64
  | YStr string
  | YSeq "yaml list"
  | YMap "(yaml \<times> yaml) list"
  | YTagged string yaml

fun is_object :: "json \<Rightarrow> bool" where
  "is_object (JObj m) = True"
| "is_object _ = False"

fun is_string :: "json \<Rightarrow> bool" where
  "is_string (JStr s) = True"
| "is_string _ = False"

fun is_boolean :: "json \<Rightarrow> bool" where
  "is_boolean (JBool b) = True"
| "is_boolean _ = False"

fun is_i64 :: "json \<Rightarrow> bool" where
  "is_i64 (JInt i) = in_i64 i"
| "is_i64 _ = False"

fun is_f64 :: "json \<Rightarrow> bool" where
  "is_f64 (JFloat x) = True"
| "is_f64 _ = False"

fun as_str :: "json \<Rightarrow> string option" where
  "as_str (JStr s) = Some s"
| "as_str _ = None"

fun as_i64 :: "json \<Rightarrow> int option" where
  "as_i64 (JInt i) = check_i64 i"
| "as_i64 _ = None"

fun json_get :: "json \<Rightarrow> string \<Rightarrow> json option" where
  "json_get (JObj m) k = map_of m k"
| "json_get _ k = None"

fun json_wf :: "json \<Rightarrow> bool" where
  "json_wf (JInt i) = (i64_min \<le> i \<and> i < 2 ^ 64)"
| "json_wf (JArr vs) = (\<forall>v \<in> set vs. json_wf v)"
| "json_wf (JObj m) = (norm_btree m \<and> (\<forall>p \<in> set m. json_wf (snd p)))"
| "json_wf _ = True"

subsection \<open>Dotted paths\<close>

fun get_path :: "json \<Rightarrow> string list \<Rightarrow> json option" where
  "get_path cur [] = Some cur"
| "get_path cur (seg # segs) =
     (case json_get cur seg of None \<Rightarrow> None | Some nxt \<Rightarrow> get_path nxt segs)"

definition get_dotted :: "json \<Rightarrow> string \<Rightarrow> json option" where
  "get_dotted root path = get_path root (split_on (CHR ''.'') path)"

text \<open>
  The writers walk the parents, each of which has to be present and an object, and then change
  the leaf of the last one.  They return the root and whether anything was written.
\<close>

fun set_path :: "json \<Rightarrow> string list \<Rightarrow> json \<Rightarrow> json \<times> bool" where
  "set_path cur [] v = (cur, False)"
| "set_path cur [leaf] v =
     (case cur of JObj m \<Rightarrow> (JObj (btree_insert leaf v m), True) | _ \<Rightarrow> (cur, False))"
| "set_path cur (seg # seg' # segs) v =
     (case cur of
        JObj m \<Rightarrow>
          (case map_of m seg of
             None \<Rightarrow> (cur, False)
           | Some nxt \<Rightarrow>
               if is_object nxt
               then (case set_path nxt (seg' # segs) v of
                       (nxt', True) \<Rightarrow> (JObj (btree_insert seg nxt' m), True)
                     | (_, False) \<Rightarrow> (cur, False))
               else (cur, False))
      | _ \<Rightarrow> (cur, False))"

definition set_dotted :: "json \<Rightarrow> string \<Rightarrow> json \<Rightarrow> json \<times> bool" where
  "set_dotted root path v = set_path root (split_on (CHR ''.'') path) v"

fun remove_path :: "json \<Rightarrow> string list \<Rightarrow> json \<times> bool" where
  "remove_path cur [] = (cur, False)"
| "remove_path cur [leaf] =
     (case cur of
        JObj m \<Rightarrow> (case map_of m leaf of
                      None \<Rightarrow> (cur, False)
                    | Some _ \<Rightarrow> (JObj (AList.delete leaf m), True))
      | _ \<Rightarrow> (cur, False))"
| "remove_path cur (seg # seg' # segs) =
     (case cur of
        JObj m \<Rightarrow>
          (case map_of m seg of
             None \<Rightarrow> (cur, False)
           | Some nxt \<Rightarrow>
               if is_object nxt
               then (case remove_path nxt (seg' # segs) of
                       (nxt', True) \<Rightarrow> (JObj (btree_insert seg nxt' m), True)
                     | (_, False) \<Rightarrow> (cur, False))
               else (cur, False))
      | _ \<Rightarrow> (cur, False))"

definition remove_dotted :: "json \<Rightarrow> string \<Rightarrow> json \<times> bool" where
  "remove_dotted root path = remove_path root (split_on (CHR ''.'') path)"

subsection \<open>Laws of the path operations\<close>

lemma get_path_append:
  "get_path v (xs @ ys) = (case get_path v xs of None \<Rightarrow> None | Some w \<Rightarrow> get_path w ys)"
  by (induction v xs rule: get_path.induct) (auto split: option.split)

lemma json_get_not_object: "\<not> is_object v \<Longrightarrow> json_get v k = None"
  by (cases v) auto

lemma get_path_not_object: "\<not> is_object v \<Longrightarrow> xs \<noteq> [] \<Longrightarrow> get_path v xs = None"
  by (cases xs) (auto simp: json_get_not_object)

lemma set_path_fail: "set_path v xs w = (v', False) \<Longrightarrow> v' = v"
  by (induction v xs w arbitrary: v' rule: set_path.induct)
    (auto split: json.splits option.splits if_splits prod.splits bool.splits)

lemma remove_path_fail: "remove_path v xs = (v', False) \<Longrightarrow> v' = v"
  by (induction v xs arbitrary: v' rule: remove_path.induct)
    (auto split: json.splits option.splits if_splits prod.splits bool.splits)

text \<open>One step of a successful write, for inductions along the path.\<close>

lemma set_path_step:
  "set_path v (x # s # t) w = (v', True) \<longleftrightarrow>
     (\<exists>m nxt nxt'. v = JObj m \<and> map_of m x = Some nxt \<and> is_object nxt
        \<and> set_path nxt (s # t) w = (nxt', True) \<and> v' = JObj (btree_insert x nxt' m))"
  by (cases v) (auto split: option.splits prod.splits bool.splits)

lemma remove_path_step:
  "remove_path v (x # s # t) = (v', True) \<longleftrightarrow>
     (\<exists>m nxt nxt'. v = JObj m \<and> map_of m x = Some nxt \<and> is_object nxt
        \<and> remove_path nxt (s # t) = (nxt', True) \<and> v' = JObj (btree_insert x nxt' m))"
  by (cases v) (auto split: option.splits prod.splits bool.splits)

lemma get_path_set_path: "set_path v xs w = (v', True) \<Longrightarrow> get_path v' xs = Some w"
proof (induction xs arbitrary: v v')
  case (Cons x xs)
  show ?case
  proof (cases xs)
    case Nil
    with Cons.prems show ?thesis by (auto simp: map_of_btree_insert split: json.splits)
  next
    case (Cons s t)
    with Cons.prems Cons.IH show ?thesis
      by (force simp: set_path_step map_of_btree_insert simp del: set_path.simps get_path.simps(2)
          intro: get_path.simps(2) [THEN trans])
  qed
qed simp

lemma get_path_remove_path: "remove_path v xs = (v', True) \<Longrightarrow> get_path v' xs = None"
proof (induction xs arbitrary: v v')
  case (Cons x xs)
  show ?case
  proof (cases xs)
    case Nil
    with Cons.prems show ?thesis by (auto simp: delete_conv split: json.splits option.splits)
  next
    case (Cons s t)
    with Cons.prems Cons.IH show ?thesis
      by (force simp: remove_path_step map_of_btree_insert simp del: remove_path.simps get_path.simps(2)
          intro: get_path.simps(2) [THEN trans])
  qed
qed simp

lemma set_path_ok_iff:
  "xs \<noteq> [] \<Longrightarrow> snd (set_path v xs w) \<longleftrightarrow>
     (case get_path v (butlast xs) of None \<Rightarrow> False | Some p \<Rightarrow> is_object p)"
proof (induction v xs w rule: set_path.induct)
  case (3 cur seg seg' segs v)
  show ?case
  proof (cases cur)
    case (JObj m)
    show ?thesis
    proof (cases "map_of m seg")
      case None
      then show ?thesis using JObj by simp
    next
      case (Some nxt)
      show ?thesis
      proof (cases "is_object nxt")
        case True
        have "snd (set_path nxt (seg' # segs) v) \<longleftrightarrow>
            (case get_path nxt (butlast (seg' # segs)) of None \<Rightarrow> False | Some p \<Rightarrow> is_object p)"
          using "3.IH" [OF JObj Some True] by simp
        then show ?thesis using JObj Some True
          by (auto split: prod.split bool.split)
      next
        case False
        then show ?thesis using JObj Some
          by (cases segs) (auto simp: json_get_not_object get_path_not_object)
      qed
    qed
  qed (use json_get_not_object in auto)
qed (auto split: json.split)

lemma set_path_ok_of_get: "xs \<noteq> [] \<Longrightarrow> get_path v xs = Some u \<Longrightarrow> snd (set_path v xs w)"
proof -
  assume xs: "xs \<noteq> []" and got: "get_path v xs = Some u"
  from xs have split: "xs = butlast xs @ [last xs]" by simp
  from got have "get_path v (butlast xs @ [last xs]) = Some u" by (simp add: split [symmetric])
  then obtain p where p: "get_path v (butlast xs) = Some p" "json_get p (last xs) = Some u"
    by (auto simp: get_path_append split: option.splits)
  then have "is_object p" using json_get_not_object by force
  with p xs show ?thesis by (simp add: set_path_ok_iff)
qed

lemma remove_path_ok_iff: "xs \<noteq> [] \<Longrightarrow> snd (remove_path v xs) \<longleftrightarrow> get_path v xs \<noteq> None"
proof (induction v xs rule: remove_path.induct)
  case (3 cur seg seg' segs)
  show ?case
  proof (cases cur)
    case (JObj m)
    show ?thesis
    proof (cases "map_of m seg")
      case None
      then show ?thesis using JObj by simp
    next
      case (Some nxt)
      show ?thesis
      proof (cases "is_object nxt")
        case True
        have "snd (remove_path nxt (seg' # segs)) \<longleftrightarrow> get_path nxt (seg' # segs) \<noteq> None"
          using "3.IH" [OF JObj Some True] by simp
        then show ?thesis using JObj Some True by (auto split: prod.split bool.split)
      next
        case False
        then show ?thesis using JObj Some by (simp add: json_get_not_object)
      qed
    qed
  qed auto
qed (auto split: json.split option.split)

text \<open>Paths that part at some segment do not see each other's writes.\<close>

lemma get_path_set_other:
  assumes "set_path v (xs @ y # ys) w = (v', ok)" and "y \<noteq> z"
  shows "get_path v' (xs @ z # zs) = get_path v (xs @ z # zs)"
  using assms
proof (induction xs arbitrary: v v' ok)
  case Nil
  then show ?case
    by (cases ys) (auto simp: map_of_btree_insert split: json.splits option.splits if_splits prod.splits bool.splits)
next
  case (Cons x xs)
  obtain s t where st: "xs @ y # ys = s # t" by (cases "xs @ y # ys") auto
  show ?case
  proof (cases ok)
    case False
    with Cons.prems set_path_fail show ?thesis by metis
  next
    case True
    with Cons.prems(1) st obtain m nxt nxt' where
      "v = JObj m" "map_of m x = Some nxt" "set_path nxt (xs @ y # ys) w = (nxt', True)"
      "v' = JObj (btree_insert x nxt' m)"
      by (auto split: json.splits option.splits if_splits prod.splits bool.splits)
    with Cons.IH [OF _ Cons.prems(2)] show ?thesis by (simp add: map_of_btree_insert)
  qed
qed

lemma get_path_remove_other:
  assumes "remove_path v (xs @ y # ys) = (v', ok)" and "y \<noteq> z"
  shows "get_path v' (xs @ z # zs) = get_path v (xs @ z # zs)"
  using assms
proof (induction xs arbitrary: v v' ok)
  case Nil
  then show ?case
    by (cases ys)
      (auto simp: map_of_btree_insert delete_conv' split: json.splits option.splits if_splits prod.splits bool.splits)
next
  case (Cons x xs)
  obtain s t where st: "xs @ y # ys = s # t" by (cases "xs @ y # ys") auto
  show ?case
  proof (cases ok)
    case False
    with Cons.prems remove_path_fail show ?thesis by metis
  next
    case True
    with Cons.prems(1) st obtain m nxt nxt' where
      "v = JObj m" "map_of m x = Some nxt" "remove_path nxt (xs @ y # ys) = (nxt', True)"
      "v' = JObj (btree_insert x nxt' m)"
      by (auto split: json.splits option.splits if_splits prod.splits bool.splits)
    with Cons.IH [OF _ Cons.prems(2)] show ?thesis by (simp add: map_of_btree_insert)
  qed
qed

text \<open>Writes keep objects well formed.\<close>

lemma json_wf_map_of: "json_wf (JObj m) \<Longrightarrow> map_of m k = Some v \<Longrightarrow> json_wf v"
  by (auto dest!: map_of_SomeD)

lemma json_wf_update: "json_wf (JObj m) \<Longrightarrow> json_wf v \<Longrightarrow> json_wf (JObj (btree_insert k v m))"
  using set_btree_insert_subset [of k v m] by (auto simp: norm_btree_insert)

lemma json_wf_delete: "json_wf (JObj m) \<Longrightarrow> json_wf (JObj (AList.delete k m))"
  by (auto simp: AList.delete_eq norm_btree_filter)

lemma json_wf_set_path: "json_wf v \<Longrightarrow> json_wf w \<Longrightarrow> set_path v xs w = (v', True) \<Longrightarrow> json_wf v'"
proof (induction xs arbitrary: v v')
  case (Cons x xs)
  show ?case
  proof (cases xs)
    case Nil
    with Cons.prems json_wf_update show ?thesis by (auto simp del: json_wf.simps split: json.splits)
  next
    case (Cons s t)
    with Cons.prems Cons.IH json_wf_map_of json_wf_update show ?thesis
      by (metis set_path_step)
  qed
qed simp

lemma json_wf_remove_path: "json_wf v \<Longrightarrow> remove_path v xs = (v', True) \<Longrightarrow> json_wf v'"
proof (induction xs arbitrary: v v')
  case (Cons x xs)
  show ?case
  proof (cases xs)
    case Nil
    with Cons.prems json_wf_delete show ?thesis
      by (auto simp del: json_wf.simps split: json.splits option.splits)
  next
    case (Cons s t)
    with Cons.prems Cons.IH json_wf_map_of json_wf_update show ?thesis
      by (metis remove_path_step)
  qed
qed simp

subsection \<open>Reading YAML\<close>

text \<open>The accessors of \<^verbatim>\<open>serde_yaml::Value\<close> look through tags.\<close>

fun untag :: "yaml \<Rightarrow> yaml" where
  "untag (YTagged t v) = untag v"
| "untag v = v"

fun yaml_entry :: "(yaml \<times> yaml) list \<Rightarrow> string \<Rightarrow> yaml option" where
  "yaml_entry [] key = None"
| "yaml_entry ((k, v) # m) key = (if k = YStr key then Some v else yaml_entry m key)"

definition yaml_get :: "yaml \<Rightarrow> string \<Rightarrow> yaml option" where
  "yaml_get v key = (case untag v of YMap m \<Rightarrow> yaml_entry m key | _ \<Rightarrow> None)"

definition as_mapping :: "yaml \<Rightarrow> (yaml \<times> yaml) list option" where
  "as_mapping v = (case untag v of YMap m \<Rightarrow> Some m | _ \<Rightarrow> None)"

definition as_sequence :: "yaml \<Rightarrow> yaml list option" where
  "as_sequence v = (case untag v of YSeq xs \<Rightarrow> Some xs | _ \<Rightarrow> None)"

definition yaml_as_str :: "yaml \<Rightarrow> string option" where
  "yaml_as_str v = (case untag v of YStr s \<Rightarrow> Some s | _ \<Rightarrow> None)"

definition yaml_as_bool :: "yaml \<Rightarrow> bool option" where
  "yaml_as_bool v = (case untag v of YBool b \<Rightarrow> Some b | _ \<Rightarrow> None)"

lemma size_untag: "size (untag v) \<le> size v"
  by (induction v rule: untag.induct) auto

lemma size_map_entry: "(k, v) \<in> set m \<Longrightarrow> size v < size (YMap m)"
  by (induction m) auto

lemma size_sequence: "as_sequence v = Some xs \<Longrightarrow> x \<in> set xs \<Longrightarrow> size x < size v"
proof -
  assume "as_sequence v = Some xs" "x \<in> set xs"
  then have "untag v = YSeq xs" by (auto simp: as_sequence_def split: yaml.splits)
  moreover have "size x < size (YSeq xs)" using \<open>x \<in> set xs\<close> by (induction xs) auto
  ultimately show ?thesis using size_untag [of v] by simp
qed

lemma size_mapping: "as_mapping v = Some m \<Longrightarrow> size (YMap m) \<le> size v"
  using size_untag [of v] by (auto simp: as_mapping_def split: yaml.splits)

lemma yaml_entry_mem: "yaml_entry m key = Some v \<Longrightarrow> (YStr key, v) \<in> set m"
  by (induction m key rule: yaml_entry.induct) (auto split: if_splits)

end
