(* ===== verification/Attributes.thy ===== *)
theory Attributes
  imports Json_Values
begin

text \<open>
  \<^verbatim>\<open>crates/ppe-apl-core/src/attributes.rs\<close>: the flat, typed namespace predicates are evaluated
  against, its typed readers, and the expansion of \<^verbatim>\<open>[inner]\<close> interpolation groups in an
  attribute path.  The bag's hash map is a partial function; a \<^verbatim>\<open>HashSet<String>\<close> is a
  finite set.
\<close>

datatype attribute_value =
    ABool bool
  | AInt int
  | AFloat f64
  | AString string
  | AStringSet "string fset"

type_synonym attribute_bag = "string \<rightharpoonup> attribute_value"

definition bag_new :: attribute_bag where
  "bag_new = Map.empty"

definition bag_set :: "attribute_bag \<Rightarrow> string \<Rightarrow> attribute_value \<Rightarrow> attribute_bag" where
  "bag_set bag key v = bag(key \<mapsto> v)"

definition bag_get :: "attribute_bag \<Rightarrow> string \<Rightarrow> attribute_value option" where
  "bag_get bag key = bag key"

definition bag_contains :: "attribute_bag \<Rightarrow> string \<Rightarrow> bool" where
  "bag_contains bag key \<longleftrightarrow> bag key \<noteq> None"

definition get_bool :: "attribute_bag \<Rightarrow> string \<Rightarrow> bool option" where
  "get_bool bag key = (case bag_get bag key of Some (ABool v) \<Rightarrow> Some v | _ \<Rightarrow> None)"

definition get_int :: "attribute_bag \<Rightarrow> string \<Rightarrow> int option" where
  "get_int bag key = (case bag_get bag key of Some (AInt v) \<Rightarrow> Some v | _ \<Rightarrow> None)"

definition get_float :: "attribute_bag \<Rightarrow> string \<Rightarrow> f64 option" where
  "get_float bag key =
     (case bag_get bag key of
        Some (AFloat v) \<Rightarrow> Some v
      | Some (AInt v) \<Rightarrow> Some (f64_of_i64 v)
      | _ \<Rightarrow> None)"

definition get_string :: "attribute_bag \<Rightarrow> string \<Rightarrow> string option" where
  "get_string bag key = (case bag_get bag key of Some (AString v) \<Rightarrow> Some v | _ \<Rightarrow> None)"

definition get_string_set :: "attribute_bag \<Rightarrow> string \<Rightarrow> string fset option" where
  "get_string_set bag key = (case bag_get bag key of Some (AStringSet v) \<Rightarrow> Some v | _ \<Rightarrow> None)"

definition set_contains :: "attribute_bag \<Rightarrow> string \<Rightarrow> string \<Rightarrow> bool" where
  "set_contains bag key v = (case get_string_set bag key of Some s \<Rightarrow> v |\<in>| s | None \<Rightarrow> False)"

lemmas bag_defs = bag_new_def bag_set_def bag_get_def bag_contains_def get_bool_def get_int_def
  get_float_def get_string_def get_string_set_def set_contains_def

subsection \<open>Interpolated keys\<close>

definition bool_to_string :: "bool \<Rightarrow> string" where
  "bool_to_string b = (if b then ''true'' else ''false'')"

definition scalar_as_string :: "attribute_bag \<Rightarrow> string \<Rightarrow> string option" where
  "scalar_as_string bag key =
     (case bag_get bag key of
        None \<Rightarrow> None
      | Some (AString s) \<Rightarrow> Some s
      | Some (AInt i) \<Rightarrow> Some (int_to_string i)
      | Some (ABool b) \<Rightarrow> Some (bool_to_string b)
      | Some (AFloat f) \<Rightarrow> Some (f64_to_string f)
      | Some (AStringSet _) \<Rightarrow> None)"

function resolve_rest :: "attribute_bag \<Rightarrow> string \<Rightarrow> string \<Rightarrow> string option" where
  "resolve_rest bag out rest =
     (case split_once (CHR ''['') rest of
        None \<Rightarrow> Some (out @ rest)
      | Some (before, after) \<Rightarrow>
          (case split_once (CHR '']'') after of
             None \<Rightarrow> None
           | Some (inner, rest') \<Rightarrow>
               (case scalar_as_string bag (trim inner) of
                  None \<Rightarrow> None
                | Some v \<Rightarrow> resolve_rest bag (out @ before @ CHR ''.'' # v) rest')))"
  by pat_completeness auto
termination
  by (relation "measure (\<lambda>(_, _, rest). length rest)") (auto simp: split_once_eq_Some)

declare resolve_rest.simps [simp del]

definition resolve_key :: "attribute_bag \<Rightarrow> string \<Rightarrow> string option" where
  "resolve_key bag key =
     (if CHR ''['' \<notin> set key then Some key else resolve_rest bag [] key)"

subsection \<open>Properties\<close>

lemma resolve_key_plain [simp]: "CHR ''['' \<notin> set key \<Longrightarrow> resolve_key bag key = Some key"
  by (simp add: resolve_key_def)

lemma resolve_rest_plain: "CHR ''['' \<notin> set rest \<Longrightarrow> resolve_rest bag out rest = Some (out @ rest)"
  by (simp add: resolve_rest.simps [of bag out rest] split_once_eq_None [THEN iffD2])

lemma resolve_rest_group:
  assumes "CHR ''['' \<notin> set before" "CHR '']'' \<notin> set inner"
  shows "resolve_rest bag out (before @ CHR ''['' # inner @ CHR '']'' # rest) =
     (case scalar_as_string bag (trim inner) of
        None \<Rightarrow> None
      | Some v \<Rightarrow> resolve_rest bag (out @ before @ CHR ''.'' # v) rest)"
  using assms
  by (subst resolve_rest.simps) (simp add: split_once_append)

text \<open>One round of the loop: the key is used up, a group does not resolve, or a group is replaced.\<close>

lemma resolve_rest_cases:
  obtains (plain) "\<And>out. resolve_rest bag out rest = Some (out @ rest)"
  | (stuck) "\<And>out. resolve_rest bag out rest = None"
  | (expand) seg rest' where "length rest' < length rest"
      "\<And>out. resolve_rest bag out rest = resolve_rest bag (out @ seg) rest'"
proof (cases "split_once (CHR ''['') rest")
  case None
  then show ?thesis using plain by (simp add: resolve_rest.simps [of bag _ rest])
next
  case (Some p)
  then obtain before after where open_at: "split_once (CHR ''['') rest = Some (before, after)"
    by (cases p) auto
  show ?thesis
  proof (cases "split_once (CHR '']'') after")
    case None
    then show ?thesis using stuck open_at by (simp add: resolve_rest.simps [of bag _ rest])
  next
    case (Some q)
    then obtain inner rest' where close_at: "split_once (CHR '']'') after = Some (inner, rest')"
      by (cases q) auto
    with open_at have "length rest' < length rest" by (auto simp: split_once_eq_Some)
    then show ?thesis using stuck expand [of rest' "before @ CHR ''.'' # the (scalar_as_string bag (trim inner))"]
        open_at close_at
      by (cases "scalar_as_string bag (trim inner)") (simp_all add: resolve_rest.simps [of bag _ rest])
  qed
qed

lemma resolve_rest_acc:
  "resolve_rest bag out rest = map_option ((@) out) (resolve_rest bag [] rest)"
proof (induction "length rest" arbitrary: out rest rule: less_induct)
  case less
  show ?case
  proof (cases rule: resolve_rest_cases [of bag rest])
    case (expand seg rest')
    with less [OF expand(1), of "out @ seg"] less [OF expand(1), of seg] show ?thesis
      by (cases "resolve_rest bag [] rest'") simp_all
  qed simp_all
qed

text \<open>An interpolated path is the path with each group replaced by a dot and the scalar it names.\<close>

lemma resolve_key_group:
  assumes "CHR ''['' \<notin> set before" "CHR '']'' \<notin> set inner" "CHR ''['' \<notin> set rest"
  shows "resolve_key bag (before @ CHR ''['' # inner @ CHR '']'' # rest) =
     map_option (\<lambda>v. before @ CHR ''.'' # v @ rest) (scalar_as_string bag (trim inner))"
  using assms by (simp add: resolve_key_def resolve_rest_group resolve_rest_plain split: option.split)

end
