(* ===== verification/Apl_IR.thy ===== *)
theory Apl_IR
  imports Attributes
begin

unbundle bit_operations_syntax

text \<open>
  The intermediate representation of the policy language: \<^verbatim>\<open>rules.rs\<close>, \<^verbatim>\<open>pipeline.rs\<close>, the data
  of \<^verbatim>\<open>step.rs\<close>, \<^verbatim>\<open>constraint.rs\<close> and \<^verbatim>\<open>plugin_decl.rs\<close> (all under
  \<^verbatim>\<open>crates/ppe-apl-core/src\<close>), the load-time purity check on \<^verbatim>\<open>parallel:\<close> blocks, the set
  of declared phases, and the layering of policy blocks.
\<close>

subsection \<open>Predicates\<close>

datatype compare_op = CmpEq | CmpNotEq | CmpGt | CmpGtEq | CmpLt | CmpLtEq | CmpContains

datatype literal = LBool bool | LInt int | LFloat f64 | LString string

datatype condition =
    Comparison string compare_op literal
  | IsTrue string
  | IsFalse string
  | Exists string
  | InSet string string bool

datatype expression =
    Cond condition
  | And "expression list"
  | Or "expression list"
  | Not expression
  | Always

subsection \<open>Field pipelines\<close>

datatype type_check = TC_Str | TC_Int | TC_Bool | TC_Float | TC_Email | TC_Url | TC_Uuid

datatype taint_scope = Scope_Session | Scope_Message

datatype scan_kind = PiiRedact | PiiDetect | InjectionScan

datatype stage =
    Stage_Type type_check
  | Stage_Regex string
  | Stage_Validate string
  | Stage_Length "nat option" "nat option"
  | Stage_Range "int option" "int option"
  | Stage_Enum "string list"
  | Stage_Mask nat
  | Stage_Redact "expression option"
  | Stage_Omit
  | Stage_Hash
  | Stage_Taint string "taint_scope list"
  | Stage_Plugin string
  | Stage_Scan scan_kind

record pipeline =
  pl_stages :: "stage list"

record field_rule =
  fr_field :: string
  fr_pipeline :: pipeline
  fr_source :: string

record taint_event =
  te_label :: string
  te_scopes :: "taint_scope list"

subsection \<open>Backend constraints\<close>

datatype on_empty = OnEmpty_Deny | OnEmpty_Fallback

text \<open>A \<^verbatim>\<open>BTreeMap<String, String>\<close> is an association list in ascending key order.\<close>

type_synonym btree = "(string \<times> string) list"

record candidate_constraint =
  cc_allow_models :: "string list option"
  cc_deny_models :: "string list"
  cc_allow_regions :: "string list option"
  cc_allow_sites :: "string list option"
  cc_max_cost_tier :: "string option"
  cc_custom :: btree
  cc_on_empty :: on_empty

datatype string_set_spec = SetRef string | SetLiteral "string list"

record restrict_spec =
  rs_allow_models :: "string_set_spec option"
  rs_deny_models :: "string_set_spec option"
  rs_allow_regions :: "string_set_spec option"
  rs_allow_sites :: "string_set_spec option"
  rs_max_cost_tier :: "string option"
  rs_custom :: btree
  rs_on_empty :: on_empty

subsection \<open>Steps handed to the host\<close>

record delegate_step =
  ds_plugin_name :: string
  ds_config_override :: "yaml option"
  ds_on_error :: "string option"
  ds_source :: string

datatype elicit_kind = Approval | Confirm | StepUp | Attestation | Info | Review

record elicit_step =
  el_kind :: elicit_kind
  el_plugin_name :: string
  el_channel :: "string option"
  el_from :: string
  el_purpose :: "string option"
  el_scope :: "string option"
  el_timeout :: "string option"
  el_config_override :: "yaml option"
  el_on_error :: "string option"
  el_source :: string

datatype pdp_dialect = Cedar | Opa | AuthZen | NeMo | Cel | CustomDialect string

record pdp_call =
  pc_dialect :: pdp_dialect
  pc_args :: yaml

definition elicit_kind_as_str :: "elicit_kind \<Rightarrow> string" where
  "elicit_kind_as_str k =
     (case k of
        Approval \<Rightarrow> ''approval''
      | Confirm \<Rightarrow> ''confirm''
      | StepUp \<Rightarrow> ''step_up''
      | Attestation \<Rightarrow> ''attestation''
      | Info \<Rightarrow> ''info''
      | Review \<Rightarrow> ''review'')"

definition dialect_from_key :: "string \<Rightarrow> pdp_dialect" where
  "dialect_from_key key =
     (if key = ''cedar'' then Cedar
      else if key = ''opa'' then Opa
      else if key = ''authzen'' then AuthZen
      else if key = ''nemo'' then NeMo
      else if key = ''cel'' then Cel
      else CustomDialect key)"

subsection \<open>Effects\<close>

datatype effect =
    Eff_Allow
  | Eff_Deny "string option" "string option"
  | Eff_Plugin string
  | Eff_Delegate delegate_step
  | Eff_Elicit elicit_step
  | Eff_Taint string "taint_scope list"
  | Eff_Restrict restrict_spec
  | Eff_FieldOp string "stage list"
  | Eff_Sequential "effect list"
  | Eff_Parallel "effect list"
  | Eff_When expression "effect list" string
  | Eff_Pdp pdp_call "effect list" "effect list"

fun contains_mutation :: "effect \<Rightarrow> bool" where
  "contains_mutation (Eff_FieldOp _ _) = True"
| "contains_mutation (Eff_Delegate _) = True"
| "contains_mutation (Eff_Elicit _) = True"
| "contains_mutation (Eff_Sequential es) = list_ex contains_mutation es"
| "contains_mutation (Eff_Parallel es) = list_ex contains_mutation es"
| "contains_mutation (Eff_When _ body _) = list_ex contains_mutation body"
| "contains_mutation (Eff_Pdp _ on_allow on_deny) =
     (list_ex contains_mutation on_allow \<or> list_ex contains_mutation on_deny)"
| "contains_mutation _ = False"

text \<open>
  The load-time check returns the first offending effect.  \<open>purity_all\<close> is the loop over an
  ordinary list, \<open>purity_branches\<close> the loop over the branches of a \<^verbatim>\<open>parallel:\<close> block.
\<close>

fun validate_parallel_purity :: "effect \<Rightarrow> effect + unit"
  and purity_all :: "effect list \<Rightarrow> effect + unit"
  and purity_branches :: "effect list \<Rightarrow> effect + unit" where
  "validate_parallel_purity (Eff_Parallel es) = purity_branches es"
| "validate_parallel_purity (Eff_Sequential es) = purity_all es"
| "validate_parallel_purity (Eff_When _ body _) = purity_all body"
| "validate_parallel_purity (Eff_Pdp _ on_allow on_deny) =
     res_bind (purity_all on_allow) (\<lambda>_. purity_all on_deny)"
| "validate_parallel_purity _ = Inr ()"
| "purity_all [] = Inr ()"
| "purity_all (e # es) = res_bind (validate_parallel_purity e) (\<lambda>_. purity_all es)"
| "purity_branches [] = Inr ()"
| "purity_branches (e # es) =
     (if contains_mutation e then Inl e
      else res_bind (validate_parallel_purity e) (\<lambda>_. purity_branches es))"

record rule =
  ru_condition :: expression
  ru_effects :: "effect list"
  ru_source :: string

definition rule_single :: "expression \<Rightarrow> effect \<Rightarrow> string \<Rightarrow> rule" where
  "rule_single c e src = \<lparr>ru_condition = c, ru_effects = [e], ru_source = src\<rparr>"

definition effect_of_rule :: "rule \<Rightarrow> effect" where
  "effect_of_rule r = Eff_When (ru_condition r) (ru_effects r) (ru_source r)"

subsection \<open>Phases\<close>

datatype phase = Ph_Args | Ph_Policy | Ph_Result | Ph_PostPolicy

type_synonym phase_set = "8 word"

definition phase_bit :: "phase \<Rightarrow> 8 word" where
  "phase_bit p = (case p of Ph_Args \<Rightarrow> 1 | Ph_Policy \<Rightarrow> 2 | Ph_Result \<Rightarrow> 4 | Ph_PostPolicy \<Rightarrow> 8)"

definition phase_set_new :: phase_set where
  "phase_set_new = 0"

definition phase_set_insert :: "phase_set \<Rightarrow> phase \<Rightarrow> phase_set" where
  "phase_set_insert s p = s OR phase_bit p"

definition phase_set_contains :: "phase_set \<Rightarrow> phase \<Rightarrow> bool" where
  "phase_set_contains s p \<longleftrightarrow> s AND phase_bit p \<noteq> 0"

definition phase_set_is_empty :: "phase_set \<Rightarrow> bool" where
  "phase_set_is_empty s \<longleftrightarrow> s = 0"

subsection \<open>Compiled routes\<close>

record plugin_override =
  po_config :: "yaml option"
  po_capabilities :: "string list option"
  po_on_error :: "string option"

record deny_response =
  dr_status :: "16 word option"
  dr_body :: "string option"
  dr_headers :: btree

record compiled_route =
  cr_route_key :: string
  cr_args :: "field_rule list"
  cr_policy :: "effect list"
  cr_result :: "field_rule list"
  cr_post_policy :: "effect list"
  cr_plugin_overrides :: "string \<rightharpoonup> plugin_override"
  cr_response :: "deny_response option"

definition compiled_route_new :: "string \<Rightarrow> compiled_route" where
  "compiled_route_new key =
     \<lparr>cr_route_key = key, cr_args = [], cr_policy = [], cr_result = [], cr_post_policy = [],
      cr_plugin_overrides = Map.empty, cr_response = None\<rparr>"

definition declared_phases :: "compiled_route \<Rightarrow> phase_set" where
  "declared_phases r =
     (let s0 = phase_set_new;
          s1 = (if cr_args r \<noteq> [] then phase_set_insert s0 Ph_Args else s0);
          s2 = (if cr_policy r \<noteq> [] then phase_set_insert s1 Ph_Policy else s1);
          s3 = (if cr_result r \<noteq> [] then phase_set_insert s2 Ph_Result else s2)
      in if cr_post_policy r \<noteq> [] then phase_set_insert s3 Ph_PostPolicy else s3)"

definition layer_fields :: "field_rule list \<Rightarrow> field_rule list \<Rightarrow> field_rule list" where
  "layer_fields mine specific =
     filter (\<lambda>f. fr_field f \<notin> fr_field ` set specific) mine @ specific"

definition apply_layer :: "compiled_route \<Rightarrow> compiled_route \<Rightarrow> compiled_route" where
  "apply_layer self specific =
     self\<lparr>cr_policy := cr_policy self @ cr_policy specific,
          cr_post_policy := cr_post_policy self @ cr_post_policy specific,
          cr_args := layer_fields (cr_args self) (cr_args specific),
          cr_result := layer_fields (cr_result self) (cr_result specific),
          cr_plugin_overrides := cr_plugin_overrides self ++ cr_plugin_overrides specific\<rparr>"

subsection \<open>Plugin declarations and their per-route view\<close>

record plugin_declaration =
  pd_name :: string
  pd_kind :: string
  pd_hooks :: "string list"
  pd_capabilities :: "string list"
  pd_config :: "yaml option"
  pd_on_error :: "string option"
  pd_extra :: "string \<rightharpoonup> yaml"

datatype caps_view = Caps_Global "string list" | Caps_Override "string list"

fun caps_as_slice :: "caps_view \<Rightarrow> string list" where
  "caps_as_slice (Caps_Global s) = s"
| "caps_as_slice (Caps_Override s) = s"

record effective_plugin =
  ep_name :: string
  ep_kind :: string
  ep_hooks :: "string list"
  ep_capabilities :: caps_view
  ep_config :: "yaml option"
  ep_on_error :: "string option"

definition resolve_effective_plugin ::
    "string \<Rightarrow> (string \<rightharpoonup> plugin_declaration) \<Rightarrow> (string \<rightharpoonup> plugin_override) \<Rightarrow> effective_plugin option" where
  "resolve_effective_plugin name registry route_overrides =
     (case registry name of
        None \<Rightarrow> None
      | Some global \<Rightarrow>
          let ovr = route_overrides name;
              capabilities =
                (case Option.bind ovr po_capabilities of
                   Some c \<Rightarrow> Caps_Override c
                 | None \<Rightarrow> Caps_Global (pd_capabilities global));
              config = or_else (Option.bind ovr po_config) (pd_config global);
              on_error = or_else (Option.bind ovr po_on_error) (pd_on_error global)
          in Some \<lparr>ep_name = pd_name global, ep_kind = pd_kind global, ep_hooks = pd_hooks global,
                   ep_capabilities = capabilities, ep_config = config, ep_on_error = on_error\<rparr>)"

subsection \<open>Properties of the purity check\<close>

lemma purity_all_iff: "purity_all es = Inr () \<longleftrightarrow> (\<forall>e \<in> set es. validate_parallel_purity e = Inr ())"
  by (induction es) (auto simp: res_bind_eq_Inr)

lemma purity_branches_iff:
  "purity_branches es = Inr () \<longleftrightarrow>
     (\<forall>e \<in> set es. \<not> contains_mutation e \<and> validate_parallel_purity e = Inr ())"
  by (induction es) (auto simp: res_bind_eq_Inr)

lemma not_mutation_pure: "\<not> contains_mutation e \<Longrightarrow> validate_parallel_purity e = Inr ()"
  by (induction e) (auto simp: purity_all_iff purity_branches_iff list_ex_iff res_bind_eq_Inr)

text \<open>So the check amounts to: no branch of a \<^verbatim>\<open>parallel:\<close> block contains a mutation anywhere.\<close>

inductive under :: "effect \<Rightarrow> effect \<Rightarrow> bool" where
  under_self: "under e e"
| under_seq: "under e d \<Longrightarrow> d \<in> set es \<Longrightarrow> under e (Eff_Sequential es)"
| under_par: "under e d \<Longrightarrow> d \<in> set es \<Longrightarrow> under e (Eff_Parallel es)"
| under_when: "under e d \<Longrightarrow> d \<in> set body \<Longrightarrow> under e (Eff_When c body src)"
| under_allow: "under e d \<Longrightarrow> d \<in> set on_allow \<Longrightarrow> under e (Eff_Pdp call on_allow on_deny)"
| under_deny: "under e d \<Longrightarrow> d \<in> set on_deny \<Longrightarrow> under e (Eff_Pdp call on_allow on_deny)"

definition leaf_mutation :: "effect \<Rightarrow> bool" where
  "leaf_mutation e \<longleftrightarrow>
     (case e of Eff_FieldOp _ _ \<Rightarrow> True | Eff_Delegate _ \<Rightarrow> True | Eff_Elicit _ \<Rightarrow> True | _ \<Rightarrow> False)"

lemma under_contains_mutation: "under d e \<Longrightarrow> leaf_mutation d \<Longrightarrow> contains_mutation e"
  by (induction rule: under.induct) (auto simp: leaf_mutation_def list_ex_iff split: effect.splits)

lemma contains_mutation_under: "contains_mutation e \<Longrightarrow> \<exists>d. under d e \<and> leaf_mutation d"
proof (induction e)
  case (Eff_FieldOp p s)
  have "under (Eff_FieldOp p s) (Eff_FieldOp p s)" by (rule under_self)
  then show ?case by (force simp: leaf_mutation_def)
next
  case (Eff_Delegate s)
  have "under (Eff_Delegate s) (Eff_Delegate s)" by (rule under_self)
  then show ?case by (force simp: leaf_mutation_def)
next
  case (Eff_Elicit s)
  have "under (Eff_Elicit s) (Eff_Elicit s)" by (rule under_self)
  then show ?case by (force simp: leaf_mutation_def)
qed (fastforce simp: list_ex_iff intro: under.intros)+

lemma contains_mutation_iff: "contains_mutation e \<longleftrightarrow> (\<exists>d. under d e \<and> leaf_mutation d)"
  using under_contains_mutation contains_mutation_under by blast

lemma pure_under: "under d e \<Longrightarrow> validate_parallel_purity e = Inr () \<Longrightarrow> validate_parallel_purity d = Inr ()"
  by (induction rule: under.induct)
    (auto simp: purity_all_iff purity_branches_iff res_bind_eq_Inr)

lemma pure_iff_no_mutation_under_parallel:
  "validate_parallel_purity e = Inr () \<longleftrightarrow>
     (\<forall>es b. under (Eff_Parallel es) e \<longrightarrow> b \<in> set es \<longrightarrow> \<not> contains_mutation b)"
proof
  assume "validate_parallel_purity e = Inr ()"
  then show "\<forall>es b. under (Eff_Parallel es) e \<longrightarrow> b \<in> set es \<longrightarrow> \<not> contains_mutation b"
    using pure_under by (fastforce simp: purity_branches_iff)
next
  show "\<forall>es b. under (Eff_Parallel es) e \<longrightarrow> b \<in> set es \<longrightarrow> \<not> contains_mutation b \<Longrightarrow>
      validate_parallel_purity e = Inr ()"
    by (induction e)
      (auto simp: purity_all_iff purity_branches_iff res_bind_eq_Inr intro: under.intros not_mutation_pure)
qed

subsection \<open>Properties of phase sets and layering\<close>

lemma phase_bit_and: "phase_bit p AND phase_bit q = (if p = q then phase_bit p else 0)"
  by (cases p; cases q) (simp_all add: phase_bit_def)

lemma phase_bit_nonzero [simp]: "phase_bit p \<noteq> 0"
  by (cases p) (simp_all add: phase_bit_def)

lemma phase_set_contains_new [simp]: "\<not> phase_set_contains phase_set_new p"
  by (simp add: phase_set_contains_def phase_set_new_def)

lemma phase_set_contains_insert [simp]:
  "phase_set_contains (phase_set_insert s p) q \<longleftrightarrow> p = q \<or> phase_set_contains s q"
proof -
  have "(s OR phase_bit p) AND phase_bit q = (s AND phase_bit q) OR (phase_bit p AND phase_bit q)"
    by (simp add: bit.conj_disj_distrib2)
  then show ?thesis
    by (auto simp: phase_set_contains_def phase_set_insert_def phase_bit_and or_eq_0_iff)
qed

lemma fields_layer: "fr_field ` set (layer_fields a b) = fr_field ` set a \<union> fr_field ` set b"
  by (auto simp: layer_fields_def)

lemma layer_fields_assoc: "layer_fields (layer_fields a b) c = layer_fields a (layer_fields b c)"
proof -
  have "filter (\<lambda>f. fr_field f \<notin> fr_field ` set c) (filter (\<lambda>f. fr_field f \<notin> fr_field ` set b) a)
      = filter (\<lambda>f. fr_field f \<notin> fr_field ` set (layer_fields b c)) a"
    by (simp add: fields_layer conj_commute)
  then show ?thesis by (simp add: layer_fields_def)
qed

lemma layer_fields_Nil [simp]: "layer_fields a [] = a" "layer_fields [] a = a"
  by (simp_all add: layer_fields_def)

lemma distinct_layer_fields:
  "distinct (map fr_field a) \<Longrightarrow> distinct (map fr_field b) \<Longrightarrow> distinct (map fr_field (layer_fields a b))"
  by (auto simp: layer_fields_def distinct_map_filter)

lemma layer_fields_eq_Nil: "layer_fields xs ys = [] \<longleftrightarrow> xs = [] \<and> ys = []"
  by (cases ys) (auto simp: layer_fields_def)

lemma apply_layer_assoc: "apply_layer (apply_layer a b) c = apply_layer a (apply_layer b c)"
  by (simp add: apply_layer_def layer_fields_assoc)

lemma declared_phases_iff:
  "phase_set_contains (declared_phases r) p \<longleftrightarrow>
     (case p of Ph_Args \<Rightarrow> cr_args r \<noteq> [] | Ph_Policy \<Rightarrow> cr_policy r \<noteq> []
              | Ph_Result \<Rightarrow> cr_result r \<noteq> [] | Ph_PostPolicy \<Rightarrow> cr_post_policy r \<noteq> [])"
  by (cases p) (auto simp: declared_phases_def Let_def)

lemma declared_phases_layer:
  "phase_set_contains (declared_phases (apply_layer a b)) p \<longleftrightarrow>
     phase_set_contains (declared_phases a) p \<or> phase_set_contains (declared_phases b) p"
  by (cases p) (auto simp: declared_phases_iff apply_layer_def layer_fields_eq_Nil)

end
