(* ===== verification/Expressions.thy ===== *)
theory Expressions
  imports Apl_IR
begin

text \<open>
  The synchronous half of \<^verbatim>\<open>crates/ppe-apl-core/src/evaluator.rs\<close>: predicates against an attribute
  bag, and \<^verbatim>\<open>evaluate_rules\<close>, the fast path for rules that only allow or deny.  Evaluation is
  total: a missing attribute or an operand of the wrong type makes a comparison false.
\<close>

datatype decision = Dec_Allow | Dec_Deny "string option" string

fun is_deny :: "decision \<Rightarrow> bool" where
  "is_deny Dec_Allow = False"
| "is_deny (Dec_Deny _ _) = True"

datatype order_op = Ord_Gt | Ord_GtEq | Ord_Lt | Ord_LtEq

fun values_eq :: "attribute_value \<Rightarrow> literal \<Rightarrow> bool" where
  "values_eq (ABool a) (LBool b) = (a = b)"
| "values_eq (AInt a) (LInt b) = (a = b)"
| "values_eq (AFloat a) (LFloat b) = f64_eq a b"
| "values_eq (AString a) (LString b) = (a = b)"
| "values_eq (AInt a) (LFloat b) = f64_eq (f64_of_i64 a) b"
| "values_eq (AFloat a) (LInt b) = f64_eq a (f64_of_i64 b)"
| "values_eq _ _ = False"

fun coerce_f64_attr :: "attribute_value \<Rightarrow> f64 option" where
  "coerce_f64_attr (AInt a) = Some (f64_of_i64 a)"
| "coerce_f64_attr (AFloat a) = Some a"
| "coerce_f64_attr (AString s) = parse_f64 (trim s)"
| "coerce_f64_attr _ = None"

fun coerce_f64_lit :: "literal \<Rightarrow> f64 option" where
  "coerce_f64_lit (LInt b) = Some (f64_of_i64 b)"
| "coerce_f64_lit (LFloat b) = Some b"
| "coerce_f64_lit (LString s) = parse_f64 (trim s)"
| "coerce_f64_lit (LBool _) = None"

fun int_order :: "order_op \<Rightarrow> int \<Rightarrow> int \<Rightarrow> bool" where
  "int_order Ord_Gt a b = (a > b)"
| "int_order Ord_GtEq a b = (a \<ge> b)"
| "int_order Ord_Lt a b = (a < b)"
| "int_order Ord_LtEq a b = (a \<le> b)"

fun f64_order :: "order_op \<Rightarrow> f64 \<Rightarrow> f64 \<Rightarrow> bool" where
  "f64_order Ord_Gt a b = f64_lt b a"
| "f64_order Ord_GtEq a b = f64_le b a"
| "f64_order Ord_Lt a b = f64_lt a b"
| "f64_order Ord_LtEq a b = f64_le a b"

definition numeric_compare :: "attribute_value \<Rightarrow> literal \<Rightarrow> order_op \<Rightarrow> bool" where
  "numeric_compare attr lit op =
     (case (attr, lit) of
        (AInt a, LInt b) \<Rightarrow> int_order op a b
      | _ \<Rightarrow>
          (case coerce_f64_attr attr of
             None \<Rightarrow> False
           | Some a \<Rightarrow>
               (case coerce_f64_lit lit of
                  None \<Rightarrow> False
                | Some b \<Rightarrow> f64_order op a b)))"

definition eval_comparison :: "string \<Rightarrow> compare_op \<Rightarrow> literal \<Rightarrow> attribute_bag \<Rightarrow> bool" where
  "eval_comparison key op lit bag =
     (case bag_get bag key of
        None \<Rightarrow> False
      | Some attr \<Rightarrow>
          (case op of
             CmpContains \<Rightarrow>
               (case (attr, lit) of
                  (AStringSet _, LString s) \<Rightarrow> set_contains bag key s
                | _ \<Rightarrow> False)
           | CmpEq \<Rightarrow> values_eq attr lit
           | CmpNotEq \<Rightarrow> \<not> values_eq attr lit
           | CmpGt \<Rightarrow> numeric_compare attr lit Ord_Gt
           | CmpGtEq \<Rightarrow> numeric_compare attr lit Ord_GtEq
           | CmpLt \<Rightarrow> numeric_compare attr lit Ord_Lt
           | CmpLtEq \<Rightarrow> numeric_compare attr lit Ord_LtEq))"

fun eval_condition :: "condition \<Rightarrow> attribute_bag \<Rightarrow> bool" where
  "eval_condition (IsTrue key) bag =
     (case resolve_key bag key of
        None \<Rightarrow> False
      | Some k \<Rightarrow> unwrap_or (get_bool bag k) False)"
| "eval_condition (IsFalse key) bag =
     (case resolve_key bag key of
        None \<Rightarrow> True
      | Some k \<Rightarrow> \<not> unwrap_or (get_bool bag k) False)"
| "eval_condition (Exists key) bag =
     (case resolve_key bag key of
        None \<Rightarrow> False
      | Some k \<Rightarrow> bag_contains bag k)"
| "eval_condition (Comparison key op v) bag =
     (case resolve_key bag key of
        None \<Rightarrow> False
      | Some k \<Rightarrow> eval_comparison k op v bag)"
| "eval_condition (InSet value_key set_key negate) bag =
     (let in_set =
        (case (resolve_key bag value_key, resolve_key bag set_key) of
           (Some vk, Some sk) \<Rightarrow>
             (case (get_string bag vk, get_string_set bag sk) of
                (Some s, Some ss) \<Rightarrow> s |\<in>| ss
              | _ \<Rightarrow> False)
         | _ \<Rightarrow> False)
      in if negate then \<not> in_set else in_set)"

fun eval_expression :: "expression \<Rightarrow> attribute_bag \<Rightarrow> bool" where
  "eval_expression (Cond c) bag = eval_condition c bag"
| "eval_expression (And parts) bag = list_all (\<lambda>e. eval_expression e bag) parts"
| "eval_expression (Or parts) bag = list_ex (\<lambda>e. eval_expression e bag) parts"
| "eval_expression (Not inner) bag = (\<not> eval_expression inner bag)"
| "eval_expression Always bag = True"

text \<open>The inner loop of \<^verbatim>\<open>evaluate_rules\<close> over one rule's effects.\<close>

fun rule_effects_deny :: "string \<Rightarrow> effect list \<Rightarrow> decision option" where
  "rule_effects_deny src [] = None"
| "rule_effects_deny src (Eff_Deny reason code # es) = Some (Dec_Deny reason (unwrap_or code src))"
| "rule_effects_deny src (_ # es) = rule_effects_deny src es"

fun evaluate_rules :: "rule list \<Rightarrow> attribute_bag \<Rightarrow> decision" where
  "evaluate_rules [] bag = Dec_Allow"
| "evaluate_rules (r # rs) bag =
     (if \<not> eval_expression (ru_condition r) bag then evaluate_rules rs bag
      else (case rule_effects_deny (ru_source r) (ru_effects r) of
              Some d \<Rightarrow> d
            | None \<Rightarrow> evaluate_rules rs bag))"

definition looks_like_attribute_ref :: "string \<Rightarrow> bool" where
  "looks_like_attribute_ref s \<longleftrightarrow>
     CHR ''.'' \<in> set s
     \<and> (case s of [] \<Rightarrow> False | c # _ \<Rightarrow> is_ascii_alphabetic c)
     \<and> list_all (\<lambda>c. is_ascii_alphanumeric c \<or> c = CHR ''_'' \<or> c = CHR ''.'') s"

subsection \<open>Properties\<close>

lemma missing_key_conditions:
  assumes "\<And>k. resolve_key bag key = Some k \<Longrightarrow> bag k = None"
  shows "\<not> eval_condition (IsTrue key) bag" "eval_condition (IsFalse key) bag"
    "\<not> eval_condition (Exists key) bag" "\<not> eval_condition (Comparison key op v) bag"
    "\<not> eval_condition (InSet key set_key False) bag" "\<not> eval_condition (InSet value_key key False) bag"
  using assms by (auto simp: eval_comparison_def bag_defs split: option.splits)

lemma is_false_iff: "eval_condition (IsFalse key) bag \<longleftrightarrow> \<not> eval_condition (IsTrue key) bag"
  by (simp split: option.split)

lemma eval_comparison_int:
  assumes "bag key = Some (AInt a)"
  shows "eval_comparison key CmpEq (LInt b) bag \<longleftrightarrow> a = b"
    "eval_comparison key CmpNotEq (LInt b) bag \<longleftrightarrow> a \<noteq> b"
    "eval_comparison key CmpGt (LInt b) bag \<longleftrightarrow> a > b"
    "eval_comparison key CmpGtEq (LInt b) bag \<longleftrightarrow> a \<ge> b"
    "eval_comparison key CmpLt (LInt b) bag \<longleftrightarrow> a < b"
    "eval_comparison key CmpLtEq (LInt b) bag \<longleftrightarrow> a \<le> b"
    "\<not> eval_comparison key CmpContains (LInt b) bag"
  using assms by (simp_all add: eval_comparison_def numeric_compare_def bag_get_def)

text \<open>Whatever the types of the operands, an order test and its opposite are never both true.\<close>

definition is_order :: "compare_op \<Rightarrow> bool" where
  "is_order op \<longleftrightarrow> op \<in> {CmpGt, CmpGtEq, CmpLt, CmpLtEq}"

fun opposite :: "compare_op \<Rightarrow> compare_op" where
  "opposite CmpGt = CmpLtEq"
| "opposite CmpGtEq = CmpLt"
| "opposite CmpLt = CmpGtEq"
| "opposite CmpLtEq = CmpGt"
| "opposite CmpEq = CmpNotEq"
| "opposite CmpNotEq = CmpEq"
| "opposite CmpContains = CmpContains"

lemma f64_le_not_lt: "f64_le a b \<Longrightarrow> \<not> f64_lt b a"
  using f64_lt_asym f64_eq_not_lt f64_eq_sym by (auto simp: f64_le_def)

lemma f64_order_opposite:
  "f64_order Ord_Gt a b \<Longrightarrow> \<not> f64_order Ord_LtEq a b"
  "f64_order Ord_Lt a b \<Longrightarrow> \<not> f64_order Ord_GtEq a b"
  using f64_le_not_lt by auto

lemma numeric_compare_opposite:
  "numeric_compare a l Ord_Gt \<Longrightarrow> \<not> numeric_compare a l Ord_LtEq"
  "numeric_compare a l Ord_Lt \<Longrightarrow> \<not> numeric_compare a l Ord_GtEq"
  using f64_order_opposite
  by (auto simp: numeric_compare_def simp del: f64_order.simps
      split: attribute_value.splits literal.splits option.splits)

lemma eval_comparison_opposite:
  "op \<noteq> CmpContains \<Longrightarrow> eval_comparison key op l bag \<Longrightarrow> \<not> eval_comparison key (opposite op) l bag"
  using numeric_compare_opposite
  by (cases op) (auto simp: eval_comparison_def split: option.splits)

text \<open>The fast path denies exactly when a rule whose condition holds has a deny among its effects.\<close>

lemma rule_effects_deny_None: "rule_effects_deny src es = None \<longleftrightarrow> (\<forall>r c. Eff_Deny r c \<notin> set es)"
  by (induction es rule: rule_effects_deny.induct) auto

lemma rule_effects_deny_is_deny: "rule_effects_deny src es = Some d \<Longrightarrow> is_deny d"
  by (induction es rule: rule_effects_deny.induct) auto

lemma evaluate_rules_allow_iff:
  "evaluate_rules rs bag = Dec_Allow \<longleftrightarrow>
     (\<forall>r \<in> set rs. eval_expression (ru_condition r) bag \<longrightarrow> (\<forall>reason code. Eff_Deny reason code \<notin> set (ru_effects r)))"
proof (induction rs)
  case (Cons r rs)
  show ?case
  proof (cases "rule_effects_deny (ru_source r) (ru_effects r)")
    case None
    moreover from None have "\<forall>reason code. Eff_Deny reason code \<notin> set (ru_effects r)"
      by (metis rule_effects_deny_None)
    ultimately show ?thesis using Cons by auto
  next
    case (Some d)
    then have "\<not> (\<forall>reason code. Eff_Deny reason code \<notin> set (ru_effects r))"
      by (metis option.distinct(1) rule_effects_deny_None)
    moreover have "d \<noteq> Dec_Allow" using rule_effects_deny_is_deny [OF Some] by auto
    ultimately show ?thesis using Cons Some by auto
  qed
qed simp

lemma evaluate_rules_first_deny:
  assumes "\<And>r. r \<in> set pre \<Longrightarrow> eval_expression (ru_condition r) bag \<Longrightarrow> rule_effects_deny (ru_source r) (ru_effects r) = None"
    and "eval_expression (ru_condition r) bag" "rule_effects_deny (ru_source r) (ru_effects r) = Some d"
  shows "evaluate_rules (pre @ r # post) bag = d"
  using assms by (induction pre) auto

end
