(* ===== verification/Invokers.thy ===== *)
theory Invokers
  imports Expressions
begin

text \<open>
  \<^verbatim>\<open>crates/ppe-apl-core/src/step.rs\<close>: the data exchanged with the host through the four invoker
  traits, their errors with the text a deny carries, the reserved bag keys, and the invokers
  the crate itself provides.

  The host's implementations of the traits are the fields of \<open>env\<close>.  They may keep state of
  their own, so every call threads a world \<open>'w\<close>.  The third-party code a field pipeline calls
  (\<^verbatim>\<open>regex\<close>, \<^verbatim>\<open>serde_json::to_string\<close>) and the hash function of the standard library,
  whose algorithm is unspecified, are fields too, and so are the choices of the task scheduler
  for a \<^verbatim>\<open>parallel:\<close> block: how the host's state looks to a branch, which branches panic, in
  which order they are joined, and what the host's state is afterwards.
\<close>

datatype dispatch_phase = Pre | Post

datatype plugin_invocation =
    Inv_Step dispatch_phase
  | Inv_Field string json dispatch_phase

fun invocation_phase :: "plugin_invocation \<Rightarrow> dispatch_phase" where
  "invocation_phase (Inv_Step p) = p"
| "invocation_phase (Inv_Field _ _ p) = p"

record plugin_outcome =
  po_decision :: decision
  po_taints :: "taint_event list"
  po_modified_value :: "json option"

definition plugin_outcome_allow :: plugin_outcome where
  "plugin_outcome_allow = \<lparr>po_decision = Dec_Allow, po_taints = [], po_modified_value = None\<rparr>"

record pdp_decision =
  pdd_decision :: decision
  pdd_diagnostics :: "string list"

record delegation_outcome =
  do_decision :: decision
  do_granted_permissions :: "string list"
  do_granted_audience :: "string option"
  do_granted_expires_at :: "string option"

definition delegation_outcome_deny :: "decision \<Rightarrow> delegation_outcome" where
  "delegation_outcome_deny d =
     \<lparr>do_decision = d, do_granted_permissions = [], do_granted_audience = None,
      do_granted_expires_at = None\<rparr>"

record elicitation_dispatch =
  ed_id :: string
  ed_approver :: "string option"
  ed_intent_id :: "string option"
  ed_expires_at :: "string option"

datatype elicitation_outcome = Out_Approved | Out_Denied

datatype elicitation_status = St_Pending | St_Resolved elicitation_outcome | St_Expired

record elicitation_validation =
  ev_valid :: bool
  ev_approver :: "string option"
  ev_intent_id :: "string option"
  ev_reason :: "string option"

record pending_elicitation =
  pe_id :: string
  pe_plugin_name :: string
  pe_approver :: "string option"
  pe_intent_id :: "string option"
  pe_channel :: "string option"
  pe_expires_at :: "string option"
  pe_source :: string

subsection \<open>Errors and their text\<close>

text \<open>
  \<^verbatim>\<open>{:?}\<close> of a string: quoted, with the escapes of \<^verbatim>\<open>char::escape_debug\<close>.  The bytes of a
  code point outside ASCII are kept; Rust in addition escapes the few of them that are not
  printable, which only changes the wording of a message.
\<close>

definition hex_digit :: "nat \<Rightarrow> char" where
  "hex_digit d = (if d < 10 then digit_char d else char_of (87 + d))"

fun nat_to_hex :: "nat \<Rightarrow> string" where
  "nat_to_hex n = (if n < 16 then [hex_digit n] else nat_to_hex (n div 16) @ [hex_digit (n mod 16)])"

declare nat_to_hex.simps [simp del]

definition debug_byte :: "char \<Rightarrow> string" where
  "debug_byte c =
     (let b = byte_of c
      in if b = 34 then [CHR 0x5C, c]
         else if b = 92 then [CHR 0x5C, c]
         else if b = 10 then [CHR 0x5C, CHR ''n'']
         else if b = 13 then [CHR 0x5C, CHR ''r'']
         else if b = 9 then [CHR 0x5C, CHR ''t'']
         else if b = 0 then [CHR 0x5C, CHR ''0'']
         else if b < 32 \<or> b = 127 then CHR 0x5C # ''u{'' @ nat_to_hex b @ ''}''
         else [c])"

definition debug_string :: "string \<Rightarrow> string" where
  "debug_string s = [CHR 0x22] @ concat (map debug_byte s) @ [CHR 0x22]"

fun join_comma :: "string list \<Rightarrow> string" where
  "join_comma [] = []"
| "join_comma [x] = x"
| "join_comma (x # y # xs) = x @ '', '' @ join_comma (y # xs)"

definition debug_strings :: "string list \<Rightarrow> string" where
  "debug_strings xs = ''['' @ join_comma (map debug_string xs) @ '']''"

definition debug_option :: "('a \<Rightarrow> string) \<Rightarrow> 'a option \<Rightarrow> string" where
  "debug_option f x = (case x of None \<Rightarrow> ''None'' | Some v \<Rightarrow> ''Some('' @ f v @ '')'')"

definition debug_dialect :: "pdp_dialect \<Rightarrow> string" where
  "debug_dialect d =
     (case d of
        Cedar \<Rightarrow> ''Cedar''
      | Opa \<Rightarrow> ''Opa''
      | AuthZen \<Rightarrow> ''AuthZen''
      | NeMo \<Rightarrow> ''NeMo''
      | Cel \<Rightarrow> ''Cel''
      | CustomDialect s \<Rightarrow> ''Custom('' @ debug_string s @ '')'')"

datatype plugin_error = PluginNotFound string | PluginDispatch string

fun plugin_error_text :: "plugin_error \<Rightarrow> string" where
  "plugin_error_text (PluginNotFound n) = ''no plugin invoker available for `'' @ n @ ''`''"
| "plugin_error_text (PluginDispatch m) = ''plugin dispatch failed: '' @ m"

datatype pdp_error = NoResolver pdp_dialect | PdpDispatch string

fun pdp_error_text :: "pdp_error \<Rightarrow> string" where
  "pdp_error_text (NoResolver d) = ''no PDP resolver registered for dialect '' @ debug_dialect d"
| "pdp_error_text (PdpDispatch m) = ''PDP dispatch failed: '' @ m"

datatype delegation_error = DelegationNotFound string | DelegationDispatch string | DelegationInvalidConfig string

fun delegation_error_text :: "delegation_error \<Rightarrow> string" where
  "delegation_error_text (DelegationNotFound n) =
     ''no delegation invoker available for plugin `'' @ n @ ''`''"
| "delegation_error_text (DelegationDispatch m) = ''delegation dispatch failed: '' @ m"
| "delegation_error_text (DelegationInvalidConfig m) = ''invalid delegation config: '' @ m"

datatype elicitation_error = ElicitationNotFound string | ElicitationHandler string

fun elicitation_error_text :: "elicitation_error \<Rightarrow> string" where
  "elicitation_error_text (ElicitationNotFound n) =
     ''no elicitation invoker available for plugin `'' @ n @ ''`''"
| "elicitation_error_text (ElicitationHandler m) = ''elicitation handler error: '' @ m"

subsection \<open>Reserved bag keys\<close>

definition GRANTED_PERMISSIONS :: string where
  "GRANTED_PERMISSIONS = ''delegation.granted.permissions''"
definition GRANTED_AUDIENCE :: string where
  "GRANTED_AUDIENCE = ''delegation.granted.audience''"
definition GRANTED_EXPIRES_AT :: string where
  "GRANTED_EXPIRES_AT = ''delegation.granted.expires_at''"
definition GRANTED :: string where
  "GRANTED = ''delegation.granted''"

definition EL_ID :: string where "EL_ID = ''elicitation.id''"
definition EL_STATUS :: string where "EL_STATUS = ''elicitation.status''"
definition EL_APPROVER :: string where "EL_APPROVER = ''elicitation.approver''"
definition EL_OUTCOME :: string where "EL_OUTCOME = ''elicitation.outcome''"
definition EL_INTENT_ID :: string where "EL_INTENT_ID = ''elicitation.intent_id''"
definition EL_CHANNEL :: string where "EL_CHANNEL = ''elicitation.channel''"
definition EL_EXPIRES_AT :: string where "EL_EXPIRES_AT = ''elicitation.expires_at''"

lemmas delegation_keys = GRANTED_PERMISSIONS_def GRANTED_AUDIENCE_def GRANTED_EXPIRES_AT_def GRANTED_def
lemmas elicitation_keys = EL_ID_def EL_STATUS_def EL_APPROVER_def EL_OUTCOME_def EL_INTENT_ID_def
  EL_CHANNEL_def EL_EXPIRES_AT_def

subsection \<open>The host\<close>

record 'w env =
  en_invoke :: "'w \<Rightarrow> string \<Rightarrow> attribute_bag \<Rightarrow> plugin_invocation \<Rightarrow> (plugin_error + plugin_outcome) \<times> 'w"
  en_pdp :: "'w \<Rightarrow> pdp_call \<Rightarrow> attribute_bag \<Rightarrow> (pdp_error + pdp_decision) \<times> 'w"
  en_delegate :: "'w \<Rightarrow> delegate_step \<Rightarrow> (delegation_error + delegation_outcome) \<times> 'w"
  en_dispatch :: "'w \<Rightarrow> elicit_step \<Rightarrow> string \<Rightarrow> (elicitation_error + elicitation_dispatch) \<times> 'w"
  en_check :: "'w \<Rightarrow> elicit_step \<Rightarrow> string \<Rightarrow> (elicitation_error + elicitation_status) \<times> 'w"
  en_validate :: "'w \<Rightarrow> elicit_step \<Rightarrow> string \<Rightarrow> (elicitation_error + elicitation_validation) \<times> 'w"
  en_regex :: "string \<Rightarrow> string + (string \<Rightarrow> bool)"
  en_to_string :: "json \<Rightarrow> string"
  en_hash :: "string \<Rightarrow> 64 word"
  en_fork :: "'w \<Rightarrow> nat \<Rightarrow> 'w"
  en_panic :: "'w \<Rightarrow> nat \<Rightarrow> string option"
  en_sched :: "'w \<Rightarrow> nat \<Rightarrow> (nat \<times> bool) list"
  en_join :: "'w \<Rightarrow> 'w list \<Rightarrow> 'w"

text \<open>The invokers of the crate itself.\<close>

definition noop_delegate :: "'w \<Rightarrow> delegate_step \<Rightarrow> (delegation_error + delegation_outcome) \<times> 'w" where
  "noop_delegate w step = (Inl (DelegationNotFound (ds_plugin_name step)), w)"

definition noop_dispatch :: "'w \<Rightarrow> elicit_step \<Rightarrow> string \<Rightarrow> (elicitation_error + elicitation_dispatch) \<times> 'w" where
  "noop_dispatch w step resolved_from = (Inl (ElicitationNotFound (el_plugin_name step)), w)"

definition noop_check :: "'w \<Rightarrow> elicit_step \<Rightarrow> string \<Rightarrow> (elicitation_error + elicitation_status) \<times> 'w" where
  "noop_check w step eid = (Inl (ElicitationNotFound eid), w)"

definition noop_validate :: "'w \<Rightarrow> elicit_step \<Rightarrow> string \<Rightarrow> (elicitation_error + elicitation_validation) \<times> 'w" where
  "noop_validate w step eid = (Inl (ElicitationNotFound eid), w)"

definition auto_dispatch :: "'w \<Rightarrow> elicit_step \<Rightarrow> string \<Rightarrow> (elicitation_error + elicitation_dispatch) \<times> 'w" where
  "auto_dispatch w step resolved_from =
     (Inr \<lparr>ed_id = ''auto-'' @ el_plugin_name step, ed_approver = Some resolved_from,
           ed_intent_id = Some ''auto-intent'', ed_expires_at = None\<rparr>, w)"

definition auto_check :: "'w \<Rightarrow> elicit_step \<Rightarrow> string \<Rightarrow> (elicitation_error + elicitation_status) \<times> 'w" where
  "auto_check w step eid = (Inr (St_Resolved Out_Approved), w)"

definition auto_validate :: "'w \<Rightarrow> elicit_step \<Rightarrow> string \<Rightarrow> (elicitation_error + elicitation_validation) \<times> 'w" where
  "auto_validate w step eid =
     (Inr \<lparr>ev_valid = True, ev_approver = None, ev_intent_id = Some ''auto-intent'', ev_reason = None\<rparr>, w)"

text \<open>
  A host for the concrete examples: the no-op invokers of the crate, a PDP without resolvers,
  no plugins, and a scheduler that runs the branches one after the other.
\<close>

definition quiet_env :: "unit env" where
  "quiet_env =
     \<lparr>en_invoke = (\<lambda>w name _ _. (Inl (PluginNotFound name), w)),
      en_pdp = (\<lambda>w call _. (Inl (NoResolver (pc_dialect call)), w)),
      en_delegate = noop_delegate, en_dispatch = noop_dispatch, en_check = noop_check,
      en_validate = noop_validate, en_regex = (\<lambda>p. Inr (\<lambda>s. s = p)), en_to_string = (\<lambda>_. []),
      en_hash = (\<lambda>_. 0), en_fork = (\<lambda>w _. w), en_panic = (\<lambda>_ _. None),
      en_sched = (\<lambda>_ n. map (\<lambda>i. (i, False)) [0..<n]), en_join = (\<lambda>w _. w)\<rparr>"

end
