(* ===== verification/Pipelines.thy ===== *)
theory Pipelines
  imports Invokers
begin

text \<open>
  Field pipelines: \<^verbatim>\<open>evaluate_pipeline\<close> of \<^verbatim>\<open>crates/ppe-apl-core/src/evaluator.rs\<close> with its
  type checks.  One definition per stage kind; \<open>run_stages\<close> is the loop.
\<close>

datatype field_outcome =
    FO_Pass
  | FO_Replace json
  | FO_Omit
  | FO_Deny string nat

record pipeline_evaluation =
  pv_outcome :: field_outcome
  pv_taints :: "taint_event list"

definition value_kind :: "json \<Rightarrow> string" where
  "value_kind v =
     (case v of
        JNull \<Rightarrow> ''null''
      | JBool _ \<Rightarrow> ''bool''
      | JInt i \<Rightarrow> if is_i64 v then ''int'' else ''float''
      | JFloat _ \<Rightarrow> ''float''
      | JStr _ \<Rightarrow> ''string''
      | JArr _ \<Rightarrow> ''array''
      | JObj _ \<Rightarrow> ''object'')"

definition is_uuid_shape :: "string \<Rightarrow> bool" where
  "is_uuid_shape s \<longleftrightarrow>
     length s = 36
     \<and> list_all (\<lambda>(i, b). if i \<in> {8, 13, 18, 23} then b = CHR ''-'' else is_ascii_hexdigit b)
         (enumerate 0 s)"

definition type_check :: "type_check \<Rightarrow> json \<Rightarrow> bool" where
  "type_check tc v =
     (case tc of
        TC_Str \<Rightarrow> is_string v
      | TC_Int \<Rightarrow> is_i64 v
      | TC_Bool \<Rightarrow> is_boolean v
      | TC_Float \<Rightarrow> is_f64 v \<or> is_i64 v
      | TC_Email \<Rightarrow> (case as_str v of None \<Rightarrow> False | Some s \<Rightarrow> CHR ''@'' \<in> set s \<and> CHR ''.'' \<in> set s)
      | TC_Url \<Rightarrow>
          (case as_str v of
             None \<Rightarrow> False
           | Some s \<Rightarrow> starts_with s ''http://'' \<or> starts_with s ''https://'')
      | TC_Uuid \<Rightarrow> (case as_str v of None \<Rightarrow> False | Some s \<Rightarrow> is_uuid_shape s))"

definition debug_type_check :: "type_check \<Rightarrow> string" where
  "debug_type_check tc =
     (case tc of TC_Str \<Rightarrow> ''Str'' | TC_Int \<Rightarrow> ''Int'' | TC_Bool \<Rightarrow> ''Bool'' | TC_Float \<Rightarrow> ''Float''
               | TC_Email \<Rightarrow> ''Email'' | TC_Url \<Rightarrow> ''Url'' | TC_Uuid \<Rightarrow> ''Uuid'')"

definition value_for_hash :: "'w env \<Rightarrow> json \<Rightarrow> string" where
  "value_for_hash env v = en_to_string env v"

subsection \<open>The stages\<close>

text \<open>
  What one stage does to the loop: go on with a value, whether it replaced the value, and the
  taints it adds; leave with \<^verbatim>\<open>Omit\<close>; or deny, with the taints added before the denial.
\<close>

datatype stage_flow =
    Go json bool "taint_event list"
  | Drop
  | Reject string "taint_event list"

definition keep_value :: "json \<Rightarrow> stage_flow" where
  "keep_value v = Go v False []"

definition rewrite_value :: "json \<Rightarrow> stage_flow" where
  "rewrite_value v = Go v True []"

definition redacted :: json where
  "redacted = JStr ''[REDACTED]''"

definition out_of_bounds :: "('a::linorder) option \<Rightarrow> 'a option \<Rightarrow> 'a \<Rightarrow> bool" where
  "out_of_bounds lo hi x \<longleftrightarrow>
     (case lo of None \<Rightarrow> False | Some m \<Rightarrow> x < m) \<or> (case hi of None \<Rightarrow> False | Some m \<Rightarrow> x > m)"

definition bounds_text :: "('a \<Rightarrow> string) \<Rightarrow> 'a option \<Rightarrow> 'a option \<Rightarrow> string" where
  "bounds_text f lo hi = '' outside ['' @ debug_option f lo @ '', '' @ debug_option f hi @ '']''"

definition stage_type :: "type_check \<Rightarrow> json \<Rightarrow> stage_flow" where
  "stage_type tc v =
     (if \<not> type_check tc v
      then Reject (''expected '' @ debug_type_check tc @ '', got '' @ value_kind v) []
      else keep_value v)"

definition stage_length :: "nat option \<Rightarrow> nat option \<Rightarrow> json \<Rightarrow> stage_flow" where
  "stage_length lo hi v =
     (case as_str v of
        None \<Rightarrow> Reject (''len(...) requires string value, got '' @ value_kind v) []
      | Some s \<Rightarrow>
          let len = length (utf8_chars s)
          in if out_of_bounds lo hi len
             then Reject (''length '' @ nat_to_string len @ bounds_text nat_to_string lo hi) []
             else keep_value v)"

definition stage_range :: "int option \<Rightarrow> int option \<Rightarrow> json \<Rightarrow> stage_flow" where
  "stage_range lo hi v =
     (case as_i64 v of
        None \<Rightarrow> Reject (''range requires integer value, got '' @ value_kind v) []
      | Some n \<Rightarrow>
          if out_of_bounds lo hi n
          then Reject (''value '' @ int_to_string n @ bounds_text int_to_string lo hi) []
          else keep_value v)"

definition stage_enum :: "string list \<Rightarrow> json \<Rightarrow> stage_flow" where
  "stage_enum vals v =
     (case as_str v of
        None \<Rightarrow> Reject (''enum(...) requires string value, got '' @ value_kind v) []
      | Some s \<Rightarrow>
          if s \<notin> set vals
          then Reject (''value `'' @ s @ ''` not in enum '' @ debug_strings vals) []
          else keep_value v)"

definition stage_regex :: "'w env \<Rightarrow> string \<Rightarrow> json \<Rightarrow> stage_flow" where
  "stage_regex env pattern v =
     (case en_regex env pattern of
        Inl e \<Rightarrow> Reject (''invalid regex `'' @ pattern @ ''`: '' @ e) []
      | Inr is_match \<Rightarrow>
          (case as_str v of
             None \<Rightarrow> Reject (''regex requires string value, got '' @ value_kind v) []
           | Some s \<Rightarrow>
               if \<not> is_match s then Reject (''value did not match regex `'' @ pattern @ ''`'') []
               else keep_value v))"

definition stage_validate :: "string \<Rightarrow> stage_flow" where
  "stage_validate name =
     Reject (''`validate('' @ name @ '')` is not implemented; use `regex(...)` or `plugin('' @ name
       @ '')` instead'') []"

definition mask_string :: "nat \<Rightarrow> string \<Rightarrow> string" where
  "mask_string keep_last s =
     (let chars = utf8_chars s;
          keep = min keep_last (length chars);
          mask_count = length chars - keep
      in replicate mask_count (CHR ''*'') @ concat (drop mask_count chars))"

definition stage_mask :: "nat \<Rightarrow> json \<Rightarrow> stage_flow" where
  "stage_mask keep_last v =
     (case as_str v of
        None \<Rightarrow> Reject (''mask(...) requires string value, got '' @ value_kind v) []
      | Some s \<Rightarrow> rewrite_value (JStr (mask_string keep_last s)))"

definition stage_redact :: "expression option \<Rightarrow> attribute_bag \<Rightarrow> json \<Rightarrow> stage_flow" where
  "stage_redact cond bag v =
     (if (case cond of None \<Rightarrow> True | Some e \<Rightarrow> eval_expression e bag) then rewrite_value redacted
      else keep_value v)"

definition hex16 :: "64 word \<Rightarrow> string" where
  "hex16 h = (let s = nat_to_hex (unat h) in replicate (16 - length s) (CHR ''0'') @ s)"

definition stage_hash :: "'w env \<Rightarrow> json \<Rightarrow> stage_flow" where
  "stage_hash env v = rewrite_value (JStr (''hash:'' @ hex16 (en_hash env (value_for_hash env v))))"

definition stage_plugin ::
    "'w env \<Rightarrow> attribute_bag \<Rightarrow> string \<Rightarrow> dispatch_phase \<Rightarrow> string \<Rightarrow> json \<Rightarrow> 'w \<Rightarrow> stage_flow \<times> 'w" where
  "stage_plugin env bag field_name phase name v w =
     (case en_invoke env w name bag (Inv_Field field_name v phase) of
        (Inl e, w') \<Rightarrow> (Reject (''plugin `'' @ name @ ''` error: '' @ plugin_error_text e) [], w')
      | (Inr oc, w') \<Rightarrow>
          (case po_decision oc of
             Dec_Allow \<Rightarrow>
               (case po_modified_value oc of
                  Some nv \<Rightarrow> (Go nv True (po_taints oc), w')
                | None \<Rightarrow> (Go v False (po_taints oc), w'))
           | Dec_Deny reason _ \<Rightarrow>
               (Reject (unwrap_or reason (''plugin `'' @ name @ ''` denied'')) (po_taints oc), w')))"

definition stage_scan :: "scan_kind \<Rightarrow> json \<Rightarrow> stage_flow" where
  "stage_scan kind v =
     (let (label, redact) =
        (case kind of PiiDetect \<Rightarrow> (''PII'', False) | PiiRedact \<Rightarrow> (''PII'', True)
                    | InjectionScan \<Rightarrow> (''injection'', False));
          taint = \<lparr>te_label = label, te_scopes = [Scope_Session]\<rparr>
      in if redact then Go redacted True [taint] else Go v False [taint])"

fun stage_step ::
    "'w env \<Rightarrow> attribute_bag \<Rightarrow> string \<Rightarrow> dispatch_phase \<Rightarrow> stage \<Rightarrow> json \<Rightarrow> 'w \<Rightarrow> stage_flow \<times> 'w" where
  "stage_step env bag fname ph (Stage_Type tc) v w = (stage_type tc v, w)"
| "stage_step env bag fname ph (Stage_Length lo hi) v w = (stage_length lo hi v, w)"
| "stage_step env bag fname ph (Stage_Range lo hi) v w = (stage_range lo hi v, w)"
| "stage_step env bag fname ph (Stage_Enum vals) v w = (stage_enum vals v, w)"
| "stage_step env bag fname ph (Stage_Regex p) v w = (stage_regex env p v, w)"
| "stage_step env bag fname ph (Stage_Validate n) v w = (stage_validate n, w)"
| "stage_step env bag fname ph (Stage_Mask k) v w = (stage_mask k v, w)"
| "stage_step env bag fname ph (Stage_Redact c) v w = (stage_redact c bag v, w)"
| "stage_step env bag fname ph Stage_Omit v w = (Drop, w)"
| "stage_step env bag fname ph Stage_Hash v w = (stage_hash env v, w)"
| "stage_step env bag fname ph (Stage_Taint l sc) v w =
     (Go v False [\<lparr>te_label = l, te_scopes = sc\<rparr>], w)"
| "stage_step env bag fname ph (Stage_Plugin n) v w = stage_plugin env bag fname ph n v w"
| "stage_step env bag fname ph (Stage_Scan k) v w = (stage_scan k v, w)"

fun run_stages ::
    "'w env \<Rightarrow> attribute_bag \<Rightarrow> string \<Rightarrow> dispatch_phase \<Rightarrow> nat \<Rightarrow> stage list \<Rightarrow> json \<Rightarrow> bool
     \<Rightarrow> taint_event list \<Rightarrow> 'w \<Rightarrow> pipeline_evaluation \<times> 'w" where
  "run_stages env bag fname ph idx [] cur replaced taints w =
     (\<lparr>pv_outcome = (if replaced then FO_Replace cur else FO_Pass), pv_taints = taints\<rparr>, w)"
| "run_stages env bag fname ph idx (s # ss) cur replaced taints w =
     (case stage_step env bag fname ph s cur w of
        (Go v r ts, w') \<Rightarrow> run_stages env bag fname ph (idx + 1) ss v (replaced \<or> r) (taints @ ts) w'
      | (Drop, w') \<Rightarrow> (\<lparr>pv_outcome = FO_Omit, pv_taints = taints\<rparr>, w')
      | (Reject reason ts, w') \<Rightarrow>
          (\<lparr>pv_outcome = FO_Deny reason idx, pv_taints = taints @ ts\<rparr>, w'))"

definition evaluate_pipeline ::
    "'w env \<Rightarrow> pipeline \<Rightarrow> json \<Rightarrow> attribute_bag \<Rightarrow> string \<Rightarrow> dispatch_phase \<Rightarrow> 'w \<Rightarrow> pipeline_evaluation \<times> 'w" where
  "evaluate_pipeline env pl v bag field_name phase w =
     run_stages env bag field_name phase 0 (pl_stages pl) v False [] w"

subsection \<open>Masking\<close>

definition utf8_group :: "string \<Rightarrow> bool" where
  "utf8_group g \<longleftrightarrow> g \<noteq> [] \<and> \<not> is_cont_byte (hd g) \<and> (\<forall>c \<in> set (tl g). is_cont_byte c)"

definition utf8_start :: "string \<Rightarrow> bool" where
  "utf8_start s \<longleftrightarrow> s = [] \<or> \<not> is_cont_byte (hd s)"

lemma utf8_chars_hd: "utf8_chars (c # cs) = g # gs \<Longrightarrow> hd g = c \<and> g \<noteq> []"
  by (auto split: list.splits if_splits)

lemma utf8_chars_tl:
  "utf8_chars s = g # gs \<Longrightarrow> (\<forall>c \<in> set (tl g). is_cont_byte c) \<and> (\<forall>h \<in> set gs. utf8_group h)"
proof (induction s arbitrary: g gs)
  case (Cons c cs)
  show ?case
  proof (cases "utf8_chars cs")
    case Nil
    with Cons.prems show ?thesis by auto
  next
    case (Cons h hs)
    note ih = Cons.IH [OF Cons]
    obtain d ds where h: "h = d # ds"
      using Cons utf8_chars_hd by (cases cs; cases h) (auto simp del: utf8_chars.simps(2))
    have "utf8_chars (c # cs) = (if is_cont_byte d then (c # h) # hs else [c] # h # hs)"
      using Cons h by simp
    then have "if is_cont_byte d then g = c # h \<and> gs = hs else g = [c] \<and> gs = h # hs"
      using Cons.prems by (simp del: utf8_chars.simps split: if_splits)
    then show ?thesis
      using ih h by (cases "is_cont_byte d") (auto simp: utf8_group_def)
  qed
qed simp

lemma utf8_chars_groups: "utf8_start s \<Longrightarrow> \<forall>g \<in> set (utf8_chars s). utf8_group g"
proof (cases s)
  case (Cons c cs)
  assume start: "utf8_start s"
  obtain g gs where g: "utf8_chars s = g # gs"
    using Cons by (cases "utf8_chars s") (auto simp del: utf8_chars.simps(2))
  have "utf8_group g"
    using start Cons utf8_chars_hd [of c cs g gs] utf8_chars_tl [OF g] g
    by (auto simp: utf8_group_def utf8_start_def simp del: utf8_chars.simps(2))
  with utf8_chars_tl [OF g] g show ?thesis by simp
qed simp

lemma utf8_chars_group_append:
  assumes "utf8_group g" "utf8_start s"
  shows "utf8_chars (g @ s) = g # utf8_chars s"
proof -
  have "utf8_chars (c # t @ s) = (c # t) # utf8_chars s" if "\<forall>x \<in> set t. is_cont_byte x" for c t
    using that
  proof (induction t arbitrary: c)
    case Nil
    show ?case
    proof (cases s)
      case (Cons d ds)
      obtain h hs where h: "utf8_chars s = h # hs"
        using Cons by (cases "utf8_chars s") (auto simp del: utf8_chars.simps(2))
      then obtain hs' where "h = d # hs'"
        using Cons utf8_chars_hd [of d ds] by (cases h) (auto simp del: utf8_chars.simps(2))
      with h assms(2) Cons show ?thesis by (auto simp: utf8_start_def)
    qed simp
  next
    case (Cons d t)
    then show ?case by simp
  qed
  moreover obtain c t where "g = c # t" "\<forall>x \<in> set t. is_cont_byte x"
    using assms(1) by (cases g) (auto simp: utf8_group_def)
  ultimately show ?thesis by simp
qed

lemma utf8_start_concat: "\<forall>g \<in> set gs. utf8_group g \<Longrightarrow> utf8_start (concat gs)"
  by (cases gs) (auto simp: utf8_group_def utf8_start_def)

lemma utf8_chars_concat: "\<forall>g \<in> set gs. utf8_group g \<Longrightarrow> utf8_chars (concat gs) = gs"
  by (induction gs) (auto simp: utf8_chars_group_append utf8_start_concat)

lemma utf8_group_star: "utf8_group [CHR ''*'']"
  by (simp add: utf8_group_def is_cont_byte_def byte_of_def)

lemma utf8_chars_mask:
  assumes "utf8_start s"
  shows "utf8_chars (mask_string k s) =
     replicate (length (utf8_chars s) - k) [CHR ''*''] @ drop (length (utf8_chars s) - k) (utf8_chars s)"
proof -
  let ?cs = "utf8_chars s" and ?n = "length (utf8_chars s) - k"
  let ?gs = "replicate ?n [CHR ''*''] @ drop ?n ?cs"
  have "concat (replicate m [c]) = replicate m c" for m and c :: char by (induction m) simp_all
  then have "mask_string k s = concat ?gs"
    by (simp add: mask_string_def Let_def min_def)
  moreover have "\<forall>g \<in> set ?gs. utf8_group g"
    using utf8_chars_groups [OF assms] utf8_group_star in_set_dropD by fastforce
  ultimately show ?thesis using utf8_chars_concat by (simp only:)
qed

subsection \<open>What a pipeline can do\<close>

lemma run_stages_taints:
  "run_stages env bag fname ph idx ss cur replaced taints w = (ev, w') \<Longrightarrow> \<exists>ts. pv_taints ev = taints @ ts"
proof (induction ss arbitrary: idx cur replaced taints w)
  case (Cons s ss)
  then show ?case by (fastforce split: prod.splits stage_flow.splits)
qed auto

lemma run_stages_deny_index:
  "run_stages env bag fname ph idx ss cur replaced taints w = (ev, w') \<Longrightarrow>
   pv_outcome ev = FO_Deny reason i \<Longrightarrow> idx \<le> i \<and> i < idx + length ss"
proof (induction ss arbitrary: idx cur replaced taints w)
  case (Cons s ss)
  show ?case
  proof (cases "stage_step env bag fname ph s cur w")
    case (Pair fl w1)
    show ?thesis
    proof (cases fl)
      case (Go v r ts)
      with Cons.prems Pair Cons.IH [of "idx + 1" v "replaced \<or> r" "taints @ ts" w1]
      show ?thesis by simp
    qed (use Cons.prems Pair in auto)
  qed
qed (auto split: if_splits)

text \<open>A validator keeps the value, or denies; the transforming stages are the others.\<close>

fun is_validator :: "stage \<Rightarrow> bool" where
  "is_validator (Stage_Type _) = True"
| "is_validator (Stage_Length _ _) = True"
| "is_validator (Stage_Range _ _) = True"
| "is_validator (Stage_Enum _) = True"
| "is_validator (Stage_Regex _) = True"
| "is_validator (Stage_Validate _) = True"
| "is_validator _ = False"

definition accepts_value :: "'w env \<Rightarrow> stage \<Rightarrow> json \<Rightarrow> bool" where
  "accepts_value env s v \<longleftrightarrow>
     (case s of
        Stage_Type tc \<Rightarrow> type_check tc v
      | Stage_Length lo hi \<Rightarrow> (\<exists>t. v = JStr t \<and> \<not> out_of_bounds lo hi (length (utf8_chars t)))
      | Stage_Range lo hi \<Rightarrow> (\<exists>n. v = JInt n \<and> in_i64 n \<and> \<not> out_of_bounds lo hi n)
      | Stage_Enum vals \<Rightarrow> (\<exists>t. v = JStr t \<and> t \<in> set vals)
      | Stage_Regex p \<Rightarrow> (\<exists>t m. v = JStr t \<and> en_regex env p = Inr m \<and> m t)
      | _ \<Rightarrow> False)"

lemma as_str_eq_Some: "as_str v = Some s \<longleftrightarrow> v = JStr s"
  by (cases v) auto

lemma as_i64_eq_Some: "as_i64 v = Some n \<longleftrightarrow> v = JInt n \<and> in_i64 n"
  by (cases v) (auto simp: check_i64_def)

lemma validator_step:
  assumes "is_validator s"
  shows "accepts_value env s v \<Longrightarrow> stage_step env bag fname ph s v w = (Go v False [], w)"
    and "\<not> accepts_value env s v \<Longrightarrow> \<exists>reason. stage_step env bag fname ph s v w = (Reject reason [], w)"
  using assms
  by (cases s; auto simp: accepts_value_def stage_type_def stage_length_def stage_range_def stage_enum_def
      stage_regex_def stage_validate_def keep_value_def Let_def as_str_eq_Some as_i64_eq_Some
      split: option.splits sum.splits)+

lemma run_validators:
  assumes "\<forall>s \<in> set ss. is_validator s"
  shows "run_stages env bag fname ph idx ss v r ts w = (ev, w') \<Longrightarrow>
     w' = w \<and> pv_taints ev = ts \<and>
     (if \<forall>s \<in> set ss. accepts_value env s v
      then pv_outcome ev = (if r then FO_Replace v else FO_Pass)
      else \<exists>reason i. pv_outcome ev = FO_Deny reason i \<and> idx \<le> i \<and> i < idx + length ss
             \<and> \<not> accepts_value env (ss ! (i - idx)) v
             \<and> (\<forall>j < i - idx. accepts_value env (ss ! j) v))"
  using assms
proof (induction ss arbitrary: idx)
  case (Cons s ss)
  show ?case
  proof (cases "accepts_value env s v")
    case True
    with Cons.prems have run: "run_stages env bag fname ph (idx + 1) ss v r ts w = (ev, w')"
      by (simp add: validator_step)
    show ?thesis
    proof (cases "\<forall>s \<in> set ss. accepts_value env s v")
      case all: True
      with True Cons.IH [OF run] Cons.prems(2) show ?thesis by simp
    next
      case False
      with Cons.IH [OF run] Cons.prems(2) obtain reason i where i: "w' = w" "pv_taints ev = ts"
        "pv_outcome ev = FO_Deny reason i" "idx + 1 \<le> i" "i < idx + 1 + length ss"
        "\<not> accepts_value env (ss ! (i - (idx + 1))) v" "\<forall>j < i - (idx + 1). accepts_value env (ss ! j) v"
        by auto
      obtain k where k: "i - idx = Suc k" "k = i - (idx + 1)" using i(4) by (cases "i - idx") auto
      have "\<forall>j < Suc k. accepts_value env ((s # ss) ! j) v"
        using True i(7) k(2) by (auto simp: less_Suc_eq_0_disj)
      with i k False show ?thesis by auto
    qed
  next
    case False
    with validator_step(2) [of s env v bag fname ph w] Cons.prems
    obtain reason where "stage_step env bag fname ph s v w = (Reject reason [], w)" by auto
    with Cons.prems False show ?thesis by auto
  qed
qed auto

text \<open>
  After an unconditional redaction nothing depends on the value any more, whatever follows.
\<close>

lemma redact_hides:
  "run_stages env bag fname ph idx (Stage_Redact None # ss) v r ts w =
   run_stages env bag fname ph idx (Stage_Redact None # ss) v' r ts w"
  by (simp add: stage_redact_def rewrite_value_def)

lemma run_stages_no_transform:
  assumes "pv_outcome (fst (run_stages env bag fname ph idx ss v True ts w)) = FO_Pass"
  shows False
  using assms
  by (induction ss arbitrary: idx v ts w) (auto split: prod.splits stage_flow.splits)

end
