(* ===== verification/Constraints.thy ===== *)
theory Constraints
  imports Apl_IR
begin

text \<open>
  \<^verbatim>\<open>crates/ppe-apl-core/src/constraint.rs\<close>: resolving the references of a \<^verbatim>\<open>restrict\<close> effect
  against the request's attributes.  An allow-list reference that does not resolve shrinks to
  the empty list; a deny-list reference that does not resolve is an error.
\<close>

definition constraint_is_empty :: "candidate_constraint \<Rightarrow> bool" where
  "constraint_is_empty c \<longleftrightarrow>
     cc_allow_models c = None \<and> cc_deny_models c = [] \<and> cc_allow_regions c = None
     \<and> cc_allow_sites c = None \<and> cc_max_cost_tier c = None \<and> cc_custom c = []"

definition resolve_set :: "string_set_spec \<Rightarrow> attribute_bag \<Rightarrow> string list option" where
  "resolve_set spec bag =
     (case spec of
        SetLiteral v \<Rightarrow> Some v
      | SetRef path \<Rightarrow>
          (case resolve_key bag path of
             None \<Rightarrow> None
           | Some key \<Rightarrow>
               (case bag_get bag key of
                  Some (AStringSet s) \<Rightarrow> Some (sorted_list_of_fset s)
                | Some (AString s) \<Rightarrow> Some [s]
                | _ \<Rightarrow> None)))"

record restrict_resolve_error =
  re_field :: string
  re_path :: string

definition restrict_spec_is_empty :: "restrict_spec \<Rightarrow> bool" where
  "restrict_spec_is_empty s \<longleftrightarrow>
     rs_allow_models s = None \<and> rs_deny_models s = None \<and> rs_allow_regions s = None
     \<and> rs_allow_sites s = None \<and> rs_max_cost_tier s = None \<and> rs_custom s = []"

definition resolve_allow :: "string_set_spec option \<Rightarrow> attribute_bag \<Rightarrow> string list option" where
  "resolve_allow field bag = map_option (\<lambda>s. unwrap_or (resolve_set s bag) []) field"

definition restrict_resolve ::
    "restrict_spec \<Rightarrow> attribute_bag \<Rightarrow> restrict_resolve_error + candidate_constraint" where
  "restrict_resolve s bag =
     (let allow_models = resolve_allow (rs_allow_models s) bag;
          allow_regions = resolve_allow (rs_allow_regions s) bag;
          allow_sites = resolve_allow (rs_allow_sites s) bag;
          deny_models =
            (case rs_deny_models s of
               None \<Rightarrow> Inr []
             | Some spec \<Rightarrow>
                 (case resolve_set spec bag of
                    Some v \<Rightarrow> Inr v
                  | None \<Rightarrow>
                      Inl \<lparr>re_field = ''deny_models'',
                           re_path = (case spec of SetRef p \<Rightarrow> p | SetLiteral _ \<Rightarrow> [])\<rparr>))
      in res_bind deny_models (\<lambda>deny.
           Inr \<lparr>cc_allow_models = allow_models, cc_deny_models = deny,
                cc_allow_regions = allow_regions, cc_allow_sites = allow_sites,
                cc_max_cost_tier = rs_max_cost_tier s, cc_custom = rs_custom s,
                cc_on_empty = rs_on_empty s\<rparr>))"

text \<open>The message carries an em dash, given here by its UTF-8 bytes.\<close>

definition em_dash :: string where
  "em_dash = [CHR 0xE2, CHR 0x80, CHR 0x94]"

definition restrict_error_text :: "restrict_resolve_error \<Rightarrow> string" where
  "restrict_error_text e =
     ''restrict: `'' @ re_field e @ ''` reference `'' @ re_path e
     @ ''` did not resolve to a set '' @ em_dash @ '' denying (a deny-list cannot fail open)''"

subsection \<open>Properties\<close>

lemma resolve_set_literal [simp]: "resolve_set (SetLiteral v) bag = Some v"
  by (simp add: resolve_set_def)

lemma restrict_resolve_error_iff:
  "(\<exists>e. restrict_resolve s bag = Inl e) \<longleftrightarrow>
     (\<exists>path. rs_deny_models s = Some (SetRef path) \<and> resolve_set (SetRef path) bag = None)"
proof (cases "rs_deny_models s")
  case (Some spec)
  then show ?thesis by (cases spec) (auto simp: restrict_resolve_def Let_def split: option.split)
qed (simp add: restrict_resolve_def)

lemma restrict_resolve_ok:
  assumes "restrict_resolve s bag = Inr c"
  shows "cc_allow_models c = resolve_allow (rs_allow_models s) bag"
    and "cc_allow_regions c = resolve_allow (rs_allow_regions s) bag"
    and "cc_allow_sites c = resolve_allow (rs_allow_sites s) bag"
    and "rs_deny_models s = None \<Longrightarrow> cc_deny_models c = []"
    and "rs_deny_models s = Some spec \<Longrightarrow> resolve_set spec bag = Some (cc_deny_models c)"
    and "cc_max_cost_tier c = rs_max_cost_tier s"
    and "cc_custom c = rs_custom s"
    and "cc_on_empty c = rs_on_empty s"
  using assms
  by (auto simp: restrict_resolve_def Let_def res_bind_eq_Inr split: option.splits)

lemma resolve_allow_unresolved:
  "resolve_set spec bag = None \<Longrightarrow> resolve_allow (Some spec) bag = Some []"
  by (simp add: resolve_allow_def)

end
