(* ===== verification/Orchestration.thy ===== *)
theory Orchestration
  imports Prelude
begin

text \<open>
  \<^verbatim>\<open>crates/ppe-orchestration/src/lib.rs\<close>: running branches concurrently with an optional
  per-branch timeout and an optional abort of the rest on the first deny.

  What the model takes from outside is what the tokio runtime decides: for every branch how
  it ends if nobody stops it (\<open>branch_fate\<close>, with the time it takes), and the order in which
  \<^verbatim>\<open>JoinSet::join_next_with_id\<close> reports the tasks.  A schedule entry \<open>(i, raced)\<close> says that
  task \<open>i\<close> is reported next, and whether its task had already ended when the abort was
  requested: \<^verbatim>\<open>abort_all\<close> cancels only tasks that are still running.  The set reports every
  task it holds exactly once (\<open>valid_schedule\<close>).
\<close>

record branch_config =
  bc_timeout_per_branch :: "nat option"
  bc_short_circuit_on_deny :: bool

definition branch_config_default :: branch_config where
  "branch_config_default = \<lparr>bc_timeout_per_branch = None, bc_short_circuit_on_deny = True\<rparr>"

datatype 'a branch_outcome = Completed 'a | TimedOut | Aborted | Panicked string

datatype 'a branch_fate = Returns nat 'a | Panics nat string

fun completed :: "'a branch_outcome \<Rightarrow> 'a option" where
  "completed (Completed v) = Some v"
| "completed TimedOut = None"
| "completed Aborted = None"
| "completed (Panicked _) = None"

text \<open>
  The body of a spawned task.  \<^verbatim>\<open>tokio::time::timeout\<close> polls the branch before the timer, so a
  branch that ends exactly at the limit counts as ended.
\<close>

definition spawn_outcome :: "branch_config \<Rightarrow> 'a branch_fate \<Rightarrow> 'a branch_outcome" where
  "spawn_outcome config fate =
     (let in_time = (\<lambda>d. case bc_timeout_per_branch config of None \<Rightarrow> True | Some dur \<Rightarrow> d \<le> dur)
      in (case fate of
            Returns d v \<Rightarrow> if in_time d then Completed v else TimedOut
          | Panics d msg \<Rightarrow> if in_time d then Panicked msg else TimedOut))"

definition outcome_halts :: "('a \<Rightarrow> bool) \<Rightarrow> 'a branch_outcome \<Rightarrow> bool" where
  "outcome_halts is_deny oc = (case completed oc of Some v \<Rightarrow> is_deny v | None \<Rightarrow> False)"

text \<open>
  The join loop.  A cancelled task leaves no entry in \<open>done\<close>; a panicked one is entered under the
  index its task id maps to.
\<close>

fun join_loop ::
    "branch_config \<Rightarrow> ('a \<Rightarrow> bool) \<Rightarrow> 'a branch_fate list \<Rightarrow> (nat \<times> bool) list \<Rightarrow> bool
     \<Rightarrow> (nat \<rightharpoonup> 'a branch_outcome) \<Rightarrow> (nat \<rightharpoonup> 'a branch_outcome)" where
  "join_loop config is_deny fates [] aborted finished = finished"
| "join_loop config is_deny fates ((idx, raced) # sched) aborted finished =
     (if aborted \<and> \<not> raced then join_loop config is_deny fates sched aborted finished
      else
        let outcome = spawn_outcome config (fates ! idx);
            halts = outcome_halts is_deny outcome
        in join_loop config is_deny fates sched
             (aborted \<or> (halts \<and> bc_short_circuit_on_deny config)) (finished(idx \<mapsto> outcome)))"

definition run_branches ::
    "'a branch_fate list \<Rightarrow> branch_config \<Rightarrow> ('a \<Rightarrow> bool) \<Rightarrow> (nat \<times> bool) list \<Rightarrow> 'a branch_outcome list" where
  "run_branches branches config is_deny sched =
     (let n = length branches
      in if n = 0 then []
         else let finished = join_loop config is_deny branches sched False Map.empty
              in map (\<lambda>i. unwrap_or (finished i) Aborted) [0..<n])"

definition valid_schedule :: "nat \<Rightarrow> (nat \<times> bool) list \<Rightarrow> bool" where
  "valid_schedule n sched \<longleftrightarrow> distinct (map fst sched) \<and> set (map fst sched) = {..<n}"

subsection \<open>What a caller may rely on\<close>

locale branch_runner =
  fixes run :: "'a branch_fate list \<Rightarrow> branch_config \<Rightarrow> ('a \<Rightarrow> bool) \<Rightarrow> (nat \<times> bool) list \<Rightarrow> 'a branch_outcome list"
  assumes run_length: "valid_schedule (length fates) sched \<Longrightarrow> length (run fates cfg is_deny sched) = length fates"
    and run_faithful: "valid_schedule (length fates) sched \<Longrightarrow> i < length fates \<Longrightarrow>
      run fates cfg is_deny sched ! i \<in> {spawn_outcome cfg (fates ! i), Aborted}"
    and run_aborted: "valid_schedule (length fates) sched \<Longrightarrow> i < length fates \<Longrightarrow>
      run fates cfg is_deny sched ! i = Aborted \<Longrightarrow>
      bc_short_circuit_on_deny cfg \<and>
      (\<exists>oc \<in> set (run fates cfg is_deny sched). outcome_halts is_deny oc)"
begin

lemma deny_not_lost:
  assumes "valid_schedule (length fates) sched"
    and "f \<in> set fates" "outcome_halts is_deny (spawn_outcome cfg f)"
  shows "\<exists>oc \<in> set (run fates cfg is_deny sched). outcome_halts is_deny oc"
proof -
  from assms(2) obtain i where i: "i < length fates" "fates ! i = f" by (auto simp: in_set_conv_nth)
  show ?thesis
  proof (cases "run fates cfg is_deny sched ! i = Aborted")
    case True
    then show ?thesis using run_aborted assms(1) i(1) by blast
  next
    case False
    then have "run fates cfg is_deny sched ! i = spawn_outcome cfg f"
      using run_faithful [OF assms(1) i(1), of cfg is_deny] i(2) by blast
    then show ?thesis using assms(3) run_length [OF assms(1)] i(1) by (metis nth_mem)
  qed
qed

lemma halts_iff:
  assumes "valid_schedule (length fates) sched"
  shows "(\<exists>oc \<in> set (run fates cfg is_deny sched). outcome_halts is_deny oc) \<longleftrightarrow>
     (\<exists>f \<in> set fates. outcome_halts is_deny (spawn_outcome cfg f))"
proof
  assume "\<exists>oc \<in> set (run fates cfg is_deny sched). outcome_halts is_deny oc"
  then obtain i where i: "i < length fates" "outcome_halts is_deny (run fates cfg is_deny sched ! i)"
    using run_length [OF assms] by (auto simp: in_set_conv_nth)
  then have "run fates cfg is_deny sched ! i \<noteq> Aborted" by (auto simp: outcome_halts_def)
  with run_faithful [OF assms i(1), of cfg is_deny] i
  show "\<exists>f \<in> set fates. outcome_halts is_deny (spawn_outcome cfg f)" by (metis empty_iff insert_iff nth_mem)
qed (use deny_not_lost assms in blast)

lemma no_deny_all_run:
  assumes "valid_schedule (length fates) sched"
    and "\<And>f. f \<in> set fates \<Longrightarrow> \<not> outcome_halts is_deny (spawn_outcome cfg f)"
  shows "run fates cfg is_deny sched = map (spawn_outcome cfg) fates"
proof (rule nth_equalityI)
  fix i assume "i < length (run fates cfg is_deny sched)"
  then have i: "i < length fates" using run_length assms(1) by simp
  have "run fates cfg is_deny sched ! i \<noteq> Aborted"
    using run_aborted [OF assms(1) i] halts_iff [OF assms(1)] assms(2) by blast
  with run_faithful [OF assms(1) i, of cfg is_deny] i
  show "run fates cfg is_deny sched ! i = map (spawn_outcome cfg) fates ! i" by simp
qed (use run_length assms(1) in simp)

end

subsection \<open>The join loop keeps the contract\<close>

lemma join_loop_other:
  "i \<notin> fst ` set sched \<Longrightarrow> join_loop cfg d fates sched aborted fin i = fin i"
  by (induction cfg d fates sched aborted fin rule: join_loop.induct) (auto simp: Let_def)

lemma join_loop_skip:
  "aborted \<and> \<not> raced \<Longrightarrow>
   join_loop cfg d fates ((idx, raced) # sched) aborted fin = join_loop cfg d fates sched aborted fin"
  by simp

lemma join_loop_take:
  "\<not> (aborted \<and> \<not> raced) \<Longrightarrow>
   join_loop cfg d fates ((idx, raced) # sched) aborted fin =
   join_loop cfg d fates sched
     (aborted \<or> (outcome_halts d (spawn_outcome cfg (fates ! idx)) \<and> bc_short_circuit_on_deny cfg))
     (fin(idx \<mapsto> spawn_outcome cfg (fates ! idx)))"
  by (simp only: join_loop.simps(2) Let_def if_False)

lemma join_loop_value:
  "distinct (map fst sched) \<Longrightarrow> i \<in> fst ` set sched \<Longrightarrow> fin i = None \<Longrightarrow>
   join_loop cfg d fates sched aborted fin i \<in> {None, Some (spawn_outcome cfg (fates ! i))}"
proof (induction sched arbitrary: aborted fin)
  case (Cons e sched)
  obtain idx raced where e: "e = (idx, raced)" by (cases e)
  show ?case
  proof (cases "i = idx")
    case True
    then have "i \<notin> fst ` set sched" using Cons.prems(1) e by auto
    note other = join_loop_other [OF this]
    show ?thesis
    proof (cases "aborted \<and> \<not> raced")
      case skip: True
      show ?thesis unfolding e join_loop_skip [OF skip] other using Cons.prems(3) by simp
    next
      case take: False
      show ?thesis unfolding e join_loop_take [OF take] other using True by simp
    qed
  next
    case False
    then have i: "i \<in> fst ` set sched" "distinct (map fst sched)" using Cons.prems e by auto
    show ?thesis
    proof (cases "aborted \<and> \<not> raced")
      case True
      show ?thesis unfolding e join_loop_skip [OF True] by (rule Cons.IH) (use i Cons.prems(3) in auto)
    next
      case take: False
      show ?thesis
        unfolding e join_loop_take [OF take] by (rule Cons.IH) (use i False Cons.prems(3) in auto)
    qed
  qed
qed simp

definition some_halt :: "('a \<Rightarrow> bool) \<Rightarrow> (nat \<rightharpoonup> 'a branch_outcome) \<Rightarrow> bool" where
  "some_halt d fin \<longleftrightarrow> (\<exists>j oc. fin j = Some oc \<and> outcome_halts d oc)"

lemma join_loop_keeps:
  "distinct (map fst sched) \<Longrightarrow> fst ` set sched \<inter> dom fin = {} \<Longrightarrow> fin j = Some oc \<Longrightarrow>
   join_loop cfg d fates sched aborted fin j = Some oc"
  by (intro trans [OF join_loop_other]) auto

lemma join_loop_aborted:
  "distinct (map fst sched) \<Longrightarrow> fst ` set sched \<inter> dom fin = {} \<Longrightarrow>
   (aborted \<Longrightarrow> bc_short_circuit_on_deny cfg \<and> some_halt d fin) \<Longrightarrow> i \<in> fst ` set sched \<Longrightarrow>
   join_loop cfg d fates sched aborted fin i = None \<Longrightarrow>
   bc_short_circuit_on_deny cfg \<and> some_halt d (join_loop cfg d fates sched aborted fin)"
proof (induction sched arbitrary: aborted fin)
  case (Cons e sched)
  obtain idx raced where e: "e = (idx, raced)" by (cases e)
  note prems = Cons.prems [unfolded e]
  show ?case
    unfolding e
  proof (cases "aborted \<and> \<not> raced")
    case True
    with prems(3) obtain j oc where j: "fin j = Some oc" "outcome_halts d oc"
      "bc_short_circuit_on_deny cfg"
      by (auto simp: some_halt_def)
    have "join_loop cfg d fates ((idx, raced) # sched) aborted fin j = Some oc"
      using prems(1,2) j(1) by (rule join_loop_keeps)
    with j(2,3) show "bc_short_circuit_on_deny cfg \<and>
        some_halt d (join_loop cfg d fates ((idx, raced) # sched) aborted fin)"
      unfolding some_halt_def by blast
  next
    case False
    let ?oc = "spawn_outcome cfg (fates ! idx)"
    let ?fin = "fin(idx \<mapsto> ?oc)"
    let ?ab = "aborted \<or> (outcome_halts d ?oc \<and> bc_short_circuit_on_deny cfg)"
    have step: "join_loop cfg d fates ((idx, raced) # sched) aborted fin =
        join_loop cfg d fates sched ?ab ?fin"
      by (rule join_loop_take [OF False])
    have dist: "distinct (map fst sched)" "fst ` set sched \<inter> dom ?fin = {}"
      using prems(1,2) by auto
    have "join_loop cfg d fates sched ?ab ?fin idx = Some ?oc"
      by (rule join_loop_keeps [OF dist]) simp
    then have "i \<noteq> idx" using prems(5) [unfolded step] by auto
    then have "i \<in> fst ` set sched" using prems(4) by auto
    moreover have "?ab \<Longrightarrow> bc_short_circuit_on_deny cfg \<and> some_halt d ?fin"
    proof (cases "outcome_halts d ?oc \<and> bc_short_circuit_on_deny cfg")
      case True
      then show "bc_short_circuit_on_deny cfg \<and> some_halt d ?fin" by (auto simp: some_halt_def)
    next
      case nohalt: False
      assume ?ab
      with nohalt prems(3) obtain j oc where "fin j = Some oc" "outcome_halts d oc"
        "bc_short_circuit_on_deny cfg" by (auto simp: some_halt_def)
      moreover from this have "j \<noteq> idx" using prems(2) by auto
      ultimately show "bc_short_circuit_on_deny cfg \<and> some_halt d ?fin" by (auto simp: some_halt_def)
    qed
    ultimately show "bc_short_circuit_on_deny cfg \<and>
        some_halt d (join_loop cfg d fates ((idx, raced) # sched) aborted fin)"
      unfolding step by (intro Cons.IH [OF dist _ _ prems(5) [unfolded step]])
  qed
qed simp

lemma run_branches_nth:
  "i < length fates \<Longrightarrow> run_branches fates cfg d sched ! i =
     unwrap_or (join_loop cfg d fates sched False Map.empty i) Aborted"
  by (auto simp: run_branches_def Let_def)

lemma length_run_branches [simp]: "length (run_branches fates cfg d sched) = length fates"
  by (simp add: run_branches_def Let_def)

lemma spawn_outcome_not_aborted [simp]: "spawn_outcome cfg f \<noteq> Aborted"
  by (simp add: spawn_outcome_def Let_def split: branch_fate.split)

interpretation rb: branch_runner run_branches
proof
  fix fates :: "'a branch_fate list" and sched cfg d i
  assume v: "valid_schedule (length fates) sched"
  let ?fin = "join_loop cfg d fates sched False Map.empty"
  show "length (run_branches fates cfg d sched) = length fates" by simp
  assume i: "i < length fates"
  have mem: "distinct (map fst sched)" "j < length fates \<longleftrightarrow> j \<in> fst ` set sched" for j
    using v by (auto simp: valid_schedule_def)
  have val: "?fin j \<in> {None, Some (spawn_outcome cfg (fates ! j))}" if "j < length fates" for j
    using join_loop_value [of sched j Map.empty cfg d fates False] mem that by simp
  show "run_branches fates cfg d sched ! i \<in> {spawn_outcome cfg (fates ! i), Aborted}"
    using val [OF i] i by (auto simp: run_branches_nth)
  assume "run_branches fates cfg d sched ! i = Aborted"
  then have "?fin i = None" using val [OF i] i by (auto simp: run_branches_nth)
  then have halt: "bc_short_circuit_on_deny cfg \<and> some_halt d ?fin"
    using join_loop_aborted [of sched Map.empty False cfg d i fates] mem i by simp
  then obtain j oc where j: "?fin j = Some oc" "outcome_halts d oc" by (auto simp: some_halt_def)
  have "j \<in> fst ` set sched"
    using join_loop_other [of j sched cfg d fates False Map.empty] j(1) by (cases "j \<in> fst ` set sched") simp_all
  then have len: "j < length fates" using mem(2) by blast
  have "run_branches fates cfg d sched ! j = oc" using run_branches_nth [OF len, of cfg d sched] j(1) by simp
  then have "oc \<in> set (run_branches fates cfg d sched)"
    using nth_mem [of j "run_branches fates cfg d sched"] len by simp
  with halt j(2) show "bc_short_circuit_on_deny cfg \<and>
      (\<exists>oc \<in> set (run_branches fates cfg d sched). outcome_halts d oc)" by blast
qed

end
