(* ===== verification/Predicate_Lexer.thy ===== *)
theory Predicate_Lexer
  imports Invokers
begin

text \<open>
  The lexer of the predicate language, \<^verbatim>\<open>Lexer\<close> in \<^verbatim>\<open>crates/ppe-apl-core/src/parser.rs\<close>.  The
  lexer's state is the text that is left; the byte position an error reports is the length of
  the source minus that of the rest.
\<close>

datatype parse_error =
    PE_Yaml string
  | PE_Rule string string
  | PE_UnsupportedStep string string
  | PE_Predicate string string
  | PE_RenamedField string string string
  | PE_ConflictingAuthorizationForms string string

fun parse_error_text :: "parse_error \<Rightarrow> string" where
  "parse_error_text (PE_Yaml e) = ''YAML parse error: '' @ e"
| "parse_error_text (PE_Rule r m) = ''rule '' @ [CHR 0x27] @ r @ [CHR 0x27] @ '': '' @ m"
| "parse_error_text (PE_UnsupportedStep r k) =
     ''unsupported step `'' @ k @ ''` in rule '' @ [CHR 0x27] @ r @ [CHR 0x27]"
| "parse_error_text (PE_Predicate p m) = ''predicate '' @ [CHR 0x27] @ p @ [CHR 0x27] @ '': '' @ m"
| "parse_error_text (PE_RenamedField loc old new) =
     ''in `'' @ loc @ ''`: config field `'' @ old @ ''` was renamed to `'' @ new
     @ ''` '' @ [CHR 0xE2, CHR 0x80, CHR 0x94] @ '' update your config''"
| "parse_error_text (PE_ConflictingAuthorizationForms loc ph) =
     ''in `'' @ loc @ ''`: `'' @ ph @ ''` is declared both nested under `authorization:` and flat on ''
     @ ''the section '' @ [CHR 0xE2, CHR 0x80, CHR 0x94]
     @ '' use one form, not both (declaring both runs the effects twice)''"

datatype tok =
    T_Ident string
  | T_StringLit string
  | T_IntLit int
  | T_FloatLit f64
  | T_BoolLit bool
  | T_Eq | T_NotEq | T_Gt | T_GtEq | T_Lt | T_LtEq
  | T_And | T_Or | T_Not | T_LParen | T_RParen | T_Comma
  | T_Contains | T_Require | T_Exists | T_In

definition is_ident_start :: "char \<Rightarrow> bool" where
  "is_ident_start b \<longleftrightarrow> is_ascii_alphabetic b \<or> b = CHR ''_''"

definition is_ident_cont :: "char \<Rightarrow> bool" where
  "is_ident_cont b \<longleftrightarrow> is_ascii_alphanumeric b \<or> b = CHR ''_'' \<or> b = CHR ''.''"

definition lex_err :: "string \<Rightarrow> string \<Rightarrow> string \<Rightarrow> parse_error" where
  "lex_err src rest msg =
     PE_Predicate src (''at byte '' @ nat_to_string (length src - length rest) @ '': '' @ msg)"

fun peek_is :: "char \<Rightarrow> string \<Rightarrow> bool" where
  "peek_is c [] = False"
| "peek_is c (b # bs) = (b = c)"

definition skip_ws :: "string \<Rightarrow> string" where
  "skip_ws rest = dropWhile is_ascii_whitespace rest"

text \<open>
  \<open>rest\<close> starts after the opening quote.  Cutting at an ASCII quote leaves valid UTF-8, so the
  error the source has for a literal that is not UTF-8 cannot occur.
\<close>

definition lex_string :: "string \<Rightarrow> char \<Rightarrow> string \<Rightarrow> parse_error + tok \<times> string" where
  "lex_string src quote rest =
     (case split_once quote rest of
        None \<Rightarrow> Inl (lex_err src [] ''unterminated string literal'')
      | Some (s, rest') \<Rightarrow> Inr (T_StringLit s, rest'))"

definition parse_int_error :: "string \<Rightarrow> string" where
  "parse_int_error s =
     (if s = ''-'' then ''invalid digit found in string''
      else if starts_with s ''-'' then ''number too small to fit in target type''
      else ''number too large to fit in target type'')"

definition lex_number :: "string \<Rightarrow> string \<Rightarrow> parse_error + tok \<times> string" where
  "lex_number src rest =
     (let sign = (if peek_is (CHR ''-'') rest then ''-'' else []);
          r0 = drop (length sign) rest;
          ip = takeWhile is_ascii_digit r0;
          r1 = dropWhile is_ascii_digit r0
      in if peek_is (CHR ''.'') r1 then
           (let r2 = tl r1;
                fp = takeWhile is_ascii_digit r2;
                r3 = dropWhile is_ascii_digit r2;
                txt = sign @ ip @ CHR ''.'' # fp
            in case parse_f64 txt of
                 Some f \<Rightarrow> Inr (T_FloatLit f, r3)
               | None \<Rightarrow> Inl (lex_err src r3 (''bad float `'' @ txt @ ''`: invalid float literal'')))
         else
           (let txt = sign @ ip
            in case parse_i64 txt of
                 Some i \<Rightarrow> Inr (T_IntLit i, r1)
               | None \<Rightarrow> Inl (lex_err src r1 (''bad int `'' @ txt @ ''`: '' @ parse_int_error txt))))"

text \<open>
  The interpolation group of a path: everything up to the closing bracket, or the error for a
  bracket inside a bracket and for a bracket that is never closed.
\<close>

fun lex_bracket :: "string \<Rightarrow> string \<Rightarrow> parse_error + string \<times> string" where
  "lex_bracket src [] = Inl (lex_err src [] ''unterminated `[` in attribute path'')"
| "lex_bracket src (b # bs) =
     (if b = CHR '']'' then Inr ([b], bs)
      else if b = CHR ''['' then Inl (lex_err src bs ''nested `[` in attribute path'')
      else res_bind (lex_bracket src bs) (\<lambda>(g, rest). Inr (b # g, rest)))"

lemma lex_bracket_ok: "lex_bracket src s = Inr (g, rest) \<Longrightarrow> s = g @ rest \<and> g \<noteq> []"
  by (induction s arbitrary: g) (auto simp: res_bind_eq_Inr split: if_splits)

function lex_path :: "string \<Rightarrow> string \<Rightarrow> parse_error + (string \<times> bool) \<times> string" where
  "lex_path src rest =
     (let run = takeWhile is_ident_cont rest;
          r1 = dropWhile is_ident_cont rest
      in case r1 of
           [] \<Rightarrow> Inr ((run, False), [])
         | b # bs \<Rightarrow>
             if b = CHR ''['' then
               (case lex_bracket src bs of
                  Inl e \<Rightarrow> Inl e
                | Inr (g, r2) \<Rightarrow>
                    res_bind (lex_path src r2) (\<lambda>((more, _), r3). Inr ((run @ b # g @ more, True), r3)))
             else Inr ((run, False), r1))"
  by pat_completeness auto
termination
proof (relation "measure (\<lambda>(_, rest). length rest)", simp, goal_cases)
  case (1 src rest run r1 b bs x g r2)
  then have "length r2 < length r1"
    using lex_bracket_ok [of src bs g r2] by (metis append_eq_conv_conj length_Cons length_drop
        less_Suc_eq_le diff_le_self)
  moreover have "length r1 \<le> length rest" using 1(2) by (simp add: length_dropWhile_le)
  ultimately show ?case by simp
qed

declare lex_path.simps [simp del]

definition keyword_or_ident :: "string \<Rightarrow> tok" where
  "keyword_or_ident s =
     (if s = ''true'' then T_BoolLit True
      else if s = ''false'' then T_BoolLit False
      else if s = ''contains'' then T_Contains
      else if s = ''require'' then T_Require
      else if s = ''exists'' then T_Exists
      else if s = ''in'' then T_In
      else T_Ident s)"

definition lex_ident_or_keyword :: "string \<Rightarrow> string \<Rightarrow> parse_error + tok \<times> string" where
  "lex_ident_or_keyword src rest =
     res_bind (lex_path src rest) (\<lambda>((s, has_bracket), rest').
       Inr (if has_bracket then T_Ident s else keyword_or_ident s, rest'))"

text \<open>\<^verbatim>\<open>b as char\<close> reads the byte as Latin-1; the message shows that character in UTF-8.\<close>

definition latin1_utf8 :: "char \<Rightarrow> string" where
  "latin1_utf8 b =
     (if byte_of b < 128 then [b]
      else [char_of (192 + byte_of b div 64), char_of (128 + byte_of b mod 64)])"

definition with_eq :: "tok \<Rightarrow> tok \<Rightarrow> string \<Rightarrow> tok \<times> string" where
  "with_eq double single rest =
     (if peek_is (CHR ''='') rest then (double, tl rest) else (single, rest))"

text \<open>One round of the loop of \<^verbatim>\<open>tokenize_all\<close>, on the first byte that is not white space.\<close>

definition next_tok :: "string \<Rightarrow> char \<Rightarrow> string \<Rightarrow> parse_error + tok \<times> string" where
  "next_tok src b rest =
     (if b = CHR ''('' then Inr (T_LParen, rest)
      else if b = CHR '')'' then Inr (T_RParen, rest)
      else if b = CHR '','' then Inr (T_Comma, rest)
      else if b = CHR ''&'' then Inr (T_And, rest)
      else if b = CHR ''|'' then Inr (T_Or, rest)
      else if b = CHR ''='' then
        (if peek_is (CHR ''='') rest then Inr (T_Eq, tl rest)
         else Inl (lex_err src rest ''expected `==`, saw `=`''))
      else if b = CHR ''!'' then Inr (with_eq T_NotEq T_Not rest)
      else if b = CHR ''>'' then Inr (with_eq T_GtEq T_Gt rest)
      else if b = CHR ''<'' then Inr (with_eq T_LtEq T_Lt rest)
      else if b = CHR 0x22 \<or> b = CHR 0x27 then lex_string src b rest
      else if b = CHR ''-'' \<or> is_ascii_digit b then lex_number src (b # rest)
      else if is_ident_start b then lex_ident_or_keyword src (b # rest)
      else Inl (lex_err src (b # rest) (''unexpected char `'' @ latin1_utf8 b @ ''`'')))"

lemma lex_path_unfold:
  assumes "dropWhile is_ident_cont rest = b # bs"
  shows "b \<noteq> CHR ''['' \<Longrightarrow> lex_path src rest = Inr ((takeWhile is_ident_cont rest, False), b # bs)"
    and "b = CHR ''['' \<Longrightarrow> lex_path src rest =
      res_bind (lex_bracket src bs) (\<lambda>(g, r2). res_bind (lex_path src r2)
        (\<lambda>((more, _), r3). Inr ((takeWhile is_ident_cont rest @ b # g @ more, True), r3)))"
  using assms
  by (simp_all add: lex_path.simps [of src rest] Let_def split: sum.split)

lemma lex_path_end:
  "dropWhile is_ident_cont rest = [] \<Longrightarrow> lex_path src rest = Inr ((takeWhile is_ident_cont rest, False), [])"
  by (subst lex_path.simps) (simp add: Let_def del: dropWhile_eq_Nil_conv)

lemma lex_path_shorter: "lex_path src rest = Inr (p, r) \<Longrightarrow> length r \<le> length (dropWhile is_ident_cont rest)"
proof (induction "length rest" arbitrary: rest p rule: less_induct)
  case less
  show ?case
  proof (cases "dropWhile is_ident_cont rest")
    case Nil
    with less.prems show ?thesis by (simp add: lex_path_end)
  next
    case (Cons b bs)
    show ?thesis
    proof (cases "b = CHR ''[''")
      case False
      with Cons less.prems show ?thesis by (simp add: lex_path_unfold)
    next
      case True
      with Cons less.prems obtain g r2 p' where g: "lex_bracket src bs = Inr (g, r2)"
        and rest: "lex_path src r2 = Inr (p', r)"
        by (auto simp: lex_path_unfold res_bind_eq_Inr)
      have r2: "length r2 \<le> length bs" using lex_bracket_ok [OF g] by simp
      have "length bs < length rest"
        using Cons length_dropWhile_le [of is_ident_cont rest] by simp
      with r2 less.hyps [OF _ rest] have "length r \<le> length (dropWhile is_ident_cont r2)" by simp
      also have "\<dots> \<le> length r2" by (rule length_dropWhile_le)
      finally show ?thesis using Cons r2 by simp
    qed
  qed
qed

lemma lex_ident_shorter:
  assumes "lex_ident_or_keyword src (b # rest) = Inr (t, r)" "is_ident_start b"
  shows "length r \<le> length rest"
proof -
  have "is_ident_cont b"
    using assms(2) by (auto simp: is_ident_start_def is_ident_cont_def is_ascii_alphanumeric_def)
  moreover obtain p where "lex_path src (b # rest) = Inr (p, r)"
    using assms(1) by (auto simp: lex_ident_or_keyword_def res_bind_eq_Inr)
  ultimately show ?thesis
    using lex_path_shorter [of src "b # rest" p r] length_dropWhile_le [of is_ident_cont rest] by simp
qed

lemma lex_number_shorter:
  assumes "lex_number src (b # rest) = Inr (t, r)" "b = CHR ''-'' \<or> is_ascii_digit b"
  shows "length r \<le> length rest"
proof -
  define r1 where "r1 = dropWhile is_ascii_digit (drop (if b = CHR ''-'' then 1 else 0) (b # rest))"
  have r1: "length r1 \<le> length rest"
    using assms(2) by (auto simp: r1_def length_dropWhile_le)
  have "length (dropWhile is_ascii_digit (tl r1)) \<le> length r1"
    using length_dropWhile_le [of is_ascii_digit "tl r1"] by simp
  with r1 show ?thesis
    using assms(1)
    by (cases "b = CHR ''-''")
      (auto simp: lex_number_def Let_def r1_def split: option.splits if_splits)
qed

definition leaves_at_most :: "nat \<Rightarrow> parse_error + tok \<times> string \<Rightarrow> bool" where
  "leaves_at_most n res \<longleftrightarrow> (\<forall>t r. res = Inr (t, r) \<longrightarrow> length r \<le> n)"

lemma leaves_at_most_if:
  "(c \<Longrightarrow> leaves_at_most n x) \<Longrightarrow> (\<not> c \<Longrightarrow> leaves_at_most n y) \<Longrightarrow> leaves_at_most n (if c then x else y)"
  by simp

lemma leaves_at_most_ok:
  "length r \<le> n \<Longrightarrow> leaves_at_most n (Inr (t, r))"
  "leaves_at_most n (Inl e)"
  "leaves_at_most (length r) (Inr (with_eq t1 t2 r))"
  "leaves_at_most (length r) (lex_string src q r)"
  "b = CHR ''-'' \<or> is_ascii_digit b \<Longrightarrow> leaves_at_most (length r) (lex_number src (b # r))"
  "is_ident_start b \<Longrightarrow> leaves_at_most (length r) (lex_ident_or_keyword src (b # r))"
  using lex_number_shorter lex_ident_shorter
  by (auto simp: leaves_at_most_def with_eq_def lex_string_def split_once_eq_Some
      split: option.splits if_splits)

lemma next_tok_shorter: "next_tok src b rest = Inr (t, r) \<Longrightarrow> length r \<le> length rest"
proof -
  have "leaves_at_most (length rest) (next_tok src b rest)"
    unfolding next_tok_def by (intro leaves_at_most_if leaves_at_most_ok) simp_all
  then show "next_tok src b rest = Inr (t, r) \<Longrightarrow> length r \<le> length rest"
    by (simp add: leaves_at_most_def)
qed

function tokenize_all :: "string \<Rightarrow> string \<Rightarrow> tok list \<Rightarrow> parse_error + tok list" where
  "tokenize_all src rest out =
     (case skip_ws rest of
        [] \<Rightarrow> Inr out
      | b # bs \<Rightarrow>
          (case next_tok src b bs of
             Inl e \<Rightarrow> Inl e
           | Inr (tk, rest') \<Rightarrow> tokenize_all src rest' (out @ [tk])))"
  by pat_completeness auto
termination
proof (relation "measure (\<lambda>(_, rest, _). length rest)", simp, goal_cases)
  case (1 src rest out b bs x tk rest')
  then have "length rest' \<le> length bs" using next_tok_shorter by blast
  moreover have "length (b # bs) \<le> length rest"
    using 1(1) length_dropWhile_le [of is_ascii_whitespace rest] by (simp add: skip_ws_def)
  ultimately show ?case by simp
qed

declare tokenize_all.simps [simp del]

definition lexer_tokens :: "string \<Rightarrow> parse_error + tok list" where
  "lexer_tokens src = tokenize_all src src []"

end
