(* ===== verification/Predicate_Parser.thy ===== *)
theory Predicate_Parser
  imports Predicate_Lexer
begin

text \<open>
  The recursive-descent parser of predicates, \<^verbatim>\<open>PredParser\<close> in
  \<^verbatim>\<open>crates/ppe-apl-core/src/parser.rs\<close>.  The parser's state is the list of tokens that are left.

  \<^verbatim>\<open>parse_or\<close> calls \<^verbatim>\<open>parse_and\<close>, that calls \<^verbatim>\<open>parse_unary\<close>, that calls \<^verbatim>\<open>parse_atom\<close>, which calls
  \<^verbatim>\<open>parse_or\<close> again inside parentheses.  Each definition takes the parser it calls as an argument, and
  \<open>parse_or\<close> ties the knot with a fuel argument that goes down once per pair of parentheses;
  \<open>None\<close> means that the fuel ran out.  \<^verbatim>\<open>parse_predicate\<close> supplies \<open>pred_fuel\<close>, and
  \<open>parse_or_enough\<close> shows that it never runs out.
\<close>

subsection \<open>Tokens in messages\<close>

definition debug_f64 :: "f64 \<Rightarrow> string" where
  "debug_f64 x =
     (case x of
        F64_NaN \<Rightarrow> ''NaN''
      | F64_Inf neg \<Rightarrow> if neg then ''-inf'' else ''inf''
      | F64_Fin neg m e \<Rightarrow>
          let num = (if 0 \<le> e then m * 2 ^ nat e else m);
              den = (if 0 \<le> e then 1 else 2 ^ nat (- e));
              (d, s) = shortest_digits 20 1 (F64_Fin False m e) num den (dec_point num den);
              ds = nat_to_string d;
              k = int (length ds) + s;
              body = (if m = 0 then ''0.0''
                      else if 17 \<le> k \<or> k \<le> - 5
                      then (hd ds # (if tl ds = [] then [] else CHR ''.'' # tl ds)) @ ''e'' @ int_to_string (k - 1)
                      else if 0 \<le> s then place_digits ds s @ ''.0''
                      else place_digits ds s)
          in if neg then CHR ''-'' # body else body)"

definition debug_tok :: "tok \<Rightarrow> string" where
  "debug_tok t =
     (case t of
        T_Ident s \<Rightarrow> ''Ident('' @ debug_string s @ '')''
      | T_StringLit s \<Rightarrow> ''StringLit('' @ debug_string s @ '')''
      | T_IntLit i \<Rightarrow> ''IntLit('' @ int_to_string i @ '')''
      | T_FloatLit f \<Rightarrow> ''FloatLit('' @ debug_f64 f @ '')''
      | T_BoolLit b \<Rightarrow> ''BoolLit('' @ bool_to_string b @ '')''
      | T_Eq \<Rightarrow> ''Eq'' | T_NotEq \<Rightarrow> ''NotEq'' | T_Gt \<Rightarrow> ''Gt'' | T_GtEq \<Rightarrow> ''GtEq''
      | T_Lt \<Rightarrow> ''Lt'' | T_LtEq \<Rightarrow> ''LtEq'' | T_And \<Rightarrow> ''And'' | T_Or \<Rightarrow> ''Or'' | T_Not \<Rightarrow> ''Not''
      | T_LParen \<Rightarrow> ''LParen'' | T_RParen \<Rightarrow> ''RParen'' | T_Comma \<Rightarrow> ''Comma''
      | T_Contains \<Rightarrow> ''Contains'' | T_Require \<Rightarrow> ''Require'' | T_Exists \<Rightarrow> ''Exists'' | T_In \<Rightarrow> ''In'')"

definition debug_toks :: "tok list \<Rightarrow> string" where
  "debug_toks ts = ''['' @ join_comma (map debug_tok ts) @ '']''"

fun peek_tok :: "tok list \<Rightarrow> tok option" where
  "peek_tok [] = None"
| "peek_tok (t # ts) = Some t"

definition pred_err :: "string \<Rightarrow> string \<Rightarrow> parse_error" where
  "pred_err src msg = PE_Predicate src msg"

subsection \<open>Atoms\<close>

type_synonym parsed = "parse_error + expression \<times> tok list"

definition finish_in_set :: "string \<Rightarrow> string \<Rightarrow> bool \<Rightarrow> tok list \<Rightarrow> parsed" where
  "finish_in_set src value_key negate toks =
     (case toks of
        T_Ident set_key # ts \<Rightarrow> Inr (Cond (InSet value_key set_key negate), ts)
      | _ \<Rightarrow>
          Inl (pred_err src (''expected set-attribute identifier after `''
            @ (if negate then ''not '' else []) @ ''in`, got '' @ debug_option debug_tok (peek_tok toks))))"

definition tok_compare_op :: "tok option \<Rightarrow> compare_op option" where
  "tok_compare_op t =
     (case t of
        Some T_Eq \<Rightarrow> Some CmpEq
      | Some T_NotEq \<Rightarrow> Some CmpNotEq
      | Some T_Gt \<Rightarrow> Some CmpGt
      | Some T_GtEq \<Rightarrow> Some CmpGtEq
      | Some T_Lt \<Rightarrow> Some CmpLt
      | Some T_LtEq \<Rightarrow> Some CmpLtEq
      | Some T_Contains \<Rightarrow> Some CmpContains
      | _ \<Rightarrow> None)"

definition parse_rhs :: "string \<Rightarrow> tok list \<Rightarrow> parse_error + literal \<times> tok list" where
  "parse_rhs src toks =
     (case toks of
        T_StringLit s # ts \<Rightarrow> Inr (LString s, ts)
      | T_IntLit i # ts \<Rightarrow> Inr (LInt i, ts)
      | T_FloatLit f # ts \<Rightarrow> Inr (LFloat f, ts)
      | T_BoolLit b # ts \<Rightarrow> Inr (LBool b, ts)
      | T_Ident _ # ts \<Rightarrow>
          Inl (pred_err src (''RHS-as-identifier on comparison operators not supported ''
            @ [CHR 0xE2, CHR 0x80, CHR 0x94] @ '' for set membership use `value_key in set_key`''))
      | _ \<Rightarrow>
          Inl (pred_err src (''expected literal RHS, got '' @ debug_option debug_tok (peek_tok toks))))"

definition parse_comparison :: "string \<Rightarrow> string \<Rightarrow> tok list \<Rightarrow> parsed" where
  "parse_comparison src key toks =
     (case tok_compare_op (peek_tok toks) of
        None \<Rightarrow> Inr (Cond (IsTrue key), toks)
      | Some op \<Rightarrow>
          res_bind (parse_rhs src (tl toks)) (\<lambda>(v, ts). Inr (Cond (Comparison key op v), ts)))"

text \<open>
  A phrase \<^verbatim>\<open>not in\<close> arrives as the identifier \<^verbatim>\<open>not\<close> followed by \<^verbatim>\<open>In\<close>; a \<^verbatim>\<open>not\<close> followed by
  anything else is put back.
\<close>

definition parse_identifier_predicate :: "string \<Rightarrow> tok list \<Rightarrow> parsed" where
  "parse_identifier_predicate src toks =
     (case toks of
        T_Ident key # T_In # ts \<Rightarrow> finish_in_set src key False ts
      | T_Ident key # ts \<Rightarrow>
          if take 2 ts = [T_Ident ''not'', T_In] then finish_in_set src key True (drop 2 ts)
          else parse_comparison src key ts
      | _ \<Rightarrow> Inl (pred_err src ''expected an identifier at the start of a predicate''))"

definition parse_exists :: "string \<Rightarrow> tok list \<Rightarrow> parsed" where
  "parse_exists src toks =
     (case tl toks of
        T_LParen # ts1 \<Rightarrow>
          (case ts1 of
             T_Ident key # ts2 \<Rightarrow>
               (case ts2 of
                  T_RParen # ts3 \<Rightarrow> Inr (Cond (Exists key), ts3)
                | _ \<Rightarrow>
                    Inl (pred_err src (''expected `)` after exists() argument, got ''
                      @ debug_option debug_tok (peek_tok ts2))))
           | _ \<Rightarrow>
               Inl (pred_err src (''exists(...) expects an attribute key, got ''
                 @ debug_option debug_tok (peek_tok ts1))))
      | _ \<Rightarrow> Inl (pred_err src ''expected `(` after `exists`''))"

subsection \<open>The descent\<close>

definition fbind :: "(parse_error + 'a \<times> tok list) option \<Rightarrow>
    ('a \<Rightarrow> tok list \<Rightarrow> (parse_error + 'b \<times> tok list) option) \<Rightarrow> (parse_error + 'b \<times> tok list) option" where
  "fbind r f =
     (case r of None \<Rightarrow> None | Some (Inl e) \<Rightarrow> Some (Inl e) | Some (Inr (x, ts)) \<Rightarrow> f x ts)"

definition group_parts :: "(expression list \<Rightarrow> expression) \<Rightarrow> expression \<Rightarrow> expression list \<Rightarrow> expression" where
  "group_parts mk first rest = (if rest = [] then first else mk (first # rest))"

text \<open>
  The match of \<^verbatim>\<open>parse_atom\<close> on the next token: the tokens after an opening parenthesis, or the
  result of the forms that do not recurse.
\<close>

definition atom_start :: "string \<Rightarrow> tok list \<Rightarrow> tok list + parsed" where
  "atom_start src toks =
     (case peek_tok toks of
        Some T_LParen \<Rightarrow> Inl (tl toks)
      | Some T_Require \<Rightarrow>
          Inr (Inl (pred_err src (''`require(...)` is a rule-level shorthand, not a sub-predicate ''
            @ [CHR 0xE2, CHR 0x80, CHR 0x94] @ '' use `&` / `|` / `!` over bare identifiers instead'')))
      | Some T_Exists \<Rightarrow> Inr (parse_exists src toks)
      | Some (T_Ident _) \<Rightarrow> Inr (parse_identifier_predicate src toks)
      | _ \<Rightarrow> Inr (Inl (pred_err src (''expected atom, got '' @ debug_option debug_tok (peek_tok toks)))))"

lemma atom_start_paren: "atom_start src toks = Inl ts \<longleftrightarrow> toks = T_LParen # ts"
  by (cases toks) (auto simp: atom_start_def split: tok.splits)

lemma atom_start_other:
  assumes "atom_start src toks = Inr res"
  obtains e where "res = Inl e" | "res = parse_exists src toks" | "res = parse_identifier_predicate src toks"
  using assms by (auto simp: atom_start_def split: option.splits tok.splits)

definition parse_atom :: "string \<Rightarrow> (tok list \<Rightarrow> parsed option) \<Rightarrow> tok list \<Rightarrow> parsed option" where
  "parse_atom src p_or toks =
     (case atom_start src toks of
        Inl ts \<Rightarrow>
          fbind (p_or ts) (\<lambda>e ts'.
            if peek_tok ts' = Some T_RParen then Some (Inr (e, tl ts'))
            else Some (Inl (pred_err src ''expected `)`'')))
      | Inr res \<Rightarrow> Some res)"

primrec parse_unary :: "(tok list \<Rightarrow> parsed option) \<Rightarrow> tok list \<Rightarrow> parsed option" where
  "parse_unary p_atom [] = p_atom []"
| "parse_unary p_atom (t # ts) =
     (if t = T_Not then fbind (parse_unary p_atom ts) (\<lambda>e ts'. Some (Inr (Not e, ts')))
      else p_atom (t # ts))"

text \<open>
  The loop \<^verbatim>\<open>while matches!(self.peek(), Some(sep))\<close> of \<^verbatim>\<open>parse_and\<close> and \<^verbatim>\<open>parse_or\<close>; each round uses up
  a token, so the number of tokens is enough fuel for it.
\<close>

primrec sep_rest ::
    "tok \<Rightarrow> (tok list \<Rightarrow> parsed option) \<Rightarrow> nat \<Rightarrow> tok list \<Rightarrow> (parse_error + expression list \<times> tok list) option" where
  "sep_rest sep part 0 toks = None"
| "sep_rest sep part (Suc n) toks =
     (if peek_tok toks = Some sep
      then fbind (part (tl toks)) (\<lambda>e ts.
             fbind (sep_rest sep part n ts) (\<lambda>es ts'. Some (Inr (e # es, ts'))))
      else Some (Inr ([], toks)))"

definition parse_and :: "(tok list \<Rightarrow> parsed option) \<Rightarrow> tok list \<Rightarrow> parsed option" where
  "parse_and p_unary toks =
     fbind (p_unary toks) (\<lambda>first ts.
       fbind (sep_rest T_And p_unary (Suc (length ts)) ts) (\<lambda>rest ts'.
         Some (Inr (group_parts And first rest, ts'))))"

definition parse_or_of :: "(tok list \<Rightarrow> parsed option) \<Rightarrow> tok list \<Rightarrow> parsed option" where
  "parse_or_of p_and toks =
     fbind (p_and toks) (\<lambda>first ts.
       fbind (sep_rest T_Or p_and (Suc (length ts)) ts) (\<lambda>rest ts'.
         Some (Inr (group_parts Or first rest, ts'))))"

primrec parse_or :: "string \<Rightarrow> nat \<Rightarrow> tok list \<Rightarrow> parsed option" where
  "parse_or src 0 = (\<lambda>toks. None)"
| "parse_or src (Suc n) = parse_or_of (parse_and (parse_unary (parse_atom src (parse_or src n))))"

definition pred_fuel :: "tok list \<Rightarrow> nat" where
  "pred_fuel toks = Suc (length toks)"

definition pred_parse :: "string \<Rightarrow> (parse_error + expression) option" where
  "pred_parse src =
     (case lexer_tokens src of
        Inl e \<Rightarrow> Some (Inl e)
      | Inr toks \<Rightarrow>
          (case parse_or src (pred_fuel toks) toks of
             None \<Rightarrow> None
           | Some (Inl e) \<Rightarrow> Some (Inl e)
           | Some (Inr (e, ts)) \<Rightarrow>
               if ts \<noteq> [] then
                 Some (Inl (pred_err src (''trailing tokens after expression: '' @ debug_toks ts)))
               else Some (Inr e)))"

definition parse_predicate :: "string \<Rightarrow> (parse_error + expression) option" where
  "parse_predicate src = pred_parse (trim src)"

subsection \<open>The fuel is enough\<close>

lemma fbind_eq_Inr:
  "fbind r f = Some (Inr (y, ts')) \<longleftrightarrow> (\<exists>x ts. r = Some (Inr (x, ts)) \<and> f x ts = Some (Inr (y, ts')))"
  by (auto simp: fbind_def split: option.splits sum.splits)

lemma fbind_eq_None:
  "fbind r f = None \<longleftrightarrow> r = None \<or> (\<exists>x ts. r = Some (Inr (x, ts)) \<and> f x ts = None)"
  by (auto simp: fbind_def split: option.splits sum.splits)

lemma fbind_Inr [simp]: "fbind (Some (Inr (x, ts))) f = f x ts"
  by (simp add: fbind_def)

lemma peek_tok_SomeD: "peek_tok toks = Some t \<Longrightarrow> \<exists>ts. toks = t # ts"
  by (cases toks) auto

lemma finish_in_set_shorter: "finish_in_set src k neg toks = Inr (e, ts) \<Longrightarrow> length ts < length toks"
  by (auto simp: finish_in_set_def split: list.splits tok.splits)

lemma parse_rhs_shorter: "parse_rhs src toks = Inr (v, ts) \<Longrightarrow> length ts < length toks"
  by (auto simp: parse_rhs_def split: list.splits tok.splits)

lemma parse_comparison_shorter: "parse_comparison src k toks = Inr (e, ts) \<Longrightarrow> length ts \<le> length toks"
  by (cases toks)
    (auto simp: parse_comparison_def res_bind_eq_Inr tok_compare_op_def
      dest!: parse_rhs_shorter split: option.splits)

lemma parse_identifier_shorter:
  "parse_identifier_predicate src toks = Inr (e, ts) \<Longrightarrow> length ts < length toks"
  unfolding parse_identifier_predicate_def
  by (auto dest!: finish_in_set_shorter parse_comparison_shorter
      split: list.splits tok.splits if_splits)

lemma parse_exists_shorter: "parse_exists src toks = Inr (e, ts) \<Longrightarrow> length ts < length toks"
  by (cases toks) (auto simp: parse_exists_def split: list.splits tok.splits)

text \<open>An answer that leaves fewer than \<open>k\<close> tokens, and parsers that give one on every input of at most \<open>m\<close>.\<close>

definition answers :: "nat \<Rightarrow> (parse_error + 'a \<times> tok list) option \<Rightarrow> bool" where
  "answers k r \<longleftrightarrow> r \<noteq> None \<and> (\<forall>x ts. r = Some (Inr (x, ts)) \<longrightarrow> length ts < k)"

definition progress :: "nat \<Rightarrow> (tok list \<Rightarrow> (parse_error + 'a \<times> tok list) option) \<Rightarrow> bool" where
  "progress m p \<longleftrightarrow> (\<forall>toks. length toks \<le> m \<longrightarrow> answers (length toks) (p toks))"

lemma answers_simps [simp]:
  "answers k (Some (Inl e))" "answers k (Some (Inr (x, ts))) \<longleftrightarrow> length ts < k"
  by (simp_all add: answers_def)

lemma answers_fbind:
  assumes "answers k r" "\<And>x ts. length ts < k \<Longrightarrow> answers k' (f x ts)"
  shows "answers k' (fbind r f)"
  using assms by (auto simp: answers_def fbind_def split: sum.splits)

lemma answers_Some: "(\<And>x ts. r = Inr (x, ts) \<Longrightarrow> length ts < k) \<Longrightarrow> answers k (Some r)"
  by (simp add: answers_def)

lemma progressI: "(\<And>toks. length toks \<le> m \<Longrightarrow> answers (length toks) (p toks)) \<Longrightarrow> progress m p"
  by (simp add: progress_def)

lemma progressD: "progress m p \<Longrightarrow> length toks \<le> m \<Longrightarrow> answers (length toks) (p toks)"
  by (simp add: progress_def)

lemma progress_atom:
  assumes "\<And>toks. length toks < m \<Longrightarrow> answers (length toks) (p toks)"
  shows "progress m (parse_atom src p)"
proof (rule progressI)
  fix toks :: "tok list"
  assume len: "length toks \<le> m"
  show "answers (length toks) (parse_atom src p toks)"
  proof (cases "atom_start src toks")
    case (Inl ts0)
    then have toks: "toks = T_LParen # ts0" by (simp add: atom_start_paren)
    with len assms have "answers (length ts0) (p ts0)" by simp
    then show ?thesis
      using Inl toks by (auto simp: parse_atom_def intro!: answers_fbind)
  next
    case (Inr res)
    then have "answers (length toks) (Some res)"
      using parse_identifier_shorter parse_exists_shorter
      by (cases rule: atom_start_other) (auto intro!: answers_Some)
    with Inr show ?thesis by (simp add: parse_atom_def)
  qed
qed

lemma progress_unary:
  assumes "progress m p"
  shows "progress m (parse_unary p)"
proof (rule progressI)
  fix toks
  show "length toks \<le> m \<Longrightarrow> answers (length toks) (parse_unary p toks)"
  proof (induction toks)
    case (Cons t ts)
    then show ?case
      using progressD [OF assms, of "t # ts"] by (auto intro!: answers_fbind)
  qed (use progressD [OF assms, of "[]"] in simp)
qed

lemma sep_rest_answers:
  assumes "progress m p"
  shows "length toks \<le> m \<Longrightarrow> length toks < n \<Longrightarrow> answers (Suc (length toks)) (sep_rest sep p n toks)"
proof (induction n arbitrary: toks)
  case (Suc n)
  show ?case
  proof (cases "peek_tok toks = Some sep")
    case True
    then obtain ts0 where toks: "toks = sep # ts0" using peek_tok_SomeD by blast
    with Suc.prems have "answers (length ts0) (p ts0)" using progressD [OF assms] by simp
    moreover have "answers (Suc (length ts)) (sep_rest sep p n ts)" if "length ts < length ts0" for ts
      using Suc that toks by simp
    ultimately show ?thesis
      using toks by (auto intro!: answers_fbind)
  qed simp
qed simp

lemma progress_sep:
  assumes "progress m p"
  shows "progress m (\<lambda>toks. fbind (p toks) (\<lambda>first ts.
      fbind (sep_rest sep p (Suc (length ts)) ts) (\<lambda>rest ts'. Some (Inr (group_parts mk first rest, ts')))))"
proof (rule progressI)
  fix toks :: "tok list"
  assume len: "length toks \<le> m"
  have "answers (Suc (length ts)) (sep_rest sep p (Suc (length ts)) ts)" if "length ts < length toks" for ts
    by (rule sep_rest_answers [OF assms]) (use len that in auto)
  then show "answers (length toks) (fbind (p toks) (\<lambda>first ts.
      fbind (sep_rest sep p (Suc (length ts)) ts) (\<lambda>rest ts'. Some (Inr (group_parts mk first rest, ts')))))"
    using progressD [OF assms len] by (auto intro!: answers_fbind simp del: sep_rest.simps)
qed

lemma progress_or:
  "progress m p \<Longrightarrow> progress m (parse_or_of (parse_and (parse_unary p)))"
  unfolding parse_or_of_def [abs_def] parse_and_def [abs_def] by (intro progress_sep progress_unary)

lemma parse_or_enough: "progress n (parse_or src (Suc n))"
proof (induction n)
  case 0
  show ?case unfolding parse_or.simps(2) by (rule progress_or, rule progress_atom) simp
next
  case (Suc n)
  show ?case
    unfolding parse_or.simps(2) [of src "Suc n"]
    by (rule progress_or, rule progress_atom) (use Suc in \<open>auto simp: progress_def\<close>)
qed

lemma parse_predicate_total: "\<exists>r. parse_predicate src = Some r"
proof -
  have fuel: "parse_or s (pred_fuel toks) toks \<noteq> None" for s toks
    using parse_or_enough [of "length toks" s]
    by (simp add: progress_def answers_def pred_fuel_def del: parse_or.simps)
  show ?thesis
    using fuel [of "trim src"]
    by (cases "lexer_tokens (trim src)")
      (auto simp: parse_predicate_def pred_parse_def split: sum.split option.split)
qed

end
