(* ===== verification/Effects.thy ===== *)
theory Effects
  imports Pipelines Constraints Orchestration Predicate_Parser
begin

text \<open>
  The effect evaluator of \<^verbatim>\<open>crates/ppe-apl-core/src/evaluator.rs\<close>: \<^verbatim>\<open>dispatch_effect\<close> with its
  helpers, and \<^verbatim>\<open>evaluate_effects\<close>.  The mutable references the Rust functions share are the fields
  of one state record; the async calls to the host go through \<open>env\<close> in the order of the source.
\<close>

record route_payload =
  rp_args :: json
  rp_result :: "json option"

definition payload_new :: "json \<Rightarrow> route_payload" where
  "payload_new args = \<lparr>rp_args = args, rp_result = None\<rparr>"

definition payload_with_result :: "json \<Rightarrow> json \<Rightarrow> route_payload" where
  "payload_with_result args result = \<lparr>rp_args = args, rp_result = Some result\<rparr>"

record 'w eval_state =
  es_bag :: attribute_bag
  es_taints :: "taint_event list"
  es_constraints :: "candidate_constraint list"
  es_args_modified :: bool
  es_result_modified :: bool
  es_payload :: route_payload
  es_world :: 'w

definition eval_init :: "attribute_bag \<Rightarrow> route_payload \<Rightarrow> 'w \<Rightarrow> 'w eval_state" where
  "eval_init bag payload w =
     \<lparr>es_bag = bag, es_taints = [], es_constraints = [], es_args_modified = False,
      es_result_modified = False, es_payload = payload, es_world = w\<rparr>"

datatype effect_outcome = Continue | Halt decision | Pending pending_elicitation

definition set_key :: "string \<Rightarrow> attribute_value \<Rightarrow> 'w eval_state \<Rightarrow> 'w eval_state" where
  "set_key k v st = st\<lparr>es_bag := bag_set (es_bag st) k v\<rparr>"

definition set_opt_key :: "string \<Rightarrow> string option \<Rightarrow> 'w eval_state \<Rightarrow> 'w eval_state" where
  "set_opt_key k v st = (case v of None \<Rightarrow> st | Some s \<Rightarrow> set_key k (AString s) st)"

subsection \<open>Leaf effects\<close>

definition dispatch_plugin :: "'w env \<Rightarrow> dispatch_phase \<Rightarrow> string \<Rightarrow> 'w eval_state \<Rightarrow> effect_outcome \<times> 'w eval_state" where
  "dispatch_plugin env phase name st =
     (case en_invoke env (es_world st) name (es_bag st) (Inv_Step phase) of
        (Inr oc, w') \<Rightarrow>
          let st' = st\<lparr>es_world := w', es_taints := es_taints st @ po_taints oc\<rparr>
          in (case po_decision oc of
                Dec_Allow \<Rightarrow> (Continue, st')
              | Dec_Deny r s \<Rightarrow> (Halt (Dec_Deny r s), st'))
      | (Inl e, w') \<Rightarrow>
          (Halt (Dec_Deny (Some (''plugin `'' @ name @ ''` error: '' @ plugin_error_text e)) (''plugin:'' @ name)),
           st\<lparr>es_world := w'\<rparr>))"

definition on_error_continue :: "string option \<Rightarrow> bool" where
  "on_error_continue on_error \<longleftrightarrow> to_ascii_lowercase (unwrap_or on_error ''deny'') = ''continue''"

definition record_grant :: "delegation_outcome \<Rightarrow> 'w eval_state \<Rightarrow> 'w eval_state" where
  "record_grant oc st =
     (let st1 = set_key GRANTED (ABool True) st;
          st2 = (if do_granted_permissions oc \<noteq> []
                 then set_key GRANTED_PERMISSIONS (AStringSet (fset_of_list (do_granted_permissions oc))) st1
                 else st1);
          st3 = set_opt_key GRANTED_AUDIENCE (do_granted_audience oc) st2
      in set_opt_key GRANTED_EXPIRES_AT (do_granted_expires_at oc) st3)"

definition dispatch_delegate :: "'w env \<Rightarrow> delegate_step \<Rightarrow> 'w eval_state \<Rightarrow> effect_outcome \<times> 'w eval_state" where
  "dispatch_delegate env step st =
     (case en_delegate env (es_world st) step of
        (Inr oc, w') \<Rightarrow>
          let st' = st\<lparr>es_world := w'\<rparr>
          in (case do_decision oc of
                Dec_Allow \<Rightarrow> (Continue, record_grant oc st')
              | Dec_Deny r s \<Rightarrow>
                  if on_error_continue (ds_on_error step) then (Continue, st')
                  else (Halt (Dec_Deny r s), st'))
      | (Inl e, w') \<Rightarrow>
          if on_error_continue (ds_on_error step) then (Continue, st\<lparr>es_world := w'\<rparr>)
          else (Halt (Dec_Deny (Some (''delegate `'' @ ds_plugin_name step @ ''` error: ''
                  @ delegation_error_text e)) (ds_source step)), st\<lparr>es_world := w'\<rparr>))"

definition push_taint :: "string \<Rightarrow> taint_scope list \<Rightarrow> 'w eval_state \<Rightarrow> 'w eval_state" where
  "push_taint label scopes st = st\<lparr>es_taints := es_taints st @ [\<lparr>te_label = label, te_scopes = scopes\<rparr>]\<rparr>"

definition dispatch_restrict :: "string \<Rightarrow> restrict_spec \<Rightarrow> 'w eval_state \<Rightarrow> effect_outcome \<times> 'w eval_state" where
  "dispatch_restrict fallback spec st =
     (case restrict_resolve spec (es_bag st) of
        Inr c \<Rightarrow>
          (Continue, if \<not> constraint_is_empty c then st\<lparr>es_constraints := es_constraints st @ [c]\<rparr> else st)
      | Inl e \<Rightarrow> (Halt (Dec_Deny (Some (restrict_error_text e)) fallback), st))"

subsection \<open>Field operations\<close>

datatype field_side = Side_Args | Side_Result

definition mark_modified :: "field_side \<Rightarrow> 'w eval_state \<Rightarrow> 'w eval_state" where
  "mark_modified side st =
     (case side of
        Side_Args \<Rightarrow> st\<lparr>es_args_modified := True\<rparr>
      | Side_Result \<Rightarrow> st\<lparr>es_result_modified := True\<rparr>)"

definition write_root :: "field_side \<Rightarrow> json \<Rightarrow> 'w eval_state \<Rightarrow> 'w eval_state" where
  "write_root side root st =
     (case side of
        Side_Args \<Rightarrow> st\<lparr>es_payload := (es_payload st)\<lparr>rp_args := root\<rparr>\<rparr>
      | Side_Result \<Rightarrow> st\<lparr>es_payload := (es_payload st)\<lparr>rp_result := Some root\<rparr>\<rparr>)"

text \<open>The result of \<^verbatim>\<open>set_dotted\<close> or \<^verbatim>\<open>remove_dotted\<close> on the root: the root afterwards, and whether it worked.\<close>

definition write_field :: "field_side \<Rightarrow> json \<times> bool \<Rightarrow> 'w eval_state \<Rightarrow> 'w eval_state" where
  "write_field side res st =
     (let st' = write_root side (fst res) st
      in if snd res then mark_modified side st' else st')"

text \<open>
  The choice of the payload side: a root with the path below it, \<open>None\<close> for an operation that is
  out of phase or has no result to work on, or the error for a path with neither prefix.
\<close>

definition field_target ::
    "string \<Rightarrow> dispatch_phase \<Rightarrow> route_payload \<Rightarrow> unit + (json \<times> string \<times> field_side) option" where
  "field_target path phase payload =
     (case strip_prefix path ''args.'' of
        Some rest \<Rightarrow>
          if phase \<noteq> Pre then Inr None else Inr (Some (rp_args payload, rest, Side_Args))
      | None \<Rightarrow>
          (case strip_prefix path ''result.'' of
             Some rest \<Rightarrow>
               if phase \<noteq> Post then Inr None
               else (case rp_result payload of
                       None \<Rightarrow> Inr None
                     | Some result \<Rightarrow> Inr (Some (result, rest, Side_Result)))
           | None \<Rightarrow> Inl ()))"

definition dispatch_field_op ::
    "'w env \<Rightarrow> dispatch_phase \<Rightarrow> string \<Rightarrow> string \<Rightarrow> stage list \<Rightarrow> 'w eval_state
     \<Rightarrow> effect_outcome \<times> 'w eval_state" where
  "dispatch_field_op env phase fallback path stages st =
     (case field_target path phase (es_payload st) of
        Inl _ \<Rightarrow>
          (Halt (Dec_Deny (Some (''FieldOp path `'' @ path @ ''` must start with `args.` or `result.`'')) fallback), st)
      | Inr None \<Rightarrow> (Continue, st)
      | Inr (Some (root, subpath, side)) \<Rightarrow>
          (case get_dotted root subpath of
             None \<Rightarrow> (Continue, st)
           | Some current \<Rightarrow>
               (case evaluate_pipeline env \<lparr>pl_stages = stages\<rparr> current (es_bag st) subpath phase (es_world st) of
                  (ev, w') \<Rightarrow>
                    let st' = st\<lparr>es_taints := es_taints st @ pv_taints ev, es_world := w'\<rparr>
                    in (case pv_outcome ev of
                          FO_Pass \<Rightarrow> (Continue, st')
                        | FO_Replace new_val \<Rightarrow> (Continue, write_field side (set_dotted root subpath new_val) st')
                        | FO_Omit \<Rightarrow> (Continue, write_field side (remove_dotted root subpath) st')
                        | FO_Deny reason _ \<Rightarrow> (Halt (Dec_Deny (Some reason) fallback), st')))))"

subsection \<open>Elicitation\<close>

definition elicit_fail :: "elicit_step \<Rightarrow> string \<Rightarrow> effect_outcome" where
  "elicit_fail step reason =
     (if eq_ignore_ascii_case (unwrap_or (el_on_error step) ''deny'') ''continue'' then Continue
      else Halt (Dec_Deny (Some reason) (el_source step)))"

definition resolve_from :: "elicit_step \<Rightarrow> attribute_bag \<Rightarrow> string option" where
  "resolve_from step bag =
     (case get_string bag (el_from step) of
        Some v \<Rightarrow> Some v
      | None \<Rightarrow> if looks_like_attribute_ref (el_from step) then None else Some (el_from step))"

definition record_dispatch :: "elicit_step \<Rightarrow> elicitation_dispatch \<Rightarrow> 'w eval_state \<Rightarrow> 'w eval_state" where
  "record_dispatch step d st =
     (let st1 = set_key EL_ID (AString (ed_id d)) st;
          st2 = set_key EL_STATUS (AString ''pending'') st1;
          st3 = set_opt_key EL_CHANNEL (el_channel step) st2;
          st4 = set_opt_key EL_APPROVER (ed_approver d) st3;
          st5 = set_opt_key EL_INTENT_ID (ed_intent_id d) st4
      in set_opt_key EL_EXPIRES_AT (ed_expires_at d) st5)"

text \<open>The id of the elicitation: the one the bag carries on a retry, or that of a new dispatch.\<close>

definition elicit_id ::
    "'w env \<Rightarrow> elicit_step \<Rightarrow> string \<Rightarrow> 'w eval_state \<Rightarrow> (string + string) \<times> 'w eval_state" where
  "elicit_id env step resolved st =
     (case get_string (es_bag st) EL_ID of
        Some existing \<Rightarrow> (Inr existing, st)
      | None \<Rightarrow>
          (case en_dispatch env (es_world st) step resolved of
             (Inr d, w') \<Rightarrow> (Inr (ed_id d), record_dispatch step d (st\<lparr>es_world := w'\<rparr>))
           | (Inl e, w') \<Rightarrow>
               (Inl (''elicitation dispatch failed: '' @ elicitation_error_text e), st\<lparr>es_world := w'\<rparr>)))"

definition scope_check :: "elicit_step \<Rightarrow> attribute_bag \<Rightarrow> (string + unit) option" where
  "scope_check step bag =
     (case el_scope step of
        None \<Rightarrow> Some (Inr ())
      | Some src \<Rightarrow>
          (case parse_predicate src of
             None \<Rightarrow> None
           | Some (Inl e) \<Rightarrow>
               Some (Inl (''elicitation scope `'' @ src @ ''` failed to parse: '' @ parse_error_text e))
           | Some (Inr expr) \<Rightarrow>
               if \<not> eval_expression expr bag
               then Some (Inl (''elicitation scope not satisfied: `'' @ src @ ''`''))
               else Some (Inr ())))"

definition elicit_approved ::
    "'w env \<Rightarrow> elicit_step \<Rightarrow> string \<Rightarrow> 'w eval_state \<Rightarrow> effect_outcome \<times> 'w eval_state" where
  "elicit_approved env step eid st =
     (case en_validate env (es_world st) step eid of
        (Inl e, w') \<Rightarrow>
          (elicit_fail step (''elicitation validation failed: '' @ elicitation_error_text e), st\<lparr>es_world := w'\<rparr>)
      | (Inr v, w') \<Rightarrow>
          let st' = st\<lparr>es_world := w'\<rparr>
          in if \<not> ev_valid v
             then (elicit_fail step (''elicitation invalid: ''
                     @ unwrap_or (ev_reason v) ''response failed validation''), st')
             else (case the (scope_check step (es_bag st')) of
                     Inl reason \<Rightarrow> (elicit_fail step reason, st')
                   | Inr _ \<Rightarrow>
                       (Continue,
                        set_opt_key EL_INTENT_ID (ev_intent_id v)
                          (set_opt_key EL_APPROVER (ev_approver v)
                            (set_key EL_OUTCOME (AString ''approved'')
                              (set_key EL_STATUS (AString ''resolved'') st'))))))"

definition elicit_pending :: "elicit_step \<Rightarrow> string \<Rightarrow> 'w eval_state \<Rightarrow> effect_outcome \<times> 'w eval_state" where
  "elicit_pending step eid st =
     (let st' = set_key EL_STATUS (AString ''pending'') st
      in (Pending \<lparr>pe_id = eid, pe_plugin_name = el_plugin_name step,
                   pe_approver = get_string (es_bag st') EL_APPROVER,
                   pe_intent_id = get_string (es_bag st') EL_INTENT_ID,
                   pe_channel = el_channel step,
                   pe_expires_at = get_string (es_bag st') EL_EXPIRES_AT,
                   pe_source = el_source step\<rparr>, st'))"

definition dispatch_elicitation :: "'w env \<Rightarrow> elicit_step \<Rightarrow> 'w eval_state \<Rightarrow> effect_outcome \<times> 'w eval_state" where
  "dispatch_elicitation env step st =
     (case resolve_from step (es_bag st) of
        None \<Rightarrow>
          (elicit_fail step (''elicitation `from` attribute `'' @ el_from step
             @ ''` did not resolve to an identity''), st)
      | Some resolved \<Rightarrow>
          (case elicit_id env step resolved st of
             (Inl reason, st1) \<Rightarrow> (elicit_fail step reason, st1)
           | (Inr eid, st1) \<Rightarrow>
               (case en_check env (es_world st1) step eid of
                  (Inl e, w') \<Rightarrow>
                    (elicit_fail step (''elicitation check failed: '' @ elicitation_error_text e),
                     st1\<lparr>es_world := w'\<rparr>)
                | (Inr status, w') \<Rightarrow>
                    let st2 = st1\<lparr>es_world := w'\<rparr>
                    in (case status of
                          St_Pending \<Rightarrow> elicit_pending step eid st2
                        | St_Expired \<Rightarrow>
                            (elicit_fail step ''elicitation expired before a response'',
                             set_key EL_STATUS (AString ''expired'') st2)
                        | St_Resolved Out_Denied \<Rightarrow>
                            (Halt (Dec_Deny (Some ''elicitation denied by approver'') (el_source step)),
                             set_key EL_OUTCOME (AString ''denied'')
                               (set_key EL_STATUS (AString ''resolved'') st2))
                        | St_Resolved Out_Approved \<Rightarrow> elicit_approved env step eid st2))))"

subsection \<open>Parallel branches\<close>

type_synonym branch_result = "effect_outcome \<times> taint_event list \<times> candidate_constraint list"

definition is_halt :: "effect_outcome \<Rightarrow> bool" where
  "is_halt oc \<longleftrightarrow> (case oc of Halt _ \<Rightarrow> True | _ \<Rightarrow> False)"

text \<open>The state a branch starts from: clones of the bag and the payload, empty accumulators.\<close>

definition branch_state :: "'w env \<Rightarrow> 'w eval_state \<Rightarrow> nat \<Rightarrow> 'w eval_state" where
  "branch_state env st i = eval_init (es_bag st) (es_payload st) (en_fork env (es_world st) i)"

definition branch_fate_of ::
    "'w env \<Rightarrow> 'w \<Rightarrow> nat \<Rightarrow> effect_outcome \<times> 'w eval_state \<Rightarrow> branch_result branch_fate" where
  "branch_fate_of env w i run =
     (case en_panic env w i of
        Some msg \<Rightarrow> Panics 0 msg
      | None \<Rightarrow> Returns 0 (fst run, es_taints (snd run), es_constraints (snd run)))"

text \<open>Folding the outcomes in input order: everything completed is appended, the first halt wins.\<close>

fun gather :: "branch_result branch_outcome list \<Rightarrow> decision option \<times> taint_event list \<times> candidate_constraint list" where
  "gather [] = (None, [], [])"
| "gather (oc # ocs) =
     (case gather ocs of
        (h, ts, cs) \<Rightarrow>
          (case oc of
             Completed (eff, bts, bcs) \<Rightarrow>
               ((case eff of Halt d \<Rightarrow> Some d | _ \<Rightarrow> h), bts @ ts, bcs @ cs)
           | _ \<Rightarrow> (h, ts, cs)))"

definition parallel_config :: branch_config where
  "parallel_config = \<lparr>bc_timeout_per_branch = None, bc_short_circuit_on_deny = True\<rparr>"

definition parallel_fates ::
    "'w env \<Rightarrow> 'w eval_state \<Rightarrow> (effect_outcome \<times> 'w eval_state) list \<Rightarrow> branch_result branch_fate list" where
  "parallel_fates env st runs = map (\<lambda>(i, r). branch_fate_of env (es_world st) i r) (enumerate 0 runs)"

definition dispatch_parallel ::
    "'w env \<Rightarrow> (effect_outcome \<times> 'w eval_state) list \<Rightarrow> 'w eval_state \<Rightarrow> effect_outcome \<times> 'w eval_state" where
  "dispatch_parallel env runs st =
     (if runs = [] then (Continue, st)
      else
        let outcomes = run_branches (parallel_fates env st runs) parallel_config (\<lambda>v. is_halt (fst v))
              (en_sched env (es_world st) (length runs));
            (first_halt, ts, cs) = gather outcomes;
            st' = st\<lparr>es_taints := es_taints st @ ts, es_constraints := es_constraints st @ cs,
                     es_world := en_join env (es_world st) (map (es_world \<circ> snd) runs)\<rparr>
        in (case first_halt of Some d \<Rightarrow> (Halt d, st') | None \<Rightarrow> (Continue, st')))"

subsection \<open>The dispatcher\<close>

text \<open>
  \<open>dispatch_list\<close> is the loop the arms for \<^verbatim>\<open>Sequential\<close>, \<^verbatim>\<open>When\<close> and \<^verbatim>\<open>Pdp\<close> share: run the effects in
  order and stop at the first outcome that is not \<^verbatim>\<open>Continue\<close>.  \<open>dispatch_branches\<close> runs each
  branch of a parallel block on its own state.
\<close>

fun dispatch_effect ::
      "'w env \<Rightarrow> dispatch_phase \<Rightarrow> string \<Rightarrow> effect \<Rightarrow> 'w eval_state \<Rightarrow> effect_outcome \<times> 'w eval_state"
  and dispatch_list ::
      "'w env \<Rightarrow> dispatch_phase \<Rightarrow> string \<Rightarrow> effect list \<Rightarrow> 'w eval_state \<Rightarrow> effect_outcome \<times> 'w eval_state"
  and dispatch_branches ::
      "'w env \<Rightarrow> dispatch_phase \<Rightarrow> string \<Rightarrow> nat \<Rightarrow> effect list \<Rightarrow> 'w eval_state
       \<Rightarrow> (effect_outcome \<times> 'w eval_state) list" where
  "dispatch_effect env ph src Eff_Allow st = (Continue, st)"
| "dispatch_effect env ph src (Eff_Deny reason code) st = (Halt (Dec_Deny reason (unwrap_or code src)), st)"
| "dispatch_effect env ph src (Eff_Plugin name) st = dispatch_plugin env ph name st"
| "dispatch_effect env ph src (Eff_Delegate step) st = dispatch_delegate env step st"
| "dispatch_effect env ph src (Eff_Elicit step) st = dispatch_elicitation env step st"
| "dispatch_effect env ph src (Eff_Taint label scopes) st = (Continue, push_taint label scopes st)"
| "dispatch_effect env ph src (Eff_Restrict spec) st = dispatch_restrict src spec st"
| "dispatch_effect env ph src (Eff_FieldOp path stages) st = dispatch_field_op env ph src path stages st"
| "dispatch_effect env ph src (Eff_Sequential es) st = dispatch_list env ph src es st"
| "dispatch_effect env ph src (Eff_Parallel es) st =
     dispatch_parallel env (dispatch_branches env ph src 0 es st) st"
| "dispatch_effect env ph src (Eff_When cond body source) st =
     (if \<not> eval_expression cond (es_bag st) then (Continue, st) else dispatch_list env ph source body st)"
| "dispatch_effect env ph src (Eff_Pdp call on_allow on_deny) st =
     (case en_pdp env (es_world st) call (es_bag st) of
        (Inl e, w') \<Rightarrow>
          (Halt (Dec_Deny (Some (''PDP error: '' @ pdp_error_text e)) (''pdp:'' @ debug_dialect (pc_dialect call))),
           st\<lparr>es_world := w'\<rparr>)
      | (Inr res, w') \<Rightarrow>
          (case pdd_decision res of
             Dec_Allow \<Rightarrow> dispatch_list env ph src on_allow (st\<lparr>es_world := w'\<rparr>)
           | Dec_Deny r s \<Rightarrow>
               (case dispatch_list env ph src on_deny (st\<lparr>es_world := w'\<rparr>) of
                  (Continue, st') \<Rightarrow> (Halt (Dec_Deny r s), st')
                | (other, st') \<Rightarrow> (other, st'))))"
| "dispatch_list env ph src [] st = (Continue, st)"
| "dispatch_list env ph src (e # es) st =
     (case dispatch_effect env ph src e st of
        (Continue, st') \<Rightarrow> dispatch_list env ph src es st'
      | (other, st') \<Rightarrow> (other, st'))"
| "dispatch_branches env ph src i [] st = []"
| "dispatch_branches env ph src i (e # es) st =
     dispatch_effect env ph src e (branch_state env st i) # dispatch_branches env ph src (i + 1) es st"

record steps_evaluation =
  sv_decision :: decision
  sv_taints :: "taint_event list"
  sv_constraints :: "candidate_constraint list"
  sv_args_modified :: bool
  sv_result_modified :: bool
  sv_pending :: "pending_elicitation option"

definition steps_of :: "decision \<Rightarrow> pending_elicitation option \<Rightarrow> 'w eval_state \<Rightarrow> steps_evaluation" where
  "steps_of d p st =
     \<lparr>sv_decision = d, sv_taints = es_taints st, sv_constraints = es_constraints st,
      sv_args_modified = es_args_modified st, sv_result_modified = es_result_modified st, sv_pending = p\<rparr>"

definition fallback_source :: "effect \<Rightarrow> string" where
  "fallback_source e = (case e of Eff_When _ _ source \<Rightarrow> source | _ \<Rightarrow> [])"

fun effects_loop ::
    "'w env \<Rightarrow> dispatch_phase \<Rightarrow> effect list \<Rightarrow> 'w eval_state \<Rightarrow> steps_evaluation \<times> 'w eval_state" where
  "effects_loop env ph [] st = (steps_of Dec_Allow None st, st)"
| "effects_loop env ph (e # es) st =
     (case dispatch_effect env ph (fallback_source e) e st of
        (Continue, st') \<Rightarrow> effects_loop env ph es st'
      | (Halt d, st') \<Rightarrow> (steps_of d None st', st')
      | (Pending b, st') \<Rightarrow> (steps_of Dec_Allow (Some b) st', st'))"

definition evaluate_effects ::
    "'w env \<Rightarrow> dispatch_phase \<Rightarrow> effect list \<Rightarrow> attribute_bag \<Rightarrow> route_payload \<Rightarrow> 'w
     \<Rightarrow> steps_evaluation \<times> 'w eval_state" where
  "evaluate_effects env ph effects bag payload w = effects_loop env ph effects (eval_init bag payload w)"

end
