(* ===== verification/Effects_Props.thy ===== *)
theory Effects_Props
  imports Effects
begin

text \<open>
  What running effects can and cannot do: a proof rule for relations between the state before and
  the state after (as a locale, with its interpretations), the behaviour of the single arms, and
  the relation between the arms (sequencing, parallel blocks, the fast path).
\<close>

lemma scope_check_total: "\<exists>r. scope_check step bag = Some r"
proof (cases "el_scope step")
  case (Some src)
  obtain r where "parse_predicate src = Some r" using parse_predicate_total by blast
  with Some show ?thesis by (cases r) (auto simp: scope_check_def)
qed (simp add: scope_check_def)

lemma field_target_root:
  assumes "field_target path ph pl = Inr (Some (root, sub, side))"
  shows "side = Side_Args \<longrightarrow> ph = Pre \<and> rp_args pl = root"
    and "side = Side_Result \<longrightarrow> ph = Post \<and> rp_result pl = Some root"
  using assms by (auto simp: field_target_def split: option.splits if_splits)

lemma write_root_same:
  assumes "field_target path ph (es_payload st) = Inr (Some (root, sub, side))"
    and "es_payload st' = es_payload st"
  shows "write_root side root st' = st'"
  using field_target_root [OF assms(1)] assms(2)
  by (cases side) (simp_all add: write_root_def)

lemma set_dotted_fail: "set_dotted root path v = (root', False) \<Longrightarrow> root' = root"
  by (simp add: set_dotted_def set_path_fail)

lemma remove_dotted_fail: "remove_dotted root path = (root', False) \<Longrightarrow> root' = root"
  by (simp add: remove_dotted_def remove_path_fail)

subsection \<open>Relations every effect respects\<close>

locale effect_frame =
  fixes R :: "'w eval_state \<Rightarrow> 'w eval_state \<Rightarrow> bool" and ph :: dispatch_phase
  assumes R_refl: "R st st"
    and R_trans: "R a b \<Longrightarrow> R b c \<Longrightarrow> R a c"
    and R_world: "R st (st\<lparr>es_world := w\<rparr>)"
    and R_taints: "R st (st\<lparr>es_taints := es_taints st @ ts\<rparr>)"
    and R_constraints: "R st (st\<lparr>es_constraints := es_constraints st @ cs\<rparr>)"
    and R_key: "R st (set_key k v st)"
    and R_write: "field_target path ph (es_payload st) = Inr (Some (root, sub, side)) \<Longrightarrow>
          R st (mark_modified side (write_root side root' st))"
begin

lemma R_opt_key: "R st (set_opt_key k v st)"
  by (cases v) (simp_all add: set_opt_key_def R_refl R_key)

lemma R_steps:
  "R a b \<Longrightarrow> R a (b\<lparr>es_world := w\<rparr>)"
  "R a b \<Longrightarrow> R a (b\<lparr>es_taints := es_taints b @ ts\<rparr>)"
  "R a b \<Longrightarrow> R a (b\<lparr>es_constraints := es_constraints b @ cs\<rparr>)"
  "R a b \<Longrightarrow> R a (set_key k v b)"
  "R a b \<Longrightarrow> R a (set_opt_key k u b)"
  using R_trans R_world R_taints R_constraints R_key R_opt_key by blast+

lemma R_plugin: "dispatch_plugin env ph' name st = (oc, st') \<Longrightarrow> R st st'"
proof -
  assume "dispatch_plugin env ph' name st = (oc, st')"
  then consider w where "st' = st\<lparr>es_world := w\<rparr>"
    | w ts where "st' = (st\<lparr>es_world := w\<rparr>)\<lparr>es_taints := es_taints (st\<lparr>es_world := w\<rparr>) @ ts\<rparr>"
    by (auto simp: dispatch_plugin_def Let_def split: prod.splits sum.splits decision.splits)
  then show "R st st'"
  proof cases
    case (2 w ts)
    then show ?thesis using R_steps(2) [OF R_world [of st w]] by (simp only:)
  qed (simp add: R_world)
qed

lemma R_delegate: "dispatch_delegate env step st = (oc, st') \<Longrightarrow> R st st'"
  by (auto simp: dispatch_delegate_def record_grant_def Let_def intro!: R_steps R_refl
      split: prod.splits sum.splits decision.splits if_splits)

lemma R_restrict: "dispatch_restrict src spec st = (oc, st') \<Longrightarrow> R st st'"
  by (auto simp: dispatch_restrict_def intro: R_constraints R_refl split: sum.splits if_splits)

lemma R_elicit_id: "elicit_id env step resolved st = (r, st') \<Longrightarrow> R st st'"
  by (auto simp: elicit_id_def record_dispatch_def Let_def intro!: R_steps R_refl
      split: option.splits prod.splits sum.splits)

lemma R_elicit_approved: "elicit_approved env step eid st = (oc, st') \<Longrightarrow> R st st'"
  by (auto simp: elicit_approved_def Let_def intro!: R_steps R_refl
      split: prod.splits sum.splits if_splits)

lemma R_elicitation:
  assumes "dispatch_elicitation env step st = (oc, st')"
  shows "R st st'"
proof (cases "resolve_from step (es_bag st)")
  case (Some resolved)
  obtain r st1 where id: "elicit_id env step resolved st = (r, st1)" by force
  have st1: "R st st1" using R_elicit_id [OF id] .
  show ?thesis
  proof (cases r)
    case (Inr eid)
    obtain c w' where check: "en_check env (es_world st1) step eid = (c, w')" by force
    have st2: "R st (st1\<lparr>es_world := w'\<rparr>)" using R_steps(1) st1 by blast
    then have "elicit_approved env step eid (st1\<lparr>es_world := w'\<rparr>) = (oc, st') \<Longrightarrow> R st st'"
      using R_elicit_approved R_trans by blast
    with assms Some id Inr check st2 show ?thesis
      by (auto simp: dispatch_elicitation_def elicit_pending_def Let_def intro!: R_steps(4)
          split: sum.splits elicitation_status.splits elicitation_outcome.splits)
  qed (use assms Some id st1 in \<open>auto simp: dispatch_elicitation_def\<close>)
qed (use assms in \<open>auto simp: dispatch_elicitation_def R_refl\<close>)

lemma R_field_op:
  assumes "dispatch_field_op env ph src path stages st = (oc, st')"
  shows "R st st'"
proof (cases "field_target path ph (es_payload st)")
  case (Inr t)
  show ?thesis
  proof (cases t)
    case (Some rss)
    obtain root sub side where t: "rss = (root, sub, side)" by (cases rss)
    note target = Inr [unfolded Some t]
    show ?thesis
    proof (cases "get_dotted root sub")
      case (Some current)
      obtain ev w' where ev: "evaluate_pipeline env \<lparr>pl_stages = stages\<rparr> current (es_bag st) sub ph (es_world st) = (ev, w')"
        by force
      let ?st = "st\<lparr>es_taints := es_taints st @ pv_taints ev, es_world := w'\<rparr>"
      have mid: "R st ?st" by (rule R_steps(1), rule R_taints)
      have same: "write_root side root ?st = ?st" by (rule write_root_same [OF target]) simp
      have "R ?st (mark_modified side (write_root side root' ?st))" for root'
        by (rule R_write) (use target in simp)
      then have "R st (mark_modified side (write_root side root' ?st))" for root'
        using mid R_trans by blast
      then have written: "R st (write_field side res ?st)" if "\<not> snd res \<Longrightarrow> fst res = root" for res
        using that same mid by (cases "snd res") (simp_all add: write_field_def Let_def)
      have set: "R st (write_field side (set_dotted root sub v) ?st)" for v
        by (rule written) (metis prod.collapse set_dotted_fail)
      have remove: "R st (write_field side (remove_dotted root sub) ?st)"
        by (rule written) (metis prod.collapse remove_dotted_fail)
      show ?thesis
        using assms target Some ev mid set remove
        by (cases "pv_outcome ev") (auto simp: dispatch_field_op_def Let_def)
    qed (use assms target in \<open>auto simp: dispatch_field_op_def R_refl\<close>)
  qed (use assms Inr in \<open>auto simp: dispatch_field_op_def R_refl\<close>)
qed (use assms in \<open>auto simp: dispatch_field_op_def R_refl\<close>)

lemma R_parallel: "dispatch_parallel env runs st = (oc, st') \<Longrightarrow> R st st'"
proof -
  assume "dispatch_parallel env runs st = (oc, st')"
  then consider "st' = st"
    | ts cs w where "st' = st\<lparr>es_taints := es_taints st @ ts, es_constraints := es_constraints st @ cs, es_world := w\<rparr>"
    by (auto simp: dispatch_parallel_def Let_def split: prod.splits option.splits if_splits)
  then show "R st st'"
  proof cases
    case (2 ts cs w)
    let ?a = "st\<lparr>es_taints := es_taints st @ ts\<rparr>"
    have "R st (?a\<lparr>es_constraints := es_constraints ?a @ cs, es_world := w\<rparr>)"
      using R_taints [of st ts] R_steps(1,3) by blast
    with 2 show ?thesis by simp
  qed (simp add: R_refl)
qed

lemma R_list:
  assumes "\<And>e src st oc st'. e \<in> set es \<Longrightarrow> dispatch_effect env ph src e st = (oc, st') \<Longrightarrow> R st st'"
  shows "dispatch_list env ph src es st = (oc, st') \<Longrightarrow> R st st'"
  using assms
proof (induction es arbitrary: st)
  case (Cons e es)
  obtain oc1 st1 where e: "dispatch_effect env ph src e st = (oc1, st1)" by force
  then have st1: "R st st1" using Cons.prems(2) [OF _ e] by simp
  show ?case
  proof (cases oc1)
    case Continue
    with Cons.prems(1) e have "dispatch_list env ph src es st1 = (oc, st')" by simp
    then have "R st1 st'" by (rule Cons.IH) (rule Cons.prems(2), simp_all)
    with st1 show ?thesis by (rule R_trans)
  qed (use Cons.prems e st1 in auto)
qed (simp add: R_refl)

lemma R_dispatch: "dispatch_effect env ph src e st = (oc, st') \<Longrightarrow> R st st'"
proof (induction e arbitrary: src st oc st')
  case (Eff_Sequential es)
  then show ?case using R_list [of es env src st oc st'] by simp
next
  case (Eff_When c body source)
  then show ?case using R_list [of body env source st oc st'] by (auto simp: R_refl split: if_splits)
next
  case (Eff_Pdp call on_allow on_deny)
  obtain r w where pdp: "en_pdp env (es_world st) call (es_bag st) = (r, w)" by force
  let ?st = "st\<lparr>es_world := w\<rparr>"
  have lists: "dispatch_list env ph src es ?st = (oc', st'') \<Longrightarrow> R st st''"
    if "es = on_allow \<or> es = on_deny" for es oc' st''
    using that R_list [of es env src ?st oc' st''] Eff_Pdp.IH R_world R_trans by metis
  obtain oc1 st1 where deny: "dispatch_list env ph src on_deny ?st = (oc1, st1)" by force
  show ?case
    using Eff_Pdp.prems pdp deny lists [of on_allow] lists [of on_deny oc1 st1]
    by (auto simp: R_world split: sum.splits decision.splits effect_outcome.splits)
qed (auto simp: push_taint_def intro: R_refl R_taints R_plugin R_delegate R_elicitation R_restrict R_field_op R_parallel)

end

subsection \<open>Accumulators only grow; each phase touches its own side\<close>

definition grows :: "'w eval_state \<Rightarrow> 'w eval_state \<Rightarrow> bool" where
  "grows a b \<longleftrightarrow>
     (\<exists>ts. es_taints b = es_taints a @ ts) \<and> (\<exists>cs. es_constraints b = es_constraints a @ cs)
     \<and> (es_args_modified a \<longrightarrow> es_args_modified b) \<and> (es_result_modified a \<longrightarrow> es_result_modified b)"

interpretation gr: effect_frame grows ph for ph
  by unfold_locales
    (auto simp: grows_def set_key_def mark_modified_def write_root_def split: field_side.splits)

definition side_frame :: "dispatch_phase \<Rightarrow> 'w eval_state \<Rightarrow> 'w eval_state \<Rightarrow> bool" where
  "side_frame ph a b \<longleftrightarrow>
     (ph = Pre \<longrightarrow> rp_result (es_payload b) = rp_result (es_payload a)
        \<and> es_result_modified b = es_result_modified a
        \<and> (\<not> es_args_modified b \<longrightarrow> \<not> es_args_modified a \<and> rp_args (es_payload b) = rp_args (es_payload a)))
     \<and> (ph = Post \<longrightarrow> rp_args (es_payload b) = rp_args (es_payload a)
        \<and> es_args_modified b = es_args_modified a
        \<and> (\<not> es_result_modified b \<longrightarrow>
             \<not> es_result_modified a \<and> rp_result (es_payload b) = rp_result (es_payload a)))"

interpretation sf: effect_frame "side_frame ph" ph for ph
proof unfold_locales
  fix path root sub side root' and st :: "'b eval_state"
  assume "field_target path ph (es_payload st) = Inr (Some (root, sub, side))"
  from field_target_root [OF this]
  show "side_frame ph st (mark_modified side (write_root side root' st))"
    by (cases side) (auto simp: side_frame_def mark_modified_def write_root_def)
qed (auto simp: side_frame_def set_key_def)

subsection \<open>A halt carries a denial\<close>

lemma gather_halt:
  "fst (gather ocs) = Some d \<Longrightarrow> \<exists>bts bcs. Completed (Halt d, bts, bcs) \<in> set ocs"
proof (induction ocs)
  case (Cons oc ocs)
  obtain h ts cs where g: "gather ocs = (h, ts, cs)" by (cases "gather ocs")
  show ?case
  proof (cases oc)
    case (Completed v)
    obtain eff bts bcs where v: "v = (eff, bts, bcs)" by (cases v)
    show ?thesis using Cons g Completed v by (cases eff) auto
  qed (use Cons g in auto)
qed simp

lemma gather_some:
  "fst (gather ocs) \<noteq> None \<longleftrightarrow> (\<exists>oc \<in> set ocs. outcome_halts (\<lambda>v. is_halt (fst v)) oc)"
proof (induction ocs)
  case (Cons oc ocs)
  obtain h ts cs where g: "gather ocs = (h, ts, cs)" by (cases "gather ocs")
  show ?case
  proof (cases oc)
    case (Completed v)
    obtain eff bts bcs where v: "v = (eff, bts, bcs)" by (cases v)
    show ?thesis using Cons g Completed v by (cases eff) (auto simp: outcome_halts_def is_halt_def)
  qed (use Cons g in \<open>auto simp: outcome_halts_def\<close>)
qed simp

lemma spawn_parallel:
  "spawn_outcome parallel_config (branch_fate_of env w i run) =
     (case en_panic env w i of
        Some msg \<Rightarrow> Panicked msg
      | None \<Rightarrow> Completed (fst run, es_taints (snd run), es_constraints (snd run)))"
  by (simp add: spawn_outcome_def parallel_config_def branch_fate_of_def split: option.split)

lemma length_parallel_fates [simp]: "length (parallel_fates env st runs) = length runs"
  by (simp add: parallel_fates_def)

lemma nth_parallel_fates:
  "i < length runs \<Longrightarrow> parallel_fates env st runs ! i = branch_fate_of env (es_world st) i (runs ! i)"
  by (simp add: parallel_fates_def nth_enumerate_eq)

lemma length_dispatch_branches [simp]: "length (dispatch_branches env ph src i es st) = length es"
  by (induction es arbitrary: i) simp_all

lemma nth_dispatch_branches:
  "j < length es \<Longrightarrow>
   dispatch_branches env ph src i es st ! j = dispatch_effect env ph src (es ! j) (branch_state env st (i + j))"
proof (induction es arbitrary: i j)
  case (Cons e es)
  then show ?case by (cases j) simp_all
qed simp

lemma run_branches_origin:
  assumes "Completed v \<in> set (run_branches fates cfg d sched)"
  shows "\<exists>i < length fates. join_loop cfg d fates sched False Map.empty i = Some (Completed v)"
proof -
  from assms obtain i where i: "i < length fates" "run_branches fates cfg d sched ! i = Completed v"
    by (auto simp: in_set_conv_nth)
  then show ?thesis
    by (cases "join_loop cfg d fates sched False Map.empty i") (auto simp: run_branches_nth)
qed

text \<open>Whatever the schedule is, a completed outcome is that of one of the branches.\<close>

lemma join_loop_origin:
  "join_loop cfg d fates sched aborted fin j = Some oc \<Longrightarrow>
   fin j = Some oc \<or> oc = spawn_outcome cfg (fates ! j)"
proof (induction sched arbitrary: aborted fin)
  case (Cons e sched)
  obtain idx raced where e: "e = (idx, raced)" by (cases e)
  show ?case
  proof (cases "aborted \<and> \<not> raced")
    case True
    from Cons.prems [unfolded e join_loop_skip [OF True]] show ?thesis by (rule Cons.IH)
  next
    case False
    from Cons.IH [OF Cons.prems [unfolded e join_loop_take [OF False]]]
    show ?thesis by (auto split: if_splits)
  qed
qed simp

lemma parallel_halt_origin:
  assumes "dispatch_parallel env runs st = (Halt d, st')"
  shows "\<exists>r \<in> set runs. fst r = Halt d"
proof -
  let ?ocs = "run_branches (parallel_fates env st runs) parallel_config (\<lambda>v. is_halt (fst v))
      (en_sched env (es_world st) (length runs))"
  have "fst (gather ?ocs) = Some d"
    using assms by (auto simp: dispatch_parallel_def Let_def split: prod.splits option.splits if_splits)
  then obtain bts bcs where "Completed (Halt d, bts, bcs) \<in> set ?ocs" using gather_halt by blast
  from run_branches_origin [OF this] obtain i where i: "i < length runs"
    "join_loop parallel_config (\<lambda>v. is_halt (fst v)) (parallel_fates env st runs)
       (en_sched env (es_world st) (length runs)) False Map.empty i = Some (Completed (Halt d, bts, bcs))"
    by auto
  from join_loop_origin [OF i(2)] have "fst (runs ! i) = Halt d"
    using i(1) by (auto simp: nth_parallel_fates spawn_parallel split: option.splits)
  with i(1) show ?thesis by (metis nth_mem)
qed

lemma halt_list_deny:
  assumes "\<And>e src st d st'. e \<in> set es \<Longrightarrow> dispatch_effect env ph src e st = (Halt d, st') \<Longrightarrow> is_deny d"
  shows "dispatch_list env ph src es st = (Halt d, st') \<Longrightarrow> is_deny d"
  using assms
proof (induction es arbitrary: st)
  case (Cons e es)
  obtain oc1 st1 where e: "dispatch_effect env ph src e st = (oc1, st1)" by force
  show ?case
  proof (cases oc1)
    case Continue
    with Cons.prems(1) e have "dispatch_list env ph src es st1 = (Halt d, st')" by simp
    then show ?thesis by (rule Cons.IH) (rule Cons.prems(2), simp_all)
  next
    case (Halt d1)
    with Cons.prems(1) e have "dispatch_effect env ph src e st = (Halt d, st')" by simp
    then show ?thesis by (rule Cons.prems(2) [rotated]) simp
  qed (use Cons.prems e in auto)
qed simp

lemma elicit_fail_deny: "elicit_fail step reason = Halt d \<Longrightarrow> is_deny d"
  by (auto simp: elicit_fail_def split: if_splits)

lemma elicitation_halt_deny: "dispatch_elicitation env step st = (Halt d, st') \<Longrightarrow> is_deny d"
  by (auto simp: dispatch_elicitation_def elicit_approved_def elicit_pending_def Let_def
      split: option.splits prod.splits sum.splits elicitation_status.splits elicitation_outcome.splits if_splits
      dest!: elicit_fail_deny)

lemma field_op_halt_deny: "dispatch_field_op env ph src path stages st = (Halt d, st') \<Longrightarrow> is_deny d"
  by (auto simp: dispatch_field_op_def Let_def
      split: sum.splits option.splits prod.splits field_outcome.splits)

lemma is_deny_eq: "Dec_Deny r s = d \<Longrightarrow> is_deny d"
  by auto

lemma halt_deny: "dispatch_effect env ph src e st = (Halt d, st') \<Longrightarrow> is_deny d"
proof (induction e arbitrary: src st d st')
  case (Eff_Sequential es)
  then show ?case using halt_list_deny [of es env ph src st d st'] by simp
next
  case (Eff_When c body source)
  then show ?case using halt_list_deny [of body env ph source st d st'] by (auto split: if_splits)
next
  case (Eff_Pdp call on_allow on_deny)
  obtain r w where pdp: "en_pdp env (es_world st) call (es_bag st) = (r, w)" by force
  let ?st = "st\<lparr>es_world := w\<rparr>"
  have "dispatch_list env ph src es ?st = (Halt d', st'') \<Longrightarrow> is_deny d'"
    if "es = on_allow \<or> es = on_deny" for es d' st''
    using that halt_list_deny [of es env ph src ?st d' st''] Eff_Pdp.IH by metis
  note lists = this [of on_allow] this [of on_deny]
  obtain oc1 st1 where deny: "dispatch_list env ph src on_deny ?st = (oc1, st1)" by force
  show ?case
  proof (cases r)
    case (Inr res)
    show ?thesis
    proof (cases "pdd_decision res")
      case Dec_Allow
      with Inr Eff_Pdp.prems pdp lists(1) show ?thesis by simp
    next
      case (Dec_Deny x y)
      with Inr Eff_Pdp.prems pdp deny have "oc1 = Halt d \<or> d = Dec_Deny x y"
        by (cases oc1) simp_all
      then show ?thesis
      proof
        assume "oc1 = Halt d"
        with deny show ?thesis using lists(2) by blast
      qed simp
    qed
  qed (use Eff_Pdp.prems pdp in auto)
next
  case (Eff_Parallel es)
  then have "dispatch_parallel env (dispatch_branches env ph src 0 es st) st = (Halt d, st')" by simp
  from parallel_halt_origin [OF this]
  obtain r where "r \<in> set (dispatch_branches env ph src 0 es st)" "fst r = Halt d" by blast
  then obtain j where "j < length es" "fst (dispatch_effect env ph src (es ! j) (branch_state env st j)) = Halt d"
    by (auto simp: in_set_conv_nth nth_dispatch_branches)
  then have "es ! j \<in> set es"
    "dispatch_effect env ph src (es ! j) (branch_state env st j) =
       (Halt d, snd (dispatch_effect env ph src (es ! j) (branch_state env st j)))"
    by (simp_all add: prod_eq_iff)
  then show ?case by (rule Eff_Parallel.IH)
qed (auto simp: dispatch_plugin_def dispatch_delegate_def dispatch_restrict_def Let_def
     split: prod.splits sum.splits decision.splits if_splits
     dest: elicitation_halt_deny field_op_halt_deny is_deny_eq)

subsection \<open>Parallel blocks\<close>

lemma parallel_halts_iff:
  assumes "valid_schedule (length runs) (en_sched env (es_world st) (length runs))"
  shows "is_halt (fst (dispatch_parallel env runs st)) \<longleftrightarrow>
     (\<exists>i < length runs. en_panic env (es_world st) i = None \<and> is_halt (fst (runs ! i)))"
proof (cases "runs = []")
  case False
  let ?fates = "parallel_fates env st runs" and ?d = "\<lambda>v :: branch_result. is_halt (fst v)"
  let ?ocs = "run_branches ?fates parallel_config ?d (en_sched env (es_world st) (length runs))"
  have "is_halt (fst (dispatch_parallel env runs st)) \<longleftrightarrow> fst (gather ?ocs) \<noteq> None"
    using False by (auto simp: dispatch_parallel_def Let_def is_halt_def split: prod.splits option.splits)
  also have "\<dots> \<longleftrightarrow> (\<exists>f \<in> set ?fates. outcome_halts ?d (spawn_outcome parallel_config f))"
    unfolding gather_some by (rule rb.halts_iff) (simp add: assms)
  also have "\<dots> \<longleftrightarrow> (\<exists>i < length runs. outcome_halts ?d (spawn_outcome parallel_config (?fates ! i)))"
    by (metis in_set_conv_nth length_parallel_fates)
  also have "\<dots> \<longleftrightarrow> (\<exists>i < length runs. en_panic env (es_world st) i = None \<and> is_halt (fst (runs ! i)))"
  proof -
    have "outcome_halts ?d (spawn_outcome parallel_config (?fates ! i)) \<longleftrightarrow>
        en_panic env (es_world st) i = None \<and> is_halt (fst (runs ! i))" if "i < length runs" for i
      using that by (simp add: nth_parallel_fates spawn_parallel outcome_halts_def split: option.split)
    then show ?thesis by blast
  qed
  finally show ?thesis .
qed (simp add: dispatch_parallel_def is_halt_def)

lemma parallel_frame:
  assumes "dispatch_parallel env runs st = (oc, st')"
  shows "es_bag st' = es_bag st" "es_payload st' = es_payload st"
    "es_args_modified st' = es_args_modified st" "es_result_modified st' = es_result_modified st"
    "\<not> (\<exists>b. oc = Pending b)"
  using assms by (auto simp: dispatch_parallel_def Let_def split: prod.splits option.splits if_splits)

text \<open>With no halting branch every branch that does not panic contributes its taints, in input order.\<close>

lemma gather_completed:
  "\<forall>oc \<in> set ocs. \<not> outcome_halts (\<lambda>v. is_halt (fst v)) oc \<Longrightarrow>
   gather ocs = (None, concat (map (\<lambda>(_, ts, _). ts) (List.map_filter completed ocs)),
     concat (map (\<lambda>(_, _, cs). cs) (List.map_filter completed ocs)))"
proof (induction ocs)
  case (Cons oc ocs)
  show ?case
  proof (cases oc)
    case (Completed v)
    obtain eff bts bcs where v: "v = (eff, bts, bcs)" by (cases v)
    show ?thesis
      using Cons Completed v by (cases eff) (auto simp: outcome_halts_def is_halt_def List.map_filter_simps)
  qed (use Cons in \<open>auto simp: List.map_filter_simps\<close>)
qed (simp add: List.map_filter_simps)

lemma parallel_no_halt:
  assumes "valid_schedule (length runs) (en_sched env (es_world st) (length runs))" "runs \<noteq> []"
    and "\<And>i. i < length runs \<Longrightarrow> en_panic env (es_world st) i = None \<and> \<not> is_halt (fst (runs ! i))"
  shows "dispatch_parallel env runs st =
     (Continue, st\<lparr>es_taints := es_taints st @ concat (map (es_taints \<circ> snd) runs),
        es_constraints := es_constraints st @ concat (map (es_constraints \<circ> snd) runs),
        es_world := en_join env (es_world st) (map (es_world \<circ> snd) runs)\<rparr>)"
proof -
  let ?fates = "parallel_fates env st runs" and ?d = "\<lambda>v :: branch_result. is_halt (fst v)"
  let ?ocs = "run_branches ?fates parallel_config ?d (en_sched env (es_world st) (length runs))"
  let ?done = "map (\<lambda>r. Completed (fst r, es_taints (snd r), es_constraints (snd r))) runs"
  have spawn: "map (spawn_outcome parallel_config) ?fates = ?done"
    by (rule nth_equalityI) (auto simp: nth_parallel_fates spawn_parallel assms(3))
  then have "\<And>f. f \<in> set ?fates \<Longrightarrow> \<not> outcome_halts ?d (spawn_outcome parallel_config f)"
    by (auto simp: set_conv_nth nth_parallel_fates spawn_parallel assms(3) outcome_halts_def)
  then have ocs: "?ocs = ?done"
    using rb.no_deny_all_run [of ?fates] assms(1) spawn by simp
  have "List.map_filter completed ?done = map (\<lambda>r. (fst r, es_taints (snd r), es_constraints (snd r))) runs"
    by (induction runs) (simp_all add: List.map_filter_simps)
  moreover have "\<forall>oc \<in> set ?done. \<not> outcome_halts ?d oc"
    using assms(3) by (auto simp: outcome_halts_def set_conv_nth)
  ultimately have "gather ?ocs = (None, concat (map (es_taints \<circ> snd) runs), concat (map (es_constraints \<circ> snd) runs))"
    unfolding ocs using gather_completed [of ?done] by (simp add: comp_def)
  then show ?thesis using assms(2) by (simp add: dispatch_parallel_def Let_def)
qed

subsection \<open>Effects without mutations\<close>

text \<open>
  What the load-time check calls pure is pure: without a mutation inside, an effect changes neither
  the bag nor the payload nor the flags, and it does not suspend.
\<close>

definition quiet :: "'w eval_state \<Rightarrow> effect_outcome \<times> 'w eval_state \<Rightarrow> bool" where
  "quiet st res \<longleftrightarrow>
     es_bag (snd res) = es_bag st \<and> es_payload (snd res) = es_payload st
     \<and> es_args_modified (snd res) = es_args_modified st
     \<and> es_result_modified (snd res) = es_result_modified st
     \<and> (\<forall>b. fst res \<noteq> Pending b)"

lemma quiet_list:
  assumes "\<And>e src st. e \<in> set es \<Longrightarrow> quiet st (dispatch_effect env ph src e st)"
  shows "quiet st (dispatch_list env ph src es st)"
  using assms
proof (induction es arbitrary: st)
  case (Cons e es)
  obtain oc1 st1 where e: "dispatch_effect env ph src e st = (oc1, st1)" by force
  have q: "quiet st (oc1, st1)" using Cons.prems [of e st src] e by simp
  show ?case
  proof (cases oc1)
    case Continue
    have "quiet st1 (dispatch_list env ph src es st1)" by (rule Cons.IH, rule Cons.prems) simp
    with q Continue e show ?thesis by (simp add: quiet_def)
  qed (use q e in \<open>auto simp: quiet_def\<close>)
qed (simp add: quiet_def)

lemma pure_quiet: "\<not> contains_mutation e \<Longrightarrow> quiet st (dispatch_effect env ph src e st)"
proof (induction e arbitrary: src st)
  case (Eff_Sequential es)
  then show ?case by (auto simp: list_ex_iff intro: quiet_list)
next
  case (Eff_When c body source)
  then have "quiet st (dispatch_list env ph source body st)" by (intro quiet_list) (auto simp: list_ex_iff)
  then show ?case by (simp add: quiet_def)
next
  case (Eff_Pdp call on_allow on_deny)
  obtain r w where pdp: "en_pdp env (es_world st) call (es_bag st) = (r, w)" by force
  let ?st = "st\<lparr>es_world := w\<rparr>"
  have lists: "quiet ?st (dispatch_list env ph src on_allow ?st)" "quiet ?st (dispatch_list env ph src on_deny ?st)"
    using Eff_Pdp by (auto simp: list_ex_iff intro!: quiet_list)
  obtain oc1 st1 where deny: "dispatch_list env ph src on_deny ?st = (oc1, st1)" by force
  show ?case
  proof (cases r)
    case (Inr res)
    with lists pdp deny show ?thesis
      by (cases "pdd_decision res"; cases oc1) (auto simp: quiet_def)
  qed (simp add: pdp quiet_def)
next
  case (Eff_Parallel es)
  obtain oc st' where "dispatch_effect env ph src (Eff_Parallel es) st = (oc, st')" by force
  with parallel_frame [of env "dispatch_branches env ph src 0 es st" st oc st'] show ?case
    by (auto simp: quiet_def)
qed (auto simp: quiet_def push_taint_def dispatch_plugin_def dispatch_restrict_def Let_def
     split: prod.splits sum.splits decision.splits)

end
