(* ===== verification/Effects_Laws.thy ===== *)
theory Effects_Laws
  imports Effects_Props
begin

text \<open>
  Laws of the effect evaluator: sequencing, the synchronous fast path as a special case, and when
  the arms that ask the outside world let a request go on.
\<close>

subsection \<open>Sequencing\<close>

lemma dispatch_list_append:
  "dispatch_list env ph src (xs @ ys) st =
     (case dispatch_list env ph src xs st of
        (Continue, st') \<Rightarrow> dispatch_list env ph src ys st'
      | (other, st') \<Rightarrow> (other, st'))"
  by (induction xs arbitrary: st) (auto split: prod.splits effect_outcome.splits)

lemma dispatch_list_single [simp]: "dispatch_list env ph src [e] st = dispatch_effect env ph src e st"
  by (auto split: prod.splits effect_outcome.splits)

lemma sequential_inline:
  "dispatch_list env ph src (xs @ Eff_Sequential es # ys) st = dispatch_list env ph src (xs @ es @ ys) st"
proof -
  have "dispatch_list env ph src (Eff_Sequential es # ys) st' = dispatch_list env ph src (es @ ys) st'" for st'
    by (simp add: dispatch_list_append [of env ph src es ys])
  then show ?thesis by (simp only: dispatch_list_append [of env ph src xs])
qed

lemma dispatch_fallback: "dispatch_effect env ph (fallback_source e) e st = dispatch_effect env ph [] e st"
  by (cases e) (simp_all add: fallback_source_def)

text \<open>The phase loop is the list loop, with the outcome read off at the end.\<close>

fun summarize :: "effect_outcome \<times> 'w eval_state \<Rightarrow> steps_evaluation \<times> 'w eval_state" where
  "summarize (Continue, st) = (steps_of Dec_Allow None st, st)"
| "summarize (Halt d, st) = (steps_of d None st, st)"
| "summarize (Pending b, st) = (steps_of Dec_Allow (Some b) st, st)"

lemma effects_loop_summary: "effects_loop env ph es st = summarize (dispatch_list env ph [] es st)"
proof (induction es arbitrary: st)
  case (Cons e es)
  obtain oc st1 where e: "dispatch_effect env ph [] e st = (oc, st1)" by force
  then show ?case using Cons [of st1] by (cases oc) (simp_all add: dispatch_fallback)
qed simp

lemma evaluate_effects_sequential:
  "evaluate_effects env ph (xs @ Eff_Sequential es # ys) bag pl w = evaluate_effects env ph (xs @ es @ ys) bag pl w"
  by (simp only: evaluate_effects_def effects_loop_summary sequential_inline)

text \<open>A denial or a suspension ends the phase: what stands behind it has no influence.\<close>

lemma evaluate_effects_stops:
  assumes "evaluate_effects env ph xs bag pl w = (ev, st)" "is_deny (sv_decision ev) \<or> sv_pending ev \<noteq> None"
  shows "evaluate_effects env ph (xs @ ys) bag pl w = (ev, st)"
proof -
  obtain oc st1 where xs: "dispatch_list env ph [] xs (eval_init bag pl w) = (oc, st1)" by force
  with assms show ?thesis
    by (cases oc) (auto simp: evaluate_effects_def effects_loop_summary dispatch_list_append steps_of_def)
qed

lemma evaluate_effects_allow:
  "evaluate_effects env ph es bag pl w = (ev, st) \<Longrightarrow> sv_decision ev = Dec_Allow \<Longrightarrow> sv_pending ev = None \<Longrightarrow>
   dispatch_list env ph [] es (eval_init bag pl w) = (Continue, st)"
proof -
  obtain oc st1 where xs: "dispatch_list env ph [] es (eval_init bag pl w) = (oc, st1)" by force
  moreover have "oc = Halt d \<Longrightarrow> is_deny d" for d
    using halt_list_deny [of es env ph "[]" "eval_init bag pl w" d st1] halt_deny xs by blast
  ultimately show "evaluate_effects env ph es bag pl w = (ev, st) \<Longrightarrow> sv_decision ev = Dec_Allow \<Longrightarrow>
      sv_pending ev = None \<Longrightarrow> dispatch_list env ph [] es (eval_init bag pl w) = (Continue, st)"
    by (cases oc) (auto simp: evaluate_effects_def effects_loop_summary steps_of_def)
qed

text \<open>If a phase allows and does not suspend, every one of its effects went through.\<close>

lemma dispatch_list_continue:
  "dispatch_list env ph src es st = (Continue, st') \<Longrightarrow> e \<in> set es \<Longrightarrow>
   \<exists>st1 st2. dispatch_effect env ph src e st1 = (Continue, st2)"
proof (induction es arbitrary: st)
  case (Cons a es)
  obtain oc st1 where a: "dispatch_effect env ph src a st = (oc, st1)" by force
  with Cons.prems(1) have "oc = Continue" "dispatch_list env ph src es st1 = (Continue, st')"
    by (cases oc; simp)+
  with a Cons.IH [of st1] Cons.prems(2) show ?case by auto
qed simp

subsection \<open>The fast path\<close>

definition control_effect :: "effect \<Rightarrow> bool" where
  "control_effect e \<longleftrightarrow> (case e of Eff_Allow \<Rightarrow> True | Eff_Deny _ _ \<Rightarrow> True | _ \<Rightarrow> False)"

lemma control_effect_iff: "control_effect e \<longleftrightarrow> e = Eff_Allow \<or> (\<exists>reason code. e = Eff_Deny reason code)"
  by (cases e) (simp_all add: control_effect_def)

definition control_rule :: "rule \<Rightarrow> bool" where
  "control_rule r \<longleftrightarrow> list_all control_effect (ru_effects r)"

lemma dispatch_control:
  "list_all control_effect es \<Longrightarrow> dispatch_list env ph src es st =
     (case rule_effects_deny src es of None \<Rightarrow> (Continue, st) | Some d \<Rightarrow> (Halt d, st))"
proof (induction es)
  case (Cons e es)
  then show ?case by (cases e) (auto simp: control_effect_def)
qed simp

lemma dispatch_rule:
  assumes "control_rule r"
  shows "dispatch_effect env ph src (effect_of_rule r) st =
     (if eval_expression (ru_condition r) (es_bag st)
      then case rule_effects_deny (ru_source r) (ru_effects r) of None \<Rightarrow> (Continue, st) | Some d \<Rightarrow> (Halt d, st)
      else (Continue, st))"
  using dispatch_control [of "ru_effects r" env ph "ru_source r" st] assms
  by (simp add: effect_of_rule_def control_rule_def)

lemma effects_loop_rules:
  "list_all control_rule rs \<Longrightarrow>
   effects_loop env ph (map effect_of_rule rs) st = (steps_of (evaluate_rules rs (es_bag st)) None st, st)"
proof (induction rs)
  case (Cons r rs)
  have "dispatch_effect env ph (fallback_source (effect_of_rule r)) (effect_of_rule r) st =
     (if eval_expression (ru_condition r) (es_bag st)
      then case rule_effects_deny (ru_source r) (ru_effects r) of None \<Rightarrow> (Continue, st) | Some d \<Rightarrow> (Halt d, st)
      else (Continue, st))"
    using Cons.prems by (intro dispatch_rule) simp
  with Cons show ?case by (auto split: option.splits)
qed simp

subsection \<open>Policy decision points\<close>

lemma pdp_deny_stands:
  assumes "en_pdp env (es_world st) call (es_bag st) = (Inr res, w)" "is_deny (pdd_decision res)"
  shows "fst (dispatch_effect env ph src (Eff_Pdp call on_allow on_deny) st) \<noteq> Continue"
proof -
  obtain oc st1 where l: "dispatch_list env ph src on_deny (st\<lparr>es_world := w\<rparr>) = (oc, st1)" by force
  obtain r s where d: "pdd_decision res = Dec_Deny r s" using assms(2) by (cases "pdd_decision res") auto
  show ?thesis using assms(1) l by (cases oc) (simp_all add: d)
qed

lemma pdp_continue:
  assumes "dispatch_effect env ph src (Eff_Pdp call on_allow on_deny) st = (Continue, st')"
  shows "\<exists>res w. en_pdp env (es_world st) call (es_bag st) = (Inr res, w) \<and> pdd_decision res = Dec_Allow
     \<and> dispatch_list env ph src on_allow (st\<lparr>es_world := w\<rparr>) = (Continue, st')"
proof -
  obtain r w where pdp: "en_pdp env (es_world st) call (es_bag st) = (r, w)" by force
  show ?thesis
  proof (cases r)
    case (Inr res)
    with pdp_deny_stands [of env st call res w ph src on_allow on_deny] assms pdp
    show ?thesis by (cases "pdd_decision res") auto
  qed (use assms pdp in simp)
qed

subsection \<open>Delegation\<close>

lemma bag_set_key: "es_bag (set_key k v st) = (es_bag st)(k \<mapsto> v)"
  by (simp add: set_key_def bag_set_def)

lemma bag_set_opt_key: "es_bag (set_opt_key k v st) =
    (case v of None \<Rightarrow> es_bag st | Some s \<Rightarrow> (es_bag st)(k \<mapsto> AString s))"
  by (simp add: set_opt_key_def bag_set_key split: option.split)

lemma record_grant_bag:
  "es_bag (record_grant oc st) GRANTED = Some (ABool True)"
  "k \<notin> {GRANTED, GRANTED_PERMISSIONS, GRANTED_AUDIENCE, GRANTED_EXPIRES_AT} \<Longrightarrow>
     es_bag (record_grant oc st) k = es_bag st k"
  by (auto simp: record_grant_def Let_def bag_set_key bag_set_opt_key delegation_keys split: option.splits)

lemma delegate_continue:
  assumes "dispatch_delegate env step st = (Continue, st')" "\<not> on_error_continue (ds_on_error step)"
  shows "\<exists>oc w. en_delegate env (es_world st) step = (Inr oc, w) \<and> do_decision oc = Dec_Allow
     \<and> st' = record_grant oc (st\<lparr>es_world := w\<rparr>)"
  using assms by (auto simp: dispatch_delegate_def Let_def split: prod.splits sum.splits decision.splits)

lemma delegate_failed_bag:
  assumes "dispatch_delegate env step st = (oc, st')"
    and "\<And>d w. en_delegate env (es_world st) step = (Inr d, w) \<Longrightarrow> is_deny (do_decision d)"
  shows "es_bag st' = es_bag st"
  using assms
  by (auto simp: dispatch_delegate_def Let_def split: prod.splits sum.splits decision.splits if_splits)

subsection \<open>Elicitation\<close>

definition fail_closed :: "elicit_step \<Rightarrow> bool" where
  "fail_closed step \<longleftrightarrow> \<not> eq_ignore_ascii_case (unwrap_or (el_on_error step) ''deny'') ''continue''"

lemma elicit_fail_closed: "fail_closed step \<Longrightarrow> elicit_fail step reason \<noteq> Continue"
  by (simp add: elicit_fail_def fail_closed_def)

definition scope_holds :: "elicit_step \<Rightarrow> attribute_bag \<Rightarrow> bool" where
  "scope_holds step bag \<longleftrightarrow>
     (\<forall>src. el_scope step = Some src \<longrightarrow> (\<exists>e. parse_predicate src = Some (Inr e) \<and> eval_expression e bag))"

lemma scope_check_ok: "the (scope_check step bag) = Inr u \<Longrightarrow> scope_holds step bag"
proof -
  assume the: "the (scope_check step bag) = Inr u"
  obtain r where r: "scope_check step bag = Some r" using scope_check_total by blast
  show "scope_holds step bag"
    using the r
    by (auto simp: scope_check_def scope_holds_def split: option.splits sum.splits if_splits)
qed

lemma elicit_approved_continue:
  assumes "elicit_approved env step eid st = (Continue, st')" "fail_closed step"
  shows "\<exists>v w. en_validate env (es_world st) step eid = (Inr v, w) \<and> ev_valid v
     \<and> scope_holds step (es_bag st) \<and> es_bag st' EL_OUTCOME = Some (AString ''approved'')"
proof -
  obtain r w where val: "en_validate env (es_world st) step eid = (r, w)" by force
  show ?thesis
  proof (cases r)
    case (Inr v)
    with assms val elicit_fail_closed [OF assms(2)] have valid: "ev_valid v"
      by (auto simp: elicit_approved_def Let_def split: if_splits)
    show ?thesis
    proof (cases "the (scope_check step (es_bag st))")
      case (Inl reason)
      with assms val Inr valid elicit_fail_closed [OF assms(2)] show ?thesis
        by (auto simp: elicit_approved_def Let_def)
    next
      case (Inr u)
      with assms(1) val \<open>r = Inr v\<close> valid have
        "st' = set_opt_key EL_INTENT_ID (ev_intent_id v) (set_opt_key EL_APPROVER (ev_approver v)
           (set_key EL_OUTCOME (AString ''approved'') (set_key EL_STATUS (AString ''resolved'') (st\<lparr>es_world := w\<rparr>))))"
        by (simp add: elicit_approved_def Let_def)
      then have "es_bag st' EL_OUTCOME = Some (AString ''approved'')"
        by (simp add: bag_set_key bag_set_opt_key elicitation_keys split: option.split)
      with scope_check_ok [OF Inr] val valid \<open>r = Inr v\<close> show ?thesis by blast
    qed
  qed (use assms val elicit_fail_closed [OF assms(2)] in \<open>auto simp: elicit_approved_def\<close>)
qed

lemma elicitation_continue:
  assumes "dispatch_elicitation env step st = (Continue, st')" "fail_closed step"
  shows "\<exists>resolved eid st1 w1 v w2.
     resolve_from step (es_bag st) = Some resolved
     \<and> elicit_id env step resolved st = (Inr eid, st1)
     \<and> en_check env (es_world st1) step eid = (Inr (St_Resolved Out_Approved), w1)
     \<and> en_validate env w1 step eid = (Inr v, w2) \<and> ev_valid v
     \<and> scope_holds step (es_bag st1) \<and> es_bag st' EL_OUTCOME = Some (AString ''approved'')"
proof -
  note no_fail = elicit_fail_closed [OF assms(2)]
  from assms(1) no_fail obtain resolved where res: "resolve_from step (es_bag st) = Some resolved"
    by (auto simp: dispatch_elicitation_def split: option.splits)
  obtain r st1 where id: "elicit_id env step resolved st = (r, st1)" by force
  with assms(1) no_fail res obtain eid where eid: "r = Inr eid"
    by (cases r) (auto simp: dispatch_elicitation_def)
  obtain c w1 where check: "en_check env (es_world st1) step eid = (c, w1)" by force
  have "c = Inr (St_Resolved Out_Approved) \<and> elicit_approved env step eid (st1\<lparr>es_world := w1\<rparr>) = (Continue, st')"
    using assms(1) no_fail res id eid check
    by (auto simp: dispatch_elicitation_def elicit_pending_def Let_def
        split: sum.splits elicitation_status.splits elicitation_outcome.splits)
  with elicit_approved_continue [OF _ assms(2), of env eid "st1\<lparr>es_world := w1\<rparr>" st'] res id eid check
  show ?thesis by auto
qed

lemma elicitation_denied:
  assumes "resolve_from step (es_bag st) = Some resolved" "elicit_id env step resolved st = (Inr eid, st1)"
    and "en_check env (es_world st1) step eid = (Inr (St_Resolved Out_Denied), w1)"
  shows "\<exists>st'. dispatch_elicitation env step st =
     (Halt (Dec_Deny (Some ''elicitation denied by approver'') (el_source step)), st')"
  using assms by (simp add: dispatch_elicitation_def Let_def)

subsection \<open>Field operations\<close>

definition side_root :: "field_side \<Rightarrow> route_payload \<Rightarrow> json option" where
  "side_root side payload = (case side of Side_Args \<Rightarrow> Some (rp_args payload) | Side_Result \<Rightarrow> rp_result payload)"

definition side_flag :: "field_side \<Rightarrow> 'w eval_state \<Rightarrow> bool" where
  "side_flag side st = (case side of Side_Args \<Rightarrow> es_args_modified st | Side_Result \<Rightarrow> es_result_modified st)"

lemma write_field_ok:
  "snd res \<Longrightarrow> side_root side (es_payload (write_field side res st)) = Some (fst res)"
  "snd res \<Longrightarrow> side_flag side (write_field side res st)"
  by (cases side; simp add: write_field_def Let_def mark_modified_def write_root_def side_root_def side_flag_def)+

lemma set_dotted_present:
  assumes "get_dotted root path = Some cur"
  shows "snd (set_dotted root path v) \<and> get_dotted (fst (set_dotted root path v)) path = Some v"
proof -
  have "snd (set_path root (split_on (CHR ''.'') path) v)"
    using set_path_ok_of_get [OF split_on_not_Nil] assms by (simp add: get_dotted_def)
  then show ?thesis
    using get_path_set_path [of root _ v "fst (set_path root (split_on (CHR ''.'') path) v)"]
    by (metis get_dotted_def prod.collapse set_dotted_def)
qed

lemma remove_dotted_present:
  assumes "get_dotted root path = Some cur"
  shows "snd (remove_dotted root path) \<and> get_dotted (fst (remove_dotted root path)) path = None"
proof -
  have "snd (remove_path root (split_on (CHR ''.'') path))"
    using remove_path_ok_iff [OF split_on_not_Nil] assms by (simp add: get_dotted_def)
  then show ?thesis
    using get_path_remove_path [of root _ "fst (remove_path root (split_on (CHR ''.'') path))"]
    by (metis get_dotted_def prod.collapse remove_dotted_def)
qed

text \<open>The value a pipeline computed for a field that is there always reaches the payload.\<close>

lemma field_op_effect:
  assumes target: "field_target path ph (es_payload st) = Inr (Some (root, sub, side))"
    and cur: "get_dotted root sub = Some cur"
    and ev: "evaluate_pipeline env \<lparr>pl_stages = stages\<rparr> cur (es_bag st) sub ph (es_world st) = (ev, w')"
    and run: "dispatch_field_op env ph src path stages st = (oc, st')"
  shows "pv_outcome ev = FO_Replace v \<Longrightarrow> oc = Continue \<and> side_flag side st' \<and>
       (\<exists>root'. side_root side (es_payload st') = Some root' \<and> get_dotted root' sub = Some v)"
    and "pv_outcome ev = FO_Omit \<Longrightarrow> oc = Continue \<and> side_flag side st' \<and>
       (\<exists>root'. side_root side (es_payload st') = Some root' \<and> get_dotted root' sub = None)"
    and "pv_outcome ev = FO_Pass \<Longrightarrow> oc = Continue \<and> es_payload st' = es_payload st"
    and "pv_outcome ev = FO_Deny reason i \<Longrightarrow> oc = Halt (Dec_Deny (Some reason) src) \<and> es_payload st' = es_payload st"
  using run target cur ev set_dotted_present [OF cur, of v] remove_dotted_present [OF cur]
    write_field_ok [of "set_dotted root sub v" side] write_field_ok [of "remove_dotted root sub" side]
  by (auto simp: dispatch_field_op_def Let_def)

end
