(* ===== verification/Routes.thy ===== *)
theory Routes
  imports Effects_Laws
begin

text \<open>
  \<^verbatim>\<open>crates/ppe-apl-core/src/route.rs\<close>: driving the four phases of a compiled route.  The pre half
  runs the \<^verbatim>\<open>args\<close> pipelines and the policy effects, the post half the \<^verbatim>\<open>result\<close> pipelines and the
  post-policy effects; the whole route runs the post half only if the pre half allows and does not
  suspend.
\<close>

record route_decision =
  rd_decision :: decision
  rd_taints :: "taint_event list"
  rd_constraints :: "candidate_constraint list"
  rd_args_modified :: bool
  rd_result_modified :: bool
  rd_pending :: "pending_elicitation option"

text \<open>
  The loop over the field rules of one side.  It stops with the reason and the source of the first
  rule whose pipeline denies.
\<close>

record 'w field_state =
  fl_root :: json
  fl_modified :: bool
  fl_taints :: "taint_event list"
  fl_world :: 'w

definition apply_outcome :: "field_outcome \<Rightarrow> string \<Rightarrow> 'w field_state \<Rightarrow> 'w field_state" where
  "apply_outcome oc path st =
     (case oc of
        FO_Replace v \<Rightarrow>
          (case set_dotted (fl_root st) path v of
             (root', ok) \<Rightarrow> st\<lparr>fl_root := root', fl_modified := fl_modified st \<or> ok\<rparr>)
      | FO_Omit \<Rightarrow>
          (case remove_dotted (fl_root st) path of
             (root', ok) \<Rightarrow> st\<lparr>fl_root := root', fl_modified := fl_modified st \<or> ok\<rparr>)
      | _ \<Rightarrow> st)"

fun field_rules_loop ::
    "'w env \<Rightarrow> dispatch_phase \<Rightarrow> attribute_bag \<Rightarrow> field_rule list \<Rightarrow> 'w field_state
     \<Rightarrow> (string \<times> string) option \<times> 'w field_state" where
  "field_rules_loop env ph bag [] st = (None, st)"
| "field_rules_loop env ph bag (r # rs) st =
     (case get_dotted (fl_root st) (fr_field r) of
        None \<Rightarrow> field_rules_loop env ph bag rs st
      | Some current \<Rightarrow>
          (case evaluate_pipeline env (fr_pipeline r) current bag (fr_field r) ph (fl_world st) of
             (ev, w') \<Rightarrow>
               let st' = st\<lparr>fl_taints := fl_taints st @ pv_taints ev, fl_world := w'\<rparr>
               in (case pv_outcome ev of
                     FO_Deny reason _ \<Rightarrow> (Some (reason, fr_source r), st')
                   | oc \<Rightarrow> field_rules_loop env ph bag rs (apply_outcome oc (fr_field r) st'))))"

text \<open>What a route evaluation leaves behind: the bag, the payload and the host's state.\<close>

record 'w route_state =
  rs_bag :: attribute_bag
  rs_payload :: route_payload
  rs_world :: 'w

definition evaluate_pre ::
    "'w env \<Rightarrow> compiled_route \<Rightarrow> attribute_bag \<Rightarrow> route_payload \<Rightarrow> 'w \<Rightarrow> route_decision \<times> 'w route_state" where
  "evaluate_pre env route bag payload w =
     (case field_rules_loop env Pre bag (cr_args route)
             \<lparr>fl_root = rp_args payload, fl_modified = False, fl_taints = [], fl_world = w\<rparr> of
        (Some (reason, source), st) \<Rightarrow>
          (\<lparr>rd_decision = Dec_Deny (Some reason) source, rd_taints = fl_taints st, rd_constraints = [],
            rd_args_modified = fl_modified st, rd_result_modified = False, rd_pending = None\<rparr>,
           \<lparr>rs_bag = bag, rs_payload = payload\<lparr>rp_args := fl_root st\<rparr>, rs_world = fl_world st\<rparr>)
      | (None, st) \<Rightarrow>
          (case evaluate_effects env Pre (cr_policy route) bag (payload\<lparr>rp_args := fl_root st\<rparr>) (fl_world st) of
             (ev, st') \<Rightarrow>
               (\<lparr>rd_decision = sv_decision ev, rd_taints = fl_taints st @ sv_taints ev,
                 rd_constraints = sv_constraints ev,
                 rd_args_modified = fl_modified st \<or> sv_args_modified ev, rd_result_modified = False,
                 rd_pending = sv_pending ev\<rparr>,
                \<lparr>rs_bag = es_bag st', rs_payload = es_payload st', rs_world = es_world st'\<rparr>)))"

definition result_loop ::
    "'w env \<Rightarrow> compiled_route \<Rightarrow> attribute_bag \<Rightarrow> route_payload \<Rightarrow> 'w
     \<Rightarrow> (string \<times> string) option \<times> route_payload \<times> bool \<times> taint_event list \<times> 'w" where
  "result_loop env route bag payload w =
     (case rp_result payload of
        None \<Rightarrow> (None, payload, False, [], w)
      | Some result \<Rightarrow>
          (case field_rules_loop env Post bag (cr_result route)
                  \<lparr>fl_root = result, fl_modified = False, fl_taints = [], fl_world = w\<rparr> of
             (den, st) \<Rightarrow>
               (den, payload\<lparr>rp_result := Some (fl_root st)\<rparr>, fl_modified st, fl_taints st, fl_world st)))"

definition evaluate_post ::
    "'w env \<Rightarrow> compiled_route \<Rightarrow> attribute_bag \<Rightarrow> route_payload \<Rightarrow> 'w \<Rightarrow> route_decision \<times> 'w route_state" where
  "evaluate_post env route bag payload w =
     (case result_loop env route bag payload w of
        (Some (reason, source), payload', modified, taints, w') \<Rightarrow>
          (\<lparr>rd_decision = Dec_Deny (Some reason) source, rd_taints = taints, rd_constraints = [],
            rd_args_modified = False, rd_result_modified = modified, rd_pending = None\<rparr>,
           \<lparr>rs_bag = bag, rs_payload = payload', rs_world = w'\<rparr>)
      | (None, payload', modified, taints, w') \<Rightarrow>
          (case evaluate_effects env Post (cr_post_policy route) bag payload' w' of
             (ev, st') \<Rightarrow>
               (\<lparr>rd_decision = sv_decision ev, rd_taints = taints @ sv_taints ev,
                 rd_constraints = sv_constraints ev, rd_args_modified = False,
                 rd_result_modified = modified \<or> sv_result_modified ev, rd_pending = sv_pending ev\<rparr>,
                \<lparr>rs_bag = es_bag st', rs_payload = es_payload st', rs_world = es_world st'\<rparr>)))"

definition evaluate_route ::
    "'w env \<Rightarrow> compiled_route \<Rightarrow> attribute_bag \<Rightarrow> route_payload \<Rightarrow> 'w \<Rightarrow> route_decision \<times> 'w route_state" where
  "evaluate_route env route bag payload w =
     (case evaluate_pre env route bag payload w of
        (pre, st) \<Rightarrow>
          if is_deny (rd_decision pre) \<or> rd_pending pre \<noteq> None then (pre, st)
          else (case evaluate_post env route (rs_bag st) (rs_payload st) (rs_world st) of
                  (post, st') \<Rightarrow>
                    (\<lparr>rd_decision = rd_decision post, rd_taints = rd_taints pre @ rd_taints post,
                      rd_constraints = rd_constraints pre @ rd_constraints post,
                      rd_args_modified = rd_args_modified pre,
                      rd_result_modified = rd_result_modified post, rd_pending = rd_pending post\<rparr>, st')))"

subsection \<open>Field rules\<close>

lemma apply_outcome_flag:
  "\<not> fl_modified (apply_outcome oc path st) \<Longrightarrow> \<not> fl_modified st \<and> fl_root (apply_outcome oc path st) = fl_root st"
  by (auto simp: apply_outcome_def dest: set_dotted_fail remove_dotted_fail split: field_outcome.splits prod.splits)

lemma field_rules_flag:
  "field_rules_loop env ph bag rs st = (den, st') \<Longrightarrow> \<not> fl_modified st' \<Longrightarrow>
   \<not> fl_modified st \<and> fl_root st' = fl_root st"
proof (induction rs arbitrary: st)
  case (Cons r rs)
  show ?case
  proof (cases "get_dotted (fl_root st) (fr_field r)")
    case None
    with Cons show ?thesis by simp
  next
    case (Some current)
    obtain ev w' where ev: "evaluate_pipeline env (fr_pipeline r) current bag (fr_field r) ph (fl_world st) = (ev, w')"
      by force
    let ?st = "st\<lparr>fl_taints := fl_taints st @ pv_taints ev, fl_world := w'\<rparr>"
    show ?thesis
    proof (cases "\<exists>reason i. pv_outcome ev = FO_Deny reason i")
      case True
      with Cons.prems Some ev show ?thesis by (auto simp: Let_def)
    next
      case False
      with Cons.prems(1) Some ev
      have "field_rules_loop env ph bag rs (apply_outcome (pv_outcome ev) (fr_field r) ?st) = (den, st')"
        by (cases "pv_outcome ev") (auto simp: Let_def)
      from Cons.IH [OF this Cons.prems(2)] apply_outcome_flag [of "pv_outcome ev" "fr_field r" ?st]
      show ?thesis by simp
    qed
  qed
qed simp

lemma evaluate_effects_frame:
  assumes "evaluate_effects env ph es bag pl w = (ev, st)"
  shows "grows (eval_init bag pl w) st" "side_frame ph (eval_init bag pl w) st"
    "sv_taints ev = es_taints st" "sv_constraints ev = es_constraints st"
    "sv_args_modified ev = es_args_modified st" "sv_result_modified ev = es_result_modified st"
proof -
  obtain oc st1 where l: "dispatch_list env ph [] es (eval_init bag pl w) = (oc, st1)" by force
  then have "st = st1" "ev = fst (summarize (oc, st1))"
    using assms by (cases oc; simp add: evaluate_effects_def effects_loop_summary)+
  moreover have "grows (eval_init bag pl w) st1" by (rule gr.R_list [OF gr.R_dispatch l])
  moreover have "side_frame ph (eval_init bag pl w) st1" by (rule sf.R_list [OF sf.R_dispatch l])
  ultimately show "grows (eval_init bag pl w) st" "side_frame ph (eval_init bag pl w) st"
    "sv_taints ev = es_taints st" "sv_constraints ev = es_constraints st"
    "sv_args_modified ev = es_args_modified st" "sv_result_modified ev = es_result_modified st"
    by (cases oc; simp add: steps_of_def)+
qed

lemma evaluate_effects_decision:
  assumes "evaluate_effects env ph es bag pl w = (ev, st)"
  shows "sv_pending ev \<noteq> None \<Longrightarrow> sv_decision ev = Dec_Allow"
proof -
  obtain oc st1 where l: "dispatch_list env ph [] es (eval_init bag pl w) = (oc, st1)" by force
  then show "sv_pending ev \<noteq> None \<Longrightarrow> sv_decision ev = Dec_Allow"
    using assms by (cases oc) (auto simp: evaluate_effects_def effects_loop_summary steps_of_def)
qed

subsection \<open>The two halves\<close>

lemma evaluate_pre_frame:
  assumes "evaluate_pre env route bag payload w = (rd, st)"
  shows "rp_result (rs_payload st) = rp_result payload" "\<not> rd_result_modified rd"
    "\<not> rd_args_modified rd \<Longrightarrow> rs_payload st = payload"
proof -
  let ?init = "\<lparr>fl_root = rp_args payload, fl_modified = False, fl_taints = [], fl_world = w\<rparr>"
  obtain den fs where fl: "field_rules_loop env Pre bag (cr_args route) ?init = (den, fs)" by force
  obtain ev st' where ev: "evaluate_effects env Pre (cr_policy route) bag (payload\<lparr>rp_args := fl_root fs\<rparr>) (fl_world fs)
      = (ev, st')" by force
  note fr = evaluate_effects_frame [OF ev]
  have flag: "\<not> fl_modified fs \<Longrightarrow> fl_root fs = rp_args payload"
    using field_rules_flag [OF fl] by simp
  have same: "payload\<lparr>rp_args := rp_args payload\<rparr> = payload" by simp
  show "rp_result (rs_payload st) = rp_result payload" "\<not> rd_result_modified rd"
    using assms fl ev fr(2)
    by (auto simp: evaluate_pre_def side_frame_def eval_init_def split: option.splits prod.splits)
  show "\<not> rd_args_modified rd \<Longrightarrow> rs_payload st = payload"
  proof (cases den)
    case None
    assume "\<not> rd_args_modified rd"
    with assms fl ev None have m: "\<not> fl_modified fs" "\<not> es_args_modified st'" "rs_payload st = es_payload st'"
      using fr(5) by (auto simp: evaluate_pre_def)
    from fr(2) m(2) have "rp_args (es_payload st') = fl_root fs" "rp_result (es_payload st') = rp_result payload"
      by (simp_all add: side_frame_def eval_init_def)
    with m flag show ?thesis by simp
  next
    case (Some d)
    assume "\<not> rd_args_modified rd"
    with assms fl Some flag same show ?thesis by (cases d) (auto simp: evaluate_pre_def)
  qed
qed

lemma result_loop_frame:
  assumes "result_loop env route bag payload w = (den, payload', m, ts, w')"
  shows "rp_args payload' = rp_args payload" "\<not> m \<Longrightarrow> payload' = payload"
proof -
  have "fl_root fs = r \<and> payload\<lparr>rp_result := Some r\<rparr> = payload"
    if "rp_result payload = Some r" "\<not> fl_modified fs"
      "field_rules_loop env Post bag (cr_result route)
         \<lparr>fl_root = r, fl_modified = False, fl_taints = [], fl_world = w\<rparr> = (den, fs)" for r fs
    using field_rules_flag [OF that(3,2)] that(1) by simp
  then show "rp_args payload' = rp_args payload" "\<not> m \<Longrightarrow> payload' = payload"
    using assms by (auto simp: result_loop_def split: option.splits prod.splits)
qed

lemma evaluate_post_frame:
  assumes "evaluate_post env route bag payload w = (rd, st)"
  shows "rp_args (rs_payload st) = rp_args payload" "\<not> rd_args_modified rd"
    "\<not> rd_result_modified rd \<Longrightarrow> rs_payload st = payload"
proof -
  obtain den payload' m ts w' where rl: "result_loop env route bag payload w = (den, payload', m, ts, w')"
    by (metis prod_cases5)
  obtain ev st' where ev: "evaluate_effects env Post (cr_post_policy route) bag payload' w' = (ev, st')" by force
  note fr = evaluate_effects_frame [OF ev] and rf = result_loop_frame [OF rl]
  have side: "rp_args (es_payload st') = rp_args payload'"
    "\<not> es_result_modified st' \<Longrightarrow> rp_result (es_payload st') = rp_result payload'"
    using fr(2) by (auto simp: side_frame_def eval_init_def)
  show "rp_args (rs_payload st) = rp_args payload" "\<not> rd_args_modified rd"
    using assms rl ev side rf by (auto simp: evaluate_post_def split: option.splits)
  show "\<not> rd_result_modified rd \<Longrightarrow> rs_payload st = payload"
    using assms rl ev side rf fr(6) by (auto simp: evaluate_post_def split: option.splits)
qed

lemma evaluate_pre_pending:
  "evaluate_pre env route bag payload w = (rd, st) \<Longrightarrow> rd_pending rd \<noteq> None \<Longrightarrow> rd_decision rd = Dec_Allow"
  by (auto simp: evaluate_pre_def dest: evaluate_effects_decision split: option.splits prod.splits)

lemma evaluate_route_deny:
  assumes "evaluate_route env route bag payload w = (rd, st)" "evaluate_pre env route bag payload w = (pre, st0)"
    and "is_deny (rd_decision pre) \<or> rd_pending pre \<noteq> None"
  shows "rd = pre \<and> st = st0"
  using assms by (auto simp: evaluate_route_def)

lemma evaluate_route_allow:
  assumes "evaluate_route env route bag payload w = (rd, st)" "rd_decision rd = Dec_Allow" "rd_pending rd = None"
  obtains pre st0 post where "evaluate_pre env route bag payload w = (pre, st0)"
    "rd_decision pre = Dec_Allow" "rd_pending pre = None"
    "evaluate_post env route (rs_bag st0) (rs_payload st0) (rs_world st0) = (post, st)"
    "rd_decision post = Dec_Allow" "rd_pending post = None"
proof -
  obtain pre st0 where pre: "evaluate_pre env route bag payload w = (pre, st0)" by force
  obtain post st1 where post: "evaluate_post env route (rs_bag st0) (rs_payload st0) (rs_world st0) = (post, st1)" by force
  show ?thesis
  proof (cases "is_deny (rd_decision pre) \<or> rd_pending pre \<noteq> None")
    case True
    with assms pre show ?thesis by (auto simp: evaluate_route_def)
  next
    case False
    then have "rd_decision pre = Dec_Allow" by (cases "rd_decision pre") auto
    with False assms pre post that show ?thesis by (auto simp: evaluate_route_def)
  qed
qed

subsection \<open>What an allowing route has gone through\<close>

abbreviation args_init :: "route_payload \<Rightarrow> 'w \<Rightarrow> 'w field_state" where
  "args_init payload w \<equiv> \<lparr>fl_root = rp_args payload, fl_modified = False, fl_taints = [], fl_world = w\<rparr>"

lemma evaluate_pre_allow:
  assumes "evaluate_pre env route bag payload w = (rd, st)" "rd_decision rd = Dec_Allow" "rd_pending rd = None"
  obtains fs st1 where "field_rules_loop env Pre bag (cr_args route) (args_init payload w) = (None, fs)"
    "dispatch_list env Pre [] (cr_policy route)
       (eval_init bag (payload\<lparr>rp_args := fl_root fs\<rparr>) (fl_world fs)) = (Continue, st1)"
    "st = \<lparr>rs_bag = es_bag st1, rs_payload = es_payload st1, rs_world = es_world st1\<rparr>"
proof -
  obtain den fs where fl: "field_rules_loop env Pre bag (cr_args route) (args_init payload w) = (den, fs)" by force
  obtain ev st1 where ev: "evaluate_effects env Pre (cr_policy route) bag (payload\<lparr>rp_args := fl_root fs\<rparr>) (fl_world fs)
      = (ev, st1)" by force
  have none: "den = None" using assms(1,2) fl by (cases den) (auto simp: evaluate_pre_def)
  with assms fl ev have "sv_decision ev = Dec_Allow" "sv_pending ev = None"
    and st: "st = \<lparr>rs_bag = es_bag st1, rs_payload = es_payload st1, rs_world = es_world st1\<rparr>"
    by (auto simp: evaluate_pre_def)
  from evaluate_effects_allow [OF ev this(1,2)] fl none st that show ?thesis by blast
qed

lemma evaluate_post_allow:
  assumes "evaluate_post env route bag payload w = (rd, st)" "rd_decision rd = Dec_Allow" "rd_pending rd = None"
  obtains payload2 m ts w2 st2 where "result_loop env route bag payload w = (None, payload2, m, ts, w2)"
    "dispatch_list env Post [] (cr_post_policy route) (eval_init bag payload2 w2) = (Continue, st2)"
    "st = \<lparr>rs_bag = es_bag st2, rs_payload = es_payload st2, rs_world = es_world st2\<rparr>"
proof -
  obtain den payload2 m ts w2 where rl: "result_loop env route bag payload w = (den, payload2, m, ts, w2)"
    by (metis prod_cases5)
  obtain ev st2 where ev: "evaluate_effects env Post (cr_post_policy route) bag payload2 w2 = (ev, st2)" by force
  have none: "den = None" using assms(1,2) rl by (cases den) (auto simp: evaluate_post_def)
  with assms rl ev have "sv_decision ev = Dec_Allow" "sv_pending ev = None"
    and st: "st = \<lparr>rs_bag = es_bag st2, rs_payload = es_payload st2, rs_world = es_world st2\<rparr>"
    by (auto simp: evaluate_post_def)
  from evaluate_effects_allow [OF ev this(1,2)] rl none st that show ?thesis by blast
qed

lemma evaluate_route_unmodified:
  assumes "evaluate_route env route bag payload w = (rd, st)"
  shows "\<not> rd_args_modified rd \<Longrightarrow> rp_args (rs_payload st) = rp_args payload"
    and "\<not> rd_result_modified rd \<Longrightarrow> rp_result (rs_payload st) = rp_result payload"
proof -
  obtain pre st0 where pre: "evaluate_pre env route bag payload w = (pre, st0)" by force
  obtain post st1 where post: "evaluate_post env route (rs_bag st0) (rs_payload st0) (rs_world st0) = (post, st1)" by force
  note f = evaluate_pre_frame [OF pre] evaluate_post_frame [OF post]
  show "\<not> rd_args_modified rd \<Longrightarrow> rp_args (rs_payload st) = rp_args payload"
    using assms pre post f by (auto simp: evaluate_route_def split: if_splits)
  show "\<not> rd_result_modified rd \<Longrightarrow> rp_result (rs_payload st) = rp_result payload"
    using assms pre post f by (auto simp: evaluate_route_def split: if_splits)
qed

end
