(* ===== verification/Candidate_Routing.thy ===== *)
theory Candidate_Routing
  imports Constraints
begin

text \<open>
  The routing constraint handed to the host: \<^verbatim>\<open>crates/ppe-core/src/extensions/routing.rs\<close> (the
  per-backend matcher with its glob) and \<^verbatim>\<open>crates/ppe-apl-runtime/src/candidate_constraint.rs\<close>
  (folding every constraint a request emitted into one).
\<close>

record candidate_constraint_ext =
  ce_allow_models :: "string list option"
  ce_deny_models :: "string list"
  ce_allow_regions :: "string list option"
  ce_allow_sites :: "string list option"
  ce_max_cost_tiers :: "string list"
  ce_custom :: btree
  ce_on_empty :: on_empty

definition ext_is_empty :: "candidate_constraint_ext \<Rightarrow> bool" where
  "ext_is_empty c \<longleftrightarrow>
     ce_allow_models c = None \<and> ce_deny_models c = [] \<and> ce_allow_regions c = None
     \<and> ce_allow_sites c = None \<and> ce_max_cost_tiers c = [] \<and> ce_custom c = []"

subsection \<open>The glob matcher\<close>

text \<open>
  The loop of \<^verbatim>\<open>glob_match\<close> over the byte indices \<open>pi\<close> and \<open>ti\<close>, with the last star seen and
  the text index to resume from.  In the source the loop variable \<^verbatim>\<open>resume\<close> exists from the
  start and is only read once a star has been seen.
\<close>

function glob_loop :: "string \<Rightarrow> string \<Rightarrow> nat \<Rightarrow> nat \<Rightarrow> nat option \<Rightarrow> nat \<Rightarrow> nat option" where
  "glob_loop p t pi ti star resume =
     (if ti < length t then
        (if pi < length p \<and> p ! pi = t ! ti then glob_loop p t (pi + 1) (ti + 1) star resume
         else if pi < length p \<and> p ! pi = CHR ''*'' then glob_loop p t (pi + 1) ti (Some pi) ti
         else (case star of
                 Some s \<Rightarrow> glob_loop p t (s + 1) (resume + 1) star (resume + 1)
               | None \<Rightarrow> None))
      else Some pi)"
  by pat_completeness auto
termination
  by (relation "measures
        [\<lambda>(p, t, pi, ti, star, resume). if star = None \<or> resume \<le> ti then 0 else 1,
         \<lambda>(p, t, pi, ti, star, resume). if star = None then length t + 1 else length t - resume,
         \<lambda>(p, t, pi, ti, star, resume). length p - pi]") auto

declare glob_loop.simps [simp del]

definition skip_stars :: "string \<Rightarrow> nat \<Rightarrow> nat" where
  "skip_stars p pi = pi + length (takeWhile (\<lambda>c. c = CHR ''*'') (drop pi p))"

definition glob_match :: "string \<Rightarrow> string \<Rightarrow> bool" where
  "glob_match pattern txt =
     (case glob_loop pattern txt 0 0 None 0 of
        None \<Rightarrow> False
      | Some pi \<Rightarrow> skip_stars pattern pi = length pattern)"

subsection \<open>The per-backend matcher\<close>

type_synonym backend_labels = "string \<rightharpoonup> string"

definition in_allow_list :: "(string \<Rightarrow> string \<Rightarrow> bool) \<Rightarrow> string list option \<Rightarrow> string option \<Rightarrow> bool" where
  "in_allow_list eq allow lbl =
     (case allow of
        None \<Rightarrow> True
      | Some xs \<Rightarrow> (case lbl of None \<Rightarrow> False | Some m \<Rightarrow> list_ex (\<lambda>x. eq x m) xs))"

definition tiers_ok :: "string list \<Rightarrow> string option \<Rightarrow> (string \<Rightarrow> nat option) \<Rightarrow> bool" where
  "tiers_ok tiers lbl tier_rank =
     (if tiers = [] then True
      else (case lbl of
              None \<Rightarrow> False
            | Some bt \<Rightarrow>
                (case tier_rank bt of
                   None \<Rightarrow> False
                 | Some backend_rank \<Rightarrow>
                     list_all (\<lambda>ceiling. case tier_rank ceiling of
                                           None \<Rightarrow> False
                                         | Some r \<Rightarrow> backend_rank \<le> r) tiers)))"

definition ext_accepts ::
    "candidate_constraint_ext \<Rightarrow> backend_labels \<Rightarrow> (string \<Rightarrow> nat option) \<Rightarrow> bool" where
  "ext_accepts c backend tier_rank =
     (if \<not> in_allow_list glob_match (ce_allow_models c) (backend ''model'') then False
      else if (case backend ''model'' of
                 None \<Rightarrow> False
               | Some m \<Rightarrow> list_ex (\<lambda>pat. glob_match pat m) (ce_deny_models c)) then False
      else if \<not> in_allow_list (=) (ce_allow_regions c) (backend ''region'') then False
      else if \<not> in_allow_list (=) (ce_allow_sites c) (backend ''site'') then False
      else if \<not> tiers_ok (ce_max_cost_tiers c) (backend ''cost_tier'') tier_rank then False
      else list_all (\<lambda>(k, v). backend k = Some v) (ce_custom c))"

subsection \<open>The fold\<close>

record constraint_conflict =
  cf_key :: string
  cf_existing :: string
  cf_incoming :: string

definition conflict_text :: "constraint_conflict \<Rightarrow> string" where
  "conflict_text c =
     ''conflicting `restrict` custom label `'' @ cf_key c @ ''`: `'' @ cf_existing c
     @ ''` vs `'' @ cf_incoming c @ ''` (no backend can be both)''"

definition strictest :: "on_empty \<Rightarrow> on_empty \<Rightarrow> on_empty" where
  "strictest a b =
     (if a = OnEmpty_Fallback \<and> b = OnEmpty_Fallback then OnEmpty_Fallback else OnEmpty_Deny)"

text \<open>
  The two crates declare the same enumeration twice; the model has one, so \<^verbatim>\<open>map_on_empty\<close> is
  the identity.
\<close>

definition map_on_empty :: "on_empty \<Rightarrow> on_empty" where
  "map_on_empty v = (case v of OnEmpty_Deny \<Rightarrow> OnEmpty_Deny | OnEmpty_Fallback \<Rightarrow> OnEmpty_Fallback)"

definition intersect_into :: "string list option \<Rightarrow> string list option \<Rightarrow> string list option" where
  "intersect_into acc incoming =
     (case incoming of
        None \<Rightarrow> acc
      | Some inc \<Rightarrow>
          (case acc of
             None \<Rightarrow> Some (sorted_list_of_set (set inc))
           | Some existing \<Rightarrow> Some (filter (\<lambda>e. e \<in> set inc) existing)))"

fun merge_custom :: "btree \<Rightarrow> btree \<Rightarrow> constraint_conflict + btree" where
  "merge_custom custom [] = Inr custom"
| "merge_custom custom ((k, v) # kvs) =
     (case map_of custom k of
        Some existing \<Rightarrow>
          if existing \<noteq> v then Inl \<lparr>cf_key = k, cf_existing = existing, cf_incoming = v\<rparr>
          else merge_custom custom kvs
      | None \<Rightarrow> merge_custom (btree_insert k v custom) kvs)"

record fold_state =
  fs_allow_models :: "string list option"
  fs_allow_regions :: "string list option"
  fs_allow_sites :: "string list option"
  fs_deny_models :: "string fset"
  fs_tiers :: "string fset"
  fs_custom :: btree
  fs_on_empty :: on_empty

definition fold_init :: fold_state where
  "fold_init =
     \<lparr>fs_allow_models = None, fs_allow_regions = None, fs_allow_sites = None,
      fs_deny_models = {||}, fs_tiers = {||}, fs_custom = [], fs_on_empty = OnEmpty_Fallback\<rparr>"

definition fold_step :: "fold_state \<Rightarrow> candidate_constraint \<Rightarrow> constraint_conflict + fold_state" where
  "fold_step st c =
     res_bind (merge_custom (fs_custom st) (cc_custom c)) (\<lambda>custom.
       Inr \<lparr>fs_allow_models = intersect_into (fs_allow_models st) (cc_allow_models c),
            fs_allow_regions = intersect_into (fs_allow_regions st) (cc_allow_regions c),
            fs_allow_sites = intersect_into (fs_allow_sites st) (cc_allow_sites c),
            fs_deny_models = fs_deny_models st |\<union>| fset_of_list (cc_deny_models c),
            fs_tiers = (case cc_max_cost_tier c of
                          None \<Rightarrow> fs_tiers st
                        | Some tier \<Rightarrow> finsert tier (fs_tiers st)),
            fs_custom = custom,
            fs_on_empty = strictest (fs_on_empty st) (map_on_empty (cc_on_empty c))\<rparr>)"

fun fold_run :: "fold_state \<Rightarrow> candidate_constraint list \<Rightarrow> constraint_conflict + fold_state" where
  "fold_run st [] = Inr st"
| "fold_run st (c # cs) = res_bind (fold_step st c) (\<lambda>st'. fold_run st' cs)"

definition fold_finish :: "fold_state \<Rightarrow> candidate_constraint_ext" where
  "fold_finish st =
     \<lparr>ce_allow_models = fs_allow_models st, ce_deny_models = sorted_list_of_fset (fs_deny_models st),
      ce_allow_regions = fs_allow_regions st, ce_allow_sites = fs_allow_sites st,
      ce_max_cost_tiers = sorted_list_of_fset (fs_tiers st), ce_custom = fs_custom st,
      ce_on_empty = fs_on_empty st\<rparr>"

definition fold_candidate_constraints ::
    "candidate_constraint list \<Rightarrow> constraint_conflict + candidate_constraint_ext option" where
  "fold_candidate_constraints constraints =
     (if constraints = [] then Inr None
      else res_bind (fold_run fold_init constraints) (\<lambda>st.
             let folded = fold_finish st
             in if ext_is_empty folded then Inr None else Inr (Some folded)))"

end
