(* ===== verification/Routing_Props.thy ===== *)
theory Routing_Props
  imports Candidate_Routing
begin

text \<open>
  Correctness of the routing constraint: the backtracking glob matcher against its reference
  semantics, and the fold against the conjunction of the constraints it folds.
\<close>

subsection \<open>What a glob pattern means\<close>

fun glob_spec :: "string \<Rightarrow> string \<Rightarrow> bool" where
  "glob_spec [] t = (t = [])"
| "glob_spec (c # ps) t =
     (if c = CHR ''*'' then glob_spec ps t \<or> (case t of [] \<Rightarrow> False | _ # ts \<Rightarrow> glob_spec (c # ps) ts)
      else (case t of [] \<Rightarrow> False | d # ts \<Rightarrow> c = d \<and> glob_spec ps ts))"

lemma glob_spec_star: "glob_spec (CHR ''*'' # ps) t \<longleftrightarrow> (\<exists>j \<le> length t. glob_spec ps (drop j t))"
proof (induction t)
  case (Cons d ts)
  show ?case
  proof
    assume "glob_spec (CHR ''*'' # ps) (d # ts)"
    then consider "glob_spec ps (d # ts)" | "glob_spec (CHR ''*'' # ps) ts" by auto
    then show "\<exists>j \<le> length (d # ts). glob_spec ps (drop j (d # ts))"
    proof cases
      case 1
      then show ?thesis by (intro exI [of _ 0]) simp
    next
      case 2
      with Cons obtain j where "j \<le> length ts" "glob_spec ps (drop j ts)" by blast
      then show ?thesis by (intro exI [of _ "Suc j"]) simp
    qed
  next
    assume "\<exists>j \<le> length (d # ts). glob_spec ps (drop j (d # ts))"
    then obtain j where j: "j \<le> length (d # ts)" "glob_spec ps (drop j (d # ts))" by blast
    then show "glob_spec (CHR ''*'' # ps) (d # ts)" using Cons by (cases j) auto
  qed
qed simp

lemma glob_spec_literal_append:
  "CHR ''*'' \<notin> set lit \<Longrightarrow> glob_spec (lit @ ps) t \<longleftrightarrow> (\<exists>u. t = lit @ u \<and> glob_spec ps u)"
proof (induction lit arbitrary: t)
  case (Cons c lit)
  show ?case
  proof (cases t)
    case Nil
    with Cons.prems show ?thesis by auto
  next
    case (Cons d ts)
    have "glob_spec ((c # lit) @ ps) t \<longleftrightarrow> c = d \<and> glob_spec (lit @ ps) ts"
      using Cons.prems Cons by auto
    also have "\<dots> \<longleftrightarrow> c = d \<and> (\<exists>u. ts = lit @ u \<and> glob_spec ps u)"
      using Cons.IH [of ts] Cons.prems by simp
    finally show ?thesis using Cons by auto
  qed
qed simp

lemma glob_spec_Nil_iff: "glob_spec p [] \<longleftrightarrow> (\<forall>c \<in> set p. c = CHR ''*'')"
  by (induction p) auto

lemma length_takeWhile_all: "length (takeWhile Q xs) = length xs \<longleftrightarrow> (\<forall>x \<in> set xs. Q x)"
  by (induction xs) auto

lemma skip_stars_end:
  "pi \<le> length p \<Longrightarrow> skip_stars p pi = length p \<longleftrightarrow> glob_spec (drop pi p) []"
  using length_takeWhile_all [of "\<lambda>c. c = CHR ''*''" "drop pi p"]
  by (simp only: skip_stars_def glob_spec_Nil_iff length_drop) linarith

text \<open>
  The loop invariant.  Once a star has been seen at \<open>s\<close>, the pattern between it and \<open>pi\<close> is
  literal and has been matched against the text between \<open>resume\<close> and \<open>ti\<close>.
\<close>

definition glob_inv :: "string \<Rightarrow> string \<Rightarrow> nat \<Rightarrow> nat \<Rightarrow> nat option \<Rightarrow> nat \<Rightarrow> bool" where
  "glob_inv p t pi ti star resume \<longleftrightarrow>
     pi \<le> length p \<and> ti \<le> length t
     \<and> (\<forall>s. star = Some s \<longrightarrow> s < pi \<and> resume \<le> ti \<and> ti - resume = pi - Suc s
            \<and> CHR ''*'' \<notin> set (take (pi - Suc s) (drop (Suc s) p)))"

definition glob_later :: "string \<Rightarrow> string \<Rightarrow> nat option \<Rightarrow> nat \<Rightarrow> bool" where
  "glob_later p t star resume \<longleftrightarrow>
     (\<exists>s j. star = Some s \<and> resume < j \<and> j \<le> length t \<and> glob_spec (drop (Suc s) p) (drop j t))"

lemma glob_segment:
  assumes "glob_inv p t pi ti (Some s) resume"
  obtains lit where "drop (Suc s) p = lit @ drop pi p" "length lit = ti - resume"
    "CHR ''*'' \<notin> set lit" "resume \<le> ti"
proof
  let ?lit = "take (pi - Suc s) (drop (Suc s) p)"
  from assms have seg: "s < pi" "pi \<le> length p" "ti - resume = pi - Suc s" "resume \<le> ti"
    "CHR ''*'' \<notin> set ?lit"
    by (auto simp: glob_inv_def)
  have "drop (Suc s) p = ?lit @ drop (pi - Suc s) (drop (Suc s) p)"
    by (simp only: append_take_drop_id)
  with seg show "drop (Suc s) p = ?lit @ drop pi p" by simp
  show "length ?lit = ti - resume" "CHR ''*'' \<notin> set ?lit" "resume \<le> ti" using seg by auto
qed

lemma glob_later_next_star:
  assumes inv: "glob_inv p t pi ti star resume"
    and pi: "pi < length p" "p ! pi = CHR ''*''"
    and later: "glob_later p t star resume"
  shows "\<exists>j. ti \<le> j \<and> j \<le> length t \<and> glob_spec (drop (Suc pi) p) (drop j t)"
proof -
  from later obtain s j where s: "star = Some s" and j: "resume < j" "j \<le> length t"
    and m: "glob_spec (drop (Suc s) p) (drop j t)"
    by (auto simp: glob_later_def)
  from glob_segment inv s obtain lit where seg: "drop (Suc s) p = lit @ drop pi p"
    "length lit = ti - resume" "CHR ''*'' \<notin> set lit" "resume \<le> ti" by metis
  have "drop pi p = CHR ''*'' # drop (Suc pi) p"
    using pi by (metis Cons_nth_drop_Suc)
  with seg have "drop (Suc s) p = lit @ CHR ''*'' # drop (Suc pi) p" by simp
  with m have "glob_spec (lit @ CHR ''*'' # drop (Suc pi) p) (drop j t)" by (simp only:)
  then obtain u where u: "drop j t = lit @ u" "glob_spec (CHR ''*'' # drop (Suc pi) p) u"
    using glob_spec_literal_append [OF seg(3)] by blast
  then obtain k where k: "k \<le> length u" "glob_spec (drop (Suc pi) p) (drop k u)"
    by (auto simp: glob_spec_star simp del: glob_spec.simps)
  have "drop (j + length lit + k) t = drop k u"
    using u(1) by (metis add.commute append_eq_conv_conj drop_drop)
  moreover have "j + length lit + k \<le> length t"
  proof -
    have "length t - j = length lit + length u" using u(1) by (metis length_append length_drop)
    with k(1) j show ?thesis by linarith
  qed
  moreover have "ti \<le> j + length lit + k" using seg j by linarith
  ultimately show ?thesis using k(2) by metis
qed

lemma glob_inv_literal:
  assumes "glob_inv p t pi ti star resume" "pi < length p" "ti < length t" "p ! pi \<noteq> CHR ''*''"
  shows "glob_inv p t (pi + 1) (ti + 1) star resume"
proof -
  have "take (Suc pi - Suc s) (drop (Suc s) p) = take (pi - Suc s) (drop (Suc s) p) @ [p ! pi]"
    if "s < pi" for s
    using that assms(2) by (simp add: take_Suc_conv_app_nth Suc_diff_Suc [symmetric])
  with assms show ?thesis by (auto simp: glob_inv_def Suc_diff_le)
qed

lemma glob_loop_correct:
  assumes "CHR ''*'' \<notin> set t" "glob_inv p t pi ti star resume"
  shows "(case glob_loop p t pi ti star resume of None \<Rightarrow> False | Some q \<Rightarrow> skip_stars p q = length p)
     \<longleftrightarrow> glob_spec (drop pi p) (drop ti t) \<or> glob_later p t star resume"
  using assms
proof (induction p t pi ti star resume rule: glob_loop.induct)
  case (1 p t pi ti star resume)
  note unfold = glob_loop.simps [of p t pi ti star resume]
  show ?case
  proof (cases "ti < length t")
    case False
    with "1.prems" have ti: "ti = length t" "pi \<le> length p" by (auto simp: glob_inv_def)
    have "glob_spec (drop pi p) [] \<or> glob_later p t star resume \<longleftrightarrow> glob_spec (drop pi p) []"
    proof -
      have False if later: "glob_later p t star resume" "\<not> glob_spec (drop pi p) []"
      proof -
        from later obtain s j where s: "star = Some s" "resume < j" "j \<le> length t"
          "glob_spec (drop (Suc s) p) (drop j t)" by (auto simp: glob_later_def)
        from glob_segment "1.prems"(2) s obtain lit where seg: "drop (Suc s) p = lit @ drop pi p"
          "length lit = ti - resume" "CHR ''*'' \<notin> set lit" "resume \<le> ti" by metis
        with s(4) seg obtain u where u: "drop j t = lit @ u"
          by (auto simp: glob_spec_literal_append)
        then have "length t - j = length lit + length u" by (metis length_append length_drop)
        with s(2,3) seg(2,4) ti(1) show False by linarith
      qed
      then show ?thesis by blast
    qed
    moreover have "glob_loop p t pi ti star resume = Some pi"
      using False by (simp add: unfold)
    ultimately show ?thesis using ti by (simp add: skip_stars_end)
  next
    case True
    then have t_cons: "drop ti t = t ! ti # drop (Suc ti) t" by (metis Cons_nth_drop_Suc)
    have nostar: "t ! ti \<noteq> CHR ''*''" using True "1.prems"(1) by (metis nth_mem)
    show ?thesis
    proof (cases "pi < length p \<and> p ! pi = t ! ti")
      case lit: True
      then have p_cons: "drop pi p = t ! ti # drop (Suc pi) p" by (metis Cons_nth_drop_Suc)
      have inv': "glob_inv p t (pi + 1) (ti + 1) star resume"
        using glob_inv_literal "1.prems"(2) lit True nostar by metis
      show ?thesis
        using "1.IH"(1) [OF True lit "1.prems"(1) inv'] True lit nostar
        by (simp add: unfold p_cons t_cons)
    next
      case nolit: False
      show ?thesis
      proof (cases "pi < length p \<and> p ! pi = CHR ''*''")
        case star: True
        then have p_cons: "drop pi p = CHR ''*'' # drop (Suc pi) p" by (metis Cons_nth_drop_Suc)
        have inv': "glob_inv p t (pi + 1) ti (Some pi) ti"
          using "1.prems"(2) star by (auto simp: glob_inv_def)
        have spec: "glob_spec (drop pi p) (drop ti t) \<longleftrightarrow>
            (\<exists>j. ti \<le> j \<and> j \<le> length t \<and> glob_spec (drop (Suc pi) p) (drop j t))"
          (is "_ \<longleftrightarrow> ?R")
        proof
          assume "glob_spec (drop pi p) (drop ti t)"
          then obtain k where "k \<le> length (drop ti t)" "glob_spec (drop (Suc pi) p) (drop k (drop ti t))"
            by (auto simp: p_cons glob_spec_star simp del: glob_spec.simps)
          then show ?R using True by (intro exI [of _ "k + ti"]) auto
        next
          assume ?R
          then obtain j where "ti \<le> j" "j \<le> length t" "glob_spec (drop (Suc pi) p) (drop j t)" by blast
          then show "glob_spec (drop pi p) (drop ti t)"
            by (auto simp: p_cons glob_spec_star simp del: glob_spec.simps intro!: exI [of _ "j - ti"])
        qed
        have "glob_spec (drop (pi + 1) p) (drop ti t) \<or> glob_later p t (Some pi) ti \<longleftrightarrow>
            (\<exists>j. ti \<le> j \<and> j \<le> length t \<and> glob_spec (drop (Suc pi) p) (drop j t))"
          using True by (auto simp: glob_later_def nat_less_le)
        then show ?thesis
          using "1.IH"(2) [OF True nolit star "1.prems"(1) inv'] True nolit star spec
            glob_later_next_star [OF "1.prems"(2)]
          by (auto simp: unfold)
      next
        case nostar_p: False
        have no_direct: "\<not> glob_spec (drop pi p) (drop ti t)"
        proof (cases "pi < length p")
          case True
          then have "drop pi p = p ! pi # drop (Suc pi) p" by (metis Cons_nth_drop_Suc)
          then show ?thesis using nolit nostar_p True t_cons by auto
        next
          case False
          then show ?thesis using t_cons by simp
        qed
        show ?thesis
        proof (cases star)
          case None
          moreover have "glob_loop p t pi ti star resume = None"
            using None True nolit nostar_p by (subst unfold) auto
          ultimately show ?thesis using no_direct by (simp add: glob_later_def)
        next
          case (Some s)
          have inv': "glob_inv p t (s + 1) (resume + 1) star (resume + 1)"
            using "1.prems"(2) Some True by (auto simp: glob_inv_def)
          have "glob_spec (drop (s + 1) p) (drop (resume + 1) t) \<or> glob_later p t star (resume + 1)
              \<longleftrightarrow> glob_later p t star resume"
            using Some inv' unfolding glob_later_def glob_inv_def
            by (auto dest: Suc_lessD Suc_leI le_neq_implies_less)
          moreover have "glob_loop p t pi ti star resume =
              glob_loop p t (s + 1) (resume + 1) star (resume + 1)"
            using True nolit nostar_p Some by (subst unfold) auto
          ultimately show ?thesis
            using "1.IH"(3) [OF True nolit nostar_p Some "1.prems"(1) inv'] no_direct by simp
        qed
      qed
    qed
  qed
qed

lemma glob_match_spec: "CHR ''*'' \<notin> set t \<Longrightarrow> glob_match p t \<longleftrightarrow> glob_spec p t"
  using glob_loop_correct [of t p 0 0 None 0]
  by (simp add: glob_match_def glob_inv_def glob_later_def)

text \<open>On a pattern without a star the matcher is equality, whatever the text is.\<close>

lemma glob_loop_literal:
  "CHR ''*'' \<notin> set p \<Longrightarrow> pi \<le> length p \<Longrightarrow> ti \<le> length t \<Longrightarrow>
   glob_loop p t pi ti None resume = Some q \<Longrightarrow>
     pi + length (drop ti t) = q \<and> q \<le> length p \<and> take (q - pi) (drop pi p) = drop ti t"
proof (induction "length t - ti" arbitrary: pi ti)
  case 0
  then show ?case by (subst (asm) glob_loop.simps) auto
next
  case (Suc n)
  then have lt: "ti < length t" by simp
  have nostar: "pi < length p \<Longrightarrow> p ! pi \<noteq> CHR ''*''" using Suc.prems(1) by (metis nth_mem)
  have eq: "pi < length p" "p ! pi = t ! ti"
    using Suc.prems(4) lt nostar by (subst (asm) glob_loop.simps; simp split: if_splits)+
  have "glob_loop p t (pi + 1) (ti + 1) None resume = Some q"
    using Suc.prems(4) lt eq by (subst (asm) glob_loop.simps) simp
  from Suc.hyps(1) [OF _ Suc.prems(1) _ _ this] Suc.hyps(2) lt eq
  have ih: "pi + 1 + length (drop (ti + 1) t) = q" "q \<le> length p"
    "take (q - (pi + 1)) (drop (pi + 1) p) = drop (ti + 1) t" by auto
  have "drop pi p = p ! pi # drop (pi + 1) p" "drop ti t = t ! ti # drop (ti + 1) t"
    using Cons_nth_drop_Suc [OF eq(1)] Cons_nth_drop_Suc [OF lt] by simp_all
  moreover have "q - pi = Suc (q - (pi + 1))" using ih(1) by linarith
  ultimately show ?case using ih eq(2) lt by auto
qed

lemma glob_loop_same: "pi \<le> length p \<Longrightarrow> glob_loop p p pi pi None resume = Some (length p)"
proof (induction "length p - pi" arbitrary: pi)
  case 0
  then show ?case by (subst glob_loop.simps) simp
next
  case (Suc n)
  then show ?case by (subst glob_loop.simps) simp
qed

lemma takeWhile_absent: "x \<notin> set xs \<Longrightarrow> takeWhile (\<lambda>c. c = x) xs = []"
  by (cases xs) auto

lemma glob_match_literal: "CHR ''*'' \<notin> set p \<Longrightarrow> glob_match p t \<longleftrightarrow> p = t"
proof
  assume p: "CHR ''*'' \<notin> set p" and "glob_match p t"
  then obtain q where q: "glob_loop p t 0 0 None 0 = Some q" "skip_stars p q = length p"
    by (auto simp: glob_match_def split: option.splits)
  from glob_loop_literal [OF p _ _ q(1)] have t: "length t = q" "q \<le> length p" "take q p = t" by auto
  have "CHR ''*'' \<notin> set (drop q p)" using p by (meson in_set_dropD)
  then have "takeWhile (\<lambda>c. c = CHR ''*'') (drop q p) = []" by (rule takeWhile_absent)
  with q(2) have "q = length p" by (simp add: skip_stars_def)
  then show "p = t" using t(3) by (metis order_refl take_all)
qed (simp add: glob_match_def glob_loop_same skip_stars_def)

subsection \<open>What the fold means\<close>

text \<open>A single constraint read as the folded form of itself.\<close>

definition lift_constraint :: "candidate_constraint \<Rightarrow> candidate_constraint_ext" where
  "lift_constraint c =
     \<lparr>ce_allow_models = cc_allow_models c, ce_deny_models = cc_deny_models c,
      ce_allow_regions = cc_allow_regions c, ce_allow_sites = cc_allow_sites c,
      ce_max_cost_tiers = (case cc_max_cost_tier c of None \<Rightarrow> [] | Some t \<Rightarrow> [t]),
      ce_custom = cc_custom c, ce_on_empty = cc_on_empty c\<rparr>"

definition denied_model :: "string list \<Rightarrow> backend_labels \<Rightarrow> bool" where
  "denied_model deny b \<longleftrightarrow> (\<exists>m. b ''model'' = Some m \<and> (\<exists>pat \<in> set deny. glob_match pat m))"

definition tier_ok :: "string \<Rightarrow> string option \<Rightarrow> (string \<Rightarrow> nat option) \<Rightarrow> bool" where
  "tier_ok ceil lbl rank \<longleftrightarrow>
     (\<exists>bt x r. lbl = Some bt \<and> rank bt = Some x \<and> rank ceil = Some r \<and> x \<le> r)"

lemma tiers_ok_iff: "tiers_ok ts lbl rank \<longleftrightarrow> (\<forall>t \<in> set ts. tier_ok t lbl rank)"
proof (cases ts)
  case (Cons t ts')
  then have "ts \<noteq> []" by simp
  then show ?thesis
    unfolding tiers_ok_def tier_ok_def
    by (cases lbl; cases "rank (the lbl)")
      (auto simp: list_all_iff split: option.splits dest: list.set_sel)
qed (simp add: tiers_ok_def)

lemma ext_accepts_iff:
  "ext_accepts c b rank \<longleftrightarrow>
     in_allow_list glob_match (ce_allow_models c) (b ''model'')
     \<and> \<not> denied_model (ce_deny_models c) b
     \<and> in_allow_list (=) (ce_allow_regions c) (b ''region'')
     \<and> in_allow_list (=) (ce_allow_sites c) (b ''site'')
     \<and> (\<forall>t \<in> set (ce_max_cost_tiers c). tier_ok t (b ''cost_tier'') rank)
     \<and> (\<forall>(k, v) \<in> set (ce_custom c). b k = Some v)"
  by (auto simp: ext_accepts_def denied_model_def tiers_ok_iff list_ex_iff list_all_iff
      split: option.splits)

lemma ext_is_empty_accepts: "ext_is_empty c \<Longrightarrow> ext_accepts c b rank"
  by (simp add: ext_is_empty_def ext_accepts_iff in_allow_list_def denied_model_def)

lemma in_allow_list_intersect:
  "in_allow_list eq (intersect_into a i) l \<Longrightarrow> in_allow_list eq a l \<and> in_allow_list eq i l"
  by (auto simp: in_allow_list_def intersect_into_def list_ex_iff split: option.splits)

lemma in_allow_list_intersect_eq:
  "in_allow_list (=) (intersect_into a i) l \<longleftrightarrow> in_allow_list (=) a l \<and> in_allow_list (=) i l"
  by (auto simp: in_allow_list_def intersect_into_def list_ex_iff split: option.splits)

lemma merge_custom_set: "merge_custom m kvs = Inr m' \<Longrightarrow> set m' = set m \<union> set kvs"
proof (induction m kvs rule: merge_custom.induct)
  case (2 m k v kvs)
  show ?case
  proof (cases "map_of m k")
    case None
    with 2 show ?thesis by (simp add: set_btree_insert)
  next
    case (Some e)
    with 2 map_of_SomeD [OF Some] show ?thesis by (auto split: if_splits)
  qed
qed simp

lemma merge_custom_conflict:
  "merge_custom m kvs = Inl cf \<Longrightarrow>
     (cf_key cf, cf_existing cf) \<in> set m \<union> set kvs \<and> (cf_key cf, cf_incoming cf) \<in> set kvs
     \<and> cf_existing cf \<noteq> cf_incoming cf"
proof (induction m kvs rule: merge_custom.induct)
  case (2 m k v kvs)
  show ?case
  proof (cases "map_of m k")
    case None
    with 2 show ?thesis by (auto simp: set_btree_insert)
  next
    case (Some e)
    with 2 map_of_SomeD [OF Some] show ?thesis by (auto split: if_splits)
  qed
qed simp

text \<open>The state after a run, as a function of the set of the constraints folded into it.\<close>

lemma fold_step_components:
  assumes "fold_step st c = Inr st'"
  shows "fset (fs_deny_models st') = fset (fs_deny_models st) \<union> set (cc_deny_models c)"
    and "fset (fs_tiers st') = fset (fs_tiers st) \<union> set_option (cc_max_cost_tier c)"
    and "set (fs_custom st') = set (fs_custom st) \<union> set (cc_custom c)"
    and "fs_on_empty st' = OnEmpty_Fallback \<longleftrightarrow>
           fs_on_empty st = OnEmpty_Fallback \<and> cc_on_empty c = OnEmpty_Fallback"
    and "fs_allow_models st' = intersect_into (fs_allow_models st) (cc_allow_models c)"
    and "fs_allow_regions st' = intersect_into (fs_allow_regions st) (cc_allow_regions c)"
    and "fs_allow_sites st' = intersect_into (fs_allow_sites st) (cc_allow_sites c)"
    and "merge_custom (fs_custom st) (cc_custom c) = Inr (fs_custom st')"
proof -
  from assms obtain custom where m: "merge_custom (fs_custom st) (cc_custom c) = Inr custom"
    and st': "st' = \<lparr>fs_allow_models = intersect_into (fs_allow_models st) (cc_allow_models c),
            fs_allow_regions = intersect_into (fs_allow_regions st) (cc_allow_regions c),
            fs_allow_sites = intersect_into (fs_allow_sites st) (cc_allow_sites c),
            fs_deny_models = fs_deny_models st |\<union>| fset_of_list (cc_deny_models c),
            fs_tiers = (case cc_max_cost_tier c of
                          None \<Rightarrow> fs_tiers st
                        | Some tier \<Rightarrow> finsert tier (fs_tiers st)),
            fs_custom = custom,
            fs_on_empty = strictest (fs_on_empty st) (map_on_empty (cc_on_empty c))\<rparr>"
    by (auto simp: fold_step_def res_bind_eq_Inr)
  show "fset (fs_deny_models st') = fset (fs_deny_models st) \<union> set (cc_deny_models c)"
    by (simp add: st' fset_of_list.rep_eq)
  show "fset (fs_tiers st') = fset (fs_tiers st) \<union> set_option (cc_max_cost_tier c)"
    by (cases "cc_max_cost_tier c") (simp_all add: st')
  show "set (fs_custom st') = set (fs_custom st) \<union> set (cc_custom c)"
    using merge_custom_set [OF m] by (simp add: st')
  show "fs_on_empty st' = OnEmpty_Fallback \<longleftrightarrow>
           fs_on_empty st = OnEmpty_Fallback \<and> cc_on_empty c = OnEmpty_Fallback"
    by (cases "cc_on_empty c") (simp_all add: st' strictest_def map_on_empty_def)
  show "fs_allow_models st' = intersect_into (fs_allow_models st) (cc_allow_models c)"
    "fs_allow_regions st' = intersect_into (fs_allow_regions st) (cc_allow_regions c)"
    "fs_allow_sites st' = intersect_into (fs_allow_sites st) (cc_allow_sites c)"
    "merge_custom (fs_custom st) (cc_custom c) = Inr (fs_custom st')"
    using m by (simp_all add: st')
qed

lemma fold_run_components:
  assumes "fold_run st cs = Inr st'"
  shows "fset (fs_deny_models st') = fset (fs_deny_models st) \<union> (\<Union>c \<in> set cs. set (cc_deny_models c))"
    and "fset (fs_tiers st') = fset (fs_tiers st) \<union> (\<Union>c \<in> set cs. set_option (cc_max_cost_tier c))"
    and "set (fs_custom st') = set (fs_custom st) \<union> (\<Union>c \<in> set cs. set (cc_custom c))"
    and "fs_on_empty st' = OnEmpty_Fallback \<longleftrightarrow>
           fs_on_empty st = OnEmpty_Fallback \<and> (\<forall>c \<in> set cs. cc_on_empty c = OnEmpty_Fallback)"
    and "fs_allow_models st' = fold (\<lambda>c a. intersect_into a (cc_allow_models c)) cs (fs_allow_models st)"
    and "fs_allow_regions st' = fold (\<lambda>c a. intersect_into a (cc_allow_regions c)) cs (fs_allow_regions st)"
    and "fs_allow_sites st' = fold (\<lambda>c a. intersect_into a (cc_allow_sites c)) cs (fs_allow_sites st)"
  using assms
  by (induction cs arbitrary: st; fastforce simp: res_bind_eq_Inr fold_step_components)+

lemma in_allow_list_fold:
  "in_allow_list eq (fold (\<lambda>c a. intersect_into a (f c)) cs a) l \<Longrightarrow>
     in_allow_list eq a l \<and> (\<forall>c \<in> set cs. in_allow_list eq (f c) l)"
  by (induction cs arbitrary: a) (auto dest!: in_allow_list_intersect)

lemma in_allow_list_fold_eq:
  "in_allow_list (=) (fold (\<lambda>c a. intersect_into a (f c)) cs a) l \<longleftrightarrow>
     in_allow_list (=) a l \<and> (\<forall>c \<in> set cs. in_allow_list (=) (f c) l)"
  by (induction cs arbitrary: a) (auto simp: in_allow_list_intersect_eq)

text \<open>Every list of the folded form is in its normal form: sorted, without repetition.\<close>

definition norm_allow :: "string list option \<Rightarrow> bool" where
  "norm_allow a \<longleftrightarrow> (\<forall>xs. a = Some xs \<longrightarrow> sorted xs \<and> distinct xs)"

definition allow_mem :: "string list option \<Rightarrow> string \<Rightarrow> bool" where
  "allow_mem a x \<longleftrightarrow> (\<forall>xs. a = Some xs \<longrightarrow> x \<in> set xs)"

lemma norm_allow_None: "norm_allow None"
  by (simp add: norm_allow_def)

lemma norm_allow_intersect: "norm_allow a \<Longrightarrow> norm_allow (intersect_into a i)"
  by (auto simp: norm_allow_def intersect_into_def sorted_wrt_filter split: option.splits)

lemma allow_mem_intersect: "allow_mem (intersect_into a i) x \<longleftrightarrow> allow_mem a x \<and> allow_mem i x"
  by (auto simp: allow_mem_def intersect_into_def split: option.splits)

lemma intersect_into_None: "intersect_into a i = None \<longleftrightarrow> a = None \<and> i = None"
  by (auto simp: intersect_into_def split: option.splits)

lemma fold_allow:
  "norm_allow a \<Longrightarrow> norm_allow (fold (\<lambda>c a. intersect_into a (f c)) cs a)"
  "allow_mem (fold (\<lambda>c a. intersect_into a (f c)) cs a) x \<longleftrightarrow>
     allow_mem a x \<and> (\<forall>c \<in> set cs. allow_mem (f c) x)"
  "fold (\<lambda>c a. intersect_into a (f c)) cs a = None \<longleftrightarrow> a = None \<and> (\<forall>c \<in> set cs. f c = None)"
  by (induction cs arbitrary: a) (auto simp: norm_allow_intersect allow_mem_intersect intersect_into_None)

lemma norm_allow_eqI:
  assumes "norm_allow a" "norm_allow b" "\<And>x. allow_mem a x \<longleftrightarrow> allow_mem b x" "a = None \<longleftrightarrow> b = None"
  shows "a = b"
proof (cases a)
  case (Some xs)
  with assms(4) obtain ys where ys: "b = Some ys" by (cases b) auto
  have "set xs = set ys" using assms(3) Some ys by (auto simp: allow_mem_def)
  with assms(1,2) Some ys show ?thesis by (simp add: norm_allow_def sorted_distinct_set_unique)
qed (use assms in simp)

lemma fold_allow_cong:
  "set cs = set ds \<Longrightarrow>
     fold (\<lambda>c a. intersect_into a (f c)) cs None = fold (\<lambda>c a. intersect_into a (f c)) ds None"
  by (rule norm_allow_eqI) (simp_all add: fold_allow norm_allow_None)

lemma norm_merge_custom: "merge_custom m kvs = Inr m' \<Longrightarrow> norm_btree m \<Longrightarrow> norm_btree m'"
  by (induction m kvs rule: merge_custom.induct)
    (auto simp: norm_btree_insert split: option.splits if_splits)

lemma norm_btree_unique: "norm_btree m \<Longrightarrow> norm_btree n \<Longrightarrow> set m = set n \<Longrightarrow> m = n"
  using norm_btree_distinct [of m] norm_btree_distinct [of n]
  by (intro map_sorted_distinct_set_unique [of fst]) (simp_all add: distinct_map)

lemma norm_fold_run: "fold_run st cs = Inr st' \<Longrightarrow> norm_btree (fs_custom st) \<Longrightarrow> norm_btree (fs_custom st')"
  by (induction cs arbitrary: st)
    (auto simp: res_bind_eq_Inr dest: norm_merge_custom [OF fold_step_components(8)])

lemma fold_run_conflict:
  assumes "fold_run st cs = Inl cf"
  shows "(cf_key cf, cf_existing cf) \<in> set (fs_custom st) \<union> (\<Union>c \<in> set cs. set (cc_custom c))
     \<and> (cf_key cf, cf_incoming cf) \<in> (\<Union>c \<in> set cs. set (cc_custom c))
     \<and> cf_existing cf \<noteq> cf_incoming cf"
  using assms
proof (induction cs arbitrary: st)
  case (Cons c cs)
  then consider "fold_step st c = Inl cf" | st1 where "fold_step st c = Inr st1" "fold_run st1 cs = Inl cf"
    by (auto simp: res_bind_eq_Inl)
  then show ?case
  proof cases
    case 1
    then have "merge_custom (fs_custom st) (cc_custom c) = Inl cf"
      by (auto simp: fold_step_def res_bind_eq_Inl)
    from merge_custom_conflict [OF this] show ?thesis by auto
  next
    case 2
    from Cons.IH [OF 2(2)] fold_step_components(3) [OF 2(1)] show ?thesis by auto
  qed
qed simp

lemma fold_run_ok_iff:
  "(\<exists>st'. fold_run fold_init cs = Inr st') \<longleftrightarrow> single_valued (\<Union>c \<in> set cs. set (cc_custom c))"
proof
  assume "\<exists>st'. fold_run fold_init cs = Inr st'"
  then obtain st' where run: "fold_run fold_init cs = Inr st'" by blast
  have "norm_btree (fs_custom st')"
    using norm_fold_run [OF run] by (simp add: fold_init_def norm_btree_def)
  then have "distinct (map fst (fs_custom st'))" by (simp add: norm_btree_distinct)
  then have "single_valued (set (fs_custom st'))"
    by (auto simp: single_valued_def dest: eq_key_imp_eq_value)
  then show "single_valued (\<Union>c \<in> set cs. set (cc_custom c))"
    using fold_run_components(3) [OF run] by (simp add: fold_init_def)
next
  assume "single_valued (\<Union>c \<in> set cs. set (cc_custom c))"
  then show "\<exists>st'. fold_run fold_init cs = Inr st'"
    using fold_run_conflict [of fold_init cs]
    by (cases "fold_run fold_init cs") (auto simp: fold_init_def single_valued_def)
qed

lemma fold_run_cong:
  assumes set: "set cs = set ds" and cs: "fold_run fold_init cs = Inr st" and ds: "fold_run fold_init ds = Inr st'"
  shows "st = st'"
proof -
  note c = fold_run_components [OF cs] and d = fold_run_components [OF ds]
  have "fs_custom st = fs_custom st'"
    using norm_fold_run [OF cs] norm_fold_run [OF ds] c(3) d(3) set
    by (intro norm_btree_unique) (simp_all add: fold_init_def norm_btree_def)
  moreover have "fs_deny_models st = fs_deny_models st'" "fs_tiers st = fs_tiers st'"
    using c(1,2) d(1,2) set by (simp_all flip: fset_inject)
  moreover have "fs_allow_models st = fs_allow_models st'" "fs_allow_regions st = fs_allow_regions st'"
    "fs_allow_sites st = fs_allow_sites st'"
    using c(5-7) d(5-7) fold_allow_cong [OF set] by (simp_all add: fold_init_def)
  moreover have "fs_on_empty st = fs_on_empty st'"
    using c(4) d(4) set by (cases "fs_on_empty st"; cases "fs_on_empty st'") (auto simp: fold_init_def)
  ultimately show ?thesis by simp
qed

lemma fold_finish_accepts:
  assumes "fold_run fold_init cs = Inr st" "ext_accepts (fold_finish st) b rank" "c \<in> set cs"
  shows "ext_accepts (lift_constraint c) b rank"
proof -
  note k = fold_run_components [OF assms(1)]
  have models: "in_allow_list glob_match (cc_allow_models c) (b ''model'')"
    and regions: "in_allow_list (=) (cc_allow_regions c) (b ''region'')"
    and sites: "in_allow_list (=) (cc_allow_sites c) (b ''site'')"
    using assms(2,3)
    by (auto simp: ext_accepts_iff fold_finish_def k(5-7) dest!: in_allow_list_fold)
  have deny: "\<not> denied_model (cc_deny_models c) b"
    using assms(2,3) k(1) by (auto simp: ext_accepts_iff fold_finish_def denied_model_def)
  have tier: "\<forall>t \<in> set_option (cc_max_cost_tier c). tier_ok t (b ''cost_tier'') rank"
    using assms(2,3) k(2) by (auto simp: ext_accepts_iff fold_finish_def)
  have custom: "\<forall>(k, v) \<in> set (cc_custom c). b k = Some v"
    using assms(2,3) k(3) by (fastforce simp: ext_accepts_iff fold_finish_def)
  show ?thesis using models regions sites deny tier custom
    by (auto simp: ext_accepts_iff lift_constraint_def split: option.splits)
qed

lemma sorted_list_of_fset_empty [simp]: "sorted_list_of_fset {||} = []"
  by (simp add: sorted_list_of_fset.rep_eq)

end
