(* ===== verification/Ext_Types.thy ===== *)
theory Ext_Types
  imports Attributes Candidate_Routing
begin

text \<open>
  The data of \<^verbatim>\<open>crates/ppe-core/src/extensions/\<close>: one record per extension slot, with the field names of
  the sources behind a short prefix.

  A \<^verbatim>\<open>HashSet\<close> is a finite set.  A \<^verbatim>\<open>HashMap\<close> the sources iterate over is the list of its entries in the
  order the iteration happens to see them (\<open>hash_map\<close>); nothing is assumed about that order.  A point in
  time is a number of seconds.  An \<^verbatim>\<open>Arc\<close> whose address the sources compare is a pair of the address and
  the value behind it; elsewhere it is the value.
\<close>

type_synonym 'v hash_map = "(string \<times> 'v) list"
type_synonym datetime = int
type_synonym u32 = "32 word"
type_synonym u64 = "64 word"
type_synonym 'a arc = "nat \<times> 'a"

definition ptr_eq :: "'a arc \<Rightarrow> 'a arc \<Rightarrow> bool" where
  "ptr_eq a b \<longleftrightarrow> fst a = fst b"

definition u32_of_len :: "nat \<Rightarrow> u32" where
  "u32_of_len n = (if n < 2 ^ 32 then of_nat n else - 1)"

lemma unat_u32_of_len: "unat (u32_of_len n) = min n (2 ^ 32 - 1)"
  by (auto simp: u32_of_len_def unat_of_nat unsigned_minus_1_eq_mask mask_eq_exp_minus_1 min_def)

subsection \<open>Request, agent, entity and message metadata\<close>

record request_extension =
  rq_environment :: "string option"
  rq_request_id :: "string option"
  rq_timestamp :: "string option"
  rq_trace_id :: "string option"
  rq_span_id :: "string option"

record conversation_context =
  cx_history :: "json list"
  cx_summary :: "string option"
  cx_topics :: "string list"

record agent_extension =
  ag_input :: "string option"
  ag_session_id :: "string option"
  ag_conversation_id :: "string option"
  ag_turn :: "u32 option"
  ag_agent_id :: "string option"
  ag_parent_agent_id :: "string option"
  ag_conversation :: "conversation_context option"

record tool_metadata =
  tm_name :: string
  tm_title :: "string option"
  tm_description :: "string option"
  tm_input_schema :: "json option"
  tm_output_schema :: "json option"
  tm_server_id :: "string option"
  tm_namespace :: "string option"
  tm_annotations :: "json hash_map"

record resource_metadata =
  rm_uri :: string
  rm_name :: "string option"
  rm_description :: "string option"
  rm_mime_type :: "string option"
  rm_server_id :: "string option"
  rm_annotations :: "json hash_map"

record prompt_metadata =
  pm_name :: string
  pm_description :: "string option"
  pm_arguments :: "json list option"
  pm_server_id :: "string option"
  pm_annotations :: "json hash_map"

record mcp_extension =
  mc_tool :: "tool_metadata option"
  mc_resource :: "resource_metadata option"
  mc_prompt :: "prompt_metadata option"

datatype stop_reason = SR_End | SR_Return | SR_Call | SR_MaxTokens | SR_StopSequence

record token_usage =
  tu_input_tokens :: u32
  tu_output_tokens :: u32
  tu_total_tokens :: u32

record completion_extension =
  cp_stop_reason :: "stop_reason option"
  cp_tokens :: "token_usage option"
  cp_model :: "string option"
  cp_raw_format :: "string option"
  cp_created_at :: "string option"
  cp_latency_ms :: "u64 option"

record provenance_extension =
  pr_source :: "string option"
  pr_message_id :: "string option"
  pr_parent_id :: "string option"

record llm_extension =
  lm_model_id :: "string option"
  lm_provider :: "string option"
  lm_capabilities :: "string list"

record framework_extension =
  fw_framework :: "string option"
  fw_framework_version :: "string option"
  fw_node_id :: "string option"
  fw_graph_id :: "string option"
  fw_metadata :: "json hash_map"

record meta_extension =
  me_entity_type :: "string option"
  me_entity_name :: "string option"
  me_tags :: "string fset"
  me_scope :: "string option"
  me_properties :: "string hash_map"

record http_extension =
  ht_request_headers :: "string hash_map"
  ht_response_headers :: "string hash_map"
  ht_method :: "string option"
  ht_path :: "string option"
  ht_host :: "string option"
  ht_scheme :: "string option"

definition http_default :: http_extension where
  "http_default = \<lparr>ht_request_headers = [], ht_response_headers = [], ht_method = None, ht_path = None,
     ht_host = None, ht_scheme = None\<rparr>"

subsection \<open>Security\<close>

datatype subject_type = Sub_User | Sub_Agent | Sub_Service | Sub_System

record subject_extension =
  sj_id :: "string option"
  sj_subject_type :: "subject_type option"
  sj_roles :: "string fset"
  sj_permissions :: "string fset"
  sj_teams :: "string fset"
  sj_claims :: "json hash_map"

record object_security_profile =
  op_managed_by :: "string option"
  op_permissions :: "string list"
  op_trust_domain :: "string option"
  op_data_scope :: "string list"

record retention_policy =
  rp_max_age_seconds :: "u64 option"
  rp_policy :: string
  rp_delete_after :: "string option"

record data_policy =
  dp_apply_labels :: "string list"
  dp_allowed_actions :: "string list option"
  dp_denied_actions :: "string list"
  dp_retention :: "retention_policy option"

datatype client_trust_level = FirstParty | ThirdParty | Internal | CustomTrust string

record client_extension =
  cl_client_id :: string
  cl_client_name :: "string option"
  cl_trust_level :: client_trust_level
  cl_authorized_scopes :: "string list"
  cl_authorized_audiences :: "string list"
  cl_roles :: "string list"
  cl_permissions :: "string list"
  cl_teams :: "string list"
  cl_claims :: "json hash_map"

record workload_identity =
  wl_spiffe_id :: "string option"
  wl_trust_domain :: "string option"
  wl_attested_at :: "datetime option"
  wl_attestor :: "string option"
  wl_selectors :: "string list"
  wl_client_id :: "string option"

text \<open>\<^verbatim>\<open>MonotonicSet<String>\<close> (\<^verbatim>\<open>monotonic.rs\<close>) is its inner set; the operations below are the ones it exposes.\<close>

type_synonym monotonic_set = "string fset"

record security_extension =
  sc_labels :: monotonic_set
  sc_classification :: "string option"
  sc_subject :: "subject_extension option"
  sc_client :: "client_extension option"
  sc_caller_workload :: "workload_identity option"
  sc_this_workload :: "workload_identity option"
  sc_auth_method :: "string option"
  sc_objects :: "object_security_profile hash_map"
  sc_data :: "data_policy hash_map"

definition security_default :: security_extension where
  "security_default = \<lparr>sc_labels = {||}, sc_classification = None, sc_subject = None, sc_client = None,
     sc_caller_workload = None, sc_this_workload = None, sc_auth_method = None, sc_objects = [], sc_data = []\<rparr>"

definition mono_insert :: "string \<Rightarrow> monotonic_set \<Rightarrow> monotonic_set \<times> bool" where
  "mono_insert x s = (finsert x s, x |\<notin>| s)"

definition mono_is_superset :: "monotonic_set \<Rightarrow> monotonic_set \<Rightarrow> bool" where
  "mono_is_superset s other \<longleftrightarrow> other |\<subseteq>| s"

text \<open>Removal needs a \<^verbatim>\<open>DeclassifierToken\<close>, which only the framework can make.\<close>

definition remove_with_declassifier :: "string \<Rightarrow> unit \<Rightarrow> monotonic_set \<Rightarrow> monotonic_set \<times> bool" where
  "remove_with_declassifier x declassifier_token s = (s |-| {|x|}, x |\<in>| s)"

definition add_label :: "string \<Rightarrow> monotonic_set \<Rightarrow> monotonic_set" where
  "add_label l s = finsert l s"

subsection \<open>Delegation\<close>

record authorization_detail =
  ad_detail_type :: string
  ad_locations :: "string list option"
  ad_actions :: "string list option"
  ad_datatypes :: "string list option"
  ad_identifier :: "string option"
  ad_privileges :: "string list option"
  ad_extra :: "(string \<times> json) list"

datatype delegation_strategy =
    TokenExchange | ClientCredentials | SpiffeSvid | Passthrough | Ucan | TransactionToken | CustomStrategy string

record delegation_hop =
  hop_subject_id :: string
  hop_subject_type :: "subject_type option"
  hop_audience :: "string option"
  hop_scopes_granted :: "string list"
  hop_authorization_details :: "authorization_detail list"
  hop_timestamp :: datetime
  hop_ttl_seconds :: "u64 option"
  hop_strategy :: "delegation_strategy option"
  hop_from_cache :: bool

record delegation_extension =
  dg_chain :: "delegation_hop list"
  dg_depth :: u32
  dg_origin_subject_id :: "string option"
  dg_actor_subject_id :: "string option"
  dg_delegated :: bool
  dg_age_seconds :: f64

definition delegation_default :: delegation_extension where
  "delegation_default = \<lparr>dg_chain = [], dg_depth = 0, dg_origin_subject_id = None, dg_actor_subject_id = None,
     dg_delegated = False, dg_age_seconds = F64_Fin False 0 0\<rparr>"

definition append_hop :: "delegation_extension \<Rightarrow> delegation_hop \<Rightarrow> delegation_extension" where
  "append_hop d hop =
     (let chain = dg_chain d @ [hop]
      in d\<lparr>dg_chain := chain, dg_depth := u32_of_len (length chain), dg_delegated := True\<rparr>)"

subsection \<open>Raw credentials\<close>

datatype token_role = Role_User | Role_Client | Role_CallerWorkload | Role_Custom string
datatype token_kind = Jwt | Opaque | SpiffeJwt | UcanToken | TxnToken
datatype delegation_mode = OnBehalfOfUser | AsClient | AsCallerWorkload | AsThisWorkload

record raw_inbound_token =
  ri_token :: string
  ri_source_header :: string
  ri_kind :: token_kind

record delegation_key =
  dk_subject_id :: string
  dk_workload_id :: "string option"
  dk_client_id :: "string option"
  dk_audience :: string
  dk_scopes :: "string list"
  dk_mode :: delegation_mode

record raw_delegated_token =
  rd_token :: string
  rd_outbound_header :: string
  rd_audience :: string
  rd_scopes :: "string list"
  rd_expires_at :: datetime

record raw_credentials_extension =
  rc_inbound_tokens :: "token_role \<rightharpoonup> raw_inbound_token"
  rc_delegated_tokens :: "delegation_key \<rightharpoonup> raw_delegated_token"

definition inbound_token_new :: "string \<Rightarrow> string \<Rightarrow> token_kind \<Rightarrow> raw_inbound_token" where
  "inbound_token_new token source_header kind = \<lparr>ri_token = token, ri_source_header = source_header, ri_kind = kind\<rparr>"

definition delegation_key_new :: "delegation_mode \<Rightarrow> string \<Rightarrow> string list \<Rightarrow> delegation_key" where
  "delegation_key_new mode audience scopes = \<lparr>dk_subject_id = '''', dk_workload_id = None, dk_client_id = None,
     dk_audience = audience, dk_scopes = scopes, dk_mode = mode\<rparr>"

definition with_subject_id :: "string \<Rightarrow> delegation_key \<Rightarrow> delegation_key" where
  "with_subject_id s k = k\<lparr>dk_subject_id := s\<rparr>"

definition with_workload_id :: "string option \<Rightarrow> delegation_key \<Rightarrow> delegation_key" where
  "with_workload_id s k = k\<lparr>dk_workload_id := s\<rparr>"

definition with_client_id :: "string option \<Rightarrow> delegation_key \<Rightarrow> delegation_key" where
  "with_client_id s k = k\<lparr>dk_client_id := s\<rparr>"

definition delegated_token_new ::
    "string \<Rightarrow> string \<Rightarrow> string \<Rightarrow> string list \<Rightarrow> datetime \<Rightarrow> raw_delegated_token" where
  "delegated_token_new token outbound_header audience scopes expires_at =
     \<lparr>rd_token = token, rd_outbound_header = outbound_header, rd_audience = audience, rd_scopes = scopes,
      rd_expires_at = expires_at\<rparr>"

subsection \<open>The container\<close>

text \<open>
  \<^verbatim>\<open>Extensions\<close>.  The slots whose \<^verbatim>\<open>Arc\<close> address is compared are the immutable ones.  A write token carries
  no data: it is there or not.
\<close>

record extensions =
  ex_request :: "request_extension arc option"
  ex_agent :: "agent_extension arc option"
  ex_http :: "http_extension option"
  ex_security :: "security_extension option"
  ex_candidate_constraint :: "candidate_constraint_ext option"
  ex_delegation :: "delegation_extension option"
  ex_raw_credentials :: "raw_credentials_extension option"
  ex_mcp :: "mcp_extension arc option"
  ex_completion :: "completion_extension arc option"
  ex_provenance :: "provenance_extension arc option"
  ex_llm :: "llm_extension arc option"
  ex_framework :: "framework_extension arc option"
  ex_meta :: "meta_extension arc option"
  ex_custom :: "json hash_map option"
  ex_http_write_token :: bool
  ex_labels_write_token :: bool
  ex_delegation_write_token :: bool

definition extensions_default :: extensions where
  "extensions_default = \<lparr>ex_request = None, ex_agent = None, ex_http = None, ex_security = None,
     ex_candidate_constraint = None, ex_delegation = None, ex_raw_credentials = None, ex_mcp = None,
     ex_completion = None, ex_provenance = None, ex_llm = None, ex_framework = None, ex_meta = None,
     ex_custom = None, ex_http_write_token = False, ex_labels_write_token = False,
     ex_delegation_write_token = False\<rparr>"

text \<open>\<^verbatim>\<open>Guarded<T>\<close> (\<^verbatim>\<open>guarded.rs\<close>): reading is free, writing takes a token.\<close>

datatype 'a guarded = Guarded (guarded_read: 'a)

definition guarded_write :: "unit \<Rightarrow> ('a \<Rightarrow> 'a) \<Rightarrow> 'a guarded \<Rightarrow> 'a guarded" where
  "guarded_write write_token f g = Guarded (f (guarded_read g))"

record owned_extensions =
  ow_request :: "request_extension arc option"
  ow_agent :: "agent_extension arc option"
  ow_mcp :: "mcp_extension arc option"
  ow_completion :: "completion_extension arc option"
  ow_provenance :: "provenance_extension arc option"
  ow_llm :: "llm_extension arc option"
  ow_framework :: "framework_extension arc option"
  ow_meta :: "meta_extension arc option"
  ow_raw_credentials :: "raw_credentials_extension option"
  ow_http :: "http_extension guarded option"
  ow_security :: "security_extension option"
  ow_candidate_constraint :: "candidate_constraint_ext option"
  ow_delegation :: "delegation_extension option"
  ow_custom :: "json hash_map option"
  ow_http_write_token :: bool
  ow_labels_write_token :: bool
  ow_delegation_write_token :: bool

end
