(* ===== verification/Ext_Filter.thy ===== *)
theory Ext_Filter
  imports Ext_Types
begin

text \<open>
  Capability-gated visibility: \<^verbatim>\<open>crates/ppe-core/src/extensions/tiers.rs\<close> and \<^verbatim>\<open>filter.rs\<close>.  A plugin sees a
  view of the extensions that holds only the slots, and within the security and credential slots only
  the fields, its declared capabilities open.
\<close>

datatype mutability_tier = Immutable | Monotonic | Mutable

datatype capability =
    ReadSubject
  | ReadRoles
  | ReadTeams
  | ReadClaims
  | ReadPermissions
  | ReadClient
  | ReadWorkload
  | ReadAgent
  | ReadHeaders
  | WriteHeaders
  | ReadLabels
  | AppendLabels
  | ReadDelegation
  | AppendDelegation
  | ReadInboundCredentials
  | ReadDelegatedTokens

datatype access_policy = Unrestricted | CapabilityGated

record slot_policy =
  sp_tier :: mutability_tier
  sp_access :: access_policy
  sp_read_cap :: "capability option"
  sp_write_cap :: "capability option"

text \<open>The serialised name of a capability, which is what a plugin's configuration lists.\<close>

fun cap_str :: "capability \<Rightarrow> string" where
  "cap_str ReadSubject = ''read_subject''"
| "cap_str ReadRoles = ''read_roles''"
| "cap_str ReadTeams = ''read_teams''"
| "cap_str ReadClaims = ''read_claims''"
| "cap_str ReadPermissions = ''read_permissions''"
| "cap_str ReadClient = ''read_client''"
| "cap_str ReadWorkload = ''read_workload''"
| "cap_str ReadAgent = ''read_agent''"
| "cap_str ReadHeaders = ''read_headers''"
| "cap_str WriteHeaders = ''write_headers''"
| "cap_str ReadLabels = ''read_labels''"
| "cap_str AppendLabels = ''append_labels''"
| "cap_str ReadDelegation = ''read_delegation''"
| "cap_str AppendDelegation = ''append_delegation''"
| "cap_str ReadInboundCredentials = ''read_inbound_credentials''"
| "cap_str ReadDelegatedTokens = ''read_delegated_tokens''"

datatype slot_name =
    Slot_Request
  | Slot_Agent
  | Slot_Http
  | Slot_Meta
  | Slot_Delegation
  | Slot_Custom
  | Slot_Mcp
  | Slot_Completion
  | Slot_Provenance
  | Slot_Llm
  | Slot_Framework
  | Slot_SecurityLabels
  | Slot_SecuritySubject
  | Slot_SecuritySubjectRoles
  | Slot_SecuritySubjectTeams
  | Slot_SecuritySubjectClaims
  | Slot_SecuritySubjectPermissions
  | Slot_SecurityClient
  | Slot_SecurityCallerWorkload
  | Slot_SecurityThisWorkload
  | Slot_SecurityObjects
  | Slot_SecurityData
  | Slot_RawCredentialsInbound
  | Slot_RawCredentialsDelegated

fun slot_policy_of :: "slot_name \<Rightarrow> slot_policy" where
  "slot_policy_of Slot_Request = \<lparr>sp_tier = Immutable, sp_access = Unrestricted,
     sp_read_cap = None, sp_write_cap = None\<rparr>"
| "slot_policy_of Slot_Agent = \<lparr>sp_tier = Immutable, sp_access = CapabilityGated,
     sp_read_cap = Some ReadAgent, sp_write_cap = None\<rparr>"
| "slot_policy_of Slot_Http = \<lparr>sp_tier = Mutable, sp_access = CapabilityGated,
     sp_read_cap = Some ReadHeaders, sp_write_cap = Some WriteHeaders\<rparr>"
| "slot_policy_of Slot_Meta = \<lparr>sp_tier = Immutable, sp_access = Unrestricted,
     sp_read_cap = None, sp_write_cap = None\<rparr>"
| "slot_policy_of Slot_Delegation = \<lparr>sp_tier = Monotonic, sp_access = CapabilityGated,
     sp_read_cap = Some ReadDelegation, sp_write_cap = Some AppendDelegation\<rparr>"
| "slot_policy_of Slot_Custom = \<lparr>sp_tier = Mutable, sp_access = Unrestricted,
     sp_read_cap = None, sp_write_cap = None\<rparr>"
| "slot_policy_of Slot_Mcp = \<lparr>sp_tier = Immutable, sp_access = Unrestricted,
     sp_read_cap = None, sp_write_cap = None\<rparr>"
| "slot_policy_of Slot_Completion = \<lparr>sp_tier = Immutable, sp_access = Unrestricted,
     sp_read_cap = None, sp_write_cap = None\<rparr>"
| "slot_policy_of Slot_Provenance = \<lparr>sp_tier = Immutable, sp_access = Unrestricted,
     sp_read_cap = None, sp_write_cap = None\<rparr>"
| "slot_policy_of Slot_Llm = \<lparr>sp_tier = Immutable, sp_access = Unrestricted,
     sp_read_cap = None, sp_write_cap = None\<rparr>"
| "slot_policy_of Slot_Framework = \<lparr>sp_tier = Immutable, sp_access = Unrestricted,
     sp_read_cap = None, sp_write_cap = None\<rparr>"
| "slot_policy_of Slot_SecurityLabels = \<lparr>sp_tier = Monotonic, sp_access = CapabilityGated,
     sp_read_cap = Some ReadLabels, sp_write_cap = Some AppendLabels\<rparr>"
| "slot_policy_of Slot_SecuritySubject = \<lparr>sp_tier = Immutable, sp_access = CapabilityGated,
     sp_read_cap = Some ReadSubject, sp_write_cap = None\<rparr>"
| "slot_policy_of Slot_SecuritySubjectRoles = \<lparr>sp_tier = Immutable, sp_access = CapabilityGated,
     sp_read_cap = Some ReadRoles, sp_write_cap = None\<rparr>"
| "slot_policy_of Slot_SecuritySubjectTeams = \<lparr>sp_tier = Immutable, sp_access = CapabilityGated,
     sp_read_cap = Some ReadTeams, sp_write_cap = None\<rparr>"
| "slot_policy_of Slot_SecuritySubjectClaims = \<lparr>sp_tier = Immutable, sp_access = CapabilityGated,
     sp_read_cap = Some ReadClaims, sp_write_cap = None\<rparr>"
| "slot_policy_of Slot_SecuritySubjectPermissions = \<lparr>sp_tier = Immutable, sp_access = CapabilityGated,
     sp_read_cap = Some ReadPermissions, sp_write_cap = None\<rparr>"
| "slot_policy_of Slot_SecurityClient = \<lparr>sp_tier = Immutable, sp_access = CapabilityGated,
     sp_read_cap = Some ReadClient, sp_write_cap = None\<rparr>"
| "slot_policy_of Slot_SecurityCallerWorkload = \<lparr>sp_tier = Immutable, sp_access = CapabilityGated,
     sp_read_cap = Some ReadWorkload, sp_write_cap = None\<rparr>"
| "slot_policy_of Slot_SecurityThisWorkload = \<lparr>sp_tier = Immutable, sp_access = CapabilityGated,
     sp_read_cap = Some ReadWorkload, sp_write_cap = None\<rparr>"
| "slot_policy_of Slot_SecurityObjects = \<lparr>sp_tier = Immutable, sp_access = Unrestricted,
     sp_read_cap = None, sp_write_cap = None\<rparr>"
| "slot_policy_of Slot_SecurityData = \<lparr>sp_tier = Immutable, sp_access = Unrestricted,
     sp_read_cap = None, sp_write_cap = None\<rparr>"
| "slot_policy_of Slot_RawCredentialsInbound = \<lparr>sp_tier = Immutable, sp_access = CapabilityGated,
     sp_read_cap = Some ReadInboundCredentials, sp_write_cap = None\<rparr>"
| "slot_policy_of Slot_RawCredentialsDelegated = \<lparr>sp_tier = Immutable, sp_access = CapabilityGated,
     sp_read_cap = Some ReadDelegatedTokens, sp_write_cap = None\<rparr>"

definition has_any_subject_capability :: "string fset \<Rightarrow> bool" where
  "has_any_subject_capability caps \<longleftrightarrow>
     list_ex (\<lambda>c. cap_str c |\<in>| caps) [ReadSubject, ReadRoles, ReadTeams, ReadClaims, ReadPermissions]"

definition has_read_access :: "slot_policy \<Rightarrow> string fset \<Rightarrow> bool" where
  "has_read_access policy caps \<longleftrightarrow>
     (if sp_access policy = Unrestricted then True
      else if (case sp_read_cap policy of None \<Rightarrow> False | Some c \<Rightarrow> cap_str c |\<in>| caps) then True
      else if sp_read_cap policy = Some ReadSubject then has_any_subject_capability caps
      else False)"

definition build_filtered_raw_credentials ::
    "raw_credentials_extension \<Rightarrow> bool \<Rightarrow> bool \<Rightarrow> raw_credentials_extension" where
  "build_filtered_raw_credentials raw allow_inbound allow_delegated =
     \<lparr>rc_inbound_tokens = (if allow_inbound then rc_inbound_tokens raw else Map.empty),
      rc_delegated_tokens = (if allow_delegated then rc_delegated_tokens raw else Map.empty)\<rparr>"

definition build_filtered_subject :: "subject_extension \<Rightarrow> string fset \<Rightarrow> subject_extension" where
  "build_filtered_subject subject caps =
     \<lparr>sj_id = sj_id subject, sj_subject_type = sj_subject_type subject,
      sj_roles = (if cap_str ReadRoles |\<in>| caps then sj_roles subject else {||}),
      sj_permissions = (if cap_str ReadPermissions |\<in>| caps then sj_permissions subject else {||}),
      sj_teams = (if cap_str ReadTeams |\<in>| caps then sj_teams subject else {||}),
      sj_claims = (if cap_str ReadClaims |\<in>| caps then sj_claims subject else [])\<rparr>"

text \<open>An optional value that is kept if the policy of its slot allows reading it.\<close>

definition gated :: "slot_name \<Rightarrow> string fset \<Rightarrow> 'a option \<Rightarrow> 'a option" where
  "gated slot caps v = (if has_read_access (slot_policy_of slot) caps then v else None)"

definition build_filtered_security :: "security_extension \<Rightarrow> string fset \<Rightarrow> security_extension" where
  "build_filtered_security security caps =
     \<lparr>sc_labels = (if has_read_access (slot_policy_of Slot_SecurityLabels) caps then sc_labels security else {||}),
      sc_classification = sc_classification security,
      sc_subject = (case sc_subject security of
          None \<Rightarrow> None
        | Some subject \<Rightarrow>
            if has_any_subject_capability caps then Some (build_filtered_subject subject caps) else None),
      sc_client = gated Slot_SecurityClient caps (sc_client security),
      sc_caller_workload = gated Slot_SecurityCallerWorkload caps (sc_caller_workload security),
      sc_this_workload = gated Slot_SecurityThisWorkload caps (sc_this_workload security),
      sc_auth_method = sc_auth_method security,
      sc_objects = sc_objects security,
      sc_data = sc_data security\<rparr>"

definition filter_raw_credentials :: "raw_credentials_extension option \<Rightarrow> string fset \<Rightarrow> raw_credentials_extension option" where
  "filter_raw_credentials raw caps =
     (case raw of
        None \<Rightarrow> None
      | Some r \<Rightarrow>
          let allow_inbound = has_read_access (slot_policy_of Slot_RawCredentialsInbound) caps;
              allow_delegated = has_read_access (slot_policy_of Slot_RawCredentialsDelegated) caps
          in if allow_inbound \<or> allow_delegated
             then Some (build_filtered_raw_credentials r allow_inbound allow_delegated) else None)"

definition filter_extensions :: "extensions \<Rightarrow> string fset \<Rightarrow> extensions" where
  "filter_extensions ext caps =
     extensions_default\<lparr>
       ex_request := ex_request ext, ex_provenance := ex_provenance ext, ex_completion := ex_completion ext,
       ex_llm := ex_llm ext, ex_framework := ex_framework ext, ex_mcp := ex_mcp ext, ex_meta := ex_meta ext,
       ex_custom := ex_custom ext, ex_candidate_constraint := ex_candidate_constraint ext,
       ex_delegation := gated Slot_Delegation caps (ex_delegation ext),
       ex_agent := gated Slot_Agent caps (ex_agent ext),
       ex_http := gated Slot_Http caps (ex_http ext),
       ex_security := map_option (\<lambda>s. build_filtered_security s caps) (ex_security ext),
       ex_raw_credentials := filter_raw_credentials (ex_raw_credentials ext) caps\<rparr>"

end
