(* ===== verification/Ext_Container.thy ===== *)
theory Ext_Container
  imports Ext_Filter
begin

text \<open>
  \<^verbatim>\<open>crates/ppe-core/src/extensions/container.rs\<close>: the plugin's owned copy of its view, the check that it
  left the immutable slots alone, and the merge of what it returns into the canonical extensions, field
  by field and each field only under its write token.
\<close>

subsection \<open>Copies\<close>

definition clone_extensions :: "extensions \<Rightarrow> extensions" where
  "clone_extensions ext = ext\<lparr>ex_http_write_token := False, ex_labels_write_token := False,
     ex_delegation_write_token := False\<rparr>"

definition cow_copy :: "extensions \<Rightarrow> owned_extensions" where
  "cow_copy ext =
     \<lparr>ow_request = ex_request ext, ow_agent = ex_agent ext, ow_mcp = ex_mcp ext,
      ow_completion = ex_completion ext, ow_provenance = ex_provenance ext, ow_llm = ex_llm ext,
      ow_framework = ex_framework ext, ow_meta = ex_meta ext, ow_raw_credentials = ex_raw_credentials ext,
      ow_http = map_option Guarded (ex_http ext), ow_security = ex_security ext,
      ow_candidate_constraint = ex_candidate_constraint ext, ow_delegation = ex_delegation ext,
      ow_custom = ex_custom ext, ow_http_write_token = ex_http_write_token ext,
      ow_labels_write_token = ex_labels_write_token ext,
      ow_delegation_write_token = ex_delegation_write_token ext\<rparr>"

subsection \<open>Validation\<close>

fun ptr_eq_opt :: "'a arc option \<Rightarrow> 'a arc option \<Rightarrow> bool" where
  "ptr_eq_opt (Some a) (Some b) = ptr_eq a b"
| "ptr_eq_opt None None = True"
| "ptr_eq_opt _ None = True"
| "ptr_eq_opt None (Some _) = False"

definition validate_immutable :: "extensions \<Rightarrow> owned_extensions \<Rightarrow> bool" where
  "validate_immutable ext modified \<longleftrightarrow>
     ptr_eq_opt (ex_request ext) (ow_request modified)
   \<and> ptr_eq_opt (ex_agent ext) (ow_agent modified)
   \<and> ptr_eq_opt (ex_mcp ext) (ow_mcp modified)
   \<and> ptr_eq_opt (ex_completion ext) (ow_completion modified)
   \<and> ptr_eq_opt (ex_provenance ext) (ow_provenance modified)
   \<and> ptr_eq_opt (ex_llm ext) (ow_llm modified)
   \<and> ptr_eq_opt (ex_framework ext) (ow_framework modified)
   \<and> ptr_eq_opt (ex_meta ext) (ow_meta modified)"

definition CAP_WRITE_CANDIDATE_CONSTRAINT :: string where
  "CAP_WRITE_CANDIDATE_CONSTRAINT = ''write_candidate_constraint''"

definition candidate_constraint_write_ok :: "extensions \<Rightarrow> owned_extensions \<Rightarrow> string fset \<Rightarrow> bool" where
  "candidate_constraint_write_ok ext modified caps \<longleftrightarrow>
     CAP_WRITE_CANDIDATE_CONSTRAINT |\<in>| caps
     \<or> ow_candidate_constraint modified = ex_candidate_constraint ext"

subsection \<open>Merging\<close>

definition merge_http :: "extensions \<Rightarrow> http_extension guarded option \<Rightarrow> bool \<Rightarrow> extensions" where
  "merge_http ext owned token =
     (case owned of
        None \<Rightarrow> ext
      | Some g \<Rightarrow>
          if \<not> token then ext
          else let o' = guarded_read g;
                   merged = (case ex_http ext of Some canonical \<Rightarrow> canonical | None \<Rightarrow> http_default)
               in ext\<lparr>ex_http := Some (merged\<lparr>ht_request_headers := ht_request_headers o',
                        ht_response_headers := ht_response_headers o'\<rparr>)\<rparr>)"

definition merge_security :: "extensions \<Rightarrow> security_extension option \<Rightarrow> bool \<Rightarrow> extensions" where
  "merge_security ext owned token =
     (case owned of
        None \<Rightarrow> ext
      | Some s \<Rightarrow>
          if \<not> token then ext
          else let merged = (case ex_security ext of Some canonical \<Rightarrow> canonical | None \<Rightarrow> security_default)
               in if \<not> mono_is_superset (sc_labels s) (sc_labels merged) then ext
                  else ext\<lparr>ex_security := Some (merged\<lparr>sc_labels := sc_labels merged |\<union>| sc_labels s\<rparr>)\<rparr>)"

definition hop_agrees :: "delegation_hop \<Rightarrow> delegation_hop \<Rightarrow> bool" where
  "hop_agrees before after \<longleftrightarrow>
     hop_subject_id before = hop_subject_id after
   \<and> hop_subject_type before = hop_subject_type after
   \<and> hop_audience before = hop_audience after
   \<and> hop_scopes_granted before = hop_scopes_granted after
   \<and> hop_strategy before = hop_strategy after"

definition chain_extends :: "delegation_hop list \<Rightarrow> delegation_hop list \<Rightarrow> bool" where
  "chain_extends canonical returned \<longleftrightarrow>
     (if length returned < length canonical then False
      else list_all (\<lambda>(before, after). hop_agrees before after) (zip canonical returned))"

definition merge_delegation :: "extensions \<Rightarrow> delegation_extension option \<Rightarrow> bool \<Rightarrow> extensions" where
  "merge_delegation ext owned token =
     (case owned of
        None \<Rightarrow> ext
      | Some d \<Rightarrow>
          if \<not> token then ext
          else if (case ex_delegation ext of Some canonical \<Rightarrow> \<not> chain_extends (dg_chain canonical) (dg_chain d)
                   | None \<Rightarrow> False)
          then ext
          else let merged = (case ex_delegation ext of Some canonical \<Rightarrow> canonical | None \<Rightarrow> delegation_default)
               in ext\<lparr>ex_delegation := Some (merged\<lparr>
                    dg_chain := dg_chain d,
                    dg_depth := u32_of_len (length (dg_chain d)),
                    dg_delegated := dg_chain d \<noteq> [],
                    dg_origin_subject_id :=
                      (if dg_origin_subject_id merged = None then dg_origin_subject_id d
                       else dg_origin_subject_id merged),
                    dg_actor_subject_id := dg_actor_subject_id d,
                    dg_age_seconds := dg_age_seconds d\<rparr>)\<rparr>)"

definition merge_owned :: "extensions \<Rightarrow> owned_extensions \<Rightarrow> extensions" where
  "merge_owned ext owned =
     (let e1 = merge_http ext (ow_http owned) (ow_http_write_token owned);
          e2 = merge_security e1 (ow_security owned) (ow_labels_write_token owned);
          e3 = e2\<lparr>ex_candidate_constraint := ow_candidate_constraint owned\<rparr>;
          e4 = merge_delegation e3 (ow_delegation owned) (ow_delegation_write_token owned);
          e5 = e4\<lparr>ex_custom := ow_custom owned\<rparr>
      in if ow_raw_credentials owned \<noteq> None then e5\<lparr>ex_raw_credentials := ow_raw_credentials owned\<rparr> else e5)"

lemmas merge_defs = merge_http_def merge_security_def merge_delegation_def

subsection \<open>The order of hops\<close>

text \<open>
  Agreement on the fields that carry authority is an equivalence, so extension of chains is a preorder:
  what several merges in a row do to a chain is again an extension.
\<close>

lemma hop_agrees_refl [simp]: "hop_agrees h h"
  by (simp add: hop_agrees_def)

lemma hop_agrees_trans: "hop_agrees a b \<Longrightarrow> hop_agrees b c \<Longrightarrow> hop_agrees a c"
  by (simp add: hop_agrees_def)

lemma chain_extends_iff:
  "chain_extends canonical returned \<longleftrightarrow>
     length canonical \<le> length returned \<and> (\<forall>i < length canonical. hop_agrees (canonical ! i) (returned ! i))"
  by (auto simp: chain_extends_def list_all_length min_def)

lemma chain_extends_refl [simp]: "chain_extends c c"
  by (simp add: chain_extends_iff)

lemma chain_extends_trans: "chain_extends a b \<Longrightarrow> chain_extends b c \<Longrightarrow> chain_extends a c"
  unfolding chain_extends_iff by (meson hop_agrees_trans le_trans less_le_trans)

lemma chain_extends_append [simp]: "chain_extends c (c @ hops)"
  by (simp add: chain_extends_iff nth_append)

lemma chain_extends_append_hop: "chain_extends (dg_chain d) (dg_chain (append_hop d hop))"
  by (simp add: append_hop_def Let_def)

subsection \<open>Frames of the merges\<close>

text \<open>What merging one slot leaves alone: every other slot.\<close>

lemma merge_http_frame [simp]:
  "ex_security (merge_http e h t) = ex_security e"
  "ex_delegation (merge_http e h t) = ex_delegation e"
  "ex_candidate_constraint (merge_http e h t) = ex_candidate_constraint e"
  "ex_raw_credentials (merge_http e h t) = ex_raw_credentials e"
  "ex_custom (merge_http e h t) = ex_custom e"
  by (simp_all add: merge_http_def Let_def split: option.split)

lemma merge_security_frame [simp]:
  "ex_http (merge_security e s t) = ex_http e"
  "ex_delegation (merge_security e s t) = ex_delegation e"
  "ex_candidate_constraint (merge_security e s t) = ex_candidate_constraint e"
  "ex_raw_credentials (merge_security e s t) = ex_raw_credentials e"
  "ex_custom (merge_security e s t) = ex_custom e"
  by (simp_all add: merge_security_def Let_def split: option.split)

lemma merge_delegation_frame [simp]:
  "ex_http (merge_delegation e d t) = ex_http e"
  "ex_security (merge_delegation e d t) = ex_security e"
  "ex_candidate_constraint (merge_delegation e d t) = ex_candidate_constraint e"
  "ex_raw_credentials (merge_delegation e d t) = ex_raw_credentials e"
  "ex_custom (merge_delegation e d t) = ex_custom e"
  by (simp_all add: merge_delegation_def Let_def split: option.split)

text \<open>The slots no merge touches.\<close>

definition fixed_slots where
  "fixed_slots e = (ex_request e, ex_agent e, ex_mcp e, ex_completion e, ex_provenance e, ex_llm e,
     ex_framework e, ex_meta e)"

lemma merge_fixed_slots [simp]:
  "fixed_slots (merge_http e h t) = fixed_slots e"
  "fixed_slots (merge_security e s t) = fixed_slots e"
  "fixed_slots (merge_delegation e d t) = fixed_slots e"
  by (simp_all add: fixed_slots_def merge_defs Let_def split: option.split)

lemma fixed_slots_update [simp]:
  "fixed_slots (e\<lparr>ex_candidate_constraint := c\<rparr>) = fixed_slots e"
  "fixed_slots (e\<lparr>ex_custom := v\<rparr>) = fixed_slots e"
  "fixed_slots (e\<lparr>ex_raw_credentials := r\<rparr>) = fixed_slots e"
  by (simp_all add: fixed_slots_def)

text \<open>The merge of a slot depends on the canonical value of that slot only.\<close>

lemma ex_http_merge:
  "ex_http (merge_http e h t) = (case h of None \<Rightarrow> ex_http e | Some g \<Rightarrow>
     if t then Some ((case ex_http e of Some c \<Rightarrow> c | None \<Rightarrow> http_default)
       \<lparr>ht_request_headers := ht_request_headers (guarded_read g),
        ht_response_headers := ht_response_headers (guarded_read g)\<rparr>) else ex_http e)"
  by (simp add: merge_http_def Let_def split: option.split)

lemma ex_security_local: "ex_security e = ex_security e' \<Longrightarrow>
    ex_security (merge_security e s t) = ex_security (merge_security e' s t)"
  by (simp add: merge_security_def Let_def split: option.split)

lemma ex_delegation_local:
  assumes "ex_delegation e = ex_delegation e'"
  shows "ex_delegation (merge_delegation e d t) = ex_delegation (merge_delegation e' d t)"
  by (cases d) (simp_all add: merge_delegation_def Let_def assms)

text \<open>The components of the merged extensions, each in terms of its own merge.\<close>

lemma merge_owned_components:
  "ex_http (merge_owned e o') = ex_http (merge_http e (ow_http o') (ow_http_write_token o'))"
  "ex_security (merge_owned e o') = ex_security (merge_security e (ow_security o') (ow_labels_write_token o'))"
  "ex_delegation (merge_owned e o') = ex_delegation (merge_delegation e (ow_delegation o') (ow_delegation_write_token o'))"
  "ex_candidate_constraint (merge_owned e o') = ow_candidate_constraint o'"
  "ex_custom (merge_owned e o') = ow_custom o'"
  "ex_raw_credentials (merge_owned e o') =
     (if ow_raw_credentials o' \<noteq> None then ow_raw_credentials o' else ex_raw_credentials e)"
  "fixed_slots (merge_owned e o') = fixed_slots e"
proof -
  let ?e1 = "merge_http e (ow_http o') (ow_http_write_token o')"
  let ?e3 = "(merge_security ?e1 (ow_security o') (ow_labels_write_token o'))
    \<lparr>ex_candidate_constraint := ow_candidate_constraint o'\<rparr>"
  have "ex_security ?e3 = ex_security (merge_security e (ow_security o') (ow_labels_write_token o'))"
    by (simp add: ex_security_local [of ?e1 e])
  then show "ex_security (merge_owned e o') = ex_security (merge_security e (ow_security o') (ow_labels_write_token o'))"
    by (simp add: merge_owned_def Let_def)
  show "ex_delegation (merge_owned e o') = ex_delegation (merge_delegation e (ow_delegation o') (ow_delegation_write_token o'))"
    using ex_delegation_local [of ?e3 e] by (simp add: merge_owned_def Let_def)
qed (simp_all add: merge_owned_def Let_def)

end
