(* ===== verification/Ext_Props.thy ===== *)
theory Ext_Props
  imports Ext_Container
begin

text \<open>
  What the capability filter hides and what a merge can change.  A view determines what a plugin can
  learn; the relation \<open>safe_change\<close> bounds what it can do to the canonical extensions.
\<close>

subsection \<open>Views\<close>

lemma has_read_access_gated [simp]:
  "has_read_access (slot_policy_of Slot_Agent) caps \<longleftrightarrow> ''read_agent'' |\<in>| caps"
  "has_read_access (slot_policy_of Slot_Http) caps \<longleftrightarrow> ''read_headers'' |\<in>| caps"
  "has_read_access (slot_policy_of Slot_Delegation) caps \<longleftrightarrow> ''read_delegation'' |\<in>| caps"
  "has_read_access (slot_policy_of Slot_SecurityLabels) caps \<longleftrightarrow> ''read_labels'' |\<in>| caps"
  "has_read_access (slot_policy_of Slot_SecurityClient) caps \<longleftrightarrow> ''read_client'' |\<in>| caps"
  "has_read_access (slot_policy_of Slot_SecurityCallerWorkload) caps \<longleftrightarrow> ''read_workload'' |\<in>| caps"
  "has_read_access (slot_policy_of Slot_SecurityThisWorkload) caps \<longleftrightarrow> ''read_workload'' |\<in>| caps"
  "has_read_access (slot_policy_of Slot_RawCredentialsInbound) caps \<longleftrightarrow> ''read_inbound_credentials'' |\<in>| caps"
  "has_read_access (slot_policy_of Slot_RawCredentialsDelegated) caps \<longleftrightarrow> ''read_delegated_tokens'' |\<in>| caps"
  by (simp_all add: has_read_access_def)

declare slot_policy_of.simps [simp del]

lemma has_any_subject_capability_iff:
  "has_any_subject_capability caps \<longleftrightarrow> ''read_subject'' |\<in>| caps \<or> ''read_roles'' |\<in>| caps
     \<or> ''read_teams'' |\<in>| caps \<or> ''read_claims'' |\<in>| caps \<or> ''read_permissions'' |\<in>| caps"
  by (simp add: has_any_subject_capability_def)

text \<open>
  A reference definition of the view: which components of the extensions a set of capabilities opens,
  each behind its own capability.  Two extension sets look the same to a plugin exactly if they agree on
  these components.
\<close>

definition seen :: "string fset \<Rightarrow> string \<Rightarrow> 'a \<Rightarrow> 'a option" where
  "seen caps cap x = (if cap |\<in>| caps then Some x else None)"

definition subject_view where
  "subject_view caps s =
     (if has_any_subject_capability caps
      then Some (sj_id s, sj_subject_type s, seen caps ''read_roles'' (sj_roles s),
             seen caps ''read_permissions'' (sj_permissions s), seen caps ''read_teams'' (sj_teams s),
             seen caps ''read_claims'' (sj_claims s))
      else None)"

definition security_view where
  "security_view caps s =
     (sc_objects s, sc_data s, sc_classification s, sc_auth_method s, seen caps ''read_labels'' (sc_labels s),
      Option.bind (sc_subject s) (subject_view caps), seen caps ''read_client'' (sc_client s),
      seen caps ''read_workload'' (sc_caller_workload s, sc_this_workload s))"

definition credentials_view where
  "credentials_view caps r =
     (if ''read_inbound_credentials'' |\<in>| caps \<or> ''read_delegated_tokens'' |\<in>| caps
      then map_option (\<lambda>r. (seen caps ''read_inbound_credentials'' (rc_inbound_tokens r),
             seen caps ''read_delegated_tokens'' (rc_delegated_tokens r))) r
      else None)"

definition extensions_view where
  "extensions_view caps e =
     ((ex_request e, ex_provenance e, ex_completion e, ex_llm e, ex_framework e, ex_mcp e, ex_meta e),
      ex_custom e, ex_candidate_constraint e,
      seen caps ''read_delegation'' (ex_delegation e), seen caps ''read_agent'' (ex_agent e),
      seen caps ''read_headers'' (ex_http e), map_option (security_view caps) (ex_security e),
      credentials_view caps (ex_raw_credentials e))"

lemma build_filtered_subject_eq_iff:
  assumes "has_any_subject_capability caps"
  shows "build_filtered_subject s caps = build_filtered_subject s' caps \<longleftrightarrow> subject_view caps s = subject_view caps s'"
  using assms by (auto simp: build_filtered_subject_def subject_view_def seen_def)

lemma build_filtered_security_eq_iff:
  "build_filtered_security s caps = build_filtered_security s' caps \<longleftrightarrow> security_view caps s = security_view caps s'"
proof -
  have subj: "(case x of None \<Rightarrow> None | Some s \<Rightarrow>
        if has_any_subject_capability caps then Some (build_filtered_subject s caps) else None)
      = (case y of None \<Rightarrow> None | Some s \<Rightarrow>
        if has_any_subject_capability caps then Some (build_filtered_subject s caps) else None)
      \<longleftrightarrow> Option.bind x (subject_view caps) = Option.bind y (subject_view caps)" for x y
    using build_filtered_subject_eq_iff [of caps]
    by (cases x; cases y) (auto simp: subject_view_def)
  show ?thesis
    by (auto simp: build_filtered_security_def security_view_def gated_def seen_def subj)
qed

lemma filter_raw_credentials_eq_iff:
  "filter_raw_credentials r caps = filter_raw_credentials r' caps \<longleftrightarrow> credentials_view caps r = credentials_view caps r'"
  by (cases r; cases r')
     (auto simp: filter_raw_credentials_def credentials_view_def build_filtered_raw_credentials_def seen_def Let_def)

lemma filter_extensions_eq_iff:
  "filter_extensions e caps = filter_extensions e' caps \<longleftrightarrow> extensions_view caps e = extensions_view caps e'"
proof -
  have sec: "map_option (\<lambda>s. build_filtered_security s caps) x = map_option (\<lambda>s. build_filtered_security s caps) y
      \<longleftrightarrow> map_option (security_view caps) x = map_option (security_view caps) y" for x y
    by (cases x; cases y) (simp_all add: build_filtered_security_eq_iff)
  show ?thesis
    by (auto simp: filter_extensions_def extensions_default_def extensions_view_def sec
        filter_raw_credentials_eq_iff gated_def seen_def)
qed

text \<open>Filtering twice is filtering once.\<close>

lemma filter_extensions_idem: "filter_extensions (filter_extensions e caps) caps = filter_extensions e caps"
proof -
  have "build_filtered_subject (build_filtered_subject s caps) caps = build_filtered_subject s caps" for s
    by (simp add: build_filtered_subject_def)
  then have "build_filtered_security (build_filtered_security s caps) caps = build_filtered_security s caps" for s
    by (simp add: build_filtered_security_def gated_def split: option.split)
  moreover have "filter_raw_credentials (filter_raw_credentials r caps) caps = filter_raw_credentials r caps" for r
    by (simp add: filter_raw_credentials_def build_filtered_raw_credentials_def Let_def split: option.split)
  ultimately show ?thesis
    by (simp add: filter_extensions_def extensions_default_def gated_def option.map_comp o_def)
qed

subsection \<open>Merges\<close>

text \<open>The labels of a security slot that may be absent.\<close>

definition labels_of :: "extensions \<Rightarrow> monotonic_set" where
  "labels_of e = (case ex_security e of None \<Rightarrow> {||} | Some s \<Rightarrow> sc_labels s)"

definition chain_of :: "extensions \<Rightarrow> delegation_hop list" where
  "chain_of e = (case ex_delegation e of None \<Rightarrow> [] | Some d \<Rightarrow> dg_chain d)"

definition origin_of :: "extensions \<Rightarrow> string option" where
  "origin_of e = (case ex_delegation e of None \<Rightarrow> None | Some d \<Rightarrow> dg_origin_subject_id d)"

text \<open>Everything about who is asking: the security slot without its labels.\<close>

definition identity_of :: "extensions \<Rightarrow> security_extension" where
  "identity_of e = (case ex_security e of None \<Rightarrow> security_default | Some s \<Rightarrow> s)\<lparr>sc_labels := {||}\<rparr>"

text \<open>The request line: an HTTP slot without its headers.\<close>

definition request_line :: "extensions \<Rightarrow> http_extension" where
  "request_line e = (case ex_http e of None \<Rightarrow> http_default | Some h \<Rightarrow> h)
     \<lparr>ht_request_headers := [], ht_response_headers := []\<rparr>"

definition safe_change :: "extensions \<Rightarrow> extensions \<Rightarrow> bool" where
  "safe_change e e' \<longleftrightarrow>
     fixed_slots e' = fixed_slots e \<and> identity_of e' = identity_of e \<and> request_line e' = request_line e
   \<and> labels_of e |\<subseteq>| labels_of e' \<and> chain_extends (chain_of e) (chain_of e')
   \<and> (origin_of e \<noteq> None \<longrightarrow> origin_of e' = origin_of e)"

lemma safe_change_refl [simp]: "safe_change e e"
  by (simp add: safe_change_def)

lemma safe_change_trans: "safe_change e e' \<Longrightarrow> safe_change e' e'' \<Longrightarrow> safe_change e e''"
  unfolding safe_change_def using chain_extends_trans by auto

lemma merge_http_line: "request_line (merge_http e h t) = request_line e"
  by (simp add: request_line_def ex_http_merge http_default_def split: option.split)

lemma merge_security_labels:
  "identity_of (merge_security e s t) = identity_of e \<and> labels_of e |\<subseteq>| labels_of (merge_security e s t)"
  by (auto simp: identity_of_def labels_of_def merge_security_def Let_def split: option.split)

lemma merge_delegation_chain:
  "chain_extends (chain_of e) (chain_of (merge_delegation e d t))
   \<and> (origin_of e \<noteq> None \<longrightarrow> origin_of (merge_delegation e d t) = origin_of e)"
  by (cases d; cases "ex_delegation e")
     (auto simp: chain_of_def origin_of_def merge_delegation_def Let_def chain_extends_iff delegation_default_def)

text \<open>The derived quantities read one slot only.\<close>

lemma of_slot:
  "ex_security e' = ex_security e \<Longrightarrow> labels_of e' = labels_of e \<and> identity_of e' = identity_of e"
  "ex_delegation e' = ex_delegation e \<Longrightarrow> chain_of e' = chain_of e \<and> origin_of e' = origin_of e"
  "ex_http e' = ex_http e \<Longrightarrow> request_line e' = request_line e"
  by (simp_all add: labels_of_def identity_of_def chain_of_def origin_of_def request_line_def)

lemma merge_owned_safe: "safe_change e (merge_owned e o')"
proof -
  note c = merge_owned_components [of e o']
  have "request_line (merge_owned e o') = request_line e"
    using of_slot(3) [OF c(1)] merge_http_line by simp
  moreover have "identity_of (merge_owned e o') = identity_of e \<and> labels_of e |\<subseteq>| labels_of (merge_owned e o')"
    using of_slot(1) [OF c(2)] merge_security_labels by simp
  moreover have "chain_extends (chain_of e) (chain_of (merge_owned e o'))
      \<and> (origin_of e \<noteq> None \<longrightarrow> origin_of (merge_owned e o') = origin_of e)"
    using of_slot(2) [OF c(3)] merge_delegation_chain by simp
  ultimately show ?thesis by (simp add: safe_change_def c(7))
qed

text \<open>Without a token its slot stays as it is.\<close>

lemma merge_owned_needs_token:
  "\<not> ow_http_write_token o' \<Longrightarrow> ex_http (merge_owned e o') = ex_http e"
  "\<not> ow_labels_write_token o' \<Longrightarrow> ex_security (merge_owned e o') = ex_security e"
  "\<not> ow_delegation_write_token o' \<Longrightarrow> ex_delegation (merge_owned e o') = ex_delegation e"
  by (simp_all add: merge_owned_components merge_defs split: option.split)

subsection \<open>Depth\<close>

text \<open>The depth of a delegation counts its hops and saturates.\<close>

definition delegation_wf :: "delegation_extension \<Rightarrow> bool" where
  "delegation_wf d \<longleftrightarrow> dg_depth d = u32_of_len (length (dg_chain d)) \<and> (dg_delegated d \<longleftrightarrow> dg_chain d \<noteq> [])"

definition extensions_wf :: "extensions \<Rightarrow> bool" where
  "extensions_wf e \<longleftrightarrow> (\<forall>d. ex_delegation e = Some d \<longrightarrow> delegation_wf d)"

lemma append_hop_wf: "delegation_wf (append_hop d hop)"
  by (simp add: delegation_wf_def append_hop_def Let_def)

lemma merge_owned_wf: "extensions_wf e \<Longrightarrow> extensions_wf (merge_owned e o')"
  unfolding extensions_wf_def merge_owned_components
  by (cases "ow_delegation o'") (auto simp: merge_delegation_def delegation_wf_def Let_def)

lemma filter_extensions_wf: "extensions_wf e \<Longrightarrow> extensions_wf (filter_extensions e caps)"
  by (simp add: extensions_wf_def filter_extensions_def extensions_default_def gated_def)

subsection \<open>Returning the view untouched\<close>

text \<open>The view with the write tokens the capabilities buy, as the executor hands it to a plugin.\<close>

definition with_tokens :: "string fset \<Rightarrow> extensions \<Rightarrow> extensions" where
  "with_tokens caps e = e\<lparr>ex_http_write_token := ''write_headers'' |\<in>| caps,
     ex_labels_write_token := ''append_labels'' |\<in>| caps,
     ex_delegation_write_token := ''append_delegation'' |\<in>| caps\<rparr>"

definition untouched :: "extensions \<Rightarrow> string fset \<Rightarrow> owned_extensions" where
  "untouched e caps = cow_copy (with_tokens caps (filter_extensions e caps))"

lemmas untouched_simps = untouched_def cow_copy_def with_tokens_def filter_extensions_def extensions_default_def
  gated_def

lemma untouched_http: "ex_http (merge_owned e (untouched e caps)) = ex_http e"
  by (cases "ex_http e") (simp_all add: merge_owned_components ex_http_merge untouched_simps)

lemma untouched_security: "ex_security (merge_owned e (untouched e caps)) = ex_security e"
  by (cases "ex_security e")
     (auto simp: merge_owned_components merge_security_def untouched_simps build_filtered_security_def
        mono_is_superset_def Let_def)

lemma untouched_delegation: "extensions_wf e \<Longrightarrow> ex_delegation (merge_owned e (untouched e caps)) = ex_delegation e"
  by (cases "ex_delegation e")
     (auto simp: merge_owned_components merge_delegation_def untouched_simps extensions_wf_def delegation_wf_def Let_def)

lemma untouched_credentials:
  "ex_raw_credentials (merge_owned e (untouched e caps)) =
     (case ex_raw_credentials e of None \<Rightarrow> None | Some r \<Rightarrow>
        Some (if ''read_inbound_credentials'' |\<in>| caps \<or> ''read_delegated_tokens'' |\<in>| caps
              then build_filtered_raw_credentials r (''read_inbound_credentials'' |\<in>| caps) (''read_delegated_tokens'' |\<in>| caps)
              else r))"
  by (cases "ex_raw_credentials e")
     (simp_all add: merge_owned_components untouched_simps filter_raw_credentials_def Let_def)

end
