(* ===== verification/Bag_Builder.thy ===== *)
theory Bag_Builder
  imports Ext_Props
begin

text \<open>
  \<^verbatim>\<open>crates/ppe-apl-cmf\<close>: flattening the extensions and the payload into the attribute bag the policy reads.
  Every extractor is a list of writes in the order of the source.  Two things come from outside: how
  \<^verbatim>\<open>serde_json\<close> prints a double (\<open>fmt\<close>) and how text with characters beyond ASCII is lowered (\<open>uni\<close>, the
  Unicode tables).
\<close>

subsection \<open>Writes\<close>

type_synonym bag_write = "attribute_bag \<Rightarrow> attribute_bag"

definition writes :: "bag_write list \<Rightarrow> bag_write" where
  "writes ws = fold (\<lambda>w bag. w bag) ws"

definition put :: "string \<Rightarrow> attribute_value \<Rightarrow> bag_write" where
  "put key v bag = bag_set bag key v"

definition put_str :: "string \<Rightarrow> string option \<Rightarrow> bag_write" where
  "put_str key v bag = (case v of None \<Rightarrow> bag | Some s \<Rightarrow> bag_set bag key (AString s))"

definition put_set :: "string \<Rightarrow> string list \<Rightarrow> bag_write" where
  "put_set key vs bag = bag_set bag key (AStringSet (fset_of_list vs))"

definition put_flags :: "string \<Rightarrow> string list \<Rightarrow> bag_write" where
  "put_flags pre vs bag = fold (\<lambda>v bag. bag_set bag (pre @ v) (ABool True)) vs bag"

definition when_some :: "'a option \<Rightarrow> ('a \<Rightarrow> bag_write) \<Rightarrow> bag_write" where
  "when_some x f = (case x of None \<Rightarrow> id | Some v \<Rightarrow> f v)"

definition to_lowercase :: "(string \<Rightarrow> string) \<Rightarrow> string \<Rightarrow> string" where
  "to_lowercase uni s = (if \<forall>c \<in> set s. byte_of c < 128 then to_ascii_lowercase s else uni s)"

subsection \<open>JSON values\<close>

fun num_to_string :: "(f64 \<Rightarrow> string) \<Rightarrow> json \<Rightarrow> string" where
  "num_to_string fmt (JInt i) = int_to_string i"
| "num_to_string fmt (JFloat f) = fmt f"
| "num_to_string fmt _ = ''''"

fun array_set :: "(f64 \<Rightarrow> string) \<Rightarrow> json list \<Rightarrow> string fset \<Rightarrow> string fset option" where
  "array_set fmt [] acc = Some acc"
| "array_set fmt (JStr s # items) acc = array_set fmt items (finsert s acc)"
| "array_set fmt (JInt i # items) acc = array_set fmt items (finsert (num_to_string fmt (JInt i)) acc)"
| "array_set fmt (JFloat f # items) acc = array_set fmt items (finsert (num_to_string fmt (JFloat f)) acc)"
| "array_set fmt (JBool b # items) acc = array_set fmt items (finsert (bool_to_string b) acc)"
| "array_set fmt (JNull # items) acc = array_set fmt items acc"
| "array_set fmt (JArr _ # items) acc = None"
| "array_set fmt (JObj _ # items) acc = None"

definition dotted :: "string \<Rightarrow> string \<Rightarrow> string" where
  "dotted pre key = (if pre = [] then key else pre @ ''.'' @ key)"

fun walk :: "(f64 \<Rightarrow> string) \<Rightarrow> json \<Rightarrow> string \<Rightarrow> bag_write"
  and walk_entries :: "(f64 \<Rightarrow> string) \<Rightarrow> (string \<times> json) list \<Rightarrow> string \<Rightarrow> bag_write" where
  "walk fmt (JObj m) pre bag = walk_entries fmt m pre bag"
| "walk fmt (JArr items) pre bag =
     (case array_set fmt items {||} of None \<Rightarrow> bag | Some s \<Rightarrow> bag_set bag pre (AStringSet s))"
| "walk fmt (JStr s) pre bag = bag_set bag pre (AString s)"
| "walk fmt (JBool b) pre bag = bag_set bag pre (ABool b)"
| "walk fmt (JInt i) pre bag = bag_set bag pre (if in_i64 i then AInt i else AFloat (f64_of_i64 i))"
| "walk fmt (JFloat f) pre bag = bag_set bag pre (AFloat f)"
| "walk fmt JNull pre bag = bag"
| "walk_entries fmt [] pre bag = bag"
| "walk_entries fmt ((k, v) # m) pre bag = walk_entries fmt m pre (walk fmt v (dotted pre k) bag)"

definition extract_args :: "(f64 \<Rightarrow> string) \<Rightarrow> json \<Rightarrow> bag_write" where
  "extract_args fmt args = walk fmt args ''args''"

definition extract_result :: "(f64 \<Rightarrow> string) \<Rightarrow> json \<Rightarrow> bag_write" where
  "extract_result fmt result = walk fmt result ''result''"

text \<open>\<^verbatim>\<open>AttributeTree\<close> is the JSON document it wraps.\<close>

definition extract_data :: "(f64 \<Rightarrow> string) \<Rightarrow> json \<Rightarrow> bag_write" where
  "extract_data fmt tree = walk fmt tree ''data''"

definition walk_map :: "(f64 \<Rightarrow> string) \<Rightarrow> string \<Rightarrow> json hash_map \<Rightarrow> bag_write" where
  "walk_map fmt pre m = writes (map (\<lambda>(k, v). walk fmt v (pre @ k)) m)"

subsection \<open>Extractors\<close>

definition extract_custom :: "(f64 \<Rightarrow> string) \<Rightarrow> json hash_map \<Rightarrow> bag_write" where
  "extract_custom fmt custom = walk_map fmt ''custom.'' custom"

definition extract_agent :: "agent_extension \<Rightarrow> bag_write" where
  "extract_agent a = writes
     [put_str ''agent.input'' (ag_input a),
      put_str ''agent.session_id'' (ag_session_id a),
      put_str ''agent.conversation_id'' (ag_conversation_id a),
      when_some (ag_turn a) (\<lambda>v. put ''agent.turn'' (AInt (uint v))),
      put_str ''agent.agent_id'' (ag_agent_id a),
      put_str ''agent.parent_agent_id'' (ag_parent_agent_id a),
      when_some (ag_conversation a) (\<lambda>conv. writes
        [put_str ''agent.conversation.summary'' (cx_summary conv),
         put_set ''agent.conversation.topics'' (cx_topics conv)])]"

fun stop_reason_str :: "stop_reason \<Rightarrow> string" where
  "stop_reason_str SR_End = ''end''"
| "stop_reason_str SR_Return = ''return''"
| "stop_reason_str SR_Call = ''call''"
| "stop_reason_str SR_MaxTokens = ''max_tokens''"
| "stop_reason_str SR_StopSequence = ''stop_sequence''"

definition i64_of_u64 :: "u64 \<Rightarrow> int" where
  "i64_of_u64 n = (if uint n \<le> i64_max then uint n else i64_max)"

definition extract_completion :: "completion_extension \<Rightarrow> bag_write" where
  "extract_completion c = writes
     [put_str ''completion.stop_reason'' (map_option stop_reason_str (cp_stop_reason c)),
      when_some (cp_tokens c) (\<lambda>tu. writes
        [put ''completion.tokens.input'' (AInt (uint (tu_input_tokens tu))),
         put ''completion.tokens.output'' (AInt (uint (tu_output_tokens tu))),
         put ''completion.tokens.total'' (AInt (uint (tu_total_tokens tu)))]),
      put_str ''completion.model'' (cp_model c),
      put_str ''completion.raw_format'' (cp_raw_format c),
      put_str ''completion.created_at'' (cp_created_at c),
      when_some (cp_latency_ms c) (\<lambda>ms. put ''completion.latency_ms'' (AInt (i64_of_u64 ms)))]"

definition extract_delegation :: "delegation_extension \<Rightarrow> bag_write" where
  "extract_delegation d = writes
     [put ''delegation.depth'' (AInt (uint (dg_depth d))),
      put ''delegation.delegated'' (ABool (dg_delegated d)),
      put ''delegated'' (ABool (dg_delegated d)),
      put_str ''delegation.origin_subject_id'' (dg_origin_subject_id d),
      put_str ''delegation.actor_subject_id'' (dg_actor_subject_id d),
      put ''delegation.age_seconds'' (AFloat (dg_age_seconds d))]"

definition extract_framework :: "(f64 \<Rightarrow> string) \<Rightarrow> framework_extension \<Rightarrow> bag_write" where
  "extract_framework fmt f = writes
     [put_str ''framework.framework'' (fw_framework f),
      put_str ''framework.framework_version'' (fw_framework_version f),
      put_str ''framework.node_id'' (fw_node_id f),
      put_str ''framework.graph_id'' (fw_graph_id f),
      walk_map fmt ''framework.metadata.'' (fw_metadata f)]"

definition extract_headers :: "(string \<Rightarrow> string) \<Rightarrow> string \<Rightarrow> string hash_map \<Rightarrow> bag_write" where
  "extract_headers uni pre hs = writes (map (\<lambda>(k, v). put (pre @ to_lowercase uni k) (AString v)) hs)"

definition extract_http :: "(string \<Rightarrow> string) \<Rightarrow> http_extension \<Rightarrow> bag_write" where
  "extract_http uni h = writes
     [put_str ''http.method'' (ht_method h),
      put_str ''http.path'' (ht_path h),
      put_str ''http.host'' (ht_host h),
      put_str ''http.scheme'' (ht_scheme h),
      extract_headers uni ''http.request_headers.'' (ht_request_headers h),
      extract_headers uni ''http.response_headers.'' (ht_response_headers h)]"

definition extract_llm :: "llm_extension \<Rightarrow> bag_write" where
  "extract_llm l = writes
     [put_str ''llm.model_id'' (lm_model_id l),
      put_str ''llm.provider'' (lm_provider l),
      put_set ''llm.capabilities'' (lm_capabilities l)]"

definition extract_mcp :: "mcp_extension \<Rightarrow> bag_write" where
  "extract_mcp m = writes
     [when_some (mc_tool m) (\<lambda>tool. writes
        [put ''mcp.tool.name'' (AString (tm_name tool)),
         put_str ''mcp.tool.title'' (tm_title tool),
         put_str ''mcp.tool.description'' (tm_description tool),
         put_str ''mcp.tool.server_id'' (tm_server_id tool),
         put_str ''mcp.tool.namespace'' (tm_namespace tool)]),
      when_some (mc_resource m) (\<lambda>res. writes
        [put ''mcp.resource.uri'' (AString (rm_uri res)),
         put_str ''mcp.resource.name'' (rm_name res),
         put_str ''mcp.resource.description'' (rm_description res),
         put_str ''mcp.resource.mime_type'' (rm_mime_type res),
         put_str ''mcp.resource.server_id'' (rm_server_id res)]),
      when_some (mc_prompt m) (\<lambda>prompt. writes
        [put ''mcp.prompt.name'' (AString (pm_name prompt)),
         put_str ''mcp.prompt.description'' (pm_description prompt),
         put_str ''mcp.prompt.server_id'' (pm_server_id prompt)])]"

definition extract_meta :: "meta_extension \<Rightarrow> bag_write" where
  "extract_meta m = writes
     [put_str ''meta.entity_type'' (me_entity_type m),
      put_str ''meta.entity_name'' (me_entity_name m),
      put ''meta.tags'' (AStringSet (me_tags m)),
      put_str ''meta.scope'' (me_scope m),
      writes (map (\<lambda>(k, v). put (''meta.properties.'' @ k) (AString v)) (me_properties m))]"

definition extract_provenance :: "provenance_extension \<Rightarrow> bag_write" where
  "extract_provenance p = writes
     [put_str ''provenance.source'' (pr_source p),
      put_str ''provenance.message_id'' (pr_message_id p),
      put_str ''provenance.parent_id'' (pr_parent_id p)]"

definition extract_request :: "request_extension \<Rightarrow> bag_write" where
  "extract_request r = writes
     [put_str ''request.environment'' (rq_environment r),
      put_str ''request.request_id'' (rq_request_id r),
      put_str ''request.timestamp'' (rq_timestamp r),
      put_str ''request.trace_id'' (rq_trace_id r),
      put_str ''request.span_id'' (rq_span_id r)]"

fun trust_level_str :: "client_trust_level \<Rightarrow> string" where
  "trust_level_str FirstParty = ''first_party''"
| "trust_level_str ThirdParty = ''third_party''"
| "trust_level_str Internal = ''internal''"
| "trust_level_str (CustomTrust s) = s"

fun subject_type_str :: "subject_type \<Rightarrow> string" where
  "subject_type_str Sub_User = ''user''"
| "subject_type_str Sub_Agent = ''agent''"
| "subject_type_str Sub_Service = ''service''"
| "subject_type_str Sub_System = ''system''"

definition extract_client :: "(f64 \<Rightarrow> string) \<Rightarrow> client_extension \<Rightarrow> bag_write" where
  "extract_client fmt c = writes
     [put ''client.client_id'' (AString (cl_client_id c)),
      put_str ''client.client_name'' (cl_client_name c),
      put ''client.trust_level'' (AString (trust_level_str (cl_trust_level c))),
      put_set ''client.roles'' (cl_roles c),
      put_flags ''client.role.'' (cl_roles c),
      put_set ''client.permissions'' (cl_permissions c),
      put_flags ''client.perm.'' (cl_permissions c),
      put_set ''client.authorized_scopes'' (cl_authorized_scopes c),
      put_set ''client.authorized_audiences'' (cl_authorized_audiences c),
      put_set ''client.teams'' (cl_teams c),
      walk_map fmt ''client.claim.'' (cl_claims c)]"

definition extract_workload :: "string \<Rightarrow> workload_identity \<Rightarrow> bag_write" where
  "extract_workload pre w = writes
     [put_str (pre @ ''.spiffe_id'') (wl_spiffe_id w),
      put_str (pre @ ''.trust_domain'') (wl_trust_domain w),
      put_str (pre @ ''.attestor'') (wl_attestor w),
      put_set (pre @ ''.selectors'') (wl_selectors w),
      put_str (pre @ ''.client_id'') (wl_client_id w)]"

text \<open>The loops over the roles, permissions and teams visit a hash set; each writes \<^verbatim>\<open>true\<close>, so the order is immaterial.\<close>

definition extract_subject :: "(f64 \<Rightarrow> string) \<Rightarrow> subject_extension \<Rightarrow> bag_write" where
  "extract_subject fmt s = writes
     [put_str ''subject.id'' (sj_id s),
      put_str ''subject.type'' (map_option subject_type_str (sj_subject_type s)),
      put ''subject.roles'' (AStringSet (sj_roles s)),
      put_flags ''role.'' (sorted_list_of_fset (sj_roles s)),
      put ''subject.permissions'' (AStringSet (sj_permissions s)),
      put_flags ''perm.'' (sorted_list_of_fset (sj_permissions s)),
      put ''subject.teams'' (AStringSet (sj_teams s)),
      put_flags ''team.'' (sorted_list_of_fset (sj_teams s)),
      walk_map fmt ''claim.'' (sj_claims s),
      when_some (sj_id s) (\<lambda>_. put ''authenticated'' (ABool True))]"

definition extract_security :: "(f64 \<Rightarrow> string) \<Rightarrow> security_extension \<Rightarrow> bag_write" where
  "extract_security fmt s = writes
     [when_some (sc_subject s) (extract_subject fmt),
      when_some (sc_client s) (extract_client fmt),
      when_some (sc_caller_workload s) (extract_workload ''caller_workload''),
      when_some (sc_this_workload s) (extract_workload ''this_workload''),
      put_str ''auth_method'' (sc_auth_method s),
      put ''security.labels'' (AStringSet (sc_labels s)),
      put_str ''security.classification'' (sc_classification s)]"

definition extract_extensions :: "(f64 \<Rightarrow> string) \<Rightarrow> (string \<Rightarrow> string) \<Rightarrow> extensions \<Rightarrow> bag_write" where
  "extract_extensions fmt uni e = writes
     [when_some (ex_security e) (extract_security fmt),
      when_some (ex_delegation e) extract_delegation,
      when_some (ex_agent e) (\<lambda>a. extract_agent (snd a)),
      when_some (ex_meta e) (\<lambda>a. extract_meta (snd a)),
      when_some (ex_request e) (\<lambda>a. extract_request (snd a)),
      when_some (ex_http e) (extract_http uni),
      when_some (ex_llm e) (\<lambda>a. extract_llm (snd a)),
      when_some (ex_mcp e) (\<lambda>a. extract_mcp (snd a)),
      when_some (ex_completion e) (\<lambda>a. extract_completion (snd a)),
      when_some (ex_provenance e) (\<lambda>a. extract_provenance (snd a)),
      when_some (ex_framework e) (\<lambda>a. extract_framework fmt (snd a)),
      when_some (ex_custom e) (extract_custom fmt)]"

text \<open>\<^verbatim>\<open>BagBuilder\<close>: the bag under construction; each \<^verbatim>\<open>with_\<close> call is one write.\<close>

definition with_route_key :: "string \<Rightarrow> bag_write" where
  "with_route_key key = put ''route.key'' (AString key)"

subsection \<open>The table of namespaces\<close>

text \<open>
  \<^verbatim>\<open>capability_namespaces.rs\<close>: the documented bag prefixes of each read capability.  A prefix with a final
  dot stands for every key below it, one without for itself.
\<close>

definition capability_table :: "(string \<times> string list) list" where
  "capability_table =
     [(''read_subject'', [''subject.id'', ''subject.type'', ''authenticated'']),
      (''read_roles'', [''role.'', ''subject.roles'', ''subject.id'', ''subject.type'', ''authenticated'']),
      (''read_permissions'', [''perm.'', ''subject.permissions'', ''subject.id'', ''subject.type'', ''authenticated'']),
      (''read_teams'', [''subject.teams'', ''subject.id'', ''subject.type'', ''authenticated'']),
      (''read_claims'', [''claim.'', ''subject.id'', ''subject.type'', ''authenticated'']),
      (''read_labels'', []),
      (''read_client'', [''client.'']),
      (''read_workload'', [''workload.'', ''caller_workload.'']),
      (''read_inbound_credentials'', []),
      (''read_delegated_tokens'', []),
      (''read_delegation'', [''delegation.'', ''delegated'']),
      (''read_agent'', [''agent.'']),
      (''read_meta'', [''meta.'']),
      (''read_request'', [''request.'']),
      (''read_headers'', [''http.request_headers.'', ''http.response_headers.'', ''http.method'', ''http.path'',
         ''http.host'', ''http.scheme'']),
      (''read_llm'', [''llm.'']),
      (''read_mcp'', [''mcp.'']),
      (''read_completion'', [''completion.'']),
      (''read_provenance'', [''provenance.'']),
      (''read_framework'', [''framework.'']),
      (''read_custom'', [''custom.''])]"

definition capability_namespaces :: "string \<Rightarrow> string list" where
  "capability_namespaces cap =
     (case find (\<lambda>(name, _). name = cap) capability_table of None \<Rightarrow> [] | Some (_, prefixes) \<Rightarrow> prefixes)"

definition unlocked_bag_prefixes :: "string list \<Rightarrow> string fset" where
  "unlocked_bag_prefixes caps = fset_of_list (concat (map capability_namespaces caps))"

definition known_read_capabilities :: "string list" where
  "known_read_capabilities = map fst capability_table"

end
