(* ===== verification/Bag_Props.thy ===== *)
theory Bag_Props
  imports Bag_Builder
begin

text \<open>
  Where the entries of the attribute bag come from.  A writer into the bag adds a fixed map on top of
  what is there, and its keys stay within its namespace: that is the contract \<open>bag_writer\<close>, which every
  extractor satisfies, and from which it follows which source can decide which key.
\<close>

locale bag_writer =
  fixes w :: bag_write and ns :: "string \<Rightarrow> bool"
  assumes additive: "w bag = bag ++ w Map.empty"
    and confined: "w Map.empty k \<noteq> None \<Longrightarrow> ns k"
begin

lemma lookup: "w bag k = (case w Map.empty k of None \<Rightarrow> bag k | Some v \<Rightarrow> Some v)"
  by (subst additive) (simp add: map_add_def)

lemma frame: "\<not> ns k \<Longrightarrow> w bag k = bag k"
  using confined [of k] by (cases "w Map.empty k") (simp_all add: lookup [of bag])

lemma idem: "w (w bag) = w bag"
proof (rule ext)
  show "w (w bag) k = w bag k" for k
    using lookup [of "w bag" k] lookup [of bag k] by (cases "w Map.empty k") simp_all
qed

end

subsection \<open>Building writers\<close>

lemma bag_writer_mono: "bag_writer w ns \<Longrightarrow> (\<And>k. ns k \<Longrightarrow> ns' k) \<Longrightarrow> bag_writer w ns'"
  unfolding bag_writer_def by blast

lemma bag_writer_id: "bag_writer id ns"
  by (simp add: bag_writer_def)

lemma bag_writer_put: "ns key \<Longrightarrow> bag_writer (put key v) ns"
  by (simp add: bag_writer_def put_def bag_set_def split: if_splits)

lemma bag_writer_put_str: "ns key \<Longrightarrow> bag_writer (put_str key v) ns"
  by (cases v) (simp_all add: bag_writer_def put_str_def bag_set_def split: if_splits)

lemma bag_writer_put_set: "ns key \<Longrightarrow> bag_writer (put_set key vs) ns"
  by (simp add: bag_writer_def put_set_def bag_set_def split: if_splits)

lemma bag_writer_when_some: "(\<And>x. v = Some x \<Longrightarrow> bag_writer (f x) ns) \<Longrightarrow> bag_writer (when_some v f) ns"
  by (cases v) (simp_all add: when_some_def bag_writer_id)

lemma bag_writer_comp:
  assumes "bag_writer f ns" "bag_writer g ns"
  shows "bag_writer (\<lambda>bag. g (f bag)) ns"
proof (rule bag_writer.intro)
  show "g (f bag) = bag ++ g (f Map.empty)" for bag
    using bag_writer.additive [OF assms(1)] bag_writer.additive [OF assms(2)] by (metis map_add_assoc)
  show "ns k" if "g (f Map.empty) k \<noteq> None" for k
    using that bag_writer.frame [OF assms(2), of k] bag_writer.confined [OF assms(1), of k] by (cases "ns k") auto
qed

lemma writes_simps [simp]: "writes [] = id" "writes (w # ws) = (\<lambda>bag. writes ws (w bag))"
  by (simp_all add: writes_def fun_eq_iff)

lemma bag_writer_writes: "(\<And>w. w \<in> set ws \<Longrightarrow> bag_writer w ns) \<Longrightarrow> bag_writer (writes ws) ns"
  by (induction ws) (simp_all add: bag_writer_id bag_writer_comp)

declare writes_simps [simp del]

lemma bag_writer_put_flags: "(\<And>v. v \<in> set vs \<Longrightarrow> ns (pre @ v)) \<Longrightarrow> bag_writer (put_flags pre vs) ns"
proof -
  assume ns: "\<And>v. v \<in> set vs \<Longrightarrow> ns (pre @ v)"
  have "put_flags pre vs = writes (map (\<lambda>v. put (pre @ v) (ABool True)) vs)"
    by (simp add: put_flags_def writes_def fold_map comp_def put_def [abs_def] fun_eq_iff)
  with ns show ?thesis by (auto intro!: bag_writer_writes bag_writer_put)
qed

subsection \<open>JSON values\<close>

text \<open>The keys at or below a dotted name.\<close>

definition below :: "string \<Rightarrow> string \<Rightarrow> bool" where
  "below pre k \<longleftrightarrow> k = pre \<or> starts_with k (pre @ ''.'')"

lemma below_refl [simp]: "below pre pre"
  by (simp add: below_def)

lemma below_dot: "below pre (pre @ ''.'' @ k)"
  by (simp add: below_def starts_with_iff)

lemma below_trans: "below (pre @ ''.'' @ q) k \<Longrightarrow> below pre k"
  by (auto simp: below_def starts_with_iff)

lemma below_dotted: "pre \<noteq> [] \<Longrightarrow> below (dotted pre key) k \<Longrightarrow> below pre k"
  using below_trans [of pre key k] by (simp add: dotted_def)

lemma dotted_not_Nil: "pre \<noteq> [] \<Longrightarrow> dotted pre key \<noteq> []"
  by (simp add: dotted_def)

lemma walk_scalar:
  "walk fmt (JStr s) pre = put pre (AString s)"
  "walk fmt (JBool b) pre = put pre (ABool b)"
  "walk fmt (JInt i) pre = put pre (if in_i64 i then AInt i else AFloat (f64_of_i64 i))"
  "walk fmt (JFloat f) pre = put pre (AFloat f)"
  "walk fmt JNull pre = id"
  by (simp_all add: fun_eq_iff put_def)

lemma walk_entries_writes: "walk_entries fmt m pre = writes (map (\<lambda>(k, v). walk fmt v (dotted pre k)) m)"
  by (induction m) (auto simp: fun_eq_iff writes_simps)

lemma walk_writer: "pre \<noteq> [] \<Longrightarrow> bag_writer (walk fmt v pre) (below pre)"
proof (induction v arbitrary: pre)
  case (JObj m)
  have "bag_writer (walk fmt v (dotted pre k)) (below pre)" if "(k, v) \<in> set m" for k v
    using JObj.IH [of "(k, v)" v "dotted pre k"] that JObj.prems
    by (auto intro: bag_writer_mono below_dotted simp: dotted_not_Nil)
  then have "bag_writer (walk_entries fmt m pre) (below pre)"
    unfolding walk_entries_writes by (auto intro!: bag_writer_writes)
  moreover have "walk fmt (JObj m) pre = walk_entries fmt m pre" by (simp add: fun_eq_iff)
  ultimately show ?case by simp
next
  case (JArr items)
  have "walk fmt (JArr items) pre = when_some (array_set fmt items {||}) (\<lambda>s. put pre (AStringSet s))"
    by (simp add: fun_eq_iff when_some_def put_def split: option.split)
  then show ?case by (auto intro!: bag_writer_when_some bag_writer_put)
qed (simp_all add: walk_scalar bag_writer_put bag_writer_id)

lemma walk_map_writer: "pre \<noteq> [] \<Longrightarrow> bag_writer (walk_map fmt (pre @ ''.'') m) (below pre)"
proof -
  assume "pre \<noteq> []"
  then have "bag_writer (walk fmt v ((pre @ ''.'') @ k)) (below pre)" for k v
    using walk_writer [of "pre @ ''.'' @ k" fmt v] below_trans [of pre k] by (auto intro: bag_writer_mono)
  then show ?thesis unfolding walk_map_def by (auto intro!: bag_writer_writes)
qed

lemma walk_map_at:
  "pre = p @ ''.'' \<Longrightarrow> p \<noteq> [] \<Longrightarrow> (\<And>k. below p k \<Longrightarrow> ns k) \<Longrightarrow> bag_writer (walk_map fmt pre m) ns"
  using walk_map_writer [of p fmt m] bag_writer_mono by blast

subsection \<open>Every extractor is a writer into its own namespace\<close>

lemmas writer_intros = bag_writer_writes bag_writer_put bag_writer_put_str bag_writer_put_set bag_writer_when_some

lemma below_literal: "starts_with k (pre @ ''.'') \<Longrightarrow> below pre k"
  by (simp add: below_def)

interpretation args: bag_writer "extract_args fmt v" "below ''args''" for fmt v
  unfolding extract_args_def by (rule walk_writer) simp

interpretation result: bag_writer "extract_result fmt v" "below ''result''" for fmt v
  unfolding extract_result_def by (rule walk_writer) simp

interpretation data: bag_writer "extract_data fmt v" "below ''data''" for fmt v
  unfolding extract_data_def by (rule walk_writer) simp

interpretation custom: bag_writer "extract_custom fmt m" "below ''custom''" for fmt m
  unfolding extract_custom_def using walk_map_writer [of "''custom''" fmt m] by simp

interpretation agent: bag_writer "extract_agent a" "below ''agent''" for a
  unfolding extract_agent_def by (rule bag_writer_writes) (auto intro!: writer_intros simp: below_def)

interpretation completion: bag_writer "extract_completion c" "below ''completion''" for c
  unfolding extract_completion_def by (rule bag_writer_writes) (auto intro!: writer_intros simp: below_def)

interpretation delegation: bag_writer "extract_delegation d" "\<lambda>k. below ''delegation'' k \<or> k = ''delegated''" for d
  unfolding extract_delegation_def by (rule bag_writer_writes) (auto intro!: writer_intros simp: below_def)

interpretation framework: bag_writer "extract_framework fmt f" "below ''framework''" for fmt f
proof -
  have "bag_writer (walk_map fmt ''framework.metadata.'' (fw_metadata f)) (below ''framework'')"
    by (rule walk_map_at [of _ "''framework.metadata''"]) (auto simp: below_def starts_with_iff)
  then show "bag_writer (extract_framework fmt f) (below ''framework'')"
    unfolding extract_framework_def by (intro bag_writer_writes) (auto intro!: writer_intros simp: below_def)
qed

lemma extract_headers_writer: "starts_with pre ''http.'' \<Longrightarrow> bag_writer (extract_headers uni pre hs) (below ''http'')"
  unfolding extract_headers_def
  by (rule bag_writer_writes) (auto intro!: bag_writer_put simp: below_def starts_with_iff)

interpretation http: bag_writer "extract_http uni h" "below ''http''" for uni h
  unfolding extract_http_def
  by (rule bag_writer_writes) (auto intro!: writer_intros extract_headers_writer simp: below_def)

interpretation llm: bag_writer "extract_llm l" "below ''llm''" for l
  unfolding extract_llm_def by (rule bag_writer_writes) (auto intro!: writer_intros simp: below_def)

interpretation mcp: bag_writer "extract_mcp m" "below ''mcp''" for m
  unfolding extract_mcp_def by (rule bag_writer_writes) (auto intro!: writer_intros simp: below_def)

interpretation meta: bag_writer "extract_meta m" "below ''meta''" for m
  unfolding extract_meta_def by (rule bag_writer_writes) (auto intro!: writer_intros simp: below_def)

interpretation provenance: bag_writer "extract_provenance p" "below ''provenance''" for p
  unfolding extract_provenance_def by (rule bag_writer_writes) (auto intro!: writer_intros simp: below_def)

interpretation request: bag_writer "extract_request r" "below ''request''" for r
  unfolding extract_request_def by (rule bag_writer_writes) (auto intro!: writer_intros simp: below_def)

interpretation client: bag_writer "extract_client fmt c" "below ''client''" for fmt c
proof -
  have "bag_writer (walk_map fmt ''client.claim.'' (cl_claims c)) (below ''client'')"
    by (rule walk_map_at [of _ "''client.claim''"]) (auto simp: below_def starts_with_iff)
  then show "bag_writer (extract_client fmt c) (below ''client'')"
    unfolding extract_client_def
    by (intro bag_writer_writes) (auto intro!: writer_intros bag_writer_put_flags simp: below_def)
qed

interpretation workload: bag_writer "extract_workload pre w" "below pre" for pre w
  unfolding extract_workload_def
  by (rule bag_writer_writes) (auto intro!: writer_intros simp: below_def starts_with_iff)

interpretation claims: bag_writer "walk_map fmt ''claim.'' m" "below ''claim''" for fmt m
  by (rule walk_map_at [of _ "''claim''"]) simp_all

definition subject_ns :: "string \<Rightarrow> bool" where
  "subject_ns k \<longleftrightarrow> list_ex (\<lambda>p. below p k) [''subject'', ''role'', ''perm'', ''team'', ''claim''] \<or> k = ''authenticated''"

interpretation subject: bag_writer "extract_subject fmt s" subject_ns for fmt s
  unfolding extract_subject_def
  by (rule bag_writer_writes)
     (auto intro!: writer_intros bag_writer_put_flags walk_map_at [of _ "''claim''"] simp: subject_ns_def below_def)

definition security_ns :: "string \<Rightarrow> bool" where
  "security_ns k \<longleftrightarrow> subject_ns k \<or> k = ''auth_method''
     \<or> list_ex (\<lambda>p. below p k) [''client'', ''caller_workload'', ''this_workload'', ''security'']"

interpretation security: bag_writer "extract_security fmt s" security_ns for fmt s
proof -
  have "bag_writer (extract_subject fmt x) security_ns" for x
    by (rule bag_writer_mono [OF subject.bag_writer_axioms]) (simp add: security_ns_def)
  moreover have "bag_writer (extract_client fmt x) security_ns" for x
    by (rule bag_writer_mono [OF client.bag_writer_axioms]) (simp add: security_ns_def)
  moreover have "bag_writer (extract_workload ''caller_workload'' x) security_ns" for x
    by (rule bag_writer_mono [OF workload.bag_writer_axioms]) (simp add: security_ns_def)
  moreover have "bag_writer (extract_workload ''this_workload'' x) security_ns" for x
    by (rule bag_writer_mono [OF workload.bag_writer_axioms]) (simp add: security_ns_def)
  ultimately show "bag_writer (extract_security fmt s) security_ns"
    unfolding extract_security_def
    by (intro bag_writer_writes) (auto intro!: writer_intros simp: security_ns_def below_def)
qed

subsection \<open>Who decides the identity keys\<close>

text \<open>The namespaces of the extractors that come after the security extension.\<close>

definition other_ns :: "string \<Rightarrow> bool" where
  "other_ns k \<longleftrightarrow> k = ''delegated''
     \<or> list_ex (\<lambda>p. below p k) [''delegation'', ''agent'', ''meta'', ''request'', ''http'', ''llm'', ''mcp'',
          ''completion'', ''provenance'', ''framework'', ''custom'']"

lemma when_some_frame: "(\<And>x bag. f x bag k = bag k) \<Longrightarrow> when_some v f bag k = bag k"
  by (simp add: when_some_def split: option.split)

lemma extract_extensions_identity:
  assumes "\<not> other_ns k"
  shows "extract_extensions fmt uni e bag k = when_some (ex_security e) (extract_security fmt) bag k"
proof -
  have ns: "\<not> below ''delegation'' k" "k \<noteq> ''delegated''" "\<not> below ''agent'' k" "\<not> below ''meta'' k"
    "\<not> below ''request'' k" "\<not> below ''http'' k" "\<not> below ''llm'' k" "\<not> below ''mcp'' k"
    "\<not> below ''completion'' k" "\<not> below ''provenance'' k" "\<not> below ''framework'' k" "\<not> below ''custom'' k"
    using assms by (simp_all add: other_ns_def)
  show ?thesis
    by (simp add: extract_extensions_def writes_simps when_some_frame ns delegation.frame agent.frame meta.frame
        request.frame http.frame llm.frame mcp.frame completion.frame provenance.frame framework.frame custom.frame)
qed

lemma put_flags_at: "put_flags pre vs bag k = (if k \<in> (@) pre ` set vs then Some (ABool True) else bag k)"
  unfolding put_flags_def by (induction vs arbitrary: bag) (auto simp: bag_set_def)

lemma put_other: "k \<noteq> key \<Longrightarrow> put key v bag k = bag k" "k \<noteq> key \<Longrightarrow> put_str key vo bag k = bag k"
  by (simp_all add: put_def put_str_def bag_set_def split: option.split)

lemmas write_at = put_def put_str_def bag_set_def put_flags_at writes_simps when_some_def

lemma subject_keys:
  "extract_subject fmt s bag (''role.'' @ x) = (if x |\<in>| sj_roles s then Some (ABool True) else bag (''role.'' @ x))"
  "extract_subject fmt s bag (''perm.'' @ x) = (if x |\<in>| sj_permissions s then Some (ABool True) else bag (''perm.'' @ x))"
  "extract_subject fmt s bag (''team.'' @ x) = (if x |\<in>| sj_teams s then Some (ABool True) else bag (''team.'' @ x))"
  "extract_subject fmt s bag ''authenticated'' = (if sj_id s \<noteq> None then Some (ABool True) else bag ''authenticated'')"
  "extract_subject fmt s bag ''subject.id'' = (case sj_id s of None \<Rightarrow> bag ''subject.id'' | Some i \<Rightarrow> Some (AString i))"
  by (auto simp: extract_subject_def write_at claims.frame below_def image_iff split: option.split)

definition subject_of :: "extensions \<Rightarrow> subject_extension option" where
  "subject_of e = Option.bind (ex_security e) sc_subject"

text \<open>A key no other part of the security extension writes is decided by the subject.\<close>

lemma extract_extensions_subject:
  assumes "\<not> other_ns k" "k \<noteq> ''auth_method''"
    and "\<not> list_ex (\<lambda>p. below p k) [''client'', ''caller_workload'', ''this_workload'', ''security'']"
  shows "extract_extensions fmt uni e bag k = when_some (subject_of e) (extract_subject fmt) bag k"
proof (cases "ex_security e")
  case None
  then show ?thesis by (simp add: extract_extensions_identity assms(1) subject_of_def when_some_def)
next
  case (Some s)
  have ns: "\<not> below ''client'' k" "\<not> below ''caller_workload'' k" "\<not> below ''this_workload'' k" "\<not> below ''security'' k"
    using assms(3) by simp_all
  have "below ''security'' ''security.labels''" "below ''security'' ''security.classification''"
    by (simp_all add: below_def)
  with ns(4) have "k \<noteq> ''security.labels''" "k \<noteq> ''security.classification''" by blast+
  moreover have "when_some (sc_client s) (extract_client fmt) b k = b k"
    "when_some (sc_caller_workload s) (extract_workload ''caller_workload'') b k = b k"
    "when_some (sc_this_workload s) (extract_workload ''this_workload'') b k = b k" for b
    by (rule when_some_frame, simp add: client.frame workload.frame ns)+
  ultimately have "extract_security fmt s bag k = when_some (sc_subject s) (extract_subject fmt) bag k"
    by (simp add: extract_security_def writes_simps put_other assms(2))
  with Some show ?thesis
    by (simp add: extract_extensions_identity assms(1) subject_of_def when_some_def [of "Some s"])
qed

lemma subject_of_filter:
  "subject_of (filter_extensions e caps) =
     (if has_any_subject_capability caps then map_option (\<lambda>s. build_filtered_subject s caps) (subject_of e) else None)"
  by (cases "ex_security e")
     (auto simp: subject_of_def filter_extensions_def extensions_default_def build_filtered_security_def split: option.split)

text \<open>The identity keys of the bag built from a filtered view.\<close>

lemma identity_keys:
  fixes fmt uni e caps
  defines "bag \<equiv> extract_extensions fmt uni (filter_extensions e caps) bag_new"
  shows "bag (''role.'' @ x) =
       (if ''read_roles'' |\<in>| caps \<and> (\<exists>s. subject_of e = Some s \<and> x |\<in>| sj_roles s) then Some (ABool True) else None)"
    and "bag (''perm.'' @ x) =
       (if ''read_permissions'' |\<in>| caps \<and> (\<exists>s. subject_of e = Some s \<and> x |\<in>| sj_permissions s) then Some (ABool True) else None)"
    and "bag (''team.'' @ x) =
       (if ''read_teams'' |\<in>| caps \<and> (\<exists>s. subject_of e = Some s \<and> x |\<in>| sj_teams s) then Some (ABool True) else None)"
    and "bag ''authenticated'' =
       (if has_any_subject_capability caps \<and> (\<exists>s. subject_of e = Some s \<and> sj_id s \<noteq> None) then Some (ABool True) else None)"
proof -
  let ?sub = "subject_of (filter_extensions e caps)"
  have sub: "?sub = None \<longleftrightarrow> \<not> has_any_subject_capability caps \<or> subject_of e = None"
    "?sub = Some s \<Longrightarrow> \<exists>s'. subject_of e = Some s' \<and> s = build_filtered_subject s' caps \<and> has_any_subject_capability caps" for s
    by (auto simp: subject_of_filter split: if_splits)
  have bag: "bag k = when_some ?sub (extract_subject fmt) bag_new k"
    if "k \<in> {''role.'' @ x, ''perm.'' @ x, ''team.'' @ x, ''authenticated''}" for k
    using that unfolding bag_def by (intro extract_extensions_subject) (auto simp: other_ns_def below_def)
  note keys = bag when_some_def bag_new_def subject_keys build_filtered_subject_def
  note any = has_any_subject_capability_iff
  show "bag (''role.'' @ x) = (if ''read_roles'' |\<in>| caps \<and> (\<exists>s. subject_of e = Some s \<and> x |\<in>| sj_roles s)
      then Some (ABool True) else None)"
    by (cases ?sub) (use sub in \<open>auto simp del: append_Cons simp: keys any split: if_splits\<close>)
  show "bag (''perm.'' @ x) = (if ''read_permissions'' |\<in>| caps \<and> (\<exists>s. subject_of e = Some s \<and> x |\<in>| sj_permissions s)
      then Some (ABool True) else None)"
    by (cases ?sub) (use sub in \<open>auto simp del: append_Cons simp: keys any split: if_splits\<close>)
  show "bag (''team.'' @ x) = (if ''read_teams'' |\<in>| caps \<and> (\<exists>s. subject_of e = Some s \<and> x |\<in>| sj_teams s)
      then Some (ABool True) else None)"
    by (cases ?sub) (use sub in \<open>auto simp del: append_Cons simp: keys any split: if_splits\<close>)
  show "bag ''authenticated'' = (if has_any_subject_capability caps \<and> (\<exists>s. subject_of e = Some s \<and> sj_id s \<noteq> None)
      then Some (ABool True) else None)"
    by (cases ?sub) (use sub in \<open>auto simp: keys\<close>)
qed

subsection \<open>The documented namespaces\<close>

definition unlocks :: "string fset \<Rightarrow> string \<Rightarrow> bool" where
  "unlocks prefixes k \<longleftrightarrow>
     (\<exists>p. p |\<in>| prefixes \<and> (if p \<noteq> [] \<and> last p = CHR ''.'' then starts_with k p else k = p))"

text \<open>
  The table does not list every key a capability opens: a team becomes a key below \<^verbatim>\<open>team.\<close>, which no
  entry covers.
\<close>

lemma table_misses_teams:
  "\<not> unlocks (unlocked_bag_prefixes known_read_capabilities) (''team.'' @ x)"
  by (auto simp: unlocks_def unlocked_bag_prefixes_def known_read_capabilities_def capability_table_def
      capability_namespaces_def fset_of_list_elem split: if_splits)

lemma table_misses_this_workload:
  "\<not> unlocks (unlocked_bag_prefixes known_read_capabilities) (''this_workload.'' @ x)"
  by (auto simp: unlocks_def unlocked_bag_prefixes_def known_read_capabilities_def capability_table_def
      capability_namespaces_def fset_of_list_elem split: if_splits)

end
