(* ===== verification/Plugin_Core.thy ===== *)
theory Plugin_Core
  imports Bag_Builder
begin

text \<open>
  The plugin framework's own data: \<^verbatim>\<open>crates/ppe-core/src/plugin.rs\<close> (configuration, modes, conditions),
  \<^verbatim>\<open>error.rs\<close> (failures, violations, error records) and \<^verbatim>\<open>context.rs\<close> (per-plugin state).
\<close>

subsection \<open>Failures and violations\<close>

record plugin_violation =
  vi_code :: string
  vi_reason :: string
  vi_description :: "string option"
  vi_details :: "string \<rightharpoonup> json"
  vi_plugin_name :: "string option"
  vi_proto_error_code :: "int option"

definition violation_new :: "string \<Rightarrow> string \<Rightarrow> plugin_violation" where
  "violation_new code reason = \<lparr>vi_code = code, vi_reason = reason, vi_description = None, vi_details = Map.empty,
     vi_plugin_name = None, vi_proto_error_code = None\<rparr>"

definition with_description :: "string \<Rightarrow> plugin_violation \<Rightarrow> plugin_violation" where
  "with_description d v = v\<lparr>vi_description := Some d\<rparr>"

definition with_details :: "(string \<rightharpoonup> json) \<Rightarrow> plugin_violation \<Rightarrow> plugin_violation" where
  "with_details d v = v\<lparr>vi_details := d\<rparr>"

definition with_proto_error_code :: "int \<Rightarrow> plugin_violation \<Rightarrow> plugin_violation" where
  "with_proto_error_code c v = v\<lparr>vi_proto_error_code := Some c\<rparr>"

definition violation_text :: "plugin_violation \<Rightarrow> string" where
  "violation_text v = ''['' @ vi_code v @ ''] '' @ vi_reason v"

text \<open>\<^verbatim>\<open>PluginError\<close>.  The \<^verbatim>\<open>source\<close> of an execution error is an opaque error value; its text stands for it.\<close>

datatype plugin_failure =
    PF_Execution string string "string option" "string option" "string \<rightharpoonup> json" "int option"
  | PF_Timeout string nat "int option"
  | PF_Violation string plugin_violation
  | PF_Config string
  | PF_UnknownHook string

fun failure_text :: "plugin_failure \<Rightarrow> string" where
  "failure_text (PF_Execution name msg src code details proto) = ''plugin '' @ [CHR 0x27] @ name @ [CHR 0x27] @ '' failed: '' @ msg"
| "failure_text (PF_Timeout name ms proto) =
     ''plugin '' @ [CHR 0x27] @ name @ [CHR 0x27] @ '' timed out after '' @ nat_to_string ms @ ''ms''"
| "failure_text (PF_Violation name v) = ''plugin '' @ [CHR 0x27] @ name @ [CHR 0x27] @ '' denied: '' @ vi_reason v"
| "failure_text (PF_Config msg) = ''configuration error: '' @ msg"
| "failure_text (PF_UnknownHook h) = ''unknown hook type: '' @ h"

record plugin_error_record =
  er_plugin_name :: string
  er_message :: string
  er_code :: "string option"
  er_details :: "string \<rightharpoonup> json"
  er_proto_error_code :: "int option"

fun error_record :: "plugin_failure \<Rightarrow> plugin_error_record" where
  "error_record (PF_Execution name msg src code details proto) =
     \<lparr>er_plugin_name = name, er_message = msg, er_code = code, er_details = details, er_proto_error_code = proto\<rparr>"
| "error_record (PF_Timeout name ms proto) =
     \<lparr>er_plugin_name = name, er_message = ''plugin timed out after '' @ nat_to_string ms @ ''ms'',
      er_code = Some ''timeout'', er_details = Map.empty, er_proto_error_code = proto\<rparr>"
| "error_record (PF_Violation name v) =
     \<lparr>er_plugin_name = name, er_message = ''plugin denied: '' @ vi_reason v, er_code = Some (vi_code v),
      er_details = vi_details v, er_proto_error_code = vi_proto_error_code v\<rparr>"
| "error_record (PF_Config msg) =
     \<lparr>er_plugin_name = '''', er_message = msg, er_code = Some ''config'', er_details = Map.empty,
      er_proto_error_code = None\<rparr>"
| "error_record (PF_UnknownHook h) =
     \<lparr>er_plugin_name = '''', er_message = ''unknown hook type: '' @ h, er_code = Some ''unknown_hook'',
      er_details = Map.empty, er_proto_error_code = None\<rparr>"

subsection \<open>Contexts\<close>

type_synonym state_map = "string \<rightharpoonup> json"
type_synonym uuid = nat

record plugin_context =
  pc_local_state :: state_map
  pc_global_state :: state_map

definition context_new :: plugin_context where
  "context_new = \<lparr>pc_local_state = Map.empty, pc_global_state = Map.empty\<rparr>"

definition with_global_state :: "state_map \<Rightarrow> plugin_context" where
  "with_global_state g = \<lparr>pc_local_state = Map.empty, pc_global_state = g\<rparr>"

definition get_local :: "plugin_context \<Rightarrow> string \<Rightarrow> json option" where
  "get_local c k = pc_local_state c k"

definition set_local :: "plugin_context \<Rightarrow> string \<Rightarrow> json \<Rightarrow> plugin_context" where
  "set_local c k v = c\<lparr>pc_local_state := (pc_local_state c)(k \<mapsto> v)\<rparr>"

definition get_global :: "plugin_context \<Rightarrow> string \<Rightarrow> json option" where
  "get_global c k = pc_global_state c k"

definition set_global :: "plugin_context \<Rightarrow> string \<Rightarrow> json \<Rightarrow> plugin_context" where
  "set_global c k v = c\<lparr>pc_global_state := (pc_global_state c)(k \<mapsto> v)\<rparr>"

record plugin_context_table =
  ct_global_state :: state_map
  ct_local_states :: "uuid \<rightharpoonup> state_map"

definition table_new :: plugin_context_table where
  "table_new = \<lparr>ct_global_state = Map.empty, ct_local_states = Map.empty\<rparr>"

definition take_context :: "plugin_context_table \<Rightarrow> uuid \<Rightarrow> plugin_context \<times> plugin_context_table" where
  "take_context t pid =
     (\<lparr>pc_local_state = unwrap_or (ct_local_states t pid) Map.empty, pc_global_state = ct_global_state t\<rparr>,
      t\<lparr>ct_local_states := (ct_local_states t)(pid := None)\<rparr>)"

definition snapshot_context :: "plugin_context_table \<Rightarrow> uuid \<Rightarrow> plugin_context" where
  "snapshot_context t pid =
     \<lparr>pc_local_state = unwrap_or (ct_local_states t pid) Map.empty, pc_global_state = ct_global_state t\<rparr>"

definition store_context :: "plugin_context_table \<Rightarrow> uuid \<Rightarrow> plugin_context \<Rightarrow> plugin_context_table" where
  "store_context t pid c =
     \<lparr>ct_global_state = pc_global_state c, ct_local_states = (ct_local_states t)(pid \<mapsto> pc_local_state c)\<rparr>"

text \<open>A plugin finds its local state again, other plugins' local state is left alone, and the global state is shared.\<close>

lemma context_laws:
  "snapshot_context (store_context t pid c) pid = c"
  "pid' \<noteq> pid \<Longrightarrow> ct_local_states (store_context t pid c) pid' = ct_local_states t pid'"
  "fst (take_context t pid) = snapshot_context t pid"
  "take_context t pid = (c, t') \<Longrightarrow> snapshot_context (store_context t' pid c) pid' = snapshot_context t pid'"
  by (auto simp: snapshot_context_def store_context_def take_context_def)

subsection \<open>Configuration\<close>

datatype plugin_mode = M_Sequential | M_Transform | M_Audit | M_Concurrent | M_FireAndForget | M_Disabled
datatype on_error = OE_Fail | OE_Ignore | OE_Disable

definition can_block :: "plugin_mode \<Rightarrow> bool" where
  "can_block m \<longleftrightarrow> m \<in> {M_Sequential, M_Concurrent}"

definition can_modify :: "plugin_mode \<Rightarrow> bool" where
  "can_modify m \<longleftrightarrow> m \<in> {M_Sequential, M_Transform}"

definition is_awaited :: "plugin_mode \<Rightarrow> bool" where
  "is_awaited m \<longleftrightarrow> m \<notin> {M_FireAndForget, M_Disabled}"

fun mode_text :: "plugin_mode \<Rightarrow> string" where
  "mode_text M_Sequential = ''sequential''"
| "mode_text M_Transform = ''transform''"
| "mode_text M_Audit = ''audit''"
| "mode_text M_Concurrent = ''concurrent''"
| "mode_text M_FireAndForget = ''fire_and_forget''"
| "mode_text M_Disabled = ''disabled''"

fun on_error_text :: "on_error \<Rightarrow> string" where
  "on_error_text OE_Fail = ''fail''"
| "on_error_text OE_Ignore = ''ignore''"
| "on_error_text OE_Disable = ''disable''"

record plugin_condition =
  cd_server_ids :: "string fset option"
  cd_tenant_ids :: "string fset option"
  cd_tools :: "string fset option"
  cd_prompts :: "string fset option"
  cd_resources :: "string fset option"
  cd_agents :: "string fset option"
  cd_user_patterns :: "string list option"
  cd_content_types :: "string list option"

record match_context =
  mx_server_id :: "string option"
  mx_tenant_id :: "string option"
  mx_tool :: "string option"
  mx_prompt :: "string option"
  mx_resource :: "string option"
  mx_agent :: "string option"
  mx_user :: "string option"
  mx_content_type :: "string option"

record plugin_config =
  cf_name :: string
  cf_kind :: string
  cf_description :: "string option"
  cf_author :: "string option"
  cf_version :: "string option"
  cf_hooks :: "string list"
  cf_mode :: plugin_mode
  cf_priority :: int
  cf_on_error :: on_error
  cf_capabilities :: "string fset"
  cf_tags :: "string list"
  cf_conditions :: "plugin_condition list"
  cf_config :: "json option"

definition check_set :: "string fset option \<Rightarrow> string option \<Rightarrow> bool" where
  "check_set field v =
     (case field of None \<Rightarrow> True | Some s \<Rightarrow> (case v of Some x \<Rightarrow> x |\<in>| s | None \<Rightarrow> False))"

text \<open>The \<^verbatim>\<open>wildmatch\<close> crate decides whether a pattern matches a user: \<open>wild\<close>.\<close>

definition check_patterns :: "(string \<Rightarrow> string \<Rightarrow> bool) \<Rightarrow> string list option \<Rightarrow> string option \<Rightarrow> bool" where
  "check_patterns wild field v =
     (case field of None \<Rightarrow> True
      | Some patterns \<Rightarrow> (case v of Some x \<Rightarrow> list_ex (\<lambda>p. wild p x) patterns | None \<Rightarrow> False))"

definition check_list :: "string list option \<Rightarrow> string option \<Rightarrow> bool" where
  "check_list field v =
     (case field of None \<Rightarrow> True | Some xs \<Rightarrow> (case v of Some x \<Rightarrow> x \<in> set xs | None \<Rightarrow> False))"

definition condition_matches :: "(string \<Rightarrow> string \<Rightarrow> bool) \<Rightarrow> plugin_condition \<Rightarrow> match_context \<Rightarrow> bool" where
  "condition_matches wild c ctx \<longleftrightarrow>
     check_set (cd_server_ids c) (mx_server_id ctx)
   \<and> check_set (cd_tenant_ids c) (mx_tenant_id ctx)
   \<and> check_set (cd_tools c) (mx_tool ctx)
   \<and> check_set (cd_prompts c) (mx_prompt ctx)
   \<and> check_set (cd_resources c) (mx_resource ctx)
   \<and> check_set (cd_agents c) (mx_agent ctx)
   \<and> check_patterns wild (cd_user_patterns c) (mx_user ctx)
   \<and> check_list (cd_content_types c) (mx_content_type ctx)"

definition claim_str :: "(f64 \<Rightarrow> string) \<Rightarrow> subject_extension \<Rightarrow> string \<Rightarrow> string option" where
  "claim_str fmt s name =
     (case map_of (sj_claims s) name of
        None \<Rightarrow> None
      | Some (JStr t) \<Rightarrow> Some t
      | Some (JInt i) \<Rightarrow> Some (num_to_string fmt (JInt i))
      | Some (JFloat f) \<Rightarrow> Some (num_to_string fmt (JFloat f))
      | Some (JBool b) \<Rightarrow> Some (bool_to_string b)
      | Some _ \<Rightarrow> None)"

definition match_context_of :: "(f64 \<Rightarrow> string) \<Rightarrow> extensions \<Rightarrow> match_context" where
  "match_context_of fmt ext =
     (let mcp = map_option snd (ex_mcp ext);
          subject = Option.bind (ex_security ext) sc_subject;
          server_id = Option.bind mcp (\<lambda>m.
            or_else (Option.bind (mc_tool m) tm_server_id)
              (or_else (Option.bind (mc_resource m) rm_server_id) (Option.bind (mc_prompt m) pm_server_id)));
          meta = map_option snd (ex_meta ext);
          entity_name = Option.bind meta me_entity_name;
          entity_type = Option.bind meta me_entity_type
      in \<lparr>mx_server_id = server_id,
          mx_tenant_id = Option.bind subject (\<lambda>s. claim_str fmt s ''tenant''),
          mx_tool = (if entity_type = Some ''tool'' then entity_name else None),
          mx_prompt = (if entity_type = Some ''prompt'' then entity_name else None),
          mx_resource = (if entity_type = Some ''resource'' then entity_name else None),
          mx_agent = Option.bind (map_option snd (ex_agent ext)) ag_agent_id,
          mx_user = Option.bind subject sj_id,
          mx_content_type = Option.bind (Option.bind mcp mc_resource) rm_mime_type\<rparr>)"

definition passes_conditions ::
    "(f64 \<Rightarrow> string) \<Rightarrow> (string \<Rightarrow> string \<Rightarrow> bool) \<Rightarrow> plugin_config \<Rightarrow> extensions \<Rightarrow> bool" where
  "passes_conditions fmt wild config ext =
     (if cf_conditions config = [] then True
      else list_ex (\<lambda>c. condition_matches wild c (match_context_of fmt ext)) (cf_conditions config))"

end
