(* ===== verification/Plugin_Registry.thy ===== *)
theory Plugin_Registry
  imports Plugin_Core
begin

text \<open>
  \<^verbatim>\<open>crates/ppe-core/src/registry.rs\<close>: which handlers run for which hook.  A \<^verbatim>\<open>PluginRef\<close> pairs a plugin with
  the configuration the host loaded for it and a fresh id; whether it has been taken out of rotation is a
  shared flag, kept here as the set of the ids whose flag is up.  What a handler does is its function: from
  the payload, the view of the extensions and the context to the time it takes, how it ends, and the
  context and the world it leaves.
\<close>

record 'p erased_result =
  rf_continue_processing :: bool
  rf_modified_payload :: "'p option"
  rf_modified_extensions :: "owned_extensions option"
  rf_violation :: "plugin_violation option"

text \<open>A handler's value may fail the downcast (\<^verbatim>\<open>extract_erased\<close> gives nothing), be an error, or be a panic.\<close>

datatype 'p handler_end = H_Ok "'p erased_result option" | H_Err plugin_failure | H_Panic string

text \<open>A type-erased handler (\<^verbatim>\<open>dyn AnyHookHandler\<close>): what it does, and the name of the hook type it was written for.\<close>

record ('p, 'w) hook_handler =
  hh_invoke :: "'w \<Rightarrow> 'p \<Rightarrow> extensions \<Rightarrow> plugin_context \<Rightarrow> nat \<times> 'p handler_end \<times> plugin_context \<times> 'w"
  hh_hook_type_name :: string

record plugin_ref =
  pr_trusted_config :: plugin_config
  pr_id :: uuid

record ('p, 'w) hook_entry =
  he_plugin_ref :: plugin_ref
  he_handler :: "('p, 'w) hook_handler"

abbreviation entry_run ::
    "('p, 'w) hook_entry \<Rightarrow> 'w \<Rightarrow> 'p \<Rightarrow> extensions \<Rightarrow> plugin_context \<Rightarrow> nat \<times> 'p handler_end \<times> plugin_context \<times> 'w" where
  "entry_run e \<equiv> hh_invoke (he_handler e)"

abbreviation entry_name :: "('p, 'w) hook_entry \<Rightarrow> string" where
  "entry_name e \<equiv> cf_name (pr_trusted_config (he_plugin_ref e))"

abbreviation entry_id :: "('p, 'w) hook_entry \<Rightarrow> uuid" where
  "entry_id e \<equiv> pr_id (he_plugin_ref e)"

abbreviation entry_priority :: "('p, 'w) hook_entry \<Rightarrow> int" where
  "entry_priority e \<equiv> cf_priority (pr_trusted_config (he_plugin_ref e))"

abbreviation entry_on_error :: "('p, 'w) hook_entry \<Rightarrow> on_error" where
  "entry_on_error e \<equiv> cf_on_error (pr_trusted_config (he_plugin_ref e))"

abbreviation entry_caps :: "('p, 'w) hook_entry \<Rightarrow> string fset" where
  "entry_caps e \<equiv> cf_capabilities (pr_trusted_config (he_plugin_ref e))"

definition ref_mode :: "uuid set \<Rightarrow> plugin_ref \<Rightarrow> plugin_mode" where
  "ref_mode disabled r = (if pr_id r \<in> disabled then M_Disabled else cf_mode (pr_trusted_config r))"

record ('p, 'w) plugin_registry =
  rg_plugins :: "string \<rightharpoonup> plugin_ref"
  rg_hook_index :: "string \<rightharpoonup> ('p, 'w) hook_entry list"

definition registry_new :: "('p, 'w) plugin_registry" where
  "registry_new = \<lparr>rg_plugins = Map.empty, rg_hook_index = Map.empty\<rparr>"

subsection \<open>Registration\<close>

definition push_entry ::
    "string \<Rightarrow> ('p, 'w) hook_entry \<Rightarrow> (string \<rightharpoonup> ('p, 'w) hook_entry list) \<Rightarrow> (string \<rightharpoonup> ('p, 'w) hook_entry list)" where
  "push_entry hook e idx = idx(hook \<mapsto> unwrap_or (idx hook) [] @ [e])"

definition sort_hook ::
    "string \<Rightarrow> (string \<rightharpoonup> ('p, 'w) hook_entry list) \<Rightarrow> (string \<rightharpoonup> ('p, 'w) hook_entry list)" where
  "sort_hook hook idx = (case idx hook of None \<Rightarrow> idx | Some es \<Rightarrow> idx(hook \<mapsto> sort_key entry_priority es))"

definition register_multi_handler ::
    "uuid \<Rightarrow> plugin_config \<Rightarrow> (string \<times> ('p, 'w) hook_handler) list \<Rightarrow> ('p, 'w) plugin_registry
     \<Rightarrow> string + ('p, 'w) plugin_registry" where
  "register_multi_handler fresh config handlers reg =
     (if rg_plugins reg (cf_name config) \<noteq> None
      then Inl (''plugin '' @ [CHR 0x27] @ cf_name config @ [CHR 0x27] @ '' is already registered'')
      else
        let r = \<lparr>pr_trusted_config = config, pr_id = fresh\<rparr>;
            pushed = fold (\<lambda>(hook, h). push_entry hook \<lparr>he_plugin_ref = r, he_handler = h\<rparr>) handlers (rg_hook_index reg);
            sorted = fold (\<lambda>(hook, h). sort_hook hook) handlers pushed
        in Inr \<lparr>rg_plugins = (rg_plugins reg)(cf_name config \<mapsto> r), rg_hook_index = sorted\<rparr>)"

definition register_for_names_inner ::
    "uuid \<Rightarrow> plugin_config \<Rightarrow> ('p, 'w) hook_handler \<Rightarrow> string list \<Rightarrow> ('p, 'w) plugin_registry
     \<Rightarrow> string + ('p, 'w) plugin_registry" where
  "register_for_names_inner fresh config handler names reg =
     (if rg_plugins reg (cf_name config) \<noteq> None
      then Inl (''plugin '' @ [CHR 0x27] @ cf_name config @ [CHR 0x27] @ '' is already registered'')
      else
        let r = \<lparr>pr_trusted_config = config, pr_id = fresh\<rparr>;
            pushed = fold (\<lambda>hook. push_entry hook \<lparr>he_plugin_ref = r, he_handler = handler\<rparr>) names (rg_hook_index reg);
            sorted = fold sort_hook names pushed
        in Inr \<lparr>rg_plugins = (rg_plugins reg)(cf_name config \<mapsto> r), rg_hook_index = sorted\<rparr>)"

definition unregister ::
    "string \<Rightarrow> ('p, 'w) plugin_registry \<Rightarrow> plugin_ref option \<times> ('p, 'w) plugin_registry" where
  "unregister name reg =
     (case rg_plugins reg name of
        None \<Rightarrow> (None, reg)
      | Some r \<Rightarrow>
          (Some r,
           \<lparr>rg_plugins = (rg_plugins reg)(name := None),
            rg_hook_index = (\<lambda>hook.
              case rg_hook_index reg hook of
                None \<Rightarrow> None
              | Some es \<Rightarrow>
                  let kept = filter (\<lambda>e. entry_name e \<noteq> name) es in if kept = [] then None else Some kept)\<rparr>))"

subsection \<open>Lookup\<close>

definition registry_get :: "('p, 'w) plugin_registry \<Rightarrow> string \<Rightarrow> plugin_ref option" where
  "registry_get reg name = rg_plugins reg name"

definition entries_for_hook :: "('p, 'w) plugin_registry \<Rightarrow> string \<Rightarrow> ('p, 'w) hook_entry list" where
  "entries_for_hook reg hook = unwrap_or (rg_hook_index reg hook) []"

definition has_hooks_for :: "('p, 'w) plugin_registry \<Rightarrow> string \<Rightarrow> bool" where
  "has_hooks_for reg hook = (case rg_hook_index reg hook of None \<Rightarrow> False | Some es \<Rightarrow> es \<noteq> [])"

type_synonym ('p, 'w) grouped_entries =
  "('p, 'w) hook_entry list \<times> ('p, 'w) hook_entry list \<times> ('p, 'w) hook_entry list
   \<times> ('p, 'w) hook_entry list \<times> ('p, 'w) hook_entry list"

fun group_by_mode :: "uuid set \<Rightarrow> ('p, 'w) hook_entry list \<Rightarrow> ('p, 'w) grouped_entries" where
  "group_by_mode disabled [] = ([], [], [], [], [])"
| "group_by_mode disabled (e # es) =
     (case group_by_mode disabled es of
        (sequential, transform, audit, concurrent, fire_and_forget) \<Rightarrow>
          (case ref_mode disabled (he_plugin_ref e) of
             M_Sequential \<Rightarrow> (e # sequential, transform, audit, concurrent, fire_and_forget)
           | M_Transform \<Rightarrow> (sequential, e # transform, audit, concurrent, fire_and_forget)
           | M_Audit \<Rightarrow> (sequential, transform, e # audit, concurrent, fire_and_forget)
           | M_Concurrent \<Rightarrow> (sequential, transform, audit, e # concurrent, fire_and_forget)
           | M_FireAndForget \<Rightarrow> (sequential, transform, audit, concurrent, e # fire_and_forget)
           | M_Disabled \<Rightarrow> (sequential, transform, audit, concurrent, fire_and_forget)))"

definition in_mode :: "uuid set \<Rightarrow> plugin_mode \<Rightarrow> ('p, 'w) hook_entry list \<Rightarrow> ('p, 'w) hook_entry list" where
  "in_mode disabled m es = filter (\<lambda>e. ref_mode disabled (he_plugin_ref e) = m) es"

lemma group_by_mode_eq:
  "group_by_mode disabled es =
     (in_mode disabled M_Sequential es, in_mode disabled M_Transform es, in_mode disabled M_Audit es,
      in_mode disabled M_Concurrent es, in_mode disabled M_FireAndForget es)"
  by (induction es) (auto simp: in_mode_def split: plugin_mode.split)

subsection \<open>The registry's invariant\<close>

text \<open>
  Every hook's list is sorted by the trusted priority and not empty, every entry belongs to the plugin
  registered under its name, and the plugin map is keyed by the configured names.
\<close>

definition registry_wf :: "('p, 'w) plugin_registry \<Rightarrow> bool" where
  "registry_wf reg \<longleftrightarrow>
     (\<forall>name r. rg_plugins reg name = Some r \<longrightarrow> cf_name (pr_trusted_config r) = name)
   \<and> (\<forall>hook es. rg_hook_index reg hook = Some es \<longrightarrow>
        es \<noteq> [] \<and> sorted (map entry_priority es) \<and> (\<forall>e \<in> set es. rg_plugins reg (entry_name e) = Some (he_plugin_ref e)))"

lemma registry_new_wf: "registry_wf registry_new"
  by (simp add: registry_wf_def registry_new_def)

text \<open>Pushing the entries of one plugin, and sorting the lists they went to.\<close>

lemma push_all:
  "fold (\<lambda>(hook, h). push_entry hook (mk h)) hs idx hook =
     (if hook \<in> fst ` set hs \<or> idx hook \<noteq> None
      then Some (unwrap_or (idx hook) [] @ map (mk \<circ> snd) (filter (\<lambda>p. fst p = hook) hs)) else None)"
proof (induction hs arbitrary: idx)
  case Nil
  then show ?case by (cases "idx hook") auto
next
  case (Cons p hs)
  then show ?case by (cases p) (auto simp: push_entry_def)
qed

lemma sort_all:
  "fold (\<lambda>(hook, h). sort_hook hook) hs idx hook =
     (if hook \<in> fst ` set hs then map_option (sort_key entry_priority) (idx hook) else idx hook)"
proof (induction hs arbitrary: idx)
  case (Cons p hs)
  then show ?case
    by (cases p) (auto simp: sort_hook_def option.map_comp o_def sort_key_id_if_sorted split: option.splits)
qed simp

lemma names_as_handlers:
  "fold (\<lambda>hook. push_entry hook (mk h)) names idx = fold (\<lambda>(hook, h). push_entry hook (mk h)) (map (\<lambda>n. (n, h)) names) idx"
  "fold sort_hook names idx = fold (\<lambda>(hook, h). sort_hook hook) (map (\<lambda>n. (n, h)) names) idx"
  by (induction names arbitrary: idx) auto

text \<open>Registering under several names is registering one handler several times.\<close>

lemma register_for_names_multi:
  "register_for_names_inner fresh config h names reg =
   register_multi_handler fresh config (map (\<lambda>n. (n, h)) names) reg"
proof -
  have push: "fold (\<lambda>hook. push_entry hook \<lparr>he_plugin_ref = r, he_handler = h\<rparr>) names idx =
      fold (\<lambda>(hook, h). push_entry hook \<lparr>he_plugin_ref = r, he_handler = h\<rparr>) (map (\<lambda>n. (n, h)) names) idx" for r idx
    by (rule names_as_handlers(1))
  show ?thesis
    unfolding register_for_names_inner_def register_multi_handler_def push names_as_handlers(2) [of names _ h] by (rule refl)
qed

definition handler_entry :: "uuid \<Rightarrow> plugin_config \<Rightarrow> ('p, 'w) hook_handler \<Rightarrow> ('p, 'w) hook_entry" where
  "handler_entry fresh config h = \<lparr>he_plugin_ref = \<lparr>pr_trusted_config = config, pr_id = fresh\<rparr>, he_handler = h\<rparr>"

lemma register_index:
  assumes "register_multi_handler fresh config hs reg = Inr reg'"
  shows "rg_plugins reg (cf_name config) = None"
    and "rg_plugins reg' = (rg_plugins reg)(cf_name config \<mapsto> \<lparr>pr_trusted_config = config, pr_id = fresh\<rparr>)"
    and "rg_hook_index reg' hook =
      (if hook \<in> fst ` set hs
       then Some (sort_key entry_priority (entries_for_hook reg hook
              @ map (handler_entry fresh config \<circ> snd) (filter (\<lambda>p. fst p = hook) hs)))
       else rg_hook_index reg hook)"
proof -
  let ?r = "\<lparr>pr_trusted_config = config, pr_id = fresh\<rparr>"
  from assms show "rg_plugins reg (cf_name config) = None"
    and "rg_plugins reg' = (rg_plugins reg)(cf_name config \<mapsto> ?r)"
    by (auto simp: register_multi_handler_def Let_def split: if_splits)
  from assms have "rg_hook_index reg' = fold (\<lambda>(hook, h). sort_hook hook) hs
      (fold (\<lambda>(hook, h). push_entry hook (handler_entry fresh config h)) hs (rg_hook_index reg))"
    by (auto simp: register_multi_handler_def Let_def handler_entry_def split: if_splits)
  then show "rg_hook_index reg' hook =
      (if hook \<in> fst ` set hs
       then Some (sort_key entry_priority (entries_for_hook reg hook
              @ map (handler_entry fresh config \<circ> snd) (filter (\<lambda>p. fst p = hook) hs)))
       else rg_hook_index reg hook)"
    by (cases "hook \<in> fst ` set hs"; cases "rg_hook_index reg hook")
       (simp_all add: push_all sort_all entries_for_hook_def, (force simp: filter_empty_conv)+)
qed

lemma register_wf:
  assumes "registry_wf reg" "register_multi_handler fresh config hs reg = Inr reg'"
  shows "registry_wf reg'"
proof -
  note idx = register_index [OF assms(2)]
  have old: "rg_plugins reg' (entry_name e) = Some (he_plugin_ref e)"
    if "rg_hook_index reg hook = Some es" "e \<in> set es" for hook es e
  proof -
    have "rg_plugins reg (entry_name e) = Some (he_plugin_ref e)" using assms(1) that unfolding registry_wf_def by blast
    with idx(1,2) show ?thesis by auto
  qed
  have new: "rg_plugins reg' (entry_name (handler_entry fresh config h)) = Some (he_plugin_ref (handler_entry fresh config h))" for h
    by (simp add: handler_entry_def idx(2))
  have "es \<noteq> [] \<and> sorted (map entry_priority es) \<and> (\<forall>e \<in> set es. rg_plugins reg' (entry_name e) = Some (he_plugin_ref e))"
    if "rg_hook_index reg' hook = Some es" for hook es
  proof (cases "hook \<in> fst ` set hs")
    case True
    let ?new = "map (handler_entry fresh config \<circ> snd) (filter (\<lambda>p. fst p = hook) hs)"
    from True that idx(3) [of hook] have es: "es = sort_key entry_priority (entries_for_hook reg hook @ ?new)" by simp
    from True have "?new \<noteq> []" by (auto simp: filter_empty_conv)
    then have "set (entries_for_hook reg hook @ ?new) \<noteq> {}" by (metis append_is_Nil_conv set_empty)
    then have "es \<noteq> []" unfolding es by (metis set_empty set_sort)
    moreover have "sorted (map entry_priority es)" unfolding es by (rule sorted_sort_key)
    moreover have "rg_plugins reg' (entry_name e) = Some (he_plugin_ref e)" if "e \<in> set es" for e
    proof -
      from that have "e \<in> set (entries_for_hook reg hook) \<or> (\<exists>h. e = handler_entry fresh config h)"
        unfolding es by auto
      then show ?thesis using old [of hook _ e] new by (cases "rg_hook_index reg hook") (auto simp: entries_for_hook_def)
    qed
    ultimately show ?thesis by blast
  next
    case False
    with that idx(3) have "rg_hook_index reg hook = Some es" by simp
    with assms(1) old show ?thesis by (auto simp: registry_wf_def)
  qed
  moreover have "cf_name (pr_trusted_config r) = name" if "rg_plugins reg' name = Some r" for name r
    using that assms(1) by (auto simp: idx(2) registry_wf_def split: if_splits)
  ultimately show ?thesis by (simp add: registry_wf_def)
qed

lemma sorted_map_filter_priority: "sorted (map f es) \<Longrightarrow> sorted (map f (filter P es))"
  by (rule sorted_filter)

lemma unregister_wf:
  assumes "registry_wf reg" "unregister name reg = (r, reg')"
  shows "registry_wf reg'"
    and "\<forall>hook. \<forall>e \<in> set (entries_for_hook reg' hook). entry_name e \<noteq> name"
proof -
  show "registry_wf reg'"
    using assms by (auto simp: unregister_def registry_wf_def Let_def sorted_map_filter_priority split: option.splits if_splits)
  show "\<forall>hook. \<forall>e \<in> set (entries_for_hook reg' hook). entry_name e \<noteq> name"
  proof (cases "rg_plugins reg name")
    case None
    have "rg_plugins reg (entry_name e) \<noteq> None" if "e \<in> set (entries_for_hook reg hook)" for hook e
      using assms(1) that by (cases "rg_hook_index reg hook") (auto simp: registry_wf_def entries_for_hook_def)
    moreover from None assms(2) have "reg' = reg" by (simp add: unregister_def)
    ultimately show ?thesis using None by metis
  next
    case (Some r0)
    with assms(2) show ?thesis
      by (auto simp: unregister_def entries_for_hook_def Let_def split: option.splits if_splits)
  qed
qed

subsection \<open>Histories\<close>

text \<open>The registries a host can build: every sequence of successful registrations and of removals.\<close>

inductive registry_reachable :: "('p, 'w) plugin_registry \<Rightarrow> bool" where
  new: "registry_reachable registry_new"
| register: "registry_reachable reg \<Longrightarrow> register_multi_handler fresh config hs reg = Inr reg' \<Longrightarrow> registry_reachable reg'"
| register_names: "registry_reachable reg \<Longrightarrow> register_for_names_inner fresh config h names reg = Inr reg'
    \<Longrightarrow> registry_reachable reg'"
| unregister: "registry_reachable reg \<Longrightarrow> unregister name reg = (r, reg') \<Longrightarrow> registry_reachable reg'"

lemma registry_reachable_wf: "registry_reachable reg \<Longrightarrow> registry_wf reg"
  by (induction rule: registry_reachable.induct)
     (auto simp: register_for_names_multi intro: registry_new_wf register_wf unregister_wf(1))

end
