(* ===== verification/Executor.thy ===== *)
theory Executor
  imports Plugin_Registry Orchestration
begin

text \<open>
  \<^verbatim>\<open>crates/ppe-core/src/executor.rs\<close>: one hook invocation through the five phases.  The locals the phases
  share are the fields of one state record.  What the tokio runtime contributes to the concurrent phase
  (how the world looks to each task, in which order the tasks are reported, the world afterwards) is the
  record \<open>runtime\<close>.  Time is counted in milliseconds.

  A handler that panics in a serial phase unwinds the whole call; in the concurrent phase the panic stays
  in its task.
\<close>

record executor_config =
  ec_timeout_seconds :: u64
  ec_short_circuit_on_deny :: bool

definition executor_config_default :: executor_config where
  "executor_config_default = \<lparr>ec_timeout_seconds = 30, ec_short_circuit_on_deny = True\<rparr>"

definition timeout_dur :: "executor_config \<Rightarrow> nat" where
  "timeout_dur config = unat (ec_timeout_seconds config) * 1000"

definition timeout_ms :: "executor_config \<Rightarrow> nat" where
  "timeout_ms config = (if timeout_dur config < 2 ^ 64 then timeout_dur config else 2 ^ 64 - 1)"

record 'w runtime =
  rt_fork :: "'w \<Rightarrow> nat \<Rightarrow> 'w"
  rt_sched :: "'w \<Rightarrow> nat \<Rightarrow> (nat \<times> bool) list"
  rt_join :: "'w \<Rightarrow> 'w list \<Rightarrow> 'w"

record ('p, 'w) exec_state =
  xs_payload :: 'p
  xs_extensions :: extensions
  xs_ctx_table :: plugin_context_table
  xs_errors :: "plugin_error_record list"
  xs_payload_modified :: bool
  xs_disabled :: "uuid set"
  xs_world :: 'w

datatype phase_end = Finished | Denied plugin_violation | Unwound string

subsection \<open>Accepting what a plugin returns\<close>

definition owned_tokens :: "string fset \<Rightarrow> owned_extensions \<Rightarrow> owned_extensions" where
  "owned_tokens caps owned = owned\<lparr>
     ow_http_write_token := ''write_headers'' |\<in>| caps,
     ow_labels_write_token := ''append_labels'' |\<in>| caps,
     ow_delegation_write_token := ''append_delegation'' |\<in>| caps\<rparr>"

definition labels_ok :: "extensions \<Rightarrow> string fset \<Rightarrow> owned_extensions \<Rightarrow> bool" where
  "labels_ok ext caps owned \<longleftrightarrow>
     ''read_labels'' |\<notin>| caps
     \<or> (case (ex_security ext, ow_security owned) of
          (Some orig, Some new) \<Rightarrow> mono_is_superset (sc_labels new) (sc_labels orig)
        | _ \<Rightarrow> True)"

definition accept_extensions :: "extensions \<Rightarrow> string fset \<Rightarrow> owned_extensions \<Rightarrow> extensions" where
  "accept_extensions ext caps returned =
     (let immutable_ok = validate_immutable ext returned;
          owned = (if immutable_ok then owned_tokens caps returned else returned)
      in if \<not> immutable_ok then ext
         else if \<not> labels_ok ext caps owned then ext
         else if \<not> candidate_constraint_write_ok ext owned caps then ext
         else merge_owned ext owned)"

definition accept_result :: "string fset \<Rightarrow> 'p erased_result \<Rightarrow> ('p, 'w) exec_state \<Rightarrow> ('p, 'w) exec_state" where
  "accept_result caps erased st =
     (let st1 = (case rf_modified_payload erased of
                   None \<Rightarrow> st
                 | Some mp \<Rightarrow> st\<lparr>xs_payload := mp, xs_payload_modified := True\<rparr>)
      in (case rf_modified_extensions erased of
            None \<Rightarrow> st1
          | Some owned \<Rightarrow> st1\<lparr>xs_extensions := accept_extensions (xs_extensions st1) caps owned\<rparr>))"

subsection \<open>Failures\<close>

definition named_violation :: "string \<Rightarrow> string \<Rightarrow> string \<Rightarrow> plugin_violation" where
  "named_violation code reason name = (violation_new code reason)\<lparr>vi_plugin_name := Some name\<rparr>"

definition quoted :: "string \<Rightarrow> string" where
  "quoted name = ''Plugin '' @ [CHR 0x27] @ name @ [CHR 0x27]"

definition timeout_failure :: "executor_config \<Rightarrow> string \<Rightarrow> plugin_failure" where
  "timeout_failure config name = PF_Timeout name (timeout_ms config) None"

text \<open>The error policy of a serial phase: halt, or record the error and perhaps take the plugin out of rotation.\<close>

definition serial_failure ::
    "bool \<Rightarrow> ('p, 'w) hook_entry \<Rightarrow> plugin_violation \<Rightarrow> plugin_failure \<Rightarrow> ('p, 'w) exec_state
     \<Rightarrow> plugin_violation option \<times> ('p, 'w) exec_state" where
  "serial_failure block entry violation failure st =
     (case entry_on_error entry of
        OE_Fail \<Rightarrow>
          if block then (Some violation, st)
          else (None, st\<lparr>xs_errors := xs_errors st @ [error_record failure]\<rparr>)
      | OE_Ignore \<Rightarrow> (None, st\<lparr>xs_errors := xs_errors st @ [error_record failure]\<rparr>)
      | OE_Disable \<Rightarrow> (None, st\<lparr>xs_errors := xs_errors st @ [error_record failure],
                               xs_disabled := insert (entry_id entry) (xs_disabled st)\<rparr>))"

subsection \<open>Serial phases\<close>

definition view_for :: "extensions \<Rightarrow> string fset \<Rightarrow> extensions" where
  "view_for ext caps = with_tokens caps (filter_extensions ext caps)"

text \<open>What the plugin's result does, before its context is stored back.\<close>

definition serial_result ::
    "executor_config \<Rightarrow> bool \<Rightarrow> bool \<Rightarrow> ('p, 'w) hook_entry \<Rightarrow> nat \<Rightarrow> 'p handler_end \<Rightarrow> ('p, 'w) exec_state
     \<Rightarrow> phase_end \<times> ('p, 'w) exec_state" where
  "serial_result config block modify entry elapsed result st =
     (let fail = (\<lambda>violation failure.
            case serial_failure block entry violation failure st of
              (Some v, st') \<Rightarrow> (Denied v, st')
            | (None, st') \<Rightarrow> (Finished, st'))
      in if elapsed > timeout_dur config
         then fail (named_violation ''plugin_timeout'' (quoted (entry_name entry) @ '' timed out'') (entry_name entry))
                (timeout_failure config (entry_name entry))
         else (case result of
             H_Panic msg \<Rightarrow> (Unwound msg, st)
           | H_Err e \<Rightarrow>
               fail (named_violation ''plugin_error'' (quoted (entry_name entry) @ '' failed: '' @ failure_text e)
                       (entry_name entry)) e
           | H_Ok None \<Rightarrow> (Finished, st)
           | H_Ok (Some erased) \<Rightarrow>
               (case (if \<not> rf_continue_processing erased \<and> block then rf_violation erased else None) of
                  Some v \<Rightarrow> (Denied (v\<lparr>vi_plugin_name := Some (entry_name entry)\<rparr>), st)
                | None \<Rightarrow> (Finished, if modify then accept_result (entry_caps entry) erased st else st))))"

definition serial_step ::
    "executor_config \<Rightarrow> bool \<Rightarrow> bool \<Rightarrow> ('p, 'w) hook_entry \<Rightarrow> ('p, 'w) exec_state
     \<Rightarrow> phase_end \<times> ('p, 'w) exec_state" where
  "serial_step config block modify entry st =
     (case take_context (xs_ctx_table st) (entry_id entry) of
        (ctx, table) \<Rightarrow>
          (case entry_run entry (xs_world st) (xs_payload st) (view_for (xs_extensions st) (entry_caps entry)) ctx of
             (elapsed, result, ctx', w') \<Rightarrow>
               (case serial_result config block modify entry elapsed result (st\<lparr>xs_ctx_table := table, xs_world := w'\<rparr>) of
                  (Finished, st') \<Rightarrow>
                    (Finished, st'\<lparr>xs_ctx_table := store_context (xs_ctx_table st') (entry_id entry) ctx'\<rparr>)
                | other \<Rightarrow> other)))"

fun run_serial_phase ::
    "executor_config \<Rightarrow> bool \<Rightarrow> bool \<Rightarrow> ('p, 'w) hook_entry list \<Rightarrow> ('p, 'w) exec_state
     \<Rightarrow> phase_end \<times> ('p, 'w) exec_state" where
  "run_serial_phase config block modify [] st = (Finished, st)"
| "run_serial_phase config block modify (entry # entries) st =
     (case serial_step config block modify entry st of
        (Finished, st') \<Rightarrow> run_serial_phase config block modify entries st'
      | other \<Rightarrow> other)"

subsection \<open>The read-only phase\<close>

definition ref_failure :: "('p, 'w) hook_entry \<Rightarrow> plugin_failure \<Rightarrow> ('p, 'w) exec_state \<Rightarrow> ('p, 'w) exec_state" where
  "ref_failure entry failure st =
     (let st' = st\<lparr>xs_errors := xs_errors st @ [error_record failure]\<rparr>
      in if entry_on_error entry = OE_Disable
         then st'\<lparr>xs_disabled := insert (entry_id entry) (xs_disabled st')\<rparr> else st')"

definition ref_step ::
    "executor_config \<Rightarrow> ('p, 'w) hook_entry \<Rightarrow> ('p, 'w) exec_state \<Rightarrow> phase_end \<times> ('p, 'w) exec_state" where
  "ref_step config entry st =
     (case entry_run entry (xs_world st) (xs_payload st) (filter_extensions (xs_extensions st) (entry_caps entry))
             (snapshot_context (xs_ctx_table st) (entry_id entry)) of
        (elapsed, result, _, w') \<Rightarrow>
          let st' = st\<lparr>xs_world := w'\<rparr>
          in if elapsed > timeout_dur config
             then (Finished, ref_failure entry (timeout_failure config (entry_name entry)) st')
             else (case result of
                     H_Panic msg \<Rightarrow> (Unwound msg, st')
                   | H_Err e \<Rightarrow> (Finished, ref_failure entry e st')
                   | H_Ok _ \<Rightarrow> (Finished, st')))"

fun run_ref_phase ::
    "executor_config \<Rightarrow> ('p, 'w) hook_entry list \<Rightarrow> ('p, 'w) exec_state \<Rightarrow> phase_end \<times> ('p, 'w) exec_state" where
  "run_ref_phase config [] st = (Finished, st)"
| "run_ref_phase config (entry # entries) st =
     (case ref_step config entry st of
        (Finished, st') \<Rightarrow> run_ref_phase config entries st'
      | other \<Rightarrow> other)"

subsection \<open>The concurrent phase\<close>

datatype branch_data = BD_Allow | BD_Deny "plugin_violation option" | BD_Error plugin_failure

fun branch_data_of :: "string \<Rightarrow> 'p erased_result option \<Rightarrow> branch_data" where
  "branch_data_of name (Some erased) =
     (if \<not> rf_continue_processing erased
      then BD_Deny (map_option (\<lambda>v. v\<lparr>vi_plugin_name := Some name\<rparr>) (rf_violation erased))
      else BD_Allow)"
| "branch_data_of name None = BD_Allow"

definition concurrent_run ::
    "'w runtime \<Rightarrow> ('p, 'w) exec_state \<Rightarrow> nat \<Rightarrow> ('p, 'w) hook_entry \<Rightarrow> branch_data branch_fate \<times> 'w" where
  "concurrent_run rt st i entry =
     (case entry_run entry (rt_fork rt (xs_world st) i) (xs_payload st)
             (filter_extensions (xs_extensions st) (entry_caps entry))
             (snapshot_context (xs_ctx_table st) (entry_id entry)) of
        (elapsed, result, _, w') \<Rightarrow>
          ((case result of
              H_Panic msg \<Rightarrow> Panics elapsed msg
            | H_Err e \<Rightarrow> Returns elapsed (BD_Error e)
            | H_Ok r \<Rightarrow> Returns elapsed (branch_data_of (entry_name entry) r)), w'))"

fun is_bd_deny :: "branch_data \<Rightarrow> bool" where
  "is_bd_deny (BD_Deny _) = True"
| "is_bd_deny _ = False"

text \<open>The error policy of the concurrent phase; the first violation wins.\<close>

definition concurrent_failure ::
    "('p, 'w) hook_entry \<Rightarrow> plugin_violation \<Rightarrow> plugin_failure \<Rightarrow> plugin_violation option \<Rightarrow> ('p, 'w) exec_state
     \<Rightarrow> plugin_violation option \<times> ('p, 'w) exec_state" where
  "concurrent_failure entry violation failure first st =
     (case entry_on_error entry of
        OE_Fail \<Rightarrow> (or_else first (Some violation), st)
      | OE_Ignore \<Rightarrow> (first, st\<lparr>xs_errors := xs_errors st @ [error_record failure]\<rparr>)
      | OE_Disable \<Rightarrow> (first, st\<lparr>xs_errors := xs_errors st @ [error_record failure],
                               xs_disabled := insert (entry_id entry) (xs_disabled st)\<rparr>))"

definition concurrent_outcome ::
    "executor_config \<Rightarrow> ('p, 'w) hook_entry \<Rightarrow> branch_data branch_outcome \<Rightarrow> plugin_violation option
     \<Rightarrow> ('p, 'w) exec_state \<Rightarrow> plugin_violation option \<times> ('p, 'w) exec_state" where
  "concurrent_outcome config entry outcome first st =
     (let name = entry_name entry
      in (case outcome of
            Completed BD_Allow \<Rightarrow> (first, st)
          | Completed (BD_Deny v) \<Rightarrow>
              (or_else first (Some (unwrap_or v (named_violation ''concurrent_deny'' (quoted name @ '' denied'') name))), st)
          | Completed (BD_Error e) \<Rightarrow>
              concurrent_failure entry
                (named_violation ''plugin_error'' (quoted name @ '' failed: '' @ failure_text e) name) e first st
          | TimedOut \<Rightarrow>
              concurrent_failure entry
                (named_violation ''plugin_timeout'' (quoted name @ '' timed out'') name)
                (timeout_failure config name) first st
          | Panicked s \<Rightarrow>
              concurrent_failure entry
                (named_violation ''plugin_panic'' (quoted name @ '' task panicked: '' @ s) name)
                (PF_Execution name (''task panicked: '' @ s) None (Some ''panic'') Map.empty None) first st
          | Aborted \<Rightarrow> (first, st)))"

fun concurrent_outcomes ::
    "executor_config \<Rightarrow> (('p, 'w) hook_entry \<times> branch_data branch_outcome) list \<Rightarrow> plugin_violation option
     \<Rightarrow> ('p, 'w) exec_state \<Rightarrow> plugin_violation option \<times> ('p, 'w) exec_state" where
  "concurrent_outcomes config [] first st = (first, st)"
| "concurrent_outcomes config ((entry, outcome) # rest) first st =
     (case concurrent_outcome config entry outcome first st of
        (first', st') \<Rightarrow> concurrent_outcomes config rest first' st')"

definition concurrent_config :: "executor_config \<Rightarrow> branch_config" where
  "concurrent_config config =
     \<lparr>bc_timeout_per_branch = Some (timeout_dur config), bc_short_circuit_on_deny = ec_short_circuit_on_deny config\<rparr>"

definition run_concurrent_phase ::
    "executor_config \<Rightarrow> 'w runtime \<Rightarrow> ('p, 'w) hook_entry list \<Rightarrow> ('p, 'w) exec_state
     \<Rightarrow> plugin_violation option \<times> ('p, 'w) exec_state" where
  "run_concurrent_phase config rt entries st =
     (if entries = [] then (None, st)
      else
        let runs = map (\<lambda>(i, entry). concurrent_run rt st i entry) (enumerate 0 entries);
            outcomes = run_branches (map fst runs) (concurrent_config config) is_bd_deny
              (rt_sched rt (xs_world st) (length entries));
            st' = st\<lparr>xs_world := rt_join rt (xs_world st) (map snd runs)\<rparr>
        in if length outcomes \<noteq> length entries
           then (Some (violation_new ''executor_invariant''
                   (''concurrent dispatch produced '' @ nat_to_string (length outcomes) @ '' outcomes and ''
                     @ nat_to_string (length entries) @ '' on_error entries for '' @ nat_to_string (length entries)
                     @ '' plugins; cannot attribute results'')), st')
           else concurrent_outcomes config (zip entries outcomes) None st')"

subsection \<open>Background tasks\<close>

text \<open>A fire-and-forget task is what its handler is started on; nothing waits for it.\<close>

record ('p, 'w) background_task =
  bt_name :: string
  bt_entry :: "('p, 'w) hook_entry"
  bt_payload :: 'p
  bt_view :: extensions
  bt_context :: plugin_context

definition spawn_fire_and_forget ::
    "('p, 'w) hook_entry list \<Rightarrow> ('p, 'w) exec_state \<Rightarrow> ('p, 'w) background_task list" where
  "spawn_fire_and_forget entries st =
     map (\<lambda>entry. \<lparr>bt_name = entry_name entry, bt_entry = entry, bt_payload = xs_payload st,
            bt_view = filter_extensions (xs_extensions st) (entry_caps entry),
            bt_context = snapshot_context (xs_ctx_table st) (entry_id entry)\<rparr>) entries"

text \<open>Waiting: a task that panicked gives an error, in the order of the handles; \<open>ends\<close> says how each ended.\<close>

definition wait_for_background_tasks ::
    "('p, 'w) background_task list \<Rightarrow> (('p, 'w) background_task \<Rightarrow> string option) \<Rightarrow> plugin_failure list" where
  "wait_for_background_tasks tasks ends =
     concat (map (\<lambda>t. case ends t of
         None \<Rightarrow> []
       | Some msg \<Rightarrow> [PF_Execution (bt_name t) (''background task panicked: '' @ msg) None None Map.empty None]) tasks)"

subsection \<open>The pipeline\<close>

record 'p pipeline_result =
  pl_continue_processing :: bool
  pl_modified_payload :: "'p option"
  pl_payload_modified :: bool
  pl_modified_extensions :: "extensions option"
  pl_violation :: "plugin_violation option"
  pl_errors :: "plugin_error_record list"
  pl_metadata :: "json option"
  pl_context_table :: plugin_context_table

definition allowed_with :: "'p \<Rightarrow> extensions \<Rightarrow> plugin_context_table \<Rightarrow> 'p pipeline_result" where
  "allowed_with payload ext table =
     \<lparr>pl_continue_processing = True, pl_modified_payload = Some payload, pl_payload_modified = False,
      pl_modified_extensions = Some ext, pl_violation = None, pl_errors = [], pl_metadata = None,
      pl_context_table = table\<rparr>"

definition denied_with :: "plugin_violation \<Rightarrow> extensions \<Rightarrow> plugin_context_table \<Rightarrow> 'p pipeline_result" where
  "denied_with v ext table =
     \<lparr>pl_continue_processing = False, pl_modified_payload = None, pl_payload_modified = False,
      pl_modified_extensions = Some ext, pl_violation = Some v, pl_errors = [], pl_metadata = None,
      pl_context_table = table\<rparr>"

definition with_errors :: "plugin_error_record list \<Rightarrow> 'p pipeline_result \<Rightarrow> 'p pipeline_result" where
  "with_errors errors r = r\<lparr>pl_errors := errors\<rparr>"

definition with_payload_modified :: "bool \<Rightarrow> 'p pipeline_result \<Rightarrow> 'p pipeline_result" where
  "with_payload_modified m r = r\<lparr>pl_payload_modified := m\<rparr>"

definition is_denied :: "'p pipeline_result \<Rightarrow> bool" where
  "is_denied r \<longleftrightarrow> \<not> pl_continue_processing r"

definition denied_result ::
    "plugin_violation \<Rightarrow> ('p, 'w) exec_state \<Rightarrow> 'p pipeline_result \<times> ('p, 'w) background_task list" where
  "denied_result v st = (with_errors (xs_errors st) (denied_with v (xs_extensions st) (xs_ctx_table st)), [])"

text \<open>
  The whole call: \<open>Inl\<close> if a handler's panic unwound it, and the state it leaves either way.  The
  disabled flags and the world outlive the call, so they are part of the state it starts from.
\<close>

definition execute ::
    "executor_config \<Rightarrow> 'w runtime \<Rightarrow> ('p, 'w) hook_entry list \<Rightarrow> 'p \<Rightarrow> extensions \<Rightarrow> plugin_context_table option
     \<Rightarrow> uuid set \<Rightarrow> 'w \<Rightarrow> (string + 'p pipeline_result \<times> ('p, 'w) background_task list) \<times> ('p, 'w) exec_state" where
  "execute config rt entries payload ext table disabled w =
     (let st0 = \<lparr>xs_payload = payload, xs_extensions = ext, xs_ctx_table = unwrap_or table table_new, xs_errors = [],
                 xs_payload_modified = False, xs_disabled = disabled, xs_world = w\<rparr>
      in if entries = [] then (Inr (allowed_with payload ext (xs_ctx_table st0), []), st0)
         else (case group_by_mode disabled entries of
           (sequential, transform, audit, concurrent, fire_and_forget) \<Rightarrow>
             (case run_serial_phase config True True sequential st0 of
                (Unwound msg, st1) \<Rightarrow> (Inl msg, st1)
              | (Denied v, st1) \<Rightarrow> (Inr (denied_result v st1), st1)
              | (Finished, st1) \<Rightarrow>
                  (case run_serial_phase config False True transform st1 of
                     (Unwound msg, st2) \<Rightarrow> (Inl msg, st2)
                   | (_, st2) \<Rightarrow>
                       (case run_ref_phase config audit st2 of
                          (Unwound msg, st3) \<Rightarrow> (Inl msg, st3)
                        | (_, st3) \<Rightarrow>
                            (case run_concurrent_phase config rt concurrent st3 of
                               (Some v, st4) \<Rightarrow> (Inr (denied_result v st4), st4)
                             | (None, st4) \<Rightarrow>
                                 (Inr (with_payload_modified (xs_payload_modified st4)
                                         (with_errors (xs_errors st4)
                                           (allowed_with (xs_payload st4) (xs_extensions st4) (xs_ctx_table st4))),
                                       spawn_fire_and_forget fire_and_forget st4), st4)))))))"

end
