(* ===== verification/Executor_Props.thy ===== *)
theory Executor_Props
  imports Executor
begin

text \<open>
  What a pipeline of plugins can do.  The locale \<open>plugin_frame\<close> carries a relation between extensions from
  the acceptance of one plugin's result to the whole call; it is interpreted for the tier rules and for
  each write capability.
\<close>

subsection \<open>One plugin of a serial phase\<close>

text \<open>What the plugin answers, the state its answer is judged in, and what becomes of it.\<close>

definition serial_answer :: "('p, 'w) hook_entry \<Rightarrow> ('p, 'w) exec_state \<Rightarrow> nat \<times> 'p handler_end \<times> plugin_context \<times> 'w" where
  "serial_answer entry st = entry_run entry (xs_world st) (xs_payload st)
     (view_for (xs_extensions st) (entry_caps entry)) (snapshot_context (xs_ctx_table st) (entry_id entry))"

definition serial_mid :: "('p, 'w) hook_entry \<Rightarrow> ('p, 'w) exec_state \<Rightarrow> ('p, 'w) exec_state" where
  "serial_mid entry st =
     st\<lparr>xs_ctx_table := snd (take_context (xs_ctx_table st) (entry_id entry)),
        xs_world := snd (snd (snd (serial_answer entry st)))\<rparr>"

lemma serial_mid_simps [simp]:
  "xs_extensions (serial_mid entry st) = xs_extensions st"
  "xs_payload (serial_mid entry st) = xs_payload st"
  "xs_errors (serial_mid entry st) = xs_errors st"
  "xs_payload_modified (serial_mid entry st) = xs_payload_modified st"
  "xs_disabled (serial_mid entry st) = xs_disabled st"
  by (simp_all add: serial_mid_def)

definition stored :: "('p, 'w) hook_entry \<Rightarrow> ('p, 'w) exec_state \<Rightarrow> phase_end \<times> ('p, 'w) exec_state \<Rightarrow> ('p, 'w) exec_state" where
  "stored entry st res =
     (if fst res = Finished
      then (snd res)\<lparr>xs_ctx_table := store_context (xs_ctx_table (snd res)) (entry_id entry)
             (fst (snd (snd (serial_answer entry st))))\<rparr>
      else snd res)"

lemma stored_simps [simp]:
  "xs_extensions (stored entry st res) = xs_extensions (snd res)"
  "xs_payload (stored entry st res) = xs_payload (snd res)"
  "xs_errors (stored entry st res) = xs_errors (snd res)"
  "xs_payload_modified (stored entry st res) = xs_payload_modified (snd res)"
  "xs_disabled (stored entry st res) = xs_disabled (snd res)"
  by (simp_all add: stored_def)

definition serial_verdict where
  "serial_verdict config block modify entry st =
     serial_result config block modify entry (fst (serial_answer entry st)) (fst (snd (serial_answer entry st)))
       (serial_mid entry st)"

lemma serial_step_eq:
  "serial_step config block modify entry st =
     (fst (serial_verdict config block modify entry st), stored entry st (serial_verdict config block modify entry st))"
proof -
  obtain ctx table where take: "take_context (xs_ctx_table st) (entry_id entry) = (ctx, table)" by force
  then have ctx: "ctx = snapshot_context (xs_ctx_table st) (entry_id entry)" by (auto simp: context_laws(3) [symmetric])
  obtain elapsed result ctx' w' where ans: "serial_answer entry st = (elapsed, result, ctx', w')"
    by (metis prod_cases4)
  have run: "entry_run entry (xs_world st) (xs_payload st) (view_for (xs_extensions st) (entry_caps entry)) ctx
      = (elapsed, result, ctx', w')"
    using ans by (simp add: serial_answer_def ctx)
  show ?thesis
    unfolding serial_step_def take prod.case run
    by (simp add: serial_verdict_def stored_def serial_mid_def ans take split: prod.split phase_end.split)
qed

subsection \<open>The phases of a call\<close>

definition exec_init where
  "exec_init payload ext table disabled w =
     \<lparr>xs_payload = payload, xs_extensions = ext, xs_ctx_table = unwrap_or table table_new, xs_errors = [],
      xs_payload_modified = False, xs_disabled = disabled, xs_world = w\<rparr>"

lemma exec_init_simps [simp]:
  "xs_payload (exec_init payload ext table disabled w) = payload"
  "xs_extensions (exec_init payload ext table disabled w) = ext"
  "xs_payload_modified (exec_init payload ext table disabled w) = False"
  "xs_disabled (exec_init payload ext table disabled w) = disabled"
  by (simp_all add: exec_init_def)

definition allowed_result where
  "allowed_result faf st =
     (with_payload_modified (xs_payload_modified st)
        (with_errors (xs_errors st) (allowed_with (xs_payload st) (xs_extensions st) (xs_ctx_table st))),
      spawn_fire_and_forget faf st)"

definition before_concurrent where
  "before_concurrent config disabled entries st0 =
     (case run_serial_phase config True True (in_mode disabled M_Sequential entries) st0 of
        (Finished, st1) \<Rightarrow>
          (case run_serial_phase config False True (in_mode disabled M_Transform entries) st1 of
             (Unwound msg, st2) \<Rightarrow> (Unwound msg, st2)
           | (_, st2) \<Rightarrow>
               (case run_ref_phase config (in_mode disabled M_Audit entries) st2 of
                  (Unwound msg, st3) \<Rightarrow> (Unwound msg, st3)
                | (_, st3) \<Rightarrow> (Finished, st3)))
      | other \<Rightarrow> other)"

lemma run_serial_no_denial: "fst (run_serial_phase config False modify es st) \<noteq> Denied v"
proof (induction es arbitrary: st)
  case (Cons e es)
  have "fst (serial_failure False e x f st') = None" for x f st'
    by (simp add: serial_failure_def split: on_error.split)
  then have "fst (serial_verdict config False modify e st) \<noteq> Denied v" for v
    by (simp add: serial_verdict_def serial_result_def Let_def case_prod_beta split: handler_end.split option.split)
  with Cons.IH show ?case
    by (simp add: serial_step_eq) (cases "fst (serial_verdict config False modify e st)"; simp)
qed simp

lemma execute_eq:
  "execute config rt entries payload ext table disabled w =
     (case before_concurrent config disabled entries (exec_init payload ext table disabled w) of
        (Unwound msg, st) \<Rightarrow> (Inl msg, st)
      | (Denied v, st) \<Rightarrow> (Inr (denied_result v st), st)
      | (Finished, st) \<Rightarrow>
          (case run_concurrent_phase config rt (in_mode disabled M_Concurrent entries) st of
             (Some v, st') \<Rightarrow> (Inr (denied_result v st'), st')
           | (None, st') \<Rightarrow> (Inr (allowed_result (in_mode disabled M_FireAndForget entries) st'), st')))"
proof (cases "entries = []")
  case True
  then show ?thesis
    by (simp add: execute_def exec_init_def before_concurrent_def in_mode_def run_concurrent_phase_def
        allowed_result_def with_errors_def with_payload_modified_def allowed_with_def spawn_fire_and_forget_def Let_def)
next
  case False
  then show ?thesis
    unfolding execute_def group_by_mode_eq Let_def before_concurrent_def exec_init_def allowed_result_def
    by (auto split: prod.split phase_end.split option.split)
qed

text \<open>A plugin whose flag is up takes no part in a call.\<close>

lemma in_mode_enabled:
  "m \<noteq> M_Disabled \<Longrightarrow> in_mode disabled m (filter (\<lambda>e. entry_id e \<notin> disabled) es) = in_mode disabled m es"
  by (induction es) (auto simp: in_mode_def ref_mode_def)

lemma execute_skips_disabled:
  "execute config rt (filter (\<lambda>e. entry_id e \<notin> disabled) entries) payload ext table disabled w =
   execute config rt entries payload ext table disabled w"
  unfolding execute_eq before_concurrent_def
    in_mode_enabled [OF plugin_mode.distinct(9)] in_mode_enabled [OF plugin_mode.distinct(17)]
    in_mode_enabled [OF plugin_mode.distinct(23)] in_mode_enabled [OF plugin_mode.distinct(27)]
    in_mode_enabled [OF plugin_mode.distinct(29)]
  by (rule refl)

subsection \<open>What the read-only phases leave alone\<close>

definition same_request where
  "same_request st st' \<longleftrightarrow> xs_payload st' = xs_payload st \<and> xs_extensions st' = xs_extensions st
     \<and> xs_ctx_table st' = xs_ctx_table st \<and> xs_payload_modified st' = xs_payload_modified st"

lemma same_request_refl [simp]: "same_request st st"
  by (simp add: same_request_def)

lemma same_request_trans: "same_request st st' \<Longrightarrow> same_request st' st'' \<Longrightarrow> same_request st st''"
  by (simp add: same_request_def)

lemma ref_step_same: "same_request st (snd (ref_step config e st))"
  by (auto simp: same_request_def ref_step_def ref_failure_def Let_def split: prod.split handler_end.split)

lemma run_ref_same: "same_request st (snd (run_ref_phase config es st))"
proof (induction es arbitrary: st)
  case (Cons e es)
  obtain q st1 where step: "ref_step config e st = (q, st1)" by force
  then have "same_request st st1" using ref_step_same [of st config e] by simp
  with step show ?case using Cons.IH [of st1] by (cases q) (auto intro: same_request_trans)
qed simp

lemma concurrent_outcome_same: "same_request st (snd (concurrent_outcome config e oc first st))"
  by (auto simp: same_request_def concurrent_outcome_def concurrent_failure_def Let_def
      split: branch_outcome.split branch_data.split on_error.split)

lemma concurrent_outcomes_same: "same_request st (snd (concurrent_outcomes config eos first st))"
proof (induction eos arbitrary: first st)
  case (Cons eo eos)
  obtain e oc where eo: "eo = (e, oc)" by force
  obtain first' st1 where step: "concurrent_outcome config e oc first st = (first', st1)" by force
  then have "same_request st st1" using concurrent_outcome_same [of st config e oc first] by simp
  with step eo show ?case using Cons.IH [of st1 first'] by (auto intro: same_request_trans)
qed simp

lemma run_concurrent_same: "same_request st (snd (run_concurrent_phase config rt es st))"
proof -
  have "same_request st (st\<lparr>xs_world := w\<rparr>)" for w by (simp add: same_request_def)
  then show ?thesis
    by (auto simp: run_concurrent_phase_def Let_def intro: same_request_trans [OF _ concurrent_outcomes_same])
qed

subsection \<open>The extensions through a pipeline\<close>

locale plugin_frame =
  fixes admits :: "string fset \<Rightarrow> bool" and R :: "extensions \<Rightarrow> extensions \<Rightarrow> bool"
  assumes R_refl: "R e e"
    and R_trans: "R e e' \<Longrightarrow> R e' e'' \<Longrightarrow> R e e''"
    and R_accept: "admits caps \<Longrightarrow> R e (accept_extensions e caps owned)"
begin

lemma accept_result_frame:
  "admits caps \<Longrightarrow> R (xs_extensions st) (xs_extensions (accept_result caps erased st))"
  by (simp add: accept_result_def Let_def R_refl R_accept split: option.split)

lemma serial_result_frame:
  assumes "admits (entry_caps entry)"
  shows "R (xs_extensions st) (xs_extensions (snd (serial_result config block modify entry elapsed result st)))"
proof -
  have "xs_extensions (snd (serial_failure block entry v f st)) = xs_extensions st" for v f
    by (simp add: serial_failure_def split: on_error.split)
  then show ?thesis using assms
    by (simp add: serial_result_def Let_def case_prod_beta R_refl accept_result_frame
        split: handler_end.split option.split)
qed

lemma serial_step_frame:
  assumes "admits (entry_caps entry)"
  shows "R (xs_extensions st) (xs_extensions (snd (serial_step config block modify entry st)))"
  using serial_result_frame [OF assms, of "serial_mid entry st"]
  by (simp add: serial_step_eq serial_verdict_def)

lemma run_serial_frame:
  assumes "\<forall>e \<in> set entries. admits (entry_caps e)" "run_serial_phase config block modify entries st = (r, st')"
  shows "R (xs_extensions st) (xs_extensions st')"
  using assms
proof (induction entries arbitrary: st)
  case (Cons e es)
  obtain q st1 where step: "serial_step config block modify e st = (q, st1)" by force
  then have "R (xs_extensions st) (xs_extensions st1)"
    using serial_step_frame [of e st config block modify] Cons.prems(1) by simp
  with Cons step show ?case by (cases q) (auto intro: R_trans)
qed (simp add: R_refl)

lemma before_concurrent_frame:
  assumes "\<forall>e \<in> set entries. admits (entry_caps e)"
  shows "R (xs_extensions st) (xs_extensions (snd (before_concurrent config disabled entries st)))"
proof -
  have adm: "\<forall>e \<in> set (in_mode disabled m entries). admits (entry_caps e)" for m
    using assms by (simp add: in_mode_def)
  obtain q1 st1 where p1: "run_serial_phase config True True (in_mode disabled M_Sequential entries) st = (q1, st1)" by force
  obtain q2 st2 where p2: "run_serial_phase config False True (in_mode disabled M_Transform entries) st1 = (q2, st2)" by force
  obtain q3 st3 where p3: "run_ref_phase config (in_mode disabled M_Audit entries) st2 = (q3, st3)" by force
  have "R (xs_extensions st) (xs_extensions st1)" "R (xs_extensions st1) (xs_extensions st2)"
    using run_serial_frame [OF adm p1] run_serial_frame [OF adm p2] .
  moreover have "xs_extensions st3 = xs_extensions st2"
    using run_ref_same [of st2 config "in_mode disabled M_Audit entries"] p3 by (simp add: same_request_def)
  ultimately show ?thesis
    unfolding before_concurrent_def p1 by (cases q1; cases q2; cases q3) (auto simp: p2 p3 intro: R_trans)
qed

lemma execute_frame:
  assumes "\<forall>e \<in> set entries. admits (entry_caps e)"
  shows "R ext (xs_extensions (snd (execute config rt entries payload ext table disabled w)))"
proof -
  let ?st0 = "exec_init payload ext table disabled w"
  obtain q st where before: "before_concurrent config disabled entries ?st0 = (q, st)" by force
  have "R ext (xs_extensions st)" using before_concurrent_frame [OF assms, of ?st0 config disabled] before by simp
  moreover have "xs_extensions (snd (run_concurrent_phase config rt (in_mode disabled M_Concurrent entries) st)) = xs_extensions st"
    using run_concurrent_same [of st config rt] by (simp add: same_request_def)
  ultimately show ?thesis
    unfolding execute_eq before
    by (cases q; cases "run_concurrent_phase config rt (in_mode disabled M_Concurrent entries) st")
       (auto split: option.split)
qed

end

subsection \<open>The tier rules, and one rule per write capability\<close>

lemma accept_extensions_cases:
  "accept_extensions e caps owned \<in> {e, merge_owned e (owned_tokens caps owned)}"
  by (simp add: accept_extensions_def Let_def)

interpretation tiers: plugin_frame "\<lambda>_. True" safe_change
proof unfold_locales
  show "safe_change e (accept_extensions e caps owned)" for e caps owned
    using accept_extensions_cases [of e caps owned] merge_owned_safe by auto
qed (auto intro: safe_change_trans)

interpretation wf: plugin_frame "\<lambda>_. True" "\<lambda>e e'. extensions_wf e \<longrightarrow> extensions_wf e'"
proof unfold_locales
  show "extensions_wf e \<longrightarrow> extensions_wf (accept_extensions e caps owned)" for e caps owned
    using accept_extensions_cases [of e caps owned] merge_owned_wf by auto
qed auto

lemma owned_tokens_simps [simp]:
  "ow_http_write_token (owned_tokens caps o') \<longleftrightarrow> ''write_headers'' |\<in>| caps"
  "ow_labels_write_token (owned_tokens caps o') \<longleftrightarrow> ''append_labels'' |\<in>| caps"
  "ow_delegation_write_token (owned_tokens caps o') \<longleftrightarrow> ''append_delegation'' |\<in>| caps"
  "ow_candidate_constraint (owned_tokens caps o') = ow_candidate_constraint o'"
  by (simp_all add: owned_tokens_def)

interpretation headers: plugin_frame "\<lambda>caps. ''write_headers'' |\<notin>| caps" "\<lambda>e e'. ex_http e' = ex_http e"
proof unfold_locales
  show "ex_http (accept_extensions e caps owned) = ex_http e" if "''write_headers'' |\<notin>| caps" for e caps owned
    using that accept_extensions_cases [of e caps owned] merge_owned_needs_token(1) [of "owned_tokens caps owned"] by auto
qed auto

interpretation labels: plugin_frame "\<lambda>caps. ''append_labels'' |\<notin>| caps" "\<lambda>e e'. ex_security e' = ex_security e"
proof unfold_locales
  show "ex_security (accept_extensions e caps owned) = ex_security e" if "''append_labels'' |\<notin>| caps" for e caps owned
    using that accept_extensions_cases [of e caps owned] merge_owned_needs_token(2) [of "owned_tokens caps owned"] by auto
qed auto

interpretation lineage: plugin_frame "\<lambda>caps. ''append_delegation'' |\<notin>| caps" "\<lambda>e e'. ex_delegation e' = ex_delegation e"
proof unfold_locales
  show "ex_delegation (accept_extensions e caps owned) = ex_delegation e" if "''append_delegation'' |\<notin>| caps" for e caps owned
    using that accept_extensions_cases [of e caps owned] merge_owned_needs_token(3) [of "owned_tokens caps owned"] by auto
qed auto

interpretation constraint: plugin_frame "\<lambda>caps. CAP_WRITE_CANDIDATE_CONSTRAINT |\<notin>| caps"
    "\<lambda>e e'. ex_candidate_constraint e' = ex_candidate_constraint e"
proof unfold_locales
  show "ex_candidate_constraint (accept_extensions e caps owned) = ex_candidate_constraint e"
    if "CAP_WRITE_CANDIDATE_CONSTRAINT |\<notin>| caps" for e caps owned
    using that
    by (auto simp: accept_extensions_def Let_def candidate_constraint_write_ok_def merge_owned_components(4))
qed auto

subsection \<open>The payload flag\<close>

definition payload_kept where
  "payload_kept st st' \<longleftrightarrow> (\<not> xs_payload_modified st' \<longrightarrow> \<not> xs_payload_modified st \<and> xs_payload st' = xs_payload st)"

lemma payload_kept_trans: "payload_kept st st' \<Longrightarrow> payload_kept st' st'' \<Longrightarrow> payload_kept st st''"
  by (simp add: payload_kept_def)

lemma serial_failure_payload: "payload_kept st (snd (serial_failure block e v f st))"
  by (simp add: payload_kept_def serial_failure_def split: on_error.split)

lemma serial_step_payload: "payload_kept st (snd (serial_step config block modify e st))"
proof -
  have "payload_kept (serial_mid e st) (snd (serial_verdict config block modify e st))"
    using serial_failure_payload [of "serial_mid e st" block e]
    by (simp add: serial_verdict_def serial_result_def Let_def case_prod_beta accept_result_def payload_kept_def
        split: handler_end.split option.split)
  then show ?thesis by (simp add: serial_step_eq payload_kept_def)
qed

lemma run_serial_payload: "payload_kept st (snd (run_serial_phase config block modify es st))"
proof (induction es arbitrary: st)
  case (Cons e es)
  obtain q st1 where step: "serial_step config block modify e st = (q, st1)" by force
  then have "payload_kept st st1" using serial_step_payload [of st config block modify e] by simp
  with step show ?case using Cons.IH [of st1] by (cases q) (auto intro: payload_kept_trans)
qed (simp add: payload_kept_def)

lemma same_request_payload: "same_request st st' \<Longrightarrow> payload_kept st st'"
  by (simp add: same_request_def payload_kept_def)

lemma before_concurrent_payload: "payload_kept st (snd (before_concurrent config disabled entries st))"
proof -
  obtain q1 st1 where p1: "run_serial_phase config True True (in_mode disabled M_Sequential entries) st = (q1, st1)" by force
  obtain q2 st2 where p2: "run_serial_phase config False True (in_mode disabled M_Transform entries) st1 = (q2, st2)" by force
  obtain q3 st3 where p3: "run_ref_phase config (in_mode disabled M_Audit entries) st2 = (q3, st3)" by force
  have "payload_kept st st1" "payload_kept st1 st2"
    using run_serial_payload [of st config True True "in_mode disabled M_Sequential entries"]
      run_serial_payload [of st1 config False True "in_mode disabled M_Transform entries"] p1 p2 by simp_all
  moreover have "payload_kept st2 st3"
    using run_ref_same [of st2 config "in_mode disabled M_Audit entries"] p3 by (auto intro: same_request_payload)
  ultimately show ?thesis
    unfolding before_concurrent_def p1 by (cases q1; cases q2; cases q3) (auto simp: p2 p3 intro: payload_kept_trans)
qed

text \<open>An allowed call that does not report a change hands back the payload it was given.\<close>

lemma execute_payload:
  assumes "execute config rt entries payload ext table disabled w = (Inr (r, bg), st')" "\<not> is_denied r"
  shows "pl_modified_payload r = Some (xs_payload st') \<and> pl_modified_extensions r = Some (xs_extensions st')
    \<and> pl_context_table r = xs_ctx_table st' \<and> pl_errors r = xs_errors st'
    \<and> (\<not> pl_payload_modified r \<longrightarrow> xs_payload st' = payload)"
proof -
  let ?st0 = "exec_init payload ext table disabled w"
  obtain q st where before: "before_concurrent config disabled entries ?st0 = (q, st)" by force
  obtain v st4 where conc: "run_concurrent_phase config rt (in_mode disabled M_Concurrent entries) st = (v, st4)" by force
  have "payload_kept ?st0 st" using before_concurrent_payload [of ?st0 config disabled entries] before by simp
  moreover have "payload_kept st st4"
    using run_concurrent_same [of st config rt "in_mode disabled M_Concurrent entries"] conc
    by (auto intro: same_request_payload)
  ultimately have "payload_kept ?st0 st4" by (rule payload_kept_trans)
  with assms before conc show ?thesis
    by (cases q; cases v)
       (auto simp: execute_eq denied_result_def denied_with_def with_errors_def is_denied_def allowed_result_def
         allowed_with_def with_payload_modified_def payload_kept_def)
qed

subsection \<open>When a call is denied\<close>

text \<open>An answer that stops a sequential phase, and one that stops the concurrent phase.\<close>

definition answer_blocks :: "executor_config \<Rightarrow> on_error \<Rightarrow> nat \<Rightarrow> 'p handler_end \<Rightarrow> bool" where
  "answer_blocks config policy elapsed result \<longleftrightarrow>
     (if elapsed > timeout_dur config then policy = OE_Fail
      else (case result of
              H_Panic _ \<Rightarrow> False
            | H_Err _ \<Rightarrow> policy = OE_Fail
            | H_Ok None \<Rightarrow> False
            | H_Ok (Some r) \<Rightarrow> \<not> rf_continue_processing r \<and> rf_violation r \<noteq> None))"

definition task_blocks :: "executor_config \<Rightarrow> on_error \<Rightarrow> nat \<Rightarrow> 'p handler_end \<Rightarrow> bool" where
  "task_blocks config policy elapsed result \<longleftrightarrow>
     (if elapsed > timeout_dur config then policy = OE_Fail
      else (case result of
              H_Panic _ \<Rightarrow> policy = OE_Fail
            | H_Err _ \<Rightarrow> policy = OE_Fail
            | H_Ok None \<Rightarrow> False
            | H_Ok (Some r) \<Rightarrow> \<not> rf_continue_processing r))"

lemma serial_verdict_denied_iff:
  "(\<exists>v. fst (serial_verdict config True modify e st) = Denied v) \<longleftrightarrow>
     answer_blocks config (entry_on_error e) (fst (serial_answer e st)) (fst (snd (serial_answer e st)))"
  by (auto simp: serial_verdict_def serial_result_def serial_failure_def answer_blocks_def Let_def
      split: handler_end.splits option.splits on_error.splits if_splits)

text \<open>A sequential phase is denied exactly if the plugins before some entry finish and that entry's answer blocks.\<close>

lemma run_serial_denied_iff:
  "(\<exists>v. fst (run_serial_phase config True modify es st) = Denied v) \<longleftrightarrow>
     (\<exists>pre e post st'. es = pre @ e # post \<and> run_serial_phase config True modify pre st = (Finished, st')
        \<and> answer_blocks config (entry_on_error e) (fst (serial_answer e st')) (fst (snd (serial_answer e st'))))"
proof (induction es arbitrary: st)
  case (Cons e es)
  obtain q st1 where step: "serial_step config True modify e st = (q, st1)" by force
  have q: "q = fst (serial_verdict config True modify e st)" using step by (simp add: serial_step_eq)
  let ?blocks = "\<lambda>e st. answer_blocks config (entry_on_error e) (fst (serial_answer e st)) (fst (snd (serial_answer e st)))"
  have cons: "(\<exists>pre d post st'. e # es = pre @ d # post \<and> run_serial_phase config True modify pre st = (Finished, st') \<and> ?blocks d st')
    \<longleftrightarrow> ?blocks e st \<or> (\<exists>pre d post st'. es = pre @ d # post \<and> run_serial_phase config True modify (e # pre) st = (Finished, st') \<and> ?blocks d st')"
    (is "?L \<longleftrightarrow> ?B \<or> ?R")
  proof
    assume ?L
    then obtain pre d post st' where *: "e # es = pre @ d # post"
      "run_serial_phase config True modify pre st = (Finished, st')" "?blocks d st'" by blast
    show "?B \<or> ?R" using * by (cases pre) auto
  next
    assume "?B \<or> ?R"
    then show ?L
    proof
      assume ?B
      then show ?L by (intro exI [of _ "[]"] exI [of _ e] exI [of _ es] exI [of _ st]) simp
    next
      assume ?R
      then obtain pre d post st' where "es = pre @ d # post"
        "run_serial_phase config True modify (e # pre) st = (Finished, st')" "?blocks d st'" by blast
      then show ?L by (intro exI [of _ "e # pre"] exI [of _ d] exI [of _ post] exI [of _ st']) simp
    qed
  qed
  have B: "?blocks e st \<longleftrightarrow> (\<exists>v. q = Denied v)" unfolding q serial_verdict_denied_iff ..
  show ?case unfolding cons B using step Cons.IH [of st1] by (cases q) auto
qed simp

text \<open>How one task of the concurrent phase is reported, and which reports stop the call.\<close>

definition task_answer ::
    "'w runtime \<Rightarrow> ('p, 'w) exec_state \<Rightarrow> nat \<Rightarrow> ('p, 'w) hook_entry
     \<Rightarrow> nat \<times> 'p handler_end \<times> plugin_context \<times> 'w" where
  "task_answer rt st i e =
     entry_run e (rt_fork rt (xs_world st) i) (xs_payload st) (filter_extensions (xs_extensions st) (entry_caps e))
       (snapshot_context (xs_ctx_table st) (entry_id e))"

fun outcome_blocks :: "on_error \<Rightarrow> branch_data branch_outcome \<Rightarrow> bool" where
  "outcome_blocks policy (Completed BD_Allow) = False"
| "outcome_blocks policy (Completed (BD_Deny _)) = True"
| "outcome_blocks policy (Completed (BD_Error _)) = (policy = OE_Fail)"
| "outcome_blocks policy TimedOut = (policy = OE_Fail)"
| "outcome_blocks policy (Panicked _) = (policy = OE_Fail)"
| "outcome_blocks policy Aborted = False"

lemma concurrent_outcome_none:
  "fst (concurrent_outcome config e oc first st) = None \<longleftrightarrow> first = None \<and> \<not> outcome_blocks (entry_on_error e) oc"
  by (cases first)
     (simp_all add: concurrent_outcome_def concurrent_failure_def Let_def
       split: branch_outcome.split branch_data.split on_error.split)

lemma concurrent_outcomes_none:
  "fst (concurrent_outcomes config eos first st) = None \<longleftrightarrow>
     first = None \<and> (\<forall>(e, oc) \<in> set eos. \<not> outcome_blocks (entry_on_error e) oc)"
  by (induction config eos first st rule: concurrent_outcomes.induct)
     (auto simp: case_prod_beta concurrent_outcome_none)

lemma outcome_halts_blocks: "outcome_halts is_bd_deny oc \<Longrightarrow> outcome_blocks policy oc"
  by (cases "(policy, oc)" rule: outcome_blocks.cases) (auto simp: outcome_halts_def)

lemma spawn_outcome_blocks:
  "outcome_blocks policy (spawn_outcome (concurrent_config config) (fst (concurrent_run rt st i e))) \<longleftrightarrow>
     task_blocks config policy (fst (task_answer rt st i e)) (fst (snd (task_answer rt st i e)))"
proof -
  obtain elapsed result ctx w where ans: "task_answer rt st i e = (elapsed, result, ctx, w)" by (cases "task_answer rt st i e")
  have data: "outcome_blocks policy (Completed (branch_data_of name r)) \<longleftrightarrow>
      (case r of None \<Rightarrow> False | Some x \<Rightarrow> \<not> rf_continue_processing x)" for name and r :: "'b erased_result option"
    by (cases r) simp_all
  show ?thesis
    using ans
    by (auto simp: concurrent_run_def task_answer_def spawn_outcome_def concurrent_config_def task_blocks_def Let_def data
        split: handler_end.split option.split)
qed

text \<open>The concurrent phase is denied exactly if some task's answer blocks, whatever the schedule.\<close>

lemma run_concurrent_denied_iff:
  assumes "valid_schedule (length es) (rt_sched rt (xs_world st) (length es))"
  shows "fst (run_concurrent_phase config rt es st) \<noteq> None \<longleftrightarrow>
    (\<exists>i < length es. task_blocks config (entry_on_error (es ! i)) (fst (task_answer rt st i (es ! i)))
       (fst (snd (task_answer rt st i (es ! i)))))"
proof -
  let ?fates = "map fst (map (\<lambda>(i, e). concurrent_run rt st i e) (enumerate 0 es))"
  let ?cfg = "concurrent_config config"
  let ?ocs = "run_branches ?fates ?cfg is_bd_deny (rt_sched rt (xs_world st) (length es))"
  let ?blocks = "\<lambda>i. outcome_blocks (entry_on_error (es ! i)) (spawn_outcome ?cfg (?fates ! i))"
  have valid: "valid_schedule (length ?fates) (rt_sched rt (xs_world st) (length es))" using assms by simp
  have fate: "?fates ! i = fst (concurrent_run rt st i (es ! i))" if "i < length es" for i
    using that by (simp add: nth_enumerate_eq)
  have "fst (run_concurrent_phase config rt es st) \<noteq> None \<longleftrightarrow>
      (\<exists>i < length es. outcome_blocks (entry_on_error (es ! i)) (?ocs ! i))"
  proof (cases "es = []")
    case False
    have "fst (run_concurrent_phase config rt es st) = None \<longleftrightarrow>
        (\<forall>(e, oc) \<in> set (zip es ?ocs). \<not> outcome_blocks (entry_on_error e) oc)"
      using False by (simp add: run_concurrent_phase_def Let_def concurrent_outcomes_none)
    then show ?thesis by (auto simp: set_zip)
  qed (simp add: run_concurrent_phase_def)
  also have "\<dots> \<longleftrightarrow> (\<exists>i < length es. ?blocks i)"
  proof
    assume "\<exists>i < length es. outcome_blocks (entry_on_error (es ! i)) (?ocs ! i)"
    then obtain i where i: "i < length es" "outcome_blocks (entry_on_error (es ! i)) (?ocs ! i)" by blast
    then have "?ocs ! i \<noteq> Aborted" by auto
    with i rb.run_faithful [OF valid, of i ?cfg is_bd_deny] show "\<exists>i < length es. ?blocks i" by auto
  next
    assume "\<exists>i < length es. ?blocks i"
    then obtain i where i: "i < length es" "?blocks i" by blast
    show "\<exists>i < length es. outcome_blocks (entry_on_error (es ! i)) (?ocs ! i)"
    proof (cases "?ocs ! i = Aborted")
      case True
      then obtain oc where "oc \<in> set ?ocs" "outcome_halts is_bd_deny oc"
        using rb.run_aborted [OF valid, of i ?cfg is_bd_deny] i(1) by auto
      then show ?thesis by (auto simp: in_set_conv_nth intro: outcome_halts_blocks)
    next
      case False
      then show ?thesis using rb.run_faithful [OF valid, of i ?cfg is_bd_deny] i by auto
    qed
  qed
  also have "\<dots> \<longleftrightarrow> (\<exists>i < length es. task_blocks config (entry_on_error (es ! i)) (fst (task_answer rt st i (es ! i)))
       (fst (snd (task_answer rt st i (es ! i)))))"
    using fate spawn_outcome_blocks by metis
  finally show ?thesis .
qed

text \<open>A call is denied exactly if an answer of the sequential phase blocks, or one of the concurrent phase.\<close>

lemma before_concurrent_denied_iff:
  "(\<exists>v st'. before_concurrent config disabled entries st = (Denied v, st')) \<longleftrightarrow>
     (\<exists>v. fst (run_serial_phase config True True (in_mode disabled M_Sequential entries) st) = Denied v)"
proof -
  have "fst (run_serial_phase config False True (in_mode disabled M_Transform entries) st1) \<noteq> Denied v" for st1 v
    by (rule run_serial_no_denial)
  then show ?thesis
    by (auto simp: before_concurrent_def split: prod.splits phase_end.splits)
qed

lemma execute_denied_iff:
  assumes valid: "\<And>w n. valid_schedule n (rt_sched rt w n)"
    and run: "execute config rt entries payload ext table disabled w = (Inr (r, bg), st')"
  defines "st0 \<equiv> exec_init payload ext table disabled w"
    and "sequential \<equiv> in_mode disabled M_Sequential entries" and "concurrent \<equiv> in_mode disabled M_Concurrent entries"
  shows "is_denied r \<longleftrightarrow>
    (\<exists>pre e post st. sequential = pre @ e # post \<and> run_serial_phase config True True pre st0 = (Finished, st)
       \<and> answer_blocks config (entry_on_error e) (fst (serial_answer e st)) (fst (snd (serial_answer e st))))
    \<or> (\<exists>st i. before_concurrent config disabled entries st0 = (Finished, st) \<and> i < length concurrent
       \<and> task_blocks config (entry_on_error (concurrent ! i)) (fst (task_answer rt st i (concurrent ! i)))
            (fst (snd (task_answer rt st i (concurrent ! i)))))"
    (is "_ \<longleftrightarrow> ?seq \<or> ?conc")
proof -
  have seq: "?seq \<longleftrightarrow> (\<exists>v st. before_concurrent config disabled entries st0 = (Denied v, st))"
    unfolding before_concurrent_denied_iff run_serial_denied_iff sequential_def ..
  have conc: "?conc \<longleftrightarrow> (\<exists>st. before_concurrent config disabled entries st0 = (Finished, st)
      \<and> fst (run_concurrent_phase config rt concurrent st) \<noteq> None)"
    using run_concurrent_denied_iff [OF valid] by blast
  show ?thesis
    unfolding seq conc
    using run unfolding execute_eq st0_def [symmetric] concurrent_def [symmetric]
    by (cases "before_concurrent config disabled entries st0")
       (auto simp: denied_result_def denied_with_def with_errors_def is_denied_def allowed_result_def
         allowed_with_def with_payload_modified_def split: phase_end.splits prod.splits option.splits)
qed

subsection \<open>A call that returns\<close>

text \<open>Handlers that do not panic where the serial phases would unwind.\<close>

definition never_panics :: "('p, 'w) hook_entry \<Rightarrow> bool" where
  "never_panics e \<longleftrightarrow> (\<forall>w p x c msg. fst (snd (entry_run e w p x c)) \<noteq> H_Panic msg)"

lemma run_serial_not_unwound:
  assumes "\<forall>e \<in> set es. never_panics e"
  shows "fst (run_serial_phase config block modify es st) \<noteq> Unwound msg"
  using assms
proof (induction es arbitrary: st)
  case (Cons e es)
  have "fst (serial_verdict config block modify e st) \<noteq> Unwound msg"
    using Cons.prems
    by (auto simp: never_panics_def serial_verdict_def serial_answer_def serial_result_def Let_def
        split: handler_end.splits option.splits prod.splits if_splits)
  with Cons show ?case
    by (simp add: serial_step_eq) (cases "fst (serial_verdict config block modify e st)"; simp)
qed simp

lemma run_ref_not_unwound:
  assumes "\<forall>e \<in> set es. never_panics e"
  shows "fst (run_ref_phase config es st) \<noteq> Unwound msg"
  using assms
proof (induction es arbitrary: st)
  case (Cons e es)
  obtain elapsed result ctx w where ans: "entry_run e (xs_world st) (xs_payload st)
      (filter_extensions (xs_extensions st) (entry_caps e)) (snapshot_context (xs_ctx_table st) (entry_id e))
      = (elapsed, result, ctx, w)" by (metis prod_cases4)
  have "result \<noteq> H_Panic msg" using Cons.prems ans by (metis fst_conv list.set_intros(1) never_panics_def snd_conv)
  then have "fst (ref_step config e st) \<noteq> Unwound msg"
    using ans by (auto simp: ref_step_def Let_def split: handler_end.split)
  with Cons show ?case by (cases "ref_step config e st"; cases "fst (ref_step config e st)") auto
qed simp

text \<open>
  A call always returns a result unless a plugin of a serial phase panics; a panic in the concurrent phase
  does not keep it from returning.
\<close>

definition unwinding_modes :: "plugin_mode set" where
  "unwinding_modes = {M_Sequential, M_Transform, M_Audit}"

lemma execute_returns:
  assumes "\<forall>e \<in> set entries. ref_mode disabled (he_plugin_ref e) \<in> unwinding_modes \<longrightarrow> never_panics e"
  shows "\<exists>r bg st'. execute config rt entries payload ext table disabled w = (Inr (r, bg), st')"
proof -
  let ?st0 = "exec_init payload ext table disabled w"
  have calm: "\<forall>e \<in> set (in_mode disabled m entries). never_panics e" if "m \<in> unwinding_modes" for m
    using assms that by (auto simp: in_mode_def)
  have phases: "fst (run_serial_phase config True True (in_mode disabled M_Sequential entries) st) \<noteq> Unwound msg"
    "fst (run_serial_phase config False True (in_mode disabled M_Transform entries) st) \<noteq> Unwound msg"
    "fst (run_ref_phase config (in_mode disabled M_Audit entries) st) \<noteq> Unwound msg" for st msg
    using run_serial_not_unwound [OF calm] run_ref_not_unwound [OF calm] by (auto simp: unwinding_modes_def)
  have "fst (before_concurrent config disabled entries ?st0) \<noteq> Unwound msg" for msg
    unfolding before_concurrent_def using phases
    by (auto split: prod.split phase_end.split) (metis fst_conv)+
  then show ?thesis
    unfolding execute_eq
    by (cases "before_concurrent config disabled entries ?st0")
       (auto simp: denied_result_def allowed_result_def split: phase_end.split prod.split option.split)
qed

end
