(* ===== verification/Config.thy ===== *)
theory Config
  imports Plugin_Core
begin

text \<open>
  \<^verbatim>\<open>crates/ppe-core/src/config.rs\<close> and \<^verbatim>\<open>identity/route_config.rs\<close>: the policy document after deserialization,
  the checks on it, and the resolution of the plugins and of the authentication steps of an entity.

  What \<^verbatim>\<open>serde\<close> derives is a parameter: \<open>from_str\<close> reads YAML text, \<open>from_value\<close> a whole document, \<open>step_of\<close> one
  authentication step in map form.  Patterns are matched by the \<^verbatim>\<open>wildmatch\<close> crate, \<open>wild\<close>.  The order in
  which a \<^verbatim>\<open>HashSet\<close> of tags is walked is \<open>order\<close>.
\<close>

subsection \<open>The document\<close>

record route_identity_step =
  ist_name :: string
  ist_config_override :: "json option"
  ist_on_error :: "string option"
  ist_extra :: "json hash_map"

definition step_bare :: "string \<Rightarrow> route_identity_step" where
  "step_bare name = \<lparr>ist_name = name, ist_config_override = None, ist_on_error = None, ist_extra = []\<rparr>"

record route_identity_config =
  ric_steps :: "route_identity_step list"
  ric_replace_inherited :: bool

datatype plugin_route_ref = Ref_Name string | Ref_WithOverrides "json hash_map"

fun ref_name :: "plugin_route_ref \<Rightarrow> string" where
  "ref_name (Ref_Name name) = name"
| "ref_name (Ref_WithOverrides []) = []"
| "ref_name (Ref_WithOverrides ((k, v) # m)) = k"

fun ref_overrides :: "plugin_route_ref \<Rightarrow> json option" where
  "ref_overrides (Ref_Name name) = None"
| "ref_overrides (Ref_WithOverrides []) = None"
| "ref_overrides (Ref_WithOverrides ((k, v) # m)) = Some v"

record policy_group =
  pg_description :: "string option"
  pg_metadata :: "string hash_map"
  pg_plugins :: "plugin_route_ref list"
  pg_identity :: "route_identity_config option"

record global_config =
  gc_policies :: "policy_group hash_map"
  gc_defaults :: "policy_group hash_map"
  gc_identity :: "route_identity_config option"

datatype string_or_list = SL_Single string | SL_List "string list"

fun sl_matches :: "(string \<Rightarrow> string \<Rightarrow> bool) \<Rightarrow> string_or_list \<Rightarrow> string \<Rightarrow> bool" where
  "sl_matches wild (SL_Single pattern) name = wild pattern name"
| "sl_matches wild (SL_List names) name = list_ex (\<lambda>n. n = name) names"

fun as_names :: "string_or_list \<Rightarrow> string list" where
  "as_names (SL_Single pattern) = [pattern]"
| "as_names (SL_List names) = names"

record route_meta =
  rmt_tags :: "string list"
  rmt_scope :: "string option"
  rmt_properties :: "string hash_map"

record route_entry =
  re_tool :: "string_or_list option"
  re_resource :: "string_or_list option"
  re_prompt :: "string_or_list option"
  re_llm :: "string_or_list option"
  re_meta :: "route_meta option"
  re_groups :: "string_or_list option"
  re_when :: "string option"
  re_plugins :: "plugin_route_ref list"
  re_identity :: "route_identity_config option"

record plugin_settings =
  pse_routing_enabled :: bool
  pse_plugin_timeout :: u64
  pse_short_circuit_on_deny :: bool
  pse_parallel_execution_within_band :: bool
  pse_fail_on_plugin_error :: bool
  pse_route_cache_max_entries :: nat

definition default_route_cache_max_entries :: nat where
  "default_route_cache_max_entries = 10000"

definition plugin_settings_default :: plugin_settings where
  "plugin_settings_default =
     \<lparr>pse_routing_enabled = False, pse_plugin_timeout = 30, pse_short_circuit_on_deny = True,
      pse_parallel_execution_within_band = False, pse_fail_on_plugin_error = False,
      pse_route_cache_max_entries = default_route_cache_max_entries\<rparr>"

record policy_config =
  pcf_global :: global_config
  pcf_plugin_dirs :: "string list"
  pcf_plugins :: "plugin_config list"
  pcf_groups :: "policy_group hash_map"
  pcf_routes :: "route_entry list"
  pcf_plugin_settings :: plugin_settings

definition routing_enabled :: "policy_config \<Rightarrow> bool" where
  "routing_enabled config = pse_routing_enabled (pcf_plugin_settings config)"

definition policy_of :: "policy_config \<Rightarrow> string \<Rightarrow> policy_group option" where
  "policy_of config name = map_of (gc_policies (pcf_global config)) name"

subsection \<open>Reading YAML\<close>

text \<open>A \<^verbatim>\<open>plugins:\<close> list; the map form is left to the visitors of the document and counts as empty here.\<close>

fun collect_results :: "(string + 'a) list \<Rightarrow> string + 'a list" where
  "collect_results [] = Inr []"
| "collect_results (Inl e # rs) = Inl e"
| "collect_results (Inr x # rs) = res_bind (collect_results rs) (\<lambda>xs. Inr (x # xs))"

definition deserialize_plugin_refs ::
    "(yaml \<Rightarrow> string + plugin_route_ref) \<Rightarrow> (yaml \<Rightarrow> string) \<Rightarrow> yaml \<Rightarrow> string + plugin_route_ref list" where
  "deserialize_plugin_refs ref_of debug v =
     (case v of
        YSeq items \<Rightarrow> collect_results (map ref_of items)
      | YMap _ \<Rightarrow> Inr []
      | YNull \<Rightarrow> Inr []
      | other \<Rightarrow> Inl (''`plugins:` must be a sequence (activation list) or a mapping (APL per-plugin overrides), got '' @ debug other))"

definition index_text :: "nat \<Rightarrow> string" where
  "index_text i = ''['' @ nat_to_string i @ '']''"

definition parse_identity_step ::
    "(yaml \<Rightarrow> string + route_identity_step) \<Rightarrow> yaml \<Rightarrow> nat \<Rightarrow> string + route_identity_step" where
  "parse_identity_step step_of raw index =
     (case raw of
        YStr name \<Rightarrow>
          if name = [] then Inl (''identity step '' @ index_text index @ '' plugin name cannot be empty'')
          else Inr (step_bare name)
      | YMap m \<Rightarrow>
          (case step_of raw of
             Inl e \<Rightarrow> Inl (''identity step '' @ index_text index @ '': '' @ e)
           | Inr parsed \<Rightarrow>
               if ist_name parsed = [] then Inl (''identity step '' @ index_text index @ '' `name:` cannot be empty'')
               else Inr parsed)
      | _ \<Rightarrow> Inl (''identity step '' @ index_text index
               @ '' must be a plugin name (string) or a map with `name:` (and optional `on_error:` / `config:`)''))"

definition identity_steps_yaml :: "yaml \<Rightarrow> string + bool \<times> yaml list" where
  "identity_steps_yaml raw =
     (case raw of
        YSeq items \<Rightarrow> Inr (False, items)
      | YMap m \<Rightarrow>
          res_bind
            (case yaml_entry m ''replace_inherited'' of
               None \<Rightarrow> Inr False
             | Some v \<Rightarrow> (case yaml_as_bool v of Some b \<Rightarrow> Inr b
                                | None \<Rightarrow> Inl ''`identity.replace_inherited` must be a boolean''))
            (\<lambda>replace_inherited.
               case yaml_entry m ''steps'' of
                 None \<Rightarrow> Inl ''`authentication:` object form requires `steps:` (a list of authentication steps); did you mean to write the list form?''
               | Some v \<Rightarrow> (case as_sequence v of
                              Some items \<Rightarrow> Inr (replace_inherited, items)
                            | None \<Rightarrow> Inl ''`authentication.steps` must be a list''))
      | _ \<Rightarrow> Inl ''`authentication:` must be a list of steps or an object with `steps:` (and optional `replace_inherited:`)'')"

definition deserialize_route_identity ::
    "(yaml \<Rightarrow> string + route_identity_step) \<Rightarrow> yaml option \<Rightarrow> string + route_identity_config option" where
  "deserialize_route_identity step_of v =
     (case v of
        None \<Rightarrow> Inr None
      | Some YNull \<Rightarrow> Inr None
      | Some raw \<Rightarrow>
          res_bind (identity_steps_yaml raw) (\<lambda>(replace_inherited, items).
            res_bind (collect_results (map (\<lambda>(i, item). parse_identity_step step_of item i) (enumerate 0 items)))
              (\<lambda>steps. Inr (Some \<lparr>ric_steps = steps, ric_replace_inherited = replace_inherited\<rparr>))))"

subsection \<open>Checks\<close>

definition merge_groups_into_policies :: "policy_config \<Rightarrow> policy_config" where
  "merge_groups_into_policies config =
     (if pcf_groups config = [] then config
      else config\<lparr>pcf_groups := [],
             pcf_global := (pcf_global config)\<lparr>gc_policies :=
               fold (\<lambda>(name, group). AList.update name group) (pcf_groups config) (gc_policies (pcf_global config))\<rparr>\<rparr>)"

definition renamed :: "string \<Rightarrow> string" where
  "renamed scope = ''in `'' @ scope @ ''`: config field `identity` was renamed to `authentication` ''
     @ [CHR 0xE2, CHR 0x80, CHR 0x94] @ '' update your config''"

fun renamed_in :: "string \<Rightarrow> (yaml \<times> yaml) list \<Rightarrow> string option" where
  "renamed_in section [] = None"
| "renamed_in section ((name, v) # m) =
     (if yaml_get v ''identity'' \<noteq> None then Some (renamed (section @ unwrap_or (yaml_as_str name) ''?''))
      else renamed_in section m)"

definition renamed_section :: "string \<Rightarrow> yaml option \<Rightarrow> string option" where
  "renamed_section section v = (case Option.bind v as_mapping of None \<Rightarrow> None | Some m \<Rightarrow> renamed_in section m)"

fun renamed_route :: "nat \<Rightarrow> yaml list \<Rightarrow> string option" where
  "renamed_route i [] = None"
| "renamed_route i (route # routes) =
     (if yaml_get route ''identity'' \<noteq> None then Some (renamed (''routes'' @ index_text i))
      else renamed_route (Suc i) routes)"

definition reject_renamed_identity_key :: "yaml \<Rightarrow> string option" where
  "reject_renamed_identity_key raw =
     or_else
       (case yaml_get raw ''global'' of
          None \<Rightarrow> None
        | Some global \<Rightarrow>
            if yaml_get global ''identity'' \<noteq> None then Some (renamed ''global'')
            else or_else (renamed_section ''global.policies.'' (yaml_get global ''policies''))
                   (renamed_section ''global.defaults.'' (yaml_get global ''defaults'')))
       (or_else (renamed_section ''groups.'' (yaml_get raw ''groups''))
          (case Option.bind (yaml_get raw ''routes'') as_sequence of
             None \<Rightarrow> None
           | Some routes \<Rightarrow> renamed_route 0 routes))"

fun duplicate_name :: "string list \<Rightarrow> string list \<Rightarrow> string option" where
  "duplicate_name known [] = None"
| "duplicate_name known (n # ns) = (if n \<in> set known then Some n else duplicate_name (n # known) ns)"

definition matcher_count :: "route_entry \<Rightarrow> nat" where
  "matcher_count route =
     length (filter (\<lambda>m. m \<noteq> None) [re_tool route, re_resource route, re_prompt route, re_llm route])"

definition unknown_ref :: "string list \<Rightarrow> plugin_route_ref list \<Rightarrow> string option" where
  "unknown_ref names refs = map_option ref_name (find (\<lambda>r. ref_name r \<notin> set names) refs)"

definition quote :: "string \<Rightarrow> string" where
  "quote s = [CHR 0x27] @ s @ [CHR 0x27]"

definition validate_route :: "policy_config \<Rightarrow> string list \<Rightarrow> nat \<Rightarrow> route_entry \<Rightarrow> string option" where
  "validate_route config names i route =
     (if matcher_count route = 0
      then Some (''route '' @ nat_to_string i @ '' has no entity matcher (need tool, resource, prompt, or llm)'')
      else if matcher_count route > 1
      then Some (''route '' @ nat_to_string i @ '' has multiple entity matchers (need exactly one)'')
      else (case unknown_ref names (re_plugins route) of
              Some n \<Rightarrow> Some (''route '' @ nat_to_string i @ '' references unknown plugin '' @ quote n)
            | None \<Rightarrow>
                (case re_groups route of
                   None \<Rightarrow> None
                 | Some groups \<Rightarrow>
                     map_option (\<lambda>n. ''route '' @ nat_to_string i @ '' joins unknown group '' @ quote n)
                       (find (\<lambda>n. policy_of config n = None) (as_names groups)))))"

fun first_error :: "string option list \<Rightarrow> string option" where
  "first_error [] = None"
| "first_error (Some e # es) = Some e"
| "first_error (None # es) = first_error es"

definition validate_config :: "policy_config \<Rightarrow> string option" where
  "validate_config config =
     (let names = map cf_name (pcf_plugins config)
      in (case duplicate_name [] names of
            Some n \<Rightarrow> Some (''duplicate plugin name: '' @ quote n)
          | None \<Rightarrow>
              if \<not> routing_enabled config then None
              else first_error
                (map (\<lambda>(i, route). validate_route config names i route) (enumerate 0 (pcf_routes config))
                 @ map (\<lambda>(group_name, group). map_option
                      (\<lambda>n. ''policy group '' @ quote group_name @ '' references unknown plugin '' @ quote n)
                      (unknown_ref names (pg_plugins group))) (gc_policies (pcf_global config)))))"

definition parse_config ::
    "(string \<Rightarrow> string + yaml) \<Rightarrow> (yaml \<Rightarrow> string + policy_config) \<Rightarrow> string \<Rightarrow> string + policy_config" where
  "parse_config from_str from_value text =
     (case from_str text of
        Inl e \<Rightarrow> Inl (''failed to parse config YAML: '' @ e)
      | Inr raw \<Rightarrow>
          (case reject_renamed_identity_key raw of
             Some e \<Rightarrow> Inl e
           | None \<Rightarrow>
               (case from_value raw of
                  Inl e \<Rightarrow> Inl (''failed to parse config YAML: '' @ e)
                | Inr parsed \<Rightarrow>
                    let config = merge_groups_into_policies parsed
                    in (case validate_config config of Some e \<Rightarrow> Inl e | None \<Rightarrow> Inr config))))"

subsection \<open>Route matching\<close>

definition SPECIFICITY_EXACT_NAME :: nat where "SPECIFICITY_EXACT_NAME = 1000"
definition SPECIFICITY_NAME_LIST :: nat where "SPECIFICITY_NAME_LIST = 500"
definition SPECIFICITY_GLOB :: nat where "SPECIFICITY_GLOB = 300"
definition SPECIFICITY_WHEN_ONLY :: nat where "SPECIFICITY_WHEN_ONLY = 10"
definition SPECIFICITY_WILDCARD :: nat where "SPECIFICITY_WILDCARD = 0"

definition specificity :: "string_or_list \<Rightarrow> nat" where
  "specificity matcher =
     (case matcher of
        SL_Single p \<Rightarrow>
          if p = ''*'' then SPECIFICITY_WILDCARD
          else if CHR ''*'' \<in> set p then SPECIFICITY_GLOB
          else SPECIFICITY_EXACT_NAME
      | SL_List _ \<Rightarrow> SPECIFICITY_NAME_LIST)"

definition score_entity_match ::
    "(string \<Rightarrow> string \<Rightarrow> bool) \<Rightarrow> string_or_list option \<Rightarrow> string \<Rightarrow> nat option" where
  "score_entity_match wild matcher entity_name =
     (case matcher of
        None \<Rightarrow> None
      | Some sl \<Rightarrow> if \<not> sl_matches wild sl entity_name then None else Some (specificity sl))"

definition scope_bonus :: "string option \<Rightarrow> string option \<Rightarrow> nat option" where
  "scope_bonus route_scope request_scope =
     (case route_scope of
        None \<Rightarrow> Some 0
      | Some rs \<Rightarrow> if request_scope = Some rs then Some 100 else None)"

definition entity_matcher :: "route_entry \<Rightarrow> string \<Rightarrow> string_or_list option" where
  "entity_matcher route entity_type =
     (if entity_type = ''tool'' then re_tool route
      else if entity_type = ''resource'' then re_resource route
      else if entity_type = ''prompt'' then re_prompt route
      else if entity_type = ''llm'' then re_llm route
      else None)"

text \<open>The score of one route for a request; none if the route does not apply.\<close>

definition route_score ::
    "(string \<Rightarrow> string \<Rightarrow> bool) \<Rightarrow> route_entry \<Rightarrow> string \<Rightarrow> string \<Rightarrow> string option \<Rightarrow> nat option" where
  "route_score wild route entity_type entity_name request_scope =
     (case scope_bonus (Option.bind (re_meta route) rmt_scope) request_scope of
        None \<Rightarrow> None
      | Some bonus \<Rightarrow>
          map_option (\<lambda>base. base + bonus + (if re_when route \<noteq> None then SPECIFICITY_WHEN_ONLY else 0))
            (score_entity_match wild (entity_matcher route entity_type) entity_name))"

fun best_route :: "(route_entry \<Rightarrow> nat option) \<Rightarrow> (nat \<times> route_entry) option \<Rightarrow> route_entry list
    \<Rightarrow> (nat \<times> route_entry) option" where
  "best_route score best [] = best"
| "best_route score best (route # routes) =
     (case score route of
        None \<Rightarrow> best_route score best routes
      | Some t \<Rightarrow>
          best_route score
            (case best of
               None \<Rightarrow> Some (t, route)
             | Some (s, _) \<Rightarrow> if t > s then Some (t, route) else best) routes)"

definition find_matching_route ::
    "(string \<Rightarrow> string \<Rightarrow> bool) \<Rightarrow> policy_config \<Rightarrow> string \<Rightarrow> string \<Rightarrow> string option \<Rightarrow> route_entry option" where
  "find_matching_route wild config entity_type entity_name request_scope =
     map_option snd (best_route (\<lambda>r. route_score wild r entity_type entity_name request_scope) None (pcf_routes config))"

definition route_static_tags :: "route_entry \<Rightarrow> string list" where
  "route_static_tags route =
     (case re_meta route of None \<Rightarrow> [] | Some m \<Rightarrow> rmt_tags m)
     @ (case re_groups route of None \<Rightarrow> [] | Some g \<Rightarrow> as_names g)"

subsection \<open>Resolution\<close>

record resolved_plugin =
  rsp_name :: string
  rsp_config_overrides :: "json option"
  rsp_when :: "string option"

definition collect_plugin_refs ::
    "plugin_route_ref list \<Rightarrow> resolved_plugin list \<Rightarrow> string option \<Rightarrow> resolved_plugin list" where
  "collect_plugin_refs refs resolved route_when =
     resolved @ map (\<lambda>r. \<lparr>rsp_name = ref_name r, rsp_config_overrides = ref_overrides r, rsp_when = route_when\<rparr>) refs"

definition group_refs :: "policy_group option \<Rightarrow> plugin_route_ref list" where
  "group_refs g = (case g of None \<Rightarrow> [] | Some grp \<Rightarrow> pg_plugins grp)"

fun keep_last :: "resolved_plugin list \<Rightarrow> string list \<Rightarrow> resolved_plugin list \<Rightarrow> resolved_plugin list" where
  "keep_last [] known deduped = deduped"
| "keep_last (rp # rps) known deduped =
     (if rsp_name rp \<in> set known then keep_last rps known deduped
      else keep_last rps (rsp_name rp # known) (deduped @ [rp]))"

definition dedup_resolved :: "resolved_plugin list \<Rightarrow> resolved_plugin list" where
  "dedup_resolved resolved = rev (keep_last (rev resolved) [] [])"

definition resolve_layers ::
    "(string \<Rightarrow> string \<Rightarrow> bool) \<Rightarrow> (string fset \<Rightarrow> string list) \<Rightarrow> policy_config \<Rightarrow> string \<Rightarrow> string \<Rightarrow> string option
     \<Rightarrow> string fset \<Rightarrow> resolved_plugin list" where
  "resolve_layers wild order config entity_type entity_name request_scope request_tags =
     (let r1 = collect_plugin_refs (group_refs (policy_of config ''all'')) [] None;
          r2 = collect_plugin_refs (group_refs (map_of (gc_defaults (pcf_global config)) entity_type)) r1 None
      in (case find_matching_route wild config entity_type entity_name request_scope of
            None \<Rightarrow> r2
          | Some route \<Rightarrow>
              let merged_tags = request_tags |\<union>| fset_of_list (route_static_tags route);
                  r3 = fold (\<lambda>tag r. if tag = ''all'' then r else collect_plugin_refs (group_refs (policy_of config tag)) r None)
                         (order merged_tags) r2
              in collect_plugin_refs (re_plugins route) r3 (re_when route)))"

definition resolve_plugins_for_entity ::
    "(string \<Rightarrow> string \<Rightarrow> bool) \<Rightarrow> (string fset \<Rightarrow> string list) \<Rightarrow> policy_config \<Rightarrow> string \<Rightarrow> string \<Rightarrow> string option
     \<Rightarrow> string fset \<Rightarrow> resolved_plugin list" where
  "resolve_plugins_for_entity wild order config entity_type entity_name request_scope request_tags =
     (if \<not> routing_enabled config
      then map (\<lambda>p. \<lparr>rsp_name = cf_name p, rsp_config_overrides = None, rsp_when = None\<rparr>) (pcf_plugins config)
      else dedup_resolved (resolve_layers wild order config entity_type entity_name request_scope request_tags))"

definition identity_steps_of :: "route_identity_config option \<Rightarrow> route_identity_step list" where
  "identity_steps_of c = (case c of None \<Rightarrow> [] | Some i \<Rightarrow> ric_steps i)"

definition resolve_identity_steps ::
    "(string \<Rightarrow> string \<Rightarrow> bool) \<Rightarrow> policy_config \<Rightarrow> string \<Rightarrow> string \<Rightarrow> string option \<Rightarrow> route_identity_step list" where
  "resolve_identity_steps wild config entity_type entity_name request_scope =
     (let route = find_matching_route wild config entity_type entity_name request_scope;
          route_identity = Option.bind route re_identity;
          replace_inherited = (case route_identity of None \<Rightarrow> False | Some i \<Rightarrow> ric_replace_inherited i);
          inherited = (if replace_inherited then []
            else identity_steps_of (gc_identity (pcf_global config))
              @ (case route of
                   None \<Rightarrow> []
                 | Some r \<Rightarrow> concat (map (\<lambda>tag. identity_steps_of (Option.bind (policy_of config tag) pg_identity))
                               (route_static_tags r))))
      in inherited @ identity_steps_of route_identity)"

definition resolve_identity_plugins_for_route ::
    "(string \<Rightarrow> string \<Rightarrow> bool) \<Rightarrow> policy_config \<Rightarrow> string \<Rightarrow> string \<Rightarrow> string option \<Rightarrow> resolved_plugin list" where
  "resolve_identity_plugins_for_route wild config entity_type entity_name request_scope =
     map (\<lambda>step. \<lparr>rsp_name = ist_name step,
            rsp_config_overrides = map_option (\<lambda>cfg. JObj [(''config'', cfg)]) (ist_config_override step),
            rsp_when = None\<rparr>)
       (resolve_identity_steps wild config entity_type entity_name request_scope)"

end
