(* ===== verification/Engine.thy ===== *)
theory Engine
  imports Config Executor
begin

text \<open>
  \<^verbatim>\<open>crates/ppe-core/src/engine.rs\<close> and \<^verbatim>\<open>factory.rs\<close>: the host's handle.  It holds the runtime snapshot (registry,
  executor settings, policy document, route annotations), the factories, the routing cache and the
  lifecycle flags, and turns a hook name and a request into the list of plugins the executor runs.

  A factory and a plugin object are functions on the world.  Fresh ids come from a counter; the flags of
  the plugins taken out of rotation are a set of ids.  The order in which the hash maps of the registry
  are walked is passed in where it matters (\<open>names\<close>, \<open>hooks\<close>).  The visitor walk of \<^verbatim>\<open>load_config_yaml\<close>, logging
  and the locks are left out: every operation is one step on the state.
\<close>

definition HOOK_IDENTITY_RESOLVE :: string where
  "HOOK_IDENTITY_RESOLVE = ''identity.resolve''"

record route_cache_key =
  rk_entity_type :: string
  rk_entity_name :: string
  rk_hook_name :: string
  rk_scope :: "string option"

record annotation_key =
  ak_entity_type :: string
  ak_entity_name :: string
  ak_scope :: "string option"
  ak_hook_name :: string

record ('p, 'w) runtime_snapshot =
  sn_registry :: "('p, 'w) plugin_registry"
  sn_executor :: executor_config
  sn_policy_config :: "policy_config option"
  sn_route_cache_max_entries :: nat
  sn_route_annotations :: "(annotation_key \<times> ('p, 'w) hook_entry) list"

record 'w plugin_object =
  ob_initialize :: "'w \<Rightarrow> plugin_failure option \<times> 'w"
  ob_shutdown :: "'w \<Rightarrow> plugin_failure option \<times> 'w"

record ('p, 'w) plugin_instance =
  pn_plugin :: "'w plugin_object"
  pn_handlers :: "(string \<times> ('p, 'w) hook_handler) list"

type_synonym ('p, 'w) plugin_factory =
  "plugin_config \<Rightarrow> 'w \<Rightarrow> (plugin_failure + ('p, 'w) plugin_instance) \<times> 'w"

record ('p, 'w) engine =
  eg_runtime :: "('p, 'w) runtime_snapshot"
  eg_factories :: "string \<rightharpoonup> ('p, 'w) plugin_factory"
  eg_route_cache :: "(route_cache_key \<times> ('p, 'w) hook_entry list) list"
  eg_route_cache_full_warned :: bool
  eg_initialized :: bool
  eg_generation :: u64
  eg_objects :: "uuid \<rightharpoonup> 'w plugin_object"
  eg_next_id :: uuid
  eg_disabled :: "uuid set"

text \<open>What the engine takes from elsewhere: number formatting, the wildcard crate, the order of a set of tags.\<close>

record engine_params =
  gp_fmt :: "f64 \<Rightarrow> string"
  gp_wild :: "string \<Rightarrow> string \<Rightarrow> bool"
  gp_order :: "string fset \<Rightarrow> string list"

subsection \<open>Building an engine\<close>

record policy_engine_config =
  pec_executor :: executor_config
  pec_route_cache_max_entries :: nat

definition policy_engine_config_default :: policy_engine_config where
  "policy_engine_config_default =
     \<lparr>pec_executor = executor_config_default, pec_route_cache_max_entries = 10000\<rparr>"

definition engine_new :: "policy_engine_config \<Rightarrow> ('p, 'w) engine" where
  "engine_new config =
     \<lparr>eg_runtime = \<lparr>sn_registry = registry_new, sn_executor = pec_executor config, sn_policy_config = None,
        sn_route_cache_max_entries = pec_route_cache_max_entries config, sn_route_annotations = []\<rparr>,
      eg_factories = Map.empty, eg_route_cache = [], eg_route_cache_full_warned = False, eg_initialized = False,
      eg_generation = 0, eg_objects = Map.empty, eg_next_id = 0, eg_disabled = {}\<rparr>"

definition register_factory ::
    "string \<Rightarrow> ('p, 'w) plugin_factory \<Rightarrow> ('p, 'w) engine \<Rightarrow> ('p, 'w) engine" where
  "register_factory kind factory eng = eng\<lparr>eg_factories := (eg_factories eng)(kind \<mapsto> factory)\<rparr>"

definition mutate_runtime ::
    "(('p, 'w) runtime_snapshot \<Rightarrow> ('p, 'w) runtime_snapshot) \<Rightarrow> ('p, 'w) engine \<Rightarrow> ('p, 'w) engine" where
  "mutate_runtime f eng = eng\<lparr>eg_runtime := f (eg_runtime eng), eg_generation := eg_generation eng + 1\<rparr>"

definition try_mutate_runtime ::
    "(('p, 'w) runtime_snapshot \<Rightarrow> 'e + ('p, 'w) runtime_snapshot) \<Rightarrow> ('p, 'w) engine \<Rightarrow> 'e + ('p, 'w) engine" where
  "try_mutate_runtime f eng =
     (case f (eg_runtime eng) of
        Inl e \<Rightarrow> Inl e
      | Inr snap \<Rightarrow> Inr (eng\<lparr>eg_runtime := snap, eg_generation := eg_generation eng + 1\<rparr>))"

definition clear_routing_cache :: "('p, 'w) engine \<Rightarrow> ('p, 'w) engine" where
  "clear_routing_cache eng = eng\<lparr>eg_route_cache := [], eg_route_cache_full_warned := False\<rparr>"

text \<open>A new \<^verbatim>\<open>PluginRef\<close> takes the next id and remembers the plugin object behind it.\<close>

definition take_id :: "'w plugin_object \<Rightarrow> ('p, 'w) engine \<Rightarrow> uuid \<times> ('p, 'w) engine" where
  "take_id obj eng =
     (eg_next_id eng, eng\<lparr>eg_next_id := eg_next_id eng + 1, eg_objects := (eg_objects eng)(eg_next_id eng \<mapsto> obj)\<rparr>)"

fun instantiate_plugins_into ::
    "plugin_config list \<Rightarrow> ('p, 'w) plugin_registry \<Rightarrow> ('p, 'w) engine \<Rightarrow> 'w
     \<Rightarrow> (plugin_failure + ('p, 'w) plugin_registry) \<times> ('p, 'w) engine \<times> 'w" where
  "instantiate_plugins_into [] reg eng w = (Inr reg, eng, w)"
| "instantiate_plugins_into (pc # pcs) reg eng w =
     (case eg_factories eng (cf_kind pc) of
        None \<Rightarrow> (Inl (PF_Config (''no factory registered for plugin kind '' @ quote (cf_kind pc)
                   @ '' (plugin '' @ quote (cf_name pc) @ '')'')), eng, w)
      | Some factory \<Rightarrow>
          (case factory pc w of
             (Inl e, w') \<Rightarrow> (Inl e, eng, w')
           | (Inr inst, w') \<Rightarrow>
               (case take_id (pn_plugin inst) eng of
                  (fresh, eng') \<Rightarrow>
                    (case register_multi_handler fresh pc (pn_handlers inst) reg of
                       Inl msg \<Rightarrow> (Inl (PF_Config msg), eng', w')
                     | Inr reg' \<Rightarrow> instantiate_plugins_into pcs reg' eng' w'))))"

definition snapshot_from_config ::
    "('p, 'w) plugin_registry \<Rightarrow> policy_config \<Rightarrow> ('p, 'w) runtime_snapshot" where
  "snapshot_from_config reg config =
     \<lparr>sn_registry = reg,
      sn_executor = \<lparr>ec_timeout_seconds = pse_plugin_timeout (pcf_plugin_settings config),
                     ec_short_circuit_on_deny = pse_short_circuit_on_deny (pcf_plugin_settings config)\<rparr>,
      sn_policy_config = Some config,
      sn_route_cache_max_entries = pse_route_cache_max_entries (pcf_plugin_settings config),
      sn_route_annotations = []\<rparr>"

definition load_config ::
    "policy_config \<Rightarrow> ('p, 'w) engine \<Rightarrow> 'w \<Rightarrow> plugin_failure option \<times> ('p, 'w) engine \<times> 'w" where
  "load_config config eng w =
     (case instantiate_plugins_into (pcf_plugins config) (sn_registry (eg_runtime eng)) eng w of
        (Inl e, eng', w') \<Rightarrow> (Some e, eng', w')
      | (Inr reg, eng', w') \<Rightarrow>
          (None,
           clear_routing_cache (eng'\<lparr>eg_runtime := snapshot_from_config reg config, eg_generation := eg_generation eng' + 1\<rparr>),
           w'))"

definition from_config ::
    "policy_config \<Rightarrow> (string \<rightharpoonup> ('p, 'w) plugin_factory) \<Rightarrow> 'w \<Rightarrow> (plugin_failure + ('p, 'w) engine) \<times> 'w" where
  "from_config config factories w =
     (let eng = engine_new \<lparr>pec_executor = executor_config_default,
            pec_route_cache_max_entries = pse_route_cache_max_entries (pcf_plugin_settings config)\<rparr>
      in (case instantiate_plugins_into (pcf_plugins config) registry_new (eng\<lparr>eg_factories := factories\<rparr>) w of
            (Inl e, _, w') \<Rightarrow> (Inl e, w')
          | (Inr reg, eng', w') \<Rightarrow>
              (Inr (eng'\<lparr>eg_factories := Map.empty, eg_runtime := snapshot_from_config reg config\<rparr>), w')))"

subsection \<open>Plugins\<close>

definition register_handler_for_names ::
    "'w plugin_object \<Rightarrow> plugin_config \<Rightarrow> ('p, 'w) hook_handler \<Rightarrow> string list \<Rightarrow> ('p, 'w) engine
     \<Rightarrow> plugin_failure option \<times> ('p, 'w) engine" where
  "register_handler_for_names obj config handler names eng =
     (case take_id obj eng of
        (fresh, eng') \<Rightarrow>
          (case try_mutate_runtime (\<lambda>snap.
                  case register_for_names_inner fresh config handler names (sn_registry snap) of
                    Inl msg \<Rightarrow> Inl (PF_Config msg)
                  | Inr reg \<Rightarrow> Inr (snap\<lparr>sn_registry := reg\<rparr>)) eng' of
             Inl e \<Rightarrow> (Some e, eng')
           | Inr eng'' \<Rightarrow> (None, clear_routing_cache eng'')))"

definition unregister_plugin :: "string \<Rightarrow> ('p, 'w) engine \<Rightarrow> plugin_ref option \<times> ('p, 'w) engine" where
  "unregister_plugin name eng =
     (let removed = fst (unregister name (sn_registry (eg_runtime eng)));
          eng' = mutate_runtime (\<lambda>snap. snap\<lparr>sn_registry := snd (unregister name (sn_registry snap))\<rparr>) eng
      in (removed, if removed \<noteq> None then clear_routing_cache eng' else eng'))"

definition annotate_route ::
    "annotation_key \<Rightarrow> 'w plugin_object \<Rightarrow> ('p, 'w) hook_handler \<Rightarrow> plugin_config \<Rightarrow> ('p, 'w) engine \<Rightarrow> ('p, 'w) engine" where
  "annotate_route key obj handler config eng =
     (case take_id obj eng of
        (fresh, eng') \<Rightarrow>
          mutate_runtime (\<lambda>snap. snap\<lparr>sn_route_annotations := AList.update key
              \<lparr>he_plugin_ref = \<lparr>pr_trusted_config = config, pr_id = fresh\<rparr>, he_handler = handler\<rparr>
              (sn_route_annotations snap)\<rparr>) eng')"

definition remove_route_annotation :: "annotation_key \<Rightarrow> ('p, 'w) engine \<Rightarrow> ('p, 'w) engine" where
  "remove_route_annotation key eng =
     mutate_runtime (\<lambda>snap. snap\<lparr>sn_route_annotations := AList.delete key (sn_route_annotations snap)\<rparr>) eng"

definition entries_for_plugin ::
    "string list \<Rightarrow> ('p, 'w) plugin_registry \<Rightarrow> string \<Rightarrow> (string \<times> ('p, 'w) hook_entry) list" where
  "entries_for_plugin hooks reg name =
     concat (map (\<lambda>hook. map (Pair hook) (filter (\<lambda>e. entry_name e = name) (entries_for_hook reg hook))) hooks)"

definition find_plugin_entries ::
    "string list \<Rightarrow> string \<Rightarrow> ('p, 'w) engine \<Rightarrow> (string \<times> ('p, 'w) hook_entry) list" where
  "find_plugin_entries hooks name eng = entries_for_plugin hooks (sn_registry (eg_runtime eng)) name"

definition engine_has_hooks_for :: "string \<Rightarrow> ('p, 'w) engine \<Rightarrow> bool" where
  "engine_has_hooks_for hook eng \<longleftrightarrow>
     has_hooks_for (sn_registry (eg_runtime eng)) hook
   \<or> list_ex (\<lambda>(k, _). ak_hook_name k = hook) (sn_route_annotations (eg_runtime eng))"

subsection \<open>Overrides\<close>

definition merge_override_config :: "plugin_config \<Rightarrow> json \<Rightarrow> plugin_config" where
  "merge_override_config base overrides =
     (case json_get overrides ''config'' of
        None \<Rightarrow> base
      | Some override_config \<Rightarrow>
          base\<lparr>cf_config := Some (case cf_config base of
             None \<Rightarrow> override_config
           | Some (JObj m) \<Rightarrow>
               (case override_config of
                  JObj o' \<Rightarrow> JObj (fold (\<lambda>(k, v). btree_insert k v) o' m)
                | _ \<Rightarrow> JObj m)
           | Some v \<Rightarrow> v)\<rparr>)"

definition create_override_instance ::
    "('p, 'w) hook_entry \<Rightarrow> json \<Rightarrow> ('p, 'w) engine \<Rightarrow> 'w \<Rightarrow> ('p, 'w) hook_entry option \<times> ('p, 'w) engine \<times> 'w" where
  "create_override_instance base overrides eng w =
     (let base_config = pr_trusted_config (he_plugin_ref base);
          merged = merge_override_config base_config overrides
      in (case eg_factories eng (cf_kind base_config) of
            None \<Rightarrow> (None, eng, w)
          | Some factory \<Rightarrow>
              (case factory merged w of
                 (Inl _, w1) \<Rightarrow> (None, eng, w1)
               | (Inr inst, w1) \<Rightarrow>
                   (case find (\<lambda>(name, _). name = hh_hook_type_name (he_handler base)) (pn_handlers inst) of
                      None \<Rightarrow> (None, eng, w1)
                    | Some (_, h) \<Rightarrow>
                        (case ob_initialize (pn_plugin inst) w1 of
                           (Some _, w2) \<Rightarrow> (None, eng, w2)
                         | (None, w2) \<Rightarrow>
                             (case take_id (pn_plugin inst) eng of
                                (fresh, eng') \<Rightarrow>
                                  (Some \<lparr>he_plugin_ref = \<lparr>pr_trusted_config = merged, pr_id = fresh\<rparr>, he_handler = h\<rparr>,
                                   eng', w2)))))))"

definition build_override_entries ::
    "string list \<Rightarrow> string \<Rightarrow> (yaml \<Rightarrow> string + json) \<Rightarrow> yaml option \<Rightarrow> string fset option \<Rightarrow> on_error option
     \<Rightarrow> ('p, 'w) engine \<Rightarrow> 'w \<Rightarrow> (string \<times> ('p, 'w) hook_entry) list \<times> ('p, 'w) engine \<times> 'w" where
  "build_override_entries hooks name to_json config_override caps_override oe_override eng w =
     (case find_plugin_entries hooks name eng of
        [] \<Rightarrow> ([], eng, w)
      | base_entries \<Rightarrow>
          if config_override = None \<and> caps_override = None \<and> oe_override = None then (base_entries, eng, w)
          else
            let base_ref = he_plugin_ref (snd (hd base_entries));
                base = pr_trusted_config base_ref;
                with_caps = (case caps_override of None \<Rightarrow> base | Some caps \<Rightarrow> base\<lparr>cf_capabilities := caps\<rparr>);
                merged = (case oe_override of None \<Rightarrow> with_caps | Some oe \<Rightarrow> with_caps\<lparr>cf_on_error := oe\<rparr>)
            in (case config_override of
                  None \<Rightarrow>
                    (case take_id (unwrap_or (eg_objects eng (pr_id base_ref)) \<lparr>ob_initialize = Pair None, ob_shutdown = Pair None\<rparr>) eng of
                       (fresh, eng') \<Rightarrow>
                         (map (\<lambda>(hook, e). (hook, e\<lparr>he_plugin_ref := \<lparr>pr_trusted_config = merged, pr_id = fresh\<rparr>\<rparr>)) base_entries,
                          eng', w))
                | Some cfg \<Rightarrow>
                    (case to_json cfg of
                       Inl _ \<Rightarrow> ([], eng, w)
                     | Inr cfg_json \<Rightarrow>
                         let merged = merged\<lparr>cf_config := Some cfg_json\<rparr>
                         in (case eg_factories eng (cf_kind merged) of
                               None \<Rightarrow> ([], eng, w)
                             | Some factory \<Rightarrow>
                                 (case factory merged w of
                                    (Inl _, w1) \<Rightarrow> ([], eng, w1)
                                  | (Inr inst, w1) \<Rightarrow>
                                      (case ob_initialize (pn_plugin inst) w1 of
                                         (Some _, w2) \<Rightarrow> ([], eng, w2)
                                       | (None, w2) \<Rightarrow>
                                           (case take_id (pn_plugin inst) eng of
                                              (fresh, eng') \<Rightarrow>
                                                (map (\<lambda>(hook, h). (hook, \<lparr>he_plugin_ref = \<lparr>pr_trusted_config = merged, pr_id = fresh\<rparr>,
                                                   he_handler = h\<rparr>)) (pn_handlers inst), eng', w2))))))))"

subsection \<open>Route resolution\<close>

definition find_annotation ::
    "('p, 'w) runtime_snapshot \<Rightarrow> meta_extension \<Rightarrow> string \<Rightarrow> ('p, 'w) hook_entry option" where
  "find_annotation snap meta hook =
     (case (me_entity_type meta, me_entity_name meta) of
        (Some et, Some en) \<Rightarrow>
          (let look = (\<lambda>scope. map_of (sn_route_annotations snap)
                 \<lparr>ak_entity_type = et, ak_entity_name = en, ak_scope = scope, ak_hook_name = hook\<rparr>)
           in or_else (Option.bind (me_scope meta) (\<lambda>s. look (Some s))) (look None))
      | _ \<Rightarrow> None)"

definition resolved_for :: "engine_params \<Rightarrow> policy_config \<Rightarrow> route_cache_key \<Rightarrow> string fset \<Rightarrow> resolved_plugin list" where
  "resolved_for gp config key tags =
     (if rk_hook_name key = HOOK_IDENTITY_RESOLVE
      then resolve_identity_plugins_for_route (gp_wild gp) config (rk_entity_type key) (rk_entity_name key) (rk_scope key)
      else resolve_plugins_for_entity (gp_wild gp) (gp_order gp) config (rk_entity_type key) (rk_entity_name key)
             (rk_scope key) tags)"

fun filter_resolved ::
    "('p, 'w) hook_entry list \<Rightarrow> resolved_plugin list \<Rightarrow> ('p, 'w) engine \<Rightarrow> 'w
     \<Rightarrow> ('p, 'w) hook_entry list \<times> ('p, 'w) engine \<times> 'w" where
  "filter_resolved entries [] eng w = ([], eng, w)"
| "filter_resolved entries (rp # rps) eng w =
     (case find (\<lambda>e. entry_name e = rsp_name rp) entries of
        None \<Rightarrow> filter_resolved entries rps eng w
      | Some entry \<Rightarrow>
          (case (case rsp_config_overrides rp of
                   None \<Rightarrow> (None, eng, w)
                 | Some overrides \<Rightarrow> create_override_instance entry overrides eng w) of
             (made, eng1, w1) \<Rightarrow>
               (case filter_resolved entries rps eng1 w1 of
                  (rest, eng2, w2) \<Rightarrow> (unwrap_or made entry # rest, eng2, w2))))"

text \<open>What a request needs before the executor runs: a list at once, or a resolution to be cached.\<close>

datatype ('p, 'w) route_lookup = Ready "('p, 'w) hook_entry list" | Miss policy_config route_cache_key "string fset"

definition lookup_entries ::
    "engine_params \<Rightarrow> ('p, 'w) runtime_snapshot \<Rightarrow> (route_cache_key \<times> ('p, 'w) hook_entry list) list
     \<Rightarrow> ('p, 'w) hook_entry list \<Rightarrow> extensions \<Rightarrow> string \<Rightarrow> ('p, 'w) route_lookup" where
  "lookup_entries gp snap cache entries ext hook =
     (case (if sn_route_annotations snap = [] then None
            else Option.bind (ex_meta ext) (\<lambda>meta. find_annotation snap (snd meta) hook)) of
        Some entry \<Rightarrow> Ready [entry]
      | None \<Rightarrow>
          (case sn_policy_config snap of
             None \<Rightarrow> Ready (filter (\<lambda>e. passes_conditions (gp_fmt gp) (gp_wild gp) (pr_trusted_config (he_plugin_ref e)) ext) entries)
           | Some config \<Rightarrow>
               if \<not> routing_enabled config
               then Ready (filter (\<lambda>e. passes_conditions (gp_fmt gp) (gp_wild gp) (pr_trusted_config (he_plugin_ref e)) ext) entries)
               else
                 (case ex_meta ext of
                    None \<Rightarrow> Ready entries
                  | Some (_, meta) \<Rightarrow>
                      (case (me_entity_type meta, me_entity_name meta) of
                         (Some et, Some en) \<Rightarrow>
                           (let key = \<lparr>rk_entity_type = et, rk_entity_name = en, rk_hook_name = hook, rk_scope = me_scope meta\<rparr>
                            in (case map_of cache key of
                                  Some cached \<Rightarrow> Ready cached
                                | None \<Rightarrow> Miss config key (me_tags meta)))
                       | _ \<Rightarrow> Ready entries))))"

definition store_route ::
    "('p, 'w) runtime_snapshot \<Rightarrow> route_cache_key \<Rightarrow> ('p, 'w) hook_entry list \<Rightarrow> ('p, 'w) engine \<Rightarrow> ('p, 'w) engine" where
  "store_route snap key es eng =
     (if length (eg_route_cache eng) \<ge> sn_route_cache_max_entries snap
      then eng\<lparr>eg_route_cache_full_warned := True\<rparr>
      else eng\<lparr>eg_route_cache := AList.update key es (eg_route_cache eng)\<rparr>)"

definition filter_entries_by_route ::
    "engine_params \<Rightarrow> ('p, 'w) runtime_snapshot \<Rightarrow> ('p, 'w) hook_entry list \<Rightarrow> extensions \<Rightarrow> string \<Rightarrow> ('p, 'w) engine \<Rightarrow> 'w
     \<Rightarrow> ('p, 'w) hook_entry list \<times> ('p, 'w) engine \<times> 'w" where
  "filter_entries_by_route gp snap entries ext hook eng w =
     (case lookup_entries gp snap (eg_route_cache eng) entries ext hook of
        Ready es \<Rightarrow> (es, eng, w)
      | Miss config key tags \<Rightarrow>
          (case filter_resolved entries (resolved_for gp config key tags) eng w of
             (es, eng', w') \<Rightarrow> (es, store_route snap key es eng', w')))"

subsection \<open>Invocation\<close>

definition invoke_entries ::
    "'w runtime \<Rightarrow> ('p, 'w) hook_entry list \<Rightarrow> 'p \<Rightarrow> extensions \<Rightarrow> plugin_context_table option \<Rightarrow> ('p, 'w) engine \<Rightarrow> 'w
     \<Rightarrow> (string + 'p pipeline_result \<times> ('p, 'w) background_task list) \<times> ('p, 'w) engine \<times> 'w" where
  "invoke_entries rt es payload ext table eng w =
     (if es = [] then (Inr (allowed_with payload ext (unwrap_or table table_new), []), eng, w)
      else (case execute (sn_executor (eg_runtime eng)) rt es payload ext table (eg_disabled eng) w of
              (res, st) \<Rightarrow> (res, eng\<lparr>eg_disabled := xs_disabled st\<rparr>, xs_world st)))"

definition invoke_by_name ::
    "engine_params \<Rightarrow> 'w runtime \<Rightarrow> string \<Rightarrow> 'p \<Rightarrow> extensions \<Rightarrow> plugin_context_table option \<Rightarrow> ('p, 'w) engine \<Rightarrow> 'w
     \<Rightarrow> (string + 'p pipeline_result \<times> ('p, 'w) background_task list) \<times> ('p, 'w) engine \<times> 'w" where
  "invoke_by_name gp rt hook payload ext table eng w =
     (let snap = eg_runtime eng; all_entries = entries_for_hook (sn_registry snap) hook
      in if all_entries = [] \<and> sn_route_annotations snap = []
         then (Inr (allowed_with payload ext (unwrap_or table table_new), []), eng, w)
         else (case filter_entries_by_route gp snap all_entries ext hook eng w of
                 (es, eng', w') \<Rightarrow> invoke_entries rt es payload ext table eng' w'))"

subsection \<open>Lifecycle\<close>

fun rollback :: "('p, 'w) engine \<Rightarrow> string list \<Rightarrow> 'w \<Rightarrow> 'w" where
  "rollback eng [] w = w"
| "rollback eng (name # names) w =
     rollback eng names
       (case Option.bind (rg_plugins (sn_registry (eg_runtime eng)) name) (\<lambda>r. eg_objects eng (pr_id r)) of
          None \<Rightarrow> w
        | Some obj \<Rightarrow> snd (ob_shutdown obj w))"

fun initialize_loop :: "('p, 'w) engine \<Rightarrow> string list \<Rightarrow> string list \<Rightarrow> 'w \<Rightarrow> plugin_failure option \<times> 'w" where
  "initialize_loop eng [] started w = (None, w)"
| "initialize_loop eng (name # names) started w =
     (case Option.bind (rg_plugins (sn_registry (eg_runtime eng)) name) (\<lambda>r. eg_objects eng (pr_id r)) of
        None \<Rightarrow> initialize_loop eng names started w
      | Some obj \<Rightarrow>
          (case ob_initialize obj w of
             (Some e, w') \<Rightarrow>
               (Some (PF_Execution name (''initialization failed: '' @ failure_text e) (Some (failure_text e)) None Map.empty None),
                rollback eng (rev started) w')
           | (None, w') \<Rightarrow> initialize_loop eng names (started @ [name]) w'))"

definition initialize ::
    "string list \<Rightarrow> ('p, 'w) engine \<Rightarrow> 'w \<Rightarrow> plugin_failure option \<times> ('p, 'w) engine \<times> 'w" where
  "initialize names eng w =
     (if eg_initialized eng then (None, eng, w)
      else (case initialize_loop eng names [] w of
              (Some e, w') \<Rightarrow> (Some e, eng, w')
            | (None, w') \<Rightarrow> (None, eng\<lparr>eg_initialized := True\<rparr>, w')))"

definition shutdown :: "string list \<Rightarrow> ('p, 'w) engine \<Rightarrow> 'w \<Rightarrow> ('p, 'w) engine \<times> 'w" where
  "shutdown names eng w =
     (if \<not> eg_initialized eng then (eng, w)
      else (eng\<lparr>eg_initialized := False\<rparr>, rollback eng names w))"

end
