(* ===== verification/Config_Props.thy ===== *)
theory Config_Props
  imports Config
begin

text \<open>
  What the resolution of a policy document guarantees: the route that matches, the plugins every request
  of an entity gets, and what an accepted document satisfies.
\<close>

subsection \<open>Accepted documents\<close>

lemma duplicate_name_None: "duplicate_name known ns = None \<longleftrightarrow> distinct ns \<and> set ns \<inter> set known = {}"
  by (induction ns arbitrary: known) auto

lemma first_error_None: "first_error es = None \<longleftrightarrow> set es \<subseteq> {None}"
  by (induction es rule: first_error.induct) auto

lemma unknown_ref_None: "unknown_ref names refs = None \<longleftrightarrow> ref_name ` set refs \<subseteq> set names"
  by (auto simp: unknown_ref_def find_None_iff)

definition refs_known :: "policy_config \<Rightarrow> plugin_route_ref list \<Rightarrow> bool" where
  "refs_known config refs \<longleftrightarrow> ref_name ` set refs \<subseteq> cf_name ` set (pcf_plugins config)"

definition route_ok :: "policy_config \<Rightarrow> route_entry \<Rightarrow> bool" where
  "route_ok config route \<longleftrightarrow> matcher_count route = 1 \<and> refs_known config (re_plugins route)
     \<and> (\<forall>groups. re_groups route = Some groups \<longrightarrow> (\<forall>n \<in> set (as_names groups). policy_of config n \<noteq> None))"

lemma validate_route_None:
  "validate_route config (map cf_name (pcf_plugins config)) i route = None \<longleftrightarrow> route_ok config route"
proof -
  have refs: "unknown_ref (map cf_name (pcf_plugins config)) (re_plugins route) = None \<longleftrightarrow> refs_known config (re_plugins route)"
    by (simp add: unknown_ref_None refs_known_def)
  show ?thesis
  proof (cases "matcher_count route = 1 \<and> refs_known config (re_plugins route)")
    case True
    then show ?thesis
      by (auto simp: validate_route_def route_ok_def refs [THEN iffD2] find_None_iff split: option.split)
  next
    case False
    then show ?thesis
      using refs by (auto simp: validate_route_def route_ok_def split: option.split)
  qed
qed

lemma validate_routes_None:
  "set (map (\<lambda>(i, r). validate_route config (map cf_name (pcf_plugins config)) i r) (enumerate 0 (pcf_routes config))) \<subseteq> {None}
   \<longleftrightarrow> (\<forall>route \<in> set (pcf_routes config). route_ok config route)"
proof -
  have "(\<lambda>(i, r). validate_route config (map cf_name (pcf_plugins config)) i r) ` set (enumerate 0 (pcf_routes config)) \<subseteq> {None}
      \<longleftrightarrow> (\<forall>p \<in> set (enumerate 0 (pcf_routes config)). route_ok config (snd p))"
    by (simp add: image_subset_iff case_prod_beta validate_route_None)
  also have "\<dots> \<longleftrightarrow> (\<forall>route \<in> snd ` set (enumerate 0 (pcf_routes config)). route_ok config route)" by simp
  finally show ?thesis by (simp flip: set_map)
qed

text \<open>Exactly these documents pass the check.\<close>

lemma validate_config_None:
  "validate_config config = None \<longleftrightarrow>
     distinct (map cf_name (pcf_plugins config))
   \<and> (routing_enabled config \<longrightarrow>
        (\<forall>route \<in> set (pcf_routes config). route_ok config route)
      \<and> (\<forall>(n, g) \<in> set (gc_policies (pcf_global config)). refs_known config (pg_plugins g)))"
proof -
  have groups: "set (map (\<lambda>(n, g). map_option (f n) (unknown_ref (map cf_name (pcf_plugins config)) (pg_plugins g))) gs) \<subseteq> {None}
     \<longleftrightarrow> (\<forall>(n, g) \<in> set gs. refs_known config (pg_plugins g))" for f :: "string \<Rightarrow> string \<Rightarrow> string" and gs
    by (auto simp: unknown_ref_None refs_known_def image_subset_iff)
  have errors: "first_error (map (\<lambda>(i, r). validate_route config (map cf_name (pcf_plugins config)) i r) (enumerate 0 (pcf_routes config))
      @ map (\<lambda>(n, g). map_option (f n) (unknown_ref (map cf_name (pcf_plugins config)) (pg_plugins g))) gs) = None
    \<longleftrightarrow> (\<forall>route \<in> set (pcf_routes config). route_ok config route) \<and> (\<forall>(n, g) \<in> set gs. refs_known config (pg_plugins g))"
    for f :: "string \<Rightarrow> string \<Rightarrow> string" and gs
    unfolding first_error_None set_append Un_subset_iff validate_routes_None groups ..
  have dup: "duplicate_name [] (map cf_name (pcf_plugins config)) = None \<longleftrightarrow> distinct (map cf_name (pcf_plugins config))"
    by (simp add: duplicate_name_None)
  show ?thesis
  proof (cases "duplicate_name [] (map cf_name (pcf_plugins config))")
    case None
    with dup have d: "distinct (map cf_name (pcf_plugins config))" by simp
    show ?thesis
      unfolding validate_config_def Let_def None option.case
      by (cases "routing_enabled config") (simp_all only: errors d simp_thms if_True if_False)
  qed (use dup in \<open>simp add: validate_config_def\<close>)
qed

subsection \<open>The matching route\<close>

definition outranks :: "nat \<Rightarrow> nat option \<Rightarrow> bool" where
  "outranks s t \<longleftrightarrow> (case t of None \<Rightarrow> True | Some x \<Rightarrow> x < s)"

definition at_least :: "nat \<Rightarrow> nat option \<Rightarrow> bool" where
  "at_least s t \<longleftrightarrow> (case t of None \<Rightarrow> True | Some x \<Rightarrow> x \<le> s)"

lemma outranks_at_least: "outranks s t \<Longrightarrow> at_least s t"
  by (simp add: outranks_def at_least_def split: option.splits)

text \<open>The loop keeps the first of the best routes.\<close>

lemma best_route_keeps:
  "best_route score (Some (s, r)) routes = Some (s', r') \<Longrightarrow>
     (s' = s \<and> r' = r \<and> (\<forall>q \<in> set routes. at_least s (score q)))
   \<or> (s < s' \<and> (\<exists>pre post. routes = pre @ r' # post \<and> score r' = Some s'
        \<and> (\<forall>q \<in> set pre. outranks s' (score q)) \<and> (\<forall>q \<in> set post. at_least s' (score q))))"
proof (induction routes arbitrary: s r)
  case (Cons q routes)
  show ?case
  proof (cases "\<exists>t. score q = Some t \<and> s < t")
    case True
    then obtain t where t: "score q = Some t" "s < t" by blast
    with Cons.prems have "best_route score (Some (t, q)) routes = Some (s', r')" by simp
    from Cons.IH [OF this] consider "s' = t" "r' = q" "\<forall>q \<in> set routes. at_least t (score q)"
      | pre post where "t < s'" "routes = pre @ r' # post" "score r' = Some s'"
        "\<forall>q \<in> set pre. outranks s' (score q)" "\<forall>q \<in> set post. at_least s' (score q)" by blast
    then show ?thesis
    proof cases
      case 1
      with t show ?thesis by (intro disjI2 conjI exI [of _ "[]"] exI [of _ routes]) auto
    next
      case 2
      with t show ?thesis
        by (intro disjI2 conjI exI [of _ "q # pre"] exI [of _ post]) (auto simp: outranks_def)
    qed
  next
    case False
    then have "best_route score (Some (s, r)) (q # routes) = best_route score (Some (s, r)) routes"
      and q: "at_least s (score q)"
      by (auto simp: at_least_def split: option.split)
    with Cons have "(s' = s \<and> r' = r \<and> (\<forall>q \<in> set routes. at_least s (score q)))
      \<or> (s < s' \<and> (\<exists>pre post. routes = pre @ r' # post \<and> score r' = Some s'
        \<and> (\<forall>q \<in> set pre. outranks s' (score q)) \<and> (\<forall>q \<in> set post. at_least s' (score q))))" by simp
    then show ?thesis
    proof (elim disjE conjE exE)
      fix pre post
      assume "s < s'" "routes = pre @ r' # post" "score r' = Some s'"
        "\<forall>q \<in> set pre. outranks s' (score q)" "\<forall>q \<in> set post. at_least s' (score q)"
      then show ?thesis using q
        by (intro disjI2 conjI exI [of _ "q # pre"] exI [of _ post]) (auto simp: outranks_def at_least_def split: option.splits)
    qed (use q in auto)
  qed
qed simp

lemma best_route_None: "best_route score None routes = None \<longleftrightarrow> (\<forall>q \<in> set routes. score q = None)"
proof (induction routes)
  case (Cons q routes)
  have "best_route score (Some x) rs \<noteq> None" for x rs
    by (induction rs arbitrary: x) (auto split: option.split)
  with Cons show ?case by (auto split: option.split)
qed simp

lemma best_route_Some:
  assumes "best_route score None routes = Some (s, r)"
  shows "\<exists>pre post. routes = pre @ r # post \<and> score r = Some s
    \<and> (\<forall>q \<in> set pre. outranks s (score q)) \<and> (\<forall>q \<in> set post. at_least s (score q))"
  using assms
proof (induction routes)
  case (Cons q routes)
  show ?case
  proof (cases "score q")
    case None
    with Cons obtain pre post where "routes = pre @ r # post" "score r = Some s"
      "\<forall>q \<in> set pre. outranks s (score q)" "\<forall>q \<in> set post. at_least s (score q)" by auto
    with None show ?thesis by (intro exI [of _ "q # pre"] exI [of _ post]) (auto simp: outranks_def)
  next
    case (Some t)
    with Cons.prems have "best_route score (Some (t, q)) routes = Some (s, r)" by simp
    from best_route_keeps [OF this] consider "s = t" "r = q" "\<forall>q \<in> set routes. at_least t (score q)"
      | pre post where "t < s" "routes = pre @ r # post" "score r = Some s"
        "\<forall>q \<in> set pre. outranks s (score q)" "\<forall>q \<in> set post. at_least s (score q)" by blast
    then show ?thesis
    proof cases
      case 1
      with Some show ?thesis by (intro exI [of _ "[]"] exI [of _ routes]) auto
    next
      case 2
      with Some show ?thesis by (intro exI [of _ "q # pre"] exI [of _ post]) (auto simp: outranks_def)
    qed
  qed
qed simp

text \<open>The route found is the first among those with the highest score.\<close>

lemma find_matching_route_Some:
  assumes "find_matching_route wild config et en scope = Some r"
  shows "\<exists>pre post s. pcf_routes config = pre @ r # post \<and> route_score wild r et en scope = Some s
    \<and> (\<forall>q \<in> set pre. outranks s (route_score wild q et en scope))
    \<and> (\<forall>q \<in> set post. at_least s (route_score wild q et en scope))"
proof -
  from assms obtain s where "best_route (\<lambda>r. route_score wild r et en scope) None (pcf_routes config) = Some (s, r)"
    by (auto simp: find_matching_route_def)
  from best_route_Some [OF this] show ?thesis by blast
qed

lemma find_matching_route_None:
  "find_matching_route wild config et en scope = None \<longleftrightarrow> (\<forall>r \<in> set (pcf_routes config). route_score wild r et en scope = None)"
  by (simp add: find_matching_route_def best_route_None)

text \<open>A route with a scope applies to requests of that scope only.\<close>

lemma route_score_scope:
  "route_score wild r et en scope \<noteq> None \<Longrightarrow> Option.bind (re_meta r) rmt_scope \<in> {None, scope}"
  by (auto simp: route_score_def scope_bonus_def split: option.splits if_splits)

subsection \<open>The plugins of an entity\<close>

text \<open>A reference definition of the deduplication: of several entries with one name the last stays.\<close>

fun last_by_name :: "resolved_plugin list \<Rightarrow> resolved_plugin list" where
  "last_by_name [] = []"
| "last_by_name (rp # rps) =
     (if rsp_name rp \<in> rsp_name ` set rps then last_by_name rps else rp # last_by_name rps)"

lemma keep_last_snoc:
  "keep_last (rps @ [rp]) known acc =
     (if rsp_name rp \<in> set known \<union> rsp_name ` set rps then keep_last rps known acc else keep_last rps known acc @ [rp])"
  by (induction rps known acc rule: keep_last.induct) auto

lemma dedup_resolved_eq: "dedup_resolved rps = last_by_name rps"
  by (induction rps) (auto simp: dedup_resolved_def keep_last_snoc)

lemma names_last_by_name [simp]: "rsp_name ` set (last_by_name rps) = rsp_name ` set rps"
  by (induction rps) auto

lemma set_last_by_name: "set (last_by_name rps) \<subseteq> set rps"
  by (induction rps) auto

lemma distinct_last_by_name: "distinct (map rsp_name (last_by_name rps))"
proof (induction rps)
  case (Cons rp rps)
  have "rsp_name rp \<notin> rsp_name ` set (last_by_name rps)" if "rsp_name rp \<notin> rsp_name ` set rps"
    using that names_last_by_name [of rps] by blast
  with Cons show ?case by (simp del: names_last_by_name)
qed simp

lemma last_by_name_append:
  "distinct (map rsp_name ys) \<Longrightarrow>
   last_by_name (xs @ ys) = filter (\<lambda>rp. rsp_name rp \<notin> rsp_name ` set ys) (last_by_name xs) @ ys"
proof (induction xs)
  case Nil
  then show ?case by (induction ys) auto
qed auto

text \<open>The names a request of an entity resolves to, layer by layer.\<close>

definition refs_names :: "plugin_route_ref list \<Rightarrow> string set" where
  "refs_names refs = ref_name ` set refs"

definition tag_names :: "policy_config \<Rightarrow> string set \<Rightarrow> string set" where
  "tag_names config tags = (\<Union>t \<in> tags - {''all''}. refs_names (group_refs (policy_of config t)))"

definition static_names ::
    "(string \<Rightarrow> string \<Rightarrow> bool) \<Rightarrow> policy_config \<Rightarrow> string \<Rightarrow> string \<Rightarrow> string option \<Rightarrow> string set" where
  "static_names wild config et en scope =
     refs_names (group_refs (policy_of config ''all''))
   \<union> refs_names (group_refs (map_of (gc_defaults (pcf_global config)) et))
   \<union> (case find_matching_route wild config et en scope of
        None \<Rightarrow> {}
      | Some r \<Rightarrow> tag_names config (set (route_static_tags r)) \<union> refs_names (re_plugins r))"

definition runtime_names ::
    "(string \<Rightarrow> string \<Rightarrow> bool) \<Rightarrow> policy_config \<Rightarrow> string \<Rightarrow> string \<Rightarrow> string option \<Rightarrow> string fset \<Rightarrow> string set" where
  "runtime_names wild config et en scope tags =
     (case find_matching_route wild config et en scope of None \<Rightarrow> {} | Some r \<Rightarrow> tag_names config (fset tags))"

lemma names_collect: "rsp_name ` set (collect_plugin_refs refs rs when) = rsp_name ` set rs \<union> refs_names refs"
  by (simp add: collect_plugin_refs_def refs_names_def image_Un image_image)

lemma names_fold_tags:
  "rsp_name ` set (fold (\<lambda>tag r. if tag = ''all'' then r else collect_plugin_refs (group_refs (policy_of config tag)) r None) tags rs)
   = rsp_name ` set rs \<union> tag_names config (set tags)"
  by (induction tags arbitrary: rs) (auto simp: names_collect tag_names_def)

text \<open>The order in which a set of tags is walked may be any enumeration of it.\<close>

definition enumerates :: "(string fset \<Rightarrow> string list) \<Rightarrow> bool" where
  "enumerates order \<longleftrightarrow> (\<forall>s. set (order s) = fset s)"

lemma resolve_layers_names:
  assumes "enumerates order"
  shows "rsp_name ` set (resolve_layers wild order config et en scope tags) =
    static_names wild config et en scope \<union> runtime_names wild config et en scope tags"
proof (cases "find_matching_route wild config et en scope")
  case None
  then show ?thesis
    by (simp add: resolve_layers_def Let_def names_collect static_names_def runtime_names_def)
next
  case (Some r)
  have "tag_names config (set (order (tags |\<union>| fset_of_list (route_static_tags r)))) =
      tag_names config (set (route_static_tags r)) \<union> tag_names config (fset tags)"
    using assms by (auto simp: enumerates_def tag_names_def fset_of_list.rep_eq)
  with Some show ?thesis
    by (auto simp: resolve_layers_def Let_def names_collect names_fold_tags static_names_def runtime_names_def)
qed

lemma resolve_plugins_names:
  assumes "enumerates order" "routing_enabled config"
  shows "rsp_name ` set (resolve_plugins_for_entity wild order config et en scope tags) =
      static_names wild config et en scope \<union> runtime_names wild config et en scope tags"
    and "distinct (map rsp_name (resolve_plugins_for_entity wild order config et en scope tags))"
  using assms distinct_last_by_name
  by (simp_all add: resolve_plugins_for_entity_def dedup_resolved_eq resolve_layers_names)

text \<open>The route's own references come last, so their overrides win.\<close>

lemma resolve_plugins_route_wins:
  assumes "routing_enabled config" "find_matching_route wild config et en scope = Some r"
    and "distinct (map ref_name (re_plugins r))"
  shows "\<exists>pre. resolve_plugins_for_entity wild order config et en scope tags =
    pre @ map (\<lambda>p. \<lparr>rsp_name = ref_name p, rsp_config_overrides = ref_overrides p, rsp_when = re_when r\<rparr>) (re_plugins r)"
  using assms
  by (auto simp: resolve_plugins_for_entity_def resolve_layers_def Let_def dedup_resolved_eq collect_plugin_refs_def
      last_by_name_append o_def)

end
