(* ===== verification/Engine_Props.thy ===== *)
theory Engine_Props
  imports Engine Config_Props
begin

text \<open>
  What the engine guarantees about the plugins of a request.  The invariant \<open>cache_ok\<close> says that the routing
  cache only holds resolutions against the current snapshot; the engines a host can reach by the
  operations, one after the other, are the inductive predicate \<open>engine_reachable\<close>.
\<close>

subsection \<open>Resolution\<close>

text \<open>The parts of an engine a resolution leaves alone.\<close>

definition same_routing :: "('p, 'w) engine \<Rightarrow> ('p, 'w) engine \<Rightarrow> bool" where
  "same_routing eng eng' \<longleftrightarrow> eg_runtime eng' = eg_runtime eng \<and> eg_route_cache eng' = eg_route_cache eng
     \<and> eg_factories eng' = eg_factories eng \<and> eg_generation eng' = eg_generation eng"

lemma same_routing_refl [simp]: "same_routing eng eng"
  by (simp add: same_routing_def)

lemma same_routing_trans: "same_routing a b \<Longrightarrow> same_routing b c \<Longrightarrow> same_routing a c"
  by (simp add: same_routing_def)

lemma take_id_same: "same_routing eng (snd (take_id obj eng))"
  by (simp add: take_id_def same_routing_def)

lemma merge_override_config_name [simp]: "cf_name (merge_override_config base overrides) = cf_name base"
  by (simp add: merge_override_config_def split: option.split)

lemma create_override_instance_spec:
  assumes "create_override_instance base overrides eng w = (made, eng', w')"
  shows "same_routing eng eng' \<and> (\<forall>e. made = Some e \<longrightarrow> entry_name e = entry_name base)"
  using assms take_id_same [of eng]
  by (auto simp: create_override_instance_def Let_def take_id_def same_routing_def split: option.splits sum.splits prod.splits)

definition known_names :: "('p, 'w) hook_entry list \<Rightarrow> resolved_plugin list \<Rightarrow> string list" where
  "known_names entries rps = filter (\<lambda>n. n \<in> entry_name ` set entries) (map rsp_name rps)"

lemma find_entry:
  "find (\<lambda>e. entry_name e = n) entries = None \<longleftrightarrow> n \<notin> entry_name ` set entries"
  "find (\<lambda>e. entry_name e = n) entries = Some e \<Longrightarrow> entry_name e = n \<and> e \<in> set entries"
  by (auto simp: find_None_iff find_Some_iff)

lemma filter_resolved_spec:
  assumes "filter_resolved entries rps eng w = (es, eng', w')"
  shows "map entry_name es = known_names entries rps \<and> same_routing eng eng'"
  using assms
proof (induction entries rps eng w arbitrary: es eng' w' rule: filter_resolved.induct)
  case (1 entries eng w)
  then show ?case by (simp add: known_names_def)
next
  case (2 entries rp rps eng w)
  show ?case
  proof (cases "find (\<lambda>e. entry_name e = rsp_name rp) entries")
    case None
    then show ?thesis using 2 find_entry(1) [of "rsp_name rp" entries] by (simp add: known_names_def)
  next
    case (Some entry)
    note found = find_entry(2) [OF Some]
    obtain made eng1 w1 where made: "(case rsp_config_overrides rp of None \<Rightarrow> (None, eng, w)
        | Some overrides \<Rightarrow> create_override_instance entry overrides eng w) = (made, eng1, w1)" by (metis prod_cases3)
    obtain rest eng2 w2 where rest: "filter_resolved entries rps eng1 w1 = (rest, eng2, w2)" by (metis prod_cases3)
    have step: "same_routing eng eng1 \<and> (\<forall>e. made = Some e \<longrightarrow> entry_name e = entry_name entry)"
      using made create_override_instance_spec [of entry _ eng w made eng1 w1] by (auto split: option.splits)
    have ih: "map entry_name rest = known_names entries rps \<and> same_routing eng1 eng2"
      using "2.IH"(2) [OF Some made [symmetric] refl] rest by simp
    have "entry_name (unwrap_or made entry) = rsp_name rp" using step found by (cases made) auto
    moreover have "es = unwrap_or made entry # rest" "eng' = eng2"
      using "2.prems" Some made rest by auto
    moreover have "rsp_name rp \<in> entry_name ` set entries" using found by force
    ultimately show ?thesis using ih step same_routing_trans [of eng eng1 eng2] by (auto simp: known_names_def)
  qed
qed

subsection \<open>The cache\<close>

definition route_entries_ok ::
    "engine_params \<Rightarrow> ('p, 'w) runtime_snapshot \<Rightarrow> route_cache_key \<Rightarrow> ('p, 'w) hook_entry list \<Rightarrow> bool" where
  "route_entries_ok gp snap key es \<longleftrightarrow>
     (\<exists>config tags. sn_policy_config snap = Some config \<and> routing_enabled config
        \<and> map entry_name es = known_names (entries_for_hook (sn_registry snap) (rk_hook_name key)) (resolved_for gp config key tags))"

definition cache_ok :: "engine_params \<Rightarrow> ('p, 'w) engine \<Rightarrow> bool" where
  "cache_ok gp eng \<longleftrightarrow>
     (\<forall>(key, es) \<in> set (eg_route_cache eng). route_entries_ok gp (eg_runtime eng) key es)"

lemma cache_ok_cleared [simp]: "cache_ok gp (clear_routing_cache eng)"
  by (simp add: cache_ok_def clear_routing_cache_def)

lemma cache_ok_cong:
  "eg_route_cache eng' = eg_route_cache eng \<Longrightarrow> sn_registry (eg_runtime eng') = sn_registry (eg_runtime eng) \<Longrightarrow>
   sn_policy_config (eg_runtime eng') = sn_policy_config (eg_runtime eng) \<Longrightarrow> cache_ok gp eng' = cache_ok gp eng"
  by (simp add: cache_ok_def route_entries_ok_def)

lemma same_routing_cache_ok: "same_routing eng eng' \<Longrightarrow> cache_ok gp eng' = cache_ok gp eng"
  by (rule cache_ok_cong) (simp_all add: same_routing_def)

lemma set_alist_update: "set (AList.update k v m) \<subseteq> insert (k, v) (set m)"
  by (induction m) auto

lemma store_route_cache_ok:
  assumes "cache_ok gp eng" "route_entries_ok gp (eg_runtime eng) key es"
  shows "cache_ok gp (store_route snap key es eng)"
  using assms set_alist_update [of key es "eg_route_cache eng"]
  by (fastforce simp: cache_ok_def store_route_def)

lemma lookup_entries_Miss:
  assumes "lookup_entries gp snap cache entries ext hook = Miss config key tags"
  shows "sn_policy_config snap = Some config \<and> routing_enabled config \<and> rk_hook_name key = hook"
  using assms
  by (auto simp: lookup_entries_def Let_def split: option.splits if_splits prod.splits)

lemma filter_entries_cache_ok:
  assumes "filter_entries_by_route gp (eg_runtime eng) (entries_for_hook (sn_registry (eg_runtime eng)) hook) ext hook eng w
      = (es, eng', w')" "cache_ok gp eng"
  shows "cache_ok gp eng' \<and> eg_runtime eng' = eg_runtime eng"
proof (cases "lookup_entries gp (eg_runtime eng) (eg_route_cache eng) (entries_for_hook (sn_registry (eg_runtime eng)) hook) ext hook")
  case (Ready es')
  with assms show ?thesis by (simp add: filter_entries_by_route_def)
next
  case (Miss config key tags)
  note miss = lookup_entries_Miss [OF Miss]
  obtain es1 eng1 w1 where res: "filter_resolved (entries_for_hook (sn_registry (eg_runtime eng)) hook)
      (resolved_for gp config key tags) eng w = (es1, eng1, w1)" by (metis prod_cases3)
  note spec = filter_resolved_spec [OF res]
  have "eng' = store_route (eg_runtime eng) key es1 eng1"
    using assms(1) Miss res by (auto simp: filter_entries_by_route_def)
  moreover have "route_entries_ok gp (eg_runtime eng1) key es1"
    using spec miss by (auto simp: route_entries_ok_def same_routing_def)
  moreover have "cache_ok gp eng1" using spec assms(2) same_routing_cache_ok by blast
  moreover have "eg_runtime (store_route (eg_runtime eng) key es1 eng1) = eg_runtime eng"
    using spec by (simp add: store_route_def same_routing_def)
  ultimately show ?thesis by (simp add: store_route_cache_ok)
qed


subsection \<open>Engines a host can reach\<close>

text \<open>
  Sequences of the operations on the engine's routing state, one after the other; what a factory or a plugin does
  is arbitrary.
\<close>

inductive engine_reachable :: "engine_params \<Rightarrow> ('p, 'w) engine \<Rightarrow> bool" for gp where
  new: "engine_reachable gp (engine_new config)"
| factory: "engine_reachable gp eng \<Longrightarrow> engine_reachable gp (register_factory kind f eng)"
| load: "engine_reachable gp eng \<Longrightarrow> load_config config eng w = (res, eng', w') \<Longrightarrow> engine_reachable gp eng'"
| register: "engine_reachable gp eng \<Longrightarrow> register_handler_for_names obj config h names eng = (res, eng')
    \<Longrightarrow> engine_reachable gp eng'"
| unregister: "engine_reachable gp eng \<Longrightarrow> unregister_plugin name eng = (res, eng') \<Longrightarrow> engine_reachable gp eng'"
| annotate: "engine_reachable gp eng \<Longrightarrow> engine_reachable gp (annotate_route key obj h config eng)"
| remove: "engine_reachable gp eng \<Longrightarrow> engine_reachable gp (remove_route_annotation key eng)"
| clear: "engine_reachable gp eng \<Longrightarrow> engine_reachable gp (clear_routing_cache eng)"
| overrides: "engine_reachable gp eng \<Longrightarrow> build_override_entries hooks name tj co cap oe eng w = (es, eng', w')
    \<Longrightarrow> engine_reachable gp eng'"
| start: "engine_reachable gp eng \<Longrightarrow> initialize names eng w = (res, eng', w') \<Longrightarrow> engine_reachable gp eng'"
| stop: "engine_reachable gp eng \<Longrightarrow> shutdown names eng w = (eng', w') \<Longrightarrow> engine_reachable gp eng'"
| invoke: "engine_reachable gp eng \<Longrightarrow> invoke_by_name gp rt hook payload ext table eng w = (res, eng', w')
    \<Longrightarrow> engine_reachable gp eng'"
| entries: "engine_reachable gp eng \<Longrightarrow> invoke_entries rt es payload ext table eng w = (res, eng', w')
    \<Longrightarrow> engine_reachable gp eng'"

lemma instantiate_same:
  "instantiate_plugins_into pcs reg eng w = (res, eng', w') \<Longrightarrow> same_routing eng eng'"
proof (induction pcs reg eng w arbitrary: res eng' w' rule: instantiate_plugins_into.induct)
  case (2 pc pcs reg eng w)
  show ?case
  proof (cases "eg_factories eng (cf_kind pc)")
    case None
    with "2.prems" show ?thesis by simp
  next
    case (Some factory)
    obtain made w1 where made: "factory pc w = (made, w1)" by force
    show ?thesis
    proof (cases made)
      case (Inl e)
      with "2.prems" Some made show ?thesis by simp
    next
      case (Inr inst)
      obtain fresh eng1 where id: "take_id (pn_plugin inst) eng = (fresh, eng1)" by force
      have "same_routing eng eng1" using take_id_same [of eng "pn_plugin inst"] id by simp
      moreover have "same_routing eng1 eng'"
      proof (cases "register_multi_handler fresh pc (pn_handlers inst) reg")
        case (Inl msg)
        with "2.prems" Some made \<open>made = Inr inst\<close> id show ?thesis by simp
      next
        case reg: (Inr reg')
        show ?thesis
          using "2.IH" [OF Some made [symmetric] Inr id [symmetric] reg] "2.prems" Some made Inr id reg by simp
      qed
      ultimately show ?thesis by (rule same_routing_trans)
    qed
  qed
qed simp

lemma load_config_cache_ok: "load_config config eng w = (res, eng', w') \<Longrightarrow> cache_ok gp eng \<Longrightarrow> cache_ok gp eng'"
  using instantiate_same [of "pcf_plugins config" "sn_registry (eg_runtime eng)" eng w]
  by (auto simp: load_config_def same_routing_cache_ok split: prod.splits sum.splits)

lemma register_cache_ok:
  "register_handler_for_names obj config h names eng = (res, eng') \<Longrightarrow> cache_ok gp eng \<Longrightarrow> cache_ok gp eng'"
  using take_id_same [of eng obj]
  by (auto simp: register_handler_for_names_def try_mutate_runtime_def same_routing_cache_ok split: prod.splits sum.splits)

lemma unregister_cache_ok:
  assumes "unregister_plugin name eng = (res, eng')" "cache_ok gp eng"
  shows "cache_ok gp eng'"
proof (cases "rg_plugins (sn_registry (eg_runtime eng)) name")
  case None
  then have "cache_ok gp eng' = cache_ok gp eng"
    using assms(1) by (intro cache_ok_cong) (auto simp: unregister_plugin_def unregister_def mutate_runtime_def)
  with assms(2) show ?thesis by simp
next
  case (Some r)
  with assms(1) show ?thesis by (auto simp: unregister_plugin_def unregister_def Let_def)
qed

lemma annotate_cache_ok:
  "cache_ok gp (annotate_route key obj h config eng) = cache_ok gp eng"
  "cache_ok gp (remove_route_annotation key eng) = cache_ok gp eng"
  by (rule cache_ok_cong; simp add: annotate_route_def remove_route_annotation_def mutate_runtime_def take_id_def)+

lemma overrides_cache_ok:
  assumes "build_override_entries hooks name tj co cap oe eng w = (es, eng', w')" "cache_ok gp eng"
  shows "cache_ok gp eng'"
proof -
  have "same_routing eng eng'"
    using assms(1)
    by (auto simp: build_override_entries_def Let_def take_id_def same_routing_def
        split: list.splits option.splits sum.splits prod.splits if_splits)
  with assms(2) show ?thesis by (simp add: same_routing_cache_ok)
qed

lemma invoke_entries_cache_ok:
  assumes "invoke_entries rt es payload ext table eng w = (res, eng', w')" "cache_ok gp eng"
  shows "cache_ok gp eng'"
proof -
  have "cache_ok gp eng' = cache_ok gp eng"
    using assms(1) by (intro cache_ok_cong) (auto simp: invoke_entries_def split: prod.splits if_splits)
  with assms(2) show ?thesis by simp
qed

lemma invoke_cache_ok:
  assumes "invoke_by_name gp rt hook payload ext table eng w = (res, eng', w')" "cache_ok gp eng"
  shows "cache_ok gp eng'"
proof (cases "entries_for_hook (sn_registry (eg_runtime eng)) hook = [] \<and> sn_route_annotations (eg_runtime eng) = []")
  case True
  with assms show ?thesis by (simp add: invoke_by_name_def)
next
  case False
  obtain es eng1 w1 where f: "filter_entries_by_route gp (eg_runtime eng)
      (entries_for_hook (sn_registry (eg_runtime eng)) hook) ext hook eng w = (es, eng1, w1)" by (metis prod_cases3)
  have "invoke_entries rt es payload ext table eng1 w1 = (res, eng', w')"
    using assms(1) False f by (auto simp: invoke_by_name_def)
  moreover have "cache_ok gp eng1" using filter_entries_cache_ok [OF f assms(2)] ..
  ultimately show ?thesis by (rule invoke_entries_cache_ok)
qed

lemma lifecycle_cache_ok:
  "initialize names eng w = (res, eng', w') \<Longrightarrow> cache_ok gp eng' = cache_ok gp eng"
  "shutdown names eng w = (eng', w') \<Longrightarrow> cache_ok gp eng' = cache_ok gp eng"
  by (rule cache_ok_cong; auto simp: initialize_def shutdown_def split: if_splits prod.splits option.splits)+

lemma engine_reachable_cache_ok: "engine_reachable gp eng \<Longrightarrow> cache_ok gp eng"
proof (induction rule: engine_reachable.induct)
  case (new config)
  then show ?case by (simp add: cache_ok_def engine_new_def)
next
  case (factory eng kind f)
  then show ?case using cache_ok_cong [of "register_factory kind f eng" eng] by (simp add: register_factory_def)
qed (auto simp: annotate_cache_ok lifecycle_cache_ok
    intro: load_config_cache_ok register_cache_ok unregister_cache_ok overrides_cache_ok invoke_cache_ok
      invoke_entries_cache_ok)

subsection \<open>The plugins of a request\<close>

text \<open>A request that is routed: an entity, a document with routing, and no annotation in the way.\<close>

definition routed_request ::
    "('p, 'w) engine \<Rightarrow> extensions \<Rightarrow> string \<Rightarrow> policy_config \<Rightarrow> route_cache_key \<Rightarrow> string fset \<Rightarrow> bool" where
  "routed_request eng ext hook config key tags \<longleftrightarrow>
     sn_policy_config (eg_runtime eng) = Some config \<and> routing_enabled config
   \<and> (\<exists>a meta et en. ex_meta ext = Some (a, meta) \<and> me_entity_type meta = Some et \<and> me_entity_name meta = Some en
        \<and> me_tags meta = tags \<and> find_annotation (eg_runtime eng) meta hook = None
        \<and> key = \<lparr>rk_entity_type = et, rk_entity_name = en, rk_hook_name = hook, rk_scope = me_scope meta\<rparr>)"

lemma lookup_entries_routed:
  assumes "routed_request eng ext hook config key tags"
  shows "lookup_entries gp (eg_runtime eng) cache entries ext hook =
    (case map_of cache key of Some cached \<Rightarrow> Ready cached | None \<Rightarrow> Miss config key tags)"
  using assms by (auto simp: routed_request_def lookup_entries_def Let_def)

lemma filter_entries_route_ok:
  assumes "routed_request eng ext hook config key tags" "cache_ok gp eng"
    and "filter_entries_by_route gp (eg_runtime eng) (entries_for_hook (sn_registry (eg_runtime eng)) hook) ext hook eng w
      = (es, eng', w')"
  shows "\<exists>tags. map entry_name es =
    known_names (entries_for_hook (sn_registry (eg_runtime eng)) hook) (resolved_for gp config key tags)"
proof (cases "map_of (eg_route_cache eng) key")
  case (Some cached)
  then have "es = cached" using assms(3) by (simp add: filter_entries_by_route_def lookup_entries_routed [OF assms(1)])
  moreover have "route_entries_ok gp (eg_runtime eng) key cached"
    using Some assms(2) by (auto simp: cache_ok_def dest: map_of_SomeD)
  ultimately show ?thesis using assms(1) by (auto simp: route_entries_ok_def routed_request_def)
next
  case None
  obtain es1 eng1 w1 where res: "filter_resolved (entries_for_hook (sn_registry (eg_runtime eng)) hook)
      (resolved_for gp config key tags) eng w = (es1, eng1, w1)" by (metis prod_cases3)
  have "es = es1"
    using assms(3) None res by (simp add: filter_entries_by_route_def lookup_entries_routed [OF assms(1)])
  then show ?thesis using filter_resolved_spec [OF res] by blast
qed

lemma set_known_names: "set (known_names entries rps) = rsp_name ` set rps \<inter> entry_name ` set entries"
  by (auto simp: known_names_def)

text \<open>
  What the document prescribes for the entity itself is never lost to the cache, and nothing but the
  groups of the document can be added to it.
\<close>

lemma routed_plugins:
  assumes "engine_reachable gp eng" "routed_request eng ext hook config key tags" "enumerates (gp_order gp)"
    and "hook \<noteq> HOOK_IDENTITY_RESOLVE"
    and "filter_entries_by_route gp (eg_runtime eng) (entries_for_hook (sn_registry (eg_runtime eng)) hook) ext hook eng w
      = (es, eng', w')"
  defines "static \<equiv> static_names (gp_wild gp) config (rk_entity_type key) (rk_entity_name key) (rk_scope key)"
    and "registered \<equiv> entry_name ` set (entries_for_hook (sn_registry (eg_runtime eng)) hook)"
  shows "static \<inter> registered \<subseteq> entry_name ` set es"
    and "entry_name ` set es \<subseteq> (static \<union> tag_names config UNIV) \<inter> registered"
    and "distinct (map entry_name es)"
proof -
  have key: "rk_hook_name key = hook" "routing_enabled config" using assms(2) by (auto simp: routed_request_def)
  obtain tags' where es: "map entry_name es =
      known_names (entries_for_hook (sn_registry (eg_runtime eng)) hook) (resolved_for gp config key tags')"
    using filter_entries_route_ok [OF assms(2) engine_reachable_cache_ok [OF assms(1)] assms(5)] by blast
  have rf: "resolved_for gp config key tags' = resolve_plugins_for_entity (gp_wild gp) (gp_order gp) config
      (rk_entity_type key) (rk_entity_name key) (rk_scope key) tags'"
    using key assms(4) by (simp add: resolved_for_def)
  note names = resolve_plugins_names [OF assms(3) key(2), of "gp_wild gp" "rk_entity_type key" "rk_entity_name key" "rk_scope key" tags']
  have "entry_name ` set es = set (map entry_name es)" by simp
  also have "\<dots> = (static \<union> runtime_names (gp_wild gp) config (rk_entity_type key) (rk_entity_name key) (rk_scope key) tags') \<inter> registered"
    unfolding es set_known_names rf names(1) static_def registered_def ..
  finally have set: "entry_name ` set es = \<dots>" .
  show "static \<inter> registered \<subseteq> entry_name ` set es" unfolding set by blast
  have "runtime_names (gp_wild gp) config (rk_entity_type key) (rk_entity_name key) (rk_scope key) tags' \<subseteq> tag_names config UNIV"
    by (auto simp: runtime_names_def tag_names_def split: option.splits)
  then show "entry_name ` set es \<subseteq> (static \<union> tag_names config UNIV) \<inter> registered" unfolding set by blast
  show "distinct (map entry_name es)" unfolding es known_names_def rf using names(2) by (rule distinct_filter)
qed

text \<open>The authentication steps of a request do not depend on its tags, so the cache is exact for them.\<close>

lemma routed_identity:
  assumes "engine_reachable gp eng" "routed_request eng ext HOOK_IDENTITY_RESOLVE config key tags"
    and "filter_entries_by_route gp (eg_runtime eng) (entries_for_hook (sn_registry (eg_runtime eng)) HOOK_IDENTITY_RESOLVE)
      ext HOOK_IDENTITY_RESOLVE eng w = (es, eng', w')"
  shows "map entry_name es =
    filter (\<lambda>n. n \<in> entry_name ` set (entries_for_hook (sn_registry (eg_runtime eng)) HOOK_IDENTITY_RESOLVE))
      (map ist_name (resolve_identity_steps (gp_wild gp) config (rk_entity_type key) (rk_entity_name key) (rk_scope key)))"
proof -
  have key: "rk_hook_name key = HOOK_IDENTITY_RESOLVE" using assms(2) by (auto simp: routed_request_def)
  obtain tags' where "map entry_name es =
      known_names (entries_for_hook (sn_registry (eg_runtime eng)) HOOK_IDENTITY_RESOLVE) (resolved_for gp config key tags')"
    using filter_entries_route_ok [OF assms(2) engine_reachable_cache_ok [OF assms(1)] assms(3)] by blast
  then show ?thesis
    by (simp add: known_names_def resolved_for_def key resolve_identity_plugins_for_route_def o_def)
qed

subsection \<open>What the cache key leaves out\<close>

lemma filter_entries_miss:
  assumes "routed_request eng ext hook config key tags" "map_of (eg_route_cache eng) key = None"
    and "length (eg_route_cache eng) < sn_route_cache_max_entries (eg_runtime eng)"
    and "filter_entries_by_route gp (eg_runtime eng) (entries_for_hook (sn_registry (eg_runtime eng)) hook) ext hook eng w
      = (es, eng', w')"
  shows "map entry_name es = known_names (entries_for_hook (sn_registry (eg_runtime eng)) hook) (resolved_for gp config key tags)"
    and "eg_runtime eng' = eg_runtime eng"
    and "map_of (eg_route_cache eng') key = Some es"
proof -
  obtain es1 eng1 w1 where res: "filter_resolved (entries_for_hook (sn_registry (eg_runtime eng)) hook)
      (resolved_for gp config key tags) eng w = (es1, eng1, w1)" by (metis prod_cases3)
  note spec = filter_resolved_spec [OF res]
  have *: "es = es1" "eng' = store_route (eg_runtime eng) key es1 eng1"
    using assms(2,4) res by (auto simp: filter_entries_by_route_def lookup_entries_routed [OF assms(1)])
  show "map entry_name es = known_names (entries_for_hook (sn_registry (eg_runtime eng)) hook) (resolved_for gp config key tags)"
    using spec * by simp
  show "eg_runtime eng' = eg_runtime eng" "map_of (eg_route_cache eng') key = Some es"
    using spec assms(3) unfolding * by (simp_all add: store_route_def same_routing_def update_conv')
qed

lemma filter_entries_hit:
  assumes "routed_request eng ext hook config key tags" "map_of (eg_route_cache eng) key = Some es"
  shows "filter_entries_by_route gp (eg_runtime eng) entries ext hook eng w = (es, eng, w)"
  using assms(2) by (simp add: filter_entries_by_route_def lookup_entries_routed [OF assms(1)])

lemma routed_request_runtime:
  "eg_runtime eng' = eg_runtime eng \<Longrightarrow> routed_request eng' = routed_request eng"
  by (intro ext) (simp add: routed_request_def)

text \<open>
  The tags of a request take part in the resolution but not in the cache key: a second request of the
  same entity gets the list of the first, whatever its own tags ask for.
\<close>

lemma second_request_reuses:
  assumes "routed_request eng ext hook config key tags" "routed_request eng ext2 hook config key tags2"
    and "map_of (eg_route_cache eng) key = None"
    and "length (eg_route_cache eng) < sn_route_cache_max_entries (eg_runtime eng)"
    and "filter_entries_by_route gp (eg_runtime eng) (entries_for_hook (sn_registry (eg_runtime eng)) hook) ext hook eng w
      = (es, eng', w')"
  shows "map entry_name es = known_names (entries_for_hook (sn_registry (eg_runtime eng)) hook) (resolved_for gp config key tags)"
    and "filter_entries_by_route gp (eg_runtime eng') (entries_for_hook (sn_registry (eg_runtime eng')) hook) ext2 hook eng' w2
      = (es, eng', w2)"
proof -
  note miss = filter_entries_miss [OF assms(1,3-5)]
  show "map entry_name es = known_names (entries_for_hook (sn_registry (eg_runtime eng)) hook) (resolved_for gp config key tags)"
    by (rule miss(1))
  have "routed_request eng' ext2 hook config key tags2" using assms(2) routed_request_runtime [OF miss(2)] by simp
  then show "filter_entries_by_route gp (eg_runtime eng') (entries_for_hook (sn_registry (eg_runtime eng')) hook) ext2 hook eng' w2
      = (es, eng', w2)"
    using miss(3) by (rule filter_entries_hit)
qed

text \<open>
  A resolution that was started before a reload and is stored after it stays in the cache: the list
  below was computed for the old snapshot, and every later request of the entity gets it.
\<close>

lemma stale_store:
  assumes "load_config config' eng w = (None, eng', w')"
    and "snap = eg_runtime eng" "0 < sn_route_cache_max_entries snap"
    and "routed_request eng' ext hook config' key tags"
  shows "filter_entries_by_route gp (eg_runtime eng') entries ext hook (store_route snap key es eng') w2
      = (es, store_route snap key es eng', w2)"
proof -
  have "eg_route_cache eng' = []"
    using assms(1) by (auto simp: load_config_def clear_routing_cache_def split: prod.splits sum.splits)
  with assms(3) have "map_of (eg_route_cache (store_route snap key es eng')) key = Some es"
    and rt: "eg_runtime (store_route snap key es eng') = eg_runtime eng'"
    by (simp_all add: store_route_def)
  moreover have "routed_request (store_route snap key es eng') ext hook config' key tags"
    using assms(4) routed_request_runtime [OF rt] by simp
  ultimately show ?thesis using filter_entries_hit [of "store_route snap key es eng'"] by metis
qed

end
