(* ===== verification/Messages.thy ===== *)
theory Messages
  imports Ext_Types
begin

text \<open>
  \<^verbatim>\<open>crates/ppe-core/src/cmf/{enums,content,message}.rs\<close>: the message a hook carries.  A message is a list of
  typed content parts; the result of a prompt holds messages again, so the three types are declared together.
  A \<^verbatim>\<open>HashMap\<close> of arguments is the list of its entries in the order an iteration sees them
  (\<open>hash_map\<close> of \<^verbatim>\<open>Ext_Types\<close>).
\<close>

datatype role = RL_System | RL_Developer | RL_User | RL_Assistant | RL_Tool
datatype channel = CH_Analysis | CH_Commentary | CH_Final
datatype content_type =
  CT_Text | CT_Thinking | CT_ToolCall | CT_ToolResult | CT_Resource | CT_ResourceRef | CT_PromptRequest
| CT_PromptResult | CT_Image | CT_Video | CT_Audio | CT_Document
datatype resource_type = RT_File | RT_Blob | RT_Uri | RT_Database | RT_Api | RT_Memory | RT_Artifact

subsection \<open>Domain objects\<close>

record tool_call =
  tc_tool_call_id :: string
  tc_name :: string
  tc_arguments :: "json hash_map"
  tc_namespace :: "string option"

record tool_result =
  tr_tool_call_id :: string
  tr_tool_name :: string
  tr_content :: json
  tr_is_error :: bool

record resource =
  re_resource_request_id :: string
  re_uri :: string
  re_name :: "string option"
  re_description :: "string option"
  re_resource_type :: resource_type
  re_content :: "string option"
  re_blob :: "8 word list option"
  re_mime_type :: "string option"
  re_size_bytes :: "u64 option"
  re_annotations :: "json hash_map"
  re_version :: "string option"

definition is_embedded :: "resource \<Rightarrow> bool" where
  "is_embedded r \<longleftrightarrow> re_content r \<noteq> None \<or> re_blob r \<noteq> None"

record resource_reference =
  rr_resource_request_id :: string
  rr_uri :: string
  rr_name :: "string option"
  rr_resource_type :: resource_type
  rr_range_start :: "u64 option"
  rr_range_end :: "u64 option"
  rr_selector :: "string option"

record prompt_request =
  pq_prompt_request_id :: string
  pq_name :: string
  pq_arguments :: "json hash_map"
  pq_server_id :: "string option"

record image_source =
  im_source_type :: string
  im_data :: string
  im_media_type :: "string option"

record video_source =
  vs_source_type :: string
  vs_data :: string
  vs_media_type :: "string option"
  vs_duration_ms :: "u64 option"

record audio_source =
  as_source_type :: string
  as_data :: string
  as_media_type :: "string option"
  as_duration_ms :: "u64 option"

record document_source =
  dc_source_type :: string
  dc_data :: string
  dc_media_type :: "string option"
  dc_title :: "string option"

datatype message =
    Message (ms_schema_version: string) (ms_role: role) (ms_content: "content_part list") (ms_channel: "channel option")
and content_part =
    CP_Text string
  | CP_Thinking string
  | CP_ToolCall tool_call
  | CP_ToolResult tool_result
  | CP_Resource resource
  | CP_ResourceRef resource_reference
  | CP_PromptRequest prompt_request
  | CP_PromptResult prompt_result
  | CP_Image image_source
  | CP_Video video_source
  | CP_Audio audio_source
  | CP_Document document_source
and prompt_result =
    PromptResult (pt_prompt_request_id: string) (pt_prompt_name: string) (pt_messages: "message list")
      (pt_content: "string option") (pt_is_error: bool) (pt_error_message: "string option")

subsection \<open>Messages\<close>

definition SCHEMA_VERSION :: string where
  "SCHEMA_VERSION = ''2.0''"

definition message_text :: "role \<Rightarrow> string \<Rightarrow> message" where
  "message_text r text = Message SCHEMA_VERSION r [CP_Text text] None"

definition with_content :: "role \<Rightarrow> content_part list \<Rightarrow> message" where
  "with_content r content = Message SCHEMA_VERSION r content None"

definition set_content :: "content_part list \<Rightarrow> message \<Rightarrow> message" where
  "set_content parts msg = Message (ms_schema_version msg) (ms_role msg) parts (ms_channel msg)"

lemma set_content_simps [simp]:
  "ms_schema_version (set_content parts msg) = ms_schema_version msg"
  "ms_role (set_content parts msg) = ms_role msg"
  "ms_content (set_content parts msg) = parts"
  "ms_channel (set_content parts msg) = ms_channel msg"
  by (simp_all add: set_content_def)

lemma set_content_self [simp]: "set_content (ms_content msg) msg = msg"
  by (cases msg) (simp add: set_content_def)

fun part_text :: "content_part \<Rightarrow> string option" where
  "part_text (CP_Text t) = Some t"
| "part_text _ = None"

fun part_thinking :: "content_part \<Rightarrow> string option" where
  "part_thinking (CP_Thinking t) = Some t"
| "part_thinking _ = None"

fun part_tool_call :: "content_part \<Rightarrow> tool_call option" where
  "part_tool_call (CP_ToolCall c) = Some c"
| "part_tool_call _ = None"

fun part_tool_result :: "content_part \<Rightarrow> tool_result option" where
  "part_tool_result (CP_ToolResult c) = Some c"
| "part_tool_result _ = None"

fun part_resource :: "content_part \<Rightarrow> resource option" where
  "part_resource (CP_Resource c) = Some c"
| "part_resource _ = None"

fun part_resource_ref :: "content_part \<Rightarrow> resource_reference option" where
  "part_resource_ref (CP_ResourceRef c) = Some c"
| "part_resource_ref _ = None"

fun part_resource_uri :: "content_part \<Rightarrow> string option" where
  "part_resource_uri (CP_Resource c) = Some (re_uri c)"
| "part_resource_uri (CP_ResourceRef c) = Some (rr_uri c)"
| "part_resource_uri _ = None"

fun part_prompt_request :: "content_part \<Rightarrow> prompt_request option" where
  "part_prompt_request (CP_PromptRequest c) = Some c"
| "part_prompt_request _ = None"

fun part_prompt_result :: "content_part \<Rightarrow> prompt_result option" where
  "part_prompt_result (CP_PromptResult c) = Some c"
| "part_prompt_result _ = None"

definition get_text_content :: "message \<Rightarrow> string" where
  "get_text_content msg = concat (List.map_filter part_text (ms_content msg))"

definition get_thinking_content :: "message \<Rightarrow> string option" where
  "get_thinking_content msg =
     (let texts = List.map_filter part_thinking (ms_content msg)
      in if texts = [] then None else Some (concat texts))"

definition get_tool_calls :: "message \<Rightarrow> tool_call list" where
  "get_tool_calls msg = List.map_filter part_tool_call (ms_content msg)"

definition get_tool_results :: "message \<Rightarrow> tool_result list" where
  "get_tool_results msg = List.map_filter part_tool_result (ms_content msg)"

definition is_tool_call :: "message \<Rightarrow> bool" where
  "is_tool_call msg \<longleftrightarrow> list_ex (\<lambda>p. part_tool_call p \<noteq> None) (ms_content msg)"

definition is_tool_result :: "message \<Rightarrow> bool" where
  "is_tool_result msg \<longleftrightarrow> list_ex (\<lambda>p. part_tool_result p \<noteq> None) (ms_content msg)"

definition get_resources :: "message \<Rightarrow> resource list" where
  "get_resources msg = List.map_filter part_resource (ms_content msg)"

definition get_resource_refs :: "message \<Rightarrow> resource_reference list" where
  "get_resource_refs msg = List.map_filter part_resource_ref (ms_content msg)"

definition get_all_resource_uris :: "message \<Rightarrow> string list" where
  "get_all_resource_uris msg = List.map_filter part_resource_uri (ms_content msg)"

definition has_resources :: "message \<Rightarrow> bool" where
  "has_resources msg \<longleftrightarrow> list_ex (\<lambda>p. part_resource_uri p \<noteq> None) (ms_content msg)"

definition get_prompt_requests :: "message \<Rightarrow> prompt_request list" where
  "get_prompt_requests msg = List.map_filter part_prompt_request (ms_content msg)"

definition get_prompt_results :: "message \<Rightarrow> prompt_result list" where
  "get_prompt_results msg = List.map_filter part_prompt_result (ms_content msg)"

subsection \<open>The accessors agree with the tests\<close>

lemma map_filter_eq_Nil: "List.map_filter f xs = [] \<longleftrightarrow> \<not> list_ex (\<lambda>x. f x \<noteq> None) xs"
  by (induction xs) (auto simp: List.map_filter_simps split: option.split)

lemma map_filter_append: "List.map_filter f (xs @ ys) = List.map_filter f xs @ List.map_filter f ys"
  by (simp add: List.map_filter_def)

lemma is_tool_call_iff: "is_tool_call msg \<longleftrightarrow> get_tool_calls msg \<noteq> []"
  by (simp add: is_tool_call_def get_tool_calls_def map_filter_eq_Nil)

lemma is_tool_result_iff: "is_tool_result msg \<longleftrightarrow> get_tool_results msg \<noteq> []"
  by (simp add: is_tool_result_def get_tool_results_def map_filter_eq_Nil)

lemma has_resources_iff: "has_resources msg \<longleftrightarrow> get_all_resource_uris msg \<noteq> []"
  by (simp add: has_resources_def get_all_resource_uris_def map_filter_eq_Nil)

lemma has_resources_split: "has_resources msg \<longleftrightarrow> get_resources msg \<noteq> [] \<or> get_resource_refs msg \<noteq> []"
proof -
  have "part_resource_uri p \<noteq> None \<longleftrightarrow> part_resource p \<noteq> None \<or> part_resource_ref p \<noteq> None" for p
    by (cases p) auto
  then show ?thesis
    by (auto simp: has_resources_def get_resources_def get_resource_refs_def map_filter_eq_Nil list_ex_iff)
qed

lemma get_text_content_text [simp]: "get_text_content (message_text r t) = t"
  by (simp add: get_text_content_def message_text_def List.map_filter_simps)

text \<open>A \<^verbatim>\<open>MessagePayload\<close> is its message; well-formed when every argument map of a call has distinct keys.\<close>

type_synonym message_payload = message

fun part_wf :: "content_part \<Rightarrow> bool" where
  "part_wf (CP_ToolCall c) = distinct (map fst (tc_arguments c))"
| "part_wf (CP_PromptRequest c) = distinct (map fst (pq_arguments c))"
| "part_wf _ = True"

definition message_wf :: "message \<Rightarrow> bool" where
  "message_wf msg \<longleftrightarrow> list_all part_wf (ms_content msg)"

end
