(* ===== verification/Hook_Payloads.thy ===== *)
theory Hook_Payloads
  imports Messages Invokers Executor
begin

text \<open>
  The payloads of the hook families the policy runtime calls, \<^verbatim>\<open>crates/ppe-core/src/delegation/payload.rs\<close>,
  \<^verbatim>\<open>elicitation/payload.rs\<close> and \<^verbatim>\<open>identity/payload.rs\<close>, and the table that says which hook names belong to which phase,
  \<^verbatim>\<open>hooks/metadata.rs\<close>.

  A \<^verbatim>\<open>dyn PluginPayload\<close> is one of the payload types; a downcast is a case distinction.  Payload types the
  runtime does not look into are \<open>PP_Other\<close>.
\<close>

subsection \<open>Delegation\<close>

datatype delegation_subject = DS_User | DS_Client | DS_CallerWorkload | DS_ThisWorkload

fun inbound_role :: "delegation_subject \<Rightarrow> token_role option" where
  "inbound_role DS_User = Some Role_User"
| "inbound_role DS_Client = Some Role_Client"
| "inbound_role DS_CallerWorkload = Some Role_CallerWorkload"
| "inbound_role DS_ThisWorkload = None"

fun default_mode :: "delegation_subject \<Rightarrow> delegation_mode" where
  "default_mode DS_User = OnBehalfOfUser"
| "default_mode DS_Client = AsClient"
| "default_mode DS_CallerWorkload = AsCallerWorkload"
| "default_mode DS_ThisWorkload = AsThisWorkload"

definition subject_from_config_str :: "string \<Rightarrow> delegation_subject option" where
  "subject_from_config_str s =
     (if s = ''user'' then Some DS_User
      else if s = ''client'' then Some DS_Client
      else if s = ''caller_workload'' \<or> s = ''workload'' then Some DS_CallerWorkload
      else if s = ''this_workload'' \<or> s = ''gateway'' then Some DS_ThisWorkload
      else None)"

datatype target_type = TT_Tool | TT_Agent | TT_Resource | TT_Service | TT_Custom string
datatype auth_enforced_by = AE_Caller | AE_Target | AE_Both

record attenuation_config =
  ac_capabilities :: "string list"
  ac_resource_template :: "string option"
  ac_actions :: "string list"
  ac_ttl_seconds :: "u64 option"

record delegation_payload =
  dl_bearer_token :: string
  dl_actor_token :: string
  dl_actor_role :: "token_role option"
  dl_subject :: delegation_subject
  dl_target_name :: string
  dl_target_type :: target_type
  dl_target_audience :: "string option"
  dl_required_permissions :: "string list"
  dl_trust_domain :: "string option"
  dl_auth_enforced_by :: auth_enforced_by
  dl_route_attenuation :: "attenuation_config option"
  dl_delegated_token :: "raw_delegated_token option"
  dl_delegation_update :: "delegation_extension option"
  dl_delegation_mode :: "delegation_mode option"
  dl_minted_at :: "datetime option"
  dl_metadata :: "string \<rightharpoonup> json"

definition delegation_payload_new :: "string \<Rightarrow> string \<Rightarrow> delegation_payload" where
  "delegation_payload_new bearer_token target_name =
     \<lparr>dl_bearer_token = bearer_token, dl_actor_token = [], dl_actor_role = None, dl_subject = DS_User,
      dl_target_name = target_name, dl_target_type = TT_Tool, dl_target_audience = None,
      dl_required_permissions = [], dl_trust_domain = None, dl_auth_enforced_by = AE_Caller,
      dl_route_attenuation = None, dl_delegated_token = None, dl_delegation_update = None,
      dl_delegation_mode = None, dl_minted_at = None, dl_metadata = Map.empty\<rparr>"

definition with_actor :: "token_role \<Rightarrow> string \<Rightarrow> delegation_payload \<Rightarrow> delegation_payload" where
  "with_actor r token p = p\<lparr>dl_actor_token := token, dl_actor_role := Some r\<rparr>"

definition involves_workload :: "delegation_payload \<Rightarrow> bool" where
  "involves_workload p \<longleftrightarrow> dl_subject p = DS_CallerWorkload \<or> dl_actor_role p = Some Role_CallerWorkload"

definition involves_client :: "delegation_payload \<Rightarrow> bool" where
  "involves_client p \<longleftrightarrow> dl_subject p = DS_Client \<or> dl_actor_role p = Some Role_Client"

definition merge_delegation_payload :: "delegation_payload \<Rightarrow> delegation_payload \<Rightarrow> delegation_payload" where
  "merge_delegation_payload self other =
     self\<lparr>dl_delegated_token := or_else (dl_delegated_token other) (dl_delegated_token self),
          dl_delegation_update := or_else (dl_delegation_update other) (dl_delegation_update self),
          dl_delegation_mode := or_else (dl_delegation_mode other) (dl_delegation_mode self),
          dl_minted_at := or_else (dl_minted_at other) (dl_minted_at self),
          dl_metadata := dl_metadata self ++ dl_metadata other\<rparr>"

text \<open>The cache key of a minted token: the principals that took part, the audience, the scopes and the mode.\<close>

definition minted_key :: "delegation_payload \<Rightarrow> extensions \<Rightarrow> raw_delegated_token \<Rightarrow> delegation_key" where
  "minted_key p ext token =
     \<lparr>dk_subject_id = unwrap_or (Option.bind (Option.bind (ex_security ext) sc_subject) sj_id) [],
      dk_workload_id =
        (if involves_workload p
         then Option.bind (Option.bind (ex_security ext) sc_caller_workload) wl_spiffe_id else None),
      dk_client_id =
        (if involves_client p
         then (case map_option cl_client_id (Option.bind (ex_security ext) sc_client) of
                 Some i \<Rightarrow> if i = [] then None else Some i | None \<Rightarrow> None)
         else None),
      dk_audience = rd_audience token, dk_scopes = rd_scopes token,
      dk_mode = unwrap_or (dl_delegation_mode p) OnBehalfOfUser\<rparr>"

definition raw_credentials_default :: raw_credentials_extension where
  "raw_credentials_default = \<lparr>rc_inbound_tokens = Map.empty, rc_delegated_tokens = Map.empty\<rparr>"

definition delegation_apply_to_extensions :: "delegation_payload \<Rightarrow> extensions \<Rightarrow> extensions" where
  "delegation_apply_to_extensions p ext =
     (let ext1 = (case dl_delegated_token p of
                    None \<Rightarrow> ext
                  | Some token \<Rightarrow>
                      let raw = unwrap_or (ex_raw_credentials ext) raw_credentials_default
                      in ext\<lparr>ex_raw_credentials := Some (raw\<lparr>rc_delegated_tokens :=
                               (rc_delegated_tokens raw)(minted_key p ext token \<mapsto> token)\<rparr>)\<rparr>)
      in (case dl_delegation_update p of
            None \<Rightarrow> ext1
          | Some update \<Rightarrow> ext1\<lparr>ex_delegation := Some update\<rparr>))"

subsection \<open>Elicitation\<close>

datatype elicitation_op = EO_Dispatch | EO_Check | EO_Validate
datatype elicitation_status_kind = EK_Pending | EK_Resolved | EK_Expired
datatype elicitation_outcome_kind = EU_Approved | EU_Denied

record elicitation_payload =
  ey_operation :: elicitation_op
  ey_elicitation_id :: "string option"
  ey_kind :: string
  ey_from :: string
  ey_purpose :: "string option"
  ey_scope :: "string option"
  ey_timeout :: "string option"
  ey_channel :: "string option"
  ey_id :: "string option"
  ey_status :: "elicitation_status_kind option"
  ey_outcome :: "elicitation_outcome_kind option"
  ey_approver :: "string option"
  ey_intent_id :: "string option"
  ey_expires_at :: "string option"
  ey_valid :: "bool option"
  ey_reason :: "string option"
  ey_metadata :: "string \<rightharpoonup> json"

definition elicitation_payload_new :: "elicitation_op \<Rightarrow> string \<Rightarrow> string \<Rightarrow> elicitation_payload" where
  "elicitation_payload_new op kind sender =
     \<lparr>ey_operation = op, ey_elicitation_id = None, ey_kind = kind, ey_from = sender, ey_purpose = None,
      ey_scope = None, ey_timeout = None, ey_channel = None, ey_id = None, ey_status = None, ey_outcome = None,
      ey_approver = None, ey_intent_id = None, ey_expires_at = None, ey_valid = None, ey_reason = None,
      ey_metadata = Map.empty\<rparr>"

subsection \<open>Identity\<close>

datatype token_source = TS_Bearer | TS_UserToken | TS_Mtls | TS_SpiffeJwtSvid | TS_ApiKey | TS_Custom string

text \<open>The first six fields are private in the sources: no handler can write them.\<close>

record identity_payload =
  ip_raw_token :: string
  ip_source :: token_source
  ip_source_header :: "string option"
  ip_headers :: "string \<rightharpoonup> string"
  ip_client_host :: "string option"
  ip_client_port :: "16 word option"
  ip_subject :: "subject_extension option"
  ip_client :: "client_extension option"
  ip_caller_workload :: "workload_identity option"
  ip_delegation :: "delegation_extension option"
  ip_raw_credentials :: "raw_credentials_extension option"
  ip_resolved_at :: "datetime option"
  ip_raw_claims :: "string \<rightharpoonup> json"

definition identity_payload_new :: "string \<Rightarrow> token_source \<Rightarrow> identity_payload" where
  "identity_payload_new raw_token source =
     \<lparr>ip_raw_token = raw_token, ip_source = source, ip_source_header = None, ip_headers = Map.empty, ip_client_host = None,
      ip_client_port = None, ip_subject = None, ip_client = None, ip_caller_workload = None, ip_delegation = None,
      ip_raw_credentials = None, ip_resolved_at = None, ip_raw_claims = Map.empty\<rparr>"

definition with_source_header :: "string \<Rightarrow> identity_payload \<Rightarrow> identity_payload" where
  "with_source_header h p = p\<lparr>ip_source_header := Some h\<rparr>"

definition with_headers :: "(string \<rightharpoonup> string) \<Rightarrow> identity_payload \<Rightarrow> identity_payload" where
  "with_headers h p = p\<lparr>ip_headers := h\<rparr>"

definition with_client_host :: "string \<Rightarrow> identity_payload \<Rightarrow> identity_payload" where
  "with_client_host h p = p\<lparr>ip_client_host := Some h\<rparr>"

definition with_client_port :: "16 word \<Rightarrow> identity_payload \<Rightarrow> identity_payload" where
  "with_client_port port p = p\<lparr>ip_client_port := Some port\<rparr>"

definition merge_identity_payload :: "identity_payload \<Rightarrow> identity_payload \<Rightarrow> identity_payload" where
  "merge_identity_payload self other =
     self\<lparr>ip_subject := or_else (ip_subject other) (ip_subject self),
          ip_client := or_else (ip_client other) (ip_client self),
          ip_caller_workload := or_else (ip_caller_workload other) (ip_caller_workload self),
          ip_delegation := or_else (ip_delegation other) (ip_delegation self),
          ip_raw_credentials := or_else (ip_raw_credentials other) (ip_raw_credentials self),
          ip_resolved_at := or_else (ip_resolved_at other) (ip_resolved_at self),
          ip_raw_claims := ip_raw_claims self ++ ip_raw_claims other\<rparr>"

definition identity_security :: "identity_payload \<Rightarrow> security_extension \<Rightarrow> security_extension" where
  "identity_security p sec =
     sec\<lparr>sc_subject := or_else (ip_subject p) (sc_subject sec),
         sc_client := or_else (ip_client p) (sc_client sec),
         sc_caller_workload := or_else (ip_caller_workload p) (sc_caller_workload sec)\<rparr>"

definition identity_apply_to_extensions :: "identity_payload \<Rightarrow> extensions \<Rightarrow> extensions" where
  "identity_apply_to_extensions p ext =
     (let ext1 = (if ip_subject p \<noteq> None \<or> ip_client p \<noteq> None \<or> ip_caller_workload p \<noteq> None
                  then ext\<lparr>ex_security := Some (identity_security p (unwrap_or (ex_security ext) security_default))\<rparr>
                  else ext);
          ext2 = (case ip_raw_credentials p of Some rc \<Rightarrow> ext1\<lparr>ex_raw_credentials := Some rc\<rparr> | None \<Rightarrow> ext1)
      in (case ip_delegation p of Some d \<Rightarrow> ext2\<lparr>ex_delegation := Some d\<rparr> | None \<Rightarrow> ext2))"

subsection \<open>Payloads behind the plugin interface\<close>

datatype plugin_payload =
    PP_Message message
  | PP_Delegation delegation_payload
  | PP_Elicitation elicitation_payload
  | PP_Identity identity_payload
  | PP_Other nat

fun as_message :: "plugin_payload \<Rightarrow> message option" where
  "as_message (PP_Message m) = Some m"
| "as_message _ = None"

fun as_delegation :: "plugin_payload \<Rightarrow> delegation_payload option" where
  "as_delegation (PP_Delegation p) = Some p"
| "as_delegation _ = None"

fun as_elicitation :: "plugin_payload \<Rightarrow> elicitation_payload option" where
  "as_elicitation (PP_Elicitation p) = Some p"
| "as_elicitation _ = None"

fun as_identity :: "plugin_payload \<Rightarrow> identity_payload option" where
  "as_identity (PP_Identity p) = Some p"
| "as_identity _ = None"

definition delegation_from_result :: "plugin_payload pipeline_result \<Rightarrow> delegation_payload option" where
  "delegation_from_result r = Option.bind (pl_modified_payload r) as_delegation"

definition elicitation_from_result :: "plugin_payload pipeline_result \<Rightarrow> elicitation_payload option" where
  "elicitation_from_result r = Option.bind (pl_modified_payload r) as_elicitation"

definition identity_from_result :: "plugin_payload pipeline_result \<Rightarrow> identity_payload option" where
  "identity_from_result r = Option.bind (pl_modified_payload r) as_identity"

subsection \<open>Hook metadata\<close>

datatype hook_phase = HP_Pre | HP_Post | HP_Unphased

record hook_metadata =
  hm_entity_type :: "string option"
  hm_phase :: hook_phase

definition metadata_unknown :: hook_metadata where
  "metadata_unknown = \<lparr>hm_entity_type = None, hm_phase = HP_Unphased\<rparr>"

definition metadata_matches :: "hook_metadata \<Rightarrow> string option \<Rightarrow> hook_phase \<Rightarrow> bool" where
  "metadata_matches meta request_entity_type requested_phase \<longleftrightarrow>
     (case (hm_entity_type meta, request_entity_type) of
        (Some hook_et, Some req_et) \<Rightarrow> hook_et = req_et
      | _ \<Rightarrow> True)
   \<and> (hm_phase meta = HP_Unphased \<or> requested_phase = HP_Unphased \<or> hm_phase meta = requested_phase)"

definition BUILTIN_METADATA :: "(string \<times> hook_metadata) list" where
  "BUILTIN_METADATA =
     [(''cmf.tool_pre_invoke'', \<lparr>hm_entity_type = Some ''tool'', hm_phase = HP_Pre\<rparr>),
      (''cmf.tool_post_invoke'', \<lparr>hm_entity_type = Some ''tool'', hm_phase = HP_Post\<rparr>),
      (''cmf.llm_input'', \<lparr>hm_entity_type = Some ''llm'', hm_phase = HP_Pre\<rparr>),
      (''cmf.llm_output'', \<lparr>hm_entity_type = Some ''llm'', hm_phase = HP_Post\<rparr>),
      (''cmf.prompt_pre_invoke'', \<lparr>hm_entity_type = Some ''prompt'', hm_phase = HP_Pre\<rparr>),
      (''cmf.prompt_post_invoke'', \<lparr>hm_entity_type = Some ''prompt'', hm_phase = HP_Post\<rparr>),
      (''cmf.resource_pre_fetch'', \<lparr>hm_entity_type = Some ''resource'', hm_phase = HP_Pre\<rparr>),
      (''cmf.resource_post_fetch'', \<lparr>hm_entity_type = Some ''resource'', hm_phase = HP_Post\<rparr>),
      (''identity.resolve'', \<lparr>hm_entity_type = None, hm_phase = HP_Unphased\<rparr>),
      (''token.delegate'', \<lparr>hm_entity_type = None, hm_phase = HP_Unphased\<rparr>)]"

text \<open>The process-wide table starts from the built-in entries; registering overwrites.\<close>

type_synonym metadata_table = "string \<rightharpoonup> hook_metadata"

definition metadata_registry :: metadata_table where
  "metadata_registry = map_of BUILTIN_METADATA"

definition lookup_hook_metadata :: "metadata_table \<Rightarrow> string \<Rightarrow> hook_metadata" where
  "lookup_hook_metadata table hook_name = unwrap_or (table hook_name) metadata_unknown"

definition register_hook_metadata :: "string \<Rightarrow> hook_metadata \<Rightarrow> metadata_table \<Rightarrow> metadata_table" where
  "register_hook_metadata hook_name meta table = table(hook_name \<mapsto> meta)"

lemma lookup_after_register:
  "lookup_hook_metadata (register_hook_metadata h meta table) h' =
     (if h' = h then meta else lookup_hook_metadata table h')"
  by (simp add: lookup_hook_metadata_def register_hook_metadata_def)

end
