(* ===== verification/Dispatch_Plan.thy ===== *)
theory Dispatch_Plan
  imports Hook_Payloads Engine
begin

text \<open>
  \<^verbatim>\<open>crates/ppe-apl-runtime/src/dispatch_plan.rs\<close>: the plugins a compiled route can call, resolved once per route
  and configuration generation.

  What the runtime takes from the outside is the record \<open>apl_host\<close>: the scheduler, the hook metadata table,
  the conversion of YAML to JSON (\<^verbatim>\<open>serde_yaml\<close>), SHA-256, the formatting of doubles and dates, the
  lower case of text outside ASCII, the order in which
  the hash index of hook names, the entries of a plugin and a set of labels are iterated.
\<close>

record 'w apl_host =
  ah_runtime :: "'w runtime"
  ah_metadata :: metadata_table
  ah_to_json :: "yaml \<Rightarrow> string + json"
  ah_sha :: "string \<Rightarrow> 8 word list"
  ah_fmt :: "f64 \<Rightarrow> string"
  ah_uni :: "string \<Rightarrow> string"
  ah_rfc3339 :: "datetime \<Rightarrow> string"
  ah_hooks :: "string list"
  ah_iter :: "(string \<times> (plugin_payload, 'w) hook_entry) list \<Rightarrow> (string \<times> (plugin_payload, 'w) hook_entry) list"
  ah_order :: "string fset \<Rightarrow> string list"

subsection \<open>Names a route refers to\<close>

text \<open>The effects in the order \<^verbatim>\<open>walk_effects\<close> visits them.\<close>

fun walk_effect :: "effect \<Rightarrow> effect list" where
  "walk_effect (Eff_When c body src) = Eff_When c body src # concat (map walk_effect body)"
| "walk_effect (Eff_Sequential es) = Eff_Sequential es # concat (map walk_effect es)"
| "walk_effect (Eff_Parallel es) = Eff_Parallel es # concat (map walk_effect es)"
| "walk_effect (Eff_Pdp call on_allow on_deny) =
     Eff_Pdp call on_allow on_deny # concat (map walk_effect on_allow) @ concat (map walk_effect on_deny)"
| "walk_effect e = [e]"

definition walk_effects :: "effect list \<Rightarrow> effect list" where
  "walk_effects es = concat (map walk_effect es)"

fun effect_plugin :: "effect \<Rightarrow> string option" where
  "effect_plugin (Eff_Plugin name) = Some name"
| "effect_plugin _ = None"

fun effect_delegate :: "effect \<Rightarrow> string option" where
  "effect_delegate (Eff_Delegate step) = Some (ds_plugin_name step)"
| "effect_delegate _ = None"

fun effect_elicit :: "effect \<Rightarrow> string option" where
  "effect_elicit (Eff_Elicit step) = Some (el_plugin_name step)"
| "effect_elicit _ = None"

fun plugin_of_stage :: "stage \<Rightarrow> string option" where
  "plugin_of_stage (Stage_Plugin name) = Some name"
| "plugin_of_stage _ = None"

definition push_new :: "string \<Rightarrow> string list \<Rightarrow> string list" where
  "push_new name out = (if name \<in> set out then out else out @ [name])"

definition unique :: "string list \<Rightarrow> string list" where
  "unique names = fold push_new names []"

definition route_effects :: "compiled_route \<Rightarrow> effect list" where
  "route_effects route = walk_effects (cr_policy route) @ walk_effects (cr_post_policy route)"

definition collect_delegate_plugin_names :: "compiled_route \<Rightarrow> string list" where
  "collect_delegate_plugin_names route = unique (List.map_filter effect_delegate (route_effects route))"

definition collect_elicit_plugin_names :: "compiled_route \<Rightarrow> string list" where
  "collect_elicit_plugin_names route = unique (List.map_filter effect_elicit (route_effects route))"

definition collect_plugin_names :: "compiled_route \<Rightarrow> string list" where
  "collect_plugin_names route =
     unique (List.map_filter effect_plugin (route_effects route)
       @ concat (map (\<lambda>fr. List.map_filter plugin_of_stage (pl_stages (fr_pipeline fr))) (cr_args route @ cr_result route)))"

definition effective_caps ::
    "(string \<rightharpoonup> plugin_declaration) \<Rightarrow> compiled_route \<Rightarrow> string \<Rightarrow> string list" where
  "effective_caps registry route name =
     (case resolve_effective_plugin name registry (cr_plugin_overrides route) of
        None \<Rightarrow> [] | Some eff \<Rightarrow> caps_as_slice (ep_capabilities eff))"

definition route_capability_union :: "compiled_route \<Rightarrow> (string \<rightharpoonup> plugin_declaration) \<Rightarrow> string fset" where
  "route_capability_union route registry =
     (let names = collect_plugin_names route @ collect_delegate_plugin_names route @ collect_elicit_plugin_names route;
          caps = fset_of_list (concat (map (effective_caps registry route) names))
      in if collect_elicit_plugin_names route \<noteq> [] then finsert ''read_headers'' caps else caps)"

subsection \<open>The plan\<close>

text \<open>A \<^verbatim>\<open>RoutePluginEntry\<close> is its hook entries; the name is the key it is stored under.\<close>

type_synonym 'w plugin_entries = "(string \<times> (plugin_payload, 'w) hook_entry) list"

record 'w dispatch_plan =
  dn_plugins :: "string \<rightharpoonup> 'w plugin_entries"
  dn_delegation_entries :: "string \<rightharpoonup> (plugin_payload, 'w) hook_entry"
  dn_elicitation_entries :: "string \<rightharpoonup> (plugin_payload, 'w) hook_entry"

definition plan_default :: "'w dispatch_plan" where
  "plan_default = \<lparr>dn_plugins = Map.empty, dn_delegation_entries = Map.empty, dn_elicitation_entries = Map.empty\<rparr>"

definition pick_entry ::
    "'w apl_host \<Rightarrow> 'w plugin_entries \<Rightarrow> string option \<Rightarrow> hook_phase \<Rightarrow> (plugin_payload, 'w) hook_entry option" where
  "pick_entry h entries requested_entity_type requested_phase =
     map_option snd (find (\<lambda>(hook_name, _).
       metadata_matches (lookup_hook_metadata (ah_metadata h) hook_name) requested_entity_type requested_phase)
       (ah_iter h entries))"

definition parse_on_error :: "string \<Rightarrow> on_error option" where
  "parse_on_error s =
     (let l = to_ascii_lowercase s
      in if l = ''fail'' then Some OE_Fail
         else if l = ''ignore'' then Some OE_Ignore
         else if l = ''disable'' then Some OE_Disable
         else None)"

definition entries_by_hook :: "'w plugin_entries \<Rightarrow> 'w plugin_entries" where
  "entries_by_hook entries = fold (\<lambda>(hook_name, entry). AList.update hook_name entry) entries []"

type_synonym ('w, 'a) engine_step = "(plugin_payload, 'w) engine \<Rightarrow> 'w \<Rightarrow> 'a \<times> (plugin_payload, 'w) engine \<times> 'w"

definition plan_plugin ::
    "'w apl_host \<Rightarrow> compiled_route \<Rightarrow> (string \<rightharpoonup> plugin_declaration) \<Rightarrow> string \<Rightarrow> 'w dispatch_plan
     \<Rightarrow> ('w, 'w dispatch_plan) engine_step" where
  "plan_plugin h route registry name plan eng w =
     (case resolve_effective_plugin name registry (cr_plugin_overrides route) of
        None \<Rightarrow> (plan, eng, w)
      | Some eff \<Rightarrow>
          let override_block = cr_plugin_overrides route name;
              config_override = Option.bind override_block po_config;
              caps_override = (case ep_capabilities eff of Caps_Override caps \<Rightarrow> Some (fset_of_list caps) | _ \<Rightarrow> None);
              oe_override = Option.bind (Option.bind override_block po_on_error) parse_on_error
          in (case build_override_entries (ah_hooks h) name (ah_to_json h) config_override caps_override oe_override eng w of
                (entries, eng', w') \<Rightarrow>
                  if entries = [] then (plan, eng', w')
                  else (plan\<lparr>dn_plugins := (dn_plugins plan)(name \<mapsto> entries_by_hook entries)\<rparr>, eng', w')))"

definition hook_of ::
    "'w apl_host \<Rightarrow> string \<Rightarrow> string \<Rightarrow> ('w, (plugin_payload, 'w) hook_entry option) engine_step" where
  "hook_of h hook name eng w =
     (case build_override_entries (ah_hooks h) name (ah_to_json h) None None None eng w of
        (entries, eng', w') \<Rightarrow> (map_option snd (find (\<lambda>(hook_name, _). hook_name = hook) entries), eng', w'))"

definition plan_delegation :: "'w apl_host \<Rightarrow> string \<Rightarrow> 'w dispatch_plan \<Rightarrow> ('w, 'w dispatch_plan) engine_step" where
  "plan_delegation h name plan eng w =
     (case hook_of h ''token.delegate'' name eng w of
        (Some entry, eng', w') \<Rightarrow>
          (plan\<lparr>dn_delegation_entries := (dn_delegation_entries plan)(name \<mapsto> entry)\<rparr>, eng', w')
      | (None, eng', w') \<Rightarrow> (plan, eng', w'))"

definition plan_elicitation :: "'w apl_host \<Rightarrow> string \<Rightarrow> 'w dispatch_plan \<Rightarrow> ('w, 'w dispatch_plan) engine_step" where
  "plan_elicitation h name plan eng w =
     (case hook_of h ''elicit'' name eng w of
        (Some entry, eng', w') \<Rightarrow>
          (plan\<lparr>dn_elicitation_entries := (dn_elicitation_entries plan)(name \<mapsto> entry)\<rparr>, eng', w')
      | (None, eng', w') \<Rightarrow> (plan, eng', w'))"

fun plan_loop ::
    "(string \<Rightarrow> 'w dispatch_plan \<Rightarrow> ('w, 'w dispatch_plan) engine_step) \<Rightarrow> string list \<Rightarrow> 'w dispatch_plan
     \<Rightarrow> ('w, 'w dispatch_plan) engine_step" where
  "plan_loop f [] plan eng w = (plan, eng, w)"
| "plan_loop f (name # names) plan eng w =
     (case f name plan eng w of (plan', eng', w') \<Rightarrow> plan_loop f names plan' eng' w')"

definition build_plan ::
    "'w apl_host \<Rightarrow> compiled_route \<Rightarrow> (string \<rightharpoonup> plugin_declaration) \<Rightarrow> ('w, 'w dispatch_plan) engine_step" where
  "build_plan h route registry eng w =
     (case plan_loop (plan_plugin h route registry) (collect_plugin_names route) plan_default eng w of
        (plan1, eng1, w1) \<Rightarrow>
          (case plan_loop (plan_delegation h) (collect_delegate_plugin_names route) plan1 eng1 w1 of
             (plan2, eng2, w2) \<Rightarrow>
               plan_loop (plan_elicitation h) (collect_elicit_plugin_names route) plan2 eng2 w2))"

definition plan_get :: "'w dispatch_plan \<Rightarrow> string \<Rightarrow> 'w plugin_entries option" where
  "plan_get plan name = dn_plugins plan name"

definition resolve_plugin :: "'w apl_host \<Rightarrow> (plugin_payload, 'w) engine \<Rightarrow> string \<Rightarrow> 'w plugin_entries option" where
  "resolve_plugin h eng name =
     (case find_plugin_entries (ah_hooks h) name eng of
        [] \<Rightarrow> None | entries \<Rightarrow> Some (entries_by_hook entries))"

subsection \<open>The cache\<close>

type_synonym 'w dispatch_cache = "string \<rightharpoonup> u64 \<times> 'w dispatch_plan"

definition get_or_build ::
    "'w apl_host \<Rightarrow> compiled_route \<Rightarrow> (string \<rightharpoonup> plugin_declaration) \<Rightarrow> 'w dispatch_cache
     \<Rightarrow> ('w, 'w dispatch_plan \<times> 'w dispatch_cache) engine_step" where
  "get_or_build h route registry cache eng w =
     (case cache (cr_route_key route) of
        Some (stored_gen, plan) \<Rightarrow>
          if stored_gen = eg_generation eng then ((plan, cache), eng, w)
          else (case build_plan h route registry eng w of
                  (plan', eng', w') \<Rightarrow> ((plan', cache(cr_route_key route \<mapsto> (eg_generation eng, plan'))), eng', w'))
      | None \<Rightarrow>
          (case build_plan h route registry eng w of
             (plan', eng', w') \<Rightarrow> ((plan', cache(cr_route_key route \<mapsto> (eg_generation eng, plan'))), eng', w')))"

end
