(* ===== verification/Message_Projection.thy ===== *)
theory Message_Projection
  imports Messages
begin

text \<open>
  \<^verbatim>\<open>crates/ppe-apl-runtime/src/message_projection.rs\<close>: what of a message the policy language sees as \<^verbatim>\<open>args\<close> and
  \<^verbatim>\<open>result\<close>, how an edited projection is written back, and the three-way merge of the edits of a field
  pipeline into a message that plugins have edited meanwhile.
\<close>

subsection \<open>Equality of JSON values\<close>

text \<open>
  \<^verbatim>\<open>PartialEq\<close> of \<^verbatim>\<open>serde_json::Value\<close>: an integer never equals a double, doubles compare as IEEE numbers
  (so the two zeros are equal), and maps are compared entry by entry.  A \<^verbatim>\<open>Number\<close> is never NaN.
\<close>

lemma size_zip_left: "(a, b) \<in> set (zip xs ys) \<Longrightarrow> size a < Suc (size_list size xs)"
  by (auto dest!: set_zip_leftD simp: less_Suc_eq_le intro!: size_list_estimation' [where x = a])

lemma size_zip_snd:
  assumes "(a, b) \<in> set (zip (map snd m) ys)"
  shows "size a < Suc (size_list (size_prod (\<lambda>x. 0) size) m)"
proof -
  obtain k where "(k, a) \<in> set m" using assms by (auto dest!: set_zip_leftD)
  then show ?thesis by (auto simp: less_Suc_eq_le intro!: size_list_estimation' [where x = "(k, a)"])
qed

function json_eq :: "json \<Rightarrow> json \<Rightarrow> bool" where
  "json_eq v w =
     (case (v, w) of
        (JNull, JNull) \<Rightarrow> True
      | (JBool a, JBool b) \<Rightarrow> a = b
      | (JInt a, JInt b) \<Rightarrow> a = b
      | (JFloat a, JFloat b) \<Rightarrow> f64_eq a b
      | (JStr a, JStr b) \<Rightarrow> a = b
      | (JArr xs, JArr ys) \<Rightarrow> length xs = length ys \<and> (\<forall>p \<in> set (zip xs ys). json_eq (fst p) (snd p))
      | (JObj m, JObj n) \<Rightarrow>
          map fst m = map fst n \<and> (\<forall>p \<in> set (zip (map snd m) (map snd n)). json_eq (fst p) (snd p))
      | _ \<Rightarrow> False)"
  by pat_completeness auto
termination
  by (relation "measure (\<lambda>(v, w). size v)") (auto simp: size_zip_left size_zip_snd)

declare json_eq.simps [simp del]

fun json_no_nan :: "json \<Rightarrow> bool" where
  "json_no_nan (JFloat x) = (x \<noteq> F64_NaN)"
| "json_no_nan (JArr vs) = (\<forall>v \<in> set vs. json_no_nan v)"
| "json_no_nan (JObj m) = (\<forall>p \<in> set m. json_no_nan (snd p))"
| "json_no_nan _ = True"

lemma json_eq_simps [simp]:
  "json_eq JNull w \<longleftrightarrow> w = JNull"
  "json_eq (JBool a) w \<longleftrightarrow> w = JBool a"
  "json_eq (JInt i) w \<longleftrightarrow> w = JInt i"
  "json_eq (JFloat x) w \<longleftrightarrow> (\<exists>y. w = JFloat y \<and> f64_eq x y)"
  "json_eq (JStr s) w \<longleftrightarrow> w = JStr s"
  "json_eq (JArr xs) w \<longleftrightarrow> (\<exists>ys. w = JArr ys \<and> list_all2 json_eq xs ys)"
  "json_eq (JObj m) w \<longleftrightarrow> (\<exists>n. w = JObj n \<and> map fst m = map fst n \<and> list_all2 json_eq (map snd m) (map snd n))"
  by (subst json_eq.simps; auto simp: list_all2_iff split: json.split dest: map_eq_imp_length_eq)+

lemma f64_eq_refl: "x \<noteq> F64_NaN \<Longrightarrow> f64_eq x x"
  by (cases x) auto

lemma json_eq_refl: "json_no_nan v \<Longrightarrow> json_eq v v"
  by (induction v) (auto simp: f64_eq_refl list_all2_same)

lemma list_all2_map_of:
  "map fst m = map fst n \<Longrightarrow> list_all2 R (map snd m) (map snd n) \<Longrightarrow> rel_option R (map_of m k) (map_of n k)"
proof (induction m arbitrary: n)
  case (Cons kv m)
  then show ?case by (cases n; cases kv; cases "hd n") auto
qed simp

lemma map_of_list_all2:
  assumes "norm_btree m" "norm_btree n" "\<And>k. rel_option R (map_of m k) (map_of n k)"
  shows "map fst m = map fst n \<and> list_all2 R (map snd m) (map snd n)"
proof -
  have same: "map_of m k = None \<longleftrightarrow> map_of n k = None" for k
    using assms(3) [of k] by (cases "map_of m k"; cases "map_of n k") simp_all
  have "k \<in> fst ` set m \<longleftrightarrow> k \<in> fst ` set n" for k
    using same [of k] by (simp add: map_of_eq_None_iff)
  then have "set (map fst m) = set (map fst n)" unfolding set_map by blast
  then have keys: "map fst m = map fst n"
    using norm_btree_distinct [OF assms(1)] norm_btree_distinct [OF assms(2)]
    by (intro sorted_distinct_set_unique) simp_all
  then have len: "length m = length n" by (rule map_eq_imp_length_eq)
  have "R (snd (m ! i)) (snd (n ! i))" if i: "i < length m" for i
  proof -
    have k: "fst (m ! i) = fst (n ! i)" using arg_cong [OF keys, of "\<lambda>l. l ! i"] i len by simp
    have "map_of m (fst (m ! i)) = Some (snd (m ! i))"
      using i norm_btree_distinct [OF assms(1)] by (simp add: map_of_eq_Some_iff)
    moreover have "map_of n (fst (n ! i)) = Some (snd (n ! i))"
      using i len norm_btree_distinct [OF assms(2)] by (simp add: map_of_eq_Some_iff)
    ultimately show ?thesis using assms(3) [of "fst (m ! i)"] k by simp
  qed
  then show ?thesis using keys len by (simp add: list_all2_conv_all_nth)
qed

lemma json_eq_get:
  assumes "json_eq v w"
  shows "rel_option json_eq (json_get v k) (json_get w k)"
  using assms by (cases v) (auto simp: list_all2_map_of)

lemma json_eq_is_object: "json_eq v w \<Longrightarrow> is_object v \<longleftrightarrow> is_object w"
  by (cases v) auto

lemma json_eq_get_path: "json_eq v w \<Longrightarrow> rel_option json_eq (get_path v p) (get_path w p)"
proof (induction p arbitrary: v w)
  case (Cons k p)
  show ?case using json_eq_get [OF Cons.prems, of k] Cons.IH by (cases rule: option.rel_cases) auto
qed simp

subsection \<open>Projections\<close>

text \<open>\<^verbatim>\<open>rewrite_message_text\<close>: the first text part, or a new one at the end.\<close>

fun rewrite_text :: "content_part list \<Rightarrow> string \<Rightarrow> content_part list" where
  "rewrite_text [] t = [CP_Text t]"
| "rewrite_text (CP_Text u # parts) t = CP_Text t # parts"
| "rewrite_text (part # parts) t = part # rewrite_text parts t"

definition rewrite_message_text :: "message \<Rightarrow> string \<Rightarrow> message" where
  "rewrite_message_text msg t = set_content (rewrite_text (ms_content msg) t) msg"

text \<open>Collecting the entries of a hash map into a \<^verbatim>\<open>serde_json::Map\<close>.\<close>

definition collect_map :: "json hash_map \<Rightarrow> (string \<times> json) list" where
  "collect_map m = fold (\<lambda>(k, v) acc. btree_insert k v acc) m []"

fun extract_args_parts :: "content_part list \<Rightarrow> json option" where
  "extract_args_parts [] = None"
| "extract_args_parts (CP_ToolCall c # parts) = Some (JObj (collect_map (tc_arguments c)))"
| "extract_args_parts (CP_PromptRequest c # parts) = Some (JObj (collect_map (pq_arguments c)))"
| "extract_args_parts (part # parts) = extract_args_parts parts"

definition extract_args_from_message :: "message \<Rightarrow> json" where
  "extract_args_from_message msg =
     unwrap_or (extract_args_parts (ms_content msg)) (JStr (get_text_content msg))"

text \<open>The write stops at the first call or prompt request, also when the value is no object: \<open>None\<close> says that there is none.\<close>

fun write_args_parts :: "content_part list \<Rightarrow> json \<Rightarrow> content_part list option" where
  "write_args_parts [] args = None"
| "write_args_parts (CP_ToolCall c # parts) args =
     Some (CP_ToolCall (case args of JObj m \<Rightarrow> c\<lparr>tc_arguments := m\<rparr> | _ \<Rightarrow> c) # parts)"
| "write_args_parts (CP_PromptRequest c # parts) args =
     Some (CP_PromptRequest (case args of JObj m \<Rightarrow> c\<lparr>pq_arguments := m\<rparr> | _ \<Rightarrow> c) # parts)"
| "write_args_parts (part # parts) args = map_option ((#) part) (write_args_parts parts args)"

definition write_args_back_to_message :: "message \<Rightarrow> json \<Rightarrow> message" where
  "write_args_back_to_message msg args =
     (case write_args_parts (ms_content msg) args of
        Some parts \<Rightarrow> set_content parts msg
      | None \<Rightarrow> (case as_str args of Some t \<Rightarrow> rewrite_message_text msg t | None \<Rightarrow> msg))"

fun extract_result_parts :: "content_part list \<Rightarrow> json option" where
  "extract_result_parts [] = None"
| "extract_result_parts (CP_ToolResult c # parts) = Some (tr_content c)"
| "extract_result_parts (part # parts) = extract_result_parts parts"

definition extract_result_from_message :: "message \<Rightarrow> json" where
  "extract_result_from_message msg =
     unwrap_or (extract_result_parts (ms_content msg)) (JStr (get_text_content msg))"

fun write_result_parts :: "content_part list \<Rightarrow> json \<Rightarrow> content_part list option" where
  "write_result_parts [] result = None"
| "write_result_parts (CP_ToolResult c # parts) result = Some (CP_ToolResult (c\<lparr>tr_content := result\<rparr>) # parts)"
| "write_result_parts (part # parts) result = map_option ((#) part) (write_result_parts parts result)"

definition write_result_back_to_message :: "message \<Rightarrow> json \<Rightarrow> message" where
  "write_result_back_to_message msg result =
     (case write_result_parts (ms_content msg) result of
        Some parts \<Rightarrow> set_content parts msg
      | None \<Rightarrow> (case as_str result of Some t \<Rightarrow> rewrite_message_text msg t | None \<Rightarrow> msg))"

subsection \<open>The merge\<close>

text \<open>
  \<open>remove_omitted\<close> is the first loop of \<^verbatim>\<open>apply_changed_paths\<close>: the keys the pipeline removed.
  \<open>merge_keys\<close> is the second, over the entries of the edited map.
\<close>

definition remove_omitted :: "(string \<times> json) list \<Rightarrow> (string \<times> json) list \<Rightarrow> (string \<times> json) list \<Rightarrow> (string \<times> json) list" where
  "remove_omitted pre_map post_map base_map =
     fold (\<lambda>(key, _) m. if map_of post_map key = None then AList.delete key m else m) pre_map base_map"

fun apply_changed_paths :: "json \<Rightarrow> json \<Rightarrow> json \<Rightarrow> json"
and merge_keys :: "(string \<times> json) list \<Rightarrow> (string \<times> json) list \<Rightarrow> (string \<times> json) list \<Rightarrow> (string \<times> json) list" where
  "apply_changed_paths base pre (JObj post_map) =
     (case pre of
        JObj pre_map \<Rightarrow>
          (case base of
             JObj base_map \<Rightarrow> JObj (merge_keys pre_map post_map (remove_omitted pre_map post_map base_map))
           | _ \<Rightarrow> JObj post_map)
      | _ \<Rightarrow> JObj post_map)"
| "apply_changed_paths base pre post = (if json_eq pre post then base else post)"
| "merge_keys pre_map [] base_map = base_map"
| "merge_keys pre_map ((key, post_value) # rest) base_map =
     merge_keys pre_map rest
       (case map_of pre_map key of
          Some pre_value \<Rightarrow>
            if json_eq pre_value post_value then base_map
            else (case map_of base_map key of
                    Some base_value \<Rightarrow>
                      if is_object base_value \<and> is_object pre_value \<and> is_object post_value
                      then btree_insert key (apply_changed_paths base_value pre_value post_value) base_map
                      else btree_insert key post_value base_map
                  | None \<Rightarrow> btree_insert key post_value base_map)
        | None \<Rightarrow> btree_insert key post_value base_map)"

subsection \<open>What the merge leaves under a key\<close>

text \<open>The value of one key after the merge, from its three versions.\<close>

definition merge_value :: "json option \<Rightarrow> json option \<Rightarrow> json option \<Rightarrow> json option" where
  "merge_value pre post base =
     (case (pre, post) of
        (None, None) \<Rightarrow> base
      | (Some _, None) \<Rightarrow> None
      | (None, Some v) \<Rightarrow> Some v
      | (Some u, Some v) \<Rightarrow>
          if json_eq u v then base
          else (case base of
                  Some b \<Rightarrow> Some (if is_object b \<and> is_object u \<and> is_object v then apply_changed_paths b u v else v)
                | None \<Rightarrow> Some v))"

lemma merge_value_simps [simp]:
  "merge_value None None b = b"
  "merge_value (Some u) None b = None"
  "merge_value None (Some v) b = Some v"
  "json_eq u v \<Longrightarrow> merge_value (Some u) (Some v) b = b"
  "\<not> json_eq u v \<Longrightarrow> merge_value (Some u) (Some v) None = Some v"
  "\<not> json_eq u v \<Longrightarrow> \<not> is_object v \<Longrightarrow> merge_value (Some u) (Some v) b = Some v"
  by (auto simp: merge_value_def split: option.split)

lemma map_of_remove_omitted:
  "map_of (remove_omitted pre_map post_map base_map) k =
     (if map_of pre_map k \<noteq> None \<and> map_of post_map k = None then None else map_of base_map k)"
proof -
  have "map_of (fold (\<lambda>(key, _) m. if map_of post_map key = None then AList.delete key m else m) xs bm) k =
     (if map_of xs k \<noteq> None \<and> map_of post_map k = None then None else map_of bm k)" for xs :: "(string \<times> json) list" and bm :: "(string \<times> json) list"
    by (induction xs arbitrary: bm) (auto simp: AList.delete_conv')
  then show ?thesis by (simp add: remove_omitted_def)
qed

lemma map_of_merge_keys:
  "distinct (map fst post_map) \<Longrightarrow>
   map_of (merge_keys pre_map post_map base_map) k =
     (case map_of post_map k of
        None \<Rightarrow> map_of base_map k
      | Some v \<Rightarrow> merge_value (map_of pre_map k) (Some v) (map_of base_map k))"
proof (induction post_map arbitrary: base_map)
  case (Cons kv rest)
  obtain key v where kv: "kv = (key, v)" by (cases kv)
  then have "map_of rest key = None" using Cons.prems by (simp add: map_of_eq_None_iff)
  with Cons kv show ?case
    by (auto simp: map_of_btree_insert merge_value_def split: option.splits)
qed simp

lemma get_merged:
  assumes "distinct (map fst post_map)"
  shows "json_get (apply_changed_paths (JObj base_map) (JObj pre_map) (JObj post_map)) k =
           merge_value (map_of pre_map k) (map_of post_map k) (map_of base_map k)"
  using assms
  by (auto simp: map_of_merge_keys map_of_remove_omitted split: option.split)

lemma norm_remove_omitted: "norm_btree base_map \<Longrightarrow> norm_btree (remove_omitted pre_map post_map base_map)"
  unfolding remove_omitted_def
  by (induction pre_map arbitrary: base_map) (auto simp: AList.delete_eq norm_btree_filter)

lemma norm_merge_keys: "norm_btree base_map \<Longrightarrow> norm_btree (merge_keys pre_map post_map base_map)"
proof (induction post_map arbitrary: base_map)
  case (Cons kv rest)
  obtain key v where kv: "kv = (key, v)" by (cases kv)
  show ?case unfolding kv merge_keys.simps
    by (rule Cons.IH) (use Cons.prems in \<open>auto simp: norm_btree_insert split: option.split\<close>)
qed simp

lemma merge_is_object: "is_object post \<Longrightarrow> is_object (apply_changed_paths base pre post)"
  by (cases post; cases pre; cases base) auto

lemma merge_not_objects: "\<not> (is_object pre \<and> is_object post \<and> is_object base) \<Longrightarrow> \<not> json_eq pre post \<Longrightarrow> apply_changed_paths base pre post = post"
  by (cases post; cases pre; cases base) auto

subsection \<open>The merge along a path\<close>

lemma json_wf_distinct: "json_wf (JObj m) \<Longrightarrow> distinct (map fst m)"
  by (simp add: norm_btree_distinct)

text \<open>One step down: either the merged value is the edited one, or all three versions are objects.\<close>

lemma merge_cases:
  assumes "\<not> json_eq pre post"
  obtains "apply_changed_paths base pre post = post"
  | base_map pre_map post_map where "base = JObj base_map" "pre = JObj pre_map" "post = JObj post_map"
  using assms merge_not_objects [of pre post base] by (cases base; cases pre; cases post) auto

lemma merge_same:
  assumes "json_eq pre post" "json_wf post" "is_object pre \<longrightarrow> is_object base"
  shows "apply_changed_paths base pre post = base"
proof (cases "is_object pre")
  case True
  then obtain pm bm where pm: "pre = JObj pm" "base = JObj bm" using assms(3) by (cases pre; cases base) auto
  then obtain qm where qm: "post = JObj qm" "map fst pm = map fst qm" "list_all2 json_eq (map snd pm) (map snd qm)"
    using assms(1) by auto
  have rel: "rel_option json_eq (map_of pm k) (map_of qm k)" for k by (rule list_all2_map_of [OF qm(2,3)])
  have omitted: "remove_omitted pm qm bm = bm"
  proof -
    have "fold (\<lambda>(key, _) m. if map_of qm key = None then AList.delete key m else m) xs bm = bm"
      if "set xs \<subseteq> set pm" for xs
      using that
    proof (induction xs)
      case (Cons kv xs)
      then have "fst kv \<in> fst ` set pm" by simp
      then have "map_of pm (fst kv) \<noteq> None" by (simp add: map_of_eq_None_iff)
      then have "map_of qm (fst kv) \<noteq> None" using rel [of "fst kv"] by (cases "map_of qm (fst kv)") auto
      with Cons show ?case by (cases kv) auto
    qed simp
    then show ?thesis by (simp add: remove_omitted_def)
  qed
  have "merge_keys pm xs bm = bm" if "set xs \<subseteq> set qm" for xs
    using that
  proof (induction xs)
    case (Cons kv xs)
    obtain key v where kv: "kv = (key, v)" by (cases kv)
    then have "map_of qm key = Some v"
      using Cons.prems json_wf_distinct assms(2) qm(1) by (simp add: map_of_eq_Some_iff)
    then obtain u where "map_of pm key = Some u" "json_eq u v" using rel [of key] by (cases "map_of pm key") auto
    with Cons kv show ?case by simp
  qed simp
  then show ?thesis using pm qm(1) omitted by simp
next
  case False
  then show ?thesis using assms(1) json_eq_is_object [OF assms(1)] by (cases post) auto
qed

lemma merge_edit_lands:
  assumes "json_wf post" "get_path post p = Some v" "\<not> is_object v"
    "\<And>u. get_path pre p = Some u \<Longrightarrow> \<not> json_eq u v"
  shows "get_path (apply_changed_paths base pre post) p = Some v"
  using assms
proof (induction p arbitrary: base pre post)
  case Nil
  then show ?case using merge_not_objects [of pre post base] by auto
next
  case (Cons k p)
  have neq: "\<not> json_eq pre post"
    using json_eq_get_path [of pre post "k # p"] Cons.prems by (auto simp del: get_path.simps elim: option.rel_cases)
  show ?case
  proof (rule merge_cases [OF neq, of base])
    fix bm pm qm assume maps: "base = JObj bm" "pre = JObj pm" "post = JObj qm"
    then obtain q where q: "map_of qm k = Some q" "get_path q p = Some v"
      using Cons.prems(2) by (auto split: option.splits)
    have "json_wf q" using Cons.prems(1) maps(3) q(1) json_wf_map_of by blast
    have get: "json_get (apply_changed_paths base pre post) k = merge_value (map_of pm k) (Some q) (map_of bm k)"
      using get_merged json_wf_distinct Cons.prems(1) maps q(1) by auto
    have "\<exists>r. merge_value (map_of pm k) (Some q) (map_of bm k) = Some r \<and> get_path r p = Some v"
    proof (cases "map_of pm k")
      case (Some u)
      then have u: "\<And>w. get_path u p = Some w \<Longrightarrow> \<not> json_eq w v" using Cons.prems(4) maps(2) by simp
      then have "\<not> json_eq u q" using json_eq_get_path [of u q p] q(2) by (auto elim: option.rel_cases)
      with Some q(2) Cons.IH [OF \<open>json_wf q\<close> q(2) Cons.prems(3) u] show ?thesis
        by (auto simp: merge_value_def split: option.split)
    qed (use q(2) in simp)
    then show ?thesis using get by auto
  qed (use Cons.prems(2) in simp)
qed

lemma merge_omission_lands:
  assumes "json_wf post" "get_path pre p \<noteq> None" "get_path post p = None"
  shows "get_path (apply_changed_paths base pre post) p = None"
  using assms
proof (induction p arbitrary: base pre post)
  case (Cons k p)
  have neq: "\<not> json_eq pre post"
    using json_eq_get_path [of pre post "k # p"] Cons.prems by (auto simp del: get_path.simps elim: option.rel_cases)
  show ?case
  proof (rule merge_cases [OF neq, of base])
    fix bm pm qm assume maps: "base = JObj bm" "pre = JObj pm" "post = JObj qm"
    then obtain u where u: "map_of pm k = Some u" "get_path u p \<noteq> None"
      using Cons.prems(2) by (auto split: option.splits)
    have get: "json_get (apply_changed_paths base pre post) k = merge_value (Some u) (map_of qm k) (map_of bm k)"
      using get_merged json_wf_distinct Cons.prems(1) maps u(1) by auto
    show ?thesis
    proof (cases "map_of qm k")
      case (Some q)
      then have q: "get_path q p = None" "json_wf q"
        using Cons.prems(1,3) maps(3) json_wf_map_of [of qm k q] by simp_all
      then have "\<not> json_eq u q" using json_eq_get_path [of u q p] u(2) by (auto elim: option.rel_cases)
      with Some q get Cons.IH [OF q(2) u(2) q(1)] show ?thesis
        by (auto simp: merge_value_def split: option.splits)
    qed (use get in simp)
  qed (use Cons.prems(3) in simp)
qed simp

lemma merge_keeps_other_edits:
  assumes "json_wf post" "p \<noteq> []" "get_path pre p = Some u" "get_path post p = Some v" "json_eq u v"
    "get_path base p = Some b"
  shows "get_path (apply_changed_paths base pre post) p = Some b"
  using assms
proof (induction p arbitrary: base pre post)
  case (Cons k p)
  obtain pm qm bm where maps: "base = JObj bm" "pre = JObj pm" "post = JObj qm"
    using Cons.prems(3,4,6) by (cases base; cases pre; cases post) auto
  then obtain u' v' b' where sub: "map_of pm k = Some u'" "get_path u' p = Some u" "map_of qm k = Some v'"
      "get_path v' p = Some v" "map_of bm k = Some b'" "get_path b' p = Some b"
    using Cons.prems(3,4,6) by (auto split: option.splits)
  then have "json_wf v'" using Cons.prems(1) maps(3) sub(3) json_wf_map_of by blast
  have get: "json_get (apply_changed_paths base pre post) k = merge_value (Some u') (Some v') (Some b')"
    using get_merged json_wf_distinct Cons.prems(1) maps sub by auto
  show ?case
  proof (cases "json_eq u' v'")
    case False
    then have "p \<noteq> []" using sub(2,4) Cons.prems(5) by auto
    moreover from this have "is_object u'" "is_object v'" "is_object b'"
      using sub(2,4,6) get_path_not_object by force+
    ultimately show ?thesis
      using get False sub Cons.IH [OF \<open>json_wf v'\<close> _ sub(2,4) Cons.prems(5) sub(6)] by (simp add: merge_value_def)
  qed (use get sub in simp)
qed simp

text \<open>Without an edit by anybody else the merge gives back what the pipeline produced.\<close>

lemma merge_alone:
  "json_wf pre \<Longrightarrow> json_wf post \<Longrightarrow> json_no_nan post \<Longrightarrow> json_eq (apply_changed_paths pre pre post) post"
proof (induction post arbitrary: pre)
  case (JObj qm)
  show ?case
  proof (cases pre)
    case pm: (JObj pm)
    let ?r = "merge_keys pm qm (remove_omitted pm qm pm)"
    have r: "apply_changed_paths pre pre (JObj qm) = JObj ?r" using pm by simp
    have "rel_option json_eq (map_of ?r k) (map_of qm k)" for k
    proof -
      have get: "map_of ?r k = merge_value (map_of pm k) (map_of qm k) (map_of pm k)"
        using get_merged [OF json_wf_distinct [OF JObj.prems(2)], of pm pm k] r pm by simp
      show ?thesis
      proof (cases "map_of qm k")
        case None
        then show ?thesis using get by (cases "map_of pm k") simp_all
      next
        case (Some v)
        then have "(k, v) \<in> set qm" by (rule map_of_SomeD)
        then have v: "(k, v) \<in> set qm" "json_wf v" "json_no_nan v"
          using JObj.prems(2,3) by force+
        have "json_eq v v" using v(3) by (rule json_eq_refl)
        moreover have "json_eq (apply_changed_paths u u v) v" if "map_of pm k = Some u" for u
          using JObj.IH [OF v(1), of v u] v that json_wf_map_of JObj.prems(1) pm by auto
        ultimately show ?thesis using Some get
          by (cases "map_of pm k") (auto simp: merge_value_def)
      qed
    qed
    moreover have "norm_btree ?r" using JObj.prems(1) pm by (simp add: norm_merge_keys norm_remove_omitted)
    ultimately show ?thesis using r JObj.prems(2) map_of_list_all2 [of ?r qm json_eq] by auto
  qed (use json_eq_refl [OF JObj.prems(3)] in simp_all)
qed (use json_eq_refl in \<open>auto simp del: json_eq_simps\<close>)

subsection \<open>Reading back what was written\<close>

lemma norm_collect_map: "norm_btree (collect_map m)"
proof -
  have "norm_btree acc \<Longrightarrow> norm_btree (fold (\<lambda>(k, v) acc. btree_insert k v acc) m acc)" for acc :: "(string \<times> json) list"
    by (induction m arbitrary: acc) (auto simp: norm_btree_insert)
  then show ?thesis by (simp add: collect_map_def norm_btree_def)
qed

lemma map_of_collect_map: "distinct (map fst m) \<Longrightarrow> map_of (collect_map m) = map_of m"
proof -
  have "distinct (map fst m) \<Longrightarrow> map_of (fold (\<lambda>(k, v) acc. btree_insert k v acc) m acc) = map_of acc ++ map_of m"
    for acc :: "(string \<times> json) list"
  proof (induction m arbitrary: acc)
    case (Cons kv m)
    then have "map_of m (fst kv) = None" by (simp add: map_of_eq_None_iff)
    with Cons show ?case
      by (cases kv) (auto simp: map_of_btree_insert fun_eq_iff map_add_def split: option.split)
  qed simp
  then show "distinct (map fst m) \<Longrightarrow> map_of (collect_map m) = map_of m" by (simp add: collect_map_def)
qed

lemma collect_map_norm: "norm_btree m \<Longrightarrow> collect_map m = m"
  using map_of_list_all2 [of "collect_map m" m "(=)"]
  by (simp add: norm_collect_map map_of_collect_map norm_btree_distinct option.rel_eq list.rel_eq pair_list_eqI)

lemma extract_args_write:
  assumes "extract_args_parts (ms_content msg) \<noteq> None" "norm_btree m"
  shows "extract_args_from_message (write_args_back_to_message msg (JObj m)) = JObj m"
proof -
  have "extract_args_parts parts \<noteq> None \<Longrightarrow>
     \<exists>parts'. write_args_parts parts (JObj m) = Some parts' \<and> extract_args_parts parts' = Some (JObj m)" for parts
    by (induction parts "JObj m" rule: write_args_parts.induct) (auto simp: collect_map_norm assms(2))
  then show ?thesis
    using assms(1) by (fastforce simp: extract_args_from_message_def write_args_back_to_message_def)
qed

lemma extract_result_write:
  assumes "extract_result_parts (ms_content msg) \<noteq> None"
  shows "extract_result_from_message (write_result_back_to_message msg v) = v"
proof -
  have "extract_result_parts parts \<noteq> None \<Longrightarrow>
     \<exists>parts'. write_result_parts parts v = Some parts' \<and> extract_result_parts parts' = Some v" for parts
    by (induction parts v rule: write_result_parts.induct) auto
  then show ?thesis
    using assms by (fastforce simp: extract_result_from_message_def write_result_back_to_message_def)
qed

lemma write_result_extract:
  assumes "extract_result_parts (ms_content msg) = Some v"
  shows "write_result_back_to_message msg v = msg"
proof -
  have "extract_result_parts parts = Some v \<Longrightarrow> write_result_parts parts v = Some parts" for parts
    by (induction parts v rule: write_result_parts.induct) auto
  then show ?thesis using assms by (simp add: write_result_back_to_message_def)
qed

text \<open>The arguments are only known up to the order of a hash map, which a new map need not keep.\<close>

lemma write_args_extract:
  assumes "message_wf msg" "extract_args_parts (ms_content msg) = Some v"
  shows "\<exists>parts. write_args_back_to_message msg v = set_content parts msg
           \<and> list_all2 (\<lambda>p q. p = q
                \<or> (\<exists>c m. p = CP_ToolCall (c\<lparr>tc_arguments := m\<rparr>) \<and> q = CP_ToolCall c \<and> map_of m = map_of (tc_arguments c))
                \<or> (\<exists>c m. p = CP_PromptRequest (c\<lparr>pq_arguments := m\<rparr>) \<and> q = CP_PromptRequest c
                     \<and> map_of m = map_of (pq_arguments c))) parts (ms_content msg)"
proof -
  have "list_all part_wf parts \<Longrightarrow> extract_args_parts parts = Some v \<Longrightarrow>
     \<exists>parts'. write_args_parts parts v = Some parts' \<and> list_all2 (\<lambda>p q. p = q
                \<or> (\<exists>c m. p = CP_ToolCall (c\<lparr>tc_arguments := m\<rparr>) \<and> q = CP_ToolCall c \<and> map_of m = map_of (tc_arguments c))
                \<or> (\<exists>c m. p = CP_PromptRequest (c\<lparr>pq_arguments := m\<rparr>) \<and> q = CP_PromptRequest c
                     \<and> map_of m = map_of (pq_arguments c))) parts' parts" for parts
    by (induction parts v rule: write_args_parts.induct) (auto simp: map_of_collect_map list.rel_refl)
  then show ?thesis using assms by (fastforce simp: message_wf_def write_args_back_to_message_def)
qed

lemma map_filter_rewrite_text:
  "List.map_filter part_text (rewrite_text parts t) = t # drop 1 (List.map_filter part_text parts)"
  by (induction parts t rule: rewrite_text.induct) (simp_all add: List.map_filter_simps)

lemma text_after_rewrite:
  "get_text_content (rewrite_message_text msg t) = t @ concat (drop 1 (List.map_filter part_text (ms_content msg)))"
  by (simp add: get_text_content_def rewrite_message_text_def map_filter_rewrite_text)

end
