(* ===== verification/Sessions.thy ===== *)
theory Sessions
  imports Plugin_Core Invokers
begin

text \<open>
  \<^verbatim>\<open>crates/ppe-apl-runtime/src/session_store.rs\<close> and \<^verbatim>\<open>session_resolver.rs\<close>: the labels a session has accumulated,
  and which session a request belongs to.

  SHA-256 comes from the crate \<^verbatim>\<open>sha2\<close>; it is the parameter \<open>sha\<close>, the bytes of the digest.  The order in
  which a \<^verbatim>\<open>HashSet\<close> is collected into a \<^verbatim>\<open>Vec\<close> is the parameter \<open>order\<close>.
\<close>

subsection \<open>The store\<close>

datatype session_store_error = SS_Backend string

fun session_store_error_text :: "session_store_error \<Rightarrow> string" where
  "session_store_error_text (SS_Backend e) = ''session store backend error: '' @ e"

type_synonym memory_store = "string \<rightharpoonup> string fset"

definition memory_load_labels ::
    "(string fset \<Rightarrow> string list) \<Rightarrow> memory_store \<Rightarrow> string \<Rightarrow> session_store_error + string list" where
  "memory_load_labels order store sid = Inr (case store sid of Some s \<Rightarrow> order s | None \<Rightarrow> [])"

definition memory_append_labels ::
    "memory_store \<Rightarrow> string \<Rightarrow> string list \<Rightarrow> (session_store_error + unit) \<times> memory_store" where
  "memory_append_labels store sid labels =
     (if labels = [] then (Inr (), store)
      else (Inr (), store(sid \<mapsto> fold finsert labels (unwrap_or (store sid) {||}))))"

text \<open>
  What the trait promises: an append that succeeds adds its labels to its session and leaves every other
  session alone.
\<close>

locale session_store =
  fixes load :: "'s \<Rightarrow> string \<Rightarrow> session_store_error + string list"
    and append :: "'s \<Rightarrow> string \<Rightarrow> string list \<Rightarrow> (session_store_error + unit) \<times> 's"
  assumes load_append:
    "append s sid labels = (Inr (), s') \<Longrightarrow> load s sid = Inr xs \<Longrightarrow>
     \<exists>ys. load s' sid = Inr ys \<and> set ys = set xs \<union> set labels"
  assumes load_append_other:
    "append s sid labels = (Inr (), s') \<Longrightarrow> sid' \<noteq> sid \<Longrightarrow> load s' sid' = load s sid'"
begin

fun append_all :: "'s \<Rightarrow> (string \<times> string list) list \<Rightarrow> 's option" where
  "append_all s [] = Some s"
| "append_all s ((sid, labels) # rest) =
     (case append s sid labels of (Inl e, s') \<Rightarrow> None | (Inr u, s') \<Rightarrow> append_all s' rest)"

lemma load_append_all:
  assumes "append_all s reqs = Some s'" "load s sid = Inr xs"
  shows "\<exists>ys. load s' sid = Inr ys \<and> set ys = set xs \<union> (\<Union>(sid', labels) \<in> set reqs. if sid' = sid then set labels else {})"
  using assms
proof (induction reqs arbitrary: s xs)
  case (Cons req rest)
  obtain sid' labels where req: "req = (sid', labels)" by (cases req)
  obtain r s1 where r: "append s sid' labels = (r, s1)" by fastforce
  then have "r = Inr ()" using Cons.prems(1) req by (cases r) simp_all
  with r have s1: "append s sid' labels = (Inr (), s1)" "append_all s1 rest = Some s'"
    using Cons.prems(1) req by simp_all
  have "\<exists>ys. load s1 sid = Inr ys \<and> set ys = set xs \<union> (if sid' = sid then set labels else {})"
  proof (cases "sid = sid'")
    case True
    then show ?thesis using load_append [OF s1(1)] Cons.prems(2) by simp
  next
    case False
    then show ?thesis using load_append_other [OF s1(1) False] Cons.prems(2) by simp
  qed
  then obtain ys where ys: "load s1 sid = Inr ys" "set ys = set xs \<union> (if sid' = sid then set labels else {})" by blast
  from Cons.IH [OF s1(2) ys(1)] show ?case unfolding ys(2) req by (auto simp: Un_assoc)
qed simp

lemma labels_never_leave:
  assumes "append_all s reqs = Some s'" "load s sid = Inr xs" "l \<in> set xs"
  obtains ys where "load s' sid = Inr ys" "l \<in> set ys"
  using load_append_all [OF assms(1,2)] assms(3) by auto

end

lemma fold_finsert: "fold finsert xs s = fset_of_list xs |\<union>| s"
  by (induction xs arbitrary: s) auto

lemma memory_session_store:
  assumes "\<And>s. set (order s) = fset s"
  shows "session_store (memory_load_labels order) memory_append_labels"
proof (unfold_locales, goal_cases)
  case (1 s sid labels s' xs)
  then show ?case using assms
    by (cases "s sid") (auto simp: memory_load_labels_def memory_append_labels_def fold_finsert fset_of_list.rep_eq
        split: if_splits)
qed (auto simp: memory_load_labels_def memory_append_labels_def split: if_splits)

interpretation memory: session_store "memory_load_labels (\<lambda>s. sorted_list_of_set (fset s))" memory_append_labels
  by (rule memory_session_store) simp

subsection \<open>The resolver\<close>

datatype session_source = Src_Agent | Src_TokenClaim | Src_Identity

fun session_source_str :: "session_source \<Rightarrow> string" where
  "session_source_str Src_Agent = ''agent''"
| "session_source_str Src_TokenClaim = ''token_claim''"
| "session_source_str Src_Identity = ''identity''"

definition hex_byte :: "8 word \<Rightarrow> string" where
  "hex_byte b = [hex_digit (unat b div 16), hex_digit (unat b mod 16)]"

definition short_hash :: "(string \<Rightarrow> 8 word list) \<Rightarrow> string \<Rightarrow> string" where
  "short_hash sha raw = concat (map hex_byte (take 8 (sha raw)))"

definition subject_scoped :: "(string \<Rightarrow> 8 word list) \<Rightarrow> string option \<Rightarrow> string \<Rightarrow> string option" where
  "subject_scoped sha subject_id raw =
     (case subject_id of None \<Rightarrow> None | Some sub \<Rightarrow> Some (short_hash sha (sub @ '':'' @ raw)))"

definition non_empty :: "string option \<Rightarrow> string option" where
  "non_empty x = (case x of Some s \<Rightarrow> if s = [] then None else Some s | None \<Rightarrow> None)"

text \<open>The values the tiers look at, and the choice between them.\<close>

definition session_subject_id :: "extensions \<Rightarrow> string option" where
  "session_subject_id ext = Option.bind (Option.bind (ex_security ext) sc_subject) sj_id"

definition agent_session :: "extensions \<Rightarrow> string option" where
  "agent_session ext = non_empty (Option.bind (ex_agent ext) (\<lambda>a. ag_session_id (snd a)))"

definition claim_session :: "(f64 \<Rightarrow> string) \<Rightarrow> extensions \<Rightarrow> string option" where
  "claim_session fmt ext =
     non_empty (Option.bind (Option.bind (ex_security ext) sc_subject) (\<lambda>s. claim_str fmt s ''session_id''))"

definition workload_client :: "workload_identity option \<Rightarrow> string" where
  "workload_client w = unwrap_or (Option.bind w wl_client_id) ''-''"

definition resolve_session ::
    "(f64 \<Rightarrow> string) \<Rightarrow> (string \<Rightarrow> 8 word list) \<Rightarrow> extensions \<Rightarrow> (string \<times> session_source) option" where
  "resolve_session fmt sha ext =
     (let subject_id = session_subject_id ext in
      case Option.bind (agent_session ext) (subject_scoped sha subject_id) of
        Some bound \<Rightarrow> Some (bound, Src_Agent)
      | None \<Rightarrow>
          (case Option.bind (claim_session fmt ext) (subject_scoped sha subject_id) of
             Some bound \<Rightarrow> Some (bound, Src_TokenClaim)
           | None \<Rightarrow>
               (case ex_security ext of
                  None \<Rightarrow> None
                | Some sec \<Rightarrow>
                    (case Option.bind (sc_subject sec) sj_id of
                       None \<Rightarrow> None
                     | Some sub \<Rightarrow>
                         Some (short_hash sha (sub @ '':'' @ workload_client (sc_caller_workload sec) @ '':''
                                 @ workload_client (sc_this_workload sec)), Src_Identity)))))"

subsection \<open>What a session id is made of\<close>

text \<open>Every session id is the hash of the subject, a colon and a tail; the three tiers differ in the tail only.\<close>

definition session_tail :: "(f64 \<Rightarrow> string) \<Rightarrow> extensions \<Rightarrow> string" where
  "session_tail fmt ext =
     (case agent_session ext of
        Some sid \<Rightarrow> sid
      | None \<Rightarrow>
          (case claim_session fmt ext of
             Some sid \<Rightarrow> sid
           | None \<Rightarrow>
               (case ex_security ext of
                  None \<Rightarrow> []
                | Some sec \<Rightarrow> workload_client (sc_caller_workload sec) @ '':'' @ workload_client (sc_this_workload sec))))"

lemma resolve_session_id:
  "map_option fst (resolve_session fmt sha ext) =
     map_option (\<lambda>sub. short_hash sha (sub @ '':'' @ session_tail fmt ext)) (session_subject_id ext)"
  by (auto simp: resolve_session_def session_tail_def subject_scoped_def session_subject_id_def Let_def
      split: option.splits)

lemma resolve_session_None: "resolve_session fmt sha ext = None \<longleftrightarrow> session_subject_id ext = None"
  using resolve_session_id [of fmt sha ext] by (cases "resolve_session fmt sha ext"; cases "session_subject_id ext") auto

lemma resolve_session_Some:
  "resolve_session fmt sha ext = Some (sid, src) \<Longrightarrow>
   \<exists>sub. session_subject_id ext = Some sub \<and> sid = short_hash sha (sub @ '':'' @ session_tail fmt ext)"
  using resolve_session_id [of fmt sha ext] by (cases "session_subject_id ext") auto

text \<open>Cutting at the first colon gives the subject back, unless the subject has a colon itself.\<close>

lemma session_preimage_cut:
  assumes "CHR '':'' \<notin> set sub" "CHR '':'' \<notin> set sub'" "sub @ '':'' @ t = sub' @ '':'' @ t'"
  shows "sub = sub' \<and> t = t'"
proof -
  have "split_once (CHR '':'') (sub @ CHR '':'' # t) = Some (sub, t)" using assms(1) by (rule split_once_append)
  moreover have "split_once (CHR '':'') (sub' @ CHR '':'' # t') = Some (sub', t')" using assms(2) by (rule split_once_append)
  moreover have "sub @ CHR '':'' # t = sub' @ CHR '':'' # t'" using assms(3) by simp
  ultimately show ?thesis by (metis Pair_inject option.inject)
qed

end
