(* ===== verification/Runtime_Invokers.thy ===== *)
theory Runtime_Invokers
  imports Dispatch_Plan Message_Projection Sessions
begin

text \<open>
  \<^verbatim>\<open>crates/ppe-apl-runtime/src/{cmf_invoker,delegation_invoker,elicitation_invoker,pdp_router}.rs\<close>: the three
  invokers through which a route reaches the plugins, and the router in front of the decision points.

  The invokers of one request share the fields of \<open>request\<close> (in the code behind mutexes).  A plugin that
  panics unwinds the whole evaluation; \<open>rq_unwound\<close> records that it happened, after which nothing runs any more.
\<close>

record 'w request =
  rq_extensions :: extensions
  rq_payload :: message
  rq_payload_modified :: bool
  rq_engine :: "(plugin_payload, 'w) engine"
  rq_host :: 'w
  rq_unwound :: "string option"

definition run_entry ::
    "'w apl_host \<Rightarrow> (plugin_payload, 'w) hook_entry \<Rightarrow> plugin_payload \<Rightarrow> 'w request
     \<Rightarrow> (string + plugin_payload pipeline_result) \<times> 'w request" where
  "run_entry h entry payload w =
     (case invoke_entries (ah_runtime h) [entry] payload (rq_extensions w) None (rq_engine w) (rq_host w) of
        (Inl msg, eng, host) \<Rightarrow> (Inl msg, w\<lparr>rq_engine := eng, rq_host := host, rq_unwound := Some msg\<rparr>)
      | (Inr (result, _), eng, host) \<Rightarrow> (Inr result, w\<lparr>rq_engine := eng, rq_host := host\<rparr>))"

subsection \<open>Labels\<close>

definition snapshot_labels :: "extensions \<Rightarrow> string fset" where
  "snapshot_labels ext = (case ex_security ext of Some s \<Rightarrow> sc_labels s | None \<Rightarrow> {||})"

definition add_labels :: "string list \<Rightarrow> security_extension \<Rightarrow> security_extension" where
  "add_labels labels s = s\<lparr>sc_labels := fold add_label labels (sc_labels s)\<rparr>"

definition hydrate_labels :: "extensions \<Rightarrow> string list \<Rightarrow> extensions" where
  "hydrate_labels ext labels =
     ext\<lparr>ex_security := Some (add_labels labels (unwrap_or (ex_security ext) security_default))\<rparr>"

lemma fold_add_label: "fold add_label labels s = fset_of_list labels |\<union>| s"
  by (induction labels arbitrary: s) (auto simp: add_label_def)

lemma snapshot_hydrate: "snapshot_labels (hydrate_labels ext labels) = fset_of_list labels |\<union>| snapshot_labels ext"
  by (auto simp: snapshot_labels_def hydrate_labels_def add_labels_def fold_add_label security_default_def
      split: option.splits)

subsection \<open>Plugins\<close>

definition field_value_from_message :: "message \<Rightarrow> string \<Rightarrow> dispatch_phase \<Rightarrow> json option" where
  "field_value_from_message msg field ph =
     (let projection = (case ph of Pre \<Rightarrow> extract_args_from_message msg | Post \<Rightarrow> extract_result_from_message msg)
      in if is_object projection then get_dotted projection field else Some projection)"

fun hook_phase_of :: "dispatch_phase \<Rightarrow> hook_phase" where
  "hook_phase_of Pre = HP_Pre"
| "hook_phase_of Post = HP_Post"

fun debug_hook_phase :: "hook_phase \<Rightarrow> string" where
  "debug_hook_phase HP_Pre = ''Pre''"
| "debug_hook_phase HP_Post = ''Post''"
| "debug_hook_phase HP_Unphased = ''Unphased''"

definition no_hook_text :: "string \<Rightarrow> string option \<Rightarrow> hook_phase \<Rightarrow> string list \<Rightarrow> string" where
  "no_hook_text name et ph hooks =
     ''plugin '' @ [CHR 0x27] @ name @ [CHR 0x27] @ '' has no hook matching dispatch context (entity_type=''
       @ debug_option debug_string et @ '', phase='' @ debug_hook_phase ph @ ''); declared hooks: '' @ debug_strings hooks"

fun cmf_decision :: "plugin_payload pipeline_result \<Rightarrow> decision" where
  "cmf_decision result =
     (if is_denied result
      then (case pl_violation result of
              Some v \<Rightarrow> Dec_Deny (Some (vi_reason v)) (vi_code v)
            | None \<Rightarrow> Dec_Deny None ''policy.forbidden'')
      else Dec_Allow)"

definition field_before :: "plugin_invocation \<Rightarrow> message \<Rightarrow> json option" where
  "field_before call msg =
     (case call of Inv_Field name _ ph \<Rightarrow> field_value_from_message msg name ph | Inv_Step _ \<Rightarrow> None)"

text \<open>Taking over a returned payload: the value the pipeline stage gets, and the request afterwards.\<close>

definition take_payload ::
    "plugin_invocation \<Rightarrow> plugin_payload pipeline_result \<Rightarrow> 'w request \<Rightarrow> json option \<times> 'w request" where
  "take_payload call result w =
     (if \<not> pl_payload_modified result then (None, w)
      else (case Option.bind (pl_modified_payload result) as_message of
              None \<Rightarrow> (None, w)
            | Some modified \<Rightarrow>
                ((case call of
                    Inv_Field name _ ph \<Rightarrow>
                      (case field_value_from_message modified name ph of
                         Some v \<Rightarrow>
                           (case field_before call (rq_payload w) of
                              Some b \<Rightarrow> if json_eq b v then None else Some v
                            | None \<Rightarrow> Some v)
                       | None \<Rightarrow> None)
                  | Inv_Step _ \<Rightarrow> None),
                 w\<lparr>rq_payload := modified, rq_payload_modified := True\<rparr>)))"

definition take_extensions ::
    "'w apl_host \<Rightarrow> plugin_payload pipeline_result \<Rightarrow> 'w request \<Rightarrow> taint_event list \<times> 'w request" where
  "take_extensions h result w =
     (case pl_modified_extensions result of
        None \<Rightarrow> ([], w)
      | Some modified \<Rightarrow>
          (map (\<lambda>label. \<lparr>te_label = label, te_scopes = [Scope_Session]\<rparr>)
             (ah_order h (snapshot_labels modified |-| snapshot_labels (rq_extensions w))),
           w\<lparr>rq_extensions := modified\<rparr>))"

definition cmf_invoke ::
    "'w apl_host \<Rightarrow> 'w dispatch_plan \<Rightarrow> 'w request \<Rightarrow> string \<Rightarrow> attribute_bag \<Rightarrow> plugin_invocation
     \<Rightarrow> (plugin_error + plugin_outcome) \<times> 'w request" where
  "cmf_invoke h plan w name bag call =
     (case rq_unwound w of
        Some msg \<Rightarrow> (Inl (PluginDispatch msg), w)
      | None \<Rightarrow>
          (case plan_get plan name of
             None \<Rightarrow> (Inl (PluginNotFound name), w)
           | Some entries \<Rightarrow>
               let et = Option.bind (ex_meta (rq_extensions w)) (\<lambda>m. me_entity_type (snd m));
                   ph = hook_phase_of (invocation_phase call)
               in (case pick_entry h entries et ph of
                     None \<Rightarrow> (Inl (PluginDispatch (no_hook_text name et ph (map fst (ah_iter h entries)))), w)
                   | Some entry \<Rightarrow>
                       (case run_entry h entry (PP_Message (rq_payload w)) w of
                          (Inl msg, w1) \<Rightarrow> (Inl (PluginDispatch msg), w1)
                        | (Inr result, w1) \<Rightarrow>
                            (case take_payload call result w1 of
                               (modified_value, w2) \<Rightarrow>
                                 (case take_extensions h result w2 of
                                    (taints, w3) \<Rightarrow>
                                      (Inr \<lparr>po_decision = cmf_decision result, po_taints = taints,
                                            po_modified_value = modified_value\<rparr>, w3)))))))"

subsection \<open>Delegation\<close>

definition subject_from_cfg :: "(yaml \<times> yaml) list option \<Rightarrow> delegation_error + delegation_subject" where
  "subject_from_cfg cfg =
     (case Option.bind cfg (\<lambda>m. yaml_entry m ''subject'') of
        None \<Rightarrow> Inr DS_User
      | Some v \<Rightarrow>
          (case yaml_as_str v of
             None \<Rightarrow> Inl (DelegationInvalidConfig ''`subject:` must be a string'')
           | Some s \<Rightarrow>
               (case subject_from_config_str s of
                  Some sub \<Rightarrow> Inr sub
                | None \<Rightarrow> Inl (DelegationInvalidConfig (''unknown `subject: '' @ s
                    @ ''` (expected user | client | caller_workload | this_workload)'')))))"

definition role_from_cfg :: "(yaml \<times> yaml) list option \<Rightarrow> string \<Rightarrow> delegation_error + token_role option" where
  "role_from_cfg cfg key =
     (case Option.bind cfg (\<lambda>m. yaml_entry m key) of
        None \<Rightarrow> Inr None
      | Some v \<Rightarrow>
          (case yaml_as_str v of
             None \<Rightarrow> Inl (DelegationInvalidConfig (''`'' @ key @ '':` must be a string''))
           | Some s \<Rightarrow>
               if s = ''user'' then Inr (Some Role_User)
               else if s = ''client'' then Inr (Some Role_Client)
               else if s = ''caller_workload'' \<or> s = ''workload'' then Inr (Some Role_CallerWorkload)
               else Inl (DelegationInvalidConfig (''unknown `'' @ key @ '': '' @ s
                      @ ''` (expected user | client | caller_workload)''))))"

definition reject_unsupported_actor_combo :: "delegation_subject \<Rightarrow> token_role option \<Rightarrow> delegation_error + unit" where
  "reject_unsupported_actor_combo sub actor =
     (if actor \<noteq> None \<and> (sub = DS_CallerWorkload \<or> sub = DS_ThisWorkload)
      then Inl (DelegationInvalidConfig (''`actor:` is not supported with `subject: caller_workload` or ''
             @ ''`subject: this_workload` '' @ map char_of [226, 128, 148 :: nat] @ '' the actor would be silently ignored''))
      else Inr ())"

definition target_type_from_str :: "string \<Rightarrow> target_type" where
  "target_type_from_str s =
     (let l = to_ascii_lowercase s
      in if l = ''tool'' then TT_Tool
         else if l = ''agent'' then TT_Agent
         else if l = ''resource'' then TT_Resource
         else if l = ''service'' then TT_Service
         else TT_Custom l)"

definition auth_enforced_by_from_str :: "string \<Rightarrow> auth_enforced_by" where
  "auth_enforced_by_from_str s =
     (let l = to_ascii_lowercase s in if l = ''target'' then AE_Target else AE_Caller)"

definition inbound_token :: "extensions \<Rightarrow> token_role \<Rightarrow> string option" where
  "inbound_token ext r = map_option ri_token (Option.bind (ex_raw_credentials ext) (\<lambda>rc. rc_inbound_tokens rc r))"

text \<open>The payload of one \<^verbatim>\<open>delegate(...)\<close> step, or the error of its configuration.\<close>

definition delegation_payload_of :: "delegate_step \<Rightarrow> extensions \<Rightarrow> delegation_error + delegation_payload" where
  "delegation_payload_of step ext =
     (let cfg = Option.bind (ds_config_override step) as_mapping;
          get = (\<lambda>key. Option.bind cfg (\<lambda>m. yaml_entry m key));
          get_str = (\<lambda>key. Option.bind (get key) yaml_as_str)
      in res_bind (subject_from_cfg cfg) (\<lambda>subject.
         let bearer_token = unwrap_or (Option.bind (inbound_role subject) (inbound_token ext)) [];
             target_name = unwrap_or (get_str ''target'') (ds_plugin_name step)
         in res_bind (role_from_cfg cfg ''actor'') (\<lambda>actor_role.
            res_bind (reject_unsupported_actor_combo subject actor_role) (\<lambda>_.
            let p0 = (delegation_payload_new bearer_token target_name)\<lparr>dl_subject := subject\<rparr>;
                p1 = (case actor_role of
                        None \<Rightarrow> p0
                      | Some r \<Rightarrow>
                          let actor_token = unwrap_or (inbound_token ext r) []
                          in if actor_token = [] then p0 else with_actor r actor_token p0);
                p2 = (case get_str ''audience'' of None \<Rightarrow> p1 | Some a \<Rightarrow> p1\<lparr>dl_target_audience := Some a\<rparr>);
                p3 = (case Option.bind (get ''permissions'') as_sequence of
                        None \<Rightarrow> p2
                      | Some perms \<Rightarrow>
                          let l = List.map_filter yaml_as_str perms
                          in if l = [] then p2 else p2\<lparr>dl_required_permissions := l\<rparr>);
                p4 = (case get_str ''target_type'' of
                        None \<Rightarrow> p3 | Some s \<Rightarrow> p3\<lparr>dl_target_type := target_type_from_str s\<rparr>)
            in Inr (case get_str ''auth_enforced_by'' of
                      None \<Rightarrow> p4 | Some s \<Rightarrow> p4\<lparr>dl_auth_enforced_by := auth_enforced_by_from_str s\<rparr>)))))"

definition delegation_denied :: "delegate_step \<Rightarrow> plugin_violation option \<Rightarrow> delegation_outcome" where
  "delegation_denied step v =
     delegation_outcome_deny (case v of
        Some v \<Rightarrow> Dec_Deny (Some (vi_reason v)) (vi_code v)
      | None \<Rightarrow> Dec_Deny (Some (''delegate `'' @ ds_plugin_name step @ ''` denied without violation detail'')) (ds_source step))"

definition granted :: "'w apl_host \<Rightarrow> delegation_payload \<Rightarrow> delegation_outcome" where
  "granted h p =
     (case dl_delegated_token p of
        Some tok \<Rightarrow> \<lparr>do_decision = Dec_Allow, do_granted_permissions = rd_scopes tok,
                     do_granted_audience = Some (rd_audience tok), do_granted_expires_at = Some (ah_rfc3339 h (rd_expires_at tok))\<rparr>
      | None \<Rightarrow> \<lparr>do_decision = Dec_Allow, do_granted_permissions = [], do_granted_audience = None,
                 do_granted_expires_at = None\<rparr>)"

definition cmf_delegate ::
    "'w apl_host \<Rightarrow> 'w dispatch_plan \<Rightarrow> 'w request \<Rightarrow> delegate_step \<Rightarrow> (delegation_error + delegation_outcome) \<times> 'w request" where
  "cmf_delegate h plan w step =
     (case rq_unwound w of
        Some msg \<Rightarrow> (Inl (DelegationDispatch msg), w)
      | None \<Rightarrow>
          (case dn_delegation_entries plan (ds_plugin_name step) of
             None \<Rightarrow> (Inl (DelegationNotFound (ds_plugin_name step)), w)
           | Some entry \<Rightarrow>
               (case delegation_payload_of step (rq_extensions w) of
                  Inl e \<Rightarrow> (Inl e, w)
                | Inr payload \<Rightarrow>
                    (case run_entry h entry (PP_Delegation payload) w of
                       (Inl msg, w1) \<Rightarrow> (Inl (DelegationDispatch msg), w1)
                     | (Inr result, w1) \<Rightarrow>
                         if \<not> pl_continue_processing result then (Inr (delegation_denied step (pl_violation result)), w1)
                         else (case delegation_from_result result of
                                 None \<Rightarrow> (Inl (DelegationDispatch (''plugin `'' @ ds_plugin_name step
                                           @ ''` returned allow but no DelegationPayload'')), w1)
                               | Some resolved \<Rightarrow>
                                   (Inr (granted h resolved),
                                    w1\<lparr>rq_extensions := delegation_apply_to_extensions resolved (rq_extensions w1)\<rparr>))))))"

subsection \<open>Elicitation\<close>

definition apply_step_inputs :: "elicitation_payload \<Rightarrow> elicit_step \<Rightarrow> elicitation_payload" where
  "apply_step_inputs p step =
     p\<lparr>ey_purpose := or_else (el_purpose step) (ey_purpose p), ey_scope := or_else (el_scope step) (ey_scope p),
       ey_timeout := or_else (el_timeout step) (ey_timeout p), ey_channel := or_else (el_channel step) (ey_channel p)\<rparr>"

definition elicit_invoke ::
    "'w apl_host \<Rightarrow> 'w dispatch_plan \<Rightarrow> 'w request \<Rightarrow> string \<Rightarrow> string \<Rightarrow> elicitation_payload
     \<Rightarrow> (elicitation_error + elicitation_payload) \<times> 'w request" where
  "elicit_invoke h plan w op name payload =
     (case rq_unwound w of
        Some msg \<Rightarrow> (Inl (ElicitationHandler msg), w)
      | None \<Rightarrow>
          (case dn_elicitation_entries plan name of
             None \<Rightarrow> (Inl (ElicitationNotFound name), w)
           | Some entry \<Rightarrow>
               (case run_entry h entry (PP_Elicitation payload) w of
                  (Inl msg, w1) \<Rightarrow> (Inl (ElicitationHandler msg), w1)
                | (Inr result, w1) \<Rightarrow>
                    if \<not> pl_continue_processing result
                    then (Inl (ElicitationHandler (op @ '': plugin `'' @ name @ ''` halted: ''
                            @ (case pl_violation result of
                                 Some v \<Rightarrow> vi_code v @ '': '' @ vi_reason v
                               | None \<Rightarrow> ''denied without violation detail''))), w1)
                    else (case elicitation_from_result result of
                            Some p \<Rightarrow> (Inr p, w1)
                          | None \<Rightarrow> (Inl (ElicitationHandler (op @ '': plugin `'' @ name
                                      @ ''` returned allow but no ElicitationPayload'')), w1)))))"

definition cmf_dispatch ::
    "'w apl_host \<Rightarrow> 'w dispatch_plan \<Rightarrow> 'w request \<Rightarrow> elicit_step \<Rightarrow> string
     \<Rightarrow> (elicitation_error + elicitation_dispatch) \<times> 'w request" where
  "cmf_dispatch h plan w step resolved_from =
     (case elicit_invoke h plan w ''dispatch'' (el_plugin_name step)
             (apply_step_inputs (elicitation_payload_new EO_Dispatch (elicit_kind_as_str (el_kind step)) resolved_from) step) of
        (Inl e, w1) \<Rightarrow> (Inl e, w1)
      | (Inr out, w1) \<Rightarrow>
          (case ey_id out of
             None \<Rightarrow> (Inl (ElicitationHandler (''dispatch: plugin `'' @ el_plugin_name step
                       @ ''` dispatched without returning an id'')), w1)
           | Some i \<Rightarrow> (Inr \<lparr>ed_id = i, ed_approver = ey_approver out, ed_intent_id = ey_intent_id out,
                              ed_expires_at = ey_expires_at out\<rparr>, w1)))"

definition status_of :: "elicitation_payload \<Rightarrow> elicitation_status" where
  "status_of out =
     (case ey_status out of
        None \<Rightarrow> St_Pending
      | Some EK_Pending \<Rightarrow> St_Pending
      | Some EK_Expired \<Rightarrow> St_Expired
      | Some EK_Resolved \<Rightarrow>
          St_Resolved (case ey_outcome out of Some EU_Approved \<Rightarrow> Out_Approved | _ \<Rightarrow> Out_Denied))"

definition cmf_check ::
    "'w apl_host \<Rightarrow> 'w dispatch_plan \<Rightarrow> 'w request \<Rightarrow> elicit_step \<Rightarrow> string
     \<Rightarrow> (elicitation_error + elicitation_status) \<times> 'w request" where
  "cmf_check h plan w step eid =
     (case elicit_invoke h plan w ''check'' (el_plugin_name step)
             (apply_step_inputs ((elicitation_payload_new EO_Check (elicit_kind_as_str (el_kind step)) [])
                \<lparr>ey_elicitation_id := Some eid\<rparr>) step) of
        (Inl e, w1) \<Rightarrow> (Inl e, w1)
      | (Inr out, w1) \<Rightarrow> (Inr (status_of out), w1))"

definition cmf_validate ::
    "'w apl_host \<Rightarrow> 'w dispatch_plan \<Rightarrow> 'w request \<Rightarrow> elicit_step \<Rightarrow> string
     \<Rightarrow> (elicitation_error + elicitation_validation) \<times> 'w request" where
  "cmf_validate h plan w step eid =
     (case elicit_invoke h plan w ''validate'' (el_plugin_name step)
             (apply_step_inputs ((elicitation_payload_new EO_Validate (elicit_kind_as_str (el_kind step)) [])
                \<lparr>ey_elicitation_id := Some eid\<rparr>) step) of
        (Inl e, w1) \<Rightarrow> (Inl e, w1)
      | (Inr out, w1) \<Rightarrow>
          (Inr \<lparr>ev_valid = unwrap_or (ey_valid out) False, ev_approver = ey_approver out,
                ev_intent_id = ey_intent_id out, ev_reason = ey_reason out\<rparr>, w1))"

subsection \<open>Decision points\<close>

text \<open>A resolver is what it decides; the router keeps one per dialect.\<close>

type_synonym 'w pdp_resolver = "'w request \<Rightarrow> pdp_call \<Rightarrow> attribute_bag \<Rightarrow> (pdp_error + pdp_decision) \<times> 'w request"
type_synonym 'w pdp_router = "pdp_dialect \<rightharpoonup> 'w pdp_resolver"

definition router_new :: "'w pdp_router" where
  "router_new = Map.empty"

definition router_register :: "pdp_dialect \<Rightarrow> 'w pdp_resolver \<Rightarrow> 'w pdp_router \<Rightarrow> 'w pdp_router" where
  "router_register dialect resolver r = (if r dialect \<noteq> None then r else r(dialect \<mapsto> resolver))"

definition router_replace :: "pdp_dialect \<Rightarrow> 'w pdp_resolver \<Rightarrow> 'w pdp_router \<Rightarrow> 'w pdp_router" where
  "router_replace dialect resolver r = r(dialect \<mapsto> resolver)"

definition router_evaluate :: "'w pdp_router \<Rightarrow> 'w pdp_resolver" where
  "router_evaluate r w call bag =
     (case rq_unwound w of
        Some msg \<Rightarrow> (Inl (PdpDispatch msg), w)
      | None \<Rightarrow>
          (case r (pc_dialect call) of
             None \<Rightarrow> (Inl (NoResolver (pc_dialect call)), w)
           | Some resolver \<Rightarrow> resolver w call bag))"

end
