(* ===== verification/Route_Handler.thy ===== *)
theory Route_Handler
  imports Runtime_Invokers Routes Bag_Builder
begin

text \<open>
  \<^verbatim>\<open>crates/ppe-apl-runtime/src/route_handler.rs\<close> (with the request side of \<^verbatim>\<open>cmf_invoker.rs\<close> and the header lookups of
  \<^verbatim>\<open>crates/ppe-core/src/extensions/http.rs\<close>): the synthetic plugin that evaluates one phase of one route for a
  request, from the hydration of the session labels to the result the executor gets.

  The mutex-protected state of the request is the world the route evaluator threads; its environment is the one
  of the host with the invokers of \<^verbatim>\<open>Runtime_Invokers\<close> put in.  \<open>fresh\<close> says whether a slot of the extensions was
  replaced by an equal one, which the pointer comparison of \<^verbatim>\<open>extensions_changed\<close> sees as a change.
\<close>

subsection \<open>Headers\<close>

definition get_header_ci :: "(string \<Rightarrow> string) \<Rightarrow> string hash_map \<Rightarrow> string \<Rightarrow> string option" where
  "get_header_ci uni headers name =
     map_option snd (find (\<lambda>(k, _). to_lowercase uni k = to_lowercase uni name) headers)"

definition remove_header_ci :: "(string \<Rightarrow> string) \<Rightarrow> string hash_map \<Rightarrow> string \<Rightarrow> string option \<times> string hash_map" where
  "remove_header_ci uni headers name =
     (case find (\<lambda>(k, _). to_lowercase uni k = to_lowercase uni name) headers of
        None \<Rightarrow> (None, headers)
      | Some (k, _) \<Rightarrow> (map_of headers k, AList.delete k headers))"

definition get_request_header :: "(string \<Rightarrow> string) \<Rightarrow> http_extension \<Rightarrow> string \<Rightarrow> string option" where
  "get_request_header uni http name = get_header_ci uni (ht_request_headers http) name"

definition set_request_header :: "string \<Rightarrow> string \<Rightarrow> http_extension \<Rightarrow> http_extension" where
  "set_request_header name val http = http\<lparr>ht_request_headers := AList.update name val (ht_request_headers http)\<rparr>"

definition has_request_header :: "(string \<Rightarrow> string) \<Rightarrow> http_extension \<Rightarrow> string \<Rightarrow> bool" where
  "has_request_header uni http name \<longleftrightarrow> get_request_header uni http name \<noteq> None"

definition add_request_header ::
    "(string \<Rightarrow> string) \<Rightarrow> string \<Rightarrow> string \<Rightarrow> http_extension \<Rightarrow> bool \<times> http_extension" where
  "add_request_header uni name val http =
     (if has_request_header uni http name then (False, http) else (True, set_request_header name val http))"

definition remove_request_header ::
    "(string \<Rightarrow> string) \<Rightarrow> string \<Rightarrow> http_extension \<Rightarrow> string option \<times> http_extension" where
  "remove_request_header uni name http =
     (case remove_header_ci uni (ht_request_headers http) name of
        (v, headers) \<Rightarrow> (v, http\<lparr>ht_request_headers := headers\<rparr>))"

definition set_response_header :: "string \<Rightarrow> string \<Rightarrow> http_extension \<Rightarrow> http_extension" where
  "set_response_header name val http = http\<lparr>ht_response_headers := AList.update name val (ht_response_headers http)\<rparr>"

definition get_response_header :: "(string \<Rightarrow> string) \<Rightarrow> http_extension \<Rightarrow> string \<Rightarrow> string option" where
  "get_response_header uni http name = get_header_ci uni (ht_response_headers http) name"

definition has_response_header :: "(string \<Rightarrow> string) \<Rightarrow> http_extension \<Rightarrow> string \<Rightarrow> bool" where
  "has_response_header uni http name \<longleftrightarrow> get_response_header uni http name \<noteq> None"

definition ELICITATION_PENDING_CODE :: int where "ELICITATION_PENDING_CODE = - 32120"
definition ELICITATION_APPROVED_CODE :: int where "ELICITATION_APPROVED_CODE = - 32121"
definition ELICITATION_ID_HEADER :: string where "ELICITATION_ID_HEADER = ''X-Policy-Elicitation-Id''"
definition ELICITATION_PEEK_HEADER :: string where "ELICITATION_PEEK_HEADER = ''X-Policy-Elicitation-Peek''"

definition elicitation_id_from_headers :: "(string \<Rightarrow> string) \<Rightarrow> extensions \<Rightarrow> string option" where
  "elicitation_id_from_headers uni ext =
     non_empty (Option.bind (ex_http ext) (\<lambda>http. get_request_header uni http ELICITATION_ID_HEADER))"

definition elicitation_peek_from_headers :: "(string \<Rightarrow> string) \<Rightarrow> extensions \<Rightarrow> bool" where
  "elicitation_peek_from_headers uni ext =
     (case Option.bind (ex_http ext) (\<lambda>http. get_request_header uni http ELICITATION_PEEK_HEADER) of
        None \<Rightarrow> False
      | Some v \<Rightarrow> v \<noteq> [] \<and> \<not> eq_ignore_ascii_case v ''false'' \<and> v \<noteq> ''0'')"

subsection \<open>Violations\<close>

definition set_detail :: "string \<Rightarrow> json \<Rightarrow> plugin_violation \<Rightarrow> plugin_violation" where
  "set_detail k v viol = viol\<lparr>vi_details := (vi_details viol)(k \<mapsto> v)\<rparr>"

definition set_opt_detail :: "string \<Rightarrow> string option \<Rightarrow> plugin_violation \<Rightarrow> plugin_violation" where
  "set_opt_detail k v viol = (case v of None \<Rightarrow> viol | Some s \<Rightarrow> set_detail k (JStr s) viol)"

definition decorate_denial_response :: "deny_response option \<Rightarrow> plugin_violation \<Rightarrow> plugin_violation" where
  "decorate_denial_response response v =
     (case response of
        None \<Rightarrow> v
      | Some resp \<Rightarrow>
          let v1 = (case dr_status resp of None \<Rightarrow> v | Some s \<Rightarrow> set_detail ''http.status'' (JInt (uint s)) v);
              v2 = set_opt_detail ''http.body'' (dr_body resp) v1
          in if dr_headers resp \<noteq> []
             then set_detail ''http.headers'' (JObj (map (\<lambda>(k, s). (k, JStr s)) (dr_headers resp))) v2 else v2)"

definition pending_violation :: "pending_elicitation \<Rightarrow> plugin_violation" where
  "pending_violation p =
     set_opt_detail ''intent_id'' (pe_intent_id p)
       (set_opt_detail ''expires_at'' (pe_expires_at p)
         (set_opt_detail ''channel'' (pe_channel p)
           (set_opt_detail ''approver'' (pe_approver p)
             (set_detail ''plugin'' (JStr (pe_plugin_name p))
               (set_detail ''elicitation_id'' (JStr (pe_id p))
                 (with_proto_error_code ELICITATION_PENDING_CODE
                   (violation_new ''elicitation.pending''
                     (''awaiting approval `'' @ pe_id p @ ''` via `'' @ pe_plugin_name p @ ''` '' @ em_dash
                       @ '' retry with this id'')))))))) "

definition approved_peek_violation :: "attribute_bag \<Rightarrow> plugin_violation" where
  "approved_peek_violation bag =
     set_opt_detail ''approver'' (get_string bag EL_APPROVER)
       (set_opt_detail ''elicitation_id'' (get_string bag EL_ID)
         (with_proto_error_code ELICITATION_APPROVED_CODE
           (violation_new ''elicitation.approved''
             (''approved '' @ em_dash @ '' confirm to apply (re-send without the peek header)''))))"

subsection \<open>The request\<close>

text \<open>
  The operations of the session store the handler was built with, on a state of their own: nothing but the
  handlers has access to the store.
\<close>

record 's session_ops =
  so_load :: "'s \<Rightarrow> string \<Rightarrow> session_store_error + string list"
  so_append :: "'s \<Rightarrow> string \<Rightarrow> string list \<Rightarrow> (session_store_error + unit) \<times> 's"

definition memory_ops :: "(string fset \<Rightarrow> string list) \<Rightarrow> memory_store session_ops" where
  "memory_ops order = \<lparr>so_load = memory_load_labels order, so_append = memory_append_labels\<rparr>"

text \<open>\<^verbatim>\<open>for_request\<close>: the session id, the labels after hydration, and the shared state.\<close>

definition for_request ::
    "'w apl_host \<Rightarrow> 's session_ops \<Rightarrow> 's \<Rightarrow> (plugin_payload, 'w) engine \<Rightarrow> extensions \<Rightarrow> message \<Rightarrow> 'w
     \<Rightarrow> session_store_error + (string option \<times> string fset \<times> 'w request)" where
  "for_request h so store eng ext msg host =
     (let sid = map_option fst (resolve_session (ah_fmt h) (ah_sha h) ext);
          start = (\<lambda>ext. (sid, snapshot_labels ext,
             \<lparr>rq_extensions = ext, rq_payload = msg, rq_payload_modified = False, rq_engine = eng, rq_host = host,
              rq_unwound = None\<rparr>))
      in (case sid of
            None \<Rightarrow> Inr (start ext)
          | Some s \<Rightarrow>
              (case so_load so store s of
                 Inl e \<Rightarrow> Inl e
               | Inr stored \<Rightarrow> Inr (start (if stored \<noteq> [] then hydrate_labels ext stored else ext)))))"

definition session_labels :: "taint_event list \<Rightarrow> string list" where
  "session_labels taints = map te_label (filter (\<lambda>t. Scope_Session \<in> set (te_scopes t)) taints)"

definition apply_session_taints :: "taint_event list \<Rightarrow> 'w request \<Rightarrow> 'w request" where
  "apply_session_taints taints w =
     (if session_labels taints = [] then w
      else w\<lparr>rq_extensions := (rq_extensions w)\<lparr>ex_security :=
             Some (add_labels (session_labels taints) (unwrap_or (ex_security (rq_extensions w)) security_default))\<rparr>\<rparr>)"

definition persist_session ::
    "'w apl_host \<Rightarrow> 's session_ops \<Rightarrow> string option \<Rightarrow> string fset \<Rightarrow> extensions \<Rightarrow> 's \<Rightarrow> (session_store_error + unit) \<times> 's" where
  "persist_session h so sid initial_labels ext store =
     (case sid of
        None \<Rightarrow> (Inr (), store)
      | Some s \<Rightarrow>
          (case ex_security ext of
             None \<Rightarrow> (Inr (), store)
           | Some security \<Rightarrow>
               let new_labels = ah_order h (sc_labels security |-| initial_labels)
               in if new_labels = [] then (Inr (), store) else so_append so store s new_labels))"

subsection \<open>Before and after the evaluation\<close>

definition initial_bag :: "'w apl_host \<Rightarrow> compiled_route \<Rightarrow> json \<Rightarrow> extensions \<Rightarrow> attribute_bag" where
  "initial_bag h route tree ext =
     (let bag = extract_data (ah_fmt h) tree
                  (with_route_key (cr_route_key route) (extract_extensions (ah_fmt h) (ah_uni h) ext Map.empty))
      in (case elicitation_id_from_headers (ah_uni h) ext of
            None \<Rightarrow> bag | Some i \<Rightarrow> bag_set bag EL_ID (AString i)))"

definition initial_payload :: "dispatch_phase \<Rightarrow> message \<Rightarrow> route_payload" where
  "initial_payload ph msg =
     (case ph of
        Pre \<Rightarrow> payload_new (extract_args_from_message msg)
      | Post \<Rightarrow> payload_with_result (extract_args_from_message msg) (extract_result_from_message msg))"

definition request_bag :: "'w apl_host \<Rightarrow> dispatch_phase \<Rightarrow> compiled_route \<Rightarrow> json \<Rightarrow> extensions \<Rightarrow> route_payload \<Rightarrow> attribute_bag" where
  "request_bag h ph route tree ext payload =
     (let bag = extract_args (ah_fmt h) (rp_args payload) (initial_bag h route tree ext)
      in (case (ph, rp_result payload) of
            (Post, Some result) \<Rightarrow> extract_result (ah_fmt h) result bag
          | _ \<Rightarrow> bag))"

definition handler_env ::
    "'w apl_host \<Rightarrow> 'w request env \<Rightarrow> 'w pdp_resolver \<Rightarrow> 'w dispatch_plan \<Rightarrow> 'w request env" where
  "handler_env h base pdp plan =
     base\<lparr>en_invoke := cmf_invoke h plan, en_pdp := pdp, en_delegate := cmf_delegate h plan,
          en_dispatch := cmf_dispatch h plan, en_check := cmf_check h plan, en_validate := cmf_validate h plan\<rparr>"

definition evaluate_phase ::
    "'w env \<Rightarrow> dispatch_phase \<Rightarrow> compiled_route \<Rightarrow> attribute_bag \<Rightarrow> route_payload \<Rightarrow> 'w
     \<Rightarrow> route_decision \<times> 'w route_state" where
  "evaluate_phase env ph route bag payload w =
     (case ph of
        Pre \<Rightarrow> evaluate_pre env route bag payload w
      | Post \<Rightarrow> evaluate_post env route bag payload w)"

text \<open>The edits of the field pipelines are folded into the message as the plugins left it.\<close>

definition fold_args :: "message \<Rightarrow> message \<Rightarrow> json \<Rightarrow> message" where
  "fold_args original final args =
     write_args_back_to_message final
       (apply_changed_paths (extract_args_from_message final) (extract_args_from_message original) args)"

definition fold_result :: "message \<Rightarrow> message \<Rightarrow> json \<Rightarrow> message" where
  "fold_result original final result =
     write_result_back_to_message final
       (apply_changed_paths (extract_result_from_message final) (extract_result_from_message original) result)"

definition modified_message ::
    "dispatch_phase \<Rightarrow> message \<Rightarrow> route_decision \<Rightarrow> route_payload \<Rightarrow> message \<Rightarrow> bool \<Rightarrow> message option" where
  "modified_message ph original d payload final plugin_modified =
     (if rd_args_modified d
      then Some (case ph of Pre \<Rightarrow> fold_args original final (rp_args payload) | Post \<Rightarrow> final)
      else if rd_result_modified d
      then Some (case (ph, rp_result payload) of
                   (Post, Some result) \<Rightarrow> fold_result original final result
                 | _ \<Rightarrow> final)
      else if plugin_modified then Some final
      else None)"

definition extensions_changed :: "bool \<Rightarrow> extensions \<Rightarrow> extensions \<Rightarrow> bool" where
  "extensions_changed fresh before_ext after_ext \<longleftrightarrow>
     fresh \<or> ex_security before_ext \<noteq> ex_security after_ext \<or> ex_delegation before_ext \<noteq> ex_delegation after_ext
     \<or> ex_raw_credentials before_ext \<noteq> ex_raw_credentials after_ext"

definition returned_extensions ::
    "bool \<Rightarrow> extensions \<Rightarrow> extensions \<Rightarrow> candidate_constraint_ext option \<Rightarrow> owned_extensions option" where
  "returned_extensions fresh before_ext after_ext folded =
     (let modified = (if extensions_changed fresh before_ext after_ext then Some (cow_copy after_ext) else None)
      in (case folded of
            None \<Rightarrow> modified
          | Some c \<Rightarrow> Some ((unwrap_or modified (cow_copy after_ext))\<lparr>ow_candidate_constraint := Some c\<rparr>)))"

text \<open>The verdict: the decision, then what overrides an allow, in the order of the code.\<close>

definition decision_verdict :: "deny_response option \<Rightarrow> decision \<Rightarrow> plugin_violation option" where
  "decision_verdict response d =
     (case d of
        Dec_Allow \<Rightarrow> None
      | Dec_Deny reason rule_source \<Rightarrow>
          Some (decorate_denial_response response
            (violation_new (if rule_source = [] then ''policy.deny'' else rule_source) (unwrap_or reason ''access denied''))))"

definition final_verdict ::
    "deny_response option \<Rightarrow> route_decision \<Rightarrow> bool \<Rightarrow> attribute_bag \<Rightarrow> session_store_error + unit
     \<Rightarrow> constraint_conflict option \<Rightarrow> plugin_violation option" where
  "final_verdict response d peek bag persisted conflict =
     (let v0 = decision_verdict response (rd_decision d);
          v1 = (case rd_pending d of Some p \<Rightarrow> Some (pending_violation p) | None \<Rightarrow> v0);
          v2 = (if v1 = None \<and> peek \<and> get_string bag EL_OUTCOME = Some ''approved''
                then Some (approved_peek_violation bag) else v1);
          v3 = (case persisted of
                  Inl _ \<Rightarrow> or_else v2 (Some (decorate_denial_response response
                     (violation_new ''session.persist_failed'' ''session state could not be persisted'')))
                | Inr _ \<Rightarrow> v2)
      in (case conflict of
            Some c \<Rightarrow> or_else v3 (Some (violation_new ''policy.restrict_conflict'' (conflict_text c)))
          | None \<Rightarrow> v3))"

subsection \<open>The handler\<close>

record ('w, 's) route_handler =
  rh_config :: plugin_config
  rh_route :: compiled_route
  rh_phase :: dispatch_phase
  rh_registry :: "string \<rightharpoonup> plugin_declaration"
  rh_session :: "'s session_ops"
  rh_pdp :: "'w pdp_resolver"
  rh_tree :: json

definition route_handler_new ::
    "plugin_config \<Rightarrow> compiled_route \<Rightarrow> dispatch_phase \<Rightarrow> (string \<rightharpoonup> plugin_declaration) \<Rightarrow> 's session_ops
     \<Rightarrow> ('w, 's) route_handler" where
  "route_handler_new config route ph registry so =
     \<lparr>rh_config = config, rh_route = route, rh_phase = ph, rh_registry = registry, rh_session = so,
      rh_pdp = router_evaluate router_new, rh_tree = JObj []\<rparr>"

definition with_pdp_router :: "(pdp_dialect \<times> 'w pdp_resolver) list \<Rightarrow> ('w, 's) route_handler \<Rightarrow> ('w, 's) route_handler" where
  "with_pdp_router resolvers rh =
     rh\<lparr>rh_pdp := router_evaluate (fold (\<lambda>(d, r). router_register d r) resolvers router_new)\<rparr>"

definition handler_error :: "('w, 's) route_handler \<Rightarrow> string \<Rightarrow> plugin_payload handler_end" where
  "handler_error rh msg =
     H_Err (PF_Config (''AplRouteHandler '' @ [CHR 0x27] @ cr_route_key (rh_route rh) @ [CHR 0x27] @ '': '' @ msg))"

definition denied_before_evaluation :: "('w, 's) route_handler \<Rightarrow> plugin_payload erased_result" where
  "denied_before_evaluation rh =
     \<lparr>rf_continue_processing = False, rf_modified_payload = None, rf_modified_extensions = None,
      rf_violation = Some (decorate_denial_response (cr_response (rh_route rh))
        (violation_new ''session.load_failed'' ''session state could not be loaded''))\<rparr>"

text \<open>The evaluation of the handler's phase on a request whose state is set up.\<close>

definition phase_outcome ::
    "'w apl_host \<Rightarrow> 'w request env \<Rightarrow> ('w, 's) route_handler \<Rightarrow> 'w dispatch_plan \<Rightarrow> message \<Rightarrow> 'w request
     \<Rightarrow> route_decision \<times> 'w request route_state" where
  "phase_outcome h base rh plan msg w0 =
     (let payload = initial_payload (rh_phase rh) msg
      in evaluate_phase (handler_env h base (rh_pdp rh) plan) (rh_phase rh) (rh_route rh)
           (request_bag h (rh_phase rh) (rh_route rh) (rh_tree rh) (rq_extensions w0) payload) payload w0)"

text \<open>The whole phase: the result, the shared state and the store afterwards.\<close>

definition run_phase ::
    "'w apl_host \<Rightarrow> 'w request env \<Rightarrow> bool \<Rightarrow> ('w, 's) route_handler \<Rightarrow> 'w dispatch_plan \<Rightarrow> extensions \<Rightarrow> message
     \<Rightarrow> string option \<Rightarrow> string fset \<Rightarrow> 'w request \<Rightarrow> 's \<Rightarrow> plugin_payload handler_end \<times> 'w request \<times> 's" where
  "run_phase h base fresh rh plan ext msg sid initial_labels w0 store =
     (case phase_outcome h base rh plan msg w0 of
            (d, st) \<Rightarrow>
              (case rq_unwound (rs_world st) of
                 Some panic \<Rightarrow> (H_Panic panic, rs_world st, store)
               | None \<Rightarrow>
                   let w = apply_session_taints (rd_taints d) (rs_world st);
                       folded = fold_candidate_constraints (rd_constraints d)
                   in (case persist_session h (rh_session rh) sid initial_labels (rq_extensions w) store of
                         (persisted, store') \<Rightarrow>
                           let v = final_verdict (cr_response (rh_route rh)) d
                                     (elicitation_peek_from_headers (ah_uni h) (rq_extensions w0)) (rs_bag st) persisted
                                     (case folded of Inl c \<Rightarrow> Some c | Inr _ \<Rightarrow> None)
                           in (H_Ok (Some \<lparr>rf_continue_processing = (v = None),
                                  rf_modified_payload = map_option PP_Message
                                    (modified_message (rh_phase rh) msg d (rs_payload st) (rq_payload w) (rq_payload_modified w)),
                                  rf_modified_extensions = returned_extensions fresh ext (rq_extensions w)
                                    (case folded of Inl _ \<Rightarrow> None | Inr c \<Rightarrow> c),
                                  rf_violation = v\<rparr>), w, store'))))"

record ('w, 's) handled =
  hd_result :: "plugin_payload handler_end"
  hd_cache :: "'w dispatch_cache"
  hd_engine :: "(plugin_payload, 'w) engine option"
  hd_host :: 'w
  hd_store :: 's

definition route_handler_invoke ::
    "'w apl_host \<Rightarrow> 'w request env \<Rightarrow> bool \<Rightarrow> ('w, 's) route_handler \<Rightarrow> plugin_payload \<Rightarrow> extensions \<Rightarrow> 'w dispatch_cache
     \<Rightarrow> (plugin_payload, 'w) engine option \<Rightarrow> 'w \<Rightarrow> 's \<Rightarrow> ('w, 's) handled" where
  "route_handler_invoke h base fresh rh payload ext cache engine host store =
     (case as_message payload of
        None \<Rightarrow> \<lparr>hd_result = handler_error rh ''payload was not MessagePayload'', hd_cache = cache,
                 hd_engine = engine, hd_host = host, hd_store = store\<rparr>
      | Some msg \<Rightarrow>
          (case engine of
             None \<Rightarrow> \<lparr>hd_result = handler_error rh ''PolicyEngine dropped before invoke'', hd_cache = cache,
                      hd_engine = None, hd_host = host, hd_store = store\<rparr>
           | Some eng \<Rightarrow>
               (case get_or_build h (rh_route rh) (rh_registry rh) cache eng host of
                  ((plan, cache'), eng', host') \<Rightarrow>
                    (case for_request h (rh_session rh) store eng' (clone_extensions ext) msg host' of
                       Inl _ \<Rightarrow> \<lparr>hd_result = H_Ok (Some (denied_before_evaluation rh)), hd_cache = cache',
                                 hd_engine = Some eng', hd_host = host', hd_store = store\<rparr>
                     | Inr (sid, initial_labels, w0) \<Rightarrow>
                         (case run_phase h base fresh rh plan ext msg sid initial_labels w0 store of
                            (result, w, store') \<Rightarrow>
                              \<lparr>hd_result = result, hd_cache = cache', hd_engine = Some (rq_engine w),
                               hd_host = rq_host w, hd_store = store'\<rparr>)))))"

end
