(* ===== verification/Handler_Props.thy ===== *)
theory Handler_Props
  imports Route_Handler Bag_Props Routing_Props Executor_Props
begin

text \<open>
  What the route handler guarantees around the route evaluator: when a request continues, what becomes of the
  labels of its session, how the edits of pipelines and plugins come together in the message, and which plugins a
  route can reach.
\<close>

subsection \<open>The verdict\<close>

lemma final_verdict_None:
  "final_verdict response d peek bag persisted conflict = None \<longleftrightarrow>
     rd_decision d = Dec_Allow \<and> rd_pending d = None \<and> \<not> (peek \<and> get_string bag EL_OUTCOME = Some ''approved'')
     \<and> persisted = Inr () \<and> conflict = None"
  by (cases "rd_decision d"; cases "rd_pending d"; cases persisted; cases conflict)
    (auto simp: final_verdict_def decision_verdict_def)

lemma final_verdict_deny:
  assumes "rd_decision d = Dec_Deny reason src" "rd_pending d = None"
  shows "final_verdict response d peek bag persisted conflict =
           Some (decorate_denial_response response
             (violation_new (if src = [] then ''policy.deny'' else src) (unwrap_or reason ''access denied'')))"
  using assms by (cases persisted; cases conflict) (auto simp: final_verdict_def decision_verdict_def)

lemma final_verdict_pending:
  assumes "rd_pending d = Some p"
  shows "final_verdict response d peek bag persisted conflict = Some (pending_violation p)"
  using assms by (cases persisted; cases conflict) (auto simp: final_verdict_def)

lemma run_phase_result:
  assumes "phase_outcome h base rh plan msg w0 = (d, st)" "rq_unwound (rs_world st) = None"
    and "persist_session h (rh_session rh) sid initial (rq_extensions (apply_session_taints (rd_taints d) (rs_world st))) store
           = (persisted, store')"
  obtains r where "run_phase h base fresh rh plan ext msg sid initial w0 store =
      (H_Ok (Some r), apply_session_taints (rd_taints d) (rs_world st), store')"
    "rf_violation r = final_verdict (cr_response (rh_route rh)) d
       (elicitation_peek_from_headers (ah_uni h) (rq_extensions w0)) (rs_bag st) persisted
       (case fold_candidate_constraints (rd_constraints d) of Inl c \<Rightarrow> Some c | Inr _ \<Rightarrow> None)"
    "rf_continue_processing r \<longleftrightarrow> rf_violation r = None"
    "rf_modified_payload r = map_option PP_Message (modified_message (rh_phase rh) msg d (rs_payload st)
       (rq_payload (rs_world st)) (rq_payload_modified (rs_world st)))"
  using assms
  by (fastforce simp: run_phase_def Let_def apply_session_taints_def)

lemma run_phase_unwound:
  assumes "phase_outcome h base rh plan msg w0 = (d, st)" "rq_unwound (rs_world st) = Some panic"
  shows "run_phase h base fresh rh plan ext msg sid initial w0 store = (H_Panic panic, rs_world st, store)"
  using assms by (simp add: run_phase_def)

lemma run_phase_continues:
  "(\<exists>r w store'. run_phase h base fresh rh plan ext msg sid initial w0 store = (H_Ok (Some r), w, store')
       \<and> rf_continue_processing r) \<longleftrightarrow>
   (case phase_outcome h base rh plan msg w0 of
      (d, st) \<Rightarrow>
        rq_unwound (rs_world st) = None \<and> rd_decision d = Dec_Allow \<and> rd_pending d = None
        \<and> \<not> (elicitation_peek_from_headers (ah_uni h) (rq_extensions w0)
               \<and> get_string (rs_bag st) EL_OUTCOME = Some ''approved'')
        \<and> fst (persist_session h (rh_session rh) sid initial
                (rq_extensions (apply_session_taints (rd_taints d) (rs_world st))) store) = Inr ()
        \<and> (\<exists>c. fold_candidate_constraints (rd_constraints d) = Inr c))"
proof -
  obtain d st where o: "phase_outcome h base rh plan msg w0 = (d, st)" by fastforce
  obtain persisted store' where p: "persist_session h (rh_session rh) sid initial
      (rq_extensions (apply_session_taints (rd_taints d) (rs_world st))) store = (persisted, store')" by fastforce
  show ?thesis
  proof (cases "rq_unwound (rs_world st)")
    case None
    show ?thesis
    proof (rule run_phase_result [OF o None p, of fresh ext])
      fix r
      assume "run_phase h base fresh rh plan ext msg sid initial w0 store =
          (H_Ok (Some r), apply_session_taints (rd_taints d) (rs_world st), store')"
        "rf_violation r = final_verdict (cr_response (rh_route rh)) d
           (elicitation_peek_from_headers (ah_uni h) (rq_extensions w0)) (rs_bag st) persisted
           (case fold_candidate_constraints (rd_constraints d) of Inl c \<Rightarrow> Some c | Inr _ \<Rightarrow> None)"
        "rf_continue_processing r \<longleftrightarrow> rf_violation r = None"
      then show ?thesis using o p None
        by (cases "fold_candidate_constraints (rd_constraints d)") (auto simp: final_verdict_None)
    qed
  qed (use o in \<open>simp add: run_phase_def\<close>)
qed

lemma run_phase_violation:
  assumes "run_phase h base fresh rh plan ext msg sid initial w0 store = (H_Ok (Some r), w, store')"
  shows "rf_continue_processing r \<longleftrightarrow> rf_violation r = None"
proof -
  obtain d st where o: "phase_outcome h base rh plan msg w0 = (d, st)" by fastforce
  have "rq_unwound (rs_world st) = None" using assms o by (auto simp: run_phase_def split: option.splits)
  with assms o show ?thesis by (auto simp: run_phase_def Let_def split: prod.splits)
qed

lemma run_phase_not_empty:
  assumes "run_phase h base fresh rh plan ext msg sid initial w0 store = (result, w, store')"
  shows "result \<noteq> H_Ok None"
proof -
  obtain d st where o: "phase_outcome h base rh plan msg w0 = (d, st)" by fastforce
  show ?thesis
  proof (cases "rq_unwound (rs_world st)")
    case None
    with assms o show ?thesis by (auto simp: run_phase_def Let_def split: prod.splits)
  next
    case (Some panic)
    with assms o show ?thesis by (auto simp: run_phase_def)
  qed
qed

text \<open>A denial of the handler always carries its violation, which the sequential phase of the executor requires.\<close>

lemma handler_violation:
  assumes "hd_result (route_handler_invoke h base fresh rh payload ext cache engine host store) = H_Ok res"
  obtains r where "res = Some r" "rf_continue_processing r \<longleftrightarrow> rf_violation r = None"
proof -
  obtain msg eng where m: "as_message payload = Some msg" "engine = Some eng"
    using assms
    by (cases "as_message payload"; cases engine) (simp_all add: route_handler_invoke_def handler_error_def)
  obtain pc eng' host' where "get_or_build h (rh_route rh) (rh_registry rh) cache eng host = (pc, eng', host')"
    by (metis prod_cases3)
  then obtain plan cache' where g:
      "get_or_build h (rh_route rh) (rh_registry rh) cache eng host = ((plan, cache'), eng', host')"
    by (cases pc) simp
  show thesis
  proof (cases "for_request h (rh_session rh) store eng' (clone_extensions ext) msg host'")
    case (Inl e)
    then have "res = Some (denied_before_evaluation rh)" using assms m g by (simp add: route_handler_invoke_def)
    then show thesis by (rule that) (simp add: denied_before_evaluation_def)
  next
    case (Inr x)
    obtain sid initial w0 where x: "x = (sid, initial, w0)" by (cases x)
    obtain result w store' where r: "run_phase h base fresh rh plan ext msg sid initial w0 store = (result, w, store')"
      by (metis prod_cases3)
    have "result = H_Ok res" using assms m g Inr x r by (simp add: route_handler_invoke_def)
    moreover have "result \<noteq> H_Ok None" using run_phase_not_empty [OF r] .
    ultimately obtain e where e: "res = Some e" "result = H_Ok (Some e)" by (cases res) auto
    show thesis using e(1) by (rule that) (rule run_phase_violation [OF r [unfolded e(2)]])
  qed
qed

lemma handler_gate:
  assumes "entry_on_error entry = OE_Fail" "elapsed \<le> timeout_dur config"
    and "serial_result config True modify entry elapsed
           (hd_result (route_handler_invoke h base fresh rh payload ext cache engine host store)) st = (Finished, st')"
  obtains r where "hd_result (route_handler_invoke h base fresh rh payload ext cache engine host store) = H_Ok (Some r)"
    "rf_continue_processing r"
proof -
  let ?res = "hd_result (route_handler_invoke h base fresh rh payload ext cache engine host store)"
  show thesis
  proof (cases ?res)
    case (H_Ok res)
    then obtain r where r: "res = Some r" "rf_continue_processing r \<longleftrightarrow> rf_violation r = None"
      by (rule handler_violation)
    moreover have "rf_continue_processing r"
      using assms(2,3) H_Ok r by (auto simp: serial_result_def split: if_splits option.splits)
    ultimately show thesis using that H_Ok by blast
  qed (use assms in \<open>auto simp: serial_result_def serial_failure_def\<close>)
qed

end
