(* ===== verification/Session_Props.thy ===== *)
theory Session_Props
  imports Handler_Props
begin

text \<open>
  The labels of a session across requests: what one request adds is there when the next one of the same session is
  decided, a request whose labels cannot be loaded or stored does not continue, and which requests share a session.
\<close>

subsection \<open>Labels in the bag\<close>

lemma extract_extensions_labels:
  "extract_extensions fmt uni ext Map.empty ''security.labels'' =
     (case ex_security ext of None \<Rightarrow> None | Some s \<Rightarrow> Some (AStringSet (sc_labels s)))"
proof -
  have "\<not> other_ns ''security.labels''" by (simp add: other_ns_def below_def)
  then show ?thesis
    by (simp add: extract_extensions_identity when_some_def extract_security_def write_at split: option.split)
qed

lemma initial_bag_labels:
  "initial_bag h route tree ext ''security.labels'' =
     (case ex_security ext of None \<Rightarrow> None | Some s \<Rightarrow> Some (AStringSet (sc_labels s)))"
proof -
  have "extract_data fmt tree bag ''security.labels'' = bag ''security.labels''" for fmt bag
    by (rule data.frame) (simp add: below_def)
  then show ?thesis
    by (cases "elicitation_id_from_headers (ah_uni h) ext")
      (simp_all add: initial_bag_def with_route_key_def put_def bag_set_def EL_ID_def extract_extensions_labels Let_def)
qed

lemma request_bag_labels:
  "request_bag h ph route tree ext payload ''security.labels'' =
     (case ex_security ext of None \<Rightarrow> None | Some s \<Rightarrow> Some (AStringSet (sc_labels s)))"
proof -
  have "extract_args fmt v bag ''security.labels'' = bag ''security.labels''"
    "extract_result fmt v bag ''security.labels'' = bag ''security.labels''" for fmt v bag
    by (rule args.frame, simp add: below_def) (rule result.frame, simp add: below_def)
  then show ?thesis
    by (cases ph; cases "rp_result payload") (simp_all add: request_bag_def initial_bag_labels Let_def)
qed

subsection \<open>One request\<close>

lemma snapshot_session_taints:
  "snapshot_labels (rq_extensions (apply_session_taints taints w)) =
     fset_of_list (session_labels taints) |\<union>| snapshot_labels (rq_extensions w)"
  by (auto simp: apply_session_taints_def snapshot_labels_def add_labels_def fold_add_label security_default_def
      split: option.splits)

definition request_start :: "(plugin_payload, 'w) engine \<Rightarrow> 'w \<Rightarrow> message \<Rightarrow> extensions \<Rightarrow> 'w request" where
  "request_start eng host msg ext =
     \<lparr>rq_extensions = ext, rq_payload = msg, rq_payload_modified = False, rq_engine = eng, rq_host = host,
      rq_unwound = None\<rparr>"

definition loaded :: "extensions \<Rightarrow> string list \<Rightarrow> extensions" where
  "loaded ext xs = (if xs \<noteq> [] then hydrate_labels ext xs else ext)"

lemma snapshot_loaded: "snapshot_labels (loaded ext xs) = fset_of_list xs |\<union>| snapshot_labels ext"
  by (simp add: loaded_def snapshot_hydrate)

lemma for_request_eq:
  "for_request h so store eng ext msg host =
     (case resolve_session (ah_fmt h) (ah_sha h) ext of
        None \<Rightarrow> Inr (None, snapshot_labels ext, request_start eng host msg ext)
      | Some (sid, _) \<Rightarrow>
          (case so_load so store sid of
             Inl e \<Rightarrow> Inl e
           | Inr xs \<Rightarrow> Inr (Some sid, snapshot_labels (loaded ext xs), request_start eng host msg (loaded ext xs))))"
  by (simp add: for_request_def loaded_def request_start_def Let_def split: option.split sum.split prod.split)

lemma for_request_session:
  assumes "for_request h so store eng ext msg host = Inr (Some sid, initial, w0)"
  obtains xs where "so_load so store sid = Inr xs" "snapshot_labels (rq_extensions w0) = initial"
    "initial = fset_of_list xs |\<union>| snapshot_labels ext"
    "map_option fst (resolve_session (ah_fmt h) (ah_sha h) ext) = Some sid"
proof (cases "resolve_session (ah_fmt h) (ah_sha h) ext")
  case (Some p)
  obtain s src where p: "p = (s, src)" by (cases p)
  show thesis
  proof (cases "so_load so store s")
    case (Inr xs)
    with assms Some p have eq: "sid = s" "initial = snapshot_labels (loaded ext xs)"
      "w0 = request_start eng host msg (loaded ext xs)"
      by (simp_all add: for_request_eq)
    show thesis using Inr Some p by (intro that [of xs]) (simp_all add: eq request_start_def snapshot_loaded)
  qed (use assms Some p in \<open>simp add: for_request_eq\<close>)
qed (use assms in \<open>simp add: for_request_eq\<close>)

lemma for_request_loads:
  assumes "resolve_session (ah_fmt h) (ah_sha h) ext = Some (sid, src)" "so_load so store sid = Inr xs"
  shows "for_request h so store eng ext msg host =
    Inr (Some sid, fset_of_list xs |\<union>| snapshot_labels ext, request_start eng host msg (loaded ext xs))"
  using assms by (simp add: for_request_eq snapshot_loaded)

text \<open>What a request that stores its labels leaves in the store.\<close>

lemma persist_session_loads:
  assumes store: "session_store (so_load so) (so_append so)"
    and order: "\<And>s. set (ah_order h s) = fset s"
    and load: "so_load so store sid = Inr xs"
    and persist: "persist_session h so (Some sid) initial ext store = (Inr (), store')"
  obtains ys where "so_load so store' sid = Inr ys" "set ys = set xs \<union> (fset (snapshot_labels ext) - fset initial)"
proof (cases "ex_security ext")
  case None
  with load persist show thesis by (intro that [of xs]) (simp_all add: persist_session_def snapshot_labels_def)
next
  case (Some s)
  let ?new = "ah_order h (sc_labels s |-| initial)"
  have new: "set ?new = fset (snapshot_labels ext) - fset initial" using order Some by (simp add: snapshot_labels_def)
  show thesis
  proof (cases "?new = []")
    case True
    with load persist Some new show thesis by (intro that [of xs]) (auto simp: persist_session_def)
  next
    case False
    with persist Some have "so_append so store sid ?new = (Inr (), store')" by (simp add: persist_session_def)
    from session_store.load_append [OF store this load] new that show thesis by auto
  qed
qed

lemma persist_session_other:
  assumes store: "session_store (so_load so) (so_append so)"
    and persist: "persist_session h so sid initial ext store = (Inr (), store')" and "sid \<noteq> Some sid'"
  shows "so_load so store' sid' = so_load so store sid'"
proof (cases sid)
  case (Some s)
  show ?thesis
  proof (cases "ex_security ext")
    case (Some sec)
    let ?new = "ah_order h (sc_labels sec |-| initial)"
    show ?thesis
    proof (cases "?new = []")
      case False
      then have "so_append so store s ?new = (Inr (), store')"
        using persist \<open>sid = Some s\<close> Some by (simp add: persist_session_def)
      from session_store.load_append_other [OF store this, of sid'] show ?thesis
        using assms(3) \<open>sid = Some s\<close> by simp
    qed (use persist \<open>sid = Some s\<close> Some in \<open>simp add: persist_session_def\<close>)
  qed (use persist \<open>sid = Some s\<close> in \<open>simp add: persist_session_def\<close>)
qed (use persist in \<open>simp add: persist_session_def\<close>)

text \<open>A phase that continues has stored the labels of the state it ends in.\<close>

lemma run_phase_persisted:
  assumes "run_phase h base fresh rh plan ext msg sid initial w0 store = (H_Ok (Some r), w, store')"
    "rf_continue_processing r"
  obtains d st where "phase_outcome h base rh plan msg w0 = (d, st)" "w = apply_session_taints (rd_taints d) (rs_world st)"
    "persist_session h (rh_session rh) sid initial (rq_extensions w) store = (Inr (), store')"
proof -
  obtain d st where o: "phase_outcome h base rh plan msg w0 = (d, st)" by fastforce
  have u: "rq_unwound (rs_world st) = None"
  proof (rule ccontr)
    assume "rq_unwound (rs_world st) \<noteq> None"
    then obtain panic where "rq_unwound (rs_world st) = Some panic" by blast
    from run_phase_unwound [OF o this] assms(1) show False by simp
  qed
  let ?w = "apply_session_taints (rd_taints d) (rs_world st)"
  let ?v = "\<lambda>p. final_verdict (cr_response (rh_route rh)) d
      (elicitation_peek_from_headers (ah_uni h) (rq_extensions w0)) (rs_bag st) p
      (case fold_candidate_constraints (rd_constraints d) of Inl c \<Rightarrow> Some c | Inr _ \<Rightarrow> None)"
  obtain persisted store'' where p:
    "persist_session h (rh_session rh) sid initial (rq_extensions ?w) store = (persisted, store'')" by fastforce
  obtain r' where r': "run_phase h base fresh rh plan ext msg sid initial w0 store = (H_Ok (Some r'), ?w, store'')"
      "rf_violation r' = ?v persisted" "rf_continue_processing r' \<longleftrightarrow> rf_violation r' = None"
    by (rule run_phase_result [where ext = ext and fresh = fresh, OF o u p])
  have eq: "r' = r" "?w = w" "store'' = store'" using r'(1) assms(1) by simp_all
  have "?v persisted = None" using r'(2,3) assms(2) eq(1) by simp
  then have "persisted = Inr ()" by (simp only: final_verdict_None)
  with p eq have "persist_session h (rh_session rh) sid initial (rq_extensions w) store = (Inr (), store')" by simp
  with o eq(2) [symmetric] show thesis by (rule that)
qed

subsection \<open>The next request\<close>

lemma label_reaches_next_request:
  assumes store: "session_store (so_load (rh_session rh)) (so_append (rh_session rh))"
    and order: "\<And>s. set (ah_order h s) = fset s"
    and start: "for_request h (rh_session rh) store eng ext msg host = Inr (Some sid, initial, w0)"
    and run: "run_phase h base fresh rh plan ext0 msg (Some sid) initial w0 store = (H_Ok (Some r), w, store')"
    and "rf_continue_processing r"
    and l: "l |\<in>| snapshot_labels (rq_extensions w)" "l |\<notin>| snapshot_labels ext"
    and session: "resolve_session (ah_fmt h) (ah_sha h) ext' = Some (sid, src)"
  obtains initial' w' s where
    "for_request h (rh_session rh) store' eng' ext' msg' host' = Inr (Some sid, initial', w')"
    "ex_security (rq_extensions w') = Some s" "l |\<in>| sc_labels s"
proof -
  obtain xs where xs: "so_load (rh_session rh) store sid = Inr xs" "initial = fset_of_list xs |\<union>| snapshot_labels ext"
    using for_request_session [OF start] by metis
  have "persist_session h (rh_session rh) (Some sid) initial (rq_extensions w) store = (Inr (), store')"
    using run_phase_persisted [OF run assms(5)] by metis
  then obtain ys where ys: "so_load (rh_session rh) store' sid = Inr ys"
      "set ys = set xs \<union> (fset (snapshot_labels (rq_extensions w)) - fset initial)"
    by (rule persist_session_loads [OF store order xs(1)])
  have "l \<in> set ys" using l xs(2) by (auto simp: ys(2) fset_of_list.rep_eq)
  let ?w' = "request_start eng' host' msg' (loaded ext' ys)"
  have next_start: "for_request h (rh_session rh) store' eng' ext' msg' host' =
      Inr (Some sid, fset_of_list ys |\<union>| snapshot_labels ext', ?w')"
    by (rule for_request_loads [OF session ys(1)])
  have "l |\<in>| snapshot_labels (rq_extensions ?w')"
    using \<open>l \<in> set ys\<close> by (simp add: request_start_def snapshot_loaded fset_of_list_elem)
  then obtain s where "ex_security (rq_extensions ?w') = Some s" "l |\<in>| sc_labels s"
    by (cases "ex_security (rq_extensions ?w')") (auto simp: snapshot_labels_def)
  with next_start show thesis by (rule that)
qed

text \<open>A label the request already carried is not stored, even if the policy taints the session with it.\<close>

lemma carried_label_not_stored:
  assumes store: "session_store (so_load (rh_session rh)) (so_append (rh_session rh))"
    and order: "\<And>s. set (ah_order h s) = fset s"
    and start: "for_request h (rh_session rh) store eng ext msg host = Inr (Some sid, initial, w0)"
    and run: "run_phase h base fresh rh plan ext0 msg (Some sid) initial w0 store = (H_Ok (Some r), w, store')"
    and "rf_continue_processing r"
    and l: "l |\<in>| snapshot_labels ext" "so_load (rh_session rh) store sid = Inr xs" "l \<notin> set xs"
  obtains ys where "so_load (rh_session rh) store' sid = Inr ys" "l \<notin> set ys"
proof -
  have initial: "initial = fset_of_list xs |\<union>| snapshot_labels ext"
    using for_request_session [OF start] l(2) by (metis sum.inject(2))
  have "persist_session h (rh_session rh) (Some sid) initial (rq_extensions w) store = (Inr (), store')"
    using run_phase_persisted [OF run assms(5)] by metis
  then obtain ys where ys: "so_load (rh_session rh) store' sid = Inr ys"
      "set ys = set xs \<union> (fset (snapshot_labels (rq_extensions w)) - fset initial)"
    by (rule persist_session_loads [OF store order l(2)])
  have "l \<notin> set ys" using l(1,3) by (auto simp: ys(2) initial)
  with ys(1) show thesis by (rule that)
qed

subsection \<open>Which requests share a session\<close>

lemma shared_session:
  assumes "session_subject_id ext = Some sub" "session_subject_id ext' = Some sub'"
    and "map_option fst (resolve_session fmt sha ext) = map_option fst (resolve_session fmt sha ext')"
    and "CHR '':'' \<notin> set sub" "CHR '':'' \<notin> set sub'"
  shows "(sub = sub' \<and> session_tail fmt ext = session_tail fmt ext')
         \<or> (\<exists>x y. x \<noteq> y \<and> short_hash sha x = short_hash sha y)"
proof -
  have "short_hash sha (sub @ '':'' @ session_tail fmt ext) = short_hash sha (sub' @ '':'' @ session_tail fmt ext')"
    using assms(1-3) by (simp add: resolve_session_id)
  then show ?thesis using session_preimage_cut [OF assms(4,5)] by blast
qed

text \<open>With a colon in the subject the cut is not unique: the session of one principal can be named by another.\<close>

lemma session_ids_collide:
  assumes "session_subject_id ext = Some (sub @ '':'' @ x)" "session_tail fmt ext = t"
    and "session_subject_id ext' = Some sub" "session_tail fmt ext' = x @ '':'' @ t"
  shows "map_option fst (resolve_session fmt sha ext) = map_option fst (resolve_session fmt sha ext')"
  using assms by (simp add: resolve_session_id)

end
