(* ===== verification/Plan_Props.thy ===== *)
theory Plan_Props
  imports Session_Props
begin

text \<open>
  Which plugins a route reaches through its dispatch plan, what happens to a step whose plugin is not in it, and what
  an elicitation knows of the approver it asks.
\<close>

subsection \<open>Collected names\<close>

lemma fold_push_new: "set (fold push_new names out) = set out \<union> set names \<and> (distinct out \<longrightarrow> distinct (fold push_new names out))"
  by (induction names arbitrary: out) (auto simp: push_new_def)

lemma set_unique [simp]: "set (unique names) = set names"
  using fold_push_new [of names "[]"] by (simp add: unique_def)

lemma distinct_unique: "distinct (unique names)"
  using fold_push_new [of names "[]"] by (simp add: unique_def)

text \<open>The walk visits the effects an effect consists of, at any depth.\<close>

lemma walk_effect_self: "e \<in> set (walk_effect e)"
  by (cases e) simp_all

lemma walk_effect_under: "x \<in> set (walk_effect e) \<longleftrightarrow> under x e"
proof
  show "under x e" if "x \<in> set (walk_effect e)"
    using that by (induction e rule: walk_effect.induct) (auto intro: under.intros)
  show "x \<in> set (walk_effect e)" if "under x e"
    using that by induction (auto simp: walk_effect_self)
qed

definition route_under :: "effect \<Rightarrow> compiled_route \<Rightarrow> bool" where
  "route_under x route \<longleftrightarrow> (\<exists>e \<in> set (cr_policy route) \<union> set (cr_post_policy route). under x e)"

lemma route_effects_under: "x \<in> set (route_effects route) \<longleftrightarrow> route_under x route"
  by (auto simp: route_effects_def walk_effects_def route_under_def walk_effect_under)

lemma set_map_filter_iff: "y \<in> set (List.map_filter f xs) \<longleftrightarrow> (\<exists>x \<in> set xs. f x = Some y)"
  by (induction xs) (auto simp: List.map_filter_simps split: option.split)

lemma effect_plugin_iff: "effect_plugin e = Some n \<longleftrightarrow> e = Eff_Plugin n"
  by (cases e) auto

lemma effect_delegate_iff: "effect_delegate e = Some n \<longleftrightarrow> (\<exists>s. e = Eff_Delegate s \<and> ds_plugin_name s = n)"
  by (cases e) auto

lemma effect_elicit_iff: "effect_elicit e = Some n \<longleftrightarrow> (\<exists>s. e = Eff_Elicit s \<and> el_plugin_name s = n)"
  by (cases e) auto

lemma plugin_of_stage_iff: "plugin_of_stage s = Some n \<longleftrightarrow> s = Stage_Plugin n"
  by (cases s) auto

lemmas name_iffs = set_map_filter_iff effect_plugin_iff effect_delegate_iff effect_elicit_iff plugin_of_stage_iff
  route_effects_under

lemma collect_plugin_names_iff:
  "n \<in> set (collect_plugin_names route) \<longleftrightarrow>
     route_under (Eff_Plugin n) route
     \<or> (\<exists>fr \<in> set (cr_args route) \<union> set (cr_result route). Stage_Plugin n \<in> set (pl_stages (fr_pipeline fr)))"
  by (auto simp: collect_plugin_names_def name_iffs)

lemma collect_delegate_iff:
  "n \<in> set (collect_delegate_plugin_names route) \<longleftrightarrow> (\<exists>s. route_under (Eff_Delegate s) route \<and> ds_plugin_name s = n)"
  by (auto simp: collect_delegate_plugin_names_def name_iffs)

lemma collect_elicit_iff:
  "n \<in> set (collect_elicit_plugin_names route) \<longleftrightarrow> (\<exists>s. route_under (Eff_Elicit s) route \<and> el_plugin_name s = n)"
  by (auto simp: collect_elicit_plugin_names_def name_iffs)

subsection \<open>The plan has nothing else\<close>

lemma plan_loop_inv:
  assumes "plan_loop f names plan eng w = (plan', eng', w')" "P plan"
    and "\<And>n p e v p' e' v'. n \<in> set names \<Longrightarrow> f n p e v = (p', e', v') \<Longrightarrow> P p \<Longrightarrow> P p'"
  shows "P plan'"
  using assms
proof (induction names arbitrary: plan eng w)
  case (Cons n names)
  obtain p e v where f: "f n plan eng w = (p, e, v)" by (metis prod_cases3)
  show ?case
  proof (rule Cons.IH)
    show "plan_loop f names p e v = (plan', eng', w')" using Cons.prems(1) f by simp
    show "P p" using Cons.prems(3) [OF _ f] Cons.prems(2) by simp
  qed (rule Cons.prems(3), simp_all)
qed simp

lemma plan_plugin_dom:
  assumes "plan_plugin h route registry n plan eng w = (plan', eng', w')"
  shows "dom (dn_plugins plan') \<subseteq> insert n (dom (dn_plugins plan))"
proof (cases "resolve_effective_plugin n registry (cr_plugin_overrides route)")
  case (Some eff)
  with assms show ?thesis by (auto simp: plan_plugin_def Let_def split: prod.splits if_splits)
qed (use assms in \<open>auto simp: plan_plugin_def\<close>)

lemma plan_delegation_plugins:
  "plan_delegation h n plan eng w = (plan', eng', w') \<Longrightarrow> dn_plugins plan' = dn_plugins plan"
  by (auto simp: plan_delegation_def split: prod.splits option.splits)

lemma plan_elicitation_plugins:
  "plan_elicitation h n plan eng w = (plan', eng', w') \<Longrightarrow> dn_plugins plan' = dn_plugins plan"
  by (auto simp: plan_elicitation_def split: prod.splits option.splits)

lemma build_plan_dom:
  assumes "build_plan h route registry eng w = (plan, eng', w')"
  shows "dom (dn_plugins plan) \<subseteq> set (collect_plugin_names route)"
proof -
  obtain plan1 eng1 w1 where 1: "plan_loop (plan_plugin h route registry) (collect_plugin_names route) plan_default eng w
      = (plan1, eng1, w1)" by (metis prod_cases3)
  obtain plan2 eng2 w2 where 2: "plan_loop (plan_delegation h) (collect_delegate_plugin_names route) plan1 eng1 w1
      = (plan2, eng2, w2)" by (metis prod_cases3)
  have 3: "plan_loop (plan_elicitation h) (collect_elicit_plugin_names route) plan2 eng2 w2 = (plan, eng', w')"
    using assms 1 2 by (simp add: build_plan_def)
  have "dom (dn_plugins plan1) \<subseteq> set (collect_plugin_names route)"
    by (rule plan_loop_inv [OF 1]) (use plan_plugin_dom in \<open>fastforce simp: plan_default_def\<close>)+
  moreover have "dn_plugins plan2 = dn_plugins plan1"
    by (rule plan_loop_inv [OF 2]) (auto dest: plan_delegation_plugins)
  moreover have "dn_plugins plan = dn_plugins plan2"
    by (rule plan_loop_inv [OF 3]) (auto dest: plan_elicitation_plugins)
  ultimately show ?thesis by simp
qed

lemma invoke_unplanned:
  assumes "build_plan h route registry eng w = (plan, eng', w')" "n \<notin> set (collect_plugin_names route)"
  shows "\<exists>e. cmf_invoke h plan w0 n bag call = (Inl e, w0)"
  using build_plan_dom [OF assms(1)] assms(2)
  by (cases "rq_unwound w0"; cases "dn_plugins plan n") (auto simp: cmf_invoke_def plan_get_def)

text \<open>A plugin stage of a field operation is not collected, so the stage cannot reach its plugin and denies.\<close>

lemma field_op_plugin_denies:
  fixes key path name stages
  defines "route \<equiv> (compiled_route_new key)\<lparr>cr_policy := [Eff_FieldOp (''args.'' @ path) (Stage_Plugin name # stages)]\<rparr>"
  assumes plan: "build_plan h route registry eng host = (plan, eng', host')"
    and field: "get_dotted (rp_args payload) path \<noteq> None"
  shows "\<exists>reason src. rd_decision (fst (evaluate_pre (handler_env h base pdp plan) route bag payload w)) = Dec_Deny (Some reason) src"
proof -
  have "name \<notin> set (collect_plugin_names route)"
    by (auto simp: collect_plugin_names_iff route_def route_under_def compiled_route_new_def elim: under.cases)
  note unplanned = invoke_unplanned [OF plan this]
  obtain cur where "get_dotted (rp_args payload) path = Some cur" using field by blast
  moreover obtain e where e: "cmf_invoke h plan w name bag (Inv_Field path cur Pre) = (Inl e, w)"
    using unplanned by metis
  ultimately show ?thesis
    by (simp add: evaluate_pre_def route_def compiled_route_new_def evaluate_effects_def eval_init_def dispatch_field_op_def
        field_target_def strip_prefix_append [of "''args.''" path, simplified] evaluate_pipeline_def stage_plugin_def handler_env_def e steps_of_def Let_def)
qed

subsection \<open>Elicitations and their approver\<close>

lemma elicit_inputs_from [simp]:
  "apply_step_inputs p (step\<lparr>el_from := f\<rparr>) = apply_step_inputs p step"
  by (simp add: apply_step_inputs_def)

lemma elicitation_ignores_from:
  assumes "get_string (es_bag st) EL_ID = Some eid"
    and "resolve_from step (es_bag st) \<noteq> None" "resolve_from (step\<lparr>el_from := f\<rparr>) (es_bag st) \<noteq> None"
  shows "dispatch_elicitation (handler_env h base pdp plan) (step\<lparr>el_from := f\<rparr>) st =
         dispatch_elicitation (handler_env h base pdp plan) step st"
proof -
  obtain r r' where r: "resolve_from step (es_bag st) = Some r" "resolve_from (step\<lparr>el_from := f\<rparr>) (es_bag st) = Some r'"
    using assms(2,3) by blast
  let ?step = "step\<lparr>el_from := f\<rparr>" and ?env = "handler_env h base pdp plan"
  have parts: "el_source ?step = el_source step" "elicit_fail ?step = elicit_fail step" "elicit_pending ?step = elicit_pending step"
    "scope_check ?step = scope_check step" "en_check ?env w ?step i = en_check ?env w step i"
    "en_validate ?env w ?step i = en_validate ?env w step i" for w i
    by (simp_all add: fun_eq_iff elicit_fail_def elicit_pending_def scope_check_def handler_env_def cmf_check_def
        cmf_validate_def cong: option.case_cong)
  have "elicit_approved ?env ?step i s = elicit_approved ?env step i s" for i and s :: "'a request eval_state"
    unfolding elicit_approved_def parts by (rule refl)
  note parts = parts this
  show ?thesis
    unfolding dispatch_elicitation_def r elicit_id_def option.case assms(1) prod.case sum.case parts
    by (rule refl)
qed

end
