(* ===== verification/Fold_Props.thy ===== *)
theory Fold_Props
  imports Plan_Props
begin

text \<open>
  How the edits of field pipelines and of plugins come together in the message a handler returns, and what the
  pointer comparison makes of the extensions.
\<close>

lemma fold_result_merge:
  assumes "extract_result_parts (ms_content final) \<noteq> None"
  shows "extract_result_from_message (fold_result original final r) =
           apply_changed_paths (extract_result_from_message final) (extract_result_from_message original) r"
  unfolding fold_result_def by (rule extract_result_write [OF assms])

lemma extract_args_object:
  assumes "extract_args_parts (ms_content msg) \<noteq> None"
  obtains m where "extract_args_from_message msg = JObj m" "norm_btree m"
proof -
  have "extract_args_parts parts = Some v \<Longrightarrow> \<exists>m. v = JObj m \<and> norm_btree m" for parts v
    by (induction parts rule: extract_args_parts.induct) (auto simp: norm_collect_map)
  with assms that show thesis by (fastforce simp: extract_args_from_message_def)
qed

lemma fold_args_merge:
  assumes "extract_args_parts (ms_content final) \<noteq> None" "json_wf args" "is_object args"
  shows "extract_args_from_message (fold_args original final args) =
           apply_changed_paths (extract_args_from_message final) (extract_args_from_message original) args"
proof -
  obtain bm where bm: "extract_args_from_message final = JObj bm" "norm_btree bm"
    using extract_args_object [OF assms(1)] .
  obtain am where am: "args = JObj am" "norm_btree am" using assms(2,3) by (cases args) auto
  obtain m where "apply_changed_paths (JObj bm) (extract_args_from_message original) args = JObj m" "norm_btree m"
    by (cases "extract_args_from_message original")
      (auto simp: am intro: norm_merge_keys norm_remove_omitted bm(2))
  then show ?thesis unfolding fold_args_def bm(1) by (simp add: extract_args_write [OF assms(1)])
qed

text \<open>What one editor wrote, the other one kept.\<close>

definition merged_edits :: "json \<Rightarrow> json \<Rightarrow> json \<Rightarrow> json \<Rightarrow> bool" where
  "merged_edits pre post base out \<longleftrightarrow>
     (\<forall>p v. get_path post p = Some v \<longrightarrow> \<not> is_object v
        \<longrightarrow> (\<forall>u. get_path pre p = Some u \<longrightarrow> \<not> json_eq u v) \<longrightarrow> get_path out p = Some v)
     \<and> (\<forall>p. get_path pre p \<noteq> None \<longrightarrow> get_path post p = None \<longrightarrow> get_path out p = None)
     \<and> (\<forall>p u v b. p \<noteq> [] \<longrightarrow> get_path pre p = Some u \<longrightarrow> get_path post p = Some v \<longrightarrow> json_eq u v
        \<longrightarrow> get_path base p = Some b \<longrightarrow> get_path out p = Some b)"

lemma merged_edits_apply: "json_wf post \<Longrightarrow> merged_edits pre post base (apply_changed_paths base pre post)"
  unfolding merged_edits_def
  by (intro conjI allI impI; (erule (2) merge_edit_lands | erule (2) merge_omission_lands | erule (5) merge_keeps_other_edits))
    simp

lemma modified_message_args:
  assumes "rd_args_modified d" "extract_args_parts (ms_content final) \<noteq> None"
    "json_wf (rp_args payload)" "is_object (rp_args payload)"
  obtains out where "modified_message Pre original d payload final plugin_modified = Some out"
    "merged_edits (extract_args_from_message original) (rp_args payload) (extract_args_from_message final)
       (extract_args_from_message out)"
  using assms by (simp add: modified_message_def fold_args_merge merged_edits_apply)

lemma modified_message_result:
  assumes "rd_result_modified d" "\<not> rd_args_modified d" "rp_result payload = Some r" "json_wf r"
    "extract_result_parts (ms_content final) \<noteq> None"
  obtains out where "modified_message Post original d payload final plugin_modified = Some out"
    "merged_edits (extract_result_from_message original) r (extract_result_from_message final)
       (extract_result_from_message out)"
  using assms by (simp add: modified_message_def fold_result_merge merged_edits_apply)

text \<open>Nothing edited, nothing returned; and a message a plugin changed is returned as it left it.\<close>

lemma modified_message_None:
  "modified_message ph original d payload final plugin_modified = None \<longleftrightarrow>
     \<not> rd_args_modified d \<and> \<not> rd_result_modified d \<and> \<not> plugin_modified"
  by (auto simp: modified_message_def split: dispatch_phase.splits option.splits)

text \<open>
  A plugin that replaced a whole object by a redaction loses it when the pipeline edits a field inside: the object
  comes back with every field the pipeline did not touch in the clear.
\<close>

lemma redaction_undone:
  assumes "extract_result_from_message original = JObj pre" "json_wf (JObj post)"
    and "extract_result_from_message final = JObj base" "extract_result_parts (ms_content final) \<noteq> None"
    and "map_of pre k = Some u" "map_of post k = Some v" "\<not> json_eq u v"
    and "map_of base k = Some redaction" "\<not> is_object redaction"
  shows "get_path (extract_result_from_message (fold_result original final (JObj post))) (k # p) = get_path v p"
proof -
  have "json_get (extract_result_from_message (fold_result original final (JObj post))) k = merge_value (Some u) (Some v) (Some redaction)"
    using assms get_merged [OF json_wf_distinct, of post base pre k] by (simp add: fold_result_merge)
  also have "\<dots> = Some v" using assms(7,9) by (auto simp: merge_value_def)
  finally show ?thesis by simp
qed

subsection \<open>The whole handler\<close>

definition handler_continues :: "plugin_payload handler_end \<Rightarrow> bool" where
  "handler_continues result \<longleftrightarrow> (case result of H_Ok (Some r) \<Rightarrow> rf_continue_processing r | _ \<Rightarrow> False)"

lemma handler_continues_iff: "handler_continues result \<longleftrightarrow> (\<exists>r. result = H_Ok (Some r) \<and> rf_continue_processing r)"
  by (auto simp: handler_continues_def split: handler_end.splits option.splits)

text \<open>What has to go well between a call of the handler and its letting the request through.\<close>

definition phase_passes ::
    "'w apl_host \<Rightarrow> 'w request env \<Rightarrow> ('w, 's) route_handler \<Rightarrow> 'w dispatch_plan \<Rightarrow> message \<Rightarrow> string option \<Rightarrow> string fset
     \<Rightarrow> 'w request \<Rightarrow> 's \<Rightarrow> bool" where
  "phase_passes h base rh plan msg sid initial w0 store \<longleftrightarrow>
     (case phase_outcome h base rh plan msg w0 of
        (d, st) \<Rightarrow>
          rq_unwound (rs_world st) = None \<and> rd_decision d = Dec_Allow \<and> rd_pending d = None
          \<and> \<not> (elicitation_peek_from_headers (ah_uni h) (rq_extensions w0)
                 \<and> get_string (rs_bag st) EL_OUTCOME = Some ''approved'')
          \<and> fst (persist_session h (rh_session rh) sid initial
                  (rq_extensions (apply_session_taints (rd_taints d) (rs_world st))) store) = Inr ()
          \<and> (\<exists>c. fold_candidate_constraints (rd_constraints d) = Inr c))"

lemma run_phase_passes:
  "handler_continues (fst (run_phase h base fresh rh plan ext msg sid initial w0 store)) \<longleftrightarrow>
   phase_passes h base rh plan msg sid initial w0 store"
proof -
  have "handler_continues (fst (run_phase h base fresh rh plan ext msg sid initial w0 store)) \<longleftrightarrow>
     (\<exists>r w store'. run_phase h base fresh rh plan ext msg sid initial w0 store = (H_Ok (Some r), w, store')
        \<and> rf_continue_processing r)"
    unfolding handler_continues_iff by (metis eq_fst_iff)
  then show ?thesis unfolding run_phase_continues phase_passes_def .
qed

lemma handler_passes:
  "handler_continues (hd_result (route_handler_invoke h base fresh rh payload ext cache engine host store)) \<longleftrightarrow>
     (\<exists>msg eng plan cache' eng' host' sid initial w0.
        as_message payload = Some msg \<and> engine = Some eng
        \<and> get_or_build h (rh_route rh) (rh_registry rh) cache eng host = ((plan, cache'), eng', host')
        \<and> for_request h (rh_session rh) store eng' (clone_extensions ext) msg host' = Inr (sid, initial, w0)
        \<and> phase_passes h base rh plan msg sid initial w0 store)"
proof (cases "as_message payload = None \<or> engine = None")
  case True
  then show ?thesis
    by (cases "as_message payload"; cases engine)
      (auto simp: route_handler_invoke_def handler_error_def handler_continues_def)
next
  case False
  then obtain msg eng where m: "as_message payload = Some msg" "engine = Some eng" by (metis not_None_eq)
  obtain pc eng' host' where "get_or_build h (rh_route rh) (rh_registry rh) cache eng host = (pc, eng', host')"
    by (metis prod_cases3)
  then obtain plan cache' where g:
      "get_or_build h (rh_route rh) (rh_registry rh) cache eng host = ((plan, cache'), eng', host')"
    by (cases pc) simp
  show ?thesis
  proof (cases "for_request h (rh_session rh) store eng' (clone_extensions ext) msg host'")
    case (Inl e)
    with m g show ?thesis
      by (auto simp: route_handler_invoke_def handler_continues_def denied_before_evaluation_def)
  next
    case (Inr x)
    obtain sid initial w0 where x: "x = (sid, initial, w0)" by (cases x)
    have "hd_result (route_handler_invoke h base fresh rh payload ext cache engine host store) =
        fst (run_phase h base fresh rh plan ext msg sid initial w0 store)"
      using m g Inr x by (simp add: route_handler_invoke_def split: prod.split)
    then show ?thesis using m g Inr x by (simp add: run_phase_passes)
  qed
qed

end
