(* ===== verification/Policy_Text.thy ===== *)
theory Policy_Text
  imports Predicate_Parser Constraints
begin

text \<open>
  The text forms of a policy in \<^verbatim>\<open>crates/ppe-apl-core/src/parser.rs\<close>: splitting at top level, call arguments, scalar
  values, field pipelines and their stages.

  Texts are UTF-8 bytes.  Every position the sources cut at is that of an ASCII byte, so a slice never ends
  inside a character.  What the parser takes from elsewhere is the record \<open>parse_fmt\<close>: the \<^verbatim>\<open>Debug\<close> form of
  YAML values and effects in messages, the text of a YAML number (\<^verbatim>\<open>serde_yaml\<close>), \<^verbatim>\<open>str::parse::<f64>\<close>, and
  \<^verbatim>\<open>char::is_alphanumeric\<close> on characters outside ASCII.
\<close>

record parse_fmt =
  pf_debug :: "yaml \<Rightarrow> string"
  pf_debug_map :: "(yaml \<times> yaml) list \<Rightarrow> string"
  pf_debug_effect :: "effect \<Rightarrow> string"
  pf_number :: "yaml \<Rightarrow> string"
  pf_f64 :: "string \<Rightarrow> f64 option"
  pf_alphanumeric :: "string \<Rightarrow> bool"

definition em_dashed :: "string \<Rightarrow> string \<Rightarrow> string" where
  "em_dashed a b = a @ '' '' @ em_dash @ '' '' @ b"

text \<open>\<^verbatim>\<open>map_err\<close> and the short circuit of \<^verbatim>\<open>?\<close> over a list.\<close>

fun map_err :: "('e \<Rightarrow> 'f) \<Rightarrow> 'e + 'a \<Rightarrow> 'f + 'a" where
  "map_err f (Inl e) = Inl (f e)"
| "map_err f (Inr x) = Inr x"

fun res_map :: "('a \<Rightarrow> 'e + 'b) \<Rightarrow> 'a list \<Rightarrow> 'e + 'b list" where
  "res_map f [] = Inr []"
| "res_map f (x # xs) = res_bind (f x) (\<lambda>y. res_bind (res_map f xs) (\<lambda>ys. Inr (y # ys)))"

lemma res_map_cong [fundef_cong]:
  "xs = ys \<Longrightarrow> (\<And>x. x \<in> set ys \<Longrightarrow> f x = g x) \<Longrightarrow> res_map f xs = res_map g ys"
  by (induction ys arbitrary: xs) auto

lemma res_map_Inr: "res_map f xs = Inr ys \<longleftrightarrow> list_all2 (\<lambda>x y. f x = Inr y) xs ys"
  by (induction xs arbitrary: ys) (auto simp: res_bind_eq_Inr list_all2_Cons1)

definition ok_or :: "'e \<Rightarrow> 'a option \<Rightarrow> 'e + 'a" where
  "ok_or e x = (case x of None \<Rightarrow> Inl e | Some v \<Rightarrow> Inr v)"

text \<open>The predicate parser never runs out of its fuel (\<open>parse_predicate_total\<close>).\<close>

definition predicate_of :: "string \<Rightarrow> parse_error + expression" where
  "predicate_of src = the (parse_predicate src)"

subsection \<open>Quotes and brackets\<close>

definition strip_suffix :: "string \<Rightarrow> string \<Rightarrow> string option" where
  "strip_suffix s p = map_option rev (strip_prefix (rev s) (rev p))"

definition strip_pair :: "char \<Rightarrow> char \<Rightarrow> string \<Rightarrow> string option" where
  "strip_pair a b s = Option.bind (strip_prefix s [a]) (\<lambda>rest. strip_suffix rest [b])"

definition unwrap_quotes :: "string \<Rightarrow> string option" where
  "unwrap_quotes s = or_else (strip_pair (CHR 0x22) (CHR 0x22) s) (strip_pair (CHR 0x27) (CHR 0x27) s)"

definition strip_wrapping_quotes :: "string \<Rightarrow> string" where
  "strip_wrapping_quotes s = unwrap_or (unwrap_quotes s) s"

definition strip_string_literal :: "string \<Rightarrow> string \<Rightarrow> parse_error + string" where
  "strip_string_literal s rule =
     ok_or (PE_Rule rule (''expected a quoted string, got `'' @ trim s @ ''`'')) (unwrap_quotes (trim s))"

definition is_quote :: "char \<Rightarrow> bool" where
  "is_quote c \<longleftrightarrow> c = CHR 0x22 \<or> c = CHR 0x27"

text \<open>
  \<^verbatim>\<open>split_top_level_commas\<close>, its loop over the characters with the state \<^verbatim>\<open>parts\<close>, \<^verbatim>\<open>current\<close>, \<^verbatim>\<open>bracket_depth\<close>,
  \<^verbatim>\<open>quote\<close> and \<^verbatim>\<open>escape\<close>.  \<open>commas_step\<close> is the match on one character: whether it ends the current part (and is
  dropped; otherwise it is pushed), and the depth, the quote and the escape behind it.
\<close>

definition commas_step :: "char \<Rightarrow> nat \<Rightarrow> char option \<Rightarrow> bool \<Rightarrow> string + bool \<times> nat \<times> char option \<times> bool" where
  "commas_step ch depth quote esc =
     (if esc then Inr (False, depth, quote, False)
      else case quote of
        Some q \<Rightarrow>
          if ch = CHR 0x5C then Inr (False, depth, quote, True)
          else Inr (False, depth, if ch = q then None else quote, False)
      | None \<Rightarrow>
          if is_quote ch then Inr (False, depth, Some ch, False)
          else if ch = CHR ''['' \<or> ch = CHR ''('' \<or> ch = CHR ''{'' then Inr (False, depth + 1, None, False)
          else if ch = CHR '']'' \<or> ch = CHR '')'' \<or> ch = CHR ''}'' then
            (if depth = 0 then Inl (''unmatched `'' @ [ch] @ ''` in delegate(...) args'')
             else Inr (False, depth - 1, None, False))
          else Inr (ch = CHR '','' \<and> depth = 0, depth, None, False))"

fun commas_loop :: "string \<Rightarrow> string list \<Rightarrow> string \<Rightarrow> nat \<Rightarrow> char option \<Rightarrow> bool \<Rightarrow> string + string list" where
  "commas_loop [] parts cur depth quote esc =
     (if quote \<noteq> None then Inl ''unterminated quoted string in delegate(...) args''
      else if depth \<noteq> 0 then Inl ''unbalanced brackets in delegate(...) args''
      else Inr (parts @ [cur]))"
| "commas_loop (ch # rest) parts cur depth quote esc =
     (case commas_step ch depth quote esc of
        Inl e \<Rightarrow> Inl e
      | Inr (ends, d, q, e) \<Rightarrow>
          if ends then commas_loop rest (parts @ [cur]) [] d q e else commas_loop rest parts (cur @ [ch]) d q e)"

definition split_top_level_commas :: "string \<Rightarrow> string + string list" where
  "split_top_level_commas input = commas_loop input [] [] 0 None False"

text \<open>
  \<^verbatim>\<open>split_top_level\<close>: \<open>cur\<close> is the text since \<^verbatim>\<open>start\<close>.  \<open>top_step\<close> is the match on one byte: whether it is a
  delimiter at top level, and the depth and the quote behind it.  A depth below zero hides every later delimiter.
\<close>

definition top_step :: "char \<Rightarrow> char \<Rightarrow> int \<Rightarrow> char option \<Rightarrow> bool \<times> int \<times> char option" where
  "top_step delim b depth quote =
     (case quote of
        Some q \<Rightarrow> (False, depth, if b = q then None else quote)
      | None \<Rightarrow>
          if is_quote b then (False, depth, Some b)
          else if b = CHR ''('' \<or> b = CHR ''['' then (False, depth + 1, None)
          else if b = CHR '')'' \<or> b = CHR '']'' then (False, depth - 1, None)
          else (b = delim \<and> depth = 0, depth, None))"

fun top_level_loop :: "char \<Rightarrow> string \<Rightarrow> string list \<Rightarrow> string \<Rightarrow> int \<Rightarrow> char option \<Rightarrow> string list" where
  "top_level_loop delim [] out cur depth quote = out @ [cur]"
| "top_level_loop delim (b # rest) out cur depth quote =
     (case top_step delim b depth quote of
        (ends, d, q) \<Rightarrow>
          if ends then top_level_loop delim rest (out @ [cur]) [] d q else top_level_loop delim rest out (cur @ [b]) d q)"

definition split_top_level :: "string \<Rightarrow> char \<Rightarrow> string list" where
  "split_top_level s delim = top_level_loop delim s [] [] 0 None"

text \<open>
  \<^verbatim>\<open>find_top_level_pipe\<close>.  Inside quotes a backslash skips the byte behind it; a doubled bar is no pipe.
\<close>

function find_pipe :: "string \<Rightarrow> nat \<Rightarrow> int \<Rightarrow> char option \<Rightarrow> nat option" where
  "find_pipe [] i depth quote = None"
| "find_pipe (b # rest) i depth quote =
     (case quote of
        Some q \<Rightarrow>
          if b = CHR 0x5C then find_pipe (drop 1 rest) (i + 2) depth quote
          else find_pipe rest (i + 1) depth (if b = q then None else quote)
      | None \<Rightarrow>
          if is_quote b then find_pipe rest (i + 1) depth (Some b)
          else if b = CHR ''('' \<or> b = CHR ''['' then find_pipe rest (i + 1) (depth + 1) None
          else if b = CHR '')'' \<or> b = CHR '']'' then find_pipe rest (i + 1) (depth - 1) None
          else if b = CHR 0x7C \<and> depth = 0 then
            (if peek_is (CHR 0x7C) rest then find_pipe (drop 1 rest) (i + 2) depth None else Some i)
          else find_pipe rest (i + 1) depth None)"
  by pat_completeness auto
termination by (relation "measure (\<lambda>(s, _). length s)") auto

definition find_top_level_pipe :: "string \<Rightarrow> nat option" where
  "find_top_level_pipe s = find_pipe s 0 0 None"

text \<open>
  The bracket matching of \<^verbatim>\<open>extract_call_args\<close> and \<^verbatim>\<open>split_head_args\<close>, which looks at parentheses only and
  not at quotes: what is between the first parenthesis and its partner, and what is behind.
\<close>

fun match_paren :: "string \<Rightarrow> nat \<Rightarrow> (string \<times> string) option" where
  "match_paren [] depth = None"
| "match_paren (b # rest) depth =
     (if b = CHR ''('' then map_option (apfst ((#) b)) (match_paren rest (depth + 1))
      else if b = CHR '')'' then
        (if depth = 0 then Some ([], rest) else map_option (apfst ((#) b)) (match_paren rest (depth - 1)))
      else map_option (apfst ((#) b)) (match_paren rest depth))"

definition extract_call_args :: "string \<Rightarrow> string \<Rightarrow> string option" where
  "extract_call_args line name =
     (case strip_prefix (trim line) name of
        Some (CHR ''('' # after) \<Rightarrow>
          (case match_paren after 0 of
             Some (inside, behind) \<Rightarrow> if trim behind = [] then Some inside else None
           | None \<Rightarrow> None)
      | _ \<Rightarrow> None)"

definition split_head_args :: "string \<Rightarrow> (string \<times> string option) option" where
  "split_head_args s =
     (case split_once (CHR ''('') s of
        Some (before, after) \<Rightarrow>
          (case match_paren after 0 of
             None \<Rightarrow> None
           | Some (args, behind) \<Rightarrow>
               if trim before = [] then None
               else if trim behind = [] then Some (trim before, Some args) else None)
      | None \<Rightarrow> if trim s = [] then None else Some (trim s, None))"

text \<open>\<^verbatim>\<open>split_predicate_action\<close>: the last colon outside quotes and parentheses.\<close>

fun last_colon :: "string \<Rightarrow> nat \<Rightarrow> int \<Rightarrow> char option \<Rightarrow> nat option \<Rightarrow> nat option" where
  "last_colon [] i depth quote found = found"
| "last_colon (b # rest) i depth quote found =
     (case quote of
        Some q \<Rightarrow> last_colon rest (i + 1) depth (if b = q then None else quote) found
      | None \<Rightarrow>
          if is_quote b then last_colon rest (i + 1) depth (Some b) found
          else if b = CHR ''('' then last_colon rest (i + 1) (depth + 1) None found
          else if b = CHR '')'' then last_colon rest (i + 1) (depth - 1) None found
          else last_colon rest (i + 1) depth None (if b = CHR '':'' \<and> depth = 0 then Some i else found))"

definition split_predicate_action :: "string \<Rightarrow> (string \<times> string) option" where
  "split_predicate_action s =
     map_option (\<lambda>i. (trim (take i s), trim (drop (i + 1) s))) (last_colon s 0 0 None None)"

subsection \<open>Lengths\<close>

lemma length_concat_dropWhile: "length (concat (dropWhile P xs)) \<le> length (concat xs)"
  by (induction xs) auto

lemma length_trim: "length (trim s) \<le> length s"
proof -
  have "length (trim_start s) \<le> length s" for s
    using length_concat_dropWhile [of is_whitespace_cp "utf8_chars s"] by (simp add: trim_start_def)
  moreover have "length (concat (rev xs)) = length (concat xs)" for xs :: "string list" by (induction xs) auto
  then have "length (trim_end s) \<le> length s" for s
    using length_concat_dropWhile [of is_whitespace_cp "rev (utf8_chars s)"]
    by (simp add: trim_end_def)
  ultimately show ?thesis unfolding trim_def by (meson le_trans)
qed

lemma strip_prefix_char: "strip_prefix s [c] = Some t \<longleftrightarrow> s = c # t"
  by (simp add: strip_prefix_eq_Some)

lemma strip_suffix_char: "strip_suffix s [c] = Some t \<longleftrightarrow> s = t @ [c]"
proof
  assume "strip_suffix s [c] = Some t"
  then obtain u where "rev s = c # u" "t = rev u" by (auto simp: strip_suffix_def strip_prefix_char)
  then show "s = t @ [c]" by (metis rev.simps(2) rev_rev_ident)
qed (simp add: strip_suffix_def strip_prefix_char)

lemma strip_pair_iff: "strip_pair a b s = Some t \<longleftrightarrow> s = a # t @ [b]"
  by (auto simp: strip_pair_def bind_eq_Some_conv strip_prefix_char strip_suffix_char)

lemma commas_loop_length:
  "commas_loop s parts cur depth quote esc = Inr out \<Longrightarrow>
   p \<in> set out \<Longrightarrow> p \<in> set parts \<or> length p \<le> length cur + length s"
proof (induction s arbitrary: parts cur depth quote esc)
  case (Cons ch rest)
  let ?goal = "p \<in> set parts \<or> length p \<le> length cur + length (ch # rest)"
  have push: ?goal if "commas_loop rest parts (cur @ [ch]) d q e = Inr out" for d q e
    using Cons.IH [OF that Cons.prems(2)] by auto
  have cut: ?goal if "commas_loop rest (parts @ [cur]) [] d q e = Inr out" for d q e
    using Cons.IH [OF that Cons.prems(2)] by auto
  from Cons.prems(1) show ?case by (simp split: sum.splits if_splits prod.splits) (use push cut in fastforce)+
qed (auto split: if_splits)

lemma split_commas_length: "split_top_level_commas s = Inr out \<Longrightarrow> p \<in> set out \<Longrightarrow> length p \<le> length s"
  using commas_loop_length [of s "[]" "[]" 0 None False out p] by (simp add: split_top_level_commas_def)

subsection \<open>Scalar values\<close>

definition split_commas_err :: "(string \<Rightarrow> parse_error) \<Rightarrow> string \<Rightarrow> parse_error + string list" where
  "split_commas_err err s = map_err err (split_top_level_commas s)"

text \<open>\<^verbatim>\<open>parse_delegate_value\<close>: a list literal, or one of the scalar forms.\<close>

definition scalar_value :: "parse_fmt \<Rightarrow> string \<Rightarrow> yaml" where
  "scalar_value pf trimmed =
     (case unwrap_quotes trimmed of
        Some inner \<Rightarrow> YStr inner
      | None \<Rightarrow>
          if trimmed = ''true'' then YBool True
          else if trimmed = ''false'' then YBool False
          else (case parse_i64 trimmed of
                  Some n \<Rightarrow> YInt n
                | None \<Rightarrow> (case pf_f64 pf trimmed of Some f \<Rightarrow> YFloat f | None \<Rightarrow> YStr trimmed)))"

function parse_delegate_value :: "parse_fmt \<Rightarrow> string \<Rightarrow> string + yaml" where
  "parse_delegate_value pf s =
     (if trim s = [] then Inl ''empty value''
      else case strip_pair (CHR ''['') (CHR '']'') (trim s) of
        Some stripped \<Rightarrow>
          (case split_top_level_commas stripped of
             Inl e \<Rightarrow> Inl e
           | Inr items \<Rightarrow>
               res_bind (res_map (\<lambda>item. parse_delegate_value pf item) (filter (\<lambda>i. i \<noteq> []) (map trim items)))
                 (\<lambda>out. Inr (YSeq out)))
      | None \<Rightarrow> Inr (scalar_value pf (trim s)))"
  by pat_completeness auto
termination
proof (relation "measure (\<lambda>(pf, s). length s)")
  fix pf s stripped items item
  assume "strip_pair (CHR ''['') (CHR '']'') (trim s) = Some stripped" "split_top_level_commas stripped = Inr items"
    and "item \<in> set (filter (\<lambda>i. i \<noteq> []) (map trim items))"
  then obtain x where x: "trim s = CHR ''['' # stripped @ '']''" "x \<in> set items" "item = trim x" "length x \<le> length stripped"
    using split_commas_length by (auto simp: strip_pair_iff)
  have "length item \<le> length stripped" using length_trim [of x] x(3,4) by simp
  moreover have "length stripped < length (trim s)" using x(1) by simp
  ultimately show "((pf, item), pf, s) \<in> measure (\<lambda>(pf, s). length s)" using length_trim [of s] by simp
qed simp

declare parse_delegate_value.simps [simp del]

subsection \<open>Ranges\<close>

definition char_suffix :: "char \<Rightarrow> char \<Rightarrow> string \<Rightarrow> string option" where
  "char_suffix a b s = or_else (strip_suffix s [a]) (strip_suffix s [b])"

definition parse_numeric_with_suffix :: "string \<Rightarrow> int option" where
  "parse_numeric_with_suffix s0 =
     (let s = trim s0 in
      if s = [] then None
      else let (num_part, mult) =
             (case char_suffix (CHR ''k'') (CHR ''K'') s of
                Some rest \<Rightarrow> (rest, 1000)
              | None \<Rightarrow>
                  (case char_suffix (CHR ''m'') (CHR ''M'') s of
                     Some rest \<Rightarrow> (rest, 1000000)
                   | None \<Rightarrow> (s, 1)))
           in Option.bind (parse_i64 num_part) (\<lambda>n. check_i64 (n * mult)))"

text \<open>The text before and behind the first pair of dots.\<close>

fun split_dots :: "string \<Rightarrow> (string \<times> string) option" where
  "split_dots (a # b # rest) =
     (if a = CHR ''.'' \<and> b = CHR ''.'' then Some ([], rest) else map_option (apfst ((#) a)) (split_dots (b # rest)))"
| "split_dots _ = None"

definition range_bound :: "string \<Rightarrow> int option option" where
  "range_bound t = (if t = [] then Some None else map_option Some (parse_numeric_with_suffix t))"

definition parse_range_inner :: "string \<Rightarrow> (int option \<times> int option) option" where
  "parse_range_inner s =
     (case split_dots s of
        None \<Rightarrow> None
      | Some (left, right) \<Rightarrow>
          (case (range_bound (trim left), range_bound (trim right)) of
             (Some lo, Some hi) \<Rightarrow> if lo = None \<and> hi = None then None else Some (lo, hi)
           | _ \<Rightarrow> None))"

definition try_parse_range :: "string \<Rightarrow> stage option" where
  "try_parse_range s =
     (if split_dots s = None then None
      else case s of
        [] \<Rightarrow> None
      | first # _ \<Rightarrow>
          if is_ascii_alphabetic first \<or> first = CHR ''_'' then None
          else map_option (\<lambda>(lo, hi). Stage_Range lo hi) (parse_range_inner s))"

subsection \<open>Stages\<close>

definition parse_usize :: "string \<Rightarrow> string + nat" where
  "parse_usize s =
     (let digits = (case s of CHR ''+'' # t \<Rightarrow> if t = [] then s else t | _ \<Rightarrow> s)
      in if s = [] then Inl ''cannot parse integer from empty string''
         else case parse_nat digits of
                None \<Rightarrow> Inl ''invalid digit found in string''
              | Some n \<Rightarrow> if n < 2 ^ 64 then Inr n else Inl ''number too large to fit in target type'')"

definition parse_stage_mask :: "string \<Rightarrow> string \<Rightarrow> parse_error + stage" where
  "parse_stage_mask src a =
     (case parse_usize (trim a) of
        Inl e \<Rightarrow> Inl (PE_Predicate src (''mask(N) expects a non-negative integer, got `'' @ a @ ''`: '' @ e))
      | Inr n \<Rightarrow> Inr (Stage_Mask n))"

definition parse_stage_redact_cond :: "string \<Rightarrow> string \<Rightarrow> parse_error + stage" where
  "parse_stage_redact_cond src a =
     (case predicate_of a of
        Inl e \<Rightarrow> Inl (PE_Predicate src (''invalid redact() condition: '' @ parse_error_text e))
      | Inr cond \<Rightarrow> Inr (Stage_Redact (Some cond)))"

definition len_bound :: "string \<Rightarrow> int option \<Rightarrow> parse_error + nat option" where
  "len_bound src v =
     (case v of
        None \<Rightarrow> Inr None
      | Some i \<Rightarrow>
          if i < 0
          then Inl (PE_Predicate src (''len bound `'' @ int_to_string i
                 @ ''` is not a valid length: out of range integral type conversion attempted''))
          else Inr (Some (nat i)))"

definition parse_stage_len :: "string \<Rightarrow> string \<Rightarrow> parse_error + stage" where
  "parse_stage_len src a =
     (case parse_range_inner a of
        None \<Rightarrow> Inl (PE_Predicate src (''len(...) expects N..M range, got `'' @ a @ ''`''))
      | Some (lo, hi) \<Rightarrow>
          res_bind (len_bound src lo) (\<lambda>l. res_bind (len_bound src hi) (\<lambda>h. Inr (Stage_Length l h))))"

definition parse_stage_enum :: "string \<Rightarrow> string \<Rightarrow> parse_error + stage" where
  "parse_stage_enum src a =
     (let values = filter (\<lambda>s. s \<noteq> []) (map (\<lambda>v. strip_wrapping_quotes (trim v)) (split_top_level a (CHR '','')))
      in if values = [] then Inl (PE_Predicate src ''enum() requires at least one value'') else Inr (Stage_Enum values))"

definition parse_stage_regex :: "string \<Rightarrow> stage" where
  "parse_stage_regex a = Stage_Regex (strip_wrapping_quotes (trim a))"

definition parse_stage_validate_rejected :: "string \<Rightarrow> string \<Rightarrow> parse_error" where
  "parse_stage_validate_rejected src a =
     PE_Predicate src (em_dashed (''`validate('' @ trim a @ '')`'')
       (''named-validator dispatch is not implemented in this build. Use `regex('' @ [CHR 0x22] @ ''pattern'' @ [CHR 0x22]
        @ '')` for a named-regex equivalent, or `plugin('' @ trim a @ '')` for richer validation logic.''))"

definition parse_stage_plugin :: "string \<Rightarrow> string \<Rightarrow> string \<Rightarrow> parse_error + stage" where
  "parse_stage_plugin src head a =
     (if trim a = [] then Inl (PE_Predicate src (''`'' @ head @ ''(...)`: plugin name must not be empty''))
      else Inr (Stage_Plugin (trim a)))"

definition parse_taint_scope :: "string \<Rightarrow> string \<Rightarrow> parse_error + taint_scope" where
  "parse_taint_scope src s =
     (if s = ''session'' then Inr Scope_Session
      else if s = ''message'' then Inr Scope_Message
      else Inl (PE_Predicate src (''unknown taint scope `'' @ s @ ''` (expected `session` or `message`)'')))"

fun join_with :: "string \<Rightarrow> string list \<Rightarrow> string" where
  "join_with sep [] = []"
| "join_with sep [x] = x"
| "join_with sep (x # xs) = x @ sep @ join_with sep xs"

text \<open>The label and the scopes of \<^verbatim>\<open>taint(...)\<close>; the splitter always returns at least one part.\<close>

definition parse_taint :: "string \<Rightarrow> string \<Rightarrow> parse_error + string \<times> taint_scope list" where
  "parse_taint src args =
     (let parts = split_top_level args (CHR '',''); label = trim (hd parts)
      in if label = [] then Inl (PE_Predicate src ''taint label must not be empty'')
         else if length parts = 1 then Inr (label, [Scope_Session])
         else let scope_arg = trim (join_with '','' (tl parts))
              in res_bind (case strip_pair (CHR ''['') (CHR '']'') scope_arg of
                   Some inner \<Rightarrow> res_map (\<lambda>s. parse_taint_scope src (trim s)) (split_top_level inner (CHR '',''))
                 | None \<Rightarrow> res_bind (parse_taint_scope src scope_arg) (\<lambda>s. Inr [s]))
                 (\<lambda>scopes. Inr (label, scopes)))"

text \<open>The match of \<^verbatim>\<open>parse_stage\<close> on head and arguments: the heads without arguments, those with, and the rest.\<close>

definition stage_bare :: "string \<Rightarrow> stage option" where
  "stage_bare head = map_of
     [(''str'', Stage_Type TC_Str), (''int'', Stage_Type TC_Int), (''bool'', Stage_Type TC_Bool),
      (''float'', Stage_Type TC_Float), (''email'', Stage_Type TC_Email), (''url'', Stage_Type TC_Url),
      (''uuid'', Stage_Type TC_Uuid), (''redact'', Stage_Redact None), (''omit'', Stage_Omit), (''hash'', Stage_Hash),
      (''pii.redact'', Stage_Scan PiiRedact), (''pii.detect'', Stage_Scan PiiDetect),
      (''injection.scan'', Stage_Scan InjectionScan)] head"

definition stage_call :: "string \<Rightarrow> string \<Rightarrow> string \<Rightarrow> parse_error + stage" where
  "stage_call src head a =
     (if head = ''mask'' then parse_stage_mask src a
      else if head = ''redact'' then parse_stage_redact_cond src a
      else if head = ''hash'' then Inl (PE_Predicate src ''hash takes no arguments'')
      else if head = ''omit'' then
        Inl (PE_Predicate src (em_dashed ''omit takes no arguments'' ''for conditional omit, use a policy rule predicate''))
      else if head = ''len'' then parse_stage_len src a
      else if head = ''enum'' then parse_stage_enum src a
      else if head = ''regex'' then Inr (parse_stage_regex a)
      else if head = ''validate'' then Inl (parse_stage_validate_rejected src a)
      else if head = ''plugin'' \<or> head = ''run'' then parse_stage_plugin src head a
      else if head = ''taint'' then res_bind (parse_taint src a) (\<lambda>(label, scopes). Inr (Stage_Taint label scopes))
      else Inl (PE_Predicate src (''unknown stage `'' @ head @ ''`'')))"

definition parse_stage :: "string \<Rightarrow> parse_error + stage" where
  "parse_stage src =
     (case try_parse_range (trim src) of
        Some stage \<Rightarrow> Inr stage
      | None \<Rightarrow>
          (case split_head_args (trim src) of
             None \<Rightarrow> Inl (PE_Predicate src ''expected stage identifier'')
           | Some (head, Some a) \<Rightarrow> stage_call src head a
           | Some (head, None) \<Rightarrow> ok_or (PE_Predicate src (''unknown stage `'' @ head @ ''`'')) (stage_bare head)))"

definition parse_pipeline :: "string \<Rightarrow> parse_error + pipeline" where
  "parse_pipeline src =
     res_bind (res_map parse_stage (filter (\<lambda>s. s \<noteq> []) (map trim (split_top_level (trim src) (CHR 0x7C)))))
       (\<lambda>stages. Inr \<lparr>pl_stages = stages\<rparr>)"

end
