(* ===== verification/Policy_Steps.thy ===== *)
theory Policy_Steps
  imports Policy_Text
begin

text \<open>
  Rules, steps and effects of a policy, \<^verbatim>\<open>parse_rule\<close> to \<^verbatim>\<open>parse_reaction_list\<close> of
  \<^verbatim>\<open>crates/ppe-apl-core/src/parser.rs\<close>.

  Steps and effects nest in each other through the YAML document.  The functions between \<^verbatim>\<open>parse_step\<close> and
  \<^verbatim>\<open>parse_effect_value\<close> take the two as arguments, \<open>ps\<close> and \<open>pe\<close>; the recursion is closed at the end, and ends
  because every call goes to a smaller value, or from an effect to the same value as a step.
\<close>

datatype step =
    Step_Rule rule
  | Step_Pdp pdp_call "step list" "step list"
  | Step_Plugin string
  | Step_Delegate delegate_step
  | Step_Taint string "taint_scope list"
  | Step_Restrict restrict_spec
  | Step_Elicit elicit_step

subsection \<open>Rules\<close>

definition is_require_call :: "string \<Rightarrow> bool" where
  "is_require_call s \<longleftrightarrow> starts_with (trim_start s) ''require(''"

text \<open>The loop of \<^verbatim>\<open>parse_require_rule\<close> behind the first key: the keys, the separator and what is left.\<close>

fun require_loop :: "string \<Rightarrow> tok list \<Rightarrow> string list \<Rightarrow> tok option \<Rightarrow> parse_error + string list \<times> tok option \<times> tok list" where
  "require_loop line [] keys sep = Inl (PE_Rule line (em_dashed ''unexpected end of require(...)'' ''missing `)`''))"
| "require_loop line (t # ts) keys sep =
     (if t = T_RParen then Inr (keys, sep, ts)
      else if t = T_Comma \<or> t = T_Or then
        (if sep \<noteq> None \<and> sep \<noteq> Some t
         then Inl (PE_Rule line (em_dashed ''require(...) cannot mix `,` (AND) and `|` (OR)'' ''use one or the other''))
         else case ts of
           T_Ident s # ts' \<Rightarrow> require_loop line ts' (keys @ [s]) (Some t)
         | _ \<Rightarrow> Inl (PE_Rule line ''expected identifier after `,` or `|` in require(...)''))
      else Inl (PE_Rule line (''expected `,`, `|`, or `)` in require(...), got '' @ debug_tok t)))"

definition require_condition :: "string list \<Rightarrow> tok option \<Rightarrow> expression" where
  "require_condition keys sep =
     (case map (\<lambda>k. Cond (IsFalse k)) keys of
        [only] \<Rightarrow> only
      | falses \<Rightarrow> if sep = Some T_Or then And falses else Or falses)"

definition require_tokens :: "string \<Rightarrow> tok list \<Rightarrow> parse_error + expression" where
  "require_tokens line toks =
     (case toks of
        T_Require # toks1 \<Rightarrow>
          (case toks1 of
             T_LParen # toks2 \<Rightarrow>
               (case toks2 of
                  T_Ident k # toks3 \<Rightarrow>
                    res_bind (require_loop line toks3 [k] None) (\<lambda>(keys, sep, rest).
                      if rest \<noteq> []
                      then Inl (PE_Rule line (em_dashed ''trailing tokens after `require(...)`'' ''require is a complete rule''))
                      else Inr (require_condition keys sep))
                | _ \<Rightarrow> Inl (PE_Rule line ''expected identifier inside `require(...)`''))
           | _ \<Rightarrow> Inl (PE_Rule line ''expected `(` after `require`''))
      | _ \<Rightarrow> Inl (PE_Rule line ''expected `require`''))"

definition parse_require_rule :: "string \<Rightarrow> parse_error + expression" where
  "parse_require_rule line = res_bind (lexer_tokens line) (require_tokens line)"

definition detect_step_kind :: "string \<Rightarrow> string option" where
  "detect_step_kind s =
     map_option butlast (find (starts_with (trim_start s))
       [''taint('', ''plugin('', ''run('', ''cedar:'', ''opa('', ''authzen('', ''nemo('', ''cel:'', ''sequential:'', ''parallel:''])"

definition try_bare_action :: "string \<Rightarrow> effect list option" where
  "try_bare_action s =
     (if trim s = ''deny'' then Some [Eff_Deny None None]
      else if trim s = ''allow'' then Some [Eff_Allow]
      else None)"

definition try_parse_deny_call :: "string \<Rightarrow> string \<Rightarrow> parse_error + effect option" where
  "try_parse_deny_call s rule =
     (if \<not> starts_with s ''deny('' then Inr None
      else case extract_call_args s ''deny'' of
        None \<Rightarrow> Inl (PE_Rule rule ''malformed `deny(...)`'')
      | Some inside \<Rightarrow>
          res_bind (map_err (\<lambda>e. PE_Rule rule (''deny(...): '' @ e)) (split_top_level_commas inside)) (\<lambda>parts.
            let lit = (\<lambda>p. strip_string_literal (trim p) rule) in
            case parts of
              [] \<Rightarrow> Inr (Some (Eff_Deny None None))
            | [r] \<Rightarrow> res_bind (lit r) (\<lambda>reason. Inr (Some (Eff_Deny (Some reason) None)))
            | r # c # others \<Rightarrow>
                res_bind (lit r) (\<lambda>reason. res_bind (lit c) (\<lambda>code.
                  if others \<noteq> [] then Inl (PE_Rule rule (''deny(...) takes at most two args: deny('' @ [CHR 0x27] @ ''reason'' @ [CHR 0x27] @ '', ''
                    @ [CHR 0x27] @ ''code'' @ [CHR 0x27] @ '')''))
                  else Inr (Some (Eff_Deny (Some reason) (Some code)))))))"

definition parse_action :: "string \<Rightarrow> string \<Rightarrow> parse_error + effect list" where
  "parse_action s rule =
     (case try_bare_action s of
        Some effects \<Rightarrow> Inr effects
      | None \<Rightarrow>
          res_bind (try_parse_deny_call (trim s) rule) (\<lambda>d.
            case d of
              Some deny \<Rightarrow> Inr [deny]
            | None \<Rightarrow>
                Inl (PE_Rule rule (em_dashed (''unsupported action `'' @ trim s @ ''`'')
                  (''recognized: `deny`, `deny('' @ [CHR 0x27] @ ''reason'' @ [CHR 0x27] @ '')`, `deny('' @ [CHR 0x27] @ ''reason''
                   @ [CHR 0x27] @ '', '' @ [CHR 0x27] @ ''code'' @ [CHR 0x27] @ '')`, `allow`'')))))"

definition rule_of :: "string \<Rightarrow> string \<Rightarrow> string \<Rightarrow> effect list \<Rightarrow> parse_error + rule" where
  "rule_of trimmed source predicate effects =
     res_bind (map_err (\<lambda>e. PE_Rule trimmed (parse_error_text e)) (predicate_of predicate))
       (\<lambda>c. Inr \<lparr>ru_condition = c, ru_effects = effects, ru_source = source\<rparr>)"

definition parse_rule :: "string \<Rightarrow> string \<Rightarrow> parse_error + rule" where
  "parse_rule line source =
     (let trimmed = trim line in
      if is_require_call trimmed
      then res_bind (parse_require_rule trimmed) (\<lambda>c. Inr (rule_single c (Eff_Deny None None) source))
      else case detect_step_kind trimmed of
        Some kind \<Rightarrow> Inl (PE_UnsupportedStep trimmed (kind @ '' (use parse_step for step kinds)''))
      | None \<Rightarrow>
          (case split_predicate_action trimmed of
             Some (p, a) \<Rightarrow> res_bind (parse_action a trimmed) (\<lambda>effects. rule_of trimmed source p effects)
           | None \<Rightarrow>
               (case try_bare_action trimmed of
                  Some effects \<Rightarrow> Inr \<lparr>ru_condition = Always, ru_effects = effects, ru_source = source\<rparr>
                | None \<Rightarrow>
                    res_bind (try_parse_deny_call trimmed trimmed) (\<lambda>d.
                      case d of
                        Some deny \<Rightarrow> Inr \<lparr>ru_condition = Always, ru_effects = [deny], ru_source = source\<rparr>
                      | None \<Rightarrow> rule_of trimmed source trimmed [Eff_Deny None None]))))"

subsection \<open>Calls with keyword arguments\<close>

definition quoted_call :: "string \<Rightarrow> string" where
  "quoted_call verb = ''`'' @ verb @ ''(...)`''"

definition call_text :: "string \<Rightarrow> string \<Rightarrow> string" where
  "call_text verb inside = verb @ ''('' @ inside @ '')''"

text \<open>The parts of a call, and a keyword argument cut at its first colon.\<close>

definition call_parts :: "string \<Rightarrow> string \<Rightarrow> string \<Rightarrow> parse_error + string list" where
  "call_parts verb inside source =
     map_err (\<lambda>msg. PE_Rule (call_text verb inside) (source @ '': '' @ msg)) (split_top_level_commas inside)"

definition kwarg_value :: "parse_fmt \<Rightarrow> string \<Rightarrow> string \<Rightarrow> string \<Rightarrow> string \<Rightarrow> parse_error + yaml" where
  "kwarg_value pf source kwarg prefix value_str =
     map_err (\<lambda>msg. PE_Rule kwarg (source @ '': '' @ prefix @ '': '' @ msg)) (parse_delegate_value pf value_str)"

text \<open>The loop of \<^verbatim>\<open>parse_delegate_call_args\<close> over the keyword arguments.\<close>

fun delegate_kwargs ::
    "parse_fmt \<Rightarrow> string \<Rightarrow> string list \<Rightarrow> string option \<Rightarrow> (yaml \<times> yaml) list \<Rightarrow> parse_error + string option \<times> (yaml \<times> yaml) list" where
  "delegate_kwargs pf source [] on_error config = Inr (on_error, config)"
| "delegate_kwargs pf source (raw # rest) on_error config =
     (let kwarg = trim raw in
      if kwarg = [] then delegate_kwargs pf source rest on_error config
      else case split_once (CHR '':'') kwarg of
        None \<Rightarrow> Inl (PE_Rule kwarg (source @ '': `delegate(...)` kwarg `'' @ kwarg
                  @ ''` must be `key: value` (use the map form for richer config)''))
      | Some (key0, value_str) \<Rightarrow>
          let key = trim key0 in
          if key = [] then Inl (PE_Rule kwarg (source @ '': `delegate(...)` kwarg has empty key''))
          else if key = ''on_error'' then
            res_bind (kwarg_value pf source kwarg ''on_error'' (trim value_str)) (\<lambda>v.
              case yaml_as_str v of
                Some s \<Rightarrow> delegate_kwargs pf source rest (Some s) config
              | None \<Rightarrow> Inl (PE_Rule kwarg (source @ '': `on_error` must be a string'')))
          else if key = ''plugin'' then
            Inl (PE_Rule kwarg (source @ '': `plugin` is set as the first positional argument of `delegate(...)`; ''
              @ ''don'' @ [CHR 0x27] @ ''t pass it as a kwarg too''))
          else res_bind (kwarg_value pf source kwarg (''`'' @ key @ ''`'') (trim value_str)) (\<lambda>v.
                 delegate_kwargs pf source rest on_error (AList.update (YStr key) v config)))"

definition config_of :: "(yaml \<times> yaml) list \<Rightarrow> yaml option" where
  "config_of config = (if config = [] then None else Some (YMap config))"

definition parse_delegate_call_args :: "parse_fmt \<Rightarrow> string \<Rightarrow> string \<Rightarrow> parse_error + delegate_step" where
  "parse_delegate_call_args pf inside source =
     res_bind (call_parts ''delegate'' inside source) (\<lambda>parts.
       let name = trim (hd parts) in
       if name = [] then Inl (PE_Rule (call_text ''delegate'' inside)
         (source @ '': `delegate(...)` requires a plugin name as the first positional argument''))
       else if strip_wrapping_quotes name = [] then Inl (PE_Rule (call_text ''delegate'' inside)
         (source @ '': `delegate(...)` plugin name cannot be empty''))
       else res_bind (delegate_kwargs pf source (tl parts) None []) (\<lambda>(on_error, config).
         Inr \<lparr>ds_plugin_name = strip_wrapping_quotes name, ds_config_override = config_of config, ds_on_error = on_error,
              ds_source = source\<rparr>))"

definition ELICIT_VERBS :: "(string \<times> elicit_kind) list" where
  "ELICIT_VERBS =
     [(''require_approval'', Approval), (''confirm'', Confirm), (''require_step_up'', StepUp),
      (''require_attestation'', Attestation), (''request_info'', Info), (''require_review'', Review)]"

text \<open>The locals of \<^verbatim>\<open>parse_elicit_call_args\<close>.\<close>

record elicit_call =
  ec_from :: "string option"
  ec_channel :: "string option"
  ec_purpose :: "string option"
  ec_scope :: "string option"
  ec_timeout :: "string option"
  ec_on_error :: "string option"
  ec_config :: "(yaml \<times> yaml) list"

definition elicit_call_new :: elicit_call where
  "elicit_call_new = \<lparr>ec_from = None, ec_channel = None, ec_purpose = None, ec_scope = None, ec_timeout = None,
     ec_on_error = None, ec_config = []\<rparr>"

text \<open>The setter of a recognized key; \<open>None\<close> for a key that goes into the configuration.\<close>

definition elicit_setter :: "string \<Rightarrow> (string \<Rightarrow> elicit_call \<Rightarrow> elicit_call) option" where
  "elicit_setter key =
     (if key = ''from'' then Some (\<lambda>s c. c\<lparr>ec_from := Some s\<rparr>)
      else if key = ''channel'' then Some (\<lambda>s c. c\<lparr>ec_channel := Some s\<rparr>)
      else if key = ''scope'' then Some (\<lambda>s c. c\<lparr>ec_scope := Some s\<rparr>)
      else if key = ''purpose'' \<or> key = ''prompt'' then Some (\<lambda>s c. c\<lparr>ec_purpose := Some s\<rparr>)
      else if key = ''timeout'' then Some (\<lambda>s c. c\<lparr>ec_timeout := Some s\<rparr>)
      else if key = ''on_error'' then Some (\<lambda>s c. c\<lparr>ec_on_error := Some s\<rparr>)
      else None)"

fun elicit_kwargs :: "parse_fmt \<Rightarrow> string \<Rightarrow> string \<Rightarrow> string list \<Rightarrow> elicit_call \<Rightarrow> parse_error + elicit_call" where
  "elicit_kwargs pf verb source [] call = Inr call"
| "elicit_kwargs pf verb source (raw # rest) call =
     (let kwarg = trim raw in
      if kwarg = [] then elicit_kwargs pf verb source rest call
      else case split_once (CHR '':'') kwarg of
        None \<Rightarrow> Inl (PE_Rule kwarg (source @ '': '' @ quoted_call verb @ '' argument `'' @ kwarg
                  @ ''` must be `key: value` (the plugin name is the first positional argument)''))
      | Some (key0, value_str) \<Rightarrow>
          let key = trim key0 in
          if key = [] then Inl (PE_Rule kwarg (source @ '': '' @ quoted_call verb @ '' argument has empty key''))
          else res_bind (kwarg_value pf source kwarg (''`'' @ key @ ''`'') (trim value_str)) (\<lambda>v.
            case elicit_setter key of
              Some set_field \<Rightarrow>
                (case v of
                   YStr s \<Rightarrow> elicit_kwargs pf verb source rest (set_field s call)
                 | _ \<Rightarrow> Inl (PE_Rule (verb @ ''(...)'') (source @ '': `'' @ key @ ''` must be a string, got '' @ pf_debug pf v)))
            | None \<Rightarrow>
                if key = ''plugin'' then
                  Inl (PE_Rule kwarg (source @ '': the plugin name is the first positional argument of ''
                    @ quoted_call verb @ ''; don'' @ [CHR 0x27] @ ''t pass it as a kwarg too''))
                else elicit_kwargs pf verb source rest (call\<lparr>ec_config := AList.update (YStr key) v (ec_config call)\<rparr>)))"

definition parse_elicit_call_args ::
    "parse_fmt \<Rightarrow> string \<Rightarrow> elicit_kind \<Rightarrow> string \<Rightarrow> string \<Rightarrow> parse_error + elicit_step" where
  "parse_elicit_call_args pf verb kind inside source =
     res_bind (call_parts verb inside source) (\<lambda>parts.
       let name = strip_wrapping_quotes (trim (hd parts)) in
       if name = [] then Inl (PE_Rule (call_text verb inside) (source @ '': '' @ quoted_call verb
         @ '' requires an ElicitationHandler plugin name as the first positional argument''))
       else res_bind (elicit_kwargs pf verb source (tl parts) elicit_call_new) (\<lambda>c.
         case ec_from c of
           None \<Rightarrow> Inl (PE_Rule (call_text verb inside) (source @ '': '' @ quoted_call verb @ '' requires `from` (the approver)''))
         | Some from \<Rightarrow>
             Inr \<lparr>el_kind = kind, el_plugin_name = name, el_channel = ec_channel c, el_from = from, el_purpose = ec_purpose c,
                  el_scope = ec_scope c, el_timeout = ec_timeout c, el_config_override = config_of (ec_config c),
                  el_on_error = ec_on_error c, el_source = source\<rparr>))"

subsection \<open>Steps in one line\<close>

definition call_args :: "string \<Rightarrow> string \<Rightarrow> parse_error + string" where
  "call_args trimmed verb = ok_or (PE_Rule trimmed (''malformed '' @ quoted_call verb)) (extract_call_args trimmed verb)"

definition plugin_call :: "string \<Rightarrow> string \<Rightarrow> parse_error + step" where
  "plugin_call trimmed verb =
     res_bind (call_args trimmed verb) (\<lambda>inside.
       if trim inside = [] then Inl (PE_Rule trimmed (quoted_call verb @ '': plugin name must not be empty''))
       else Inr (Step_Plugin (trim inside)))"

definition parse_step_string :: "parse_fmt \<Rightarrow> string \<Rightarrow> string \<Rightarrow> parse_error + step" where
  "parse_step_string pf line source =
     (let trimmed = trim line in
      if starts_with trimmed ''taint('' then
        res_bind (call_args trimmed ''taint'') (\<lambda>inside.
          res_bind (parse_taint trimmed inside) (\<lambda>(label, scopes). Inr (Step_Taint label scopes)))
      else if starts_with trimmed ''plugin('' then plugin_call trimmed ''plugin''
      else if starts_with trimmed ''run('' then plugin_call trimmed ''run''
      else if starts_with trimmed ''delegate('' then
        res_bind (call_args trimmed ''delegate'') (\<lambda>inside.
          res_bind (parse_delegate_call_args pf inside source) (\<lambda>d. Inr (Step_Delegate d)))
      else case find (\<lambda>(verb, _). starts_with trimmed (verb @ ''('')) ELICIT_VERBS of
        Some (verb, kind) \<Rightarrow>
          res_bind (call_args trimmed verb) (\<lambda>inside.
            res_bind (parse_elicit_call_args pf verb kind inside source) (\<lambda>e. Inr (Step_Elicit e)))
      | None \<Rightarrow> res_bind (parse_rule trimmed source) (\<lambda>r. Inr (Step_Rule r)))"

end
