(* ===== verification/Policy_Effects.thy ===== *)
theory Policy_Effects
  imports Policy_Steps
begin

text \<open>
  The YAML forms of steps and effects, \<^verbatim>\<open>parse_step_map\<close> to \<^verbatim>\<open>parse_reaction_list\<close> of
  \<^verbatim>\<open>crates/ppe-apl-core/src/parser.rs\<close>, and the two functions they are reached from.
\<close>

subsection \<open>Restrictions\<close>

definition parse_string_list :: "yaml \<Rightarrow> string + string list" where
  "parse_string_list v =
     (case as_sequence v of
        None \<Rightarrow> Inl ''must be a list of strings''
      | Some seq \<Rightarrow>
          res_bind (res_map (\<lambda>item.
            case yaml_as_str item of
              None \<Rightarrow> Inl ''list entries must be strings''
            | Some s \<Rightarrow> if trim s = [] then Inl ''list entries must not be empty'' else Inr (trim s)) seq)
          (\<lambda>out. if out = [] then Inl ''list must not be empty'' else Inr out))"

definition parse_string_set_spec :: "yaml \<Rightarrow> string + string_set_spec" where
  "parse_string_set_spec v =
     (case v of
        YSeq _ \<Rightarrow> res_bind (parse_string_list v) (\<lambda>xs. Inr (SetLiteral xs))
      | YStr s \<Rightarrow> if trim s = [] then Inl ''reference path must not be empty'' else Inr (SetRef (trim s))
      | _ \<Rightarrow> Inl ''must be a list of strings or a `data.*` reference string'')"

definition scalar_to_string :: "parse_fmt \<Rightarrow> yaml \<Rightarrow> string option" where
  "scalar_to_string pf v =
     (case v of
        YStr s \<Rightarrow> Some s
      | YBool b \<Rightarrow> Some (bool_to_string b)
      | YInt _ \<Rightarrow> Some (pf_number pf v)
      | YFloat _ \<Rightarrow> Some (pf_number pf v)
      | _ \<Rightarrow> None)"

fun label_entries :: "parse_fmt \<Rightarrow> (yaml \<times> yaml) list \<Rightarrow> btree \<Rightarrow> string + btree" where
  "label_entries pf [] out = Inr out"
| "label_entries pf ((k, v) # rest) out =
     (case yaml_as_str k of
        None \<Rightarrow> Inl ''label keys must be strings''
      | Some key \<Rightarrow>
          if trim key = [] then Inl ''label keys must not be empty''
          else (case scalar_to_string pf v of
                  None \<Rightarrow> Inl (''label `'' @ trim key @ ''` must be a scalar (string / bool / number)'')
                | Some s \<Rightarrow> label_entries pf rest (btree_insert (trim key) s out)))"

definition parse_label_map :: "parse_fmt \<Rightarrow> yaml \<Rightarrow> string + btree" where
  "parse_label_map pf v =
     (case as_mapping v of
        None \<Rightarrow> Inl ''must be a map of `label: value` pairs''
      | Some m \<Rightarrow>
          res_bind (label_entries pf m []) (\<lambda>out. if out = [] then Inl ''`custom` map must not be empty'' else Inr out))"

definition restrict_default :: restrict_spec where
  "restrict_default = \<lparr>rs_allow_models = None, rs_deny_models = None, rs_allow_regions = None, rs_allow_sites = None,
     rs_max_cost_tier = None, rs_custom = [], rs_on_empty = OnEmpty_Deny\<rparr>"

text \<open>One entry of a \<^verbatim>\<open>restrict:\<close> body.  An unknown field is an error of its own, not of the field.\<close>

definition restrict_field :: "parse_fmt \<Rightarrow> string \<Rightarrow> yaml \<Rightarrow> restrict_spec \<Rightarrow> (string + restrict_spec) option" where
  "restrict_field pf field v spec =
     (if field = ''allow_models'' then
        Some (res_bind (parse_string_set_spec v) (\<lambda>x. Inr (spec\<lparr>rs_allow_models := Some x\<rparr>)))
      else if field = ''deny_models'' then
        Some (res_bind (parse_string_set_spec v) (\<lambda>x. Inr (spec\<lparr>rs_deny_models := Some x\<rparr>)))
      else if field = ''allow_regions'' then
        Some (res_bind (parse_string_set_spec v) (\<lambda>x. Inr (spec\<lparr>rs_allow_regions := Some x\<rparr>)))
      else if field = ''allow_sites'' then
        Some (res_bind (parse_string_set_spec v) (\<lambda>x. Inr (spec\<lparr>rs_allow_sites := Some x\<rparr>)))
      else if field = ''max_cost_tier'' then
        Some (case yaml_as_str v of
                None \<Rightarrow> Inl ''must be a string tier''
              | Some tier \<Rightarrow>
                  if trim tier = [] then Inl ''tier must not be empty'' else Inr (spec\<lparr>rs_max_cost_tier := Some (trim tier)\<rparr>))
      else if field = ''custom'' then Some (res_bind (parse_label_map pf v) (\<lambda>x. Inr (spec\<lparr>rs_custom := x\<rparr>)))
      else if field = ''on_empty'' then
        Some (case yaml_as_str v of
                None \<Rightarrow> Inl ''must be `deny` or `fallback`''
              | Some s \<Rightarrow>
                  if trim s = ''deny'' then Inr (spec\<lparr>rs_on_empty := OnEmpty_Deny\<rparr>)
                  else if trim s = ''fallback'' then Inr (spec\<lparr>rs_on_empty := OnEmpty_Fallback\<rparr>)
                  else Inl (''unknown value `'' @ trim s @ ''` (expected `deny` or `fallback`)''))
      else None)"

fun restrict_entries :: "parse_fmt \<Rightarrow> string \<Rightarrow> (yaml \<times> yaml) list \<Rightarrow> restrict_spec \<Rightarrow> parse_error + restrict_spec" where
  "restrict_entries pf source [] spec = Inr spec"
| "restrict_entries pf source ((k, v) # rest) spec =
     (case yaml_as_str k of
        None \<Rightarrow> Inl (PE_Rule source ''`restrict:` field keys must be strings'')
      | Some key \<Rightarrow>
          (case restrict_field pf (trim key) v spec of
             None \<Rightarrow> Inl (PE_Rule source (''unknown `restrict:` field `'' @ trim key
                       @ ''` (allowed: allow_models, deny_models, allow_regions, allow_sites, max_cost_tier, custom, on_empty)''))
           | Some (Inl msg) \<Rightarrow> Inl (PE_Rule source (''`restrict.'' @ trim key @ ''`: '' @ msg))
           | Some (Inr spec') \<Rightarrow> restrict_entries pf source rest spec'))"

definition parse_restrict_spec :: "parse_fmt \<Rightarrow> yaml \<Rightarrow> string \<Rightarrow> parse_error + restrict_spec" where
  "parse_restrict_spec pf body source =
     (case as_mapping body of
        None \<Rightarrow> Inl (PE_Rule source (''`restrict:` body must be a map of constraint fields (allow_models / deny_models / ''
                  @ ''allow_regions / allow_sites / max_cost_tier / custom / on_empty)''))
      | Some m \<Rightarrow>
          res_bind (restrict_entries pf source m restrict_default) (\<lambda>spec.
            if restrict_spec_is_empty spec
            then Inl (PE_Rule source (em_dashed ''`restrict:` declares no constraint fields''
                   (''it would restrict nothing; remove it or add at least one of allow_models / deny_models / ''
                    @ ''allow_regions / allow_sites / max_cost_tier / custom'')))
            else Inr spec))"

definition parse_restrict_effect :: "parse_fmt \<Rightarrow> yaml \<Rightarrow> string \<Rightarrow> parse_error + effect" where
  "parse_restrict_effect pf body source = res_bind (parse_restrict_spec pf body source) (\<lambda>spec. Inr (Eff_Restrict spec))"

subsection \<open>Field operations\<close>

definition alphanumeric_or_underscore :: "parse_fmt \<Rightarrow> string \<Rightarrow> bool" where
  "alphanumeric_or_underscore pf c =
     (case c of
        [b] \<Rightarrow> (if byte_of b < 128 then is_ascii_alphanumeric b \<or> b = CHR ''_'' else pf_alphanumeric pf c)
      | _ \<Rightarrow> pf_alphanumeric pf c)"

definition is_valid_field_path :: "parse_fmt \<Rightarrow> string \<Rightarrow> bool" where
  "is_valid_field_path pf s =
     (case or_else (strip_prefix s ''args.'') (strip_prefix s ''result.'') of
        None \<Rightarrow> False
      | Some rest \<Rightarrow>
          rest \<noteq> [] \<and> list_all (\<lambda>seg. seg \<noteq> [] \<and> list_all (alphanumeric_or_underscore pf) (utf8_chars seg))
                         (split_on (CHR ''.'') rest))"

definition try_parse_field_op :: "parse_fmt \<Rightarrow> string \<Rightarrow> string \<Rightarrow> parse_error + effect option" where
  "try_parse_field_op pf s rule =
     (case find_top_level_pipe s of
        None \<Rightarrow> Inr None
      | Some i \<Rightarrow>
          let path = trim (take i s); chain = trim (drop (i + 1) s)
          in if path = [] \<or> chain = [] then Inr None
             else if \<not> is_valid_field_path pf path then Inr None
             else res_bind (map_err (\<lambda>e. PE_Rule rule (''field op `'' @ path @ ''`: '' @ parse_error_text e)) (parse_pipeline chain))
                    (\<lambda>pl. if pl_stages pl = [] then Inl (PE_Rule rule (''field op `'' @ path @ ''` has no stages''))
                          else Inr (Some (Eff_FieldOp path (pl_stages pl)))))"

subsection \<open>From steps to effects\<close>

fun step_to_top_level_effect :: "step \<Rightarrow> effect" where
  "step_to_top_level_effect (Step_Rule r) = Eff_When (ru_condition r) (ru_effects r) (ru_source r)"
| "step_to_top_level_effect (Step_Pdp call on_deny on_allow) =
     Eff_Pdp call (map step_to_top_level_effect on_allow) (map step_to_top_level_effect on_deny)"
| "step_to_top_level_effect (Step_Plugin name) = Eff_Plugin name"
| "step_to_top_level_effect (Step_Delegate d) = Eff_Delegate d"
| "step_to_top_level_effect (Step_Elicit e) = Eff_Elicit e"
| "step_to_top_level_effect (Step_Taint label scopes) = Eff_Taint label scopes"
| "step_to_top_level_effect (Step_Restrict spec) = Eff_Restrict spec"

fun step_to_effect :: "step \<Rightarrow> string \<Rightarrow> parse_error + effect" where
  "step_to_effect (Step_Plugin name) source = Inr (Eff_Plugin name)"
| "step_to_effect (Step_Delegate d) source = Inr (Eff_Delegate d)"
| "step_to_effect (Step_Elicit e) source = Inr (Eff_Elicit e)"
| "step_to_effect (Step_Taint label scopes) source = Inr (Eff_Taint label scopes)"
| "step_to_effect (Step_Restrict spec) source = Inr (Eff_Restrict spec)"
| "step_to_effect (Step_Rule r) source =
     (if ru_condition r \<noteq> Always
      then Inl (PE_Rule source (''conditional rules nested inside `do:` are not supported ''
             @ ''(use a sibling `when:`/`do:` rule instead)''))
      else if length (ru_effects r) \<noteq> 1
      then Inl (PE_Rule source (''unconditional rule inside `do:` must produce exactly one effect, got ''
             @ nat_to_string (length (ru_effects r))))
      else Inr (hd (ru_effects r)))"
| "step_to_effect (Step_Pdp call on_deny on_allow) source =
     Inl (PE_Rule source ''PDP calls inside `do:` are not supported (use a sibling step instead)'')"

definition parse_effect_string :: "parse_fmt \<Rightarrow> string \<Rightarrow> string \<Rightarrow> parse_error + effect" where
  "parse_effect_string pf s source =
     (case try_bare_action (trim s) of
        Some effects \<Rightarrow> Inr (hd effects)
      | None \<Rightarrow>
          res_bind (try_parse_deny_call (trim s) s) (\<lambda>d.
            case d of
              Some effect \<Rightarrow> Inr effect
            | None \<Rightarrow>
                res_bind (try_parse_field_op pf (trim s) s) (\<lambda>f.
                  case f of
                    Some effect \<Rightarrow> Inr effect
                  | None \<Rightarrow> res_bind (parse_step_string pf s source) (\<lambda>st. step_to_effect st source))))"

subsection \<open>Bodies\<close>

definition parse_do_body ::
    "parse_fmt \<Rightarrow> (yaml \<Rightarrow> string \<Rightarrow> parse_error + effect) \<Rightarrow> yaml \<Rightarrow> string \<Rightarrow> parse_error + effect list" where
  "parse_do_body pf pe val source =
     (case val of
        YStr s \<Rightarrow> res_bind (parse_effect_string pf s source) (\<lambda>e. Inr [e])
      | YSeq items \<Rightarrow> res_map (\<lambda>item. pe item source) items
      | YMap m \<Rightarrow> res_bind (pe val source) (\<lambda>e. Inr [e])
      | _ \<Rightarrow> Inl (PE_Rule (pf_debug pf val) ''`do:` value must be a string, a list of effects, or an effect map''))"

definition parse_when_do_rule ::
    "parse_fmt \<Rightarrow> (yaml \<Rightarrow> string \<Rightarrow> parse_error + effect) \<Rightarrow> (yaml \<times> yaml) list \<Rightarrow> string \<Rightarrow> parse_error + step" where
  "parse_when_do_rule pf pe m source =
     (case find (\<lambda>(k, _). unwrap_or (yaml_as_str k) [] \<notin> {''when'', ''do'', ''id''}) m of
        Some (k, _) \<Rightarrow> Inl (PE_Rule (pf_debug_map pf m) (''unexpected key `'' @ unwrap_or (yaml_as_str k) []
                         @ ''` in when/do rule (allowed: `when`, `do`, `id`)''))
      | None \<Rightarrow>
          (case yaml_entry m ''when'' of
             None \<Rightarrow> Inl (PE_Rule (pf_debug_map pf m) ''`when:` key missing from when/do rule'')
           | Some when_val \<Rightarrow>
               (case yaml_as_str when_val of
                  None \<Rightarrow> Inl (PE_Rule (pf_debug pf when_val) ''`when:` must be a predicate string'')
                | Some predicate \<Rightarrow>
                    res_bind (map_err (\<lambda>e. PE_Rule (''when: '' @ predicate) (parse_error_text e)) (predicate_of predicate)) (\<lambda>c.
                      case yaml_entry m ''do'' of
                        None \<Rightarrow> Inl (PE_Rule (pf_debug_map pf m) ''`do:` key missing from when/do rule'')
                      | Some do_val \<Rightarrow>
                          res_bind (parse_do_body pf pe do_val source) (\<lambda>effects.
                            if effects = [] then Inl (PE_Rule (pf_debug_map pf m) ''`do:` produced no effects'')
                            else Inr (Step_Rule \<lparr>ru_condition = c, ru_effects = effects, ru_source = source\<rparr>))))))"

definition parse_shorthand_multi_effect ::
    "(yaml \<Rightarrow> string \<Rightarrow> parse_error + effect) \<Rightarrow> string \<Rightarrow> yaml list \<Rightarrow> string \<Rightarrow> parse_error + step" where
  "parse_shorthand_multi_effect pe predicate items source =
     res_bind (map_err (\<lambda>e. PE_Rule predicate (parse_error_text e)) (predicate_of predicate)) (\<lambda>c.
       res_bind (res_map (\<lambda>item. pe item source) items) (\<lambda>effects.
         if effects = [] then Inl (PE_Rule predicate ''shorthand multi-effect map produced no effects'')
         else Inr (Step_Rule \<lparr>ru_condition = c, ru_effects = effects, ru_source = source\<rparr>)))"

text \<open>The list of effects of a \<^verbatim>\<open>sequential:\<close> or \<^verbatim>\<open>parallel:\<close> body.\<close>

definition effect_list ::
    "parse_fmt \<Rightarrow> (yaml \<Rightarrow> string \<Rightarrow> parse_error + effect) \<Rightarrow> string \<Rightarrow> yaml \<Rightarrow> string \<Rightarrow> parse_error + effect list" where
  "effect_list pf pe what body source =
     (case as_sequence body of
        None \<Rightarrow> Inl (PE_Rule (pf_debug pf body) (''`'' @ what @ '':` body must be a list of effects''))
      | Some items \<Rightarrow>
          if items = [] then Inl (PE_Rule (pf_debug pf body) (''`'' @ what @ '':` body is empty''))
          else res_map (\<lambda>item. pe item source) items)"

definition parse_sequential_effect ::
    "parse_fmt \<Rightarrow> (yaml \<Rightarrow> string \<Rightarrow> parse_error + effect) \<Rightarrow> yaml \<Rightarrow> string \<Rightarrow> parse_error + effect" where
  "parse_sequential_effect pf pe body source =
     res_bind (effect_list pf pe ''sequential'' body source) (\<lambda>effects. Inr (Eff_Sequential effects))"

definition purity_text :: "parse_fmt \<Rightarrow> effect \<Rightarrow> string" where
  "purity_text pf e =
     ''`parallel:` contains a mutation effect ('' @ pf_debug_effect pf e @ ''); use `sequential:` for ordered mutations''"

definition parse_parallel_effect ::
    "parse_fmt \<Rightarrow> (yaml \<Rightarrow> string \<Rightarrow> parse_error + effect) \<Rightarrow> yaml \<Rightarrow> string \<Rightarrow> parse_error + effect" where
  "parse_parallel_effect pf pe body source =
     res_bind (effect_list pf pe ''parallel'' body source) (\<lambda>effects.
       res_bind (map_err (\<lambda>e. PE_Rule source (purity_text pf e)) (validate_parallel_purity (Eff_Parallel effects))) (\<lambda>_.
         Inr (Eff_Parallel effects)))"

definition parse_delegate_step :: "yaml \<Rightarrow> string \<Rightarrow> parse_error + step" where
  "parse_delegate_step body_val source =
     (case as_mapping body_val of
        None \<Rightarrow> Inl (PE_Rule source ''`delegate:` body must be a map with `plugin:` and optional `config:` / `on_error:`'')
      | Some body \<Rightarrow>
          (case yaml_entry body ''plugin'' of
             None \<Rightarrow> Inl (PE_Rule source (''`delegate:` requires `plugin: <name>` referencing a top-level plugin registered ''
                       @ ''under `token.delegate`''))
           | Some plugin \<Rightarrow>
               (case yaml_as_str plugin of
                  None \<Rightarrow> Inl (PE_Rule source ''`delegate.plugin` must be a string'')
                | Some name \<Rightarrow>
                    if name = [] then Inl (PE_Rule source ''`delegate.plugin` cannot be empty'')
                    else res_bind
                      (case yaml_entry body ''on_error'' of
                         None \<Rightarrow> Inr None
                       | Some v \<Rightarrow>
                           (case yaml_as_str v of
                              None \<Rightarrow> Inl (PE_Rule source ''`delegate.on_error` must be a string (e.g. `deny`, `continue`)'')
                            | Some s \<Rightarrow> Inr (Some s)))
                      (\<lambda>on_error. Inr (Step_Delegate \<lparr>ds_plugin_name = name, ds_config_override = yaml_entry body ''config'',
                         ds_on_error = on_error, ds_source = source\<rparr>)))))"

subsection \<open>Calls of decision points\<close>

fun reaction_entries ::
    "(yaml \<Rightarrow> string \<Rightarrow> parse_error + step) \<Rightarrow> string \<Rightarrow> nat \<Rightarrow> yaml list \<Rightarrow> parse_error + step list" where
  "reaction_entries ps pre i [] = Inr []"
| "reaction_entries ps pre i (entry # rest) =
     res_bind (ps entry (pre @ ''['' @ nat_to_string i @ '']'')) (\<lambda>st.
       res_bind (reaction_entries ps pre (i + 1) rest) (\<lambda>sts. Inr (st # sts)))"

definition parse_reaction_list ::
    "parse_fmt \<Rightarrow> (yaml \<Rightarrow> string \<Rightarrow> parse_error + step) \<Rightarrow> yaml \<Rightarrow> string \<Rightarrow> string \<Rightarrow> parse_error + step list" where
  "parse_reaction_list pf ps v source which =
     (case as_sequence v of
        None \<Rightarrow> Inl (PE_Rule (pf_debug pf v) (''`'' @ which @ '':` must be a list of steps''))
      | Some list \<Rightarrow> reaction_entries ps (source @ ''.'' @ which) 0 list)"

text \<open>The loop of \<^verbatim>\<open>extract_pdp_body\<close>: arguments, reactions on deny, reactions on allow.\<close>

fun pdp_entries ::
    "parse_fmt \<Rightarrow> (yaml \<Rightarrow> string \<Rightarrow> parse_error + step) \<Rightarrow> string \<Rightarrow> (yaml \<times> yaml) list
     \<Rightarrow> (yaml \<times> yaml) list \<Rightarrow> step list \<Rightarrow> step list \<Rightarrow> parse_error + (yaml \<times> yaml) list \<times> step list \<times> step list" where
  "pdp_entries pf ps source [] args on_deny on_allow = Inr (args, on_deny, on_allow)"
| "pdp_entries pf ps source ((k, v) # rest) args on_deny on_allow =
     (if yaml_as_str k = Some ''on_deny'' then
        res_bind (parse_reaction_list pf ps v source ''on_deny'') (\<lambda>d. pdp_entries pf ps source rest args d on_allow)
      else if yaml_as_str k = Some ''on_allow'' then
        res_bind (parse_reaction_list pf ps v source ''on_allow'') (\<lambda>a. pdp_entries pf ps source rest args on_deny a)
      else pdp_entries pf ps source rest (AList.update k v args) on_deny on_allow)"

definition extract_pdp_body ::
    "parse_fmt \<Rightarrow> (yaml \<Rightarrow> string \<Rightarrow> parse_error + step) \<Rightarrow> (yaml \<times> yaml) list \<Rightarrow> string option \<Rightarrow> string
     \<Rightarrow> parse_error + yaml \<times> step list \<times> step list" where
  "extract_pdp_body pf ps body paren_args source =
     res_bind (pdp_entries pf ps source body [] [] []) (\<lambda>(args, on_deny, on_allow).
       Inr (case paren_args of Some s \<Rightarrow> YStr s | None \<Rightarrow> YMap args, on_deny, on_allow))"

definition before_paren :: "string \<Rightarrow> string" where
  "before_paren key = (case split_once (CHR ''('') key of Some (a, _) \<Rightarrow> a | None \<Rightarrow> key)"

definition is_known_pdp_dialect :: "string \<Rightarrow> bool" where
  "is_known_pdp_dialect key \<longleftrightarrow> trim (before_paren key) \<in> {''cedar'', ''opa'', ''authzen'', ''nemo'', ''cel''}"

text \<open>
  The dialect of a call and the text between its first opening and its last closing parenthesis.
  \<open>last_index\<close> is \<^verbatim>\<open>rfind\<close>; a closing parenthesis before the opening one makes the slice empty of meaning and is an error.
\<close>

fun last_index :: "char \<Rightarrow> string \<Rightarrow> nat \<Rightarrow> nat option \<Rightarrow> nat option" where
  "last_index c [] i found = found"
| "last_index c (b # bs) i found = last_index c bs (i + 1) (if b = c then Some i else found)"

definition pdp_signature :: "string \<Rightarrow> parse_error + string \<times> string option" where
  "pdp_signature key =
     (case split_once (CHR ''('') key of
        None \<Rightarrow> Inr (trim key, None)
      | Some (dialect, _) \<Rightarrow>
          (case last_index (CHR '')'') key 0 None of
             None \<Rightarrow> Inl (PE_Rule key ''missing `)` in PDP call signature'')
           | Some close \<Rightarrow>
               let start = length dialect + 1
               in if close < start then Inl (PE_Rule key ''malformed `()` in PDP call signature'')
                  else Inr (trim dialect, Some (trim (take (close - start) (drop start key))))))"

definition unconditional :: "string \<Rightarrow> effect \<Rightarrow> step" where
  "unconditional source e = Step_Rule \<lparr>ru_condition = Always, ru_effects = [e], ru_source = source\<rparr>"

definition parse_pdp_step ::
    "parse_fmt \<Rightarrow> (yaml \<Rightarrow> string \<Rightarrow> parse_error + step) \<Rightarrow> string \<Rightarrow> yaml \<Rightarrow> string \<Rightarrow> parse_error + step" where
  "parse_pdp_step pf ps key body_val source =
     res_bind (pdp_signature key) (\<lambda>(dialect_str, paren_args).
       case as_mapping body_val of
         None \<Rightarrow> Inl (PE_Rule (pf_debug pf body_val) (''`'' @ key @ '':` body must be a map (with on_deny / on_allow / args)''))
       | Some body \<Rightarrow>
           res_bind (extract_pdp_body pf ps body paren_args source) (\<lambda>(args, on_deny, on_allow).
             Inr (Step_Pdp \<lparr>pc_dialect = dialect_from_key dialect_str, pc_args = args\<rparr> on_deny on_allow)))"

subsection \<open>Step maps\<close>

definition has_key :: "(yaml \<times> yaml) list \<Rightarrow> string \<Rightarrow> bool" where
  "has_key m key \<longleftrightarrow> yaml_entry m key \<noteq> None"

definition parse_keyed_step ::
    "parse_fmt \<Rightarrow> (yaml \<Rightarrow> string \<Rightarrow> parse_error + step) \<Rightarrow> (yaml \<Rightarrow> string \<Rightarrow> parse_error + effect)
     \<Rightarrow> string \<Rightarrow> yaml \<Rightarrow> string \<Rightarrow> parse_error + step" where
  "parse_keyed_step pf ps pe key body_val source =
     (let k = trim key in
      case (if k \<noteq> ''delegate'' \<and> k \<noteq> ''sequential'' \<and> k \<noteq> ''parallel'' \<and> \<not> is_known_pdp_dialect k
            then case body_val of YSeq items \<Rightarrow> Some items | _ \<Rightarrow> None else None) of
        Some items \<Rightarrow> parse_shorthand_multi_effect pe k items source
      | None \<Rightarrow>
          if k = ''delegate'' then parse_delegate_step body_val source
          else if k = ''restrict'' then res_bind (parse_restrict_spec pf body_val source) (\<lambda>spec. Inr (Step_Restrict spec))
          else if k = ''sequential'' then
            res_bind (parse_sequential_effect pf pe body_val source) (\<lambda>e. Inr (unconditional source e))
          else if k = ''parallel'' then
            res_bind (parse_parallel_effect pf pe body_val source) (\<lambda>e. Inr (unconditional source e))
          else parse_pdp_step pf ps key body_val source)"

definition parse_step_map ::
    "parse_fmt \<Rightarrow> (yaml \<Rightarrow> string \<Rightarrow> parse_error + step) \<Rightarrow> (yaml \<Rightarrow> string \<Rightarrow> parse_error + effect)
     \<Rightarrow> (yaml \<times> yaml) list \<Rightarrow> string \<Rightarrow> parse_error + step" where
  "parse_step_map pf ps pe m source =
     (if has_key m ''when'' \<and> has_key m ''do'' then parse_when_do_rule pf pe m source
      else case m of
        [(key_val, body_val)] \<Rightarrow>
          (case yaml_as_str key_val of
             None \<Rightarrow> Inl (PE_Rule (pf_debug pf key_val) ''PDP step key must be a string'')
           | Some key \<Rightarrow> parse_keyed_step pf ps pe key body_val source)
      | _ \<Rightarrow> Inl (PE_Rule (pf_debug_map pf m) (''step map must have exactly one key (PDP call signature, `when:`/`do:`, or a ''
               @ ''`predicate: [effects...]` shorthand)'')))"

text \<open>The single-key maps \<^verbatim>\<open>parse_effect_value\<close> handles itself.\<close>

definition effect_map ::
    "parse_fmt \<Rightarrow> (yaml \<Rightarrow> string \<Rightarrow> parse_error + effect) \<Rightarrow> (yaml \<times> yaml) list \<Rightarrow> string \<Rightarrow> (parse_error + effect) option" where
  "effect_map pf pe m source =
     (case m of
        [(k, v)] \<Rightarrow>
          (case map_option trim (yaml_as_str k) of
             Some key \<Rightarrow>
               if key = ''sequential'' then Some (parse_sequential_effect pf pe v source)
               else if key = ''parallel'' then Some (parse_parallel_effect pf pe v source)
               else if key = ''restrict'' then Some (parse_restrict_effect pf v source)
               else None
           | None \<Rightarrow> None)
      | _ \<Rightarrow> None)"

subsection \<open>Closing the recursion\<close>

text \<open>What the bodies do depends on the parsers they are given at smaller values only.\<close>

lemma effect_list_cong:
  assumes "\<And>v s. size v < size body \<Longrightarrow> pe v s = pe' v s"
  shows "effect_list pf pe what body source = effect_list pf pe' what body source"
proof (cases "as_sequence body")
  case (Some items)
  then have "res_map (\<lambda>item. pe item source) items = res_map (\<lambda>item. pe' item source) items"
    using assms size_sequence by (intro res_map_cong) auto
  with Some show ?thesis by (simp add: effect_list_def)
qed (simp add: effect_list_def)

lemma parse_do_body_cong:
  assumes "\<And>v s. size v \<le> size body \<Longrightarrow> pe v s = pe' v s"
  shows "parse_do_body pf pe body source = parse_do_body pf pe' body source"
proof (cases body)
  case (YSeq items)
  have "size x < size (YSeq items)" if "x \<in> set items" for x using that by (induction items) auto
  then have "res_map (\<lambda>item. pe item source) items = res_map (\<lambda>item. pe' item source) items"
    using assms YSeq by (intro res_map_cong) (auto simp: less_imp_le)
  with YSeq show ?thesis by (simp add: parse_do_body_def)
qed (use assms in \<open>simp_all add: parse_do_body_def\<close>)

lemma reaction_entries_cong:
  "(\<And>v s. v \<in> set xs \<Longrightarrow> ps v s = ps' v s) \<Longrightarrow> reaction_entries ps pre i xs = reaction_entries ps' pre i xs"
  by (induction xs arbitrary: i) auto

lemma parse_reaction_list_cong:
  assumes "\<And>v s. size v < size body \<Longrightarrow> ps v s = ps' v s"
  shows "parse_reaction_list pf ps body source which = parse_reaction_list pf ps' body source which"
proof (cases "as_sequence body")
  case (Some xs)
  have "reaction_entries ps (source @ ''.'' @ which) 0 xs = reaction_entries ps' (source @ ''.'' @ which) 0 xs"
    by (rule reaction_entries_cong) (use assms size_sequence [OF Some] in blast)
  with Some show ?thesis by (simp add: parse_reaction_list_def)
qed (simp add: parse_reaction_list_def)

lemma pdp_entries_cong:
  assumes "\<And>k v w s. (k, v) \<in> set body \<Longrightarrow> size w < size v \<Longrightarrow> ps w s = ps' w s"
  shows "pdp_entries pf ps source body args on_deny on_allow = pdp_entries pf ps' source body args on_deny on_allow"
  using assms
proof (induction body arbitrary: args on_deny on_allow)
  case (Cons kv rest)
  obtain k v where kv: "kv = (k, v)" by (cases kv)
  have "parse_reaction_list pf ps v source which = parse_reaction_list pf ps' v source which" for which
    by (rule parse_reaction_list_cong) (use Cons.prems kv in auto)
  moreover have "pdp_entries pf ps source rest = pdp_entries pf ps' source rest"
    by (intro ext Cons.IH) (use Cons.prems in auto)
  ultimately show ?case by (simp add: kv)
qed simp

lemma parse_pdp_step_cong:
  assumes "\<And>v s. size v < size body \<Longrightarrow> ps v s = ps' v s"
  shows "parse_pdp_step pf ps key body source = parse_pdp_step pf ps' key body source"
proof (cases "as_mapping body")
  case (Some m)
  have "pdp_entries pf ps source m a d l = pdp_entries pf ps' source m a d l" for a d l
    by (rule pdp_entries_cong) (use assms size_mapping [OF Some] size_map_entry in \<open>meson less_le_trans less_trans\<close>)
  with Some show ?thesis by (simp add: parse_pdp_step_def extract_pdp_body_def cong: option.case_cong)
qed (simp add: parse_pdp_step_def)

lemma parse_keyed_step_cong:
  assumes "\<And>v s. size v < size body \<Longrightarrow> ps v s = ps' v s" "\<And>v s. size v < size body \<Longrightarrow> pe v s = pe' v s"
  shows "parse_keyed_step pf ps pe key body source = parse_keyed_step pf ps' pe' key body source"
proof -
  have "parse_shorthand_multi_effect pe k items source = parse_shorthand_multi_effect pe' k items source" if "body = YSeq items" for k items
  proof -
    have "size x < size body" if "x \<in> set items" for x
      using that unfolding \<open>body = YSeq items\<close> by (induction items) auto
    then have "res_map (\<lambda>item. pe item source) items = res_map (\<lambda>item. pe' item source) items"
      using assms(2) by (intro res_map_cong) auto
    then show ?thesis by (simp add: parse_shorthand_multi_effect_def)
  qed
  moreover have "parse_sequential_effect pf pe body source = parse_sequential_effect pf pe' body source"
    "parse_parallel_effect pf pe body source = parse_parallel_effect pf pe' body source"
    unfolding parse_sequential_effect_def parse_parallel_effect_def by (simp_all add: effect_list_cong [OF assms(2)])
  moreover have "parse_pdp_step pf ps key body source = parse_pdp_step pf ps' key body source"
    by (rule parse_pdp_step_cong [OF assms(1)])
  ultimately show ?thesis by (auto simp: parse_keyed_step_def Let_def split: yaml.splits)
qed

lemma parse_step_map_cong [fundef_cong]:
  assumes "m = m'" "pf = pf'" "source = source'"
    and "\<And>v s. size v < size (YMap m') \<Longrightarrow> ps v s = ps' v s" "\<And>v s. size v < size (YMap m') \<Longrightarrow> pe v s = pe' v s"
  shows "parse_step_map pf ps pe m source = parse_step_map pf' ps' pe' m' source'"
proof -
  have "parse_when_do_rule pf' pe m' source' = parse_when_do_rule pf' pe' m' source'"
  proof (cases "yaml_entry m' ''do''")
    case (Some v)
    have "parse_do_body pf' pe v source' = parse_do_body pf' pe' v source'"
      by (rule parse_do_body_cong) (use assms(5) size_map_entry [OF yaml_entry_mem [OF Some]] in \<open>meson le_less_trans\<close>)
    then show ?thesis unfolding parse_when_do_rule_def Some option.case by (rule ssubst) (rule refl)
  next
    case None
    show ?thesis unfolding parse_when_do_rule_def None option.case by (rule refl)
  qed
  moreover have "parse_keyed_step pf' ps pe key v source' = parse_keyed_step pf' ps' pe' key v source'" if "(k, v) \<in> set m'" for key k v
    by (rule parse_keyed_step_cong) (use assms(4,5) size_map_entry [OF that] in \<open>meson less_trans\<close>)+
  ultimately show ?thesis unfolding parse_step_map_def assms(1-3) by (auto split: list.split option.split)
qed

lemma effect_map_cong [fundef_cong]:
  assumes "m = m'" "pf = pf'" "source = source'" "\<And>v s. size v < size (YMap m') \<Longrightarrow> pe v s = pe' v s"
  shows "effect_map pf pe m source = effect_map pf' pe' m' source'"
proof -
  have "parse_sequential_effect pf' pe v source' = parse_sequential_effect pf' pe' v source'"
    "parse_parallel_effect pf' pe v source' = parse_parallel_effect pf' pe' v source'" if "(k, v) \<in> set m'" for k v
  proof -
    have "effect_list pf' pe what v source' = effect_list pf' pe' what v source'" for what
      by (rule effect_list_cong) (use assms(4) size_map_entry [OF that] in \<open>meson less_trans\<close>)
    then show "parse_sequential_effect pf' pe v source' = parse_sequential_effect pf' pe' v source'"
      "parse_parallel_effect pf' pe v source' = parse_parallel_effect pf' pe' v source'"
      by (simp_all add: parse_sequential_effect_def parse_parallel_effect_def)
  qed
  then show ?thesis unfolding effect_map_def assms(1-3) by (auto split: list.split option.split)
qed

function parse_step :: "parse_fmt \<Rightarrow> yaml \<Rightarrow> string \<Rightarrow> parse_error + step"
  and parse_effect_value :: "parse_fmt \<Rightarrow> yaml \<Rightarrow> string \<Rightarrow> parse_error + effect" where
  "parse_step pf v source =
     (case v of
        YStr s \<Rightarrow> parse_step_string pf s source
      | YMap m \<Rightarrow> parse_step_map pf (\<lambda>v s. parse_step pf v s) (\<lambda>v s. parse_effect_value pf v s) m source
      | _ \<Rightarrow> Inl (PE_Rule (pf_debug pf v) ''step must be a string or a single-key map''))"
| "parse_effect_value pf v source =
     (case v of
        YStr s \<Rightarrow> parse_effect_string pf s source
      | YMap m \<Rightarrow>
          (case effect_map pf (\<lambda>v s. parse_effect_value pf v s) m source of
             Some r \<Rightarrow> r
           | None \<Rightarrow> res_bind (parse_step pf v source) (\<lambda>st. step_to_effect st source))
      | _ \<Rightarrow> Inl (PE_Rule (pf_debug pf v) ''effect entry must be a string or a map''))"
  by pat_completeness auto
termination
  by (relation "measure (\<lambda>x. case x of Inl (_, v, _) \<Rightarrow> 2 * size v | Inr (_, v, _) \<Rightarrow> 2 * size v + 1)") auto

declare parse_step.simps [simp del] parse_effect_value.simps [simp del]

end
