(* ===== verification/Policy_Compile.thy ===== *)
theory Policy_Compile
  imports Policy_Effects
begin

text \<open>
  From a policy document to compiled routes, \<^verbatim>\<open>compile_config\<close> to \<^verbatim>\<open>compile_policy_block_value\<close> of
  \<^verbatim>\<open>crates/ppe-apl-core/src/parser.rs\<close>.  What serde makes of the document (\<^verbatim>\<open>ConfigYaml\<close>, \<^verbatim>\<open>RouteYaml\<close>) is the
  input; a hash map is the list of its entries in the order it is iterated.
\<close>

record authorization_yaml =
  ay_pre_invocation :: "yaml list"
  ay_post_invocation :: "yaml list"

record route_yaml =
  ry_pre_invocation :: "yaml list"
  ry_post_invocation :: "yaml list"
  ry_authorization :: "authorization_yaml option"
  ry_args :: "(string \<times> string) list"
  ry_result :: "(string \<times> string) list"
  ry_plugins :: "string \<rightharpoonup> plugin_override"
  ry_other :: "(string \<times> yaml) list"

record config_yaml =
  cy_routes :: "(string \<times> route_yaml) list"
  cy_plugins :: "plugin_declaration list"
  cy_other :: "(string \<times> yaml) list"

record compiled_config =
  cfg_routes :: "string \<rightharpoonup> compiled_route"
  cfg_plugins :: "string \<rightharpoonup> plugin_declaration"

definition RENAMED_FIELDS :: "(string \<times> string) list" where
  "RENAMED_FIELDS =
     [(''policy'', ''authorization.pre_invocation (or flat pre_invocation)''),
      (''post_policy'', ''authorization.post_invocation (or flat post_invocation)'')]"

definition reject_legacy_keys :: "string \<Rightarrow> (string \<times> yaml) list \<Rightarrow> parse_error + unit" where
  "reject_legacy_keys location other =
     (case find (\<lambda>(old, _). map_of other old \<noteq> None) RENAMED_FIELDS of
        Some (old, new) \<Rightarrow> Inl (PE_RenamedField location old new)
      | None \<Rightarrow> Inr ())"

text \<open>The loop over the entries of a phase, with the running index in their source.\<close>

fun policy_entries :: "parse_fmt \<Rightarrow> string \<Rightarrow> nat \<Rightarrow> yaml list \<Rightarrow> parse_error + effect list" where
  "policy_entries pf pre i [] = Inr []"
| "policy_entries pf pre i (entry # rest) =
     res_bind (parse_step pf entry (pre @ ''['' @ nat_to_string i @ '']'')) (\<lambda>st.
       res_bind (policy_entries pf pre (i + 1) rest) (\<lambda>es. Inr (step_to_top_level_effect st # es)))"

definition compile_field :: "string \<Rightarrow> string \<Rightarrow> string \<times> string \<Rightarrow> parse_error + field_rule" where
  "compile_field source side entry =
     (case entry of (field, chain) \<Rightarrow>
        res_bind (map_err (\<lambda>e. PE_Rule (side @ ''.'' @ field @ '': '' @ debug_string chain) (parse_error_text e)) (parse_pipeline chain))
          (\<lambda>pl. Inr \<lparr>fr_field = field, fr_pipeline = pl, fr_source = source @ ''.'' @ side @ ''.'' @ field\<rparr>))"

definition compile_apl_blocks :: "parse_fmt \<Rightarrow> string \<Rightarrow> route_yaml \<Rightarrow> parse_error + compiled_route" where
  "compile_apl_blocks pf source raw =
     res_bind (reject_legacy_keys source (ry_other raw)) (\<lambda>_.
       let auth_pre = (case ry_authorization raw of Some a \<Rightarrow> ay_pre_invocation a | None \<Rightarrow> []);
           auth_post = (case ry_authorization raw of Some a \<Rightarrow> ay_post_invocation a | None \<Rightarrow> [])
       in if auth_pre \<noteq> [] \<and> ry_pre_invocation raw \<noteq> [] then Inl (PE_ConflictingAuthorizationForms source ''pre_invocation'')
          else if auth_post \<noteq> [] \<and> ry_post_invocation raw \<noteq> [] then Inl (PE_ConflictingAuthorizationForms source ''post_invocation'')
          else res_bind (policy_entries pf (source @ ''.pre_invocation'') 0 (auth_pre @ ry_pre_invocation raw)) (\<lambda>policy.
               res_bind (policy_entries pf (source @ ''.post_invocation'') 0 (auth_post @ ry_post_invocation raw)) (\<lambda>post_policy.
               res_bind (res_map (compile_field source ''args'') (ry_args raw)) (\<lambda>args.
               res_bind (res_map (compile_field source ''result'') (ry_result raw)) (\<lambda>result.
                 Inr ((compiled_route_new source)\<lparr>cr_policy := policy, cr_post_policy := post_policy, cr_args := args,
                        cr_result := result, cr_plugin_overrides := ry_plugins raw\<rparr>))))))"

definition has_apl :: "route_yaml \<Rightarrow> bool" where
  "has_apl raw \<longleftrightarrow>
     ry_pre_invocation raw \<noteq> [] \<or> ry_post_invocation raw \<noteq> []
     \<or> (case ry_authorization raw of Some a \<Rightarrow> ay_pre_invocation a \<noteq> [] \<or> ay_post_invocation a \<noteq> [] | None \<Rightarrow> False)
     \<or> ry_args raw \<noteq> [] \<or> ry_result raw \<noteq> []"

definition compile_route :: "parse_fmt \<Rightarrow> string \<Rightarrow> route_yaml \<Rightarrow> parse_error + compiled_route option" where
  "compile_route pf route_key raw =
     res_bind (reject_legacy_keys route_key (ry_other raw)) (\<lambda>_.
       if \<not> has_apl raw then Inr None
       else res_bind (compile_apl_blocks pf route_key raw) (\<lambda>r. Inr (Some r)))"

fun compile_routes :: "parse_fmt \<Rightarrow> (string \<times> route_yaml) list \<Rightarrow> (string \<rightharpoonup> compiled_route) \<Rightarrow> parse_error + (string \<rightharpoonup> compiled_route)" where
  "compile_routes pf [] routes = Inr routes"
| "compile_routes pf ((key, raw) # rest) routes =
     res_bind (compile_route pf key raw) (\<lambda>r.
       compile_routes pf rest (case r of Some route \<Rightarrow> routes(key \<mapsto> route) | None \<Rightarrow> routes))"

text \<open>Of two declarations of one plugin name the later one is kept.\<close>

definition compile_config :: "parse_fmt \<Rightarrow> (string \<Rightarrow> string + config_yaml) \<Rightarrow> string \<Rightarrow> parse_error + compiled_config" where
  "compile_config pf from_str yaml_text =
     (case from_str yaml_text of
        Inl e \<Rightarrow> Inl (PE_Yaml e)
      | Inr cfg \<Rightarrow>
          res_bind (compile_routes pf (cy_routes cfg) Map.empty) (\<lambda>routes.
            Inr \<lparr>cfg_routes = routes, cfg_plugins = fold (\<lambda>d m. m(pd_name d \<mapsto> d)) (cy_plugins cfg) Map.empty\<rparr>))"

definition compile_policy_block_value ::
    "parse_fmt \<Rightarrow> (yaml \<Rightarrow> string + route_yaml) \<Rightarrow> string \<Rightarrow> yaml \<Rightarrow> parse_error + compiled_route" where
  "compile_policy_block_value pf from_value source block =
     (if untag block = YNull then Inr (compiled_route_new source)
      else case from_value block of
        Inl e \<Rightarrow> Inl (PE_Yaml e)
      | Inr raw \<Rightarrow> compile_apl_blocks pf source raw)"

end
