(* ===== verification/Policy_Props.thy ===== *)
theory Policy_Props
  imports Policy_Compile
begin

text \<open>
  What a compiled policy is made of.  The locale \<open>parsed_effects\<close> carries a property of effects through the
  parser: it is enough that every form of effect has it, given what the parser checked of that form.
\<close>

subsection \<open>Results\<close>

text \<open>A property of every value a fallible computation can return, with one rule per construct.\<close>

definition res_ok :: "('a \<Rightarrow> bool) \<Rightarrow> 'e + 'a \<Rightarrow> bool" where
  "res_ok P r \<longleftrightarrow> (\<forall>x. r = Inr x \<longrightarrow> P x)"

lemma res_okI: "(\<And>x. r = Inr x \<Longrightarrow> P x) \<Longrightarrow> res_ok P r"
  by (simp add: res_ok_def)

lemma res_okD: "res_ok P r \<Longrightarrow> r = Inr x \<Longrightarrow> P x"
  by (simp add: res_ok_def)

lemma res_ok_Inl: "res_ok P (Inl e)"
  by (simp add: res_ok_def)

lemma res_ok_Inr: "P x \<Longrightarrow> res_ok P (Inr x)"
  by (simp add: res_ok_def)

lemma res_ok_if: "(c \<Longrightarrow> res_ok P a) \<Longrightarrow> (\<not> c \<Longrightarrow> res_ok P b) \<Longrightarrow> res_ok P (if c then a else b)"
  by simp

lemma res_ok_bind: "(\<And>x. r = Inr x \<Longrightarrow> res_ok P (f x)) \<Longrightarrow> res_ok P (res_bind r f)"
  by (cases r) (auto simp: res_ok_def)

lemma res_ok_map_err: "res_ok P r \<Longrightarrow> res_ok P (map_err f r)"
  by (cases r) (auto simp: res_ok_def)

lemma res_ok_option: "(v = None \<Longrightarrow> res_ok P a) \<Longrightarrow> (\<And>x. v = Some x \<Longrightarrow> res_ok P (f x)) \<Longrightarrow> res_ok P (case v of None \<Rightarrow> a | Some x \<Rightarrow> f x)"
  by (cases v) auto

lemma res_ok_map: "(\<And>x. x \<in> set xs \<Longrightarrow> res_ok P (f x)) \<Longrightarrow> res_ok (\<lambda>ys. \<forall>y \<in> set ys. P y) (res_map f xs)"
proof (induction xs)
  case (Cons x xs)
  then have "res_ok P (f x)" "res_ok (\<lambda>ys. \<forall>y \<in> set ys. P y) (res_map f xs)" by simp_all
  then show ?case by (cases "f x"; cases "res_map f xs") (simp_all add: res_ok_def)
qed (simp add: res_ok_def)

lemmas res_ok_intros = res_ok_if res_ok_Inl res_ok_bind res_ok_option

subsection \<open>Stages\<close>

fun stage_wf :: "stage \<Rightarrow> bool" where
  "stage_wf (Stage_Validate _) = False"
| "stage_wf (Stage_Enum vs) = (vs \<noteq> [] \<and> [] \<notin> set vs)"
| "stage_wf (Stage_Range lo hi) = (lo \<noteq> None \<or> hi \<noteq> None)"
| "stage_wf (Stage_Length lo hi) = (lo \<noteq> None \<or> hi \<noteq> None)"
| "stage_wf (Stage_Taint label scopes) = (label \<noteq> [] \<and> scopes \<noteq> [])"
| "stage_wf (Stage_Plugin name) = (name \<noteq> [])"
| "stage_wf _ = True"

lemma top_level_loop_not_Nil: "top_level_loop delim s out cur depth quote \<noteq> []"
  by (induction s arbitrary: out cur depth quote) (auto split: prod.split)

lemma split_top_level_not_Nil: "split_top_level s delim \<noteq> []"
  by (simp add: split_top_level_def top_level_loop_not_Nil)

lemma res_map_length: "res_map f xs = Inr ys \<Longrightarrow> length xs = length ys"
  by (auto simp: res_map_Inr dest: list_all2_lengthD)

lemma res_map_all:
  "res_map f xs = Inr ys \<Longrightarrow> (\<And>x y. x \<in> set xs \<Longrightarrow> f x = Inr y \<Longrightarrow> P y) \<Longrightarrow> y \<in> set ys \<Longrightarrow> P y"
  unfolding res_map_Inr by (induction rule: list_all2_induct) auto

lemma map_err_Inr [simp]: "map_err f r = Inr x \<longleftrightarrow> r = Inr x"
  by (cases r) auto

lemma parse_taint_wf:
  assumes "parse_taint src a = Inr (label, scopes)"
  shows "label \<noteq> [] \<and> scopes \<noteq> []"
proof -
  have "scopes \<noteq> []" if "res_map f (split_top_level s c) = Inr scopes" for f s c
    using res_map_length [OF that] split_top_level_not_Nil [of s c] by auto
  with assms show ?thesis
    by (auto simp: parse_taint_def Let_def res_bind_eq_Inr split: if_splits option.splits)
qed

lemma parse_range_bound: "parse_range_inner s = Some (lo, hi) \<Longrightarrow> lo \<noteq> None \<or> hi \<noteq> None"
  by (auto simp: parse_range_inner_def split: option.splits if_splits prod.splits)

lemma stage_bare_wf: "stage_bare head = Some st \<Longrightarrow> stage_wf st"
  by (auto simp: stage_bare_def split: if_splits)

lemma parse_stage_len_wf: "res_ok stage_wf (parse_stage_len src a)"
  using parse_range_bound [of a]
  by (auto simp: res_ok_def parse_stage_len_def len_bound_def res_bind_eq_Inr split: option.splits if_splits)

lemma parse_stage_mask_wf: "res_ok stage_wf (parse_stage_mask src a)"
  by (auto simp: res_ok_def parse_stage_mask_def split: sum.splits)

lemma parse_stage_redact_wf: "res_ok stage_wf (parse_stage_redact_cond src a)"
  by (auto simp: res_ok_def parse_stage_redact_cond_def split: sum.splits)

lemma parse_stage_enum_wf: "res_ok stage_wf (parse_stage_enum src a)"
  by (auto simp: res_ok_def parse_stage_enum_def Let_def split: if_splits)

lemma parse_stage_plugin_wf: "res_ok stage_wf (parse_stage_plugin src head a)"
  by (auto simp: res_ok_def parse_stage_plugin_def split: if_splits)

lemma parse_stage_taint_wf: "res_ok stage_wf (res_bind (parse_taint src a) (\<lambda>(label, scopes). Inr (Stage_Taint label scopes)))"
  by (auto simp: res_ok_def res_bind_eq_Inr dest: parse_taint_wf)

lemma parse_stage_regex_wf: "stage_wf (parse_stage_regex a)"
  by (simp add: parse_stage_regex_def)

lemmas stage_forms_wf = parse_stage_mask_wf parse_stage_redact_wf parse_stage_len_wf parse_stage_enum_wf parse_stage_plugin_wf
  parse_stage_taint_wf

lemma stage_call_res: "res_ok stage_wf (stage_call src head a)"
  unfolding stage_call_def by (intro res_ok_if res_ok_Inl res_ok_Inr parse_stage_regex_wf stage_forms_wf)

lemmas stage_call_wf = res_okD [OF stage_call_res]

lemma try_parse_range_wf: "try_parse_range s = Some st \<Longrightarrow> stage_wf st"
proof -
  assume "try_parse_range s = Some st"
  then obtain lo hi where "parse_range_inner s = Some (lo, hi)" "st = Stage_Range lo hi"
    by (cases s) (auto simp: try_parse_range_def split: if_splits)
  then show ?thesis using parse_range_bound by auto
qed

lemma parse_stage_wf:
  assumes "parse_stage src = Inr st"
  shows "stage_wf st"
proof (cases "try_parse_range (trim src)")
  case None
  then obtain head a where head: "split_head_args (trim src) = Some (head, a)"
    using assms by (cases "split_head_args (trim src)") (auto simp: parse_stage_def)
  show ?thesis
  proof (cases a)
    case None
    with assms head \<open>try_parse_range (trim src) = None\<close> show ?thesis
      by (cases "stage_bare head") (auto simp: parse_stage_def ok_or_def stage_bare_wf)
  next
    case (Some args)
    with assms head \<open>try_parse_range (trim src) = None\<close> show ?thesis by (auto simp: parse_stage_def stage_call_wf)
  qed
qed (use assms in \<open>auto simp: parse_stage_def try_parse_range_wf\<close>)

lemma parse_pipeline_wf: "parse_pipeline src = Inr pl \<Longrightarrow> st \<in> set (pl_stages pl) \<Longrightarrow> stage_wf st"
  by (auto simp: parse_pipeline_def res_bind_eq_Inr elim!: res_map_all [where P = stage_wf] dest: parse_stage_wf)

subsection \<open>Effects\<close>

locale parsed_effects =
  fixes ok :: "effect \<Rightarrow> bool"
  assumes allow: "ok Eff_Allow"
    and deny: "ok (Eff_Deny r c)"
    and plugin: "name \<noteq> [] \<Longrightarrow> ok (Eff_Plugin name)"
    and delegate: "ds_plugin_name d \<noteq> [] \<Longrightarrow> ok (Eff_Delegate d)"
    and elicit: "el_plugin_name e \<noteq> [] \<Longrightarrow> ok (Eff_Elicit e)"
    and taint: "label \<noteq> [] \<Longrightarrow> scopes \<noteq> [] \<Longrightarrow> ok (Eff_Taint label scopes)"
    and restrict: "\<not> restrict_spec_is_empty spec \<Longrightarrow> ok (Eff_Restrict spec)"
    and field_op: "is_valid_field_path pf path \<Longrightarrow> stages \<noteq> [] \<Longrightarrow> (\<And>s. s \<in> set stages \<Longrightarrow> stage_wf s) \<Longrightarrow>
      ok (Eff_FieldOp path stages)"
    and sequential: "es \<noteq> [] \<Longrightarrow> (\<And>e. e \<in> set es \<Longrightarrow> ok e) \<Longrightarrow> ok (Eff_Sequential es)"
    and parallel: "es \<noteq> [] \<Longrightarrow> validate_parallel_purity (Eff_Parallel es) = Inr () \<Longrightarrow> (\<And>e. e \<in> set es \<Longrightarrow> ok e) \<Longrightarrow>
      ok (Eff_Parallel es)"
    and when_do: "es \<noteq> [] \<Longrightarrow> (\<And>e. e \<in> set es \<Longrightarrow> ok e) \<Longrightarrow> ok (Eff_When cond es src)"
    and pdp: "(\<And>e. e \<in> set on_allow \<union> set on_deny \<Longrightarrow> ok e) \<Longrightarrow> ok (Eff_Pdp call on_allow on_deny)"
begin

fun step_ok :: "step \<Rightarrow> bool" where
  "step_ok (Step_Rule r) = (ru_effects r \<noteq> [] \<and> (\<forall>e \<in> set (ru_effects r). ok e))"
| "step_ok (Step_Pdp call on_deny on_allow) = ((\<forall>s \<in> set on_deny. step_ok s) \<and> (\<forall>s \<in> set on_allow. step_ok s))"
| "step_ok st = ok (step_to_top_level_effect st)"

lemma step_ok_top: "step_ok st \<Longrightarrow> ok (step_to_top_level_effect st)"
proof (induction st)
  case (Step_Pdp call on_deny on_allow)
  then show ?case by (auto intro!: pdp)
qed (auto intro: when_do)

lemma step_to_effect_ok: "step_ok st \<Longrightarrow> step_to_effect st source = Inr e \<Longrightarrow> ok e"
  by (cases st) (auto split: if_splits simp: length_Suc_conv)

lemma bare_action_ok: "try_bare_action s = Some es \<Longrightarrow> es \<noteq> [] \<and> (\<forall>e \<in> set es. ok e)"
  by (auto simp: try_bare_action_def allow deny split: if_splits)

lemma deny_call_ok: "try_parse_deny_call s rule = Inr (Some e) \<Longrightarrow> ok e"
proof -
  assume "try_parse_deny_call s rule = Inr (Some e)"
  then obtain inside parts where e: "(let lit = (\<lambda>p. strip_string_literal (trim p) rule) in
      case parts of
        [] \<Rightarrow> Inr (Some (Eff_Deny None None))
      | [r] \<Rightarrow> res_bind (lit r) (\<lambda>reason. Inr (Some (Eff_Deny (Some reason) None)))
      | r # c # others \<Rightarrow>
          res_bind (lit r) (\<lambda>reason. res_bind (lit c) (\<lambda>code.
            if others \<noteq> [] then Inl inside else Inr (Some (Eff_Deny (Some reason) (Some code)))))) = Inr (Some e)"
    unfolding try_parse_deny_call_def by (auto simp only: res_bind_eq_Inr sum.distinct sum.inject option.distinct split: if_split_asm option.split_asm)
  consider "parts = []" | r where "parts = [r]" | r c others where "parts = r # c # others"
    by (metis list.exhaust)
  then show "ok e"
    by cases (use e in \<open>auto simp: res_bind_eq_Inr deny split: if_splits\<close>)
qed

lemma rule_of_ok: "rule_of trimmed source p es = Inr r \<Longrightarrow> ru_effects r = es"
  by (auto simp: rule_of_def res_bind_eq_Inr)

lemma action_ok:
  assumes "parse_action s rule = Inr es"
  shows "es \<noteq> [] \<and> (\<forall>e \<in> set es. ok e)"
proof (cases "try_bare_action s")
  case None
  then obtain d where d: "try_parse_deny_call (trim s) rule = Inr d"
    using assms by (auto simp: parse_action_def res_bind_eq_Inr)
  with assms None show ?thesis by (cases d) (auto simp: parse_action_def deny_call_ok)
qed (use assms bare_action_ok in \<open>auto simp: parse_action_def\<close>)

lemma rule_ok:
  assumes "parse_rule line source = Inr r"
  shows "ru_effects r \<noteq> [] \<and> (\<forall>e \<in> set (ru_effects r). ok e)"
proof (cases "is_require_call (trim line)")
  case True
  with assms show ?thesis by (auto simp: parse_rule_def Let_def res_bind_eq_Inr rule_single_def deny)
next
  case False
  with assms have kind: "detect_step_kind (trim line) = None" by (auto simp: parse_rule_def Let_def split: option.splits)
  show ?thesis
  proof (cases "split_predicate_action (trim line)")
    case (Some pa)
    then obtain p a where "pa = (p, a)" by (cases pa)
    then obtain es where "parse_action a (trim line) = Inr es" "rule_of (trim line) source p es = Inr r"
      using assms False kind Some by (auto simp: parse_rule_def Let_def res_bind_eq_Inr)
    then show ?thesis using action_ok rule_of_ok by metis
  next
    case None
    show ?thesis
    proof (cases "try_bare_action (trim line)")
      case (Some es)
      with assms False kind None show ?thesis using bare_action_ok [OF Some] by (auto simp: parse_rule_def Let_def)
    next
      case bare: None
      obtain d where d: "try_parse_deny_call (trim line) (trim line) = Inr d"
        using assms False kind None bare by (auto simp: parse_rule_def Let_def res_bind_eq_Inr)
      show ?thesis
      proof (cases d)
        case (Some e)
        then show ?thesis using assms False kind None bare d deny_call_ok by (auto simp: parse_rule_def Let_def)
      next
        case no: None
        then have "rule_of (trim line) source (trim line) [Eff_Deny None None] = Inr r"
          using assms False kind None bare d by (simp add: parse_rule_def Let_def)
        then show ?thesis using rule_of_ok deny by force
      qed
    qed
  qed
qed

lemma step_string_ok: "parse_step_string pf line source = Inr st \<Longrightarrow> step_ok st"
  by (auto simp: parse_step_string_def Let_def res_bind_eq_Inr plugin_call_def parse_delegate_call_args_def
      parse_elicit_call_args_def plugin delegate elicit taint dest: parse_taint_wf rule_ok
      split: if_splits option.splits)

lemma field_op_ok: "try_parse_field_op pf s rule = Inr (Some e) \<Longrightarrow> ok e"
  by (auto simp: try_parse_field_op_def Let_def res_bind_eq_Inr split: option.splits if_splits
      intro!: field_op dest: parse_pipeline_wf)

lemma effect_string_ok: "parse_effect_string pf s source = Inr e \<Longrightarrow> ok e"
  by (auto simp: parse_effect_string_def res_bind_eq_Inr split: option.splits
      dest: bare_action_ok deny_call_ok field_op_ok intro: step_to_effect_ok step_string_ok)

lemma restrict_spec_ok: "parse_restrict_spec pf body source = Inr spec \<Longrightarrow> ok (Eff_Restrict spec)"
  by (auto simp: parse_restrict_spec_def res_bind_eq_Inr restrict split: option.splits if_splits)

abbreviation (input) all_ok :: "effect list \<Rightarrow> bool" where
  "all_ok es \<equiv> \<forall>e \<in> set es. ok e"

lemma do_body_ok:
  assumes "\<And>v s. size v \<le> size body \<Longrightarrow> res_ok ok (pe v s)"
  shows "res_ok all_ok (parse_do_body pf pe body source)"
proof (cases body)
  case (YSeq items)
  have "size x < size (YSeq items)" if "x \<in> set items" for x using that by (induction items) auto
  then have "res_ok all_ok (res_map (\<lambda>item. pe item source) items)"
    using assms YSeq by (intro res_ok_map) (auto simp: less_imp_le)
  with YSeq show ?thesis by (simp add: parse_do_body_def)
next
  case (YStr x)
  then show ?thesis by (auto simp: parse_do_body_def res_ok_def res_bind_eq_Inr dest: effect_string_ok)
next
  case (YMap m)
  then show ?thesis using assms [of body source] by (auto simp: parse_do_body_def res_ok_def res_bind_eq_Inr)
qed (simp_all add: parse_do_body_def res_ok_Inl)

lemma when_do_ok:
  assumes "\<And>v s. size v < size (YMap m) \<Longrightarrow> res_ok ok (pe v s)"
  shows "res_ok step_ok (parse_when_do_rule pf pe m source)"
proof -
  have body: "res_ok all_ok (parse_do_body pf pe v source)" if "yaml_entry m ''do'' = Some v" for v
    by (rule do_body_ok) (use assms size_map_entry [OF yaml_entry_mem [OF that]] in \<open>meson le_less_trans\<close>)
  have ends: "res_ok step_ok (if es = [] then Inl e else Inr (Step_Rule \<lparr>ru_condition = c, ru_effects = es, ru_source = source\<rparr>))"
    if "yaml_entry m ''do'' = Some v" "parse_do_body pf pe v source = Inr es" for v es c and e :: parse_error
    using res_okD [OF body [OF that(1)] that(2)] by (simp add: res_ok_def)
  show ?thesis
    unfolding parse_when_do_rule_def
    by (rule res_ok_option, (intro res_ok_intros ends; assumption), simp add: res_ok_Inl split: prod.split)
qed

lemma effects_ok:
  assumes "\<And>v s. v \<in> set items \<Longrightarrow> res_ok ok (pe v s)"
  shows "res_ok all_ok (res_map (\<lambda>item. pe item source) items)"
  by (rule res_ok_map) (use assms in blast)

lemma shorthand_ok:
  assumes "\<And>v s. v \<in> set items \<Longrightarrow> res_ok ok (pe v s)"
  shows "res_ok step_ok (parse_shorthand_multi_effect pe predicate items source)"
proof -
  have es: "res_ok all_ok (res_map (\<lambda>item. pe item source) items)"
    by (rule effects_ok) (rule assms)
  show ?thesis unfolding parse_shorthand_multi_effect_def
    by (intro res_ok_bind res_ok_if res_ok_Inl res_ok_Inr) (use res_okD [OF es] in auto)
qed

lemma effect_list_ok:
  assumes "\<And>v s. size v < size body \<Longrightarrow> res_ok ok (pe v s)"
  shows "res_ok (\<lambda>es. es \<noteq> [] \<and> all_ok es) (effect_list pf pe what body source)"
proof (cases "as_sequence body")
  case (Some items)
  have "res_ok all_ok (res_map (\<lambda>item. pe item source) items)"
    by (rule effects_ok) (use assms size_sequence [OF Some] in blast)
  moreover have "res_ok (\<lambda>es. items \<noteq> [] \<longrightarrow> es \<noteq> []) (res_map (\<lambda>item. pe item source) items)"
    using res_map_length by (fastforce simp: res_ok_def)
  ultimately show ?thesis using Some by (auto simp: effect_list_def res_ok_def)
qed (simp add: effect_list_def res_ok_Inl)

lemma sequential_ok:
  assumes "\<And>v s. size v < size body \<Longrightarrow> res_ok ok (pe v s)"
  shows "res_ok ok (parse_sequential_effect pf pe body source)"
  unfolding parse_sequential_effect_def
  using res_okD [OF effect_list_ok [OF assms]] by (intro res_ok_bind res_ok_Inr sequential) auto

lemma parallel_ok:
  assumes "\<And>v s. size v < size body \<Longrightarrow> res_ok ok (pe v s)"
  shows "res_ok ok (parse_parallel_effect pf pe body source)"
  unfolding parse_parallel_effect_def
  using res_okD [OF effect_list_ok [OF assms]] by (intro res_ok_bind res_ok_Inr parallel) auto

lemma delegate_step_ok: "res_ok step_ok (parse_delegate_step body source)"
  unfolding parse_delegate_step_def by (intro res_ok_intros res_ok_Inr) (simp_all add: delegate)

lemma reaction_entries_ok:
  "(\<And>v s. v \<in> set xs \<Longrightarrow> res_ok step_ok (ps v s)) \<Longrightarrow> res_ok (\<lambda>sts. \<forall>st \<in> set sts. step_ok st) (reaction_entries ps pre i xs)"
proof (induction xs arbitrary: i)
  case (Cons x xs)
  then have "res_ok step_ok (ps x (pre @ ''['' @ nat_to_string i @ '']''))"
    "res_ok (\<lambda>sts. \<forall>st \<in> set sts. step_ok st) (reaction_entries ps pre (i + 1) xs)" by simp_all
  then show ?case by (auto simp: res_ok_def res_bind_eq_Inr)
qed (simp add: res_ok_def)

lemma reaction_list_ok:
  assumes "\<And>v s. size v < size body \<Longrightarrow> res_ok step_ok (ps v s)"
  shows "res_ok (\<lambda>sts. \<forall>st \<in> set sts. step_ok st) (parse_reaction_list pf ps body source which)"
  unfolding parse_reaction_list_def
  by (intro res_ok_option res_ok_Inl reaction_entries_ok) (use assms size_sequence in blast)

lemma pdp_entries_ok:
  assumes "\<And>k v w s. (k, v) \<in> set body \<Longrightarrow> size w < size v \<Longrightarrow> res_ok step_ok (ps w s)"
    and "\<forall>st \<in> set on_deny \<union> set on_allow. step_ok st"
  shows "res_ok (\<lambda>(args, d, a). \<forall>st \<in> set d \<union> set a. step_ok st) (pdp_entries pf ps source body args on_deny on_allow)"
  using assms
proof (induction body arbitrary: args on_deny on_allow)
  case (Cons kv rest)
  obtain k v where kv: "kv = (k, v)" by (cases kv)
  have reactions: "\<forall>st \<in> set sts. step_ok st" if "parse_reaction_list pf ps v source which = Inr sts" for which sts
    by (rule res_okD [OF reaction_list_ok that]) (use Cons.prems(1) kv in auto)
  have IH: "res_ok (\<lambda>(args, d, a). \<forall>st \<in> set d \<union> set a. step_ok st) (pdp_entries pf ps source rest args' d a)"
    if "\<forall>st \<in> set d \<union> set a. step_ok st" for args' d a
    by (rule Cons.IH [OF _ that]) (rule Cons.prems(1), erule list.set_intros(2))
  show ?case unfolding kv pdp_entries.simps
    by (intro res_ok_if res_ok_bind IH) (use Cons.prems(2) reactions in auto)
qed (simp add: res_ok_def)

lemma pdp_step_ok:
  assumes "\<And>v s. size v < size body \<Longrightarrow> res_ok step_ok (ps v s)"
  shows "res_ok step_ok (parse_pdp_step pf ps key body source)"
proof (rule res_okI)
  fix st
  assume "parse_pdp_step pf ps key body source = Inr st"
  then obtain m paren args on_deny on_allow call where m: "as_mapping body = Some m"
      "pdp_entries pf ps source m [] [] [] = Inr (args, on_deny, on_allow)" "st = Step_Pdp call on_deny on_allow"
    by (auto simp: parse_pdp_step_def extract_pdp_body_def res_bind_eq_Inr split: option.splits prod.splits)
  have "res_ok (\<lambda>(args, d, a). \<forall>st \<in> set d \<union> set a. step_ok st) (pdp_entries pf ps source m [] [] [])"
    by (rule pdp_entries_ok) (use assms size_mapping [OF m(1)] size_map_entry in \<open>(meson less_le_trans less_trans)?\<close>, simp)
  from res_okD [OF this m(2)] m(3) show "step_ok st" by auto
qed

lemma keyed_step_ok:
  assumes "\<And>v s. size v < size body \<Longrightarrow> res_ok step_ok (ps v s)" "\<And>v s. size v < size body \<Longrightarrow> res_ok ok (pe v s)"
  shows "res_ok step_ok (parse_keyed_step pf ps pe key body source)"
proof -
  have shorthand: "res_ok step_ok (parse_shorthand_multi_effect pe k items source)" if "body = YSeq items" for k items
    by (rule shorthand_ok, rule assms(2)) (use that size_sequence [of body items] in \<open>simp add: as_sequence_def\<close>)
  have seq: "res_ok step_ok (res_bind (parse_sequential_effect pf pe body source) (\<lambda>e. Inr (unconditional source e)))"
    using res_okD [OF sequential_ok [OF assms(2)]] by (auto intro!: res_ok_bind res_ok_Inr simp: unconditional_def)
  have par: "res_ok step_ok (res_bind (parse_parallel_effect pf pe body source) (\<lambda>e. Inr (unconditional source e)))"
    using res_okD [OF parallel_ok [OF assms(2)]] by (auto intro!: res_ok_bind res_ok_Inr simp: unconditional_def)
  have res: "res_ok step_ok (res_bind (parse_restrict_spec pf body source) (\<lambda>spec. Inr (Step_Restrict spec)))"
    by (auto intro!: res_ok_bind res_ok_Inr restrict_spec_ok)
  note forms = delegate_step_ok res seq par pdp_step_ok [OF assms(1)]
  show ?thesis unfolding parse_keyed_step_def Let_def
    by (intro res_ok_option res_ok_if forms) (auto intro: shorthand split: if_splits yaml.splits)
qed

lemma step_map_ok:
  assumes "\<And>v s. size v < size (YMap m) \<Longrightarrow> res_ok step_ok (ps v s)" "\<And>v s. size v < size (YMap m) \<Longrightarrow> res_ok ok (pe v s)"
  shows "res_ok step_ok (parse_step_map pf ps pe m source)"
proof -
  have keyed: "res_ok step_ok (parse_keyed_step pf ps pe key v source)" if "m = [(k, v)]" for key k v
    by (rule keyed_step_ok) (rule assms, use that in simp)+
  show ?thesis unfolding parse_step_map_def
    by (auto intro!: res_ok_if when_do_ok [OF assms(2)] split: list.split option.split simp: res_ok_Inl keyed)
qed

lemma effect_map_ok:
  assumes "\<And>v s. size v < size (YMap m) \<Longrightarrow> res_ok ok (pe v s)" "effect_map pf pe m source = Some r"
  shows "res_ok ok r"
proof -
  obtain k v where m: "m = [(k, v)]" using assms(2) by (auto simp: effect_map_def split: list.splits)
  have smaller: "res_ok ok (pe w s)" if "size w < size v" for w s by (rule assms(1)) (use that m in simp)
  have "res_ok ok (parse_restrict_effect pf v source)"
    unfolding parse_restrict_effect_def by (auto intro!: res_ok_bind res_ok_Inr restrict_spec_ok)
  then show ?thesis
    using assms(2) m sequential_ok [OF smaller] parallel_ok [OF smaller]
    by (auto simp: effect_map_def split: option.splits if_splits)
qed

theorem parsed_ok: "res_ok step_ok (parse_step pf v source)" "res_ok ok (parse_effect_value pf v source)"
proof (induction pf v source and pf v source rule: parse_step_parse_effect_value.induct)
  case (1 pf v source)
  show ?case
  proof (cases v)
    case (YStr s)
    then show ?thesis using step_string_ok by (auto simp: parse_step.simps res_ok_def)
  next
    case (YMap m)
    then show ?thesis using step_map_ok [of m "parse_step pf" "parse_effect_value pf" pf source] 1
      by (simp add: parse_step.simps [of pf "YMap m"])
  qed (simp_all add: parse_step.simps res_ok_Inl)
next
  case (2 pf v source)
  show ?case
  proof (cases v)
    case (YStr s)
    then show ?thesis using effect_string_ok by (auto simp: parse_effect_value.simps res_ok_def)
  next
    case (YMap m)
    have "res_ok ok (res_bind (parse_step pf v source) (\<lambda>st. step_to_effect st source))" if "effect_map pf (parse_effect_value pf) m source = None"
      using that 2(2) YMap by (auto simp: res_ok_def res_bind_eq_Inr intro: step_to_effect_ok)
    then show ?thesis using effect_map_ok [of m "parse_effect_value pf" pf source] 2(1) YMap
      by (auto simp: parse_effect_value.simps [of pf "YMap m"] split: option.split)
  qed (simp_all add: parse_effect_value.simps res_ok_Inl)
qed

lemma policy_entries_ok: "policy_entries pf pre i entries = Inr es \<Longrightarrow> e \<in> set es \<Longrightarrow> ok e"
proof (induction entries arbitrary: i es)
  case (Cons entry rest)
  then show ?case using step_ok_top res_okD [OF parsed_ok(1)] by (fastforce simp: res_bind_eq_Inr)
qed simp

theorem compiled_ok:
  assumes "compile_apl_blocks pf source raw = Inr route" "e \<in> set (cr_policy route @ cr_post_policy route)"
  shows "ok e"
proof -
  obtain pre i entries es where "policy_entries pf pre i entries = Inr es" "e \<in> set es"
    using assms by (auto simp: compile_apl_blocks_def Let_def res_bind_eq_Inr split: if_splits)
  then show ?thesis by (rule policy_entries_ok)
qed

end

subsection \<open>Well-formed effects\<close>

text \<open>
  What every compiled effect has, at any depth: names, labels and lists that are not empty, a restriction that
  restricts, a field path below \<^verbatim>\<open>args\<close> or \<^verbatim>\<open>result\<close>, and stages within their bounds.
\<close>

definition field_path_wf :: "string \<Rightarrow> bool" where
  "field_path_wf path \<longleftrightarrow>
     (starts_with path ''args.'' \<and> path \<noteq> ''args.'') \<or> (starts_with path ''result.'' \<and> path \<noteq> ''result.'')"

fun effect_wf :: "effect \<Rightarrow> bool" where
  "effect_wf (Eff_Plugin name) = (name \<noteq> [])"
| "effect_wf (Eff_Delegate d) = (ds_plugin_name d \<noteq> [])"
| "effect_wf (Eff_Elicit e) = (el_plugin_name e \<noteq> [])"
| "effect_wf (Eff_Taint label scopes) = (label \<noteq> [] \<and> scopes \<noteq> [])"
| "effect_wf (Eff_Restrict spec) = (\<not> restrict_spec_is_empty spec)"
| "effect_wf (Eff_FieldOp path stages) = (field_path_wf path \<and> stages \<noteq> [] \<and> list_all stage_wf stages)"
| "effect_wf (Eff_Sequential es) = (es \<noteq> [] \<and> list_all effect_wf es)"
| "effect_wf (Eff_Parallel es) = (es \<noteq> [] \<and> list_all effect_wf es)"
| "effect_wf (Eff_When c es src) = (es \<noteq> [] \<and> list_all effect_wf es)"
| "effect_wf (Eff_Pdp call on_allow on_deny) = (list_all effect_wf on_allow \<and> list_all effect_wf on_deny)"
| "effect_wf _ = True"

lemma valid_field_path_wf: "is_valid_field_path pf path \<Longrightarrow> field_path_wf path"
  by (auto simp: is_valid_field_path_def field_path_wf_def strip_prefix_def split: option.splits if_splits)

interpretation shape: parsed_effects effect_wf
  by unfold_locales (auto simp: list_all_iff valid_field_path_wf)

interpretation purity: parsed_effects "\<lambda>e. validate_parallel_purity e = Inr ()"
  by unfold_locales (simp_all add: purity_all_iff res_bind_eq_Inr)

subsection \<open>What is compiled\<close>

text \<open>The entries of a phase, one effect for each, in order, numbered in their source.\<close>

definition entry_source :: "string \<Rightarrow> nat \<Rightarrow> string" where
  "entry_source pre i = pre @ ''['' @ nat_to_string i @ '']''"

lemma policy_entries_iff:
  "policy_entries pf pre i entries = Inr es \<longleftrightarrow>
     length es = length entries \<and>
     (\<forall>j < length entries. \<exists>st. parse_step pf (entries ! j) (entry_source pre (i + j)) = Inr st \<and> es ! j = step_to_top_level_effect st)"
proof (induction entries arbitrary: i es)
  case (Cons entry rest)
  have "policy_entries pf pre i (entry # rest) = Inr es \<longleftrightarrow>
      (\<exists>st es'. es = step_to_top_level_effect st # es' \<and> parse_step pf entry (entry_source pre i) = Inr st
         \<and> policy_entries pf pre (i + 1) rest = Inr es')"
    by (auto simp: res_bind_eq_Inr entry_source_def)
  then show ?case unfolding Cons.IH by (cases es) (auto simp: All_less_Suc2)
qed auto

lemma reject_legacy_iff: "reject_legacy_keys loc other = Inr () \<longleftrightarrow> map_of other ''policy'' = None \<and> map_of other ''post_policy'' = None"
  by (auto simp: reject_legacy_keys_def RENAMED_FIELDS_def)

text \<open>A phase may be written in one place only, and exactly the documents without an error compile.\<close>

definition phase_entries :: "yaml list \<Rightarrow> (authorization_yaml \<Rightarrow> yaml list) \<Rightarrow> route_yaml \<Rightarrow> yaml list" where
  "phase_entries flat auth raw = (case ry_authorization raw of Some a \<Rightarrow> auth a | None \<Rightarrow> []) @ flat"

definition doubled :: "yaml list \<Rightarrow> (authorization_yaml \<Rightarrow> yaml list) \<Rightarrow> route_yaml \<Rightarrow> bool" where
  "doubled flat auth raw \<longleftrightarrow> flat \<noteq> [] \<and> (\<exists>a. ry_authorization raw = Some a \<and> auth a \<noteq> [])"

lemma compile_apl_blocks_iff:
  "compile_apl_blocks pf source raw = Inr route \<longleftrightarrow>
     reject_legacy_keys source (ry_other raw) = Inr ()
     \<and> \<not> doubled (ry_pre_invocation raw) ay_pre_invocation raw \<and> \<not> doubled (ry_post_invocation raw) ay_post_invocation raw
     \<and> (\<exists>policy post_policy args result.
          policy_entries pf (source @ ''.pre_invocation'') 0 (phase_entries (ry_pre_invocation raw) ay_pre_invocation raw) = Inr policy
        \<and> policy_entries pf (source @ ''.post_invocation'') 0 (phase_entries (ry_post_invocation raw) ay_post_invocation raw) = Inr post_policy
        \<and> res_map (compile_field source ''args'') (ry_args raw) = Inr args
        \<and> res_map (compile_field source ''result'') (ry_result raw) = Inr result
        \<and> route = (compiled_route_new source)\<lparr>cr_policy := policy, cr_post_policy := post_policy, cr_args := args,
                    cr_result := result, cr_plugin_overrides := ry_plugins raw\<rparr>)"
  unfolding compile_apl_blocks_def Let_def phase_entries_def doubled_def
  by (cases "reject_legacy_keys source (ry_other raw)"; cases "ry_authorization raw") (simp_all add: res_bind_eq_Inr, auto)

lemma compiled_fields:
  assumes "res_map (compile_field source side) entries = Inr rules"
  shows "map fr_field rules = map fst entries \<and> (\<forall>r \<in> set rules. \<forall>st \<in> set (pl_stages (fr_pipeline r)). stage_wf st)"
  using assms unfolding res_map_Inr
  by (induction rule: list_all2_induct) (auto simp: compile_field_def res_bind_eq_Inr dest: parse_pipeline_wf split: prod.splits)

subsection \<open>Requirements\<close>

text \<open>The tokens of \<^verbatim>\<open>require(k1, k2, ..)\<close> or \<^verbatim>\<open>require(k1 | k2 | ..)\<close> behind the first key.\<close>

definition more_keys :: "tok \<Rightarrow> string list \<Rightarrow> tok list" where
  "more_keys sep ks = concat (map (\<lambda>k. [sep, T_Ident k]) ks)"

lemma require_loop_sound:
  "require_loop line toks keys sep = Inr (keys', sep', rest) \<Longrightarrow>
     (\<exists>ks. keys' = keys @ ks \<and> (ks = [] \<and> sep' = sep \<and> toks = T_RParen # rest \<or>
        (\<exists>s. ks \<noteq> [] \<and> (s = T_Comma \<or> s = T_Or) \<and> (sep = None \<or> sep = Some s) \<and> sep' = Some s
            \<and> toks = more_keys s ks @ T_RParen # rest)))"
proof (induction line toks keys sep rule: require_loop.induct)
  case (2 line t ts keys sep)
  show ?case
  proof (cases "t = T_RParen")
    case False
    then have t: "t = T_Comma \<or> t = T_Or" "sep = None \<or> sep = Some t" using 2(2) by (auto split: if_splits)
    then obtain k ts' where ts: "ts = T_Ident k # ts'"
      using 2(2) False by (auto split: list.splits tok.splits if_splits)
    have "require_loop line ts' (keys @ [k]) (Some t) = Inr (keys', sep', rest)" using 2(2) False t ts by auto
    from 2(1) [OF False t(1) _ ts refl this] t(2)
    obtain ks where ks: "keys' = keys @ k # ks" "ks = [] \<and> sep' = Some t \<and> ts' = T_RParen # rest \<or>
        (\<exists>s. ks \<noteq> [] \<and> (Some t = Some s) \<and> sep' = Some s \<and> ts' = more_keys s ks @ T_RParen # rest)"
      by auto
    then have "toks' = more_keys t (k # ks) @ T_RParen # rest \<and> sep' = Some t" if "toks' = t # ts" for toks'
      using ts that by (auto simp: more_keys_def)
    then show ?thesis using t ks(1) by (intro exI [of _ "k # ks"]) auto
  qed (use 2(2) in simp)
qed simp

lemma require_loop_complete:
  "s = T_Comma \<or> s = T_Or \<Longrightarrow> sep = None \<or> sep = Some s \<Longrightarrow>
     require_loop line (more_keys s ks @ T_RParen # rest) keys sep = Inr (keys @ ks, if ks = [] then sep else Some s, rest)"
  by (induction ks arbitrary: keys sep) (auto simp: more_keys_def)

lemma require_condition_eval:
  "keys \<noteq> [] \<Longrightarrow> eval_expression (require_condition keys sep) bag \<longleftrightarrow>
     (if sep = Some T_Or then \<forall>k \<in> set keys. \<not> eval_condition (IsTrue k) bag else \<exists>k \<in> set keys. \<not> eval_condition (IsTrue k) bag)"
  by (cases keys rule: remdups_adj.cases)
    (auto simp: require_condition_def is_false_iff list_ex_iff list_all_iff simp del: eval_condition.simps)

lemma require_tokens_iff:
  "require_tokens line toks = Inr c \<longleftrightarrow>
     (\<exists>k ks s. (s = T_Comma \<or> s = T_Or) \<and> toks = T_Require # T_LParen # T_Ident k # more_keys s ks @ [T_RParen]
        \<and> c = require_condition (k # ks) (if ks = [] then None else Some s))" (is "?l \<longleftrightarrow> ?r")
proof
  assume ?l
  then obtain k ts keys sep where "toks = T_Require # T_LParen # T_Ident k # ts"
    and loop: "require_loop line ts [k] None = Inr (keys, sep, [])" "c = require_condition keys sep"
    by (auto simp: require_tokens_def res_bind_eq_Inr split: list.splits tok.splits if_splits)
  then show ?r using require_loop_sound [OF loop(1)] by (auto simp: more_keys_def)
next
  assume ?r
  then show ?l by (auto simp: require_tokens_def require_loop_complete)
qed

lemma parse_rule_require:
  assumes "is_require_call (trim line)"
  shows "parse_rule line source = Inr r \<longleftrightarrow>
    (\<exists>c. parse_require_rule (trim line) = Inr c \<and> r = rule_single c (Eff_Deny None None) source)"
  using assms by (auto simp: parse_rule_def res_bind_eq_Inr)

lemma rule_single_deny:
  "evaluate_rules [rule_single c (Eff_Deny None None) source] bag \<noteq> Dec_Allow \<longleftrightarrow> eval_expression c bag"
  by (simp add: rule_single_def)

text \<open>
  A field operation is read as one only inside a body.  As a step of its own the same text is a predicate rule that
  denies unless one of the two names is true, and changes no field.
\<close>

definition misread :: string where
  "misread = ''result.ssn | redact''"

lemma misread_as_effect: "parse_effect_value pf (YStr misread) src = Inr (Eff_FieldOp ''result.ssn'' [Stage_Redact None])"
  by code_simp

lemma misread_as_step:
  "parse_step pf (YStr misread) src = Inr (Step_Rule \<lparr>ru_condition = Or [Cond (IsTrue ''result.ssn''), Cond (IsTrue ''redact'')],
     ru_effects = [Eff_Deny None None], ru_source = src\<rparr>)"
  by code_simp

end
