(* ===== verification/Attribute_Files.thy ===== *)
theory Attribute_Files
  imports Message_Projection Policy_Text
begin

text \<open>
  The static \<^verbatim>\<open>data.*\<close> attributes: \<^verbatim>\<open>crates/ppe-apl-core/src/attribute_source.rs\<close> (the tree and its errors) and
  \<^verbatim>\<open>crates/ppe-apl-runtime/src/attribute_source.rs\<close> (reading files and merging them).  The file system, the YAML
  reader and the text of a JSON value are parameters.
\<close>

datatype attribute_error =
    AE_Load string
  | AE_Parse string
  | AE_Conflict string string string

fun attribute_error_text :: "attribute_error \<Rightarrow> string" where
  "attribute_error_text (AE_Load m) = ''attribute source load failed: '' @ m"
| "attribute_error_text (AE_Parse m) = ''attribute source parse failed: '' @ m"
| "attribute_error_text (AE_Conflict path existing incoming) =
     ''attribute conflict at `'' @ path @ ''`: `'' @ existing @ ''` vs `'' @ incoming @ ''`''"

type_synonym attribute_tree = json

definition tree_empty :: attribute_tree where
  "tree_empty = JObj []"

fun tree_is_empty :: "attribute_tree \<Rightarrow> bool" where
  "tree_is_empty (JObj m) = (m = [])"
| "tree_is_empty JNull = True"
| "tree_is_empty _ = False"

fun type_name :: "json \<Rightarrow> string" where
  "type_name JNull = ''null''"
| "type_name (JBool _) = ''boolean''"
| "type_name (JInt _) = ''number''"
| "type_name (JFloat _) = ''number''"
| "type_name (JStr _) = ''string''"
| "type_name (JArr _) = ''array''"
| "type_name (JObj _) = ''mapping''"

text \<open>The stray keys are sorted in the message; the entries of an object are in key order already.\<close>

definition extract_file_data :: "string \<Rightarrow> json \<Rightarrow> attribute_error + (string \<times> json) list" where
  "extract_file_data label doc =
     (case doc of
        JNull \<Rightarrow> Inr []
      | JObj m \<Rightarrow>
          (let stray = sort (map fst (filter (\<lambda>(k, _). k \<noteq> ''data'') m))
           in if stray \<noteq> []
              then Inl (AE_Parse (label @ '': attribute files may only contain a top-level `data:` mapping; ''
                     @ ''found stray key(s): '' @ join_with '', '' stray))
              else case map_of m ''data'' of
                None \<Rightarrow> Inr []
              | Some JNull \<Rightarrow> Inr []
              | Some (JObj d) \<Rightarrow> Inr d
              | Some other \<Rightarrow> Inl (AE_Parse (label @ '': `data:` must be a mapping, got '' @ type_name other)))
      | other \<Rightarrow> Inl (AE_Parse (label @ '': top-level must be a `data:` mapping, got '' @ type_name other)))"

function merge_object ::
    "(json \<Rightarrow> string) \<Rightarrow> (string \<times> json) list \<Rightarrow> (string \<times> json) list \<Rightarrow> string \<Rightarrow> attribute_error + (string \<times> json) list" where
  "merge_object js acc [] prefix = Inr acc"
| "merge_object js acc ((k, v) # rest) prefix =
     (case map_of acc k of
        None \<Rightarrow> merge_object js (btree_insert k v acc) rest prefix
      | Some existing \<Rightarrow>
          (case (existing, v) of
             (JObj e, JObj iv) \<Rightarrow>
               (case merge_object js e iv (prefix @ ''.'' @ k) of
                  Inl err \<Rightarrow> Inl err
                | Inr e' \<Rightarrow> merge_object js (btree_insert k (JObj e') acc) rest prefix)
           | _ \<Rightarrow>
               if \<not> json_eq existing v
               then Inl (AE_Conflict (prefix @ ''.'' @ k) (js existing) (js v))
               else merge_object js acc rest prefix))"
  by pat_completeness auto
termination
  by (relation "measure (\<lambda>(_, _, incoming, _). size (JObj incoming))") auto

declare merge_object.simps(2) [simp del]

fun merge_attribute_docs ::
    "(json \<Rightarrow> string) \<Rightarrow> (string \<times> json) list \<Rightarrow> (string \<times> json) list \<Rightarrow> attribute_error + attribute_tree" where
  "merge_attribute_docs js acc [] = Inr (JObj acc)"
| "merge_attribute_docs js acc ((label, doc) # docs) =
     res_bind (extract_file_data label doc) (\<lambda>data.
       res_bind (merge_object js acc data ''data'') (\<lambda>acc'. merge_attribute_docs js acc' docs))"

record file_source =
  fs_read :: "string \<Rightarrow> string + string"
  fs_parse :: "string \<Rightarrow> string + json"
  fs_text :: "json \<Rightarrow> string"

definition read_attribute_file :: "file_source \<Rightarrow> string \<Rightarrow> attribute_error + string \<times> json" where
  "read_attribute_file fs path =
     res_bind (map_err (\<lambda>e. AE_Load (path @ '': '' @ e)) (fs_read fs path)) (\<lambda>text.
       res_bind (map_err (\<lambda>e. AE_Parse (path @ '': '' @ e)) (fs_parse fs text)) (\<lambda>doc. Inr (path, doc)))"

definition load_attribute_files :: "file_source \<Rightarrow> string list \<Rightarrow> attribute_error + attribute_tree" where
  "load_attribute_files fs paths =
     res_bind (res_map (read_attribute_file fs) paths) (\<lambda>docs. merge_attribute_docs (fs_text fs) [] docs)"

end
