(* ===== verification/Parallel_Safety.thy ===== *)
theory Parallel_Safety
  imports Dispatch_Plan
begin

text \<open>
  \<^verbatim>\<open>crates/ppe-apl-runtime/src/parallel_safety.rs\<close>: the second half of the check of \<^verbatim>\<open>parallel:\<close> blocks, made when a
  route is compiled.  A plugin called inside such a block has to be registered with a mode that cannot modify.
\<close>

definition mode_for :: "('p, 'w) engine \<Rightarrow> string \<Rightarrow> plugin_mode option" where
  "mode_for eng name = map_option (ref_mode (eg_disabled eng)) (registry_get (sn_registry (eg_runtime eng)) name)"

definition is_safe_in_parallel :: "plugin_mode \<Rightarrow> bool" where
  "is_safe_in_parallel mode \<longleftrightarrow> mode = M_Audit \<or> mode = M_Concurrent \<or> mode = M_FireAndForget \<or> mode = M_Disabled"

definition check_plugin_mode :: "(string \<Rightarrow> plugin_mode option) \<Rightarrow> string \<Rightarrow> string \<Rightarrow> string list" where
  "check_plugin_mode lookup name location =
     (case lookup name of
        None \<Rightarrow> [location @ '': `parallel:` references unknown plugin `'' @ name @ ''`'']
      | Some mode \<Rightarrow>
          if is_safe_in_parallel mode then []
          else [location @ '': plugin `'' @ name @ ''` has mode `'' @ mode_text mode
                @ ''` which can modify state; parallel branches discard mutations, so this would silently lose its effect. ''
                @ ''Use `sequential:` for ordered mutations or change the plugin'' @ [CHR 0x27] @ ''s mode.''])"

text \<open>The errors one effect adds, in the order they are pushed.\<close>

fun walk_effect_modes :: "(string \<Rightarrow> plugin_mode option) \<Rightarrow> string \<Rightarrow> bool \<Rightarrow> effect \<Rightarrow> string list" where
  "walk_effect_modes lookup location under_parallel (Eff_Plugin name) =
     (if under_parallel then check_plugin_mode lookup name location else [])"
| "walk_effect_modes lookup location under_parallel (Eff_Parallel es) =
     concat (map (walk_effect_modes lookup location True) es)"
| "walk_effect_modes lookup location under_parallel (Eff_Sequential es) =
     concat (map (walk_effect_modes lookup location under_parallel) es)"
| "walk_effect_modes lookup location under_parallel (Eff_When c body src) =
     concat (map (walk_effect_modes lookup location under_parallel) body)"
| "walk_effect_modes lookup location under_parallel (Eff_Pdp call on_allow on_deny) =
     concat (map (walk_effect_modes lookup location under_parallel) on_allow)
     @ concat (map (walk_effect_modes lookup location under_parallel) on_deny)"
| "walk_effect_modes lookup location under_parallel _ = []"

definition phase_errors :: "(string \<Rightarrow> plugin_mode option) \<Rightarrow> string \<Rightarrow> string \<Rightarrow> effect list \<Rightarrow> string list" where
  "phase_errors lookup route_key phase_name effects =
     concat (map (\<lambda>(idx, e). walk_effect_modes lookup
       (''routes.'' @ route_key @ ''.'' @ phase_name @ ''['' @ nat_to_string idx @ '']'') False e) (enumerate 0 effects))"

fun join_errors :: "string list \<Rightarrow> string" where
  "join_errors [] = []"
| "join_errors [e] = e"
| "join_errors (e # es) = e @ ''; '' @ join_errors es"

definition validate_parallel_plugin_modes :: "(string \<Rightarrow> plugin_mode option) \<Rightarrow> compiled_route \<Rightarrow> string + unit" where
  "validate_parallel_plugin_modes lookup route =
     (let errors = phase_errors lookup (cr_route_key route) ''pre_invocation'' (cr_policy route)
                   @ phase_errors lookup (cr_route_key route) ''post_invocation'' (cr_post_policy route)
      in if errors = [] then Inr () else Inl (join_errors errors))"

subsection \<open>What the check means\<close>

lemma check_plugin_mode_iff: "check_plugin_mode lookup name location = [] \<longleftrightarrow> (\<exists>m. lookup name = Some m \<and> is_safe_in_parallel m)"
  by (auto simp: check_plugin_mode_def split: option.splits)

lemma walk_modes_under:
  "walk_effect_modes lookup location True e = [] \<longleftrightarrow>
     (\<forall>name. under (Eff_Plugin name) e \<longrightarrow> (\<exists>m. lookup name = Some m \<and> is_safe_in_parallel m))"
  by (induction e) (auto simp: check_plugin_mode_iff intro: under.intros elim: under.cases)

definition parallel_plugin :: "string \<Rightarrow> effect \<Rightarrow> bool" where
  "parallel_plugin name e \<longleftrightarrow> (\<exists>es b. under (Eff_Parallel es) e \<and> b \<in> set es \<and> under (Eff_Plugin name) b)"

lemma parallel_plugin_simps [simp]:
  "parallel_plugin name (Eff_Parallel es) \<longleftrightarrow> (\<exists>b \<in> set es. under (Eff_Plugin name) b) \<or> (\<exists>e \<in> set es. parallel_plugin name e)"
  "parallel_plugin name (Eff_Sequential es) \<longleftrightarrow> (\<exists>e \<in> set es. parallel_plugin name e)"
  "parallel_plugin name (Eff_When c es src) \<longleftrightarrow> (\<exists>e \<in> set es. parallel_plugin name e)"
  "parallel_plugin name (Eff_Pdp call xs ys) \<longleftrightarrow> (\<exists>e \<in> set xs \<union> set ys. parallel_plugin name e)"
  unfolding parallel_plugin_def by (blast intro: under.intros elim: under.cases)+

lemma parallel_plugin_leaf [simp]:
  "\<not> parallel_plugin name Eff_Allow" "\<not> parallel_plugin name (Eff_Deny r c)" "\<not> parallel_plugin name (Eff_Plugin p)"
  "\<not> parallel_plugin name (Eff_Delegate d)" "\<not> parallel_plugin name (Eff_Elicit el)" "\<not> parallel_plugin name (Eff_Taint l s)"
  "\<not> parallel_plugin name (Eff_Restrict sp)" "\<not> parallel_plugin name (Eff_FieldOp path st)"
  unfolding parallel_plugin_def by (blast elim: under.cases)+

lemma parallel_plugin_under: "parallel_plugin name e \<Longrightarrow> under (Eff_Plugin name) e"
  by (induction e) (auto intro: under.intros)

lemma walk_modes_parallel:
  "walk_effect_modes lookup location False e = [] \<longleftrightarrow>
     (\<forall>name. parallel_plugin name e \<longrightarrow> (\<exists>m. lookup name = Some m \<and> is_safe_in_parallel m))"
proof (induction e)
  case (Eff_Parallel es)
  show ?case by (simp add: walk_modes_under) (blast dest: parallel_plugin_under)
qed auto

lemma validate_modes_iff:
  "validate_parallel_plugin_modes lookup route = Inr () \<longleftrightarrow>
     (\<forall>e \<in> set (cr_policy route @ cr_post_policy route). \<forall>name.
        parallel_plugin name e \<longrightarrow> (\<exists>m. lookup name = Some m \<and> is_safe_in_parallel m))"
proof -
  have "phase_errors lookup key phase es = [] \<longleftrightarrow>
      (\<forall>e \<in> set es. \<forall>name. parallel_plugin name e \<longrightarrow> (\<exists>m. lookup name = Some m \<and> is_safe_in_parallel m))" for key phase es
  proof -
    have "phase_errors lookup key phase es = [] \<longleftrightarrow> (\<forall>p \<in> set (enumerate 0 es). \<forall>name. parallel_plugin name (snd p) \<longrightarrow>
        (\<exists>m. lookup name = Some m \<and> is_safe_in_parallel m))"
      by (auto simp: phase_errors_def walk_modes_parallel split: prod.splits)
    also have "\<dots> \<longleftrightarrow> (\<forall>e \<in> snd ` set (enumerate 0 es). \<forall>name. parallel_plugin name e \<longrightarrow>
        (\<exists>m. lookup name = Some m \<and> is_safe_in_parallel m))" by blast
    also have "snd ` set (enumerate 0 es) = set es" by (metis list.set_map map_snd_enumerate)
    finally show ?thesis .
  qed
  then show ?thesis by (auto simp: validate_parallel_plugin_modes_def)
qed

end
