(* ===== verification/Visitor.thy ===== *)
theory Visitor
  imports Attribute_Files Parallel_Safety Route_Handler Policy_Compile
begin

text \<open>
  From a policy document to the handlers that enforce it: \<^verbatim>\<open>crates/ppe-apl-runtime/src/visitor.rs\<close> (the sections of a
  document become layers, the layers of a route one compiled route, the route two handlers), \<^verbatim>\<open>register.rs\<close>, and
  the walk of \<^verbatim>\<open>load_config_yaml\<close> in \<^verbatim>\<open>crates/ppe-core/src/engine.rs\<close>.

  What the visitor takes from elsewhere is the record \<open>visitor_env\<close>: what serde makes of a policy block and of a
  response block, JSON as YAML, the attribute files, the order of a set of capabilities, and a handler seen
  as a plugin of the engine.  Warnings are left out.
\<close>

record ('w, 's) visitor_env =
  ve_fmt :: parse_fmt
  ve_route_yaml :: "yaml \<Rightarrow> string + route_yaml"
  ve_deny_response :: "yaml \<Rightarrow> string + deny_response"
  ve_to_yaml :: "json \<Rightarrow> string + yaml"
  ve_files :: file_source
  ve_order :: "string fset \<Rightarrow> string list"
  ve_object :: "('w, 's) route_handler \<Rightarrow> 'w plugin_object"
  ve_handler :: "('w, 's) route_handler \<Rightarrow> (plugin_payload, 'w) hook_handler"

subsection \<open>Hook and entity names\<close>

definition ENTITY_TOOL :: string where "ENTITY_TOOL = ''tool''"
definition ENTITY_LLM :: string where "ENTITY_LLM = ''llm''"
definition ENTITY_PROMPT :: string where "ENTITY_PROMPT = ''prompt''"
definition ENTITY_RESOURCE :: string where "ENTITY_RESOURCE = ''resource''"
definition ENTITY_HTTP :: string where "ENTITY_HTTP = ''http''"
definition ENTITY_NAME_GLOBAL :: string where "ENTITY_NAME_GLOBAL = ''*''"
definition HOOK_CMF_HTTP_REQUEST :: string where "HOOK_CMF_HTTP_REQUEST = ''cmf.http_request''"

definition hook_pair_for_entity :: "string \<Rightarrow> (string \<times> string) option" where
  "hook_pair_for_entity entity_type =
     (if entity_type = ENTITY_TOOL then Some (''cmf.tool_pre_invoke'', ''cmf.tool_post_invoke'')
      else if entity_type = ENTITY_LLM then Some (''cmf.llm_input'', ''cmf.llm_output'')
      else if entity_type = ENTITY_PROMPT then Some (''cmf.prompt_pre_invoke'', ''cmf.prompt_post_invoke'')
      else if entity_type = ENTITY_RESOURCE then Some (''cmf.resource_pre_fetch'', ''cmf.resource_post_fetch'')
      else None)"

fun names_of :: "string_or_list \<Rightarrow> string list" where
  "names_of (SL_Single p) = [p]"
| "names_of (SL_List v) = v"

definition entity_identity :: "route_entry \<Rightarrow> (string \<times> string list) option" where
  "entity_identity route =
     (case re_tool route of
        Some t \<Rightarrow> Some (''tool'', names_of t)
      | None \<Rightarrow>
          (case re_resource route of
             Some r \<Rightarrow> Some (''resource'', names_of r)
           | None \<Rightarrow>
               (case re_prompt route of
                  Some p \<Rightarrow> Some (''prompt'', names_of p)
                | None \<Rightarrow> map_option (\<lambda>l. (''llm'', names_of l)) (re_llm route))))"

subsection \<open>Blocks of a section\<close>

definition RENAMED_APL_KEYS :: "(string \<times> string) list" where
  "RENAMED_APL_KEYS =
     [(''policy'', ''authorization.pre_invocation (or flat pre_invocation)''),
      (''post_policy'', ''authorization.post_invocation (or flat post_invocation)'')]"

definition reject_legacy_apl_keys :: "string \<Rightarrow> yaml \<Rightarrow> string option" where
  "reject_legacy_apl_keys scope v =
     (case as_mapping v of
        None \<Rightarrow> None
      | Some m \<Rightarrow>
          map_option (\<lambda>(old, new). ''in `'' @ scope @ ''`: config field `'' @ old @ ''` was renamed to `'' @ new
              @ ''` '' @ em_dash @ '' update your config'')
            (find (\<lambda>(old, _). yaml_entry m old \<noteq> None) RENAMED_APL_KEYS))"

definition GLOBAL_ONLY_NON_DSL_KEYS :: "string list" where
  "GLOBAL_ONLY_NON_DSL_KEYS = [''pdp'', ''session_store'', ''attribute_files'']"

text \<open>The order of the entries that are left is not observed: what follows looks them up by key.\<close>

definition strip_non_dsl_keys :: "yaml \<Rightarrow> yaml" where
  "strip_non_dsl_keys apl_block =
     (case as_mapping apl_block of
        None \<Rightarrow> apl_block
      | Some m \<Rightarrow> YMap (filter (\<lambda>(k, _). k \<notin> YStr ` set GLOBAL_ONLY_NON_DSL_KEYS) m))"

definition FLAT_APL_KEYS :: "string list" where
  "FLAT_APL_KEYS = [''pre_invocation'', ''post_invocation'', ''authorization'', ''args'', ''result'', ''pdp'', ''session_store'']"

definition flat_block :: "yaml \<Rightarrow> (yaml \<times> yaml) list" where
  "flat_block v =
     List.map_filter (\<lambda>key. map_option (Pair (YStr key)) (yaml_get v key)) FLAT_APL_KEYS
     @ (case yaml_get v ''plugins'' of
          Some p \<Rightarrow> if as_mapping p \<noteq> None then [(YStr ''plugins'', p)] else []
        | None \<Rightarrow> [])"

definition is_null :: "yaml \<Rightarrow> bool" where
  "is_null v \<longleftrightarrow> untag v = YNull"

definition apl_subblock :: "yaml \<Rightarrow> yaml option" where
  "apl_subblock v =
     (case yaml_get v ''apl'' of
        Some block \<Rightarrow> if is_null block then None else Some block
      | None \<Rightarrow> if flat_block v = [] then None else Some (YMap (flat_block v)))"

definition response_yaml_block :: "yaml \<Rightarrow> yaml option" where
  "response_yaml_block v = or_else (yaml_get v ''response'') (Option.bind (yaml_get v ''apl'') (\<lambda>apl. yaml_get apl ''response''))"

definition response_subblock :: "('w, 's) visitor_env \<Rightarrow> yaml \<Rightarrow> deny_response option" where
  "response_subblock ve v =
     (case response_yaml_block v of
        None \<Rightarrow> None
      | Some block \<Rightarrow>
          if is_null block then None
          else (case ve_deny_response ve block of Inr resp \<Rightarrow> Some resp | Inl _ \<Rightarrow> None))"

definition http_catchall_should_install :: "compiled_route \<Rightarrow> bool" where
  "http_catchall_should_install compiled \<longleftrightarrow>
     phase_set_contains (declared_phases compiled) Ph_Args \<or> phase_set_contains (declared_phases compiled) Ph_Policy"

subsection \<open>The visitor\<close>

type_synonym 'w pdp_factory = "yaml \<Rightarrow> string + pdp_dialect \<times> 'w pdp_resolver"
type_synonym 's store_factory = "yaml \<Rightarrow> string + 's session_ops"

record ('w, 's) apl_visitor =
  av_plugin_registry :: "string \<rightharpoonup> plugin_declaration"
  av_global_layer :: "compiled_route option"
  av_default_layers :: "string \<rightharpoonup> compiled_route"
  av_tag_layers :: "string \<rightharpoonup> compiled_route"
  av_pdp_router :: "'w pdp_router"
  av_session_store :: "'s session_ops"
  av_attribute_tree :: attribute_tree
  av_base_capabilities :: "string fset"
  av_pdp_factories :: "string \<rightharpoonup> 'w pdp_factory"
  av_session_store_factories :: "string \<rightharpoonup> 's store_factory"

definition default_base_capabilities :: "string fset" where
  "default_base_capabilities = fset_of_list [''read_subject'', ''read_roles'', ''read_permissions'', ''read_teams'',
     ''read_claims'', ''read_labels'', ''read_delegation'', ''read_agent'', ''read_meta'']"

definition visitor_new :: "'s session_ops \<Rightarrow> ('w, 's) apl_visitor" where
  "visitor_new store =
     \<lparr>av_plugin_registry = Map.empty, av_global_layer = None, av_default_layers = Map.empty, av_tag_layers = Map.empty,
      av_pdp_router = router_new, av_session_store = store, av_attribute_tree = tree_empty,
      av_base_capabilities = default_base_capabilities, av_pdp_factories = Map.empty,
      av_session_store_factories = Map.empty\<rparr>"

definition register_pdp :: "pdp_dialect \<times> 'w pdp_resolver \<Rightarrow> ('w, 's) apl_visitor \<Rightarrow> ('w, 's) apl_visitor" where
  "register_pdp r av = av\<lparr>av_pdp_router := router_register (fst r) (snd r) (av_pdp_router av)\<rparr>"

definition set_attribute_tree :: "attribute_tree \<Rightarrow> ('w, 's) apl_visitor \<Rightarrow> ('w, 's) apl_visitor" where
  "set_attribute_tree tree av = av\<lparr>av_attribute_tree := tree\<rparr>"

definition register_pdp_factory :: "string \<times> 'w pdp_factory \<Rightarrow> ('w, 's) apl_visitor \<Rightarrow> ('w, 's) apl_visitor" where
  "register_pdp_factory f av = av\<lparr>av_pdp_factories := (av_pdp_factories av)(fst f \<mapsto> snd f)\<rparr>"

definition register_session_store_factory :: "string \<times> 's store_factory \<Rightarrow> ('w, 's) apl_visitor \<Rightarrow> ('w, 's) apl_visitor" where
  "register_session_store_factory f av =
     av\<lparr>av_session_store_factories := (av_session_store_factories av)(fst f \<mapsto> snd f)\<rparr>"

definition with_base_capabilities :: "string fset \<Rightarrow> ('w, 's) apl_visitor \<Rightarrow> ('w, 's) apl_visitor" where
  "with_base_capabilities caps av = av\<lparr>av_base_capabilities := caps\<rparr>"

record ('w, 's) apl_options =
  ao_session_store :: "'s session_ops"
  ao_pdps :: "(pdp_dialect \<times> 'w pdp_resolver) list"
  ao_pdp_factories :: "(string \<times> 'w pdp_factory) list"
  ao_session_store_factories :: "(string \<times> 's store_factory) list"
  ao_base_capabilities :: "string fset option"

text \<open>\<^verbatim>\<open>register_apl\<close> up to the registration with the engine.\<close>

definition register_apl :: "('w, 's) apl_options \<Rightarrow> ('w, 's) apl_visitor" where
  "register_apl opts =
     (let v0 = visitor_new (ao_session_store opts);
          v1 = (case ao_base_capabilities opts of Some caps \<Rightarrow> with_base_capabilities caps v0 | None \<Rightarrow> v0);
          v2 = fold register_pdp_factory (ao_pdp_factories opts) v1;
          v3 = fold register_session_store_factory (ao_session_store_factories opts) v2
      in fold register_pdp (ao_pdps opts) v3)"

subsection \<open>Wiring in the global section\<close>

text \<open>An operation that may fail half-way leaves the state it had reached.\<close>

definition chain :: "'e option \<times> 's \<Rightarrow> ('s \<Rightarrow> 'e option \<times> 's) \<Rightarrow> 'e option \<times> 's" where
  "chain r f = (case fst r of Some e \<Rightarrow> r | None \<Rightarrow> f (snd r))"

fun each :: "('a \<Rightarrow> 's \<Rightarrow> 'e option \<times> 's) \<Rightarrow> 'a list \<Rightarrow> 's \<Rightarrow> 'e option \<times> 's" where
  "each f [] s = (None, s)"
| "each f (x # xs) s = chain (f x s) (each f xs)"

definition kind_of :: "string \<Rightarrow> yaml \<Rightarrow> string + string" where
  "kind_of what v =
     (case as_mapping v of
        None \<Rightarrow> Inl (what @ '' must be a mapping with a `kind:` field'')
      | Some m \<Rightarrow> ok_or (what @ '' missing required `kind:` field'') (Option.bind (yaml_entry m ''kind'') yaml_as_str))"

definition build_session_store_from_config :: "yaml \<Rightarrow> ('w, 's) apl_visitor \<Rightarrow> string option \<times> ('w, 's) apl_visitor" where
  "build_session_store_from_config block av =
     (let what = ''global.apl.session_store'' in
      case kind_of what block of
        Inl e \<Rightarrow> (Some e, av)
      | Inr kind \<Rightarrow>
          (case av_session_store_factories av kind of
             None \<Rightarrow> (Some (what @ '' declared kind='' @ quote kind @ '' but no factory is registered for that kind '' @ em_dash
                       @ '' host must call register_session_store_factory(...) before load_config_yaml''), av)
           | Some factory \<Rightarrow>
               (case factory block of
                  Inl e \<Rightarrow> (Some (what @ '' (kind='' @ quote kind @ '') failed to build: '' @ e), av)
                | Inr store \<Rightarrow> (None, av\<lparr>av_session_store := store\<rparr>))))"

fun string_paths :: "nat \<Rightarrow> yaml list \<Rightarrow> string + string list" where
  "string_paths i [] = Inr []"
| "string_paths i (entry # rest) =
     res_bind (ok_or (''global.apl.attribute_files['' @ nat_to_string i @ ''] must be a string path'') (yaml_as_str entry)) (\<lambda>s.
       res_bind (string_paths (i + 1) rest) (\<lambda>ss. Inr (s # ss)))"

definition build_attribute_tree_from_config ::
    "('w, 's) visitor_env \<Rightarrow> yaml list \<Rightarrow> ('w, 's) apl_visitor \<Rightarrow> string option \<times> ('w, 's) apl_visitor" where
  "build_attribute_tree_from_config ve entries av =
     (if \<not> tree_is_empty (av_attribute_tree av) then (None, av)
      else case string_paths 0 entries of
        Inl e \<Rightarrow> (Some e, av)
      | Inr paths \<Rightarrow>
          if paths = [] then (None, av)
          else (case load_attribute_files (ve_files ve) paths of
                  Inl e \<Rightarrow> (Some (''global.apl.attribute_files failed to load: '' @ attribute_error_text e), av)
                | Inr tree \<Rightarrow> (None, av\<lparr>av_attribute_tree := tree\<rparr>)))"

definition build_pdp_from_config :: "nat \<times> yaml \<Rightarrow> ('w, 's) apl_visitor \<Rightarrow> string option \<times> ('w, 's) apl_visitor" where
  "build_pdp_from_config ie av =
     (case ie of (index, entry) \<Rightarrow>
        (let what = ''global.apl.pdp['' @ nat_to_string index @ '']'' in
         case kind_of what entry of
           Inl e \<Rightarrow> (Some e, av)
         | Inr kind \<Rightarrow>
             (case av_pdp_factories av kind of
                None \<Rightarrow> (Some (what @ '' declared kind='' @ quote kind @ '' but no factory is registered for that kind '' @ em_dash
                          @ '' host must call register_pdp_factory(...) before load_config_yaml''), av)
              | Some factory \<Rightarrow>
                  (case factory entry of
                     Inl e \<Rightarrow> (Some (what @ '' (kind='' @ quote kind @ '') failed to build: '' @ e), av)
                   | Inr resolver \<Rightarrow> (None, register_pdp resolver av)))))"

text \<open>The three wiring keys of the global block, in the order they are handled.\<close>

definition build_wiring ::
    "('w, 's) visitor_env \<Rightarrow> yaml \<Rightarrow> ('w, 's) apl_visitor \<Rightarrow> string option \<times> ('w, 's) apl_visitor" where
  "build_wiring ve apl_block av =
     chain (case Option.bind (yaml_get apl_block ''pdp'') as_sequence of
              Some entries \<Rightarrow> each build_pdp_from_config (enumerate 0 entries) av
            | None \<Rightarrow> (None, av)) (\<lambda>av.
     chain (case yaml_get apl_block ''session_store'' of
              Some block \<Rightarrow> build_session_store_from_config block av
            | None \<Rightarrow> (None, av)) (\<lambda>av.
     case yaml_get apl_block ''attribute_files'' of
       Some files \<Rightarrow>
         (case as_sequence files of
            None \<Rightarrow> (Some ''global.apl.attribute_files must be a list of file paths'', av)
          | Some entries \<Rightarrow> build_attribute_tree_from_config ve entries av)
     | None \<Rightarrow> (None, av)))"

subsection \<open>Handlers\<close>

definition synthetic_config :: "string \<Rightarrow> string \<Rightarrow> string \<Rightarrow> dispatch_phase \<Rightarrow> string fset \<Rightarrow> plugin_config" where
  "synthetic_config entity_type entity_name hook_name ph caps =
     \<lparr>cf_name = ''apl::'' @ entity_type @ ''::'' @ entity_name @ ''::'' @ (if ph = Pre then ''pre'' else ''post''),
      cf_kind = ''builtin'', cf_description = None, cf_author = None, cf_version = None, cf_hooks = [hook_name],
      cf_mode = M_Sequential, cf_priority = 0, cf_on_error = OE_Fail, cf_capabilities = caps, cf_tags = [],
      cf_conditions = [], cf_config = None\<rparr>"

definition granted_capabilities :: "compiled_route \<Rightarrow> ('w, 's) apl_visitor \<Rightarrow> string fset" where
  "granted_capabilities route av =
     finsert CAP_WRITE_CANDIDATE_CONSTRAINT (finsert ''read_headers''
       (av_base_capabilities av |\<union>| route_capability_union route (av_plugin_registry av)))"

definition make_handler ::
    "string \<Rightarrow> string \<Rightarrow> string \<Rightarrow> dispatch_phase \<Rightarrow> compiled_route \<Rightarrow> ('w, 's) apl_visitor \<Rightarrow> ('w, 's) route_handler" where
  "make_handler entity_type entity_name hook_name ph route av =
     (route_handler_new (synthetic_config entity_type entity_name hook_name ph (granted_capabilities route av)) route ph
        (av_plugin_registry av) (av_session_store av))
     \<lparr>rh_tree := av_attribute_tree av, rh_pdp := router_evaluate (av_pdp_router av)\<rparr>"

definition install_handler ::
    "('w, 's) visitor_env \<Rightarrow> string \<Rightarrow> string \<Rightarrow> string option \<Rightarrow> string \<Rightarrow> dispatch_phase \<Rightarrow> compiled_route \<Rightarrow> ('w, 's) apl_visitor
     \<Rightarrow> (plugin_payload, 'w) engine \<Rightarrow> (plugin_payload, 'w) engine" where
  "install_handler ve entity_type entity_name scope hook_name ph route av eng =
     (let handler = make_handler entity_type entity_name hook_name ph route av
      in annotate_route \<lparr>ak_entity_type = entity_type, ak_entity_name = entity_name, ak_scope = scope, ak_hook_name = hook_name\<rparr>
           (ve_object ve handler) (ve_handler ve handler) (rh_config handler) eng)"

subsection \<open>The sections of a document\<close>

type_synonym ('w, 's) walk = "('w, 's) apl_visitor \<times> (plugin_payload, 'w) engine"

definition declaration_of :: "('w, 's) visitor_env \<Rightarrow> plugin_config \<Rightarrow> plugin_declaration" where
  "declaration_of ve cfg =
     \<lparr>pd_name = cf_name cfg, pd_kind = cf_kind cfg, pd_hooks = cf_hooks cfg, pd_capabilities = ve_order ve (cf_capabilities cfg),
      pd_config = Option.bind (cf_config cfg) (\<lambda>v. case ve_to_yaml ve v of Inr y \<Rightarrow> Some y | Inl _ \<Rightarrow> None),
      pd_on_error = Some (on_error_text (cf_on_error cfg)), pd_extra = Map.empty\<rparr>"

definition visit_plugins :: "('w, 's) visitor_env \<Rightarrow> plugin_config list \<Rightarrow> ('w, 's) walk \<Rightarrow> string option \<times> ('w, 's) walk" where
  "visit_plugins ve plugins st =
     (None, (fst st)\<lparr>av_plugin_registry := fold (\<lambda>cfg m. m(cf_name cfg \<mapsto> declaration_of ve cfg)) plugins Map.empty\<rparr>, snd st)"

definition compile_block :: "('w, 's) visitor_env \<Rightarrow> string \<Rightarrow> yaml \<Rightarrow> string + compiled_route" where
  "compile_block ve source block =
     map_err parse_error_text (compile_policy_block_value (ve_fmt ve) (ve_route_yaml ve) source block)"

definition visit_global :: "('w, 's) visitor_env \<Rightarrow> yaml \<Rightarrow> ('w, 's) walk \<Rightarrow> string option \<times> ('w, 's) walk" where
  "visit_global ve v st =
     (case reject_legacy_apl_keys ''global'' v of
        Some e \<Rightarrow> (Some e, st)
      | None \<Rightarrow>
          (case apl_subblock v of
             None \<Rightarrow> (None, st)
           | Some apl_block \<Rightarrow>
               (case build_wiring ve apl_block (fst st) of
                  (Some e, av) \<Rightarrow> (Some e, av, snd st)
                | (None, av) \<Rightarrow>
                    (case compile_block ve ''global.apl'' (strip_non_dsl_keys apl_block) of
                       Inl e \<Rightarrow> (Some e, av, snd st)
                     | Inr compiled0 \<Rightarrow>
                         let compiled = compiled0\<lparr>cr_response := response_subblock ve v\<rparr>;
                             eng = (if http_catchall_should_install compiled
                                    then install_handler ve ENTITY_HTTP ENTITY_NAME_GLOBAL None HOOK_CMF_HTTP_REQUEST Pre compiled av (snd st)
                                    else snd st)
                         in (None, av\<lparr>av_global_layer := Some compiled\<rparr>, eng)))))"

text \<open>\<^verbatim>\<open>visit_default\<close> and \<^verbatim>\<open>visit_policy_bundle\<close>: the block of a section, compiled under its source.\<close>

definition section_layer :: "('w, 's) visitor_env \<Rightarrow> string \<Rightarrow> yaml \<Rightarrow> string + compiled_route option" where
  "section_layer ve source v =
     (case reject_legacy_apl_keys source v of
        Some e \<Rightarrow> Inl e
      | None \<Rightarrow>
          (case apl_subblock v of
             None \<Rightarrow> Inr None
           | Some apl_block \<Rightarrow> res_bind (compile_block ve source apl_block) (\<lambda>c. Inr (Some c))))"

definition visit_default :: "('w, 's) visitor_env \<Rightarrow> string \<times> yaml \<Rightarrow> ('w, 's) walk \<Rightarrow> string option \<times> ('w, 's) walk" where
  "visit_default ve kv st =
     (case section_layer ve (''global.defaults.'' @ fst kv @ ''.apl'') (snd kv) of
        Inl e \<Rightarrow> (Some e, st)
      | Inr None \<Rightarrow> (None, st)
      | Inr (Some compiled) \<Rightarrow>
          (None, (fst st)\<lparr>av_default_layers := (av_default_layers (fst st))(fst kv \<mapsto> compiled)\<rparr>, snd st))"

definition visit_policy_bundle :: "('w, 's) visitor_env \<Rightarrow> string \<times> yaml \<Rightarrow> ('w, 's) walk \<Rightarrow> string option \<times> ('w, 's) walk" where
  "visit_policy_bundle ve kv st =
     (case section_layer ve (''global.policies.'' @ fst kv @ ''.apl'') (snd kv) of
        Inl e \<Rightarrow> (Some e, st)
      | Inr None \<Rightarrow> (None, st)
      | Inr (Some compiled) \<Rightarrow>
          (None, (fst st)\<lparr>av_tag_layers := (av_tag_layers (fst st))(fst kv \<mapsto> compiled)\<rparr>, snd st))"

subsection \<open>Routes\<close>

definition route_key_of :: "string \<Rightarrow> string \<Rightarrow> string option \<Rightarrow> string" where
  "route_key_of entity_type entity_name scope =
     (case scope of
        Some s \<Rightarrow> entity_type @ '':'' @ entity_name @ ''@'' @ s
      | None \<Rightarrow> entity_type @ '':'' @ entity_name)"

definition add_layer :: "compiled_route option \<Rightarrow> compiled_route \<Rightarrow> compiled_route" where
  "add_layer layer route = (case layer of Some l \<Rightarrow> apply_layer route l | None \<Rightarrow> route)"

definition stack_layers :: "('w, 's) apl_visitor \<Rightarrow> string \<Rightarrow> string list \<Rightarrow> string \<Rightarrow> compiled_route" where
  "stack_layers av entity_type tags key =
     fold (\<lambda>tag. add_layer (av_tag_layers av tag)) tags
       (add_layer (av_default_layers av entity_type) (add_layer (av_global_layer av) (compiled_route_new key)))"

definition effective_route ::
    "('w, 's) visitor_env \<Rightarrow> ('w, 's) apl_visitor \<Rightarrow> string \<Rightarrow> string list \<Rightarrow> yaml option \<Rightarrow> deny_response option \<Rightarrow> string
     \<Rightarrow> string + compiled_route" where
  "effective_route ve av entity_type tags route_apl response key =
     (let stacked = stack_layers av entity_type tags key in
      res_bind (case route_apl of
                  None \<Rightarrow> Inr stacked
                | Some block \<Rightarrow> res_bind (compile_block ve (''routes.'' @ key @ ''.apl'') block) (\<lambda>layer. Inr (apply_layer stacked layer)))
        (\<lambda>effective. Inr (effective\<lparr>cr_response := response\<rparr>)))"

definition route_scope :: "route_entry \<Rightarrow> string option" where
  "route_scope route = Option.bind (re_meta route) rmt_scope"

definition route_tags :: "route_entry \<Rightarrow> string list" where
  "route_tags route = (case re_meta route of Some m \<Rightarrow> rmt_tags m | None \<Rightarrow> [])"

text \<open>One pass of the loop over the entity names.\<close>

definition visit_entity ::
    "('w, 's) visitor_env \<Rightarrow> yaml \<Rightarrow> route_entry \<Rightarrow> string \<Rightarrow> string \<Rightarrow> ('w, 's) walk \<Rightarrow> string option \<times> ('w, 's) walk" where
  "visit_entity ve v route entity_type entity_name st =
     (let scope = route_scope route; key = route_key_of entity_type entity_name scope; av = fst st in
      case effective_route ve av entity_type (route_tags route) (apl_subblock v) (response_subblock ve v) key of
        Inl e \<Rightarrow> (Some e, st)
      | Inr effective \<Rightarrow>
          if phase_set_is_empty (declared_phases effective) then (None, st)
          else (case validate_parallel_plugin_modes (mode_for (snd st)) effective of
                  Inl msg \<Rightarrow> (Some (''route '' @ quote key @ '': parallel-safety: '' @ msg), st)
                | Inr _ \<Rightarrow>
                    (case hook_pair_for_entity entity_type of
                       None \<Rightarrow> (None, st)
                     | Some (hook_pre, hook_post) \<Rightarrow>
                         (None, av, install_handler ve entity_type entity_name scope hook_post Post effective av
                            (install_handler ve entity_type entity_name scope hook_pre Pre effective av (snd st))))))"

definition visit_route :: "('w, 's) visitor_env \<Rightarrow> yaml \<times> route_entry \<Rightarrow> ('w, 's) walk \<Rightarrow> string option \<times> ('w, 's) walk" where
  "visit_route ve vr st =
     (case vr of (v, route) \<Rightarrow>
        (case reject_legacy_apl_keys ''route'' v of
           Some e \<Rightarrow> (Some e, st)
         | None \<Rightarrow>
             (case entity_identity route of
                None \<Rightarrow> (None, st)
              | Some (entity_type, entity_names) \<Rightarrow> each (visit_entity ve v route entity_type) entity_names st)))"

subsection \<open>Loading a document\<close>

text \<open>A \<^verbatim>\<open>ConfigVisitor\<close> as the functions it runs on its own state and the engine.\<close>

record ('v, 'p, 'w) config_visitor =
  cv_name :: string
  cv_plugins :: "plugin_config list \<Rightarrow> 'v \<times> ('p, 'w) engine \<Rightarrow> string option \<times> 'v \<times> ('p, 'w) engine"
  cv_global :: "yaml \<Rightarrow> 'v \<times> ('p, 'w) engine \<Rightarrow> string option \<times> 'v \<times> ('p, 'w) engine"
  cv_default :: "string \<times> yaml \<Rightarrow> 'v \<times> ('p, 'w) engine \<Rightarrow> string option \<times> 'v \<times> ('p, 'w) engine"
  cv_policy_bundle :: "string \<times> yaml \<Rightarrow> 'v \<times> ('p, 'w) engine \<Rightarrow> string option \<times> 'v \<times> ('p, 'w) engine"
  cv_route :: "yaml \<times> route_entry \<Rightarrow> 'v \<times> ('p, 'w) engine \<Rightarrow> string option \<times> 'v \<times> ('p, 'w) engine"

definition apl_config_visitor :: "('w, 's) visitor_env \<Rightarrow> (('w, 's) apl_visitor, plugin_payload, 'w) config_visitor" where
  "apl_config_visitor ve =
     \<lparr>cv_name = ''apl'', cv_plugins = visit_plugins ve, cv_global = visit_global ve, cv_default = visit_default ve,
      cv_policy_bundle = visit_policy_bundle ve, cv_route = visit_route ve\<rparr>"

definition string_entries :: "(yaml \<times> yaml) list option \<Rightarrow> (string \<times> yaml) list" where
  "string_entries m =
     (case m of None \<Rightarrow> [] | Some es \<Rightarrow> List.map_filter (\<lambda>(k, v). map_option (\<lambda>s. (s, v)) (yaml_as_str k)) es)"

text \<open>The bundles of \<^verbatim>\<open>global.policies\<close> and of the top-level \<^verbatim>\<open>groups\<close>, which win.\<close>

definition policies_yaml :: "yaml \<Rightarrow> yaml \<Rightarrow> (yaml \<times> yaml) list option" where
  "policies_yaml raw global =
     (case (Option.bind (yaml_get global ''policies'') as_mapping, Option.bind (yaml_get raw ''groups'') as_mapping) of
        (None, None) \<Rightarrow> None
      | (Some p, None) \<Rightarrow> Some p
      | (None, Some g) \<Rightarrow> Some g
      | (Some p, Some g) \<Rightarrow> Some (fold (\<lambda>(k, v). AList.update k v) g p))"

definition route_pairs :: "yaml \<Rightarrow> route_entry list \<Rightarrow> (yaml \<times> route_entry) list" where
  "route_pairs raw routes =
     (let rs = unwrap_or (Option.bind (yaml_get raw ''routes'') as_sequence) []
      in map (\<lambda>(i, parsed). (if i < length rs then rs ! i else YNull, parsed)) (enumerate 0 routes))"

definition in_context :: "('v, 'p, 'w) config_visitor \<Rightarrow> string \<Rightarrow> string option \<times> 's \<Rightarrow> string option \<times> 's" where
  "in_context cv call r = (map_option (\<lambda>e. ''visitor '' @ quote (cv_name cv) @ '' '' @ call @ '': '' @ e) (fst r), snd r)"

definition walk_visitor ::
    "yaml \<Rightarrow> policy_config \<Rightarrow> ('v, 'p, 'w) config_visitor \<Rightarrow> 'v \<times> ('p, 'w) engine \<Rightarrow> string option \<times> 'v \<times> ('p, 'w) engine" where
  "walk_visitor raw config cv st =
     (let global = unwrap_or (yaml_get raw ''global'') YNull in
      chain (in_context cv ''visit_plugins'' (cv_plugins cv (pcf_plugins config) st)) (\<lambda>st.
      chain (in_context cv ''visit_global'' (cv_global cv global st)) (\<lambda>st.
      chain (each (\<lambda>kv st. in_context cv (''visit_default('' @ quote (fst kv) @ '')'') (cv_default cv kv st))
               (string_entries (Option.bind (yaml_get global ''defaults'') as_mapping)) st) (\<lambda>st.
      chain (each (\<lambda>kv st. in_context cv (''visit_policy_bundle('' @ quote (fst kv) @ '')'') (cv_policy_bundle cv kv st))
               (string_entries (policies_yaml raw global)) st) (\<lambda>st.
      each (\<lambda>ir st. in_context cv (''visit_route['' @ nat_to_string (fst ir) @ '']'') (cv_route cv (snd ir) st))
        (enumerate 0 (route_pairs raw (pcf_routes config))) st)))))"

definition load_config_yaml ::
    "(string \<Rightarrow> string + yaml) \<Rightarrow> (yaml \<Rightarrow> string + policy_config) \<Rightarrow> ('v, 'p, 'w) config_visitor list \<Rightarrow> string
     \<Rightarrow> 'v \<times> ('p, 'w) engine \<Rightarrow> 'w \<Rightarrow> plugin_failure option \<times> ('v \<times> ('p, 'w) engine) \<times> 'w" where
  "load_config_yaml from_str from_value visitors text st w =
     (case from_str text of
        Inl e \<Rightarrow> (Some (PF_Config (''YAML parse error: '' @ e)), st, w)
      | Inr raw \<Rightarrow>
          (case from_value raw of
             Inl e \<Rightarrow> (Some (PF_Config (''PolicyConfig deserialize error: '' @ e)), st, w)
           | Inr parsed \<Rightarrow>
               (case reject_renamed_identity_key raw of
                  Some e \<Rightarrow> (Some (PF_Config e), st, w)
                | None \<Rightarrow>
                    let config = merge_groups_into_policies parsed in
                    (case validate_config config of
                       Some e \<Rightarrow> (Some (PF_Config e), st, w)
                     | None \<Rightarrow>
                         (case load_config config (snd st) w of
                            (Some e, eng, w') \<Rightarrow> (Some e, (fst st, eng), w')
                          | (None, eng, w') \<Rightarrow>
                              (case each (walk_visitor raw config) visitors (fst st, eng) of
                                 (err, st') \<Rightarrow> (map_option PF_Config err, st', w')))))))"

end
