(* ===== verification/Visitor_Props.thy ===== *)
theory Visitor_Props
  imports Visitor
begin

text \<open>
  What loading a document leaves in the engine: which handlers there are, for which entities, and what they run.
\<close>

subsection \<open>Loops that may stop\<close>

lemma chain_simps [simp]: "chain (Some e, s) f = (Some e, s)" "chain (None, s) f = f s"
  by (simp_all add: chain_def)

lemma chain_eq_None: "chain r f = (None, s) \<longleftrightarrow> (\<exists>s1. r = (None, s1) \<and> f s1 = (None, s))"
  by (cases r; cases "fst r") auto

lemma chain_inv: "Q (snd r) \<Longrightarrow> (\<And>s. Q s \<Longrightarrow> Q (snd (f s))) \<Longrightarrow> Q (snd (chain r f))"
  by (cases r; cases "fst r") auto

lemma each_inv: "(\<And>x s. x \<in> set xs \<Longrightarrow> Q s \<Longrightarrow> Q (snd (f x s))) \<Longrightarrow> Q s \<Longrightarrow> Q (snd (each f xs s))"
proof (induction xs arbitrary: s)
  case (Cons x xs)
  show ?case unfolding each.simps by (rule chain_inv) (use Cons in auto)
qed simp

lemma each_append: "each f (xs @ ys) s = chain (each f xs s) (each f ys)"
proof (induction xs arbitrary: s)
  case (Cons x xs)
  then show ?case by (cases "f x s"; cases "fst (f x s)") auto
qed simp

text \<open>A loop that ends well went through every element.\<close>

lemma each_reach:
  assumes "each f xs s = (None, s')" "x \<in> set xs"
  shows "\<exists>s1 s2 ys. f x s1 = (None, s2) \<and> each f ys s2 = (None, s') \<and> set ys \<subseteq> set xs"
proof -
  obtain pre post where xs: "xs = pre @ x # post" using assms(2) by (meson split_list)
  then obtain s1 s2 where "f x s1 = (None, s2)" "each f post s2 = (None, s')"
    using assms(1) by (auto simp: each_append chain_eq_None)
  with xs show ?thesis by (intro exI [of _ s1] exI [of _ s2] exI [of _ post]) auto
qed

lemma in_context_simps [simp]: "snd (in_context cv call r) = snd r" "fst (in_context cv call r) = None \<longleftrightarrow> fst r = None"
  by (simp_all add: in_context_def)

lemma in_context_None [simp]: "in_context cv call r = (None, s) \<longleftrightarrow> r = (None, s)"
  by (cases r) (auto simp: in_context_def)

subsection \<open>Annotations\<close>

abbreviation annotations :: "('p, 'w) engine \<Rightarrow> (annotation_key \<times> ('p, 'w) hook_entry) list" where
  "annotations eng \<equiv> sn_route_annotations (eg_runtime eng)"

definition handler_key :: "string \<Rightarrow> string \<Rightarrow> string option \<Rightarrow> string \<Rightarrow> annotation_key" where
  "handler_key et en scope hook = \<lparr>ak_entity_type = et, ak_entity_name = en, ak_scope = scope, ak_hook_name = hook\<rparr>"

lemma handler_key_eq [simp]:
  "handler_key et en scope hook = handler_key et' en' scope' hook' \<longleftrightarrow> et = et' \<and> en = en' \<and> scope = scope' \<and> hook = hook'"
  by (simp add: handler_key_def)

definition runs :: "('w, 's) visitor_env \<Rightarrow> ('w, 's) route_handler \<Rightarrow> (plugin_payload, 'w) hook_entry \<Rightarrow> bool" where
  "runs ve handler entry \<longleftrightarrow> he_handler entry = ve_handler ve handler \<and> pr_trusted_config (he_plugin_ref entry) = rh_config handler"

lemma install_handler_annotations:
  "\<exists>entry. annotations (install_handler ve et en scope hook ph route av eng) = AList.update (handler_key et en scope hook) entry (annotations eng)
     \<and> runs ve (make_handler et en hook ph route av) entry"
  by (auto simp: install_handler_def annotate_route_def take_id_def mutate_runtime_def Let_def handler_key_def runs_def)

lemma install_handler_map_of:
  obtains entry where "map_of (annotations (install_handler ve et en scope hook ph route av eng)) =
      (map_of (annotations eng))(handler_key et en scope hook \<mapsto> entry)" "runs ve (make_handler et en hook ph route av) entry"
  using install_handler_annotations [of ve et en scope hook ph route av eng] that by (auto simp: update_conv')

lemma load_config_no_annotations: "load_config config eng w = (None, eng', w') \<Longrightarrow> annotations eng' = []"
  by (auto simp: load_config_def snapshot_from_config_def clear_routing_cache_def split: prod.splits sum.splits)

subsection \<open>Routes\<close>

text \<open>The two hooks of an entity type with their phases.\<close>

definition hook_phases :: "string \<Rightarrow> (string \<times> dispatch_phase) list" where
  "hook_phases et = (case hook_pair_for_entity et of Some (pre, post) \<Rightarrow> [(pre, Pre), (post, Post)] | None \<Rightarrow> [])"

definition http_key :: annotation_key where
  "http_key = handler_key ENTITY_HTTP ENTITY_NAME_GLOBAL None HOOK_CMF_HTTP_REQUEST"

definition route_effective ::
    "('w, 's) visitor_env \<Rightarrow> ('w, 's) apl_visitor \<Rightarrow> yaml \<Rightarrow> route_entry \<Rightarrow> string \<Rightarrow> string \<Rightarrow> string + compiled_route" where
  "route_effective ve av v route et en =
     effective_route ve av et (route_tags route) (apl_subblock v) (response_subblock ve v) (route_key_of et en (route_scope route))"

text \<open>Where an annotation comes from: a name written in a route, and the layers of that route.\<close>

definition from_route ::
    "('w, 's) visitor_env \<Rightarrow> ('w, 's) apl_visitor \<Rightarrow> (yaml \<times> route_entry) list \<Rightarrow> annotation_key \<Rightarrow> (plugin_payload, 'w) hook_entry \<Rightarrow> bool" where
  "from_route ve av pairs key entry \<longleftrightarrow>
     (\<exists>v route et names en hook ph eff. (v, route) \<in> set pairs \<and> entity_identity route = Some (et, names) \<and> en \<in> set names
        \<and> (hook, ph) \<in> set (hook_phases et) \<and> key = handler_key et en (route_scope route) hook
        \<and> route_effective ve av v route et en = Inr eff \<and> runs ve (make_handler et en hook ph eff av) entry)"

definition sourced ::
    "('w, 's) visitor_env \<Rightarrow> ('w, 's) apl_visitor \<Rightarrow> (yaml \<times> route_entry) list \<Rightarrow> ('w, 's) walk \<Rightarrow> bool" where
  "sourced ve av pairs st \<longleftrightarrow> fst st = av \<and>
     (\<forall>key entry. map_of (annotations (snd st)) key = Some entry \<longrightarrow> key = http_key \<or> from_route ve av pairs key entry)"

text \<open>What one pass over an entity does, when it ends well.\<close>

lemma visit_entity_cases:
  obtains (stays) "snd (visit_entity ve v route et en st) = st"
  | (installs) eff pre post where "route_effective ve (fst st) v route et en = Inr eff" "hook_pair_for_entity et = Some (pre, post)"
      "visit_entity ve v route et en st =
        (None, fst st, install_handler ve et en (route_scope route) post Post eff (fst st)
           (install_handler ve et en (route_scope route) pre Pre eff (fst st) (snd st)))"
proof (cases "route_effective ve (fst st) v route et en")
  case (Inl e)
  then show ?thesis by (intro stays) (simp add: visit_entity_def Let_def route_effective_def)
next
  case (Inr eff)
  show ?thesis
  proof (cases "phase_set_is_empty (declared_phases eff)")
    case True
    with Inr show ?thesis by (intro stays) (simp add: visit_entity_def Let_def route_effective_def)
  next
    case False
    show ?thesis
    proof (cases "validate_parallel_plugin_modes (mode_for (snd st)) eff")
      case (Inl msg)
      with Inr False show ?thesis by (intro stays) (simp add: visit_entity_def Let_def route_effective_def)
    next
      case ok: (Inr u)
      show ?thesis
      proof (cases "hook_pair_for_entity et")
        case None
        with Inr False ok show ?thesis by (intro stays) (simp add: visit_entity_def Let_def route_effective_def)
      next
        case (Some hooks)
        obtain pre post where "hooks = (pre, post)" by (cases hooks)
        with Some Inr False ok show ?thesis
          by (intro installs) (simp_all add: visit_entity_def Let_def route_effective_def)
      qed
    qed
  qed
qed

lemma visit_entity_sourced:
  assumes "sourced ve av pairs st" "(v, route) \<in> set pairs" "entity_identity route = Some (et, names)" "en \<in> set names"
  shows "sourced ve av pairs (snd (visit_entity ve v route et en st))"
proof (cases ve v route et en st rule: visit_entity_cases)
  case stays
  with assms(1) show ?thesis by simp
next
  case (installs eff pre post)
  have av: "fst st = av" using assms(1) by (simp add: sourced_def)
  let ?eng1 = "install_handler ve et en (route_scope route) pre Pre eff av (snd st)"
  obtain e1 where e1: "map_of (annotations ?eng1) = (map_of (annotations (snd st)))(handler_key et en (route_scope route) pre \<mapsto> e1)"
    "runs ve (make_handler et en pre Pre eff av) e1" by (rule install_handler_map_of)
  obtain e2 where e2: "map_of (annotations (install_handler ve et en (route_scope route) post Post eff av ?eng1)) =
      (map_of (annotations ?eng1))(handler_key et en (route_scope route) post \<mapsto> e2)"
    "runs ve (make_handler et en post Post eff av) e2" by (rule install_handler_map_of)
  have new: "from_route ve av pairs (handler_key et en (route_scope route) hook) entry"
    if "(hook, ph, entry) \<in> {(pre, Pre, e1), (post, Post, e2)}" for hook ph entry
    unfolding from_route_def using that assms(2-4) installs(1,2) e1(2) e2(2) av
    by (intro exI [of _ v] exI [of _ route] exI [of _ et] exI [of _ names] exI [of _ en] exI [of _ hook] exI [of _ ph] exI [of _ eff])
       (auto simp: hook_phases_def)
  show ?thesis
    using assms(1) e1(1) e2(1) installs(3) av new [of pre Pre e1] new [of post Post e2]
    by (auto simp: sourced_def split: if_splits)
qed

lemma visit_route_sourced:
  assumes "sourced ve av pairs st" "vr \<in> set pairs"
  shows "sourced ve av pairs (snd (visit_route ve vr st))"
proof -
  obtain v route where vr: "vr = (v, route)" by (cases vr)
  have "sourced ve av pairs (snd (each (visit_entity ve v route et) names st))" if "entity_identity route = Some (et, names)" for et names
    by (rule each_inv [where Q = "sourced ve av pairs"]) (use assms vr that visit_entity_sourced in blast)+
  with assms(1) show ?thesis by (auto simp: vr visit_route_def split: option.split prod.split)
qed

text \<open>The sections before the routes leave at most the handler for requests without an entity.\<close>

lemma visit_global_annotations:
  "map_of (annotations (snd st)) key = None \<Longrightarrow> key \<noteq> http_key \<Longrightarrow> map_of (annotations (snd (snd (visit_global ve v st)))) key = None"
proof -
  assume key: "map_of (annotations (snd st)) key = None" "key \<noteq> http_key"
  have "map_of (annotations (install_handler ve ENTITY_HTTP ENTITY_NAME_GLOBAL None HOOK_CMF_HTTP_REQUEST Pre c av (snd st))) key = None" for c av
    by (rule install_handler_map_of [of ve ENTITY_HTTP ENTITY_NAME_GLOBAL None HOOK_CMF_HTTP_REQUEST Pre c av "snd st"])
      (use key in \<open>simp add: http_key_def\<close>)
  then show ?thesis using key(1) by (auto simp: visit_global_def Let_def split: option.split prod.split sum.split)
qed

lemma visit_default_engine [simp]: "snd (snd (visit_default ve kv st)) = snd st"
  by (auto simp: visit_default_def split: sum.split option.split)

lemma visit_policy_bundle_engine [simp]: "snd (snd (visit_policy_bundle ve kv st)) = snd st"
  by (auto simp: visit_policy_bundle_def split: sum.split option.split)

lemma visit_plugins_engine [simp]: "snd (snd (visit_plugins ve ps st)) = snd st"
  by (simp add: visit_plugins_def)

definition prepare ::
    "('w, 's) visitor_env \<Rightarrow> yaml \<Rightarrow> policy_config \<Rightarrow> ('w, 's) walk \<Rightarrow> string option \<times> ('w, 's) walk" where
  "prepare ve raw config st =
     (let cv = apl_config_visitor ve; global = unwrap_or (yaml_get raw ''global'') YNull in
      chain (in_context cv ''visit_plugins'' (visit_plugins ve (pcf_plugins config) st)) (\<lambda>st.
      chain (in_context cv ''visit_global'' (visit_global ve global st)) (\<lambda>st.
      chain (each (\<lambda>kv st. in_context cv (''visit_default('' @ quote (fst kv) @ '')'') (visit_default ve kv st))
               (string_entries (Option.bind (yaml_get global ''defaults'') as_mapping)) st) (\<lambda>st.
      each (\<lambda>kv st. in_context cv (''visit_policy_bundle('' @ quote (fst kv) @ '')'') (visit_policy_bundle ve kv st))
               (string_entries (policies_yaml raw global)) st))))"

definition visit_routes ::
    "('w, 's) visitor_env \<Rightarrow> (yaml \<times> route_entry) list \<Rightarrow> ('w, 's) walk \<Rightarrow> string option \<times> ('w, 's) walk" where
  "visit_routes ve pairs st =
     each (\<lambda>ir st. in_context (apl_config_visitor ve) (''visit_route['' @ nat_to_string (fst ir) @ '']'') (visit_route ve (snd ir) st))
       (enumerate 0 pairs) st"

lemma walk_visitor_split:
  "walk_visitor raw config (apl_config_visitor ve) st =
     chain (prepare ve raw config st) (visit_routes ve (route_pairs raw (pcf_routes config)))"
proof -
  have assoc: "chain (chain r f) g = chain r (\<lambda>s. chain (f s) g)" for r :: "'e option \<times> 'x" and f g
    by (cases r; cases "fst r") auto
  show ?thesis
    by (simp add: walk_visitor_def prepare_def visit_routes_def [abs_def] Let_def assoc apl_config_visitor_def)
qed

lemma prepare_annotations:
  assumes "annotations (snd st) = []" "map_of (annotations (snd (snd (prepare ve raw config st)))) key = Some entry"
  shows "key = http_key"
proof (rule ccontr)
  let ?Q = "\<lambda>st :: ('a, 'b) walk. map_of (annotations (snd st)) key = None"
  assume "key \<noteq> http_key"
  then have global: "?Q (snd (in_context cv call (visit_global ve v st)))" if "?Q st" for v st cv call
    using that visit_global_annotations by simp
  have "?Q (snd (prepare ve raw config st))"
    unfolding prepare_def Let_def
    by (intro chain_inv [where Q = ?Q] each_inv [where Q = ?Q] global) (use assms(1) in simp_all)
  with assms(2) show False by simp
qed

lemma visit_routes_sourced:
  assumes "sourced ve av pairs st"
  shows "sourced ve av pairs (snd (visit_routes ve pairs st))"
  unfolding visit_routes_def
proof (rule each_inv [where Q = "sourced ve av pairs"])
  fix ir and s :: "('a, 'b) walk"
  assume "ir \<in> set (enumerate 0 pairs)" "sourced ve av pairs s"
  moreover have "snd ` set (enumerate 0 pairs) = set pairs" by (metis list.set_map map_snd_enumerate)
  ultimately show "sourced ve av pairs (snd (in_context (apl_config_visitor ve) (''visit_route['' @ nat_to_string (fst ir) @ '']'') (visit_route ve (snd ir) s)))"
    using visit_route_sourced by (metis imageI in_context_simps(1))
qed (rule assms)

text \<open>Visiting routes adds annotations and changes nothing else that a later route depends on.\<close>

definition extends :: "('w, 's) walk \<Rightarrow> ('w, 's) walk \<Rightarrow> bool" where
  "extends st st' \<longleftrightarrow> fst st' = fst st \<and> mode_for (snd st') = mode_for (snd st)
     \<and> dom (map_of (annotations (snd st))) \<subseteq> dom (map_of (annotations (snd st')))"

lemma extends_refl: "extends st st"
  by (simp add: extends_def)

lemma extends_trans: "extends a b \<Longrightarrow> extends b c \<Longrightarrow> extends a c"
  by (auto simp: extends_def)

lemma install_extends: "extends (av, eng) (av, install_handler ve et en scope hook ph route av' eng)"
proof -
  have "mode_for (install_handler ve et en scope hook ph route av' eng) = mode_for eng"
    by (simp add: install_handler_def annotate_route_def take_id_def mutate_runtime_def Let_def mode_for_def fun_eq_iff)
  moreover obtain entry where "map_of (annotations (install_handler ve et en scope hook ph route av' eng)) =
      (map_of (annotations eng))(handler_key et en scope hook \<mapsto> entry)" by (rule install_handler_map_of)
  ultimately show ?thesis by (auto simp: extends_def)
qed

lemma visit_entity_extends: "extends st (snd (visit_entity ve v route et en st))"
proof (cases ve v route et en st rule: visit_entity_cases)
  case (installs eff pre post)
  have "extends (fst st, snd st) (fst st, install_handler ve et en (route_scope route) post Post eff (fst st)
      (install_handler ve et en (route_scope route) pre Pre eff (fst st) (snd st)))"
    by (rule extends_trans [OF install_extends install_extends])
  with installs(3) show ?thesis by simp
qed (simp add: extends_refl)

lemma each_extends: "(\<And>x s. x \<in> set xs \<Longrightarrow> extends s (snd (f x s))) \<Longrightarrow> extends st (snd (each f xs st))"
  by (rule each_inv [where Q = "extends st"]) (blast intro: extends_trans extends_refl)+

lemma visit_route_extends: "extends st (snd (visit_route ve vr st))"
  by (auto simp: visit_route_def extends_refl visit_entity_extends intro: each_extends split: prod.split option.split)

text \<open>What visiting a route from \<open>st\<close> to \<open>st'\<close> has seen to for one of its entities.\<close>

definition guarded ::
    "('w, 's) visitor_env \<Rightarrow> ('w, 's) walk \<Rightarrow> ('w, 's) walk \<Rightarrow> yaml \<Rightarrow> route_entry \<Rightarrow> string \<Rightarrow> string \<Rightarrow> bool" where
  "guarded ve st st' v route et en \<longleftrightarrow>
     (\<exists>eff. route_effective ve (fst st) v route et en = Inr eff \<and>
       (\<not> phase_set_is_empty (declared_phases eff) \<longrightarrow> validate_parallel_plugin_modes (mode_for (snd st)) eff = Inr ()
          \<and> (\<forall>hook \<in> fst ` set (hook_phases et). handler_key et en (route_scope route) hook \<in> dom (map_of (annotations (snd st'))))))"

lemma guarded_extends: "guarded ve st st' v route et en \<Longrightarrow> extends st0 st \<Longrightarrow> extends st' st'' \<Longrightarrow> guarded ve st0 st'' v route et en"
  by (force simp: guarded_def extends_def)

lemma visit_entity_done:
  assumes "visit_entity ve v route et en st = (None, st')"
  shows "guarded ve st st' v route et en"
proof -
  obtain eff where eff: "route_effective ve (fst st) v route et en = Inr eff"
    using assms by (cases "route_effective ve (fst st) v route et en") (simp_all add: visit_entity_def Let_def route_effective_def)
  have "validate_parallel_plugin_modes (mode_for (snd st)) eff = Inr ()
       \<and> (\<forall>hook \<in> fst ` set (hook_phases et). handler_key et en (route_scope route) hook \<in> dom (map_of (annotations (snd st'))))"
    if ne: "\<not> phase_set_is_empty (declared_phases eff)"
  proof -
    have ok: "validate_parallel_plugin_modes (mode_for (snd st)) eff = Inr ()"
      using assms eff ne by (cases "validate_parallel_plugin_modes (mode_for (snd st)) eff") (simp_all add: visit_entity_def Let_def route_effective_def)
    show ?thesis
    proof (cases "hook_pair_for_entity et")
      case (Some hooks)
      obtain pre post where hooks: "hooks = (pre, post)" by (cases hooks)
      let ?eng1 = "install_handler ve et en (route_scope route) pre Pre eff (fst st) (snd st)"
      obtain e1 where e1: "map_of (annotations ?eng1) = (map_of (annotations (snd st)))(handler_key et en (route_scope route) pre \<mapsto> e1)"
        by (rule install_handler_map_of)
      obtain e2 where e2: "map_of (annotations (install_handler ve et en (route_scope route) post Post eff (fst st) ?eng1)) =
          (map_of (annotations ?eng1))(handler_key et en (route_scope route) post \<mapsto> e2)" by (rule install_handler_map_of)
      have "snd st' = install_handler ve et en (route_scope route) post Post eff (fst st) ?eng1"
        using assms eff ne ok Some hooks by (auto simp: visit_entity_def Let_def route_effective_def)
      with ok Some hooks e1 e2 show ?thesis by (auto simp: hook_phases_def)
    qed (simp add: ok hook_phases_def)
  qed
  with eff show ?thesis by (simp add: guarded_def)
qed

lemma visit_route_done:
  assumes "visit_route ve (v, route) st = (None, st')" "entity_identity route = Some (et, names)" "en \<in> set names"
  shows "guarded ve st st' v route et en"
proof -
  have run: "each (visit_entity ve v route et) names st = (None, st')"
    using assms(1,2) by (auto simp: visit_route_def split: option.splits)
  obtain pre post where names: "names = pre @ en # post" using assms(3) by (meson split_list)
  then obtain s1 s2 where s: "each (visit_entity ve v route et) pre st = (None, s1)" "visit_entity ve v route et en s1 = (None, s2)"
    "each (visit_entity ve v route et) post s2 = (None, st')"
    using run by (auto simp: each_append chain_eq_None)
  have ext: "extends a (snd (each (visit_entity ve v route et) ens a))" for ens a
    by (rule each_extends) (rule visit_entity_extends)
  have "extends st s1" "extends s2 st'" using ext [of st pre] ext [of s2 post] s(1,3) by simp_all
  then show ?thesis using visit_entity_done [OF s(2)] guarded_extends by blast
qed

lemma visit_routes_done:
  assumes "visit_routes ve pairs st = (None, st')" "(v, route) \<in> set pairs" "entity_identity route = Some (et, names)" "en \<in> set names"
  shows "guarded ve st st' v route et en"
proof -
  let ?f = "\<lambda>ir st. in_context (apl_config_visitor ve) (''visit_route['' @ nat_to_string (fst ir) @ '']'') (visit_route ve (snd ir) st)"
  have "snd ` set (enumerate 0 pairs) = set pairs" by (metis list.set_map map_snd_enumerate)
  then obtain i where "(i, v, route) \<in> set (enumerate 0 pairs)" using assms(2) by force
  then obtain pre post where "enumerate 0 pairs = pre @ (i, v, route) # post" by (meson split_list)
  then obtain s1 s2 where s: "each ?f pre st = (None, s1)" "visit_route ve (v, route) s1 = (None, s2)" "each ?f post s2 = (None, st')"
    using assms(1) by (auto simp: visit_routes_def each_append chain_eq_None)
  have ext: "extends a (snd (each ?f irs a))" for irs a
    by (rule each_extends) (simp add: visit_route_extends)
  have "extends st s1" "extends s2 st'" using ext [of st pre] ext [of s2 post] s(1,3) by simp_all
  then show ?thesis using visit_route_done [OF s(2) assms(3,4)] guarded_extends by blast
qed

subsection \<open>Layers\<close>

definition layer_list :: "(compiled_route \<Rightarrow> 'a list) \<Rightarrow> compiled_route option \<Rightarrow> 'a list" where
  "layer_list sel layer = (case layer of Some l \<Rightarrow> sel l | None \<Rightarrow> [])"

text \<open>The effects a route inherits: global, then the default of its entity type, then its tags in order.\<close>

definition inherited :: "(compiled_route \<Rightarrow> 'a list) \<Rightarrow> ('w, 's) apl_visitor \<Rightarrow> string \<Rightarrow> string list \<Rightarrow> 'a list" where
  "inherited sel av et tags =
     layer_list sel (av_global_layer av) @ layer_list sel (av_default_layers av et)
     @ concat (map (\<lambda>tag. layer_list sel (av_tag_layers av tag)) tags)"

lemma add_layer_policy:
  "cr_policy (add_layer l r) = cr_policy r @ layer_list cr_policy l"
  "cr_post_policy (add_layer l r) = cr_post_policy r @ layer_list cr_post_policy l"
  by (auto simp: add_layer_def layer_list_def apply_layer_def split: option.split)

lemma fold_layers_policy:
  "cr_policy (fold (\<lambda>tag. add_layer (ls tag)) tags r) = cr_policy r @ concat (map (\<lambda>tag. layer_list cr_policy (ls tag)) tags)"
  "cr_post_policy (fold (\<lambda>tag. add_layer (ls tag)) tags r) = cr_post_policy r @ concat (map (\<lambda>tag. layer_list cr_post_policy (ls tag)) tags)"
  by (induction tags arbitrary: r) (simp_all add: add_layer_policy)

lemma stack_layers_policy:
  "cr_policy (stack_layers av et tags key) = inherited cr_policy av et tags"
  "cr_post_policy (stack_layers av et tags key) = inherited cr_post_policy av et tags"
  by (simp_all add: stack_layers_def fold_layers_policy add_layer_policy inherited_def compiled_route_new_def)

definition own_layer :: "('w, 's) visitor_env \<Rightarrow> yaml \<Rightarrow> string \<Rightarrow> string + compiled_route option" where
  "own_layer ve v key =
     (case apl_subblock v of
        None \<Rightarrow> Inr None
      | Some block \<Rightarrow> res_bind (compile_block ve (''routes.'' @ key @ ''.apl'') block) (\<lambda>l. Inr (Some l)))"

lemma route_effective_policy:
  assumes "route_effective ve av v route et en = Inr eff"
  obtains own where "own_layer ve v (route_key_of et en (route_scope route)) = Inr own"
    "cr_policy eff = inherited cr_policy av et (route_tags route) @ layer_list cr_policy own"
    "cr_post_policy eff = inherited cr_post_policy av et (route_tags route) @ layer_list cr_post_policy own"
proof (cases "apl_subblock v")
  case None
  with assms show ?thesis
    by (intro that [of None]) (auto simp: route_effective_def effective_route_def own_layer_def stack_layers_policy layer_list_def)
next
  case (Some block)
  then obtain l where l: "compile_block ve (''routes.'' @ route_key_of et en (route_scope route) @ ''.apl'') block = Inr l"
    using assms by (auto simp: route_effective_def effective_route_def res_bind_eq_Inr)
  with Some assms show ?thesis
    by (intro that [of "Some l"])
       (auto simp: route_effective_def effective_route_def own_layer_def stack_layers_policy layer_list_def apply_layer_def Let_def)
qed

subsection \<open>Loading\<close>

lemma merge_groups_routes [simp]: "pcf_routes (merge_groups_into_policies config) = pcf_routes config"
  by (simp add: merge_groups_into_policies_def)

lemma load_config_yaml_ok:
  assumes "load_config_yaml from_str from_value [apl_config_visitor ve] text (av, eng) w = (None, (av', eng'), w')"
    and "from_str text = Inr raw" "from_value raw = Inr parsed"
  obtains eng1 st2 where "annotations eng1 = []" "prepare ve raw (merge_groups_into_policies parsed) (av, eng1) = (None, st2)"
    "visit_routes ve (route_pairs raw (pcf_routes parsed)) st2 = (None, av', eng')"
proof -
  let ?config = "merge_groups_into_policies parsed"
  obtain eng1 where load: "load_config ?config eng w = (None, eng1, w')"
    and walk: "each (walk_visitor raw ?config) [apl_config_visitor ve] (av, eng1) = (None, av', eng')"
    using assms by (auto simp: load_config_yaml_def Let_def split: option.splits prod.splits)
  from walk obtain st2 where "prepare ve raw ?config (av, eng1) = (None, st2)"
    "visit_routes ve (route_pairs raw (pcf_routes ?config)) st2 = (None, av', eng')"
    by (auto simp: walk_visitor_split chain_eq_None)
  with load_config_no_annotations [OF load] that show ?thesis by simp
qed

lemma routes_of_pairs: "snd ` set (route_pairs raw routes) = set routes"
proof -
  have "snd ` set (route_pairs raw routes) = snd ` set (enumerate 0 routes)"
    by (force simp: route_pairs_def Let_def)
  also have "\<dots> = set routes" by (metis list.set_map map_snd_enumerate)
  finally show ?thesis .
qed

text \<open>After a load every annotation but the one for plain HTTP requests comes from a route of the document.\<close>

lemma loaded_sourced:
  assumes "load_config_yaml from_str from_value [apl_config_visitor ve] text (av, eng) w = (None, (av', eng'), w')"
    and "from_str text = Inr raw" "from_value raw = Inr parsed"
  shows "sourced ve av' (route_pairs raw (pcf_routes parsed)) (av', eng')"
proof -
  obtain eng1 st2 where s: "annotations eng1 = []" "prepare ve raw (merge_groups_into_policies parsed) (av, eng1) = (None, st2)"
    "visit_routes ve (route_pairs raw (pcf_routes parsed)) st2 = (None, av', eng')"
    by (rule load_config_yaml_ok [OF assms])
  have "sourced ve (fst st2) (route_pairs raw (pcf_routes parsed)) st2"
    using prepare_annotations [of "(av, eng1)" ve raw "merge_groups_into_policies parsed"] s(1,2) by (auto simp: sourced_def)
  from visit_routes_sourced [OF this] s(3) show ?thesis by (simp add: sourced_def)
qed

lemma loaded_guarded:
  assumes "load_config_yaml from_str from_value [apl_config_visitor ve] text (av, eng) w = (None, (av', eng'), w')"
    and "from_str text = Inr raw" "from_value raw = Inr parsed"
    and "(v, route) \<in> set (route_pairs raw (pcf_routes parsed))" "entity_identity route = Some (et, names)" "en \<in> set names"
  shows "guarded ve (av', eng') (av', eng') v route et en"
proof -
  obtain eng1 st2 where s: "prepare ve raw (merge_groups_into_policies parsed) (av, eng1) = (None, st2)"
    "visit_routes ve (route_pairs raw (pcf_routes parsed)) st2 = (None, av', eng')"
    by (rule load_config_yaml_ok [OF assms(1-3)])
  have "extends st2 (snd (visit_routes ve (route_pairs raw (pcf_routes parsed)) st2))"
    unfolding visit_routes_def by (rule each_extends) (simp add: visit_route_extends)
  with visit_routes_done [OF s(2) assms(4-6)] s(2) show ?thesis by (simp add: guarded_def extends_def)
qed

lemma hook_pair_not_http: "hook_phases ENTITY_HTTP = []"
  by (simp add: hook_phases_def hook_pair_for_entity_def ENTITY_HTTP_def ENTITY_TOOL_def ENTITY_LLM_def ENTITY_PROMPT_def ENTITY_RESOURCE_def)

text \<open>A request whose entity and scope are annotated gets the annotated handler and nothing else.\<close>

lemma lookup_annotated:
  assumes "map_of (sn_route_annotations snap) (handler_key et en (me_scope meta) hook) = Some entry"
    and "ex_meta ext = Some (arc, meta)" "me_entity_type meta = Some et" "me_entity_name meta = Some en"
  shows "lookup_entries gp snap cache entries ext hook = Ready [entry]"
proof -
  have "find_annotation snap meta hook = Some entry"
    using assms(1,3,4) by (cases "me_scope meta") (auto simp: find_annotation_def handler_key_def Let_def)
  moreover have "sn_route_annotations snap \<noteq> []" using assms(1) by auto
  ultimately show ?thesis using assms(2) by (simp add: lookup_entries_def)
qed

lemma declared_phases_empty: "phase_set_is_empty (declared_phases r) \<Longrightarrow> cr_policy r = [] \<and> cr_post_policy r = []"
  using declared_phases_iff [of r Ph_Policy] declared_phases_iff [of r Ph_PostPolicy]
  by (auto simp: phase_set_is_empty_def phase_set_contains_def)

lemma guarded_modes:
  assumes "guarded ve (av, eng) st v route et en" "route_effective ve av v route et en = Inr eff"
    and "e \<in> set (cr_policy eff @ cr_post_policy eff)" "parallel_plugin name e"
  shows "\<exists>m. mode_for eng name = Some m \<and> \<not> can_modify m"
proof -
  have "\<not> phase_set_is_empty (declared_phases eff)" using declared_phases_empty [of eff] assms(3) by auto
  with assms(1,2) have "validate_parallel_plugin_modes (mode_for eng) eff = Inr ()" by (auto simp: guarded_def)
  with assms(3,4) show ?thesis unfolding validate_modes_iff by (fastforce simp: is_safe_in_parallel_def can_modify_def)
qed

text \<open>An entity no route names has no annotation, whatever pattern would match it.\<close>

lemma unlisted_not_annotated:
  assumes "sourced ve av pairs (av, eng)" "et \<noteq> ENTITY_HTTP"
    and "\<And>v route names. (v, route) \<in> set pairs \<Longrightarrow> entity_identity route = Some (et, names) \<Longrightarrow> en \<notin> set names"
  shows "map_of (annotations eng) (handler_key et en scope hook) = None"
proof (rule ccontr)
  assume "map_of (annotations eng) (handler_key et en scope hook) \<noteq> None"
  then obtain entry where "map_of (annotations eng) (handler_key et en scope hook) = Some entry" by blast
  moreover have "handler_key et en scope hook \<noteq> http_key" using assms(2) by (simp add: http_key_def)
  ultimately have "from_route ve av pairs (handler_key et en scope hook) entry" using assms(1) by (auto simp: sourced_def)
  with assms(3) show False by (auto simp: from_route_def)
qed

end
