(* ===== verification/Hook_Results.thy ===== *)
theory Hook_Results
  imports Hook_Payloads Engine
begin

text \<open>
  What a typed handler returns, \<^verbatim>\<open>crates/ppe-core/src/hooks/trait_def.rs\<close>, and how it becomes a handler of the
  registry, \<^verbatim>\<open>hooks/adapter.rs\<close> and \<^verbatim>\<open>erase_result\<close> of \<^verbatim>\<open>executor.rs\<close>.
\<close>

record 'p plugin_result =
  pu_continue_processing :: bool
  pu_modified_payload :: "'p option"
  pu_modified_extensions :: "owned_extensions option"
  pu_violation :: "plugin_violation option"
  pu_metadata :: "json option"

definition result_allow :: "'p plugin_result" where
  "result_allow = \<lparr>pu_continue_processing = True, pu_modified_payload = None, pu_modified_extensions = None, pu_violation = None,
     pu_metadata = None\<rparr>"

definition result_deny :: "plugin_violation \<Rightarrow> 'p plugin_result" where
  "result_deny v = \<lparr>pu_continue_processing = False, pu_modified_payload = None, pu_modified_extensions = None, pu_violation = Some v,
     pu_metadata = None\<rparr>"

definition modify_payload :: "'p \<Rightarrow> 'p plugin_result" where
  "modify_payload p = \<lparr>pu_continue_processing = True, pu_modified_payload = Some p, pu_modified_extensions = None, pu_violation = None,
     pu_metadata = None\<rparr>"

definition modify_extensions :: "owned_extensions \<Rightarrow> 'p plugin_result" where
  "modify_extensions e = \<lparr>pu_continue_processing = True, pu_modified_payload = None, pu_modified_extensions = Some e, pu_violation = None,
     pu_metadata = None\<rparr>"

definition modify_both :: "'p \<Rightarrow> owned_extensions \<Rightarrow> 'p plugin_result" where
  "modify_both p e = \<lparr>pu_continue_processing = True, pu_modified_payload = Some p, pu_modified_extensions = Some e, pu_violation = None,
     pu_metadata = None\<rparr>"

definition result_is_denied :: "'p plugin_result \<Rightarrow> bool" where
  "result_is_denied r \<longleftrightarrow> \<not> pu_continue_processing r"

definition is_payload_modified :: "'p plugin_result \<Rightarrow> bool" where
  "is_payload_modified r \<longleftrightarrow> pu_modified_payload r \<noteq> None"

definition is_extensions_modified :: "'p plugin_result \<Rightarrow> bool" where
  "is_extensions_modified r \<longleftrightarrow> pu_modified_extensions r \<noteq> None"

definition erase_result :: "('t \<Rightarrow> 'p) \<Rightarrow> 't plugin_result \<Rightarrow> 'p erased_result" where
  "erase_result up r = \<lparr>rf_continue_processing = pu_continue_processing r, rf_modified_payload = map_option up (pu_modified_payload r),
     rf_modified_extensions = pu_modified_extensions r, rf_violation = pu_violation r\<rparr>"

text \<open>
  \<^verbatim>\<open>TypedHandlerAdapter\<close>: the payload type is given by its two casts and its name, the hook by its name.  A handler
  ends with a result or, on the left, with the message of a panic.
\<close>

definition typed_adapter ::
    "string \<Rightarrow> string \<Rightarrow> ('p \<Rightarrow> 't option) \<Rightarrow> ('t \<Rightarrow> 'p)
     \<Rightarrow> ('w \<Rightarrow> 't \<Rightarrow> extensions \<Rightarrow> plugin_context \<Rightarrow> nat \<times> (string + 't plugin_result) \<times> plugin_context \<times> 'w)
     \<Rightarrow> ('p, 'w) hook_handler" where
  "typed_adapter hook_name type_name down up handle =
     \<lparr>hh_invoke = (\<lambda>w payload ext ctx.
        case down payload of
          None \<Rightarrow> (0, H_Err (PF_Config (''payload type mismatch for hook '' @ quote hook_name @ '': expected '' @ type_name)), ctx, w)
        | Some typed_ref \<Rightarrow>
            (case handle w typed_ref ext ctx of (elapsed, result, ctx', w') \<Rightarrow>
               (elapsed, case result of Inr r \<Rightarrow> H_Ok (Some (erase_result up r)) | Inl msg \<Rightarrow> H_Panic msg, ctx', w'))),
      hh_hook_type_name = hook_name\<rparr>"

lemmas plugin_result_simps = result_allow_def result_deny_def modify_payload_def modify_extensions_def modify_both_def

lemma result_is_denied_simps [simp]:
  "\<not> result_is_denied result_allow" "result_is_denied (result_deny v)" "\<not> result_is_denied (modify_payload p)"
  "\<not> result_is_denied (modify_extensions e)" "\<not> result_is_denied (modify_both p e)"
  by (simp_all add: result_is_denied_def plugin_result_simps)

end
