(* ===== verification/Http_Client.thy ===== *)
theory Http_Client
  imports Hook_Results Policy_Text
begin

text \<open>
  What the built-in plugins share: the HTTP requests they make, the secrets they are configured with
  (\<^verbatim>\<open>config.rs\<close> of \<^verbatim>\<open>builtins/plugins/delegator-oauth\<close> and of \<^verbatim>\<open>builtins/plugins/elicitation-ciba\<close>), and reading one claim
  of a token.  The network is a function from requests to answers; the environment, the file system, base64 and JSON
  parsing are the record \<open>client_env\<close>.
\<close>

lemma map_err_eq_Inr [simp]: "map_err f r = Inr x \<longleftrightarrow> r = Inr x"
  by (cases r) auto

lemma ok_or_eq_Inr [simp]: "ok_or e x = Inr y \<longleftrightarrow> x = Some y"
  by (auto simp: ok_or_def split: option.split)

subsection \<open>Requests and answers\<close>

record http_request =
  hq_url :: string
  hq_basic_auth :: "(string \<times> string) option"
  hq_form :: "(string \<times> string) list"

text \<open>An error of the HTTP client, a time-out told apart; the body of an answer may fail to arrive.\<close>

record http_error =
  he_is_timeout :: bool
  he_text :: string

record http_response =
  hr_status :: nat
  hr_status_text :: string
  hr_body :: "string + string"

type_synonym http_client = "http_request \<Rightarrow> http_error + http_response"

definition is_success :: "http_response \<Rightarrow> bool" where
  "is_success r \<longleftrightarrow> 200 \<le> hr_status r \<and> hr_status r < 300"

text \<open>\<^verbatim>\<open>response.text().await.unwrap_or_default()\<close>, and \<^verbatim>\<open>response.json()\<close> with the reader of the expected type.\<close>

definition body_or_default :: "http_response \<Rightarrow> string" where
  "body_or_default r = (case hr_body r of Inr b \<Rightarrow> b | Inl _ \<Rightarrow> [])"

definition body_json :: "(string \<Rightarrow> string + 'a) \<Rightarrow> http_response \<Rightarrow> string + 'a" where
  "body_json reader r = res_bind (hr_body r) reader"

subsection \<open>Client secrets\<close>

record client_env =
  ce_env_var :: "string \<Rightarrow> string + string"
  ce_read_file :: "string \<Rightarrow> string + string"
  ce_build_client :: "u64 \<Rightarrow> string + unit"
  ce_base64 :: "string \<Rightarrow> string option"
  ce_json :: "string \<Rightarrow> json option"
  ce_plus_seconds :: "datetime \<Rightarrow> int \<Rightarrow> string + datetime"

datatype client_secret_source =
    CS_EnvVar string
  | CS_File string
  | CS_Literal string

fun resolve_secret :: "client_env \<Rightarrow> client_secret_source \<Rightarrow> string + string" where
  "resolve_secret ce (CS_EnvVar name) = map_err (\<lambda>e. ''env var '' @ quote name @ '' unavailable: '' @ e) (ce_env_var ce name)"
| "resolve_secret ce (CS_File path) =
     map_err (\<lambda>e. ''secret file '' @ quote path @ '' unreadable: '' @ e) (res_bind (ce_read_file ce path) (\<lambda>s. Inr (trim s)))"
| "resolve_secret ce (CS_Literal secret) = Inr secret"

text \<open>Plaintext endpoints are refused unless the configuration asks for them; other schemes are left to the URL parser.\<close>

definition endpoint_https :: "string \<Rightarrow> bool \<Rightarrow> string + unit" where
  "endpoint_https url insecure_http =
     (let lowered = to_ascii_lowercase (trim_start url) in
      if starts_with lowered ''https://'' then Inr ()
      else if starts_with lowered ''http://''
      then (if insecure_http then Inr ()
            else Inl (''must use https:// (got '' @ quote url @ ''). Set `insecure_http: true` to allow plaintext for localhost/dev only ''
                   @ em_dash @ '' never production.''))
      else Inr ())"

lemma endpoint_https_plain:
  "endpoint_https url False = Inr () \<longleftrightarrow>
     starts_with (to_ascii_lowercase (trim_start url)) ''https://'' \<or> \<not> starts_with (to_ascii_lowercase (trim_start url)) ''http://''"
  by (simp add: endpoint_https_def Let_def)

subsection \<open>Reading a claim without verifying the token\<close>

definition token_claims :: "client_env \<Rightarrow> string \<Rightarrow> json option" where
  "token_claims ce token =
     (case split_on (CHR ''.'') token of
        _ # payload_b64 # _ \<Rightarrow> Option.bind (ce_base64 ce payload_b64) (ce_json ce)
      | _ \<Rightarrow> None)"

definition decode_jwt_claim :: "client_env \<Rightarrow> string \<Rightarrow> string \<Rightarrow> string option" where
  "decode_jwt_claim ce token claim =
     Option.bind (token_claims ce token) (\<lambda>json. Option.bind (json_get json claim) as_str)"

end
