(* ===== verification/Jwt_Config.thy ===== *)
theory Jwt_Config
  imports Http_Client
begin

text \<open>
  The identity plugin for JSON web tokens, \<^verbatim>\<open>builtins/plugins/identity-jwt/src/\<close>: the mapping of claims
  (\<^verbatim>\<open>claim_map.rs\<close>), the keys of an issuer (\<^verbatim>\<open>trusted_issuer.rs\<close>) and the configuration they come from (\<^verbatim>\<open>config.rs\<close>).

  Keys and algorithms are the types \<open>'k\<close> and \<open>'a\<close> of the \<^verbatim>\<open>jsonwebtoken\<close> crate.  What the crate does, the file system,
  base64 and JSON parsing are the record \<open>jwt_env\<close>; an HTTP fetch of a key set is a function of its URL.
\<close>

subsection \<open>The library the plugin calls\<close>

datatype jwt_error_kind =
    ExpiredSignature | InvalidSignature | ImmatureSignature | InvalidAudience | InvalidIssuer
  | InvalidAlgorithm | InvalidAlgorithmName | Base64Error | JsonError | OtherError

record jwt_error =
  jx_kind :: jwt_error_kind
  jx_text :: string

text \<open>The fields of \<^verbatim>\<open>jsonwebtoken::Validation\<close> the plugin sets; \<open>vd_aud\<close> is \<open>None\<close> where the audience is not validated.\<close>

record 'a validation =
  vd_algorithms :: "'a list"
  vd_iss :: "string list"
  vd_validate_nbf :: bool
  vd_leeway :: u64
  vd_aud :: "string list option"

record 'k jwk =
  jk_signature_use :: "bool option"
  jk_key_id :: "string option"
  jk_key :: "string + 'k"

type_synonym claim_map = "json hash_map"

record ('k, 'a) jwt_env =
  jv_rsa_pem :: "string \<Rightarrow> string + 'k"
  jv_ec_pem :: "string \<Rightarrow> string + 'k"
  jv_ed_pem :: "string \<Rightarrow> string + 'k"
  jv_secret :: "string \<Rightarrow> 'k"
  jv_jwk :: "json \<Rightarrow> string + 'k jwk"
  jv_jwks :: "string \<Rightarrow> string + 'k jwk list"
  jv_read_file :: "string \<Rightarrow> string + string"
  jv_base64 :: "string \<Rightarrow> string option"
  jv_json :: "string \<Rightarrow> json option"
  jv_header_kid :: "string \<Rightarrow> jwt_error + string option"
  jv_decode :: "string \<Rightarrow> 'k \<Rightarrow> 'a validation \<Rightarrow> jwt_error + claim_map"

subsection \<open>Mapping claims\<close>

record claim_mapper =
  cm_map_subject :: "claim_map \<Rightarrow> subject_extension option"
  cm_map_client :: "claim_map \<Rightarrow> client_extension option"
  cm_map_workload :: "claim_map \<Rightarrow> workload_identity option"

fun as_array :: "json \<Rightarrow> json list option" where
  "as_array (JArr vs) = Some vs"
| "as_array _ = None"

text \<open>The strings of an array; elements of another type are skipped.\<close>

definition string_items :: "json list \<Rightarrow> string list" where
  "string_items arr = List.map_filter as_str arr"

fun words_from :: "string \<Rightarrow> string list \<Rightarrow> string list" where
  "words_from cur [] = (if cur = [] then [] else [cur])"
| "words_from cur (g # gs) =
     (if is_whitespace_cp g then (if cur = [] then [] else [cur]) @ words_from [] gs
      else words_from (cur @ g) gs)"

definition split_whitespace :: "string \<Rightarrow> string list" where
  "split_whitespace s = words_from [] (utf8_chars s)"

definition claim_str_of :: "claim_map \<Rightarrow> string \<Rightarrow> string option" where
  "claim_str_of claims k = Option.bind (map_of claims k) as_str"

definition claim_arr_of :: "claim_map \<Rightarrow> string \<Rightarrow> json list option" where
  "claim_arr_of claims k = Option.bind (map_of claims k) as_array"

text \<open>An array of strings, or a string of words separated by white space.\<close>

definition items_or_words :: "claim_map \<Rightarrow> string \<Rightarrow> string \<Rightarrow> string list" where
  "items_or_words claims arr_claim str_claim =
     (case claim_arr_of claims arr_claim of
        Some arr \<Rightarrow> string_items arr
      | None \<Rightarrow> (case claim_str_of claims str_claim of Some s \<Rightarrow> split_whitespace s | None \<Rightarrow> []))"

definition CLIENT_RESERVED :: "string list" where
  "CLIENT_RESERVED = [''client_id'', ''azp'', ''client_name'', ''authorized_scopes'', ''scope'', ''aud'', ''roles'',
     ''iss'', ''exp'', ''nbf'', ''iat'', ''jti'', ''sub'']"

definition SUBJECT_RESERVED :: "string list" where
  "SUBJECT_RESERVED = [''sub'', ''roles'', ''permissions'', ''scope'', ''teams'', ''groups'', ''iss'', ''aud'', ''exp'', ''nbf'', ''iat'', ''jti'']"

definition other_claims :: "string list \<Rightarrow> claim_map \<Rightarrow> claim_map" where
  "other_claims reserved claims = filter (\<lambda>(k, _). k \<notin> set reserved) claims"

definition map_client :: "claim_map \<Rightarrow> client_extension option" where
  "map_client claims =
     (case Option.bind (or_else (map_of claims ''client_id'') (map_of claims ''azp'')) as_str of
        None \<Rightarrow> None
      | Some client_id \<Rightarrow> Some
          \<lparr>cl_client_id = client_id, cl_client_name = claim_str_of claims ''client_name'', cl_trust_level = ThirdParty,
           cl_authorized_scopes = items_or_words claims ''authorized_scopes'' ''scope'',
           cl_authorized_audiences =
             (case map_of claims ''aud'' of
                Some (JStr s) \<Rightarrow> [s]
              | Some (JArr arr) \<Rightarrow> string_items arr
              | _ \<Rightarrow> []),
           cl_roles = (case claim_arr_of claims ''roles'' of Some arr \<Rightarrow> string_items arr | None \<Rightarrow> []),
           cl_permissions = [], cl_teams = [], cl_claims = other_claims CLIENT_RESERVED claims\<rparr>)"

definition map_workload :: "claim_map \<Rightarrow> workload_identity option" where
  "map_workload claims =
     (let spiffe = (\<lambda>s. if starts_with s ''spiffe://'' then Some s else None) in
      case Option.bind (or_else (Option.bind (claim_str_of claims ''sub'') spiffe) (claim_str_of claims ''spiffe_id'')) spiffe of
        None \<Rightarrow> None
      | Some spiffe_id \<Rightarrow> Some
          \<lparr>wl_spiffe_id = Some spiffe_id,
           wl_trust_domain = map_option (\<lambda>rest. hd (split_on (CHR ''/'') rest)) (strip_prefix spiffe_id ''spiffe://''),
           wl_attested_at = None, wl_attestor = Some ''jwt'', wl_selectors = [], wl_client_id = None\<rparr>)"

definition map_subject :: "claim_map \<Rightarrow> subject_extension option" where
  "map_subject claims =
     (case claim_str_of claims ''sub'' of
        None \<Rightarrow> None
      | Some sub \<Rightarrow> Some
          \<lparr>sj_id = Some sub, sj_subject_type = None,
           sj_roles = fset_of_list (case claim_arr_of claims ''roles'' of Some arr \<Rightarrow> string_items arr | None \<Rightarrow> []),
           sj_permissions = fset_of_list (items_or_words claims ''permissions'' ''scope''),
           sj_teams = fset_of_list
             (case claim_arr_of claims ''teams'' of
                Some arr \<Rightarrow> string_items arr
              | None \<Rightarrow> (case claim_arr_of claims ''groups'' of Some arr \<Rightarrow> string_items arr | None \<Rightarrow> [])),
           sj_claims = other_claims SUBJECT_RESERVED claims\<rparr>)"

definition StandardClaimMap :: claim_mapper where
  "StandardClaimMap = \<lparr>cm_map_subject = map_subject, cm_map_client = map_client, cm_map_workload = map_workload\<rparr>"

subsection \<open>The keys of an issuer\<close>

record 'k key_store =
  ks_by_kid :: "'k hash_map"
  ks_fallback :: "'k option"

definition store_empty :: "'k key_store" where
  "store_empty = \<lparr>ks_by_kid = [], ks_fallback = None\<rparr>"

definition single_fallback :: "'k \<Rightarrow> 'k key_store" where
  "single_fallback key = \<lparr>ks_by_kid = [], ks_fallback = Some key\<rparr>"

definition from_jwks_entries :: "(string \<times> 'k) list \<Rightarrow> 'k key_store" where
  "from_jwks_entries entries = \<lparr>ks_by_kid = fold (\<lambda>(k, v). AList.update k v) entries [], ks_fallback = None\<rparr>"

definition select_key :: "'k key_store \<Rightarrow> string option \<Rightarrow> 'k option" where
  "select_key ks kid = (case kid of Some k \<Rightarrow> map_of (ks_by_kid ks) k | None \<Rightarrow> ks_fallback ks)"

definition store_len :: "'k key_store \<Rightarrow> nat" where
  "store_len ks = length (ks_by_kid ks) + (if ks_fallback ks \<noteq> None then 1 else 0)"

definition store_is_empty :: "'k key_store \<Rightarrow> bool" where
  "store_is_empty ks \<longleftrightarrow> ks_by_kid ks = [] \<and> ks_fallback ks = None"

record ('k, 'a) trusted_issuer =
  ti_issuer :: string
  ti_audiences :: "string list"
  ti_keys :: "'k key_store"
  ti_algorithms :: "'a list"
  ti_leeway_seconds :: u64

subsection \<open>Configuration\<close>

datatype decoding_key_source =
    DK_Pem string
  | DK_PemFile string
  | DK_Jwk json
  | DK_JwksUrl string bool u64
  | DK_Secret string

record 'a trusted_issuer_config =
  tc_issuer :: string
  tc_audiences :: "string list"
  tc_algorithms :: "'a list"
  tc_decoding_key :: decoding_key_source
  tc_leeway_seconds :: u64

record 'a jwt_config =
  jc_trusted_issuers :: "'a trusted_issuer_config list"
  jc_role :: token_role
  jc_header :: string
  jc_claim_mapper :: "string option"

fun needs_async :: "decoding_key_source \<Rightarrow> bool" where
  "needs_async (DK_JwksUrl _ _ _) = True"
| "needs_async _ = False"

fun refresh_interval :: "decoding_key_source \<Rightarrow> u64 option" where
  "refresh_interval (DK_JwksUrl _ _ refresh_secs) = Some refresh_secs"
| "refresh_interval _ = None"

definition build_from_pem_bytes :: "('k, 'a) jwt_env \<Rightarrow> string \<Rightarrow> string \<Rightarrow> string + 'k" where
  "build_from_pem_bytes je bytes origin =
     (case jv_rsa_pem je bytes of
        Inr k \<Rightarrow> Inr k
      | Inl _ \<Rightarrow>
          (case jv_ec_pem je bytes of
             Inr k \<Rightarrow> Inr k
           | Inl _ \<Rightarrow> map_err (\<lambda>e. origin @ '' PEM key failed to parse: '' @ e) (jv_ed_pem je bytes)))"

definition build_from_jwk_value :: "('k, 'a) jwt_env \<Rightarrow> json \<Rightarrow> string + 'k" where
  "build_from_jwk_value je jwk =
     res_bind (map_err (\<lambda>e. ''JWK is not well-formed: '' @ e) (jv_jwk je jwk)) (\<lambda>parsed.
       map_err (\<lambda>e. ''JWK not usable: '' @ e) (jk_key parsed))"

fun build_key :: "('k, 'a) jwt_env \<Rightarrow> decoding_key_source \<Rightarrow> string + 'k" where
  "build_key je (DK_Pem pem) = build_from_pem_bytes je pem ''inline PEM''"
| "build_key je (DK_PemFile path) =
     res_bind (map_err (\<lambda>e. ''decoding-key file '' @ quote path @ '' unreadable: '' @ e) (jv_read_file je path)) (\<lambda>bytes.
       build_from_pem_bytes je bytes (''file '' @ quote path))"
| "build_key je (DK_Jwk jwk) = build_from_jwk_value je jwk"
| "build_key je (DK_JwksUrl url _ _) =
     Inl (''JwksUrl source '' @ quote url @ '' requires async resolution '' @ em_dash @ '' call build_async()'')"
| "build_key je (DK_Secret secret) = Inr (jv_secret je secret)"

definition build_source :: "('k, 'a) jwt_env \<Rightarrow> decoding_key_source \<Rightarrow> string + 'k key_store" where
  "build_source je src = res_bind (build_key je src) (\<lambda>key. Inr (single_fallback key))"

definition require_https :: "string \<Rightarrow> bool \<Rightarrow> string + unit" where
  "require_https url insecure_http =
     (let lowered = to_ascii_lowercase (trim_start url) in
      if starts_with lowered ''https://'' then Inr ()
      else if starts_with lowered ''http://''
      then (if insecure_http then Inr ()
            else Inl (''JWKS URL must use https:// (got '' @ quote url @ ''). Set `insecure_http: true` to allow plaintext for localhost/dev only ''
                   @ em_dash @ '' never production.''))
      else Inr ())"

text \<open>How an HTTP fetch ends: where it fails, or with the text of the body.\<close>

datatype fetch_result =
    FR_Client string
  | FR_Send string
  | FR_Status string
  | FR_Body string
  | FR_Text string

fun fetch_text :: "string \<Rightarrow> fetch_result \<Rightarrow> string + string" where
  "fetch_text url (FR_Client e) = Inl (''JWKS client construction failed: '' @ e)"
| "fetch_text url (FR_Send e) = Inl (''JWKS GET '' @ url @ '' failed: '' @ e)"
| "fetch_text url (FR_Status e) = Inl (''JWKS GET '' @ url @ '' returned non-2xx: '' @ e)"
| "fetch_text url (FR_Body e) = Inl (''JWKS GET '' @ url @ '' body read failed: '' @ e)"
| "fetch_text url (FR_Text t) = Inr t"

text \<open>The keys of a set that are taken, the number of keys without a kid, and the ones that do not parse.\<close>

fun jwks_entries :: "'k jwk list \<Rightarrow> (string \<times> 'k) list \<times> nat \<times> string list" where
  "jwks_entries [] = ([], 0, [])"
| "jwks_entries (k # ks) =
     (case jwks_entries ks of (entries, no_kid, unusable) \<Rightarrow>
        if jk_signature_use k = Some False then (entries, no_kid, unusable)
        else if jk_key_id k = None \<or> jk_key_id k = Some [] then (entries, no_kid + 1, unusable)
        else (case jk_key k of
                Inr key \<Rightarrow> ((the (jk_key_id k), key) # entries, no_kid, unusable)
              | Inl e \<Rightarrow> (entries, no_kid, (the (jk_key_id k) @ '': '' @ e) # unusable)))"

fun build_async :: "('k, 'a) jwt_env \<Rightarrow> (string \<Rightarrow> fetch_result) \<Rightarrow> decoding_key_source \<Rightarrow> string + 'k key_store" where
  "build_async je fetch (DK_JwksUrl url insecure_http refresh_secs) =
     res_bind (require_https url insecure_http) (\<lambda>_.
       res_bind (fetch_text url (fetch url)) (\<lambda>body.
         res_bind (map_err (\<lambda>e. ''JWKS '' @ url @ '' body is not a JWKSet: '' @ e) (jv_jwks je body)) (\<lambda>keys.
           (case jwks_entries keys of (entries, no_kid, unusable) \<Rightarrow>
              if entries = []
              then Inl (''JWKS at '' @ url @ '' contained no usable signature keys (skipped '' @ nat_to_string no_kid
                     @ '' entries with no kid; '' @ nat_to_string (length unusable) @ '' entries failed to parse: [''
                     @ join_with '', '' unusable @ ''])'')
              else Inr (from_jwks_entries entries)))))"
| "build_async je fetch other = build_source je other"

definition validate_issuer :: "'a trusted_issuer_config \<Rightarrow> string + unit" where
  "validate_issuer cfg =
     (if trim (tc_issuer cfg) = [] then Inl ''trusted_issuer.issuer must be non-empty''
      else if tc_algorithms cfg = []
      then Inl (''trusted_issuer '' @ quote (tc_issuer cfg) @ '' must list at least one algorithm'')
      else Inr ())"

definition issuer_with :: "'a trusted_issuer_config \<Rightarrow> 'k key_store \<Rightarrow> ('k, 'a) trusted_issuer" where
  "issuer_with cfg keys = \<lparr>ti_issuer = tc_issuer cfg, ti_audiences = tc_audiences cfg, ti_keys = keys,
     ti_algorithms = tc_algorithms cfg, ti_leeway_seconds = tc_leeway_seconds cfg\<rparr>"

definition build_failed :: "'a trusted_issuer_config \<Rightarrow> string \<Rightarrow> string" where
  "build_failed cfg e = ''trusted_issuer '' @ quote (tc_issuer cfg) @ '' decoding_key build failed: '' @ e"

definition build_issuer :: "('k, 'a) jwt_env \<Rightarrow> 'a trusted_issuer_config \<Rightarrow> string + ('k, 'a) trusted_issuer" where
  "build_issuer je cfg =
     res_bind (validate_issuer cfg) (\<lambda>_.
       res_bind (map_err (build_failed cfg) (build_source je (tc_decoding_key cfg))) (\<lambda>keys. Inr (issuer_with cfg keys)))"

definition build_issuer_async ::
    "('k, 'a) jwt_env \<Rightarrow> (string \<Rightarrow> fetch_result) \<Rightarrow> 'a trusted_issuer_config \<Rightarrow> string + ('k, 'a) trusted_issuer" where
  "build_issuer_async je fetch cfg =
     res_bind (validate_issuer cfg) (\<lambda>_.
       res_bind (map_err (build_failed cfg) (build_async je fetch (tc_decoding_key cfg))) (\<lambda>keys. Inr (issuer_with cfg keys)))"

end
