(* ===== verification/Jwt_Identity.thy ===== *)
theory Jwt_Identity
  imports Jwt_Config
begin

text \<open>
  \<^verbatim>\<open>builtins/plugins/identity-jwt/src/resolver.rs\<close> and \<^verbatim>\<open>factory.rs\<close>: the resolver that validates the token of a
  request and fills one slot of the identity payload.  The keys of an issuer sit behind a lock that a refresh task
  writes; here they are part of the resolver's state, and a task is the position of its issuer and the source it
  fetches from.
\<close>

subsection \<open>Construction\<close>

record ('k, 'a) jwt_resolver =
  jr_cfg :: plugin_config
  jr_trusted_issuers :: "('k, 'a) trusted_issuer list"
  jr_pending_jwks :: "'a trusted_issuer_config list"
  jr_claim_mapper :: claim_mapper
  jr_role :: token_role
  jr_header :: string
  jr_refresh_tasks :: "(nat \<times> decoding_key_source) list"

definition plugin_context_text :: "plugin_config \<Rightarrow> string \<Rightarrow> string" where
  "plugin_context_text cfg rest = ''plugin '' @ quote (cf_name cfg) @ '' (praxis-policy-plugin-identity-jwt)'' @ rest"

fun partition_issuers ::
    "('k, 'a) jwt_env \<Rightarrow> 'a trusted_issuer_config list \<Rightarrow> string + ('k, 'a) trusted_issuer list \<times> 'a trusted_issuer_config list" where
  "partition_issuers je [] = Inr ([], [])"
| "partition_issuers je (raw # rest) =
     res_bind (validate_issuer raw) (\<lambda>_.
       if needs_async (tc_decoding_key raw)
       then res_bind (partition_issuers je rest) (\<lambda>(built, pending). Inr (built, raw # pending))
       else res_bind (build_issuer je raw) (\<lambda>b.
              res_bind (partition_issuers je rest) (\<lambda>(built, pending). Inr (b # built, pending))))"

definition jwt_new ::
    "('k, 'a) jwt_env \<Rightarrow> (json \<Rightarrow> string + 'a jwt_config) \<Rightarrow> plugin_config \<Rightarrow> plugin_failure + ('k, 'a) jwt_resolver" where
  "jwt_new je from_value cfg =
     map_err (\<lambda>msg. PF_Config (plugin_context_text cfg msg))
       (res_bind (ok_or ('' requires a `config:` block '' @ em_dash @ '' missing trusted_issuers etc.'') (cf_config cfg)) (\<lambda>raw_config.
        res_bind (map_err (\<lambda>e. '' config parse failed: '' @ e) (from_value raw_config)) (\<lambda>typed.
        if jc_trusted_issuers typed = [] then Inl '' requires at least one entry in `trusted_issuers`''
        else res_bind (map_err (\<lambda>e. '': '' @ e) (partition_issuers je (jc_trusted_issuers typed))) (\<lambda>(issuers, pending).
          if jc_claim_mapper typed \<noteq> None \<and> jc_claim_mapper typed \<noteq> Some ''standard''
          then Inl ('': unknown claim_mapper '' @ quote (the (jc_claim_mapper typed)) @ ''; valid: [standard]'')
          else if (case jc_role typed of Role_Custom _ \<Rightarrow> True | _ \<Rightarrow> False)
          then Inl ('': role: Custom(...) is not yet supported '' @ em_dash @ '' pick one of `user`, `client`, `workload`'')
          else if trim (jc_header typed) = [] then Inl '': `header:` must be a non-empty HTTP header name''
          else Inr \<lparr>jr_cfg = cfg, jr_trusted_issuers = issuers, jr_pending_jwks = pending, jr_claim_mapper = StandardClaimMap,
                    jr_role = jc_role typed, jr_header = jc_header typed, jr_refresh_tasks = []\<rparr>))))"

subsection \<open>Fetching and refreshing keys\<close>

text \<open>One pass of the loop over the fetched key sets: an issuer whose fetch failed starts with an empty store.\<close>

definition add_pending ::
    "('k, 'a) jwt_env \<Rightarrow> (string \<Rightarrow> fetch_result) \<Rightarrow> 'a trusted_issuer_config \<Rightarrow> ('k, 'a) jwt_resolver \<Rightarrow> ('k, 'a) jwt_resolver" where
  "add_pending je fetch cfg r =
     (let issuer = (case build_issuer_async je fetch cfg of Inr iss \<Rightarrow> iss | Inl _ \<Rightarrow> issuer_with cfg store_empty)
      in r\<lparr>jr_trusted_issuers := jr_trusted_issuers r @ [issuer],
           jr_refresh_tasks := jr_refresh_tasks r
             @ (if refresh_interval (tc_decoding_key cfg) \<noteq> None then [(length (jr_trusted_issuers r), tc_decoding_key cfg)] else [])\<rparr>)"

definition jwt_initialize ::
    "('k, 'a) jwt_env \<Rightarrow> (string \<Rightarrow> fetch_result) \<Rightarrow> ('k, 'a) jwt_resolver \<Rightarrow> ('k, 'a) jwt_resolver" where
  "jwt_initialize je fetch r = fold (add_pending je fetch) (jr_pending_jwks r) r"

text \<open>
  A tick of a refresh task.  A timer of period zero panics when it is made, so a task with a refresh interval of zero
  never ticks.
\<close>

definition refresh_tick ::
    "('k, 'a) jwt_env \<Rightarrow> (string \<Rightarrow> fetch_result) \<Rightarrow> nat \<times> decoding_key_source \<Rightarrow> ('k, 'a) jwt_resolver \<Rightarrow> ('k, 'a) jwt_resolver" where
  "refresh_tick je fetch task r =
     (case task of (i, source) \<Rightarrow>
        if refresh_interval source = Some 0 then r
        else (case build_async je fetch source of
                Inl _ \<Rightarrow> r
              | Inr new_store \<Rightarrow>
                  r\<lparr>jr_trusted_issuers := (jr_trusted_issuers r)[i := (jr_trusted_issuers r ! i)\<lparr>ti_keys := new_store\<rparr>]\<rparr>))"

definition jwt_drop :: "('k, 'a) jwt_resolver \<Rightarrow> ('k, 'a) jwt_resolver" where
  "jwt_drop r = r\<lparr>jr_refresh_tasks := []\<rparr>"

subsection \<open>Validating a token\<close>

definition DEFAULT_LEEWAY_SECONDS :: u64 where
  "DEFAULT_LEEWAY_SECONDS = 60"

datatype validate_error =
    UnknownKid "string option"
  | KeysUnavailable
  | NoAlgorithms
  | JwtError jwt_error

definition peek_issuer :: "('k, 'a) jwt_env \<Rightarrow> string \<Rightarrow> string option" where
  "peek_issuer je token =
     (case split_on (CHR ''.'') token of
        [_, payload_b64, _] \<Rightarrow>
          Option.bind (jv_base64 je payload_b64) (\<lambda>bytes.
            Option.bind (jv_json je bytes) (\<lambda>v. Option.bind (json_get v ''iss'') as_str))
      | _ \<Rightarrow> None)"

definition issuer_validation :: "('k, 'a) trusted_issuer \<Rightarrow> 'a validation" where
  "issuer_validation issuer =
     \<lparr>vd_algorithms = ti_algorithms issuer, vd_iss = [ti_issuer issuer], vd_validate_nbf = True,
      vd_leeway = (if ti_leeway_seconds issuer = 0 then DEFAULT_LEEWAY_SECONDS else ti_leeway_seconds issuer),
      vd_aud = (if ti_audiences issuer = [] then None else Some (ti_audiences issuer))\<rparr>"

definition validate_token :: "('k, 'a) jwt_env \<Rightarrow> string \<Rightarrow> ('k, 'a) trusted_issuer \<Rightarrow> validate_error + claim_map" where
  "validate_token je token issuer =
     res_bind (map_err JwtError (jv_header_kid je token)) (\<lambda>kid.
       if store_is_empty (ti_keys issuer) then Inl KeysUnavailable
       else (case select_key (ti_keys issuer) kid of
               None \<Rightarrow> Inl (UnknownKid kid)
             | Some key \<Rightarrow>
                 if ti_algorithms issuer = [] then Inl NoAlgorithms
                 else map_err JwtError (jv_decode je token key (issuer_validation issuer))))"

fun jwt_error_code :: "jwt_error_kind \<Rightarrow> string" where
  "jwt_error_code ExpiredSignature = ''auth.token_expired''"
| "jwt_error_code InvalidSignature = ''auth.signature_invalid''"
| "jwt_error_code ImmatureSignature = ''auth.token_not_yet_valid''"
| "jwt_error_code InvalidAudience = ''auth.audience_mismatch''"
| "jwt_error_code InvalidIssuer = ''auth.untrusted_issuer''"
| "jwt_error_code InvalidAlgorithm = ''auth.algorithm_mismatch''"
| "jwt_error_code InvalidAlgorithmName = ''auth.algorithm_mismatch''"
| "jwt_error_code Base64Error = ''auth.malformed_header''"
| "jwt_error_code JsonError = ''auth.malformed_header''"
| "jwt_error_code OtherError = ''auth.token_invalid''"

definition classify_jwt_error :: "jwt_error \<Rightarrow> string \<times> string" where
  "classify_jwt_error e = (jwt_error_code (jx_kind e), jx_text e)"

text \<open>The denial for each way a validation fails.\<close>

fun validation_denial :: "string \<Rightarrow> validate_error \<Rightarrow> plugin_violation" where
  "validation_denial iss KeysUnavailable = violation_new ''auth.jwks_unavailable''
     (''issuer '' @ quote iss @ '' has no signing keys available '' @ em_dash
      @ '' initial JWKS fetch failed and refresh has not yet succeeded; check upstream IdP reachability'')"
| "validation_denial iss (UnknownKid (Some k)) = violation_new ''auth.unknown_kid''
     (''token'' @ [CHR 0x27] @ ''s header `kid` = '' @ quote k @ '' did not match any key in issuer'' @ [CHR 0x27] @ ''s JWKS'')"
| "validation_denial iss (UnknownKid None) = violation_new ''auth.unknown_kid''
     (''token has no `kid` header; issuer'' @ [CHR 0x27] @ ''s JWKS keys all require kid match'')"
| "validation_denial iss NoAlgorithms = violation_new ''auth.no_algorithms''
     (''issuer '' @ quote iss @ '' accepts no signature algorithms, so no token from it can be verified; ''
      @ ''this is a configuration fault rather than a problem with the token'')"
| "validation_denial iss (JwtError e) = (case classify_jwt_error e of (code, reason) \<Rightarrow> violation_new code reason)"

subsection \<open>The handler\<close>

text \<open>The token of a request, or the denial; the text of a role is a parameter.\<close>

definition request_token :: "(token_role \<Rightarrow> string) \<Rightarrow> ('k, 'a) jwt_resolver \<Rightarrow> identity_payload \<Rightarrow> plugin_violation + string" where
  "request_token role_text r payload =
     (let missing = violation_new ''auth.malformed_header''
            (''header '' @ quote (jr_header r) @ '' missing from request (resolver '' @ quote (cf_name (jr_cfg r)) @ '' / role ''
             @ quote (role_text (jr_role r)) @ '')'');
          empty = violation_new ''auth.malformed_header'' (''header '' @ quote (jr_header r) @ '' is present but empty'');
          raw = (case ip_headers payload (to_ascii_lowercase (jr_header r)) of
                   Some v \<Rightarrow> Inr (unwrap_or (strip_prefix v ''Bearer '') v)
                 | None \<Rightarrow> if ip_raw_token payload \<noteq> [] then Inr (ip_raw_token payload) else Inl missing)
      in res_bind raw (\<lambda>token. if token = [] then Inl empty else Inr token))"

text \<open>The slot of the role, filled from the claims.\<close>

definition fill_slot :: "claim_mapper \<Rightarrow> token_role \<Rightarrow> claim_map \<Rightarrow> identity_payload \<Rightarrow> plugin_violation + identity_payload" where
  "fill_slot mapper role claims payload =
     (case role of
        Role_User \<Rightarrow>
          (case cm_map_subject mapper claims of
             Some s \<Rightarrow> Inr (payload\<lparr>ip_subject := Some s\<rparr>)
           | None \<Rightarrow> Inl (violation_new ''auth.mapping_failed''
               (''claim mapper produced no subject '' @ em_dash @ '' required `sub` claim missing or wrong shape'')))
      | Role_Client \<Rightarrow>
          (case cm_map_client mapper claims of
             Some c \<Rightarrow> Inr (payload\<lparr>ip_client := Some c\<rparr>)
           | None \<Rightarrow> Inl (violation_new ''auth.mapping_failed''
               (''claim mapper produced no client '' @ em_dash @ '' required `client_id` / `azp` claim missing'')))
      | Role_CallerWorkload \<Rightarrow>
          (case cm_map_workload mapper claims of
             Some wl \<Rightarrow> Inr (payload\<lparr>ip_caller_workload := Some wl\<rparr>)
           | None \<Rightarrow> Inl (violation_new ''auth.mapping_failed''
               (''claim mapper produced no workload '' @ em_dash @ '' token doesn'' @ [CHR 0x27]
                @ ''t look like a SPIFFE-JWT-SVID (sub doesn'' @ [CHR 0x27] @ ''t start with `spiffe://`)'')))
      | Role_Custom _ \<Rightarrow> Inl (violation_new ''auth.misconfigured'' ''role: Custom(...) is not supported''))"

definition token_kind_of :: "token_role \<Rightarrow> token_kind" where
  "token_kind_of role = (if role = Role_CallerWorkload then SpiffeJwt else Jwt)"

definition stash_token :: "datetime \<Rightarrow> token_role \<Rightarrow> string \<Rightarrow> string \<Rightarrow> claim_map \<Rightarrow> identity_payload \<Rightarrow> identity_payload" where
  "stash_token now role token header claims updated =
     (let raw_creds = unwrap_or (ip_raw_credentials updated) raw_credentials_default
      in updated\<lparr>ip_raw_credentials := Some (raw_creds\<lparr>rc_inbound_tokens :=
             (rc_inbound_tokens raw_creds)(role \<mapsto> inbound_token_new token header (token_kind_of role))\<rparr>),
           ip_resolved_at := Some now, ip_raw_claims := map_of claims\<rparr>)"

definition resolve_identity ::
    "('k, 'a) jwt_env \<Rightarrow> (token_role \<Rightarrow> string) \<Rightarrow> datetime \<Rightarrow> ('k, 'a) jwt_resolver \<Rightarrow> identity_payload
     \<Rightarrow> plugin_violation + identity_payload" where
  "resolve_identity je role_text now r payload =
     res_bind (request_token role_text r payload) (\<lambda>token.
     res_bind (ok_or (violation_new ''auth.malformed_header'' ''JWT not well-formed or missing `iss` claim'') (peek_issuer je token)) (\<lambda>iss.
     res_bind (ok_or (violation_new ''auth.untrusted_issuer'' (''issuer '' @ quote iss @ '' is not in the trusted-issuer list''))
                 (find (\<lambda>i. ti_issuer i = iss) (jr_trusted_issuers r))) (\<lambda>issuer.
     res_bind (map_err (validation_denial iss) (validate_token je token issuer)) (\<lambda>claims.
     res_bind (fill_slot (jr_claim_mapper r) (jr_role r) claims payload) (\<lambda>updated.
       Inr (stash_token now (jr_role r) token (jr_header r) claims updated))))))"

definition jwt_handle ::
    "('k, 'a) jwt_env \<Rightarrow> (token_role \<Rightarrow> string) \<Rightarrow> datetime \<Rightarrow> ('k, 'a) jwt_resolver \<Rightarrow> identity_payload
     \<Rightarrow> identity_payload plugin_result" where
  "jwt_handle je role_text now r payload =
     (case resolve_identity je role_text now r payload of
        Inl v \<Rightarrow> result_deny v
      | Inr updated \<Rightarrow> modify_payload updated)"

subsection \<open>The factory\<close>

definition JWT_KIND :: string where
  "JWT_KIND = ''identity/jwt''"

text \<open>
  How a world holds the resolvers: by the name of the plugin, with the clock and what the library does at this moment.
  The last two fields are Debug and type names that occur in messages.
\<close>

record ('k, 'a, 'w) jwt_world =
  jw_resolver :: "'w \<Rightarrow> string \<Rightarrow> ('k, 'a) jwt_resolver"
  jw_set :: "string \<Rightarrow> ('k, 'a) jwt_resolver \<Rightarrow> 'w \<Rightarrow> 'w"
  jw_env :: "'w \<Rightarrow> ('k, 'a) jwt_env"
  jw_now :: "'w \<Rightarrow> datetime"
  jw_fetch :: "'w \<Rightarrow> string \<Rightarrow> fetch_result"
  jw_elapsed :: "'w \<Rightarrow> nat"
  jw_role_text :: "token_role \<Rightarrow> string"
  jw_type_name :: string

definition jwt_handler :: "('k, 'a, 'w) jwt_world \<Rightarrow> string \<Rightarrow> (plugin_payload, 'w) hook_handler" where
  "jwt_handler jw name =
     typed_adapter HOOK_IDENTITY_RESOLVE (jw_type_name jw) as_identity PP_Identity
       (\<lambda>w payload ext ctx.
          (jw_elapsed jw w, Inr (jwt_handle (jw_env jw w) (jw_role_text jw) (jw_now jw w) (jw_resolver jw w name) payload), ctx, w))"

definition jwt_plugin :: "('k, 'a, 'w) jwt_world \<Rightarrow> string \<Rightarrow> 'w plugin_object" where
  "jwt_plugin jw name =
     \<lparr>ob_initialize = (\<lambda>w. (None, jw_set jw name (jwt_initialize (jw_env jw w) (jw_fetch jw w) (jw_resolver jw w name)) w)),
      ob_shutdown = (\<lambda>w. (None, w))\<rparr>"

definition jwt_create ::
    "('k, 'a, 'w) jwt_world \<Rightarrow> (json \<Rightarrow> string + 'a jwt_config) \<Rightarrow> (plugin_payload, 'w) plugin_factory" where
  "jwt_create jw from_value config w =
     (case jwt_new (jw_env jw w) from_value config of
        Inl e \<Rightarrow> (Inl e, w)
      | Inr resolver \<Rightarrow>
          (Inr \<lparr>pn_plugin = jwt_plugin jw (cf_name config), pn_handlers = [(HOOK_IDENTITY_RESOLVE, jwt_handler jw (cf_name config))]\<rparr>,
           jw_set jw (cf_name config) resolver w))"

end
