(* ===== verification/Jwt_Props.thy ===== *)
theory Jwt_Props
  imports Jwt_Identity Executor_Props
begin

text \<open>
  What the identity plugin guarantees: a slot of the payload is filled from a validated token and from nothing else,
  through a whole call of the identity hook, and the keys an issuer is trusted with come from its source.
\<close>

subsection \<open>The payload through a pipeline\<close>

text \<open>A relation between payloads that every plugin of a call keeps holds between the payloads before and after the call.\<close>

locale payload_frame =
  fixes ok :: "('p, 'w) hook_entry \<Rightarrow> bool" and I :: "'w \<Rightarrow> bool" and R :: "'p \<Rightarrow> 'p \<Rightarrow> bool"
  assumes R_refl: "R p p"
    and R_trans: "R p p' \<Longrightarrow> R p' p'' \<Longrightarrow> R p p''"
    and I_run: "ok e \<Longrightarrow> I w \<Longrightarrow> entry_run e w p ext ctx = (t, q, ctx', w') \<Longrightarrow> I w'"
    and R_run: "ok e \<Longrightarrow> I w \<Longrightarrow> entry_run e w p ext ctx = (t, H_Ok (Some erased), ctx', w')
      \<Longrightarrow> rf_modified_payload erased = Some p' \<Longrightarrow> R p p'"
begin

definition kept where
  "kept st st' \<longleftrightarrow> R (xs_payload st) (xs_payload st') \<and> (I (xs_world st) \<longrightarrow> I (xs_world st'))"

lemma kept_trans: "kept st st' \<Longrightarrow> kept st' st'' \<Longrightarrow> kept st st''"
  by (auto simp: kept_def intro: R_trans)

lemma serial_verdict_kept:
  assumes "ok e" "I (xs_world st)"
  shows "R (xs_payload st) (xs_payload (snd (serial_verdict config block modify e st)))
    \<and> I (xs_world (snd (serial_verdict config block modify e st)))"
proof -
  obtain t q ctx' w' where ans: "serial_answer e st = (t, q, ctx', w')" by (metis prod_cases4)
  note run = ans [unfolded serial_answer_def]
  have I': "I w'" by (rule I_run [OF assms run])
  have mid: "xs_world (serial_mid e st) = w'" by (simp add: serial_mid_def ans)
  have fail: "xs_payload (snd (serial_failure block e v f st')) = xs_payload st'" "xs_world (snd (serial_failure block e v f st')) = xs_world st'" for v f st'
    by (simp_all add: serial_failure_def split: on_error.split)
  have acc: "R (xs_payload st) (xs_payload (accept_result caps erased (serial_mid e st)))" "xs_world (accept_result caps erased (serial_mid e st)) = w'"
    if "q = H_Ok (Some erased)" for caps erased
    using R_run [OF assms run [unfolded that]]
    by (simp_all add: accept_result_def Let_def R_refl mid split: option.split)
  show ?thesis
    using I' by (simp add: serial_verdict_def serial_result_def Let_def case_prod_beta fail acc R_refl ans mid
        split: handler_end.split option.split)
qed

lemma serial_step_kept:
  assumes "ok e" "I (xs_world st)"
  shows "R (xs_payload st) (xs_payload (snd (serial_step config block modify e st))) \<and> I (xs_world (snd (serial_step config block modify e st)))"
  using serial_verdict_kept [OF assms, of config block modify] by (simp add: serial_step_eq stored_def)

lemma run_serial_kept:
  assumes "\<forall>e \<in> set es. ok e" "I (xs_world st)"
  shows "R (xs_payload st) (xs_payload (snd (run_serial_phase config block modify es st))) \<and> I (xs_world (snd (run_serial_phase config block modify es st)))"
  using assms
proof (induction es arbitrary: st)
  case (Cons e es)
  obtain q st1 where step: "serial_step config block modify e st = (q, st1)" by force
  then have "R (xs_payload st) (xs_payload st1)" "I (xs_world st1)"
    using serial_step_kept [of e st config block modify] Cons.prems by simp_all
  with Cons step show ?case by (cases q) (auto intro: R_trans)
qed (simp add: R_refl)

lemma before_concurrent_kept:
  assumes "\<forall>e \<in> set entries. ok e" "I (xs_world st)"
  shows "R (xs_payload st) (xs_payload (snd (before_concurrent config disabled entries st)))"
proof -
  have oks: "\<forall>e \<in> set (in_mode disabled m entries). ok e" for m using assms(1) by (simp add: in_mode_def)
  obtain q1 st1 where p1: "run_serial_phase config True True (in_mode disabled M_Sequential entries) st = (q1, st1)" by force
  obtain q2 st2 where p2: "run_serial_phase config False True (in_mode disabled M_Transform entries) st1 = (q2, st2)" by force
  obtain q3 st3 where p3: "run_ref_phase config (in_mode disabled M_Audit entries) st2 = (q3, st3)" by force
  have R1: "R (xs_payload st) (xs_payload st1)" and I1: "I (xs_world st1)"
    using run_serial_kept [OF oks assms(2), of config True True M_Sequential] p1 by simp_all
  have R2: "R (xs_payload st1) (xs_payload st2)"
    using run_serial_kept [OF oks I1, of config False True M_Transform] p2 by simp
  moreover have "xs_payload st3 = xs_payload st2"
    using run_ref_same [of st2 config "in_mode disabled M_Audit entries"] p3 by (simp add: same_request_def)
  ultimately show ?thesis
    using R1 unfolding before_concurrent_def p1 by (cases q1; cases q2; cases q3) (auto simp: p2 p3 intro: R_trans)
qed

lemma execute_kept:
  assumes "\<forall>e \<in> set entries. ok e" "I w"
  shows "R payload (xs_payload (snd (execute config rt entries payload ext table disabled w)))"
proof -
  let ?st0 = "exec_init payload ext table disabled w"
  obtain q st where before: "before_concurrent config disabled entries ?st0 = (q, st)" by force
  have "I (xs_world ?st0)" "xs_payload ?st0 = payload" using assms(2) by (simp_all add: exec_init_def)
  then have "R payload (xs_payload st)" using before_concurrent_kept [OF assms(1), of ?st0 config disabled] before by simp
  moreover have "xs_payload (snd (run_concurrent_phase config rt (in_mode disabled M_Concurrent entries) st)) = xs_payload st"
    using run_concurrent_same [of st config rt] by (simp add: same_request_def)
  ultimately show ?thesis
    unfolding execute_eq before
    by (cases q; cases "run_concurrent_phase config rt (in_mode disabled M_Concurrent entries) st")
       (auto split: option.split)
qed

end

subsection \<open>Validated tokens\<close>

text \<open>A token an issuer vouches for: its key verifies it under the algorithms, issuer, audience and times of the configuration.\<close>

definition validated :: "('k, 'a) jwt_env \<Rightarrow> ('k, 'a) trusted_issuer \<Rightarrow> string \<Rightarrow> claim_map \<Rightarrow> bool" where
  "validated je issuer token claims \<longleftrightarrow>
     (\<exists>kid key. jv_header_kid je token = Inr kid \<and> select_key (ti_keys issuer) kid = Some key \<and> ti_algorithms issuer \<noteq> []
        \<and> jv_decode je token key (issuer_validation issuer) = Inr claims)"

lemma select_key_store: "select_key ks kid = Some key \<Longrightarrow> \<not> store_is_empty ks"
  by (auto simp: select_key_def store_is_empty_def split: option.splits)

lemma validate_token_iff: "validate_token je token issuer = Inr claims \<longleftrightarrow> validated je issuer token claims"
proof (cases "jv_header_kid je token")
  case (Inr kid)
  then show ?thesis
    by (auto simp: validate_token_def validated_def dest: select_key_store split: option.split)
qed (simp add: validate_token_def validated_def)

text \<open>What a resolver demands of a request, and the payload it then leaves.\<close>

definition accepts :: "('k, 'a) jwt_env \<Rightarrow> (token_role \<Rightarrow> string) \<Rightarrow> ('k, 'a) jwt_resolver \<Rightarrow> identity_payload \<Rightarrow> string \<Rightarrow> claim_map \<Rightarrow> bool" where
  "accepts je role_text r payload token claims \<longleftrightarrow>
     request_token role_text r payload = Inr token
   \<and> (\<exists>iss issuer. peek_issuer je token = Some iss \<and> find (\<lambda>i. ti_issuer i = iss) (jr_trusted_issuers r) = Some issuer
        \<and> validated je issuer token claims)"

lemma resolve_identity_iff:
  "resolve_identity je role_text now r payload = Inr p' \<longleftrightarrow>
     (\<exists>token claims updated. accepts je role_text r payload token claims
        \<and> fill_slot (jr_claim_mapper r) (jr_role r) claims payload = Inr updated
        \<and> p' = stash_token now (jr_role r) token (jr_header r) claims updated)"
  unfolding resolve_identity_def res_bind_eq_Inr map_err_eq_Inr ok_or_eq_Inr validate_token_iff accepts_def by blast

lemma jwt_handle_payload:
  "pu_modified_payload (jwt_handle je role_text now r payload) = Some p' \<longleftrightarrow> resolve_identity je role_text now r payload = Inr p'"
  by (cases "resolve_identity je role_text now r payload") (simp_all add: jwt_handle_def plugin_result_simps)

lemma jwt_handle_denied: "result_is_denied (jwt_handle je role_text now r payload) \<longleftrightarrow> (\<nexists>p'. resolve_identity je role_text now r payload = Inr p')"
  by (cases "resolve_identity je role_text now r payload") (simp_all add: jwt_handle_def)

subsection \<open>Where the identity of a request comes from\<close>

text \<open>The wire input of a payload, which no handler changes.\<close>

definition wire :: "identity_payload \<Rightarrow> string \<times> token_source \<times> string option \<times> (string \<rightharpoonup> string) \<times> string option \<times> 16 word option" where
  "wire p = (ip_raw_token p, ip_source p, ip_source_header p, ip_headers p, ip_client_host p, ip_client_port p)"

definition slot_backed ::
    "('k, 'a, 'w) jwt_world \<Rightarrow> 'w \<Rightarrow> (claim_mapper \<Rightarrow> claim_map \<Rightarrow> 'x option) \<Rightarrow> identity_payload \<Rightarrow> 'x option \<Rightarrow> 'x option \<Rightarrow> bool" where
  "slot_backed jw w slot p before after \<longleftrightarrow>
     after = before
   \<or> (\<exists>name token claims. accepts (jw_env jw w) (jw_role_text jw) (jw_resolver jw w name) p token claims
        \<and> after = slot (jr_claim_mapper (jw_resolver jw w name)) claims)"

definition identity_backed :: "('k, 'a, 'w) jwt_world \<Rightarrow> 'w \<Rightarrow> identity_payload \<Rightarrow> identity_payload \<Rightarrow> bool" where
  "identity_backed jw w p p' \<longleftrightarrow>
     wire p' = wire p \<and> ip_delegation p' = ip_delegation p
   \<and> slot_backed jw w cm_map_subject p (ip_subject p) (ip_subject p')
   \<and> slot_backed jw w cm_map_client p (ip_client p) (ip_client p')
   \<and> slot_backed jw w cm_map_workload p (ip_caller_workload p) (ip_caller_workload p')"

lemma accepts_wire:
  assumes "wire p' = wire p"
  shows "accepts je rt r p' = accepts je rt r p"
proof -
  have "ip_headers p' = ip_headers p" "ip_raw_token p' = ip_raw_token p" using assms by (simp_all add: wire_def)
  then have "request_token rt r p' = request_token rt r p" unfolding request_token_def by (simp only:)
  then show ?thesis by (simp add: fun_eq_iff accepts_def)
qed

lemma slot_backedI:
  "accepts (jw_env jw w) (jw_role_text jw) (jw_resolver jw w name) p token claims
   \<Longrightarrow> slot (jr_claim_mapper (jw_resolver jw w name)) claims = after \<Longrightarrow> slot_backed jw w slot p before after"
  unfolding slot_backed_def by blast

lemma slot_backed_refl: "slot_backed jw w slot p x x"
  by (simp add: slot_backed_def)

lemma slot_backed_trans:
  "slot_backed jw w slot p x y \<Longrightarrow> slot_backed jw w slot p' y z \<Longrightarrow> wire p' = wire p \<Longrightarrow> slot_backed jw w slot p x z"
  unfolding slot_backed_def by (metis accepts_wire)

lemma resolve_backed:
  assumes "resolve_identity (jw_env jw w) (jw_role_text jw) now (jw_resolver jw w name) p = Inr p'"
  shows "identity_backed jw w p p'"
proof -
  let ?r = "jw_resolver jw w name"
  from assms obtain token claims updated where acc: "accepts (jw_env jw w) (jw_role_text jw) ?r p token claims"
    and fill: "fill_slot (jr_claim_mapper ?r) (jr_role ?r) claims p = Inr updated"
    and p': "p' = stash_token now (jr_role ?r) token (jr_header ?r) claims updated"
    by (auto simp: resolve_identity_iff)
  have stash: "wire p' = wire updated" "ip_delegation p' = ip_delegation updated" "ip_subject p' = ip_subject updated"
    "ip_client p' = ip_client updated" "ip_caller_workload p' = ip_caller_workload updated"
    by (simp_all add: p' stash_token_def wire_def Let_def)
  from fill have "identity_backed jw w p updated"
    by (cases "jr_role ?r")
      (use acc in \<open>auto simp: fill_slot_def identity_backed_def wire_def split: option.splits intro: slot_backed_refl slot_backedI\<close>)
  with stash show ?thesis by (simp add: identity_backed_def)
qed

text \<open>The same for the payloads of the plugin interface.\<close>

definition payload_backed :: "('k, 'a, 'w) jwt_world \<Rightarrow> 'w \<Rightarrow> plugin_payload \<Rightarrow> plugin_payload \<Rightarrow> bool" where
  "payload_backed jw w x y \<longleftrightarrow> x = y \<or> (\<exists>p p'. x = PP_Identity p \<and> y = PP_Identity p' \<and> identity_backed jw w p p')"

lemma identity_backed_refl: "identity_backed jw w p p"
  by (simp add: identity_backed_def slot_backed_refl)

lemma identity_backed_trans: "identity_backed jw w p p' \<Longrightarrow> identity_backed jw w p' p'' \<Longrightarrow> identity_backed jw w p p''"
  unfolding identity_backed_def using slot_backed_trans [of jw w _ p _ _ p'] by metis

definition jwt_entry :: "('k, 'a, 'w) jwt_world \<Rightarrow> (plugin_payload, 'w) hook_entry \<Rightarrow> bool" where
  "jwt_entry jw e \<longleftrightarrow> (\<exists>name. he_handler e = jwt_handler jw name)"

lemma jwt_entry_run:
  assumes "jwt_entry jw e" "entry_run e w x ext ctx = (t, q, ctx', w')"
  shows "w' = w" and "q = H_Ok (Some erased) \<Longrightarrow> rf_modified_payload erased = Some y \<Longrightarrow> payload_backed jw w x y"
proof -
  from assms(1) obtain name where e: "he_handler e = jwt_handler jw name" by (auto simp: jwt_entry_def)
  show "w' = w" using assms(2) by (auto simp: e jwt_handler_def typed_adapter_def split: option.splits)
  assume "q = H_Ok (Some erased)" "rf_modified_payload erased = Some y"
  with assms(2) obtain p p' where "x = PP_Identity p" "y = PP_Identity p'"
    "resolve_identity (jw_env jw w) (jw_role_text jw) (jw_now jw w) (jw_resolver jw w name) p = Inr p'"
    by (cases x) (auto simp: e jwt_handler_def typed_adapter_def erase_result_def jwt_handle_payload)
  with resolve_backed show "payload_backed jw w x y" unfolding payload_backed_def by metis
qed

interpretation jwt: payload_frame "jwt_entry jw" "\<lambda>w. w = w0" "payload_backed jw w0" for jw w0
proof unfold_locales
  show "payload_backed jw w0 p p''" if "payload_backed jw w0 p p'" "payload_backed jw w0 p' p''" for p p' p''
    using that by (auto simp: payload_backed_def intro: identity_backed_trans)
qed (auto simp: payload_backed_def [of jw w0 p p for p] dest: jwt_entry_run)

subsection \<open>Where the keys of an issuer come from\<close>

text \<open>The keys a source yields: the one it holds, for tokens without a kid, or the keys of a key set its URL serves.\<close>

inductive yields :: "('k, 'a) jwt_env \<Rightarrow> decoding_key_source \<Rightarrow> string option \<Rightarrow> 'k \<Rightarrow> bool" where
  yields_inline: "\<not> needs_async src \<Longrightarrow> build_key je src = Inr key \<Longrightarrow> yields je src None key"
| yields_jwks: "require_https url insecure = Inr () \<Longrightarrow> jv_jwks je body = Inr keys \<Longrightarrow> k \<in> set keys \<Longrightarrow> jk_signature_use k \<noteq> Some False
    \<Longrightarrow> jk_key_id k = Some kid \<Longrightarrow> kid \<noteq> [] \<Longrightarrow> jk_key k = Inr key \<Longrightarrow> yields je (DK_JwksUrl url insecure secs) (Some kid) key"

lemma jwks_entries_origin:
  "(kid, key) \<in> set (fst (jwks_entries keys)) \<Longrightarrow>
   \<exists>k \<in> set keys. jk_signature_use k \<noteq> Some False \<and> jk_key_id k = Some kid \<and> kid \<noteq> [] \<and> jk_key k = Inr key"
  by (induction keys) (auto simp: case_prod_beta split: if_splits sum.splits)

lemma map_of_fold_update:
  "map_of (fold (\<lambda>(k, v). AList.update k v) es al) k = Some v \<Longrightarrow> (k, v) \<in> set es \<or> map_of al k = Some v"
  by (induction es arbitrary: al) (force simp: update_conv' split: if_splits)+

lemma build_async_yields:
  assumes "build_async je fetch src = Inr ks" "select_key ks kid = Some key"
  shows "yields je src kid key"
proof (cases src)
  case (DK_JwksUrl url insecure secs)
  with assms(1) obtain body keys where body: "require_https url insecure = Inr ()" "jv_jwks je body = Inr keys"
    "ks = from_jwks_entries (fst (jwks_entries keys))"
    by (auto simp: res_bind_eq_Inr case_prod_beta split: if_splits)
  from assms(2) obtain k where kid: "kid = Some k" "(k, key) \<in> set (fst (jwks_entries keys))"
    by (auto simp: body(3) from_jwks_entries_def select_key_def split: option.splits dest!: map_of_fold_update)
  from jwks_entries_origin [OF kid(2)] body show ?thesis by (auto simp: DK_JwksUrl kid(1) intro: yields_jwks)
qed (use assms in \<open>auto simp: build_source_def res_bind_eq_Inr single_fallback_def select_key_def intro!: yields_inline split: option.splits\<close>)

text \<open>A resolver as its host drives it: built, initialised, refreshed by its tasks with whatever the network answers, dropped.\<close>

inductive jwt_reachable ::
    "('k, 'a) jwt_env \<Rightarrow> (json \<Rightarrow> string + 'a jwt_config) \<Rightarrow> plugin_config \<Rightarrow> ('k, 'a) jwt_resolver \<Rightarrow> bool"
  for je from_value cfg where
  jwt_built: "jwt_new je from_value cfg = Inr r \<Longrightarrow> jwt_reachable je from_value cfg r"
| jwt_initialized: "jwt_reachable je from_value cfg r \<Longrightarrow> jwt_reachable je from_value cfg (jwt_initialize je fetch r)"
| jwt_refreshed: "jwt_reachable je from_value cfg r \<Longrightarrow> task \<in> set (jr_refresh_tasks r)
    \<Longrightarrow> jwt_reachable je from_value cfg (refresh_tick je fetch task r)"
| jwt_dropped: "jwt_reachable je from_value cfg r \<Longrightarrow> jwt_reachable je from_value cfg (jwt_drop r)"

definition issuer_from :: "('k, 'a) jwt_env \<Rightarrow> 'a trusted_issuer_config \<Rightarrow> ('k, 'a) trusted_issuer \<Rightarrow> bool" where
  "issuer_from je c i \<longleftrightarrow> validate_issuer c = Inr ()
     \<and> (\<exists>ks. i = issuer_with c ks \<and> (ks = store_empty \<or> (\<exists>fetch. build_async je fetch (tc_decoding_key c) = Inr ks)))"

definition resolver_inv :: "('k, 'a) jwt_env \<Rightarrow> 'a trusted_issuer_config list \<Rightarrow> ('k, 'a) jwt_resolver \<Rightarrow> bool" where
  "resolver_inv je configs r \<longleftrightarrow>
     (\<exists>cs. list_all2 (issuer_from je) cs (jr_trusted_issuers r) \<and> set cs \<subseteq> set configs
        \<and> (\<forall>(i, src) \<in> set (jr_refresh_tasks r). i < length cs \<and> tc_decoding_key (cs ! i) = src))
   \<and> (\<forall>c \<in> set (jr_pending_jwks r). c \<in> set configs \<and> validate_issuer c = Inr ())"

lemma issuer_with_simps [simp]:
  "ti_issuer (issuer_with c ks) = tc_issuer c" "ti_audiences (issuer_with c ks) = tc_audiences c" "ti_keys (issuer_with c ks) = ks"
  "ti_algorithms (issuer_with c ks) = tc_algorithms c" "ti_leeway_seconds (issuer_with c ks) = tc_leeway_seconds c"
  "(issuer_with c ks)\<lparr>ti_keys := ks'\<rparr> = issuer_with c ks'"
  by (simp_all add: issuer_with_def)

lemma build_issuer_from: "\<not> needs_async (tc_decoding_key c) \<Longrightarrow> build_issuer je c = Inr i \<Longrightarrow> issuer_from je c i"
  by (cases "tc_decoding_key c") (auto simp: build_issuer_def issuer_from_def res_bind_eq_Inr)

lemma build_issuer_async_from: "build_issuer_async je fetch c = Inr i \<Longrightarrow> issuer_from je c i"
  by (auto simp: build_issuer_async_def issuer_from_def res_bind_eq_Inr)

lemma issuer_from_empty: "validate_issuer c = Inr () \<Longrightarrow> issuer_from je c (issuer_with c store_empty)"
  by (auto simp: issuer_from_def)

lemma partition_issuers_inv:
  "partition_issuers je configs = Inr (built, pending) \<Longrightarrow>
   (\<exists>cs. list_all2 (issuer_from je) cs built \<and> set cs \<subseteq> set configs) \<and> (\<forall>c \<in> set pending. c \<in> set configs \<and> validate_issuer c = Inr ())"
proof (induction configs arbitrary: built pending)
  case (Cons c configs)
  show ?case
  proof (cases "needs_async (tc_decoding_key c)")
    case True
    with Cons.prems obtain pending' where "partition_issuers je configs = Inr (built, pending')" "pending = c # pending'"
      "validate_issuer c = Inr ()"
      by (auto simp: res_bind_eq_Inr)
    with Cons.IH show ?thesis by fastforce
  next
    case False
    with Cons.prems obtain b built' where "build_issuer je c = Inr b" "partition_issuers je configs = Inr (built', pending)" "built = b # built'"
      by (auto simp: res_bind_eq_Inr)
    moreover from this Cons.IH obtain cs where "list_all2 (issuer_from je) cs built'" "set cs \<subseteq> set configs"
      "\<forall>c \<in> set pending. c \<in> set configs \<and> validate_issuer c = Inr ()" by blast
    ultimately show ?thesis using build_issuer_from [OF False] by (intro conjI exI [of _ "c # cs"]) auto
  qed
qed auto

lemma add_pending_inv:
  assumes "resolver_inv je configs r" "c \<in> set configs" "validate_issuer c = Inr ()"
  shows "resolver_inv je configs (add_pending je fetch c r)"
proof -
  from assms(1) obtain cs where cs: "list_all2 (issuer_from je) cs (jr_trusted_issuers r)" "set cs \<subseteq> set configs"
    "\<forall>(i, src) \<in> set (jr_refresh_tasks r). i < length cs \<and> tc_decoding_key (cs ! i) = src"
    and pending: "\<forall>c \<in> set (jr_pending_jwks r). c \<in> set configs \<and> validate_issuer c = Inr ()"
    by (auto simp: resolver_inv_def)
  have "issuer_from je c (case build_issuer_async je fetch c of Inr iss \<Rightarrow> iss | Inl _ \<Rightarrow> issuer_with c store_empty)"
    using build_issuer_async_from issuer_from_empty [OF assms(3)] by (auto split: sum.split)
  with cs have "list_all2 (issuer_from je) (cs @ [c]) (jr_trusted_issuers (add_pending je fetch c r))"
    by (auto simp: add_pending_def Let_def intro: list_all2_appendI)
  moreover have "\<forall>(i, src) \<in> set (jr_refresh_tasks (add_pending je fetch c r)). i < length (cs @ [c]) \<and> tc_decoding_key ((cs @ [c]) ! i) = src"
    using cs(3) list_all2_lengthD [OF cs(1)] by (fastforce simp: add_pending_def Let_def nth_append)
  moreover have "jr_pending_jwks (add_pending je fetch c r) = jr_pending_jwks r" by (simp add: add_pending_def Let_def)
  ultimately show ?thesis
    using cs(2) assms(2) pending unfolding resolver_inv_def by (intro conjI exI [of _ "cs @ [c]"]) auto
qed

lemma initialize_inv: "resolver_inv je configs r \<Longrightarrow> resolver_inv je configs (jwt_initialize je fetch r)"
proof -
  have "resolver_inv je configs r \<Longrightarrow> (\<And>c. c \<in> set pending \<Longrightarrow> c \<in> set configs \<and> validate_issuer c = Inr ())
      \<Longrightarrow> resolver_inv je configs (fold (add_pending je fetch) pending r)" for pending
    by (induction pending arbitrary: r) (auto intro: add_pending_inv)
  moreover have "c \<in> set configs \<and> validate_issuer c = Inr ()" if "resolver_inv je configs r" "c \<in> set (jr_pending_jwks r)" for c
    using that unfolding resolver_inv_def by blast
  ultimately show "resolver_inv je configs r \<Longrightarrow> resolver_inv je configs (jwt_initialize je fetch r)"
    unfolding jwt_initialize_def by blast
qed

lemma refresh_inv:
  assumes "resolver_inv je configs r" "task \<in> set (jr_refresh_tasks r)"
  shows "resolver_inv je configs (refresh_tick je fetch task r)"
proof -
  obtain i src where task: "task = (i, src)" by (cases task)
  from assms(1) obtain cs where cs: "list_all2 (issuer_from je) cs (jr_trusted_issuers r)" "set cs \<subseteq> set configs"
    "\<forall>(i, src) \<in> set (jr_refresh_tasks r). i < length cs \<and> tc_decoding_key (cs ! i) = src"
    and pending: "\<forall>c \<in> set (jr_pending_jwks r). c \<in> set configs \<and> validate_issuer c = Inr ()"
    unfolding resolver_inv_def by blast
  from bspec [OF cs(3) assms(2)] have i: "i < length cs" "tc_decoding_key (cs ! i) = src" by (simp_all add: task)
  have "issuer_from je (cs ! i) ((jr_trusted_issuers r ! i)\<lparr>ti_keys := ks\<rparr>)" if "build_async je fetch src = Inr ks" for ks
  proof -
    from list_all2_nthD [OF cs(1) i(1)] obtain ks0 where "validate_issuer (cs ! i) = Inr ()" "jr_trusted_issuers r ! i = issuer_with (cs ! i) ks0"
      unfolding issuer_from_def by blast
    with that i(2) show ?thesis unfolding issuer_from_def by auto
  qed
  then have "list_all2 (issuer_from je) cs (jr_trusted_issuers (refresh_tick je fetch task r))"
    using cs(1) list_all2_update_cong [OF cs(1), of "cs ! i" _ i]
    by (simp add: refresh_tick_def task split: sum.split)
  moreover have "jr_refresh_tasks (refresh_tick je fetch task r) = jr_refresh_tasks r"
    "jr_pending_jwks (refresh_tick je fetch task r) = jr_pending_jwks r"
    by (simp_all add: refresh_tick_def task split: sum.split)
  ultimately show ?thesis using cs(2,3) pending unfolding resolver_inv_def by (intro conjI exI [of _ cs]) simp_all
qed

lemma drop_inv: "resolver_inv je configs r \<Longrightarrow> resolver_inv je configs (jwt_drop r)"
  by (auto simp: resolver_inv_def jwt_drop_def)

lemma jwt_reachable_inv:
  assumes "jwt_reachable je from_value cfg r"
  shows "\<exists>raw typed. cf_config cfg = Some raw \<and> from_value raw = Inr typed \<and> resolver_inv je (jc_trusted_issuers typed) r"
  using assms
proof induction
  case (jwt_built r)
  then obtain raw typed built pending where "cf_config cfg = Some raw" "from_value raw = Inr typed"
    "partition_issuers je (jc_trusted_issuers typed) = Inr (built, pending)"
    and r: "jr_trusted_issuers r = built" "jr_pending_jwks r = pending" "jr_refresh_tasks r = []"
    by (auto simp: jwt_new_def res_bind_eq_Inr split: if_splits)
  with partition_issuers_inv show ?case unfolding resolver_inv_def r by fastforce
qed (auto intro: initialize_inv refresh_inv drop_inv)

definition configured :: "'a trusted_issuer_config \<Rightarrow> ('k, 'a) trusted_issuer \<Rightarrow> bool" where
  "configured c i \<longleftrightarrow> ti_issuer i = tc_issuer c \<and> ti_audiences i = tc_audiences c \<and> ti_algorithms i = tc_algorithms c
     \<and> ti_algorithms i \<noteq> [] \<and> ti_leeway_seconds i = tc_leeway_seconds c"

lemma issuer_from_keys:
  assumes "issuer_from je c i"
  shows "configured c i" and "select_key (ti_keys i) kid = Some key \<Longrightarrow> yields je (tc_decoding_key c) kid key"
proof -
  from assms obtain ks where ks: "i = issuer_with c ks" "ks = store_empty \<or> (\<exists>fetch. build_async je fetch (tc_decoding_key c) = Inr ks)"
    and "validate_issuer c = Inr ()"
    unfolding issuer_from_def by blast
  then show "configured c i" by (auto simp: configured_def validate_issuer_def split: if_splits)
  have "select_key ks kid = None" if "ks = store_empty" using that by (simp add: select_key_def store_empty_def split: option.split)
  then show "select_key (ti_keys i) kid = Some key \<Longrightarrow> yields je (tc_decoding_key c) kid key"
    using ks by (auto intro: build_async_yields)
qed

lemma reachable_keys:
  assumes "jwt_reachable je from_value cfg r" "i \<in> set (jr_trusted_issuers r)"
  shows "\<exists>raw typed c. cf_config cfg = Some raw \<and> from_value raw = Inr typed \<and> c \<in> set (jc_trusted_issuers typed) \<and> issuer_from je c i"
proof -
  from jwt_reachable_inv [OF assms(1)] obtain raw typed cs where raw: "cf_config cfg = Some raw" "from_value raw = Inr typed"
    and cs: "list_all2 (issuer_from je) cs (jr_trusted_issuers r)" "set cs \<subseteq> set (jc_trusted_issuers typed)"
    unfolding resolver_inv_def by blast
  from assms(2) obtain n where n: "n < length (jr_trusted_issuers r)" "i = jr_trusted_issuers r ! n" by (auto simp: in_set_conv_nth)
  have "issuer_from je (cs ! n) i" "cs ! n \<in> set cs"
    using list_all2_nthD2 [OF cs(1) n(1)] list_all2_lengthD [OF cs(1)] n by simp_all
  with raw cs(2) show ?thesis by blast
qed

subsection \<open>Two ways around the configuration\<close>

text \<open>A resolver whose header is missing takes the token the host extracted, also if the request has other headers.\<close>

lemma missing_header_falls_back:
  "ip_headers p (to_ascii_lowercase (jr_header r)) = None \<Longrightarrow> ip_raw_token p \<noteq> [] \<Longrightarrow> request_token rt r p = Inr (ip_raw_token p)"
  by (simp add: request_token_def)

text \<open>A token whose subject is no SPIFFE id names a workload by another claim.\<close>

lemma workload_without_spiffe_subject:
  "map_option wl_spiffe_id (map_workload [(''sub'', JStr ''alice''), (''spiffe_id'', JStr ''spiffe://a/b'')]) = Some (Some ''spiffe://a/b'')"
  by (simp add: map_workload_def claim_str_of_def Let_def)

end
