(* ===== verification/Ciba.thy ===== *)
theory Ciba
  imports Http_Client
begin

text \<open>
  The plugin that asks a human through OpenID CIBA, \<^verbatim>\<open>builtins/plugins/elicitation-ciba/src/\<close>: the store of elicitations
  in flight (\<^verbatim>\<open>store.rs\<close>), the configuration (\<^verbatim>\<open>config.rs\<close>), the approver (\<^verbatim>\<open>approver.rs\<close>) and its factory.

  Readers of typed JSON bodies are the record \<open>ciba_env\<close>.  A call makes at most one HTTP request, so the network is a
  function from requests to answers; adding to a point in time can panic, which is the left side of a result.
\<close>

subsection \<open>Correlations\<close>

record correlation =
  co_expected_approver :: string
  co_resolved_approver :: "string option"

record 's correlation_store =
  cs_put :: "string \<Rightarrow> correlation \<Rightarrow> 's \<Rightarrow> 's"
  cs_get :: "'s \<Rightarrow> string \<Rightarrow> correlation option"
  cs_set_resolved_approver :: "string \<Rightarrow> string \<Rightarrow> 's \<Rightarrow> 's"

type_synonym correlation_map = "string \<rightharpoonup> correlation"

definition mem_put :: "string \<Rightarrow> correlation \<Rightarrow> correlation_map \<Rightarrow> correlation_map" where
  "mem_put eid c m = m(eid \<mapsto> c)"

definition mem_get :: "correlation_map \<Rightarrow> string \<Rightarrow> correlation option" where
  "mem_get m eid = m eid"

definition mem_set_resolved_approver :: "string \<Rightarrow> string \<Rightarrow> correlation_map \<Rightarrow> correlation_map" where
  "mem_set_resolved_approver eid approver m =
     (case m eid of None \<Rightarrow> m | Some c \<Rightarrow> m(eid \<mapsto> c\<lparr>co_resolved_approver := Some approver\<rparr>))"

definition InMemoryCorrelationStore :: "correlation_map correlation_store" where
  "InMemoryCorrelationStore = \<lparr>cs_put = mem_put, cs_get = mem_get, cs_set_resolved_approver = mem_set_resolved_approver\<rparr>"

subsection \<open>Configuration\<close>

record ciba_config =
  cb_backchannel_endpoint :: string
  cb_token_endpoint :: string
  cb_client_id :: string
  cb_client_secret_source :: client_secret_source
  cb_scope :: string
  cb_default_requested_expiry_seconds :: u64
  cb_http_timeout_seconds :: u64
  cb_approver_claim :: string
  cb_insecure_http :: bool

text \<open>The bodies the plugin reads.\<close>

record backchannel_response =
  br_auth_req_id :: string
  br_expires_in :: "int option"

record token_response =
  tk_access_token :: "string option"
  tk_id_token :: "string option"

record ciba_env =
  ci_client :: client_env
  ci_config :: "json \<Rightarrow> string + ciba_config"
  ci_backchannel :: "string \<Rightarrow> string + backchannel_response"
  ci_token :: "string \<Rightarrow> string + token_response"
  ci_oauth_error :: "string \<Rightarrow> string + string"
  ci_rfc3339 :: "datetime \<Rightarrow> string"

record 's ciba_approver =
  ca_cfg :: plugin_config
  ca_typed :: ciba_config
  ca_client_secret :: string
  ca_store :: "'s correlation_store"

subsection \<open>Construction\<close>

definition cfg_err :: "string \<Rightarrow> string \<Rightarrow> plugin_failure" where
  "cfg_err plugin msg = PF_Config (''plugin '' @ quote plugin @ '' (praxis-policy-plugin-elicitation-ciba): '' @ msg)"

definition check_endpoint :: "bool \<Rightarrow> string \<times> string \<Rightarrow> string + unit" where
  "check_endpoint insecure fu =
     (case fu of (fld, url) \<Rightarrow>
        if trim url = [] then Inl (fld @ '' must be non-empty'')
        else map_err (\<lambda>e. fld @ '' '' @ e) (endpoint_https url insecure))"

definition ciba_new :: "ciba_env \<Rightarrow> plugin_config \<Rightarrow> plugin_failure + correlation_map ciba_approver" where
  "ciba_new env cfg =
     map_err (cfg_err (cf_name cfg))
       (res_bind (ok_or ''requires a `config:` block'' (cf_config cfg)) (\<lambda>raw.
        res_bind (map_err (\<lambda>e. ''config parse failed: '' @ e) (ci_config env raw)) (\<lambda>typed.
        res_bind (check_endpoint (cb_insecure_http typed) (''backchannel_endpoint'', cb_backchannel_endpoint typed)) (\<lambda>_.
        res_bind (check_endpoint (cb_insecure_http typed) (''token_endpoint'', cb_token_endpoint typed)) (\<lambda>_.
        if trim (cb_client_id typed) = [] then Inl ''client_id must be non-empty''
        else res_bind (map_err (\<lambda>e. ''client secret resolve failed: '' @ e)
                        (resolve_secret (ci_client env) (cb_client_secret_source typed))) (\<lambda>secret.
             res_bind (map_err (\<lambda>e. ''HTTP client build failed: '' @ e)
                        (ce_build_client (ci_client env) (cb_http_timeout_seconds typed))) (\<lambda>_.
               Inr \<lparr>ca_cfg = cfg, ca_typed = typed, ca_client_secret = secret, ca_store = InMemoryCorrelationStore\<rparr>)))))))"

definition with_store :: "'t correlation_store \<Rightarrow> 's ciba_approver \<Rightarrow> 't ciba_approver" where
  "with_store store a = \<lparr>ca_cfg = ca_cfg a, ca_typed = ca_typed a, ca_client_secret = ca_client_secret a, ca_store = store\<rparr>"

subsection \<open>Helpers\<close>

definition ciba_deny :: "string \<Rightarrow> string \<Rightarrow> elicitation_payload plugin_result" where
  "ciba_deny code reason = result_deny (violation_new code reason)"

definition invalid :: "elicitation_payload \<Rightarrow> string \<Rightarrow> elicitation_payload plugin_result" where
  "invalid payload reason = modify_payload (payload\<lparr>ey_valid := Some False, ey_reason := Some reason\<rparr>)"

text \<open>White space becomes one dash, other characters that are no letter or digit are dropped.\<close>

fun sanitize_from :: "string \<Rightarrow> bool \<Rightarrow> string list \<Rightarrow> string" where
  "sanitize_from out prev_dash [] = out"
| "sanitize_from out prev_dash (ch # chs) =
     (if length ch = 1 \<and> is_ascii_alphanumeric (hd ch) then sanitize_from (out @ ch) False chs
      else if is_whitespace_cp ch \<and> out \<noteq> [] \<and> \<not> prev_dash then sanitize_from (out @ ''-'') True chs
      else sanitize_from out prev_dash chs)"

definition sanitize_binding_message :: "string \<Rightarrow> string" where
  "sanitize_binding_message purpose =
     rev (dropWhile (\<lambda>c. c = CHR ''-'') (rev (take 50 (sanitize_from [] False (utf8_chars purpose)))))"

text \<open>\<^verbatim>\<open>str::parse::<u64>\<close>, and a duration: the product wraps, as it does in a release build.\<close>

definition parse_u64 :: "string \<Rightarrow> u64 option" where
  "parse_u64 s =
     (case parse_nat (case s of CHR ''+'' # t \<Rightarrow> t | _ \<Rightarrow> s) of
        None \<Rightarrow> None
      | Some n \<Rightarrow> if n < 2 ^ 64 then Some (of_nat n) else None)"

definition duration_unit :: "string \<Rightarrow> (string \<times> u64) option" where
  "duration_unit s =
     (case strip_suffix s ''s'' of
        Some rest \<Rightarrow> Some (rest, 1)
      | None \<Rightarrow>
     (case strip_suffix s ''m'' of
        Some rest \<Rightarrow> Some (rest, 60)
      | None \<Rightarrow>
     (case strip_suffix s ''h'' of
        Some rest \<Rightarrow> Some (rest, 3600)
      | None \<Rightarrow>
     (case strip_suffix s ''d'' of
        Some rest \<Rightarrow> Some (rest, 86400)
      | None \<Rightarrow> if s \<noteq> [] \<and> is_ascii_digit (last s) then Some (s, 1) else None))))"

definition parse_duration_secs :: "string \<Rightarrow> u64 option" where
  "parse_duration_secs s =
     (case duration_unit (trim s) of
        None \<Rightarrow> None
      | Some (num, mult) \<Rightarrow> map_option (\<lambda>n. n * mult) (parse_u64 (trim num)))"

definition GRANT_TYPE_CIBA :: string where
  "GRANT_TYPE_CIBA = ''urn:openid:params:grant-type:ciba''"

subsection \<open>The three operations\<close>

definition ciba_request :: "'s ciba_approver \<Rightarrow> string \<Rightarrow> (string \<times> string) list \<Rightarrow> http_request" where
  "ciba_request a url form =
     \<lparr>hq_url = url, hq_basic_auth = Some (cb_client_id (ca_typed a), ca_client_secret a), hq_form = form\<rparr>"

definition dispatch_form :: "'s ciba_approver \<Rightarrow> elicitation_payload \<Rightarrow> (string \<times> string) list" where
  "dispatch_form a payload =
     (let requested_expiry = unwrap_or (Option.bind (ey_timeout payload) parse_duration_secs)
                               (cb_default_requested_expiry_seconds (ca_typed a))
      in [(''scope'', cb_scope (ca_typed a)), (''login_hint'', ey_from payload), (''requested_expiry'', nat_to_string (unat requested_expiry))]
         @ (case map_option sanitize_binding_message (ey_purpose payload) of
              Some bm \<Rightarrow> if bm = [] then [] else [(''binding_message'', bm)]
            | None \<Rightarrow> []))"

definition do_dispatch ::
    "ciba_env \<Rightarrow> http_client \<Rightarrow> datetime \<Rightarrow> 's ciba_approver \<Rightarrow> 's \<Rightarrow> elicitation_payload
     \<Rightarrow> (string + elicitation_payload plugin_result) \<times> 's" where
  "do_dispatch env net now a s payload =
     (let login_hint = ey_from payload; endpoint = cb_backchannel_endpoint (ca_typed a) in
      if login_hint = []
      then (Inr (ciba_deny ''elicitation.bad_request''
              (''CIBA dispatch requires a resolved approver (login_hint) '' @ em_dash @ '' `from` resolved to empty'')), s)
      else (case net (ciba_request a endpoint (dispatch_form a payload)) of
              Inl e \<Rightarrow>
                if he_is_timeout e
                then (Inr (ciba_deny ''elicitation.op_timeout'' (''CIBA backchannel POST timed out: '' @ he_text e)), s)
                else (Inr (ciba_deny ''elicitation.op_unreachable''
                        (''CIBA backchannel POST to '' @ endpoint @ '' failed: '' @ he_text e)), s)
            | Inr response \<Rightarrow>
                if \<not> is_success response
                then (Inr (ciba_deny ''elicitation.op_rejected''
                        (''CIBA backchannel rejected ('' @ hr_status_text response @ ''): '' @ body_or_default response)), s)
                else (case body_json (ci_backchannel env) response of
                        Inl e \<Rightarrow> (Inr (ciba_deny ''elicitation.bad_response''
                                   (''CIBA backchannel response wasn'' @ [CHR 0x27] @ ''t valid JSON: '' @ e)), s)
                      | Inr parsed \<Rightarrow>
                          (let eid = br_auth_req_id parsed;
                               s' = cs_put (ca_store a) eid \<lparr>co_expected_approver = login_hint, co_resolved_approver = None\<rparr> s;
                               out = (\<lambda>expires_at. Inr (modify_payload (payload\<lparr>ey_id := Some eid, ey_status := Some EK_Pending,
                                        ey_approver := Some login_hint, ey_expires_at := expires_at\<rparr>)))
                           in (case br_expires_in parsed of
                                 None \<Rightarrow> (out None, s')
                               | Some secs \<Rightarrow>
                                   (case ce_plus_seconds (ci_client env) now secs of
                                      Inl msg \<Rightarrow> (Inl msg, s')
                                    | Inr t \<Rightarrow> (out (Some (ci_rfc3339 env t)), s')))))))"

text \<open>How an error code of the token endpoint ends a poll.\<close>

definition poll_status :: "string \<Rightarrow> (elicitation_status_kind \<times> elicitation_outcome_kind option) option" where
  "poll_status code =
     (if code = ''authorization_pending'' \<or> code = ''slow_down'' then Some (EK_Pending, None)
      else if code = ''expired_token'' then Some (EK_Expired, None)
      else if code = ''access_denied'' then Some (EK_Resolved, Some EU_Denied)
      else None)"

definition poll_request :: "'s ciba_approver \<Rightarrow> string \<Rightarrow> http_request" where
  "poll_request a eid = ciba_request a (cb_token_endpoint (ca_typed a)) [(''grant_type'', GRANT_TYPE_CIBA), (''auth_req_id'', eid)]"

text \<open>The approver a token names: the identity token goes before the access token.\<close>

definition token_approver :: "ciba_env \<Rightarrow> 's ciba_approver \<Rightarrow> token_response \<Rightarrow> string option" where
  "token_approver env a parsed =
     Option.bind (or_else (tk_id_token parsed) (tk_access_token parsed)) (\<lambda>token.
       decode_jwt_claim (ci_client env) token (cb_approver_claim (ca_typed a)))"

definition do_check ::
    "ciba_env \<Rightarrow> http_client \<Rightarrow> 's ciba_approver \<Rightarrow> 's \<Rightarrow> elicitation_payload \<Rightarrow> elicitation_payload plugin_result \<times> 's" where
  "do_check env net a s payload =
     (let approved = modify_payload (payload\<lparr>ey_status := Some EK_Resolved, ey_outcome := Some EU_Approved\<rparr>) in
      case ey_elicitation_id payload of
        None \<Rightarrow> (ciba_deny ''elicitation.bad_request'' ''CIBA check requires an elicitation id'', s)
      | Some eid \<Rightarrow>
          if Option.bind (cs_get (ca_store a) s eid) co_resolved_approver \<noteq> None then (approved, s)
          else (case net (poll_request a eid) of
                  Inl e \<Rightarrow>
                    if he_is_timeout e then (ciba_deny ''elicitation.op_timeout'' (''CIBA token poll timed out: '' @ he_text e), s)
                    else (ciba_deny ''elicitation.op_unreachable''
                            (''CIBA token poll to '' @ cb_token_endpoint (ca_typed a) @ '' failed: '' @ he_text e), s)
                | Inr response \<Rightarrow>
                    if is_success response
                    then (case ci_token env (body_or_default response) of
                            Inl e \<Rightarrow> (ciba_deny ''elicitation.bad_response''
                                       (''CIBA token response wasn'' @ [CHR 0x27] @ ''t valid JSON: '' @ e), s)
                          | Inr parsed \<Rightarrow>
                              (approved, case token_approver env a parsed of
                                           Some approver \<Rightarrow> cs_set_resolved_approver (ca_store a) eid approver s
                                         | None \<Rightarrow> s))
                    else (case poll_status (case ci_oauth_error env (body_or_default response) of Inr c \<Rightarrow> c | Inl _ \<Rightarrow> []) of
                            None \<Rightarrow> (ciba_deny ''elicitation.op_rejected''
                                      (''CIBA token poll failed ('' @ hr_status_text response @ ''): '' @ body_or_default response), s)
                          | Some (status_kind, outcome) \<Rightarrow>
                              (modify_payload (payload\<lparr>ey_status := Some status_kind, ey_outcome := outcome\<rparr>), s))))"

definition do_validate :: "'s ciba_approver \<Rightarrow> 's \<Rightarrow> elicitation_payload \<Rightarrow> elicitation_payload plugin_result" where
  "do_validate a s payload =
     (case ey_elicitation_id payload of
        None \<Rightarrow> ciba_deny ''elicitation.bad_request'' ''CIBA validate requires an elicitation id''
      | Some eid \<Rightarrow>
          (case cs_get (ca_store a) s eid of
             None \<Rightarrow> invalid payload ''unknown elicitation id''
           | Some correlation \<Rightarrow>
               (case co_resolved_approver correlation of
                  None \<Rightarrow> invalid payload (''elicitation has no resolved approver (no `'' @ cb_approver_claim (ca_typed a)
                             @ ''` claim was extracted at check, or it hasn'' @ [CHR 0x27] @ ''t resolved)'')
                | Some resolved \<Rightarrow>
                    if resolved = co_expected_approver correlation
                    then modify_payload (payload\<lparr>ey_approver := Some resolved, ey_valid := Some True\<rparr>)
                    else modify_payload (payload\<lparr>ey_approver := Some resolved, ey_valid := Some False,
                           ey_reason := Some (''approver mismatch: token names `'' @ resolved @ ''`, expected `''
                             @ co_expected_approver correlation @ ''`'')\<rparr>))))"

definition ciba_handle ::
    "ciba_env \<Rightarrow> http_client \<Rightarrow> datetime \<Rightarrow> 's ciba_approver \<Rightarrow> 's \<Rightarrow> elicitation_payload
     \<Rightarrow> (string + elicitation_payload plugin_result) \<times> 's" where
  "ciba_handle env net now a s payload =
     (case ey_operation payload of
        EO_Dispatch \<Rightarrow> do_dispatch env net now a s payload
      | EO_Check \<Rightarrow> (case do_check env net a s payload of (r, s') \<Rightarrow> (Inr r, s'))
      | EO_Validate \<Rightarrow> (Inr (do_validate a s payload), s))"

subsection \<open>The factory\<close>

definition CIBA_KIND :: string where
  "CIBA_KIND = ''elicitation/ciba''"

definition HOOK_ELICIT :: string where
  "HOOK_ELICIT = ''elicit''"

text \<open>How a world holds the approvers and their stores, by the name of the plugin.\<close>

record 'w ciba_world =
  cw_approver :: "'w \<Rightarrow> string \<Rightarrow> correlation_map ciba_approver"
  cw_store :: "'w \<Rightarrow> string \<Rightarrow> correlation_map"
  cw_set :: "string \<Rightarrow> correlation_map ciba_approver \<Rightarrow> correlation_map \<Rightarrow> 'w \<Rightarrow> 'w"
  cw_env :: "'w \<Rightarrow> ciba_env"
  cw_net :: "'w \<Rightarrow> http_client"
  cw_now :: "'w \<Rightarrow> datetime"
  cw_elapsed :: "'w \<Rightarrow> nat"
  cw_type_name :: string

definition ciba_handler :: "'w ciba_world \<Rightarrow> string \<Rightarrow> (plugin_payload, 'w) hook_handler" where
  "ciba_handler cw name =
     typed_adapter HOOK_ELICIT (cw_type_name cw) as_elicitation PP_Elicitation
       (\<lambda>w payload ext ctx.
          case ciba_handle (cw_env cw w) (cw_net cw w) (cw_now cw w) (cw_approver cw w name) (cw_store cw w name) payload of
            (r, s') \<Rightarrow> (cw_elapsed cw w, r, ctx, cw_set cw name (cw_approver cw w name) s' w))"

definition ciba_create :: "'w ciba_world \<Rightarrow> (plugin_payload, 'w) plugin_factory" where
  "ciba_create cw config w =
     (case ciba_new (cw_env cw w) config of
        Inl e \<Rightarrow> (Inl e, w)
      | Inr approver \<Rightarrow>
          (Inr \<lparr>pn_plugin = \<lparr>ob_initialize = (\<lambda>w. (None, w)), ob_shutdown = (\<lambda>w. (None, w))\<rparr>,
                pn_handlers = [(HOOK_ELICIT, ciba_handler cw (cf_name config))]\<rparr>,
           cw_set cw (cf_name config) approver Map.empty w))"

end
