(* ===== verification/Ciba_Props.thy ===== *)
theory Ciba_Props
  imports Ciba
begin

text \<open>
  What an approval of the CIBA plugin stands for.  The locale \<open>correlation_contract\<close> is the contract of a correlation store,
  interpreted for the store in memory; in it the correlation of an id is computed from the calls the plugin answered, and
  is complete exactly if the id was handed out for an approver and the token endpoint later named one.
\<close>

subsection \<open>Calls and what they do to one id\<close>

type_synonym ciba_call = "http_client \<times> datetime \<times> elicitation_payload"

definition ciba_run :: "ciba_env \<Rightarrow> 's ciba_approver \<Rightarrow> ciba_call list \<Rightarrow> 's \<Rightarrow> 's" where
  "ciba_run env a calls s = fold (\<lambda>(net, now, p) s. snd (ciba_handle env net now a s p)) calls s"

text \<open>The approver a call asks under an id: the provider answered the backchannel request with that id.\<close>

definition asked :: "ciba_env \<Rightarrow> 's ciba_approver \<Rightarrow> string \<Rightarrow> ciba_call \<Rightarrow> string option" where
  "asked env a eid call =
     (case call of (net, now, p) \<Rightarrow>
        if ey_operation p = EO_Dispatch \<and> ey_from p \<noteq> []
        then (case net (ciba_request a (cb_backchannel_endpoint (ca_typed a)) (dispatch_form a p)) of
                Inl _ \<Rightarrow> None
              | Inr r \<Rightarrow> (case body_json (ci_backchannel env) r of
                          Inl _ \<Rightarrow> None
                        | Inr parsed \<Rightarrow> if is_success r \<and> br_auth_req_id parsed = eid then Some (ey_from p) else None))
        else None)"

text \<open>The approver a poll of an id names: the token endpoint answered with a token that has the claim.\<close>

definition named :: "ciba_env \<Rightarrow> 's ciba_approver \<Rightarrow> string \<Rightarrow> ciba_call \<Rightarrow> string option" where
  "named env a eid call =
     (case call of (net, now, p) \<Rightarrow>
        if ey_operation p = EO_Check \<and> ey_elicitation_id p = Some eid
        then (case net (poll_request a eid) of
                Inl _ \<Rightarrow> None
              | Inr r \<Rightarrow> (case ci_token env (body_or_default r) of
                          Inl _ \<Rightarrow> None
                        | Inr parsed \<Rightarrow> if is_success r then token_approver env a parsed else None))
        else None)"

text \<open>The specification: what a call does to the approver asked and the approver named under an id.\<close>

definition corr_step :: "string option \<Rightarrow> string option \<Rightarrow> (string \<times> string option) option \<Rightarrow> (string \<times> string option) option" where
  "corr_step ask nam c =
     (case ask of
        Some x \<Rightarrow> Some (x, None)
      | None \<Rightarrow> (case c of Some (x, None) \<Rightarrow> Some (x, nam) | _ \<Rightarrow> c))"

definition corr_view :: "correlation option \<Rightarrow> (string \<times> string option) option" where
  "corr_view c = map_option (\<lambda>c. (co_expected_approver c, co_resolved_approver c)) c"

lemma corr_view_simps [simp]:
  "corr_view None = None" "corr_view (Some c) = Some (co_expected_approver c, co_resolved_approver c)"
  by (simp_all add: corr_view_def)

text \<open>
  A fold of the steps ends with both approvers exactly if the first naming after the last asking names the second.
\<close>

definition history :: "('c \<Rightarrow> string option) \<Rightarrow> ('c \<Rightarrow> string option) \<Rightarrow> 'c list \<Rightarrow> (string \<times> string option) option" where
  "history ask nam calls = fold (\<lambda>k. corr_step (ask k) (nam k)) calls None"

lemma history_snoc: "history ask nam (calls @ [k]) = corr_step (ask k) (nam k) (history ask nam calls)"
  by (simp add: history_def)

lemma history_asked:
  "history ask nam calls = Some (x, None) \<Longrightarrow>
   \<exists>before d between. calls = before @ d # between \<and> ask d = Some x \<and> (\<forall>k \<in> set between. ask k = None \<and> nam k = None)"
proof (induction calls rule: rev_induct)
  case (snoc k calls)
  show ?case
  proof (cases "ask k")
    case None
    with snoc.prems have "history ask nam calls = Some (x, None)" "nam k = None"
      by (auto simp: history_snoc corr_step_def split: option.splits)
    from snoc.IH [OF this(1)] obtain before d between where "calls = before @ d # between" "ask d = Some x"
      "\<forall>k \<in> set between. ask k = None \<and> nam k = None" by blast
    with None \<open>nam k = None\<close> show ?thesis by (intro exI [of _ before] exI [of _ d] exI [of _ "between @ [k]"]) simp
  next
    case (Some y)
    with snoc.prems have "y = x" by (simp add: history_snoc corr_step_def)
    with Some show ?thesis by (intro exI [of _ calls] exI [of _ k] exI [of _ "[]"]) simp
  qed
qed (simp add: history_def)

lemma history_named:
  "history ask nam calls = Some (x, Some y) \<Longrightarrow>
   \<exists>before d between c after. calls = before @ d # between @ c # after \<and> ask d = Some x \<and> nam c = Some y
     \<and> (\<forall>k \<in> set (between @ c # after). ask k = None) \<and> (\<forall>k \<in> set between. nam k = None)"
proof (induction calls rule: rev_induct)
  case (snoc k calls)
  from snoc.prems have k: "ask k = None" by (auto simp: history_snoc corr_step_def split: option.splits)
  with snoc.prems consider "history ask nam calls = Some (x, Some y)" | "history ask nam calls = Some (x, None)" "nam k = Some y"
    by (auto simp: history_snoc corr_step_def split: option.splits)
  then show ?case
  proof cases
    case 1
    from snoc.IH [OF this] obtain before d between c after where "calls = before @ d # between @ c # after" "ask d = Some x"
      "nam c = Some y" "\<forall>k \<in> set (between @ c # after). ask k = None" "\<forall>k \<in> set between. nam k = None" by blast
    with k show ?thesis
      by (intro exI [of _ before] exI [of _ d] exI [of _ between] exI [of _ c] exI [of _ "after @ [k]"]) simp
  next
    case 2
    from history_asked [OF 2(1)] obtain before d between where "calls = before @ d # between" "ask d = Some x"
      "\<forall>k \<in> set between. ask k = None \<and> nam k = None" by blast
    with k 2(2) show ?thesis
      by (intro exI [of _ before] exI [of _ d] exI [of _ between] exI [of _ k] exI [of _ "[]"]) simp
  qed
qed (simp add: history_def)

lemma fold_unnamed: "\<forall>k \<in> set ks. ask k = None \<and> nam k = None \<Longrightarrow> fold (\<lambda>k. corr_step (ask k) (nam k)) ks c = c"
  by (induction ks) (auto simp: corr_step_def split: option.splits)

lemma fold_resolved: "\<forall>k \<in> set ks. ask k = None \<Longrightarrow> fold (\<lambda>k. corr_step (ask k) (nam k)) ks (Some (x, Some y)) = Some (x, Some y)"
  by (induction ks) (auto simp: corr_step_def)

lemma history_iff:
  "history ask nam calls = Some (x, Some y) \<longleftrightarrow>
   (\<exists>before d between c after. calls = before @ d # between @ c # after \<and> ask d = Some x \<and> nam c = Some y
      \<and> (\<forall>k \<in> set (between @ c # after). ask k = None) \<and> (\<forall>k \<in> set between. nam k = None))"
proof
  assume "\<exists>before d between c after. calls = before @ d # between @ c # after \<and> ask d = Some x \<and> nam c = Some y
      \<and> (\<forall>k \<in> set (between @ c # after). ask k = None) \<and> (\<forall>k \<in> set between. nam k = None)"
  then obtain before d between c after where calls: "calls = before @ d # between @ c # after" "ask d = Some x" "nam c = Some y"
    "ask c = None" "\<forall>k \<in> set after. ask k = None" "\<forall>k \<in> set between. ask k = None \<and> nam k = None" by auto
  have "corr_step (ask d) (nam d) h = Some (x, None)" for h by (simp add: corr_step_def calls(2))
  moreover have "corr_step (ask c) (nam c) (Some (x, None)) = Some (x, Some y)" by (simp add: corr_step_def calls(3,4))
  ultimately show "history ask nam calls = Some (x, Some y)"
    by (simp add: history_def calls(1) fold_unnamed [OF calls(6)] fold_resolved [OF calls(5)])
qed (rule history_named)

subsection \<open>The contract of a store\<close>

locale correlation_contract =
  fixes store :: "'s correlation_store" and fresh :: 's
  assumes get_fresh: "cs_get store fresh eid = None"
    and get_put: "cs_get store (cs_put store e c s) eid = (if eid = e then Some c else cs_get store s eid)"
    and get_set: "cs_get store (cs_set_resolved_approver store e y s) eid =
          (if eid = e then map_option (\<lambda>c. c\<lparr>co_resolved_approver := Some y\<rparr>) (cs_get store s eid) else cs_get store s eid)"
begin

lemma dispatch_view:
  assumes "ca_store a = store" "ey_operation p = EO_Dispatch"
  shows "corr_view (cs_get store (snd (do_dispatch env net now a s p)) eid) =
           corr_step (asked env a eid (net, now, p)) None (corr_view (cs_get store s eid))"
  using assms by (auto simp: do_dispatch_def asked_def corr_step_def Let_def get_put split: sum.splits option.splits if_splits)

lemma check_view:
  assumes "ca_store a = store" "ey_operation p = EO_Check"
  shows "corr_view (cs_get store (snd (do_check env net a s p)) eid) =
           corr_step None (named env a eid (net, now, p)) (corr_view (cs_get store s eid))"
proof (cases "ey_elicitation_id p = Some eid")
  case True
  with assms show ?thesis
    by (cases "cs_get store s eid")
       (auto simp: do_check_def named_def corr_step_def Let_def get_set split: sum.splits option.splits if_splits)
next
  case False
  then have "cs_get store (snd (do_check env net a s p)) eid = cs_get store s eid"
    using assms(1) by (auto simp: do_check_def Let_def get_set split: sum.splits option.splits)
  with False show ?thesis by (auto simp: named_def corr_step_def split: option.splits)
qed

lemma handle_view:
  assumes "ca_store a = store"
  shows "corr_view (cs_get store (snd (ciba_handle env net now a s p)) eid) =
           corr_step (asked env a eid (net, now, p)) (named env a eid (net, now, p)) (corr_view (cs_get store s eid))"
proof (cases "ey_operation p")
  case EO_Dispatch
  with dispatch_view [OF assms] show ?thesis by (simp add: ciba_handle_def named_def)
next
  case EO_Check
  with check_view [OF assms] show ?thesis by (simp add: ciba_handle_def asked_def case_prod_beta)
next
  case EO_Validate
  then show ?thesis by (auto simp: ciba_handle_def asked_def named_def corr_step_def split: option.splits)
qed

lemma run_view:
  assumes "ca_store a = store"
  shows "corr_view (cs_get store (ciba_run env a calls fresh) eid) = history (asked env a eid) (named env a eid) calls"
proof (induction calls rule: rev_induct)
  case Nil
  then show ?case by (simp add: ciba_run_def history_def get_fresh)
next
  case (snoc call calls)
  then show ?case
    by (cases call) (simp add: ciba_run_def history_snoc handle_view [OF assms])
qed

lemma validate_iff:
  assumes "ca_store a = store" "ey_operation p = EO_Validate" "ey_elicitation_id p = Some eid"
  shows "(\<exists>p'. ciba_handle env net now a s p = (Inr (modify_payload p'), s) \<and> ey_valid p' = Some True \<and> ey_approver p' = Some x)
     \<longleftrightarrow> corr_view (cs_get store s eid) = Some (x, Some x)"
  using assms
  by (auto simp: ciba_handle_def do_validate_def invalid_def modify_payload_def split: option.splits if_splits)

end

interpretation mem: correlation_contract InMemoryCorrelationStore Map.empty
  by unfold_locales (simp_all add: InMemoryCorrelationStore_def mem_get_def mem_put_def mem_set_resolved_approver_def split: option.split)

lemma ciba_new_store: "ciba_new env cfg = Inr a \<Longrightarrow> ca_store a = InMemoryCorrelationStore"
  by (auto simp: ciba_new_def res_bind_eq_Inr split: if_splits)

text \<open>The plugin that was built talks to its provider over TLS, unless the configuration asks for plaintext.\<close>

lemma ciba_new_endpoints:
  assumes "ciba_new env cfg = Inr a"
  shows "cb_client_id (ca_typed a) \<noteq> []"
    and "endpoint_https (cb_backchannel_endpoint (ca_typed a)) (cb_insecure_http (ca_typed a)) = Inr ()"
    and "endpoint_https (cb_token_endpoint (ca_typed a)) (cb_insecure_http (ca_typed a)) = Inr ()"
  using assms
  by (auto simp: ciba_new_def check_endpoint_def res_bind_eq_Inr trim_def trim_start_def trim_end_def split: if_splits)

subsection \<open>An approval is not bound to what was asked\<close>

text \<open>
  Once an approver was named, every later check and validation of the id succeeds, whatever step, purpose or approver the
  payload is for, and without a request to the provider.
\<close>

lemma resolved_replay:
  assumes "cs_get (ca_store a) s eid = Some \<lparr>co_expected_approver = x, co_resolved_approver = Some x\<rparr>" "ey_elicitation_id q = Some eid"
  shows "do_check env net a s q = (modify_payload (q\<lparr>ey_status := Some EK_Resolved, ey_outcome := Some EU_Approved\<rparr>), s)"
    and "do_validate a s q = modify_payload (q\<lparr>ey_approver := Some x, ey_valid := Some True\<rparr>)"
  using assms by (simp_all add: do_check_def do_validate_def Let_def)

subsection \<open>Binding messages and durations\<close>

definition cue_char :: "char \<Rightarrow> bool" where
  "cue_char c \<longleftrightarrow> is_ascii_alphanumeric c \<or> c = CHR ''-''"

lemma sanitize_from_chars: "\<forall>c \<in> set out. cue_char c \<Longrightarrow> c \<in> set (sanitize_from out prev chs) \<Longrightarrow> cue_char c"
proof (induction out prev chs rule: sanitize_from.induct)
  case (2 out prev ch chs)
  have "\<forall>c \<in> set (out @ ch). cue_char c" if "length ch = 1" "is_ascii_alphanumeric (hd ch)"
    using that 2(4) by (cases ch) (auto simp: cue_char_def)
  moreover have "\<forall>c \<in> set (out @ ''-''). cue_char c" using 2(4) by (auto simp: cue_char_def)
  ultimately show ?case using 2 by (auto split: if_splits)
qed simp

lemma sanitize_from_head: "out = [] \<or> hd out \<noteq> CHR ''-'' \<Longrightarrow> sanitize_from out prev chs = [] \<or> hd (sanitize_from out prev chs) \<noteq> CHR ''-''"
proof (induction out prev chs rule: sanitize_from.induct)
  case (2 out prev ch chs)
  have "hd (out @ ch) \<noteq> CHR ''-''" if "length ch = 1" "is_ascii_alphanumeric (hd ch)"
    using that 2(4) by (cases out; cases ch)
      (auto simp: is_ascii_alphanumeric_def is_ascii_alphabetic_def is_ascii_upper_def is_ascii_lower_def is_ascii_digit_def byte_of_def)
  moreover have "hd (out @ ''-'') \<noteq> CHR ''-''" if "out \<noteq> []" using that 2(4) by (cases out) auto
  ultimately show ?case using 2 by auto
qed simp

lemma binding_message_valid:
  "length (sanitize_binding_message p) \<le> 50" "c \<in> set (sanitize_binding_message p) \<Longrightarrow> cue_char c"
  "sanitize_binding_message p \<noteq> [] \<Longrightarrow> last (sanitize_binding_message p) \<noteq> CHR ''-''"
proof -
  let ?t = "take 50 (sanitize_from [] False (utf8_chars p))"
  have "length (dropWhile P (rev ?t)) \<le> length ?t" for P using length_dropWhile_le [of P "rev ?t"] by (simp only: length_rev)
  then show "length (sanitize_binding_message p) \<le> 50" unfolding sanitize_binding_message_def
    by (metis length_rev length_take min.boundedE)
  show "c \<in> set (sanitize_binding_message p) \<Longrightarrow> cue_char c"
    using sanitize_from_chars [of "[]" c False "utf8_chars p"] set_dropWhileD [of c "\<lambda>c. c = CHR ''-''" "rev ?t"] in_set_takeD [of c 50]
    by (simp add: sanitize_binding_message_def)
  show "sanitize_binding_message p \<noteq> [] \<Longrightarrow> last (sanitize_binding_message p) \<noteq> CHR ''-''"
    using hd_dropWhile [of "\<lambda>c. c = CHR ''-''" "rev ?t"] unfolding sanitize_binding_message_def by (simp only: last_rev rev_is_Nil_conv not_False_eq_True)
qed

text \<open>A long duration wraps around to a short one.\<close>

lemma duration_wraps: "parse_duration_secs ''213503982334602d'' = Some 61184"
proof -
  have "parse_nat ''213503982334602'' = Some 213503982334602" by (simp add: parse_nat_def is_ascii_digit_def byte_of_def)
  then have "parse_u64 ''213503982334602'' = Some 213503982334602" by (simp add: parse_u64_def)
  moreover have "trim ''213503982334602d'' = ''213503982334602d''" "trim ''213503982334602'' = ''213503982334602''" by code_simp+
  moreover have "duration_unit ''213503982334602d'' = Some (''213503982334602'', 86400)" by code_simp
  ultimately show ?thesis by (simp add: parse_duration_secs_def)
qed

end
