(* ===== verification/Oauth_Delegator.thy ===== *)
theory Oauth_Delegator
  imports Jwt_Config
begin

text \<open>
  The plugin that mints downstream credentials by token exchange, \<^verbatim>\<open>builtins/plugins/delegator-oauth/src/\<close>: configuration
  (\<^verbatim>\<open>config.rs\<close>), handler (\<^verbatim>\<open>delegator.rs\<close>) and factory.

  A call makes one or two HTTP requests, with different forms, so the network is again a function from requests to
  answers.  The warning about a missing \<^verbatim>\<open>act\<close> claim is the only thing the latch \<open>od_warned_missing_act\<close> is for.
\<close>

subsection \<open>Configuration\<close>

record oauth_config =
  oc_token_endpoint :: string
  oc_client_id :: string
  oc_client_secret_source :: client_secret_source
  oc_subject_token_type :: string
  oc_timeout_seconds :: u64
  oc_default_outbound_header :: string
  oc_insecure_http :: bool
  oc_actor_token_type :: string
  oc_workload_assertion_type :: string

record token_exchange_response =
  tx_access_token :: string
  tx_issued_token_type :: "string option"
  tx_expires_in :: "int option"
  tx_scope :: "string option"

record token_error_response =
  te_error :: string
  te_error_description :: "string option"

record oauth_env =
  oe_client :: client_env
  oe_config :: "json \<Rightarrow> string + oauth_config"
  oe_exchange :: "string \<Rightarrow> string + token_exchange_response"
  oe_error :: "string \<Rightarrow> string + token_error_response"

record oauth_delegator =
  od_cfg :: plugin_config
  od_typed :: oauth_config
  od_client_secret :: string
  od_warned_missing_act :: bool

definition GRANT_TYPE_TOKEN_EXCHANGE :: string where
  "GRANT_TYPE_TOKEN_EXCHANGE = ''urn:ietf:params:oauth:grant-type:token-exchange''"

definition GRANT_TYPE_CLIENT_CREDENTIALS :: string where
  "GRANT_TYPE_CLIENT_CREDENTIALS = ''client_credentials''"

definition DEFAULT_ISSUED_TOKEN_TYPE :: string where
  "DEFAULT_ISSUED_TOKEN_TYPE = ''urn:ietf:params:oauth:token-type:access_token''"

definition oauth_context_text :: "plugin_config \<Rightarrow> string \<Rightarrow> string" where
  "oauth_context_text cfg rest = ''plugin '' @ quote (cf_name cfg) @ '' (praxis-policy-plugin-delegator-oauth)'' @ rest"

definition oauth_new :: "oauth_env \<Rightarrow> plugin_config \<Rightarrow> plugin_failure + oauth_delegator" where
  "oauth_new env cfg =
     map_err (\<lambda>msg. PF_Config (oauth_context_text cfg msg))
       (res_bind (ok_or '' requires a `config:` block'' (cf_config cfg)) (\<lambda>raw.
        res_bind (map_err (\<lambda>e. '' config parse failed: '' @ e) (oe_config env raw)) (\<lambda>typed.
        if trim (oc_token_endpoint typed) = [] then Inl '': token_endpoint must be non-empty''
        else res_bind (map_err (\<lambda>e. '': token_endpoint '' @ e) (endpoint_https (oc_token_endpoint typed) (oc_insecure_http typed))) (\<lambda>_.
        if trim (oc_client_id typed) = [] then Inl '': client_id must be non-empty''
        else res_bind (map_err (\<lambda>e. '' client secret resolve failed: '' @ e)
                        (resolve_secret (oe_client env) (oc_client_secret_source typed))) (\<lambda>secret.
             res_bind (map_err (\<lambda>e. '' HTTP client build failed: '' @ e)
                        (ce_build_client (oe_client env) (oc_timeout_seconds typed))) (\<lambda>_.
               Inr \<lparr>od_cfg = cfg, od_typed = typed, od_client_secret = secret, od_warned_missing_act = False\<rparr>))))))"

subsection \<open>What is asked for\<close>

text \<open>The required permissions, and the capabilities of the attenuation that are not among them yet.\<close>

definition scope_list :: "delegation_payload \<Rightarrow> string list" where
  "scope_list payload =
     (case dl_route_attenuation payload of
        None \<Rightarrow> dl_required_permissions payload
      | Some att \<Rightarrow> fold (\<lambda>cap scopes. if cap \<in> set scopes then scopes else scopes @ [cap]) (ac_capabilities att) (dl_required_permissions payload))"

definition requested_scopes :: "delegation_payload \<Rightarrow> string" where
  "requested_scopes payload = join_with '' '' (scope_list payload)"

definition assertion_request :: "oauth_delegator \<Rightarrow> string \<Rightarrow> http_request" where
  "assertion_request d svid =
     \<lparr>hq_url = oc_token_endpoint (od_typed d), hq_basic_auth = None,
      hq_form = [(''grant_type'', GRANT_TYPE_CLIENT_CREDENTIALS),
                 (''client_assertion_type'', oc_workload_assertion_type (od_typed d)), (''client_assertion'', svid)]\<rparr>"

definition mint_base_token :: "oauth_env \<Rightarrow> http_client \<Rightarrow> oauth_delegator \<Rightarrow> string \<Rightarrow> plugin_violation + string" where
  "mint_base_token env net d svid =
     (case net (assertion_request d svid) of
        Inl e \<Rightarrow>
          if he_is_timeout e
          then Inl (violation_new ''delegation.idp_timeout'' (''workload client_assertion to '' @ oc_token_endpoint (od_typed d) @ '' timed out''))
          else Inl (violation_new ''delegation.idp_unreachable''
                 (''workload client_assertion POST to '' @ oc_token_endpoint (od_typed d) @ '' failed: '' @ he_text e))
      | Inr response \<Rightarrow>
          if \<not> is_success response
          then Inl (violation_new ''delegation.idp_rejected''
                 (case oe_error env (body_or_default response) of
                    Inr err \<Rightarrow> ''workload client_assertion rejected: '' @ te_error err
                  | Inl _ \<Rightarrow> ''workload client_assertion rejected (HTTP '' @ hr_status_text response @ '')''))
          else (case body_json (oe_exchange env) response of
                  Inr parsed \<Rightarrow> Inr (tx_access_token parsed)
                | Inl e \<Rightarrow> Inl (violation_new ''delegation.bad_response''
                            (''workload client_assertion response wasn'' @ [CHR 0x27] @ ''t valid token JSON: '' @ e))))"

subsection \<open>The exchange\<close>

definition exchange_form :: "oauth_delegator \<Rightarrow> delegation_payload \<Rightarrow> string \<Rightarrow> string \<Rightarrow> (string \<times> string) list" where
  "exchange_form d payload audience subject_token =
     (let scope = requested_scopes payload;
          base = (if dl_subject payload = DS_ThisWorkload
                  then [(''grant_type'', GRANT_TYPE_CLIENT_CREDENTIALS), (''audience'', audience)]
                  else [(''grant_type'', GRANT_TYPE_TOKEN_EXCHANGE), (''subject_token'', subject_token),
                        (''subject_token_type'', oc_subject_token_type (od_typed d)), (''audience'', audience)]);
          actor_requested = (dl_actor_token payload \<noteq> [] \<and> dl_subject payload \<noteq> DS_ThisWorkload \<and> dl_subject payload \<noteq> DS_CallerWorkload)
      in base @ (if scope = [] then [] else [(''scope'', scope)])
         @ (if actor_requested then [(''actor_token'', dl_actor_token payload), (''actor_token_type'', oc_actor_token_type (od_typed d))] else []))"

definition exchange_request :: "oauth_delegator \<Rightarrow> delegation_payload \<Rightarrow> string \<Rightarrow> string \<Rightarrow> http_request" where
  "exchange_request d payload audience subject_token =
     \<lparr>hq_url = oc_token_endpoint (od_typed d), hq_basic_auth = Some (oc_client_id (od_typed d), od_client_secret d),
      hq_form = exchange_form d payload audience subject_token\<rparr>"

definition exchange_rejected :: "oauth_env \<Rightarrow> http_response \<Rightarrow> plugin_violation" where
  "exchange_rejected env response =
     violation_new ''delegation.idp_rejected''
       (case oe_error env (body_or_default response) of
          Inr err \<Rightarrow> te_error err @ (case te_error_description err of Some desc \<Rightarrow> '': '' @ desc | None \<Rightarrow> [])
        | Inl _ \<Rightarrow> ''IdP returned '' @ hr_status_text response @ '': '' @ body_or_default response)"

definition exchange :: "oauth_env \<Rightarrow> http_client \<Rightarrow> oauth_delegator \<Rightarrow> http_request \<Rightarrow> plugin_violation + token_exchange_response" where
  "exchange env net d request =
     (case net request of
        Inl e \<Rightarrow>
          if he_is_timeout e
          then Inl (violation_new ''delegation.idp_timeout'' (''token-exchange to '' @ oc_token_endpoint (od_typed d) @ '' timed out''))
          else Inl (violation_new ''delegation.idp_unreachable''
                 (''token-exchange POST to '' @ oc_token_endpoint (od_typed d) @ '' failed: '' @ he_text e))
      | Inr response \<Rightarrow>
          if \<not> is_success response then Inl (exchange_rejected env response)
          else map_err (\<lambda>e. violation_new ''delegation.bad_response'' (''IdP response wasn'' @ [CHR 0x27] @ ''t valid token-exchange JSON: '' @ e))
                 (body_json (oe_exchange env) response))"

text \<open>The scopes of the token: those the provider says it granted, or the requested ones if it says nothing.\<close>

definition effective_scopes :: "delegation_payload \<Rightarrow> token_exchange_response \<Rightarrow> string list" where
  "effective_scopes payload parsed =
     (case tx_scope parsed of
        Some s \<Rightarrow> split_whitespace s
      | None \<Rightarrow> if requested_scopes payload \<noteq> [] then split_whitespace (requested_scopes payload) else [])"

definition missing_scopes :: "delegation_payload \<Rightarrow> token_exchange_response \<Rightarrow> string list" where
  "missing_scopes payload parsed =
     (case tx_scope parsed of
        Some _ \<Rightarrow> filter (\<lambda>req. req \<notin> set (effective_scopes payload parsed)) (dl_required_permissions payload)
      | None \<Rightarrow> [])"

definition narrower_denial :: "delegation_payload \<Rightarrow> token_exchange_response \<Rightarrow> plugin_violation" where
  "narrower_denial payload parsed =
     violation_new ''delegation.scope_too_broad''
       (''IdP granted narrower scopes than requested. requested=['' @ join_with '' '' (dl_required_permissions payload)
        @ ''] granted=['' @ join_with '' '' (effective_scopes payload parsed)
        @ ''] missing=['' @ join_with '' '' (missing_scopes payload parsed) @ '']'')"

text \<open>The life of the token in seconds, five minutes by default; an attenuation only shortens it.\<close>

definition ttl_secs :: "delegation_payload \<Rightarrow> token_exchange_response \<Rightarrow> int" where
  "ttl_secs payload parsed =
     (let ttl = unwrap_or (tx_expires_in parsed) 300 in
      case Option.bind (dl_route_attenuation payload) ac_ttl_seconds of
        Some hint \<Rightarrow> min ttl (if uint hint \<le> i64_max then uint hint else i64_max)
      | None \<Rightarrow> ttl)"

definition jwt_payload_omits_act :: "client_env \<Rightarrow> string \<Rightarrow> bool" where
  "jwt_payload_omits_act ce access_token =
     (case token_claims ce access_token of
        Some claims \<Rightarrow> (case claims of JObj _ \<Rightarrow> True | _ \<Rightarrow> False) \<and> (json_get claims ''act'' = None \<or> json_get claims ''act'' = Some JNull)
      | None \<Rightarrow> False)"

definition minted_payload ::
    "oauth_delegator \<Rightarrow> datetime \<Rightarrow> delegation_payload \<Rightarrow> string \<Rightarrow> token_exchange_response \<Rightarrow> datetime \<Rightarrow> delegation_payload" where
  "minted_payload d now payload audience parsed expires_at =
     payload\<lparr>dl_delegated_token := Some (delegated_token_new (tx_access_token parsed) (oc_default_outbound_header (od_typed d)) audience
               (effective_scopes payload parsed) expires_at),
             dl_delegation_mode := Some (default_mode (dl_subject payload)),
             dl_minted_at := Some now,
             dl_metadata := (dl_metadata payload)(''issued_token_type'' \<mapsto>
               JStr (unwrap_or (tx_issued_token_type parsed) DEFAULT_ISSUED_TOKEN_TYPE))\<rparr>"

text \<open>What a call ends with: a denial, or a response to make a token from and the audience it is for.\<close>

definition oauth_exchange ::
    "oauth_env \<Rightarrow> http_client \<Rightarrow> oauth_delegator \<Rightarrow> delegation_payload \<Rightarrow> plugin_violation + string \<times> token_exchange_response" where
  "oauth_exchange env net d payload =
     (let bearer = dl_bearer_token payload; audience = unwrap_or (dl_target_audience payload) [] in
      if bearer = [] \<and> dl_subject payload \<noteq> DS_ThisWorkload
      then Inl (violation_new ''delegation.bad_request''
             (''DelegationPayload carried an empty bearer_token '' @ em_dash @ '' outbound caller didn'' @ [CHR 0x27]
              @ ''t populate the credential before invoking the hook''))
      else if audience = []
      then Inl (violation_new ''delegation.bad_request''
             (''target_audience missing '' @ em_dash @ '' RFC 8693 token exchange requires an audience to scope the minted credential''))
      else res_bind (if dl_subject payload = DS_CallerWorkload then mint_base_token env net d bearer else Inr bearer) (\<lambda>subject_token.
           res_bind (exchange env net d (exchange_request d payload audience subject_token)) (\<lambda>parsed.
             if missing_scopes payload parsed \<noteq> [] then Inl (narrower_denial payload parsed) else Inr (audience, parsed))))"

text \<open>The clock is read twice, for the expiry and, \<open>later\<close>, for the time of minting.\<close>

definition oauth_handle ::
    "oauth_env \<Rightarrow> http_client \<Rightarrow> datetime \<Rightarrow> datetime \<Rightarrow> oauth_delegator \<Rightarrow> delegation_payload
     \<Rightarrow> (string + delegation_payload plugin_result) \<times> oauth_delegator" where
  "oauth_handle env net now later d payload =
     (case oauth_exchange env net d payload of
        Inl v \<Rightarrow> (Inr (result_deny v), d)
      | Inr (audience, parsed) \<Rightarrow>
          (case ce_plus_seconds (oe_client env) now (ttl_secs payload parsed) of
             Inl msg \<Rightarrow> (Inl msg, d)
           | Inr expires_at \<Rightarrow>
               (let actor_requested = (dl_actor_token payload \<noteq> [] \<and> dl_subject payload \<noteq> DS_ThisWorkload \<and> dl_subject payload \<noteq> DS_CallerWorkload)
                in (Inr (modify_payload (minted_payload d later payload audience parsed expires_at)),
                    if actor_requested \<and> \<not> od_warned_missing_act d \<and> jwt_payload_omits_act (oe_client env) (tx_access_token parsed)
                    then d\<lparr>od_warned_missing_act := True\<rparr> else d))))"

subsection \<open>The factory\<close>

definition OAUTH_KIND :: string where
  "OAUTH_KIND = ''delegator/oauth''"

definition HOOK_TOKEN_DELEGATE :: string where
  "HOOK_TOKEN_DELEGATE = ''token.delegate''"

record 'w oauth_world =
  ow_delegator :: "'w \<Rightarrow> string \<Rightarrow> oauth_delegator"
  ow_set :: "string \<Rightarrow> oauth_delegator \<Rightarrow> 'w \<Rightarrow> 'w"
  ow_env :: "'w \<Rightarrow> oauth_env"
  ow_net :: "'w \<Rightarrow> http_client"
  ow_now :: "'w \<Rightarrow> datetime \<times> datetime"
  ow_elapsed :: "'w \<Rightarrow> nat"
  ow_type_name :: string

definition oauth_handler :: "'w oauth_world \<Rightarrow> string \<Rightarrow> (plugin_payload, 'w) hook_handler" where
  "oauth_handler ow name =
     typed_adapter HOOK_TOKEN_DELEGATE (ow_type_name ow) as_delegation PP_Delegation
       (\<lambda>w payload ext ctx.
          case oauth_handle (ow_env ow w) (ow_net ow w) (fst (ow_now ow w)) (snd (ow_now ow w)) (ow_delegator ow w name) payload of
            (r, d') \<Rightarrow> (ow_elapsed ow w, r, ctx, ow_set ow name d' w))"

definition oauth_create :: "'w oauth_world \<Rightarrow> (plugin_payload, 'w) plugin_factory" where
  "oauth_create ow config w =
     (case oauth_new (ow_env ow w) config of
        Inl e \<Rightarrow> (Inl e, w)
      | Inr delegator \<Rightarrow>
          (Inr \<lparr>pn_plugin = \<lparr>ob_initialize = (\<lambda>w. (None, w)), ob_shutdown = (\<lambda>w. (None, w))\<rparr>,
                pn_handlers = [(HOOK_TOKEN_DELEGATE, oauth_handler ow (cf_name config))]\<rparr>,
           ow_set ow (cf_name config) delegator w))"

end
