(* ===== verification/Oauth_Props.thy ===== *)
theory Oauth_Props
  imports Oauth_Delegator
begin

text \<open>
  What a delegated token of the exchange plugin stands for: which answers of the provider it comes from, for which audience,
  with which scopes and for how long.
\<close>

text \<open>The credential the exchange presents: the caller's own, or the base token its workload credential was traded for.\<close>

definition subject_credential :: "oauth_env \<Rightarrow> http_client \<Rightarrow> oauth_delegator \<Rightarrow> delegation_payload \<Rightarrow> string \<Rightarrow> bool" where
  "subject_credential env net d payload st \<longleftrightarrow>
     (if dl_subject payload = DS_CallerWorkload
      then \<exists>response base. net (assertion_request d (dl_bearer_token payload)) = Inr response \<and> is_success response
             \<and> body_json (oe_exchange env) response = Inr base \<and> st = tx_access_token base
      else st = dl_bearer_token payload)"

lemma mint_base_token_Inr:
  "mint_base_token env net d svid = Inr st \<longleftrightarrow>
     (\<exists>response base. net (assertion_request d svid) = Inr response \<and> is_success response
        \<and> body_json (oe_exchange env) response = Inr base \<and> st = tx_access_token base)"
  by (auto simp: mint_base_token_def split: sum.splits if_splits)

lemma exchange_Inr:
  "exchange env net d req = Inr parsed \<longleftrightarrow>
     (\<exists>response. net req = Inr response \<and> is_success response \<and> body_json (oe_exchange env) response = Inr parsed)"
  by (auto simp: exchange_def split: sum.splits if_splits)

lemma oauth_exchange_Inr:
  "oauth_exchange env net d payload = Inr (audience, parsed) \<longleftrightarrow>
     (dl_bearer_token payload \<noteq> [] \<or> dl_subject payload = DS_ThisWorkload)
     \<and> dl_target_audience payload = Some audience \<and> audience \<noteq> []
     \<and> (\<exists>st response. subject_credential env net d payload st
          \<and> net (exchange_request d payload audience st) = Inr response \<and> is_success response
          \<and> body_json (oe_exchange env) response = Inr parsed)
     \<and> missing_scopes payload parsed = []"
proof (cases "dl_target_audience payload")
  case None
  then show ?thesis by (auto simp: oauth_exchange_def Let_def)
next
  case (Some a)
  then show ?thesis
    by (auto simp: oauth_exchange_def Let_def subject_credential_def res_bind_eq_Inr mint_base_token_Inr exchange_Inr split: if_splits)
qed

lemma oauth_handle_minted:
  "fst (oauth_handle env net now later d payload) = Inr r \<and> pu_modified_payload r = Some p' \<longleftrightarrow>
     (\<exists>audience parsed expires_at. oauth_exchange env net d payload = Inr (audience, parsed)
        \<and> ce_plus_seconds (oe_client env) now (ttl_secs payload parsed) = Inr expires_at
        \<and> p' = minted_payload d later payload audience parsed expires_at \<and> r = modify_payload p')"
  by (auto simp: oauth_handle_def Let_def result_deny_def modify_payload_def split: sum.splits)

lemma missing_scopes_Nil:
  "missing_scopes payload parsed = [] \<longleftrightarrow>
     (\<forall>granted. tx_scope parsed = Some granted \<longrightarrow> set (dl_required_permissions payload) \<subseteq> set (split_whitespace granted))"
  by (auto simp: missing_scopes_def effective_scopes_def filter_empty_conv split: option.splits)

lemma split_whitespace_Nil [simp]: "split_whitespace [] = []"
  by (simp add: split_whitespace_def)

lemma effective_scopes_eq:
  "effective_scopes payload parsed = split_whitespace (unwrap_or (tx_scope parsed) (requested_scopes payload))"
  by (auto simp: effective_scopes_def split: option.splits)

lemma ttl_bounds:
  "ttl_secs payload parsed \<le> unwrap_or (tx_expires_in parsed) 300"
  "dl_route_attenuation payload = Some att \<Longrightarrow> ac_ttl_seconds att = Some hint \<Longrightarrow> ttl_secs payload parsed \<le> uint hint"
  by (auto simp: ttl_secs_def Let_def split: option.splits)

text \<open>Nothing bounds what the provider grants from above.\<close>

lemma broader_grant_accepted:
  "set (dl_required_permissions payload) \<subseteq> set (split_whitespace granted) \<Longrightarrow> tx_scope parsed = Some granted
   \<Longrightarrow> missing_scopes payload parsed = [] \<and> effective_scopes payload parsed = split_whitespace granted"
  by (simp add: missing_scopes_Nil effective_scopes_eq)

text \<open>A lifetime the clock cannot represent is no denial but a panic.\<close>

lemma expiry_panics:
  "oauth_exchange env net d payload = Inr (audience, parsed) \<Longrightarrow> ce_plus_seconds (oe_client env) now (ttl_secs payload parsed) = Inl msg
   \<Longrightarrow> oauth_handle env net now later d payload = (Inl msg, d)"
  by (simp add: oauth_handle_def)

text \<open>The plugin that was built talks to its provider over TLS, unless the configuration asks for plaintext.\<close>

lemma oauth_new_endpoint:
  assumes "oauth_new env cfg = Inr d"
  shows "endpoint_https (oc_token_endpoint (od_typed d)) (oc_insecure_http (od_typed d)) = Inr ()"
  using assms by (auto simp: oauth_new_def res_bind_eq_Inr split: if_splits)

end
