(* ===== verification/Pdp_Input.thy ===== *)
theory Pdp_Input
  imports Attributes Json_Values "HOL-Library.AList"
begin

text \<open>
  How the attribute bag is handed to a policy decision point: \<^verbatim>\<open>builtins/pdps/opa/src/input.rs\<close> makes a JSON document of it,
  \<^verbatim>\<open>builtins/pdps/cel/src/activation.rs\<close> the variables of a CEL context.  Both build the same tree from the dotted keys; the
  tree is one polymorphic definition here, used with JSON and with CEL values at the leaves.

  The sources iterate over a hash map, so the entries of the bag come in an arbitrary order: they are a list here.
\<close>

subsection \<open>The tree of a bag\<close>

datatype 'v node =
    Leaf 'v
  | Branch "(string \<times> 'v node) list"

type_synonym 'v level = "(string \<times> 'v node) list"

text \<open>A name that is both a scalar and a namespace is the namespace, in whichever order the two keys come.\<close>

fun tree_insert :: "string list \<Rightarrow> 'v \<Rightarrow> 'v level \<Rightarrow> 'v level" where
  "tree_insert [] leaf level = level"
| "tree_insert [head] leaf level =
     (case map_of level head of
        Some (Branch _) \<Rightarrow> level
      | _ \<Rightarrow> btree_insert head (Leaf leaf) level)"
| "tree_insert (head # seg # rest) leaf level =
     (let child = (case map_of level head of Some (Branch c) \<Rightarrow> c | _ \<Rightarrow> [])
      in btree_insert head (Branch (tree_insert (seg # rest) leaf child)) level)"

definition build_tree :: "(attribute_value \<Rightarrow> 'v) \<Rightarrow> (string \<times> attribute_value) list \<Rightarrow> 'v level" where
  "build_tree attr_to_value entries =
     fold (\<lambda>(key, value). tree_insert (split_on (CHR ''.'') key) (attr_to_value value)) entries []"

subsection \<open>Whole floats\<close>

fun is_finite :: "f64 \<Rightarrow> bool" where
  "is_finite (F64_Fin _ _ _) = True"
| "is_finite _ = False"

text \<open>\<^verbatim>\<open>f.fract() == 0.0\<close> and \<^verbatim>\<open>f as i64\<close> of a finite value; the cast is only used on whole values in range.\<close>

fun is_whole :: "f64 \<Rightarrow> bool" where
  "is_whole (F64_Fin s m e) = (0 \<le> e \<or> 2 ^ nat (- e) dvd m)"
| "is_whole _ = False"

fun whole_value :: "f64 \<Rightarrow> int" where
  "whole_value (F64_Fin s m e) = (if s then - 1 else 1) * int (if 0 \<le> e then m * 2 ^ nat e else m div 2 ^ nat (- e))"
| "whole_value _ = 0"

definition fits_i64 :: "f64 \<Rightarrow> bool" where
  "fits_i64 f \<longleftrightarrow> is_finite f \<and> is_whole f \<and> f64_le (f64_of_i64 i64_min) f \<and> f64_lt f (f64_of_i64 i64_max)"

subsection \<open>The input document of OPA\<close>

definition opa_float_to_value :: "f64 \<Rightarrow> json" where
  "opa_float_to_value f = (if fits_i64 f then JInt (whole_value f) else if is_finite f then JFloat f else JNull)"

fun opa_attr_to_value :: "attribute_value \<Rightarrow> json" where
  "opa_attr_to_value (ABool b) = JBool b"
| "opa_attr_to_value (AInt i) = JInt i"
| "opa_attr_to_value (AFloat f) = opa_float_to_value f"
| "opa_attr_to_value (AString s) = JStr s"
| "opa_attr_to_value (AStringSet s) = JArr (map JStr (sorted_list_of_fset s))"

fun opa_node_to_value :: "json node \<Rightarrow> json" where
  "opa_node_to_value (Leaf v) = v"
| "opa_node_to_value (Branch children) = JObj (map (\<lambda>(k, child). (k, opa_node_to_value child)) children)"

definition bag_to_input :: "(string \<times> attribute_value) list \<Rightarrow> json" where
  "bag_to_input entries = opa_node_to_value (Branch (build_tree opa_attr_to_value entries))"

subsection \<open>The activation of CEL\<close>

text \<open>The values of the \<^verbatim>\<open>cel\<close> crate the source builds; maps are hash maps.\<close>

datatype cel_value =
    CV_Null
  | CV_Bool bool
  | CV_Int int
  | CV_Float f64
  | CV_String string
  | CV_List "cel_value list"
  | CV_Map "(string \<times> cel_value) list"

definition cel_float_to_value :: "f64 \<Rightarrow> cel_value" where
  "cel_float_to_value f = (if fits_i64 f then CV_Int (whole_value f) else CV_Float f)"

fun cel_attr_to_value :: "attribute_value \<Rightarrow> cel_value" where
  "cel_attr_to_value (ABool b) = CV_Bool b"
| "cel_attr_to_value (AInt i) = CV_Int i"
| "cel_attr_to_value (AFloat f) = cel_float_to_value f"
| "cel_attr_to_value (AString s) = CV_String s"
| "cel_attr_to_value (AStringSet s) = CV_List (map CV_String (sorted_list_of_fset s))"

fun cel_node_to_value :: "cel_value node \<Rightarrow> cel_value" where
  "cel_node_to_value (Leaf v) = v"
| "cel_node_to_value (Branch children) = CV_Map (map (\<lambda>(k, child). (k, cel_node_to_value child)) children)"

text \<open>Numbers that are no \<^verbatim>\<open>i64\<close> go through \<^verbatim>\<open>as_f64\<close>; keys that are no strings are skipped, a later key replaces an equal one.\<close>

fun yaml_to_value :: "yaml \<Rightarrow> cel_value" where
  "yaml_to_value YNull = CV_Null"
| "yaml_to_value (YBool b) = CV_Bool b"
| "yaml_to_value (YInt i) = (if in_i64 i then CV_Int i else cel_float_to_value (f64_of_i64 i))"
| "yaml_to_value (YFloat f) = cel_float_to_value f"
| "yaml_to_value (YStr s) = CV_String s"
| "yaml_to_value (YSeq vs) = CV_List (map yaml_to_value vs)"
| "yaml_to_value (YMap m) =
     CV_Map (fold (\<lambda>(k, v) out. case k of Some name \<Rightarrow> AList.update name v out | None \<Rightarrow> out)
              (map (\<lambda>(k, v). (yaml_as_str k, yaml_to_value v)) m) [])"
| "yaml_to_value (YTagged t v) = CV_Null"

text \<open>A context is the map of its variables: the arguments of the step first, then the namespaces of the bag over them.\<close>

definition arg_variables :: "yaml \<Rightarrow> (string \<times> cel_value) list" where
  "arg_variables extra_args =
     (case as_mapping extra_args of
        None \<Rightarrow> []
      | Some m \<Rightarrow> List.map_filter (\<lambda>(k, v). case yaml_as_str k of
                    None \<Rightarrow> None
                  | Some name \<Rightarrow> if name = ''expr'' then None else Some (name, yaml_to_value v)) m)"

definition bag_to_context :: "(string \<times> attribute_value) list \<Rightarrow> yaml \<Rightarrow> (string \<times> cel_value) list" where
  "bag_to_context entries extra_args =
     fold (\<lambda>(name, v). AList.update name v)
       (arg_variables extra_args @ map (\<lambda>(name, node). (name, cel_node_to_value node)) (build_tree cel_attr_to_value entries)) []"

end
