(* ===== verification/Opa_Pdp.thy ===== *)
theory Opa_Pdp
  imports Pdp_Input Policy_Text
begin

text \<open>
  The decision point over Rego, \<^verbatim>\<open>builtins/pdps/opa/src/\<close>: \<^verbatim>\<open>decision.rs\<close> makes a decision of the value a query has,
  \<^verbatim>\<open>resolver.rs\<close> prepares engines and evaluates, \<^verbatim>\<open>factory.rs\<close> builds a resolver from its configuration.

  The \<^verbatim>\<open>regorus\<close> engine is the type \<open>'g\<close> with the operations of \<open>rego\<close>; JSON text and files are parameters there too.  The
  resolver keeps the cache of engines with an inline module behind a lock; here it is the state a call threads.
\<close>

subsection \<open>The values of Rego\<close>

text \<open>A number is kept as its text; the keys and values of an object come in key order.\<close>

datatype rego_value =
    RV_Undefined
  | RV_Null
  | RV_Bool bool
  | RV_Number string
  | RV_String string
  | RV_Array "rego_value list"
  | RV_Set "rego_value list"
  | RV_Object "(rego_value \<times> rego_value) list"

fun rego_as_bool :: "rego_value \<Rightarrow> bool option" where
  "rego_as_bool (RV_Bool b) = Some b"
| "rego_as_bool _ = None"

fun rego_as_string :: "rego_value \<Rightarrow> string option" where
  "rego_as_string (RV_String s) = Some s"
| "rego_as_string _ = None"

fun rego_as_array :: "rego_value \<Rightarrow> rego_value list option" where
  "rego_as_array (RV_Array vs) = Some vs"
| "rego_as_array _ = None"

text \<open>How an evaluation on the blocking thread ends.\<close>

datatype rego_outcome =
    RO_Value rego_value
  | RO_Error string
  | RO_Panic string

record 'g rego =
  rg_new :: 'g
  rg_add_policy :: "'g \<Rightarrow> string \<Rightarrow> string \<Rightarrow> string + 'g \<times> string"
  rg_add_data_json :: "'g \<Rightarrow> string \<Rightarrow> string + 'g"
  rg_set_input_json :: "'g \<Rightarrow> string \<Rightarrow> string + 'g"
  rg_eval_rule :: "'g \<Rightarrow> string \<Rightarrow> rego_outcome"
  rg_to_json_str :: "rego_value \<Rightarrow> string option"
  rg_json_text :: "json \<Rightarrow> string"
  rg_yaml_json :: "yaml \<Rightarrow> string + string"
  rg_parse_yaml :: "string \<Rightarrow> string + yaml"
  rg_read_file :: "string \<Rightarrow> string + string"

subsection \<open>From a value to a decision\<close>

definition DEFAULT_RULE_SOURCE :: string where
  "DEFAULT_RULE_SOURCE = ''opa''"

definition MAX_DIAGNOSTIC_ELEMENTS :: nat where
  "MAX_DIAGNOSTIC_ELEMENTS = 16"

definition MAX_DIAGNOSTIC_LEN :: nat where
  "MAX_DIAGNOSTIC_LEN = 1024"

datatype mapped =
    Mapped_Decision pdp_decision
  | Degenerate string

definition opa_allow :: pdp_decision where
  "opa_allow = \<lparr>pdd_decision = Dec_Allow, pdd_diagnostics = []\<rparr>"

definition opa_deny :: "string \<Rightarrow> string \<Rightarrow> string list \<Rightarrow> pdp_decision" where
  "opa_deny reason rule_source diagnostics = \<lparr>pdd_decision = Dec_Deny (Some reason) rule_source, pdd_diagnostics = diagnostics\<rparr>"

definition get_str :: "(rego_value \<times> rego_value) list \<Rightarrow> string \<Rightarrow> string option" where
  "get_str obj key = Option.bind (map_of obj (RV_String key)) rego_as_string"

text \<open>\<^verbatim>\<open>str::floor_char_boundary\<close>, and a line cut there with the number of bytes left out.\<close>

fun floor_char_boundary :: "string \<Rightarrow> nat \<Rightarrow> nat" where
  "floor_char_boundary s 0 = 0"
| "floor_char_boundary s (Suc n) =
     (if length s \<le> Suc n then length s
      else if is_cont_byte (s ! Suc n) then floor_char_boundary s n else Suc n)"

definition bounded :: "string \<Rightarrow> string" where
  "bounded s =
     (if length s \<le> MAX_DIAGNOSTIC_LEN then s
      else let cut = floor_char_boundary s MAX_DIAGNOSTIC_LEN
           in take cut s @ ''... ['' @ nat_to_string (length s - cut) @ '' more bytes omitted]'')"

definition render :: "'g rego \<Rightarrow> rego_value \<Rightarrow> string" where
  "render rg v =
     (case rego_as_string v of
        Some s \<Rightarrow> s
      | None \<Rightarrow> unwrap_or (rg_to_json_str rg v) ''<unrenderable value>'')"

definition bounded_elements :: "'g rego \<Rightarrow> rego_value list \<Rightarrow> string list" where
  "bounded_elements rg items =
     (let out = map (\<lambda>item. bounded (render rg item)) (take MAX_DIAGNOSTIC_ELEMENTS items)
      in out @ (if length out < length items
                then [''['' @ nat_to_string (length items - length out) @ '' more element(s) omitted]''] else []))"

definition map_object :: "'g rego \<Rightarrow> (rego_value \<times> rego_value) list \<Rightarrow> string \<Rightarrow> mapped" where
  "map_object rg obj decision_field =
     (case Option.bind (map_of obj (RV_String decision_field)) rego_as_bool of
        Some True \<Rightarrow> Mapped_Decision opa_allow
      | Some False \<Rightarrow>
          (let reason = unwrap_or (or_else (get_str obj ''reason'') (get_str obj ''message'')) ''OPA policy denied the request'';
               rule_source = unwrap_or (or_else (get_str obj ''rule_source'') (get_str obj ''id'')) DEFAULT_RULE_SOURCE;
               listed = (\<lambda>key. case Option.bind (map_of obj (RV_String key)) rego_as_array of
                           Some vs \<Rightarrow> bounded_elements rg vs | None \<Rightarrow> [])
           in Mapped_Decision (opa_deny reason rule_source
                (listed ''violations'' @ listed ''errors'' @ [bounded (''opa: '' @ render rg (RV_Object obj))])))
      | None \<Rightarrow> Degenerate (''OPA decision object has no boolean `'' @ decision_field @ ''` field: '' @ render rg (RV_Object obj)))"

definition map_collection :: "'g rego \<Rightarrow> rego_value list \<Rightarrow> mapped" where
  "map_collection rg items =
     (if items = [] then Mapped_Decision opa_allow
      else Mapped_Decision (opa_deny (''OPA policy produced '' @ nat_to_string (length items) @ '' violation(s)'') DEFAULT_RULE_SOURCE
             (bounded_elements rg items)))"

fun map_query_result :: "'g rego \<Rightarrow> rego_value \<Rightarrow> string \<Rightarrow> mapped" where
  "map_query_result rg (RV_Bool b) fld =
     (if b then Mapped_Decision opa_allow
      else Mapped_Decision (opa_deny ''OPA query evaluated to false'' DEFAULT_RULE_SOURCE []))"
| "map_query_result rg (RV_Object obj) fld = map_object rg obj fld"
| "map_query_result rg (RV_Set items) fld = map_collection rg items"
| "map_query_result rg (RV_Array items) fld = map_collection rg items"
| "map_query_result rg RV_Undefined fld =
     Mapped_Decision (opa_deny (''OPA query undefined '' @ em_dash @ '' request not granted'') DEFAULT_RULE_SOURCE [])"
| "map_query_result rg other fld = Degenerate (''OPA query returned a value that carries no decision: '' @ render rg other)"

subsection \<open>Configuration\<close>

datatype opa_build_error =
    OB_ConfigShape string
  | OB_ModuleFile string string
  | OB_ModuleParse string string
  | OB_DataFile string string
  | OB_DataParse string string

fun opa_build_error_text :: "opa_build_error \<Rightarrow> string" where
  "opa_build_error_text (OB_ConfigShape m) = ''invalid OPA PDP config: '' @ m"
| "opa_build_error_text (OB_ModuleFile p e) = ''failed to read OPA module file '' @ [CHR 0x27] @ p @ [CHR 0x27] @ '': '' @ e"
| "opa_build_error_text (OB_ModuleParse n c) = ''failed to load Rego module '' @ [CHR 0x27] @ n @ [CHR 0x27] @ '': '' @ c"
| "opa_build_error_text (OB_DataFile p e) = ''failed to read OPA data file '' @ [CHR 0x27] @ p @ [CHR 0x27] @ '': '' @ e"
| "opa_build_error_text (OB_DataParse n c) = ''failed to load OPA data '' @ [CHR 0x27] @ n @ [CHR 0x27] @ '': '' @ c"

datatype pdp_on_error = OnError_Deny | OnError_Allow

record 'g opa_resolver =
  op_dialect :: pdp_dialect
  op_on_error :: pdp_on_error
  op_decision_field :: string
  op_base_engine :: 'g
  op_global_packages :: "string set"
  op_max_cache_entries :: nat

type_synonym 'g engine_cache = "(string \<times> 'g) list"

definition OPA_MAX_CACHE_ENTRIES :: nat where
  "OPA_MAX_CACHE_ENTRIES = 1024"

definition INLINE_MODULE_NAME :: string where
  "INLINE_MODULE_NAME = ''__inline__.rego''"

definition read_string :: "(yaml \<times> yaml) list \<Rightarrow> string \<Rightarrow> opa_build_error + string option" where
  "read_string m key =
     (case yaml_entry m key of
        None \<Rightarrow> Inr None
      | Some v \<Rightarrow>
          if v = YNull then Inr None
          else (case yaml_as_str v of
                  Some s \<Rightarrow> Inr (Some s)
                | None \<Rightarrow> Inl (OB_ConfigShape (''`'' @ key @ ''` must be a string''))))"

fun yaml_as_u64 :: "yaml \<Rightarrow> nat option" where
  "yaml_as_u64 (YInt i) = (if 0 \<le> i \<and> i < 2 ^ 64 then Some (nat i) else None)"
| "yaml_as_u64 (YTagged t v) = yaml_as_u64 v"
| "yaml_as_u64 _ = None"

definition read_usize :: "(yaml \<times> yaml) list \<Rightarrow> string \<Rightarrow> opa_build_error + nat option" where
  "read_usize m key =
     (case yaml_entry m key of
        None \<Rightarrow> Inr None
      | Some v \<Rightarrow>
          if v = YNull then Inr None
          else (case yaml_as_u64 v of
                  Some n \<Rightarrow> Inr (Some n)
                | None \<Rightarrow> Inl (OB_ConfigShape (''`'' @ key @ ''` must be a non-negative integer''))))"

definition read_string_seq :: "(yaml \<times> yaml) list \<Rightarrow> string \<Rightarrow> opa_build_error + string list" where
  "read_string_seq m key =
     (case yaml_entry m key of
        None \<Rightarrow> Inr []
      | Some v \<Rightarrow>
          if untag v = YNull then Inr []
          else (case as_sequence v of
                  None \<Rightarrow> Inl (OB_ConfigShape (''`'' @ key @ ''` must be a sequence of strings''))
                | Some items \<Rightarrow> res_map (\<lambda>item. ok_or (OB_ConfigShape (''`'' @ key @ ''` entries must be strings'')) (yaml_as_str item)) items))"

definition OPA_KNOWN_KEYS :: "string list" where
  "OPA_KNOWN_KEYS = [''kind'', ''on_error'', ''decision_field'', ''modules'', ''module_files'', ''data'', ''data_files'', ''max_cache_entries'']"

fun check_keys :: "string \<Rightarrow> string list \<Rightarrow> (yaml \<times> yaml) list \<Rightarrow> string + unit" where
  "check_keys pdp known [] = Inr ()"
| "check_keys pdp known ((key, _) # m) =
     (case yaml_as_str key of
        None \<Rightarrow> Inl (pdp @ '' PDP config keys must be strings'')
      | Some name \<Rightarrow>
          if name \<notin> set known
          then Inl (''unknown '' @ pdp @ '' PDP config key `'' @ name @ ''`; expected one of '' @ debug_strings known)
          else check_keys pdp known m)"

definition read_on_error :: "string option \<Rightarrow> string + pdp_on_error" where
  "read_on_error s =
     (if s = None \<or> s = Some ''deny'' then Inr OnError_Deny
      else if s = Some ''allow'' then Inr OnError_Allow
      else Inl (''`on_error` must be `deny` or `allow`, got `'' @ the s @ ''`''))"

text \<open>Loading one module, and one document of data.\<close>

definition add_module :: "'g rego \<Rightarrow> string \<Rightarrow> string \<Rightarrow> 'g \<times> string set \<Rightarrow> opa_build_error + 'g \<times> string set" where
  "add_module rg name text ep =
     (case rg_add_policy rg (fst ep) name text of
        Inl e \<Rightarrow> Inl (OB_ModuleParse name e)
      | Inr (engine, package) \<Rightarrow> Inr (engine, insert package (snd ep)))"

fun add_modules :: "'g rego \<Rightarrow> nat \<Rightarrow> string list \<Rightarrow> 'g \<times> string set \<Rightarrow> opa_build_error + 'g \<times> string set" where
  "add_modules rg i [] ep = Inr ep"
| "add_modules rg i (text # texts) ep =
     res_bind (add_module rg (''global-'' @ nat_to_string i @ ''.rego'') text ep) (add_modules rg (Suc i) texts)"

fun add_module_files :: "'g rego \<Rightarrow> string list \<Rightarrow> 'g \<times> string set \<Rightarrow> opa_build_error + 'g \<times> string set" where
  "add_module_files rg [] ep = Inr ep"
| "add_module_files rg (path # paths) ep =
     res_bind (map_err (OB_ModuleFile path) (rg_read_file rg path)) (\<lambda>text.
       res_bind (add_module rg path text ep) (add_module_files rg paths))"

definition merge_data :: "'g rego \<Rightarrow> string \<Rightarrow> yaml \<Rightarrow> 'g \<Rightarrow> opa_build_error + 'g" where
  "merge_data rg name v engine =
     map_err (OB_DataParse name) (res_bind (rg_yaml_json rg v) (rg_add_data_json rg engine))"

fun add_data_files :: "'g rego \<Rightarrow> string list \<Rightarrow> 'g \<Rightarrow> opa_build_error + 'g" where
  "add_data_files rg [] engine = Inr engine"
| "add_data_files rg (path # paths) engine =
     res_bind (map_err (OB_DataFile path) (rg_read_file rg path)) (\<lambda>text.
     res_bind (map_err (OB_DataParse path) (rg_parse_yaml rg text)) (\<lambda>parsed.
     res_bind (merge_data rg path parsed engine) (add_data_files rg paths)))"

definition opa_from_config :: "'g rego \<Rightarrow> yaml \<Rightarrow> opa_build_error + 'g opa_resolver" where
  "opa_from_config rg v =
     res_bind (ok_or (OB_ConfigShape ''OPA PDP config must be a mapping'') (as_mapping v)) (\<lambda>m.
     res_bind (map_err OB_ConfigShape (check_keys ''OPA'' OPA_KNOWN_KEYS m)) (\<lambda>_.
     res_bind (read_string m ''on_error'') (\<lambda>oe.
     res_bind (map_err OB_ConfigShape (read_on_error oe)) (\<lambda>mode.
     res_bind (read_string m ''decision_field'') (\<lambda>decision_field.
     res_bind (read_string_seq m ''modules'') (\<lambda>texts.
     res_bind (add_modules rg 0 texts (rg_new rg, {})) (\<lambda>ep1.
     res_bind (read_string_seq m ''module_files'') (\<lambda>paths.
     res_bind (add_module_files rg paths ep1) (\<lambda>(engine, packages).
     res_bind (case yaml_entry m ''data'' of
                 Some d \<Rightarrow> if untag d = YNull then Inr engine else merge_data rg ''data'' d engine
               | None \<Rightarrow> Inr engine) (\<lambda>engine1.
     res_bind (read_string_seq m ''data_files'') (\<lambda>data_paths.
     res_bind (add_data_files rg data_paths engine1) (\<lambda>engine2.
     res_bind (read_usize m ''max_cache_entries'') (\<lambda>cap.
       Inr \<lparr>op_dialect = Opa, op_on_error = mode, op_decision_field = unwrap_or decision_field ''allow'',
            op_base_engine = engine2, op_global_packages = packages,
            op_max_cache_entries = unwrap_or cap OPA_MAX_CACHE_ENTRIES\<rparr>)))))))))))))"

definition opa_with_dialect :: "pdp_dialect \<Rightarrow> 'g opa_resolver \<Rightarrow> 'g opa_resolver" where
  "opa_with_dialect d r = r\<lparr>op_dialect := d\<rparr>"

definition opa_with_max_cache_entries :: "nat \<Rightarrow> 'g opa_resolver \<Rightarrow> 'g opa_resolver" where
  "opa_with_max_cache_entries n r = r\<lparr>op_max_cache_entries := n\<rparr>"

subsection \<open>Engines\<close>

datatype engine_error =
    EE_Compile string
  | EE_PackageCollision string
  | EE_CacheFull nat

text \<open>What a step with an inline module compiles to, before the cache is asked for room.\<close>

definition prepare_engine :: "'g rego \<Rightarrow> 'g opa_resolver \<Rightarrow> string \<Rightarrow> engine_error + 'g" where
  "prepare_engine rg r src =
     (case rg_add_policy rg (op_base_engine r) INLINE_MODULE_NAME src of
        Inl e \<Rightarrow> Inl (EE_Compile e)
      | Inr (engine, package) \<Rightarrow> if package \<in> op_global_packages r then Inl (EE_PackageCollision package) else Inr engine)"

text \<open>The check for room and the insertion happen under one lock.\<close>

definition cache_insert :: "nat \<Rightarrow> string \<Rightarrow> 'g \<Rightarrow> 'g engine_cache \<Rightarrow> (engine_error + 'g) \<times> 'g engine_cache" where
  "cache_insert cap src engine cache =
     (if cap \<le> length cache \<and> map_of cache src = None then (Inl (EE_CacheFull cap), cache)
      else (Inr engine, AList.update src engine cache))"

definition engine_for ::
    "'g rego \<Rightarrow> 'g opa_resolver \<Rightarrow> string option \<Rightarrow> 'g engine_cache \<Rightarrow> (engine_error + 'g) \<times> 'g engine_cache" where
  "engine_for rg r module cache =
     (case module of
        None \<Rightarrow> (Inr (op_base_engine r), cache)
      | Some src \<Rightarrow>
          (case map_of cache src of
             Some engine \<Rightarrow> (Inr engine, cache)
           | None \<Rightarrow>
               (case prepare_engine rg r src of
                  Inl e \<Rightarrow> (Inl e, cache)
                | Inr engine \<Rightarrow> cache_insert (op_max_cache_entries r) src engine cache)))"

subsection \<open>Evaluation\<close>

definition on_error_decision :: "pdp_on_error \<Rightarrow> string \<Rightarrow> string \<Rightarrow> pdp_decision" where
  "on_error_decision mode source cause =
     (case mode of
        OnError_Allow \<Rightarrow> \<lparr>pdd_decision = Dec_Allow, pdd_diagnostics = [cause]\<rparr>
      | OnError_Deny \<Rightarrow> \<lparr>pdd_decision = Dec_Deny (Some cause) source, pdd_diagnostics = [cause]\<rparr>)"

definition compile_error_decision :: "string \<Rightarrow> string \<Rightarrow> pdp_decision" where
  "compile_error_decision source cause = \<lparr>pdd_decision = Dec_Deny (Some cause) source, pdd_diagnostics = [cause]\<rparr>"

fun engine_error_decision :: "engine_error \<Rightarrow> pdp_decision" where
  "engine_error_decision (EE_Compile cause) = compile_error_decision ''opa'' (''OPA inline module: '' @ cause)"
| "engine_error_decision (EE_PackageCollision package) = compile_error_decision ''opa''
     (''OPA inline module package `'' @ package @ ''` collides with a global-module package; inline modules may not override global policy'')"
| "engine_error_decision (EE_CacheFull cap) = compile_error_decision ''opa''
     (''OPA inline-module cache full (cap='' @ nat_to_string cap @ ''); refusing a new module'')"

text \<open>The blocking task: a decision, or a cause for \<^verbatim>\<open>on_error\<close>; the left side is a panic of the task.\<close>

definition eval_task :: "'g rego \<Rightarrow> 'g opa_resolver \<Rightarrow> 'g \<Rightarrow> json \<Rightarrow> string \<Rightarrow> string + mapped" where
  "eval_task rg r engine input query =
     (case rg_set_input_json rg engine (rg_json_text rg input) of
        Inl e \<Rightarrow> Inr (Degenerate (''OPA failed to set input: '' @ e))
      | Inr engine' \<Rightarrow>
          (case rg_eval_rule rg engine' query of
             RO_Value v \<Rightarrow> Inr (map_query_result rg v (op_decision_field r))
           | RO_Error e \<Rightarrow> Inr (Degenerate (''OPA eval error: '' @ e))
           | RO_Panic e \<Rightarrow> Inl e))"

definition step_arg :: "pdp_call \<Rightarrow> string \<Rightarrow> string option" where
  "step_arg call key = Option.bind (Option.bind (as_mapping (pc_args call)) (\<lambda>m. yaml_entry m key)) yaml_as_str"

definition opa_evaluate ::
    "'g rego \<Rightarrow> 'g opa_resolver \<Rightarrow> pdp_call \<Rightarrow> (string \<times> attribute_value) list \<Rightarrow> 'g engine_cache
     \<Rightarrow> (pdp_error + pdp_decision) \<times> 'g engine_cache" where
  "opa_evaluate rg r call entries cache =
     (case step_arg call ''query'' of
        None \<Rightarrow> (Inl (PdpDispatch ''opa: step requires a string `query` argument''), cache)
      | Some query \<Rightarrow>
          (case engine_for rg r (step_arg call ''module'') cache of
             (Inl e, cache') \<Rightarrow> (Inr (engine_error_decision e), cache')
           | (Inr engine, cache') \<Rightarrow>
               (Inr (case eval_task rg r engine (bag_to_input entries) query of
                       Inr (Mapped_Decision d) \<Rightarrow> d
                     | Inr (Degenerate cause) \<Rightarrow> on_error_decision (op_on_error r) ''opa'' cause
                     | Inl e \<Rightarrow> compile_error_decision ''opa'' (''OPA evaluation task panicked: '' @ e)), cache')))"

text \<open>\<^verbatim>\<open>OpaPdpFactory\<close>.\<close>

definition OPA_KIND :: string where
  "OPA_KIND = ''opa''"

definition opa_build :: "'g rego \<Rightarrow> yaml \<Rightarrow> string + 'g opa_resolver" where
  "opa_build rg config = map_err opa_build_error_text (opa_from_config rg config)"

end
