(* ===== verification/Cel_Pdp.thy ===== *)
theory Cel_Pdp
  imports Opa_Pdp
begin

text \<open>
  The decision point over CEL expressions, \<^verbatim>\<open>builtins/pdps/cel/src/resolver.rs\<close> and \<^verbatim>\<open>factory.rs\<close>.  A compiled program is the
  type \<open>'g\<close> of the \<^verbatim>\<open>cel\<close> crate with the operations of \<open>cel_lib\<close>; running the functions a host registers over a context is
  part of executing a program there.  The texts of CEL values, of attribute values and of errors are parameters.
\<close>

record 'g cel_lib =
  cl_compile :: "string \<Rightarrow> string + 'g"
  cl_execute :: "'g \<Rightarrow> (string \<times> cel_value) list \<Rightarrow> string + cel_value"
  cl_variables :: "'g \<Rightarrow> string list"
  cl_debug_value :: "cel_value \<Rightarrow> string"
  cl_debug_attr :: "attribute_value \<Rightarrow> string"

record cel_resolver =
  cr_dialect :: pdp_dialect
  cr_on_error :: pdp_on_error
  cr_max_cache_entries :: nat

type_synonym 'g program_cache = "(string \<times> 'g) list"

definition CEL_MAX_CACHE_ENTRIES :: nat where
  "CEL_MAX_CACHE_ENTRIES = 1024"

definition cel_new :: cel_resolver where
  "cel_new = \<lparr>cr_dialect = Cel, cr_on_error = OnError_Deny, cr_max_cache_entries = CEL_MAX_CACHE_ENTRIES\<rparr>"

definition with_on_error :: "pdp_on_error \<Rightarrow> cel_resolver \<Rightarrow> cel_resolver" where
  "with_on_error mode r = r\<lparr>cr_on_error := mode\<rparr>"

definition cel_with_max_cache_entries :: "nat \<Rightarrow> cel_resolver \<Rightarrow> cel_resolver" where
  "cel_with_max_cache_entries n r = r\<lparr>cr_max_cache_entries := n\<rparr>"

definition cel_with_dialect :: "pdp_dialect \<Rightarrow> cel_resolver \<Rightarrow> cel_resolver" where
  "cel_with_dialect d r = r\<lparr>cr_dialect := d\<rparr>"

text \<open>A value of \<^verbatim>\<open>on_error\<close> that is no string reads as if it were absent.\<close>

definition read_yaml_string :: "(yaml \<times> yaml) list \<Rightarrow> string \<Rightarrow> string option" where
  "read_yaml_string m key = Option.bind (yaml_entry m key) yaml_as_str"

definition CEL_KNOWN_KEYS :: "string list" where
  "CEL_KNOWN_KEYS = [''kind'', ''on_error'']"

definition cel_from_config :: "yaml \<Rightarrow> string + cel_resolver" where
  "cel_from_config v =
     map_err (\<lambda>msg. ''invalid CEL PDP config: '' @ msg)
       (res_bind (ok_or ''CEL PDP config must be a mapping'' (as_mapping v)) (\<lambda>m.
        res_bind (check_keys ''CEL'' CEL_KNOWN_KEYS m) (\<lambda>_.
        res_bind (read_on_error (read_yaml_string m ''on_error'')) (\<lambda>mode. Inr (with_on_error mode cel_new)))))"

datatype get_or_compile_error =
    GC_Compile string
  | GC_CacheFull nat

fun get_or_compile_text :: "get_or_compile_error \<Rightarrow> string" where
  "get_or_compile_text (GC_Compile e) = ''CEL compile error: '' @ e"
| "get_or_compile_text (GC_CacheFull cap) = ''CEL compile-cache full (cap='' @ nat_to_string cap
     @ ''); refusing to compile a new expression. Bump `with_max_cache_entries` if the policy legitimately needs more, otherwise ''
     @ ''investigate a templating or generation bug producing unbounded distinct exprs.''"

definition get_or_compile ::
    "'g cel_lib \<Rightarrow> cel_resolver \<Rightarrow> string \<Rightarrow> 'g program_cache \<Rightarrow> (get_or_compile_error + 'g) \<times> 'g program_cache" where
  "get_or_compile cl r expr cache =
     (case map_of cache expr of
        Some program \<Rightarrow> (Inr program, cache)
      | None \<Rightarrow>
          (case cl_compile cl expr of
             Inl e \<Rightarrow> (Inl (GC_Compile e), cache)
           | Inr program \<Rightarrow>
               if cr_max_cache_entries r \<le> length cache \<and> map_of cache expr = None
               then (Inl (GC_CacheFull (cr_max_cache_entries r)), cache)
               else (Inr program, AList.update expr program cache)))"

definition key_head :: "string \<Rightarrow> string" where
  "key_head key = hd (split_on (CHR ''.'') key)"

definition bag_namespace_present :: "(string \<times> attribute_value) list \<Rightarrow> string \<Rightarrow> bool" where
  "bag_namespace_present entries name \<longleftrightarrow> (\<exists>(key, _) \<in> set entries. key_head key = name)"

definition snapshot_referenced_bag_values :: "'g cel_lib \<Rightarrow> 'g \<Rightarrow> (string \<times> attribute_value) list \<Rightarrow> string list" where
  "snapshot_referenced_bag_values cl program entries =
     (let referenced = cl_variables cl program in
      if referenced = [] then []
      else sort (map (\<lambda>(key, v). key @ ''='' @ cl_debug_attr cl v) (filter (\<lambda>(key, _). key_head key \<in> set referenced) entries)))"

definition eval_error_cause :: "'g cel_lib \<Rightarrow> 'g \<Rightarrow> (string \<times> attribute_value) list \<Rightarrow> string \<Rightarrow> string" where
  "eval_error_cause cl program entries e =
     (let referenced = cl_variables cl program;
          found = sort (filter (bag_namespace_present entries) referenced);
          missing = sort (filter (\<lambda>n. \<not> bag_namespace_present entries n) referenced)
      in ''CEL eval error: '' @ e
         @ (if referenced = [] then []
            else '' (expr references variables: '' @ debug_strings referenced @ ''; present in bag: '' @ debug_strings found
                 @ ''; missing: '' @ debug_strings missing @ '')''))"

definition cel_decide ::
    "'g cel_lib \<Rightarrow> cel_resolver \<Rightarrow> 'g \<Rightarrow> string \<Rightarrow> yaml \<Rightarrow> (string \<times> attribute_value) list \<Rightarrow> pdp_decision" where
  "cel_decide cl r program expr args entries =
     (case cl_execute cl program (bag_to_context entries args) of
        Inr (CV_Bool True) \<Rightarrow> \<lparr>pdd_decision = Dec_Allow, pdd_diagnostics = []\<rparr>
      | Inr (CV_Bool False) \<Rightarrow> \<lparr>pdd_decision = Dec_Deny (Some ''CEL expression evaluated to false'') ''cel'',
                              pdd_diagnostics = (''cel: '' @ expr) # snapshot_referenced_bag_values cl program entries\<rparr>
      | Inr other \<Rightarrow> on_error_decision (cr_on_error r) ''cel'' (''CEL expression must return bool, got '' @ cl_debug_value cl other)
      | Inl e \<Rightarrow> on_error_decision (cr_on_error r) ''cel'' (eval_error_cause cl program entries e))"

definition cel_evaluate ::
    "'g cel_lib \<Rightarrow> cel_resolver \<Rightarrow> pdp_call \<Rightarrow> (string \<times> attribute_value) list \<Rightarrow> 'g program_cache
     \<Rightarrow> (pdp_error + pdp_decision) \<times> 'g program_cache" where
  "cel_evaluate cl r call entries cache =
     (case step_arg call ''expr'' of
        None \<Rightarrow> (Inl (PdpDispatch ''cel:() step requires a string `expr` argument''), cache)
      | Some expr \<Rightarrow>
          (case get_or_compile cl r expr cache of
             (Inl (GC_Compile e), cache') \<Rightarrow> (Inr (compile_error_decision ''cel'' (get_or_compile_text (GC_Compile e))), cache')
           | (Inl (GC_CacheFull cap), cache') \<Rightarrow>
               (Inr (on_error_decision (cr_on_error r) ''cel'' (get_or_compile_text (GC_CacheFull cap))), cache')
           | (Inr program, cache') \<Rightarrow> (Inr (cel_decide cl r program expr (pc_args call) entries), cache')))"

text \<open>\<^verbatim>\<open>CelPdpFactory\<close>.\<close>

definition CEL_KIND :: string where
  "CEL_KIND = ''cel''"

definition cel_build :: "yaml \<Rightarrow> string + cel_resolver" where
  "cel_build config = cel_from_config config"

end
