(* ===== verification/Pdp_Input_Props.thy ===== *)
theory Pdp_Input_Props
  imports Pdp_Input "HOL-Library.Multiset" "HOL-Library.Sublist"
begin

text \<open>
  The document a decision point sees is the bag: every attribute is found under its dotted key, unless a longer key makes a
  namespace of it, nothing else is found, and the order in which the hash map yields its entries does not matter.
\<close>

subsection \<open>Looking into a tree\<close>

fun tree_get :: "'v level \<Rightarrow> string list \<Rightarrow> 'v node option" where
  "tree_get level [] = Some (Branch level)"
| "tree_get level (seg # segs) =
     (case map_of level seg of
        None \<Rightarrow> None
      | Some (Branch c) \<Rightarrow> tree_get c segs
      | Some (Leaf v) \<Rightarrow> if segs = [] then Some (Leaf v) else None)"

definition node_leaf :: "'v level \<Rightarrow> string list \<Rightarrow> 'v option" where
  "node_leaf level path = (case tree_get level path of Some (Leaf v) \<Rightarrow> Some v | _ \<Rightarrow> None)"

definition node_branch :: "'v level \<Rightarrow> string list \<Rightarrow> bool" where
  "node_branch level path \<longleftrightarrow> (\<exists>c. tree_get level path = Some (Branch c))"

lemma tree_get_other: "map_of level' seg = map_of level seg \<Longrightarrow> tree_get level' (seg # segs) = tree_get level (seg # segs)"
  by simp

lemma branch_leaf: "node_branch level path \<Longrightarrow> node_leaf level path = None"
  by (auto simp: node_branch_def node_leaf_def)

lemma at_Cons:
  "node_leaf level (seg # segs) =
     (case map_of level seg of Some (Branch c) \<Rightarrow> node_leaf c segs | Some (Leaf v) \<Rightarrow> if segs = [] then Some v else None | None \<Rightarrow> None)"
  "node_branch level (seg # segs) \<longleftrightarrow> (\<exists>c. map_of level seg = Some (Branch c) \<and> node_branch c segs)"
  by (auto simp: node_leaf_def node_branch_def split: option.splits node.splits if_splits)

lemma at_Nil [simp]: "node_leaf level [] = None" "node_branch level []"
  by (simp_all add: node_leaf_def node_branch_def)

lemma node_branch_insert:
  "segs \<noteq> [] \<Longrightarrow> node_branch (tree_insert segs v level) path \<longleftrightarrow> node_branch level path \<or> strict_prefix path segs"
proof (induction segs v level arbitrary: path rule: tree_insert.induct)
  case (2 head leaf level)
  then show ?case
    by (cases path) (auto simp: at_Cons map_of_btree_insert split: option.splits node.splits)
next
  case (3 head seg rest leaf level)
  show ?case
  proof (cases path)
    case (Cons p ps)
    let ?child = "case map_of level head of Some (Branch c) \<Rightarrow> c | _ \<Rightarrow> []"
    have "node_branch (tree_insert (seg # rest) leaf ?child) ps \<longleftrightarrow> node_branch ?child ps \<or> strict_prefix ps (seg # rest)"
      by (rule "3.IH") simp_all
    moreover have "node_branch ?child ps \<or> strict_prefix ps (seg # rest) \<longleftrightarrow>
        (\<exists>c. map_of level head = Some (Branch c) \<and> node_branch c ps) \<or> strict_prefix ps (seg # rest)"
      by (cases ps) (auto simp: at_Cons split: option.splits node.splits)
    ultimately show ?thesis by (cases "p = head") (auto simp: Cons at_Cons map_of_btree_insert Let_def)
  qed (simp add: Let_def)
qed simp

lemma node_leaf_insert:
  "segs \<noteq> [] \<Longrightarrow> node_leaf (tree_insert segs v level) path =
     (if path = segs then (if node_branch level path then None else Some v)
      else if strict_prefix path segs then None else node_leaf level path)"
proof (induction segs v level arbitrary: path rule: tree_insert.induct)
  case (2 head leaf level)
  then show ?case
    by (cases path) (auto simp: at_Cons map_of_btree_insert split: option.splits node.splits)
next
  case (3 head seg rest leaf level)
  show ?case
  proof (cases path)
    case (Cons p ps)
    let ?child = "case map_of level head of Some (Branch c) \<Rightarrow> c | _ \<Rightarrow> []"
    have IH: "node_leaf (tree_insert (seg # rest) leaf ?child) ps =
        (if ps = seg # rest then (if node_branch ?child ps then None else Some leaf)
         else if strict_prefix ps (seg # rest) then None else node_leaf ?child ps)"
      by (rule "3.IH") simp_all
    have child: "node_branch ?child (q # qs) \<longleftrightarrow> (\<exists>c. map_of level head = Some (Branch c) \<and> node_branch c (q # qs))"
      "node_leaf ?child (q # qs) = (case map_of level head of Some (Branch c) \<Rightarrow> node_leaf c (q # qs) | _ \<Rightarrow> None)" for q qs
      by (auto simp: at_Cons split: option.splits node.splits)
    show ?thesis
    proof (cases "p = head")
      case True
      show ?thesis
      proof (cases ps)
        case Nil
        then show ?thesis using True by (simp add: Cons at_Cons map_of_btree_insert Let_def)
      next
        case (Cons q qs)
        have "node_leaf (tree_insert (head # seg # rest) leaf level) path = node_leaf (tree_insert (seg # rest) leaf ?child) ps"
          using True by (simp add: \<open>path = p # ps\<close> at_Cons map_of_btree_insert Let_def)
        also have "\<dots> = (if ps = seg # rest then (if node_branch level path then None else Some leaf)
            else if strict_prefix ps (seg # rest) then None else node_leaf level path)"
          unfolding IH using True by (simp add: \<open>path = p # ps\<close> Cons child at_Cons(1)[of level head] at_Cons(2)[of level head]
              split: option.split node.split)
        finally show ?thesis using True by (simp add: \<open>path = p # ps\<close>)
      qed
    next
      case False
      then show ?thesis by (simp add: Cons at_Cons map_of_btree_insert Let_def)
    qed
  qed (simp add: Let_def)
qed simp

subsection \<open>The tree of a bag\<close>

lemma split_on_inj: "split_on d s = split_on d t \<Longrightarrow> s = t"
proof (induction s arbitrary: t)
  case Nil
  then show ?case by (cases t) (auto simp: split_on_not_Nil [symmetric] split: if_splits list.splits)
next
  case (Cons c cs)
  then show ?case by (cases t) (auto split: if_splits list.splits)
qed

lemma build_tree_snoc:
  "build_tree f (entries @ [(key, v)]) = tree_insert (split_on (CHR ''.'') key) (f v) (build_tree f entries)"
  by (simp add: build_tree_def)

lemma node_branch_build:
  "path \<noteq> [] \<Longrightarrow> node_branch (build_tree f entries) path \<longleftrightarrow> (\<exists>key \<in> fst ` set entries. strict_prefix path (split_on (CHR ''.'') key))"
proof (induction entries rule: rev_induct)
  case Nil
  then show ?case by (cases path) (simp_all add: build_tree_def at_Cons)
next
  case (snoc e entries)
  then show ?case by (cases e) (auto simp: build_tree_snoc node_branch_insert)
qed

lemma node_leaf_build:
  assumes "distinct (map fst entries)"
  shows "node_leaf (build_tree f entries) path = Some x \<longleftrightarrow>
    (\<exists>key v. (key, v) \<in> set entries \<and> path = split_on (CHR ''.'') key \<and> x = f v
       \<and> \<not> (\<exists>key' \<in> fst ` set entries. strict_prefix path (split_on (CHR ''.'') key')))"
  using assms
proof (induction entries rule: rev_induct)
  case Nil
  then show ?case by (cases path) (simp_all add: build_tree_def at_Cons)
next
  case (snoc e entries)
  obtain key v where e: "e = (key, v)" by (cases e)
  let ?segs = "split_on (CHR ''.'')"
  have fresh: "key \<notin> fst ` set entries" using snoc.prems by (auto simp: e)
  have IH: "node_leaf (build_tree f entries) path = Some x \<longleftrightarrow>
      (\<exists>key v. (key, v) \<in> set entries \<and> path = ?segs key \<and> x = f v \<and> \<not> (\<exists>key' \<in> fst ` set entries. strict_prefix path (?segs key')))"
    using snoc.IH snoc.prems by (simp add: e)
  show ?case
  proof (cases "path = ?segs key")
    case True
    then have "path \<noteq> []" by simp
    have "key' = key" if "path = ?segs key'" for key' using that True by (auto dest: split_on_inj)
    then have "(\<exists>key' v'. (key', v') \<in> set (entries @ [e]) \<and> path = ?segs key' \<and> x = f v'
          \<and> \<not> (\<exists>key' \<in> fst ` set (entries @ [e]). strict_prefix path (?segs key')))
        \<longleftrightarrow> x = f v \<and> \<not> (\<exists>key' \<in> fst ` set entries. strict_prefix path (?segs key'))"
      using True fresh by (auto simp: e image_iff)
    moreover have "node_leaf (build_tree f (entries @ [e])) path = Some x \<longleftrightarrow>
        x = f v \<and> \<not> (\<exists>key' \<in> fst ` set entries. strict_prefix path (?segs key'))"
      using True node_branch_build [OF \<open>path \<noteq> []\<close>, of f entries] by (simp add: e build_tree_snoc node_leaf_insert) metis
    ultimately show ?thesis by simp
  next
    case False
    then have "node_leaf (build_tree f (entries @ [e])) path = Some x \<longleftrightarrow>
        node_leaf (build_tree f entries) path = Some x \<and> \<not> strict_prefix path (?segs key)"
      by (simp add: e build_tree_snoc node_leaf_insert)
    with IH False show ?thesis by (simp add: e) blast
  qed
qed

subsection \<open>The order of the entries\<close>

lemma btree_insert_commute:
  "k \<noteq> k' \<Longrightarrow> btree_insert k v (btree_insert k' v' m) = btree_insert k' v' (btree_insert k v m)"
proof (induction m)
  case Nil
  then show ?case by auto
next
  case (Cons kv m)
  then show ?case by (cases kv) auto
qed

lemma btree_insert_again: "btree_insert k v (btree_insert k v' m) = btree_insert k v m"
  by (induction m) auto

lemma tree_insert_commute:
  "p \<noteq> q \<Longrightarrow> tree_insert p v (tree_insert q w level) = tree_insert q w (tree_insert p v level)"
proof (induction p arbitrary: q level)
  case (Cons h ps)
  show ?case
  proof (cases q)
    case (Cons g qs)
    show ?thesis
    proof (cases "h = g")
      case False
      then show ?thesis unfolding Cons
        by (cases ps; cases qs) (auto simp: Let_def map_of_btree_insert btree_insert_commute [of h g] split: option.split node.split)
    next
      case True
      with Cons.prems Cons have "ps \<noteq> qs" by simp
      have IH: "tree_insert ps v (tree_insert qs w l) = tree_insert qs w (tree_insert ps v l)" for l by (rule Cons.IH [OF \<open>ps \<noteq> qs\<close>])
      show ?thesis using \<open>ps \<noteq> qs\<close> True IH unfolding Cons
        by (cases ps; cases qs) (auto simp: Let_def map_of_btree_insert btree_insert_again split: option.split node.split)
    qed
  qed simp
qed simp

lemma build_tree_order:
  assumes "distinct (map fst entries)" "mset entries' = mset entries"
  shows "build_tree f entries' = build_tree f entries"
proof -
  let ?ins = "\<lambda>(key, value). tree_insert (split_on (CHR ''.'') key) (f value)"
  have "?ins e \<circ> ?ins e' = ?ins e' \<circ> ?ins e" if mem: "e \<in> set entries" "e' \<in> set entries" for e e'
  proof (cases "e = e'")
    case False
    with mem assms(1) have "fst e \<noteq> fst e'" by (metis eq_key_imp_eq_value prod.collapse)
    then have "split_on (CHR ''.'') (fst e) \<noteq> split_on (CHR ''.'') (fst e')" by (auto dest: split_on_inj)
    then show ?thesis by (auto simp: fun_eq_iff case_prod_beta tree_insert_commute)
  qed simp
  then have "fold ?ins entries = fold ?ins entries'" by (rule fold_multiset_equiv) (simp_all add: assms(2))
  then show ?thesis by (simp add: build_tree_def)
qed

subsection \<open>The document\<close>

lemma set_node_Branch: "set_node (Branch m) = (\<Union>n \<in> snd ` set m. set_node n)"
  by (auto simp: snds.simps)

lemma set_node_child: "map_of m k = Some n \<Longrightarrow> set_node n \<subseteq> set_node (Branch m)"
  unfolding set_node_Branch by (auto dest: map_of_SomeD)

lemma map_of_values: "map_of (map (\<lambda>(k, child). (k, g child)) m) k = map_option g (map_of m k)"
  by (induction m) auto

lemma get_path_node:
  assumes "\<And>v s. json_get (h v) s = None" "\<forall>v \<in> set_node n. \<exists>a. v = h a"
  shows "get_path (opa_node_to_value n) path =
    (case n of
       Leaf v \<Rightarrow> if path = [] then Some v else None
     | Branch level \<Rightarrow> map_option opa_node_to_value (tree_get level path))"
  using assms(2)
proof (induction path arbitrary: n)
  case Nil
  then show ?case by (cases n) simp_all
next
  case (Cons seg segs)
  show ?case
  proof (cases n)
    case (Leaf v)
    with Cons.prems obtain a where "v = h a" by auto
    with assms(1) Leaf show ?thesis by simp
  next
    case (Branch level)
    show ?thesis
    proof (cases "map_of level seg")
      case (Some child)
      have "\<forall>v \<in> set_node child. \<exists>a. v = h a" using set_node_child [OF Some] Cons.prems unfolding Branch by blast
      from Cons.IH [OF this] Some show ?thesis by (cases child) (simp_all add: Branch map_of_values)
    qed (simp add: Branch map_of_values)
  qed
qed

lemma opa_attr_flat: "json_get (opa_attr_to_value a) s = None"
  by (cases a) (simp_all add: opa_float_to_value_def)

lemma opa_attr_no_object: "\<not> is_object (opa_attr_to_value a)"
  by (cases a) (simp_all add: opa_float_to_value_def)

lemma leaves_btree_insert: "set_node (Branch (btree_insert k n m)) \<subseteq> set_node n \<union> set_node (Branch m)"
  unfolding set_node_Branch using set_btree_insert_subset [of k n m] by fastforce

lemma leaves_insert:
  "set_node (Branch (tree_insert segs v level)) \<subseteq> insert v (set_node (Branch level))"
proof (induction segs v level rule: tree_insert.induct)
  case (2 head leaf level)
  have "set_node (Branch (btree_insert head (Leaf leaf) level)) \<subseteq> insert leaf (set_node (Branch level))"
    using leaves_btree_insert [of head "Leaf leaf" level] by (simp del: node.set(2))
  then show ?case by (simp del: node.set(2) split: option.split node.split) blast
next
  case (3 head seg rest leaf level)
  let ?child = "case map_of level head of Some (Branch c) \<Rightarrow> c | _ \<Rightarrow> []"
  have "set_node (Branch (tree_insert (seg # rest) leaf ?child)) \<subseteq> insert leaf (set_node (Branch ?child))" by (rule "3.IH") simp
  moreover have "set_node (Branch ?child) \<subseteq> set_node (Branch level)"
    using set_node_child [of level head] by (simp del: node.set(2) split: option.split node.split) (simp add: set_node_Branch)
  ultimately show ?case
    using leaves_btree_insert [of head "Branch (tree_insert (seg # rest) leaf ?child)" level] by (simp only: tree_insert.simps Let_def) blast
qed (simp del: node.set(2), blast)

lemma leaves_build: "set_node (Branch (build_tree f entries)) \<subseteq> f ` snd ` set entries"
proof (induction entries rule: rev_induct)
  case (snoc e entries)
  obtain key v where e: "e = (key, v)" by (cases e)
  have "set_node (Branch (build_tree f (entries @ [e]))) \<subseteq> insert (f v) (set_node (Branch (build_tree f entries)))"
    unfolding e build_tree_snoc by (rule leaves_insert)
  with snoc show ?case by (auto simp: e simp del: node.set(2))
qed (simp add: build_tree_def)

lemma get_dotted_input:
  "get_dotted (bag_to_input entries) key = map_option opa_node_to_value (tree_get (build_tree opa_attr_to_value entries) (split_on (CHR ''.'') key))"
proof -
  have "\<forall>v \<in> set_node (Branch (build_tree opa_attr_to_value entries)). \<exists>a. v = opa_attr_to_value a"
    using leaves_build [of opa_attr_to_value entries] by auto
  from get_path_node [of opa_attr_to_value, OF opa_attr_flat this] show ?thesis by (simp add: get_dotted_def bag_to_input_def)
qed

definition shadowed :: "attribute_bag \<Rightarrow> string \<Rightarrow> bool" where
  "shadowed bag key \<longleftrightarrow> (\<exists>key' \<in> dom bag. strict_prefix (split_on (CHR ''.'') key) (split_on (CHR ''.'') key'))"

lemma input_leaf:
  assumes "distinct (map fst entries)" "map_of entries = bag"
  shows "get_dotted (bag_to_input entries) key = Some x \<and> \<not> is_object x
    \<longleftrightarrow> (\<exists>v. bag key = Some v \<and> x = opa_attr_to_value v \<and> \<not> shadowed bag key)"
proof -
  let ?t = "build_tree opa_attr_to_value entries" and ?segs = "split_on (CHR ''.'')"
  have dom: "fst ` set entries = dom bag" by (simp add: assms(2) [symmetric] dom_map_of_conv_image_fst)
  have "get_dotted (bag_to_input entries) key = Some x \<and> \<not> is_object x \<longleftrightarrow> node_leaf ?t (?segs key) = Some x \<and> \<not> is_object x"
    unfolding get_dotted_input node_leaf_def by (auto split: option.splits node.splits)
  also have "\<dots> \<longleftrightarrow> (\<exists>v. bag key = Some v \<and> x = opa_attr_to_value v \<and> \<not> shadowed bag key)"
    using node_leaf_build [OF assms(1), of opa_attr_to_value "?segs key" x] map_of_eq_Some_iff [OF assms(1), of key] assms(2)
    by (auto simp: shadowed_def dom opa_attr_no_object dest!: split_on_inj)
  finally show ?thesis .
qed

lemma input_namespace:
  assumes "map_of entries = bag"
  shows "(\<exists>m. get_dotted (bag_to_input entries) key = Some (JObj m)) \<longleftrightarrow> shadowed bag key"
proof -
  let ?t = "build_tree opa_attr_to_value entries" and ?segs = "split_on (CHR ''.'')"
  have dom: "fst ` set entries = dom bag" by (simp add: assms [symmetric] dom_map_of_conv_image_fst)
  have leaves: "\<forall>v \<in> set_node (Branch ?t). \<not> is_object v"
    using leaves_build [of opa_attr_to_value entries] opa_attr_no_object by auto
  have "\<not> is_object v" if "tree_get l path = Some (Leaf v)" "\<forall>v \<in> set_node (Branch l). \<not> is_object v" for l :: "json level" and path v
    using that
  proof (induction path arbitrary: l)
    case (Cons seg segs)
    then show ?case by (fastforce split: option.splits node.splits if_splits dest: map_of_SomeD)
  qed simp
  with leaves have "(\<exists>m. get_dotted (bag_to_input entries) key = Some (JObj m)) \<longleftrightarrow> node_branch ?t (?segs key)"
    unfolding get_dotted_input node_branch_def by (fastforce split: node.splits elim: opa_node_to_value.elims)
  then show ?thesis by (simp add: node_branch_build shadowed_def dom)
qed

end
