(* ===== verification/Pdp_Props.thy ===== *)
theory Pdp_Props
  imports Cel_Pdp Pdp_Input_Props
begin

text \<open>
  When the two decision points allow.  Both keep compiled policies in a cache with a cap that never evicts; the locale
  \<open>compile_cache\<close> is what a caller relies on, interpreted for both.
\<close>

subsection \<open>Caches\<close>

locale compile_cache =
  fixes fetch :: "string \<Rightarrow> (string \<times> 'g) list \<Rightarrow> ('e + 'g) \<times> (string \<times> 'g) list"
    and cap :: nat
    and compiles :: "string \<Rightarrow> 'g \<Rightarrow> bool"
  assumes hit: "map_of cache src = Some g \<Longrightarrow> fetch src cache = (Inr g, cache)"
    and miss: "map_of cache src = None \<Longrightarrow> fetch src cache = (Inr g, cache') \<Longrightarrow>
          compiles src g \<and> length cache < cap \<and> cache' = AList.update src g cache"
    and failed: "fetch src cache = (Inl e, cache') \<Longrightarrow> cache' = cache"
begin

definition cache_sound :: "(string \<times> 'g) list \<Rightarrow> bool" where
  "cache_sound cache \<longleftrightarrow> length cache \<le> cap \<and> (\<forall>src g. map_of cache src = Some g \<longrightarrow> compiles src g)"

lemma sound_Nil: "cache_sound []"
  by (simp add: cache_sound_def)

lemma length_update: "map_of cache src = None \<Longrightarrow> length (AList.update src g cache) = Suc (length cache)"
  by (induction cache) (auto split: if_splits)

lemma sound_fetch:
  assumes "cache_sound cache" "fetch src cache = (res, cache')"
  shows "cache_sound cache'" and "res = Inr g \<Longrightarrow> compiles src g"
    and "map_of cache src' = Some g' \<Longrightarrow> map_of cache' src' = Some g'"
proof -
  have "cache_sound cache' \<and> (\<forall>g. res = Inr g \<longrightarrow> compiles src g) \<and> (\<forall>s g. map_of cache s = Some g \<longrightarrow> map_of cache' s = Some g)"
  proof (cases "map_of cache src")
    case (Some h)
    with hit [OF Some] assms show ?thesis by (auto simp: cache_sound_def)
  next
    case None
    show ?thesis
    proof (cases res)
      case (Inl e)
      with failed assms show ?thesis by blast
    next
      case (Inr g)
      with miss [OF None] assms(2) have "compiles src g" "length cache < cap" "cache' = AList.update src g cache" by blast+
      with assms(1) None Inr show ?thesis by (auto simp: cache_sound_def update_conv' length_update)
    qed
  qed
  then show "cache_sound cache'" "res = Inr g \<Longrightarrow> compiles src g" "map_of cache src' = Some g' \<Longrightarrow> map_of cache' src' = Some g'"
    by blast+
qed

end

definition opa_compiles :: "'g rego \<Rightarrow> 'g opa_resolver \<Rightarrow> string \<Rightarrow> 'g \<Rightarrow> bool" where
  "opa_compiles rg r src engine \<longleftrightarrow>
     (\<exists>package. rg_add_policy rg (op_base_engine r) INLINE_MODULE_NAME src = Inr (engine, package) \<and> package \<notin> op_global_packages r)"

lemma prepare_engine_Inr: "prepare_engine rg r src = Inr engine \<longleftrightarrow> opa_compiles rg r src engine"
  by (auto simp: prepare_engine_def opa_compiles_def split: sum.splits if_splits)

interpretation opa: compile_cache "\<lambda>src. engine_for rg r (Some src)" "op_max_cache_entries r" "opa_compiles rg r" for rg r
  by unfold_locales (auto simp: engine_for_def cache_insert_def prepare_engine_Inr [symmetric] split: option.splits sum.splits if_splits)

interpretation cel: compile_cache "get_or_compile cl r" "cr_max_cache_entries r" "\<lambda>src g. cl_compile cl src = Inr g" for cl r
  by unfold_locales (auto simp: get_or_compile_def split: option.splits sum.splits if_splits)

subsection \<open>The caches a resolver reaches\<close>

definition opa_cache :: "'g rego \<Rightarrow> 'g opa_resolver \<Rightarrow> (pdp_call \<times> (string \<times> attribute_value) list) list \<Rightarrow> 'g engine_cache" where
  "opa_cache rg r calls = fold (\<lambda>(call, entries) cache. snd (opa_evaluate rg r call entries cache)) calls []"

definition cel_cache :: "'g cel_lib \<Rightarrow> cel_resolver \<Rightarrow> (pdp_call \<times> (string \<times> attribute_value) list) list \<Rightarrow> 'g program_cache" where
  "cel_cache cl r calls = fold (\<lambda>(call, entries) cache. snd (cel_evaluate cl r call entries cache)) calls []"

lemma opa_evaluate_cache:
  "snd (opa_evaluate rg r call entries cache) = cache
   \<or> (\<exists>src. snd (opa_evaluate rg r call entries cache) = snd (engine_for rg r (Some src) cache))"
proof (cases "step_arg call ''query''")
  case (Some query)
  have "snd (opa_evaluate rg r call entries cache) = snd (engine_for rg r (step_arg call ''module'') cache)"
    by (simp add: opa_evaluate_def Some split: prod.split sum.split)
  then show ?thesis by (cases "step_arg call ''module''") (auto simp: engine_for_def [of _ _ None])
qed (simp add: opa_evaluate_def)

lemma opa_cache_sound: "opa.cache_sound r rg (opa_cache rg r calls)"
proof (induction calls rule: rev_induct)
  case Nil
  then show ?case by (simp add: opa_cache_def opa.sound_Nil)
next
  case (snoc call calls)
  obtain c entries where call: "call = (c, entries)" by (cases call)
  have "opa_cache rg r (calls @ [call]) = snd (opa_evaluate rg r c entries (opa_cache rg r calls))" by (simp add: opa_cache_def call)
  with opa_evaluate_cache [of rg r c entries "opa_cache rg r calls"] show ?case
    using snoc opa.sound_fetch(1) [OF snoc] by (metis prod.collapse)
qed

lemma cel_evaluate_cache:
  "snd (cel_evaluate cl r call entries cache) = cache
   \<or> (\<exists>src. snd (cel_evaluate cl r call entries cache) = snd (get_or_compile cl r src cache))"
proof (cases "step_arg call ''expr''")
  case (Some expr)
  obtain res cache' where "get_or_compile cl r expr cache = (res, cache')" by (cases "get_or_compile cl r expr cache")
  with Some show ?thesis
    by (cases res) (auto simp: cel_evaluate_def split: get_or_compile_error.split intro!: exI [of _ expr])
qed (simp add: cel_evaluate_def)

lemma cel_cache_sound: "cel.cache_sound r cl (cel_cache cl r calls)"
proof (induction calls rule: rev_induct)
  case Nil
  then show ?case by (simp add: cel_cache_def cel.sound_Nil)
next
  case (snoc call calls)
  obtain c entries where call: "call = (c, entries)" by (cases call)
  have "cel_cache cl r (calls @ [call]) = snd (cel_evaluate cl r c entries (cel_cache cl r calls))" by (simp add: cel_cache_def call)
  with cel_evaluate_cache [of cl r c entries "cel_cache cl r calls"] show ?case
    using snoc cel.sound_fetch(1) [OF snoc] by (metis prod.collapse)
qed

subsection \<open>When a decision point allows\<close>

text \<open>The values of a query that grant: true, an object whose decision field is true, an empty set of violations.\<close>

definition grants :: "rego_value \<Rightarrow> string \<Rightarrow> bool" where
  "grants v fld \<longleftrightarrow> v = RV_Bool True \<or> v = RV_Set [] \<or> v = RV_Array []
     \<or> (\<exists>obj. v = RV_Object obj \<and> map_of obj (RV_String fld) = Some (RV_Bool True))"

lemma rego_as_bool_Some: "rego_as_bool v = Some b \<longleftrightarrow> v = RV_Bool b"
  by (cases v) auto

lemma map_object_allow:
  "(\<exists>d. map_object rg obj fld = Mapped_Decision d \<and> pdd_decision d = Dec_Allow) \<longleftrightarrow> map_of obj (RV_String fld) = Some (RV_Bool True)"
proof (cases "Option.bind (map_of obj (RV_String fld)) rego_as_bool")
  case (Some b)
  then have "map_of obj (RV_String fld) = Some (RV_Bool b)" by (auto simp: bind_eq_Some_conv rego_as_bool_Some)
  with Some show ?thesis by (cases b) (simp_all add: map_object_def Let_def opa_allow_def opa_deny_def)
qed (auto simp: map_object_def)

lemma map_query_result_allow:
  "(\<exists>d. map_query_result rg v fld = Mapped_Decision d \<and> pdd_decision d = Dec_Allow) \<longleftrightarrow> grants v fld"
  by (cases v) (auto simp: grants_def map_collection_def map_object_allow opa_allow_def opa_deny_def)

lemma engine_for_origin:
  assumes "opa.cache_sound r rg cache" "engine_for rg r module cache = (Inr engine, cache')"
  shows "case module of None \<Rightarrow> engine = op_base_engine r | Some src \<Rightarrow> opa_compiles rg r src engine"
  using assms opa.sound_fetch(2) [OF assms(1)] by (cases module) (auto simp: engine_for_def [of _ _ None])

lemma opa_allows:
  assumes "opa.cache_sound r rg cache" "fst (opa_evaluate rg r call entries cache) = Inr d" "pdd_decision d = Dec_Allow"
  shows "\<exists>query engine. step_arg call ''query'' = Some query
     \<and> (case step_arg call ''module'' of None \<Rightarrow> engine = op_base_engine r | Some src \<Rightarrow> opa_compiles rg r src engine)
     \<and> ((\<exists>engine' v. rg_set_input_json rg engine (rg_json_text rg (bag_to_input entries)) = Inr engine'
            \<and> rg_eval_rule rg engine' query = RO_Value v \<and> grants v (op_decision_field r))
        \<or> op_on_error r = OnError_Allow \<and> (\<exists>cause. eval_task rg r engine (bag_to_input entries) query = Inr (Degenerate cause)))"
proof -
  from assms(2) obtain query where query: "step_arg call ''query'' = Some query"
    by (auto simp: opa_evaluate_def split: option.splits)
  obtain res cache' where run: "engine_for rg r (step_arg call ''module'') cache = (res, cache')"
    by (cases "engine_for rg r (step_arg call ''module'') cache")
  have not_err: "pdd_decision (engine_error_decision e) \<noteq> Dec_Allow" for e by (cases e) (simp_all add: compile_error_decision_def)
  with assms(2,3) obtain engine where engine: "res = Inr engine" by (cases res) (auto simp: opa_evaluate_def query run)
  from engine_for_origin [OF assms(1)] run engine
  have origin: "case step_arg call ''module'' of None \<Rightarrow> engine = op_base_engine r | Some src \<Rightarrow> opa_compiles rg r src engine" by blast
  have d: "d = (case eval_task rg r engine (bag_to_input entries) query of
                  Inr (Mapped_Decision d) \<Rightarrow> d
                | Inr (Degenerate cause) \<Rightarrow> on_error_decision (op_on_error r) ''opa'' cause
                | Inl e \<Rightarrow> compile_error_decision ''opa'' (''OPA evaluation task panicked: '' @ e))"
    using assms(2) by (simp add: opa_evaluate_def query run engine)
  show ?thesis
  proof (intro exI conjI)
    show "step_arg call ''query'' = Some query" by (rule query)
    show "case step_arg call ''module'' of None \<Rightarrow> engine = op_base_engine r | Some src \<Rightarrow> opa_compiles rg r src engine" by (rule origin)
    show "(\<exists>engine' v. rg_set_input_json rg engine (rg_json_text rg (bag_to_input entries)) = Inr engine'
            \<and> rg_eval_rule rg engine' query = RO_Value v \<and> grants v (op_decision_field r))
        \<or> op_on_error r = OnError_Allow \<and> (\<exists>cause. eval_task rg r engine (bag_to_input entries) query = Inr (Degenerate cause))"
    proof (cases "eval_task rg r engine (bag_to_input entries) query")
      case (Inl e)
      with d assms(3) show ?thesis by (simp add: compile_error_decision_def)
    next
      case (Inr m)
      show ?thesis
      proof (cases m)
        case (Mapped_Decision d')
        with Inr d obtain engine' v where "rg_set_input_json rg engine (rg_json_text rg (bag_to_input entries)) = Inr engine'"
          "rg_eval_rule rg engine' query = RO_Value v" "map_query_result rg v (op_decision_field r) = Mapped_Decision d"
          by (auto simp: eval_task_def split: sum.splits rego_outcome.splits)
        with map_query_result_allow [of rg v "op_decision_field r"] assms(3) show ?thesis by blast
      next
        case (Degenerate cause)
        with Inr d assms(3) show ?thesis by (cases "op_on_error r") (auto simp: on_error_decision_def)
      qed
    qed
  qed
qed

lemma cel_allows:
  assumes "cel.cache_sound r cl cache" "fst (cel_evaluate cl r call entries cache) = Inr d" "pdd_decision d = Dec_Allow"
    and "cr_on_error r = OnError_Deny"
  shows "\<exists>expr program. step_arg call ''expr'' = Some expr \<and> cl_compile cl expr = Inr program
     \<and> cl_execute cl program (bag_to_context entries (pc_args call)) = Inr (CV_Bool True)"
proof -
  from assms(2) obtain expr where expr: "step_arg call ''expr'' = Some expr" by (auto simp: cel_evaluate_def split: option.splits)
  obtain res cache' where run: "get_or_compile cl r expr cache = (res, cache')" by (cases "get_or_compile cl r expr cache")
  have "\<exists>program. res = Inr program \<and> d = cel_decide cl r program expr (pc_args call) entries"
    using assms(2-4) expr run
    by (cases res) (auto simp: cel_evaluate_def compile_error_decision_def on_error_decision_def split: get_or_compile_error.splits)
  then obtain program where program: "res = Inr program" "d = cel_decide cl r program expr (pc_args call) entries" by blast
  moreover have "cl_compile cl expr = Inr program" using cel.sound_fetch(2) [OF assms(1) run program(1)] .
  moreover have "cl_execute cl program (bag_to_context entries (pc_args call)) = Inr (CV_Bool True)"
    using assms(3,4) program(2) by (auto simp: cel_decide_def on_error_decision_def split: sum.splits cel_value.splits bool.splits)
  ultimately show ?thesis using expr by blast
qed

subsection \<open>Diagnostics are bounded\<close>

lemma floor_char_boundary_le: "floor_char_boundary s n \<le> n" "floor_char_boundary s n \<le> length s"
  by (induction s n rule: floor_char_boundary.induct) (auto split: if_splits)

lemma bounded_elements_length: "length (bounded_elements rg items) \<le> Suc MAX_DIAGNOSTIC_ELEMENTS"
  by (auto simp: bounded_elements_def Let_def)

text \<open>A cut line starts with the text it was cut from, up to the boundary of a character.\<close>

lemma bounded_prefix:
  assumes "MAX_DIAGNOSTIC_LEN < length s"
  shows "\<exists>k \<le> MAX_DIAGNOSTIC_LEN. bounded s = take k s @ ''... ['' @ nat_to_string (length s - k) @ '' more bytes omitted]''"
  using assms floor_char_boundary_le(1) [of s MAX_DIAGNOSTIC_LEN] by (auto simp: bounded_def Let_def)

end
