(* ===== verification/Message_View.thy ===== *)
theory Message_View
  imports Route_Handler
begin

text \<open>
  \<^verbatim>\<open>crates/ppe-core/src/cmf/view.rs\<close>: read-only views of the parts of a message, and the JSON document a view is handed to an
  external decision point as.  Lowercasing beyond ASCII is the parameter \<open>uni\<close>, as elsewhere.
\<close>

subsection \<open>Kinds and actions\<close>

datatype view_kind =
    VK_Text | VK_Thinking | VK_ToolCall | VK_ToolResult | VK_Resource | VK_ResourceRef | VK_PromptRequest | VK_PromptResult
  | VK_Image | VK_Video | VK_Audio | VK_Document

datatype view_action = VA_Read | VA_Write | VA_Execute | VA_Invoke | VA_Send | VA_Receive | VA_Generate

fun from_content_type :: "content_type \<Rightarrow> view_kind" where
  "from_content_type CT_Text = VK_Text"
| "from_content_type CT_Thinking = VK_Thinking"
| "from_content_type CT_ToolCall = VK_ToolCall"
| "from_content_type CT_ToolResult = VK_ToolResult"
| "from_content_type CT_Resource = VK_Resource"
| "from_content_type CT_ResourceRef = VK_ResourceRef"
| "from_content_type CT_PromptRequest = VK_PromptRequest"
| "from_content_type CT_PromptResult = VK_PromptResult"
| "from_content_type CT_Image = VK_Image"
| "from_content_type CT_Video = VK_Video"
| "from_content_type CT_Audio = VK_Audio"
| "from_content_type CT_Document = VK_Document"

fun role_action :: "role \<Rightarrow> view_action" where
  "role_action RL_User = VA_Send"
| "role_action RL_Assistant = VA_Generate"
| "role_action RL_Tool = VA_Receive"
| "role_action RL_System = VA_Write"
| "role_action RL_Developer = VA_Write"

fun default_action :: "view_kind \<Rightarrow> role \<Rightarrow> view_action" where
  "default_action VK_ToolCall r = VA_Execute"
| "default_action VK_ToolResult r = VA_Receive"
| "default_action VK_Resource r = VA_Read"
| "default_action VK_ResourceRef r = VA_Read"
| "default_action VK_PromptRequest r = VA_Invoke"
| "default_action VK_PromptResult r = VA_Receive"
| "default_action _ r = role_action r"

definition kind_is_tool :: "view_kind \<Rightarrow> bool" where
  "kind_is_tool k \<longleftrightarrow> k = VK_ToolCall \<or> k = VK_ToolResult"

definition kind_is_resource :: "view_kind \<Rightarrow> bool" where
  "kind_is_resource k \<longleftrightarrow> k = VK_Resource \<or> k = VK_ResourceRef"

definition kind_is_prompt :: "view_kind \<Rightarrow> bool" where
  "kind_is_prompt k \<longleftrightarrow> k = VK_PromptRequest \<or> k = VK_PromptResult"

definition kind_is_media :: "view_kind \<Rightarrow> bool" where
  "kind_is_media k \<longleftrightarrow> k = VK_Image \<or> k = VK_Video \<or> k = VK_Audio \<or> k = VK_Document"

definition kind_is_text :: "view_kind \<Rightarrow> bool" where
  "kind_is_text k \<longleftrightarrow> k = VK_Text \<or> k = VK_Thinking"

subsection \<open>Views\<close>

record message_view =
  vw_part :: content_part
  vw_kind :: view_kind
  vw_role :: role
  vw_hook :: "string option"
  vw_extensions :: "extensions option"

fun kind_of_part :: "content_part \<Rightarrow> view_kind" where
  "kind_of_part (CP_Text _) = VK_Text"
| "kind_of_part (CP_Thinking _) = VK_Thinking"
| "kind_of_part (CP_ToolCall _) = VK_ToolCall"
| "kind_of_part (CP_ToolResult _) = VK_ToolResult"
| "kind_of_part (CP_Resource _) = VK_Resource"
| "kind_of_part (CP_ResourceRef _) = VK_ResourceRef"
| "kind_of_part (CP_PromptRequest _) = VK_PromptRequest"
| "kind_of_part (CP_PromptResult _) = VK_PromptResult"
| "kind_of_part (CP_Image _) = VK_Image"
| "kind_of_part (CP_Video _) = VK_Video"
| "kind_of_part (CP_Audio _) = VK_Audio"
| "kind_of_part (CP_Document _) = VK_Document"

definition view_new :: "content_part \<Rightarrow> role \<Rightarrow> string option \<Rightarrow> extensions option \<Rightarrow> message_view" where
  "view_new part r hook ext = \<lparr>vw_part = part, vw_kind = kind_of_part part, vw_role = r, vw_hook = hook, vw_extensions = ext\<rparr>"

definition view_action_of :: "message_view \<Rightarrow> view_action" where
  "view_action_of v = default_action (vw_kind v) (vw_role v)"

text \<open>\<^verbatim>\<open>str::contains\<close>.\<close>

fun contains_str :: "string \<Rightarrow> string \<Rightarrow> bool" where
  "contains_str s [] = True"
| "contains_str [] p = False"
| "contains_str (c # cs) p = (starts_with (c # cs) p \<or> contains_str cs p)"

definition view_is_pre :: "message_view \<Rightarrow> bool" where
  "view_is_pre v = (case vw_hook v of Some h \<Rightarrow> contains_str h ''pre'' | None \<Rightarrow> False)"

definition view_is_post :: "message_view \<Rightarrow> bool" where
  "view_is_post v = (case vw_hook v of Some h \<Rightarrow> contains_str h ''post'' | None \<Rightarrow> False)"

definition view_content :: "message_view \<Rightarrow> string option" where
  "view_content v =
     (case vw_part v of
        CP_Text text \<Rightarrow> Some text
      | CP_Thinking text \<Rightarrow> Some text
      | CP_ToolResult tr \<Rightarrow> as_str (tr_content tr)
      | CP_Resource r \<Rightarrow> re_content r
      | CP_PromptResult pr \<Rightarrow> pt_content pr
      | _ \<Rightarrow> None)"

definition view_name :: "message_view \<Rightarrow> string option" where
  "view_name v =
     (case vw_part v of
        CP_ToolCall tc \<Rightarrow> Some (tc_name tc)
      | CP_ToolResult tr \<Rightarrow> Some (tr_tool_name tr)
      | CP_Resource r \<Rightarrow> or_else (re_name r) (Some (re_uri r))
      | CP_ResourceRef rr \<Rightarrow> or_else (rr_name rr) (Some (rr_uri rr))
      | CP_PromptRequest pr \<Rightarrow> Some (pq_name pr)
      | CP_PromptResult pr \<Rightarrow> Some (pt_prompt_name pr)
      | _ \<Rightarrow> None)"

definition view_uri :: "message_view \<Rightarrow> string option" where
  "view_uri v =
     (case vw_part v of
        CP_ToolCall tc \<Rightarrow> Some (''tool://_/'' @ tc_name tc)
      | CP_Resource r \<Rightarrow> Some (re_uri r)
      | CP_ResourceRef rr \<Rightarrow> Some (rr_uri rr)
      | CP_PromptRequest pr \<Rightarrow> Some (''prompt://_/'' @ pq_name pr)
      | _ \<Rightarrow> None)"

definition view_args :: "message_view \<Rightarrow> json hash_map option" where
  "view_args v =
     (case vw_part v of
        CP_ToolCall tc \<Rightarrow> Some (tc_arguments tc)
      | CP_PromptRequest pr \<Rightarrow> Some (pq_arguments pr)
      | _ \<Rightarrow> None)"

definition view_get_arg :: "message_view \<Rightarrow> string \<Rightarrow> json option" where
  "view_get_arg v name = Option.bind (view_args v) (\<lambda>a. map_of a name)"

definition view_has_arg :: "message_view \<Rightarrow> string \<Rightarrow> bool" where
  "view_has_arg v name \<longleftrightarrow> view_get_arg v name \<noteq> None"

definition view_mime_type :: "message_view \<Rightarrow> string option" where
  "view_mime_type v =
     (case vw_part v of
        CP_Resource r \<Rightarrow> re_mime_type r
      | CP_Image i \<Rightarrow> im_media_type i
      | CP_Video i \<Rightarrow> vs_media_type i
      | CP_Audio i \<Rightarrow> as_media_type i
      | CP_Document d \<Rightarrow> dc_media_type d
      | _ \<Rightarrow> None)"

definition view_is_error :: "message_view \<Rightarrow> bool" where
  "view_is_error v =
     (case vw_part v of
        CP_ToolResult tr \<Rightarrow> tr_is_error tr
      | CP_PromptResult pr \<Rightarrow> pt_is_error pr
      | _ \<Rightarrow> False)"

definition mono_has_label :: "(string \<Rightarrow> string) \<Rightarrow> monotonic_set \<Rightarrow> string \<Rightarrow> bool" where
  "mono_has_label uni s label \<longleftrightarrow> (\<exists>l |\<in>| s. to_lowercase uni l = to_lowercase uni label)"

definition view_has_label :: "(string \<Rightarrow> string) \<Rightarrow> message_view \<Rightarrow> string \<Rightarrow> bool" where
  "view_has_label uni v label =
     (case Option.bind (vw_extensions v) ex_security of Some s \<Rightarrow> mono_has_label uni (sc_labels s) label | None \<Rightarrow> False)"

definition view_get_header :: "(string \<Rightarrow> string) \<Rightarrow> message_view \<Rightarrow> string \<Rightarrow> string option" where
  "view_get_header uni v name = Option.bind (Option.bind (vw_extensions v) ex_http) (\<lambda>h. get_request_header uni h name)"

subsection \<open>The document of a view\<close>

fun kind_text :: "view_kind \<Rightarrow> string" where
  "kind_text VK_Text = ''text''"
| "kind_text VK_Thinking = ''thinking''"
| "kind_text VK_ToolCall = ''tool_call''"
| "kind_text VK_ToolResult = ''tool_result''"
| "kind_text VK_Resource = ''resource''"
| "kind_text VK_ResourceRef = ''resource_ref''"
| "kind_text VK_PromptRequest = ''prompt_request''"
| "kind_text VK_PromptResult = ''prompt_result''"
| "kind_text VK_Image = ''image''"
| "kind_text VK_Video = ''video''"
| "kind_text VK_Audio = ''audio''"
| "kind_text VK_Document = ''document''"

fun action_text :: "view_action \<Rightarrow> string" where
  "action_text VA_Read = ''read''"
| "action_text VA_Write = ''write''"
| "action_text VA_Execute = ''execute''"
| "action_text VA_Invoke = ''invoke''"
| "action_text VA_Send = ''send''"
| "action_text VA_Receive = ''receive''"
| "action_text VA_Generate = ''generate''"

fun speaker_text :: "role \<Rightarrow> string" where
  "speaker_text RL_System = ''system''"
| "speaker_text RL_Developer = ''developer''"
| "speaker_text RL_User = ''user''"
| "speaker_text RL_Assistant = ''assistant''"
| "speaker_text RL_Tool = ''tool''"

definition SENSITIVE_HEADERS :: "string list" where
  "SENSITIVE_HEADERS = [''authorization'', ''cookie'', ''x-api-key'']"

text \<open>\<open>field\<close> inserts a key if there is a value; \<open>object\<close> inserts an object unless it is empty.\<close>

definition field :: "string \<Rightarrow> json option \<Rightarrow> (string \<times> json) list \<Rightarrow> (string \<times> json) list" where
  "field key v m = (case v of Some x \<Rightarrow> btree_insert key x m | None \<Rightarrow> m)"

definition object :: "string \<Rightarrow> (string \<times> json) list \<Rightarrow> (string \<times> json) list \<Rightarrow> (string \<times> json) list" where
  "object key sub m = (if sub = [] then m else btree_insert key (JObj sub) m)"

definition string_set :: "string fset \<Rightarrow> json option" where
  "string_set s = (if s = {||} then None else Some (JArr (map JStr (sorted_list_of_fset s))))"

definition subject_map :: "subject_extension \<Rightarrow> (string \<times> json) list" where
  "subject_map s =
     field ''teams'' (string_set (sj_teams s))
       (field ''permissions'' (string_set (sj_permissions s))
         (field ''roles'' (string_set (sj_roles s))
           (field ''type'' (map_option (\<lambda>t. JStr (subject_type_str t)) (sj_subject_type s))
             (field ''id'' (map_option JStr (sj_id s)) []))))"

definition security_fields :: "security_extension \<Rightarrow> (string \<times> json) list \<Rightarrow> (string \<times> json) list" where
  "security_fields sec m =
     field ''labels'' (string_set (sc_labels sec))
       (case sc_subject sec of Some s \<Rightarrow> object ''subject'' (subject_map s) m | None \<Rightarrow> m)"

definition safe_headers :: "(string \<Rightarrow> string) \<Rightarrow> http_extension \<Rightarrow> string hash_map" where
  "safe_headers uni http = filter (\<lambda>(k, _). to_lowercase uni k \<notin> set SENSITIVE_HEADERS) (ht_request_headers http)"

definition agent_map :: "agent_extension \<Rightarrow> (string \<times> json) list" where
  "agent_map a =
     field ''parent_agent_id'' (map_option JStr (ag_parent_agent_id a))
       (field ''agent_id'' (map_option JStr (ag_agent_id a))
         (field ''turn'' (map_option (\<lambda>t. JInt (uint t)) (ag_turn a))
           (field ''conversation_id'' (map_option JStr (ag_conversation_id a))
             (field ''session_id'' (map_option JStr (ag_session_id a))
               (field ''input'' (map_option JStr (ag_input a)) [])))))"

definition meta_map :: "meta_extension \<Rightarrow> (string \<times> json) list" where
  "meta_map meta =
     field ''tags'' (string_set (me_tags meta))
       (field ''entity_name'' (map_option JStr (me_entity_name meta))
         (field ''entity_type'' (map_option JStr (me_entity_type meta)) []))"

definition extensions_map :: "(string \<Rightarrow> string) \<Rightarrow> extensions \<Rightarrow> (string \<times> json) list" where
  "extensions_map uni ext =
     (let m1 = (case ex_security ext of Some sec \<Rightarrow> security_fields sec [] | None \<Rightarrow> []);
          m2 = field ''environment'' (map_option JStr (Option.bind (ex_request ext) (rq_environment \<circ> snd))) m1;
          m3 = (case ex_http ext of
                  Some http \<Rightarrow> object ''headers'' (collect_map (map (\<lambda>(k, v). (k, JStr v)) (safe_headers uni http))) m2
                | None \<Rightarrow> m2);
          m4 = (case ex_agent ext of Some a \<Rightarrow> object ''agent'' (agent_map (snd a)) m3 | None \<Rightarrow> m3)
      in (case ex_meta ext of Some meta \<Rightarrow> object ''meta'' (meta_map (snd meta)) m4 | None \<Rightarrow> m4))"

definition view_fields :: "message_view \<Rightarrow> bool \<Rightarrow> (string \<times> json) list" where
  "view_fields v include_content =
     (let core = btree_insert ''action'' (JStr (action_text (view_action_of v)))
            (btree_insert ''is_post'' (JBool (view_is_post v))
              (btree_insert ''is_pre'' (JBool (view_is_pre v))
                (btree_insert ''role'' (JStr (speaker_text (vw_role v)))
                  (btree_insert ''kind'' (JStr (kind_text (vw_kind v))) []))));
          named = field ''name'' (map_option JStr (view_name v))
            (field ''uri'' (map_option JStr (view_uri v)) (field ''hook'' (map_option JStr (vw_hook v)) core));
          content = (if include_content then view_content v else None);
          body = field ''content'' (map_option JStr content) (field ''size_bytes'' (map_option (\<lambda>t. JInt (int (length t))) content) named);
          typed = field ''mime_type'' (map_option JStr (view_mime_type v)) body
      in field ''arguments'' (map_option (\<lambda>a. JObj (collect_map a)) (view_args v)) typed)"

definition to_dict :: "(string \<Rightarrow> string) \<Rightarrow> message_view \<Rightarrow> bool \<Rightarrow> bool \<Rightarrow> json" where
  "to_dict uni v include_content include_context =
     JObj (case vw_extensions v of
             Some ext \<Rightarrow> if include_context then object ''extensions'' (extensions_map uni ext) (view_fields v include_content)
                         else view_fields v include_content
           | None \<Rightarrow> view_fields v include_content)"

definition to_opa_input :: "(string \<Rightarrow> string) \<Rightarrow> message_view \<Rightarrow> bool \<Rightarrow> json" where
  "to_opa_input uni v include_content = JObj [(''input'', to_dict uni v include_content True)]"

definition iter_views :: "message \<Rightarrow> string option \<Rightarrow> extensions option \<Rightarrow> message_view list" where
  "iter_views msg hook ext = map (\<lambda>part. view_new part (ms_role msg) hook ext) (ms_content msg)"

subsection \<open>What a document shows\<close>

text \<open>Two requests that differ only in sensitive headers, in response headers and in slots a view does not read.\<close>

definition view_equal :: "(string \<Rightarrow> string) \<Rightarrow> extensions \<Rightarrow> extensions \<Rightarrow> bool" where
  "view_equal uni e e' \<longleftrightarrow>
     map_option (\<lambda>s. (sc_labels s, map_option (\<lambda>u. (sj_id u, sj_subject_type u, sj_roles u, sj_permissions u, sj_teams u)) (sc_subject s))) (ex_security e)
     = map_option (\<lambda>s. (sc_labels s, map_option (\<lambda>u. (sj_id u, sj_subject_type u, sj_roles u, sj_permissions u, sj_teams u)) (sc_subject s))) (ex_security e')
   \<and> Option.bind (ex_request e) (rq_environment \<circ> snd) = Option.bind (ex_request e') (rq_environment \<circ> snd)
   \<and> map_option (safe_headers uni) (ex_http e) = map_option (safe_headers uni) (ex_http e')
   \<and> map_option (agent_map \<circ> snd) (ex_agent e) = map_option (agent_map \<circ> snd) (ex_agent e')
   \<and> map_option (meta_map \<circ> snd) (ex_meta e) = map_option (meta_map \<circ> snd) (ex_meta e')"

lemma case_option_cong_map:
  assumes g: "map_option g x = map_option g y" and f: "\<And>a b. g a = g b \<Longrightarrow> f a = f b"
  shows "case_option n f x = case_option n f y"
proof (cases x)
  case None
  with g show ?thesis by simp
next
  case (Some a)
  with g obtain b where "y = Some b" "g a = g b" by (cases y) simp_all
  with Some f [of a b] show ?thesis by simp
qed

lemma subject_map_cong:
  assumes "(sj_id u, sj_subject_type u, sj_roles u, sj_permissions u, sj_teams u) = (sj_id u', sj_subject_type u', sj_roles u', sj_permissions u', sj_teams u')"
  shows "subject_map u = subject_map u'"
  using assms by (simp only: subject_map_def prod.inject)

lemma security_fields_cong:
  assumes "(sc_labels s, map_option (\<lambda>u. (sj_id u, sj_subject_type u, sj_roles u, sj_permissions u, sj_teams u)) (sc_subject s))
     = (sc_labels s', map_option (\<lambda>u. (sj_id u, sj_subject_type u, sj_roles u, sj_permissions u, sj_teams u)) (sc_subject s'))"
  shows "security_fields s m = security_fields s' m"
proof -
  have "(case sc_subject s of Some u \<Rightarrow> object ''subject'' (subject_map u) m | None \<Rightarrow> m)
      = (case sc_subject s' of Some u \<Rightarrow> object ''subject'' (subject_map u) m | None \<Rightarrow> m)"
    by (rule case_option_cong_map [OF assms [unfolded prod.inject, THEN conjunct2]]) (rule arg_cong [OF subject_map_cong])
  then show ?thesis using assms unfolding security_fields_def by (simp only: prod.inject)
qed

lemma extensions_map_cong:
  assumes "view_equal uni e e'"
  shows "extensions_map uni e = extensions_map uni e'"
proof -
  note parts = assms [unfolded view_equal_def]
  have "(case ex_security e of Some sec \<Rightarrow> security_fields sec [] | None \<Rightarrow> []) = (case ex_security e' of Some sec \<Rightarrow> security_fields sec [] | None \<Rightarrow> [])"
    by (rule case_option_cong_map [OF parts [THEN conjunct1]]) (rule security_fields_cong)
  moreover have "(case ex_http e of Some http \<Rightarrow> object ''headers'' (collect_map (map (\<lambda>(k, v). (k, JStr v)) (safe_headers uni http))) m | None \<Rightarrow> m)
      = (case ex_http e' of Some http \<Rightarrow> object ''headers'' (collect_map (map (\<lambda>(k, v). (k, JStr v)) (safe_headers uni http))) m | None \<Rightarrow> m)" for m
    by (rule case_option_cong_map [OF parts [THEN conjunct2, THEN conjunct2, THEN conjunct1]]) (simp only:)
  moreover have "(case ex_agent e of Some a \<Rightarrow> object ''agent'' (agent_map (snd a)) m | None \<Rightarrow> m)
      = (case ex_agent e' of Some a \<Rightarrow> object ''agent'' (agent_map (snd a)) m | None \<Rightarrow> m)" for m
    by (rule case_option_cong_map [OF parts [THEN conjunct2, THEN conjunct2, THEN conjunct2, THEN conjunct1]]) (simp only: o_apply)
  moreover have "(case ex_meta e of Some a \<Rightarrow> object ''meta'' (meta_map (snd a)) m | None \<Rightarrow> m)
      = (case ex_meta e' of Some a \<Rightarrow> object ''meta'' (meta_map (snd a)) m | None \<Rightarrow> m)" for m
    by (rule case_option_cong_map [OF parts [THEN conjunct2, THEN conjunct2, THEN conjunct2, THEN conjunct2]]) (simp only: o_apply)
  ultimately show ?thesis using parts unfolding extensions_map_def by (simp only: Let_def)
qed

lemma view_accessors_extensions:
  "vw_part (v\<lparr>vw_extensions := e\<rparr>) = vw_part v" "vw_kind (v\<lparr>vw_extensions := e\<rparr>) = vw_kind v"
  "vw_role (v\<lparr>vw_extensions := e\<rparr>) = vw_role v" "vw_hook (v\<lparr>vw_extensions := e\<rparr>) = vw_hook v"
  "vw_extensions (v\<lparr>vw_extensions := e\<rparr>) = e"
  by simp_all

lemma view_fields_extensions: "view_fields (v\<lparr>vw_extensions := e\<rparr>) c = view_fields v c"
  unfolding view_fields_def view_action_of_def view_is_pre_def view_is_post_def view_name_def view_uri_def view_content_def
    view_mime_type_def view_args_def view_accessors_extensions by (rule refl)

lemma to_dict_cong:
  assumes "view_equal uni e e'"
  shows "to_dict uni (v\<lparr>vw_extensions := Some e\<rparr>) c x = to_dict uni (v\<lparr>vw_extensions := Some e'\<rparr>) c x"
  unfolding to_dict_def view_fields_extensions view_accessors_extensions option.case extensions_map_cong [OF assms] by (rule refl)

text \<open>The headers a document shows are those of the request, and none of the sensitive ones.\<close>

lemma safe_headers_safe: "(k, x) \<in> set (safe_headers uni http) \<longleftrightarrow> (k, x) \<in> set (ht_request_headers http) \<and> to_lowercase uni k \<notin> set SENSITIVE_HEADERS"
  by (simp add: safe_headers_def)

text \<open>The hook names decide the phase by their spelling, so the model hooks are in neither.\<close>

lemma llm_hooks_have_no_phase:
  "\<not> view_is_pre (view_new part r (Some ''cmf.llm_input'') ext)" "\<not> view_is_post (view_new part r (Some ''cmf.llm_output'') ext)"
  "hm_phase (lookup_hook_metadata metadata_registry ''cmf.llm_input'') = HP_Pre"
  "hm_phase (lookup_hook_metadata metadata_registry ''cmf.llm_output'') = HP_Post"
proof -
  have "\<not> contains_str ''cmf.llm_input'' ''pre''" "\<not> contains_str ''cmf.llm_output'' ''post''" by code_simp+
  then show "\<not> view_is_pre (view_new part r (Some ''cmf.llm_input'') ext)" "\<not> view_is_post (view_new part r (Some ''cmf.llm_output'') ext)"
    by (simp_all add: view_is_pre_def view_is_post_def view_new_def)
  show "hm_phase (lookup_hook_metadata metadata_registry ''cmf.llm_input'') = HP_Pre"
    "hm_phase (lookup_hook_metadata metadata_registry ''cmf.llm_output'') = HP_Post" by code_simp+
qed

end
