(* ===== verification/Spec2Isabelle.thy ===== *)
theory Spec2Isabelle
  imports Routes Routing_Props Bag_Props Executor_Props Engine_Props Fold_Props Policy_Props Visitor_Props Attribute_Props Jwt_Props
    Ciba_Props Oauth_Props Pdp_Props Message_View
begin

text \<open>
  Praxis policy engine: the decision core.

  The engine decides what happens to a tool call, a resource read or a model request.  A host hands
  it a message; plugins and a compiled policy route look at it, may rewrite its arguments and its
  result, may ask external parties (a policy decision point, a token service, a human approver), and
  in the end allow, deny or suspend.  The development models that core from the Rust sources and
  proves what a policy author relies on: nothing is allowed by accident, nothing is changed without
  being reported, and concurrency does not change an answer.

  \<^bold>\<open>Parts and theories.\<close>

    \<^item> \<open>Prelude\<close>, \<open>Float64\<close>, \<open>Json_Values\<close>: the vocabulary.  Strings are UTF-8 bytes; \<^verbatim>\<open>f64\<close> is a datatype of
      finite dyadic numbers, infinities and NaN with IEEE comparison and conversion from integers;
      JSON and YAML values are trees, an object an association list in key order.
    \<^item> \<open>Attributes\<close> (\<^verbatim>\<open>ppe-apl-core/src/attributes.rs\<close>): the attribute bag, a map from keys to typed values,
      with its typed getters and the \<^verbatim>\<open>[..]\<close> interpolation of keys.
    \<^item> \<open>Apl_IR\<close> (\<^verbatim>\<open>rules.rs\<close>, \<^verbatim>\<open>pipeline.rs\<close>, \<^verbatim>\<open>plugin_decl.rs\<close>): the compiled policy, that is expressions,
      effects, rules, stages, routes, the layering of routes and the purity check of parallel blocks.
    \<^item> \<open>Expressions\<close> (\<^verbatim>\<open>evaluator.rs\<close>, first part): predicates and the synchronous rule evaluator.
    \<^item> \<open>Predicate_Lexer\<close>, \<open>Predicate_Parser\<close> (\<^verbatim>\<open>parser.rs\<close>, \<^verbatim>\<open>Lexer\<close> and \<^verbatim>\<open>PredParser\<close>): text to expression.
    \<^item> \<open>Policy_Text\<close>, \<open>Policy_Steps\<close>, \<open>Policy_Effects\<close>, \<open>Policy_Compile\<close> (\<^verbatim>\<open>parser.rs\<close>, the rest): call arguments and
      field pipelines, rules and one-line steps, YAML steps and effects, documents to compiled routes.  Steps
      and effects nest in each other: the functions between \<^verbatim>\<open>parse_step\<close> and \<^verbatim>\<open>parse_effect_value\<close> take the two as
      arguments, and the recursion is closed over the size of the YAML value.  \<open>Policy_Props\<close> carries a
      property of effects through the parser in the locale \<open>parsed_effects\<close>, interpreted for
      well-formedness and for purity.
    \<^item> \<open>Invokers\<close> (\<^verbatim>\<open>step.rs\<close>): the steps that ask someone else, their outcomes, errors and bag keys.
      The host is the record \<open>env\<close>: one field per invoker, each a function of an abstract world it may
      update, so that every theorem holds for every host.
    \<^item> \<open>Pipelines\<close> (\<^verbatim>\<open>evaluator.rs\<close>, \<^verbatim>\<open>evaluate_pipeline\<close>): the stages a field goes through.
    \<^item> \<open>Orchestration\<close> (\<^verbatim>\<open>ppe-orchestration/src/lib.rs\<close>): \<^verbatim>\<open>run_branches\<close> over an explicit schedule of task
      completions.  The locale \<open>branch_runner\<close> is its contract; \<open>rb\<close> interprets it on the code.
    \<^item> \<open>Effects\<close> (\<^verbatim>\<open>evaluator.rs\<close>, \<^verbatim>\<open>evaluate_effects\<close>, \<^verbatim>\<open>dispatch_effect\<close> and the functions below them): every
      effect as a function on the state record \<open>eval_state\<close> (bag, payload, taints, constraints, flags,
      world).  \<open>Effects_Props\<close> proves what every effect preserves, once, in the locale \<open>effect_frame\<close>,
      and interprets it for the growth of the accumulators and for the link between flags and payload;
      \<open>Effects_Laws\<close> has the laws of sequencing and of the single effects.
    \<^item> \<open>Routes\<close> (\<^verbatim>\<open>route.rs\<close>): the four phases of a route and the dotted-path operations.
    \<^item> \<open>Constraints\<close> (\<^verbatim>\<open>constraint.rs\<close>), \<open>Candidate_Routing\<close> (\<^verbatim>\<open>candidate_constraint.rs\<close> of the runtime and
      \<^verbatim>\<open>extensions/routing.rs\<close> of the core), \<open>Routing_Props\<close>: backend constraints, their fold, acceptance.

    \<^item> \<open>Ext_Types\<close>, \<open>Ext_Filter\<close>, \<open>Ext_Container\<close> (\<^verbatim>\<open>ppe-core/src/extensions/\<close>): the typed extensions a request
      carries, the capability-gated view a plugin gets of them, and the merge of what it returns.
      \<open>Ext_Props\<close> gives the reference definition \<open>extensions_view\<close> of a view and the relation \<open>safe_change\<close>
      that bounds a merge.
    \<^item> \<open>Bag_Builder\<close>, \<open>Bag_Props\<close> (\<^verbatim>\<open>ppe-apl-cmf/src/\<close>): how the attribute bag is filled from the extensions, the
      arguments, the result and the external data.  The locale \<open>bag_writer\<close> is the contract of an extractor,
      interpreted for each of them.
    \<^item> \<open>Plugin_Core\<close> (\<^verbatim>\<open>plugin.rs\<close>, \<^verbatim>\<open>error.rs\<close>, \<^verbatim>\<open>context.rs\<close>), \<open>Plugin_Registry\<close> (\<^verbatim>\<open>registry.rs\<close>): the configuration of a
      plugin, its failures and contexts; which handlers a hook runs.  The registries a host can build are
      the inductive predicate \<open>registry_reachable\<close>.
    \<^item> \<open>Executor\<close> (\<^verbatim>\<open>executor.rs\<close>): one hook call through its five phases over the state record \<open>exec_state\<close>.
      \<open>Executor_Props\<close> carries a relation between extensions from one plugin to the whole call in the locale
      \<open>plugin_frame\<close>, interpreted for the tier rules and for each write capability.

    \<^item> \<open>Config\<close>, \<open>Config_Props\<close> (\<^verbatim>\<open>config.rs\<close>, \<^verbatim>\<open>identity/route_config.rs\<close>): the policy document, its checks, the choice of a
      route by specificity, and the plugins and authentication steps an entity resolves to.
    \<^item> \<open>Engine\<close>, \<open>Engine_Props\<close> (\<^verbatim>\<open>engine.rs\<close>, \<^verbatim>\<open>factory.rs\<close>): the host's handle, that is the runtime snapshot, factories,
      route annotations, override instances, the routing cache and the lifecycle.  The inductive predicate
      \<open>engine_reachable\<close> describes the engines its operations lead to; \<open>cache_ok\<close> is their invariant.

    \<^item> \<open>Messages\<close> (\<^verbatim>\<open>ppe-core/src/cmf/\<close>), \<open>Message_Projection\<close> (\<^verbatim>\<open>ppe-apl-runtime/src/message_projection.rs\<close>): the message a
      request carries, the arguments and the result a policy sees of it, and the three-way merge that
      folds what the policy changed back into it.
    \<^item> \<open>Sessions\<close> (\<^verbatim>\<open>session_store.rs\<close>, \<^verbatim>\<open>session_resolver.rs\<close>): where the labels of a session are kept and how a
      request finds its session.  The locale \<open>session_store\<close> is the contract of a store, interpreted for
      the store in memory.
    \<^item> \<open>Hook_Payloads\<close> (\<^verbatim>\<open>delegation/payload.rs\<close>, \<^verbatim>\<open>elicitation/payload.rs\<close>, \<^verbatim>\<open>hooks/metadata.rs\<close>), \<open>Dispatch_Plan\<close>
      (\<^verbatim>\<open>dispatch_plan.rs\<close>): what is handed to delegation and elicitation plugins, and which handler a step of
      a route reaches.
    \<^item> \<open>Runtime_Invokers\<close> (\<^verbatim>\<open>cmf_invoker.rs\<close>, \<^verbatim>\<open>delegation_invoker.rs\<close>, \<^verbatim>\<open>elicitation_invoker.rs\<close>, \<^verbatim>\<open>pdp_router.rs\<close>): the invokers a
      route evaluation gets from the engine, over the record \<open>request\<close> of what they share.
    \<^item> \<open>Route_Handler\<close>, \<open>Handler_Props\<close> (\<^verbatim>\<open>route_handler.rs\<close>): one phase of a route as a plugin of the executor, from
      the labels of the session to the verdict.  \<open>Session_Props\<close> follows labels from one request to the next,
      \<open>Plan_Props\<close> what a step can reach through the dispatch plan, \<open>Fold_Props\<close> the merge of edits.

    \<^item> \<open>Attribute_Files\<close>, \<open>Attribute_Props\<close> (\<^verbatim>\<open>attribute_source.rs\<close> of \<^verbatim>\<open>ppe-apl-core\<close> and of the runtime): the static attributes
      and the merge of the files they come from; the merges that succeed are the relation \<open>merges\<close>.
    \<^item> \<open>Parallel_Safety\<close> (\<^verbatim>\<open>parallel_safety.rs\<close>): the load-time check of the plugins in parallel blocks.
    \<^item> \<open>Visitor\<close>, \<open>Visitor_Props\<close> (\<^verbatim>\<open>visitor.rs\<close> and \<^verbatim>\<open>register.rs\<close> of the runtime, \<^verbatim>\<open>visitor.rs\<close> of the core, \<^verbatim>\<open>load_config_yaml\<close> of
      \<^verbatim>\<open>engine.rs\<close>): from a document to the handlers that enforce it.  A load is a walk of visitors over the pair
      of a visitor's state and the engine; \<open>sourced\<close> says where every installed handler comes from and \<open>guarded\<close>
      that every name of a route has its handlers.

    \<^item> \<open>Hook_Results\<close> (\<^verbatim>\<open>hooks/trait_def.rs\<close>, \<^verbatim>\<open>hooks/adapter.rs\<close>), \<open>Jwt_Config\<close>, \<open>Jwt_Identity\<close>, \<open>Jwt_Props\<close>
      (\<^verbatim>\<open>builtins/plugins/identity-jwt/src/\<close>): typed handlers, and the plugin that resolves the identity of a request from
      a token.  The locale \<open>payload_frame\<close> carries a relation between payloads from one plugin to a whole call; the
      inductive predicate \<open>jwt_reachable\<close> describes a resolver under refreshes of its keys.

    \<^item> \<open>Message_View\<close> (\<^verbatim>\<open>ppe-core/src/cmf/view.rs\<close>): views of the parts of a message and the document made of one; what
      such a document can depend on.
    \<^item> \<open>Http_Client\<close>, \<open>Ciba\<close>, \<open>Ciba_Props\<close> (\<^verbatim>\<open>builtins/plugins/elicitation-ciba/src/\<close>), \<open>Oauth_Delegator\<close>, \<open>Oauth_Props\<close>
      (\<^verbatim>\<open>builtins/plugins/delegator-oauth/src/\<close>): the plugin that asks a human and the plugin that mints downstream tokens, over a
      network that is a function from requests to answers.  The locale \<open>correlation_contract\<close> is the contract of the store of
      elicitations in flight, interpreted for the store in memory; an approval is traced back to the calls it rests on.
    \<^item> \<open>Pdp_Input\<close>, \<open>Pdp_Input_Props\<close>, \<open>Opa_Pdp\<close>, \<open>Cel_Pdp\<close>, \<open>Pdp_Props\<close> (\<^verbatim>\<open>builtins/pdps/opa/src/\<close>, \<^verbatim>\<open>builtins/pdps/cel/src/\<close>): the
      document and the activation made of the attribute bag, and the two decision points.  The locale \<open>compile_cache\<close> is what both
      promise of their cache of compiled policies, interpreted for both.

  \<^bold>\<open>What is shown.\<close>  The sections below hold one theorem per property, each with a witness at a concrete
  input where it has hypotheses.  Documents: exactly the documents without an error compile, nothing of
  them is lost, what is compiled is well-formed, and what a requirement means.  Loading: a loaded policy is
  enforced for every name a route lists, which routes are bypassed, and attribute files merge without loss.
  Identity: the token resolver fails closed, identities come from validated tokens, and keys from their source.
  Built-in plugins: what an approval and a delegated token rest on, that an approval can be used again for another step, when the
  OPA decision point allows and that its input is the bag.  The route handler: it
  fails closed, labels of a session persist and sessions are apart, edits merge.  Routes and effects: an allow went through every phase, flags are
  sound, accumulators grow, a halt is a denial, the fail-closed laws of PDP calls, delegations and
  elicitations, and the laws of parallel blocks under every schedule.  Pipelines: validators, masks,
  redaction and field writes.  Constraints: the fold never widens and does not depend on order, and
  the glob matcher decides the glob relation.  Predicates: the parser is total and comparison is exact
  on integers.  Layers: stacking is associative.  Hook calls: when they are denied, that they return,
  what they can change and under which capability, that views hide what they should, that untouched
  views merge back to nothing, and whose roles and permissions end up in the bag.  Engine: which documents
  pass the check, which route is chosen, that the plugins prescribed for an entity always run, and
  that the tags of a request do not reach the cache key.

  \<^bold>\<open>Fuel and termination.\<close>  Effects recurse structurally over nested lists.  The predicate parser is
  recursive descent; its definitions carry fuel, and every consumer is proved to shrink the token list,
  so that the fuel \<open>parse_predicate\<close> starts with always suffices.  The lexer, the glob matcher and the
  YAML parser end by measures.

  \<^bold>\<open>Parameters.\<close>  The regular expression engine, the hash, the clock and every plugin are fields of \<open>env\<close>.
  The scheduler is a list of task completions; the only thing assumed of it is that every task appears
  once (\<open>valid_schedule\<close>).  A plugin handler is an arbitrary function of the world, the payload, its view
  and its context, with a running time and an end (a value, an error, a panic).  The formatting of
  numbers (\<open>fmt\<close>), Unicode lowercasing (\<open>uni\<close>) and the wildcard crate (\<open>wild\<close>) are functions passed in.

  \<^bold>\<open>Not modelled.\<close>  The adapters to the Cedar engine and to a Valkey server: what they compute is computed by the library
  they call, and the model sees them through their interfaces, a decision point and a session store.  Logging, locks (each operation
  under a lock is one step) and what serde derives.\<close>

section \<open>Routes\<close>

text \<open>
  C1: a route that allows and does not suspend has gone through all of its phases: no \<^verbatim>\<open>args\<close> rule
  denied, every policy effect went through, no \<^verbatim>\<open>result\<close> rule denied, and every post-policy effect
  went through, each on the state the one before left; the payload returned is the one the last
  phase left.
\<close>

theorem route_allow_all_phases:
  assumes "evaluate_route env route bag payload w = (rd, st)"
    and "rd_decision rd = Dec_Allow" "rd_pending rd = None"
  shows "\<exists>fs st1 payload2 m ts w2 st2.
      field_rules_loop env Pre bag (cr_args route)
        \<lparr>fl_root = rp_args payload, fl_modified = False, fl_taints = [], fl_world = w\<rparr> = (None, fs)
    \<and> dispatch_list env Pre [] (cr_policy route)
        (eval_init bag (payload\<lparr>rp_args := fl_root fs\<rparr>) (fl_world fs)) = (Continue, st1)
    \<and> result_loop env route (es_bag st1) (es_payload st1) (es_world st1) = (None, payload2, m, ts, w2)
    \<and> dispatch_list env Post [] (cr_post_policy route) (eval_init (es_bag st1) payload2 w2) = (Continue, st2)
    \<and> rs_payload st = es_payload st2"
proof -
  obtain pre st0 post where pre: "evaluate_pre env route bag payload w = (pre, st0)"
    "rd_decision pre = Dec_Allow" "rd_pending pre = None"
    and post: "evaluate_post env route (rs_bag st0) (rs_payload st0) (rs_world st0) = (post, st)"
    "rd_decision post = Dec_Allow" "rd_pending post = None"
    using evaluate_route_allow [OF assms] by metis
  obtain fs st1 where 1: "field_rules_loop env Pre bag (cr_args route) (args_init payload w) = (None, fs)"
    "dispatch_list env Pre [] (cr_policy route)
       (eval_init bag (payload\<lparr>rp_args := fl_root fs\<rparr>) (fl_world fs)) = (Continue, st1)"
    "st0 = \<lparr>rs_bag = es_bag st1, rs_payload = es_payload st1, rs_world = es_world st1\<rparr>"
    by (rule evaluate_pre_allow [OF pre])
  obtain payload2 m ts w2 st2 where 2:
    "result_loop env route (rs_bag st0) (rs_payload st0) (rs_world st0) = (None, payload2, m, ts, w2)"
    "dispatch_list env Post [] (cr_post_policy route) (eval_init (rs_bag st0) payload2 w2) = (Continue, st2)"
    "st = \<lparr>rs_bag = es_bag st2, rs_payload = es_payload st2, rs_world = es_world st2\<rparr>"
    by (rule evaluate_post_allow [OF post])
  from 1 2 show ?thesis by auto
qed

definition demo_route :: compiled_route where
  "demo_route = (compiled_route_new ''tool.read'')\<lparr>
     cr_args := [\<lparr>fr_field = ''id'', fr_pipeline = \<lparr>pl_stages = [Stage_Type TC_Str]\<rparr>, fr_source = ''args.id''\<rparr>],
     cr_policy := [Eff_When (Cond (IsFalse ''authenticated'')) [Eff_Deny None None] ''policy[0]'',
                   Eff_Taint ''seen'' [Scope_Session]]\<rparr>"

lemmas demo_simps = demo_route_def compiled_route_new_def payload_new_def evaluate_route_def evaluate_pre_def
  evaluate_post_def result_loop_def evaluate_effects_def eval_init_def steps_of_def fallback_source_def
  apply_outcome_def get_dotted_def set_dotted_def remove_dotted_def evaluate_pipeline_def stage_type_def
  type_check_def keep_value_def push_taint_def bag_defs

theorem route_allow_all_phases_witness:
  "\<exists>rd st. evaluate_route quiet_env demo_route [''authenticated'' \<mapsto> ABool True]
      (payload_new (JObj [(''id'', JStr ''x'')])) () = (rd, st)
    \<and> rd_decision rd = Dec_Allow
    \<and> (\<exists>fs st1 payload2 m ts w2 st2.
         field_rules_loop quiet_env Pre [''authenticated'' \<mapsto> ABool True] (cr_args demo_route)
           \<lparr>fl_root = JObj [(''id'', JStr ''x'')], fl_modified = False, fl_taints = [], fl_world = ()\<rparr> = (None, fs)
       \<and> dispatch_list quiet_env Pre [] (cr_policy demo_route)
           (eval_init [''authenticated'' \<mapsto> ABool True]
             ((payload_new (JObj [(''id'', JStr ''x'')]))\<lparr>rp_args := fl_root fs\<rparr>) (fl_world fs)) = (Continue, st1)
       \<and> result_loop quiet_env demo_route (es_bag st1) (es_payload st1) (es_world st1) = (None, payload2, m, ts, w2)
       \<and> dispatch_list quiet_env Post [] (cr_post_policy demo_route) (eval_init (es_bag st1) payload2 w2)
           = (Continue, st2)
       \<and> rs_payload st = es_payload st2)"
proof -
  let ?bag = "[''authenticated'' \<mapsto> ABool True]" and ?pl = "payload_new (JObj [(''id'', JStr ''x'')])"
  obtain rd st where run: "evaluate_route quiet_env demo_route ?bag ?pl () = (rd, st)" by force
  then have "rd_decision rd = Dec_Allow" "rd_pending rd = None"
    by (auto simp: demo_simps)
  with run route_allow_all_phases [OF run] show ?thesis by (auto simp: payload_new_def)
qed


text \<open>
  C2: the modification flags of a route are sound: if \<^verbatim>\<open>args_modified\<close> (\<^verbatim>\<open>result_modified\<close>) is false, the
  arguments (the result) are what they were, so the host may forward the original bytes.
\<close>

theorem route_flags_sound:
  assumes "evaluate_route env route bag payload w = (rd, st)"
  shows "(\<not> rd_args_modified rd \<longrightarrow> rp_args (rs_payload st) = rp_args payload)
    \<and> (\<not> rd_result_modified rd \<longrightarrow> rp_result (rs_payload st) = rp_result payload)"
  using evaluate_route_unmodified [OF assms] by blast

theorem route_flags_sound_witness:
  "\<exists>rd st. evaluate_route quiet_env demo_route Map.empty (payload_new (JObj [(''id'', JStr ''x'')])) () = (rd, st)
    \<and> rd_decision rd = Dec_Deny None ''policy[0]''
    \<and> rp_args (rs_payload st) = JObj [(''id'', JStr ''x'')]"
proof -
  let ?pl = "payload_new (JObj [(''id'', JStr ''x'')])"
  obtain rd st where run: "evaluate_route quiet_env demo_route Map.empty ?pl () = (rd, st)" by force
  then have "rd_decision rd = Dec_Deny None ''policy[0]''" "\<not> rd_args_modified rd"
    by (auto simp: demo_simps)
  with run route_flags_sound [OF run] show ?thesis by (auto simp: payload_new_def)
qed

section \<open>Effects\<close>

text \<open>
  C3: whatever an effect does and however it ends, the taints and the constraints emitted so far are
  kept, new ones are added behind them, and a modification flag once set stays set.
\<close>

theorem effects_accumulate:
  assumes "dispatch_effect env ph src e st = (oc, st')"
  shows "(\<exists>ts. es_taints st' = es_taints st @ ts) \<and> (\<exists>cs. es_constraints st' = es_constraints st @ cs)
    \<and> (es_args_modified st \<longrightarrow> es_args_modified st') \<and> (es_result_modified st \<longrightarrow> es_result_modified st')"
  using gr.R_dispatch [OF assms] by (simp add: grows_def)

theorem effects_accumulate_witness:
  "\<exists>oc st'. dispatch_effect quiet_env Pre [] (Eff_Sequential [Eff_Taint ''a'' [], Eff_Deny None None])
        (eval_init Map.empty (payload_new JNull) ()) = (oc, st')
    \<and> (\<exists>ts. es_taints st' = [] @ ts)"
proof -
  let ?e = "Eff_Sequential [Eff_Taint ''a'' [], Eff_Deny None None]"
  obtain oc st' where run: "dispatch_effect quiet_env Pre [] ?e (eval_init Map.empty (payload_new JNull) ()) = (oc, st')"
    by force
  from effects_accumulate [OF run] run show ?thesis by (auto simp: eval_init_def)
qed

text \<open>The decision an effect halts with is always a denial, never an allow.\<close>

theorem halt_is_denial:
  assumes "dispatch_effect env ph src e st = (Halt d, st')"
  shows "\<exists>reason source. d = Dec_Deny reason source"
  using halt_deny [OF assms] by (cases d) auto

theorem halt_is_denial_witness:
  "\<exists>d st' reason source. dispatch_effect quiet_env Pre ''s'' (Eff_Plugin ''p'') (eval_init Map.empty (payload_new JNull) ())
      = (Halt d, st') \<and> d = Dec_Deny reason source"
proof -
  obtain d st' where run: "dispatch_effect quiet_env Pre ''s'' (Eff_Plugin ''p'') (eval_init Map.empty (payload_new JNull) ())
      = (Halt d, st')"
    by (simp add: dispatch_plugin_def quiet_env_def eval_init_def)
  from halt_is_denial [OF run] run show ?thesis by blast
qed

text \<open>
  C4: under every schedule the runtime can choose, a \<^verbatim>\<open>parallel:\<close> block halts exactly if one of its
  branches halts and does not panic: aborting the rest on the first denial never loses a denial.
\<close>

theorem parallel_halts_any_schedule:
  assumes "valid_schedule (length es) (en_sched env (es_world st) (length es))"
  shows "is_halt (fst (dispatch_effect env ph src (Eff_Parallel es) st)) \<longleftrightarrow>
     (\<exists>i < length es. en_panic env (es_world st) i = None
        \<and> is_halt (fst (dispatch_effect env ph src (es ! i) (branch_state env st i))))"
  using parallel_halts_iff [of "dispatch_branches env ph src 0 es st" env st] assms
  by (auto simp: nth_dispatch_branches)

theorem parallel_halts_any_schedule_witness:
  "valid_schedule 2 (en_sched quiet_env () 2)
   \<and> is_halt (fst (dispatch_effect quiet_env Pre ''s'' (Eff_Parallel [Eff_Allow, Eff_Deny None None])
        (eval_init Map.empty (payload_new JNull) ())))"
proof -
  let ?es = "[Eff_Allow, Eff_Deny None None]" and ?st = "eval_init Map.empty (payload_new JNull) ()"
  have sched: "valid_schedule (length ?es) (en_sched quiet_env (es_world ?st) (length ?es))"
    by (auto simp: valid_schedule_def quiet_env_def upt_rec)
  have "\<exists>i < length ?es. en_panic quiet_env (es_world ?st) i = None
      \<and> is_halt (fst (dispatch_effect quiet_env Pre ''s'' (?es ! i) (branch_state quiet_env ?st i)))"
    by (rule exI [of _ 1]) (simp add: quiet_env_def is_halt_def)
  with parallel_halts_any_schedule [OF sched, of Pre "''s''"]
  have "is_halt (fst (dispatch_effect quiet_env Pre ''s'' (Eff_Parallel ?es) ?st))" by (simp only:)
  with sched show ?thesis by (simp add: numeral_2_eq_2 eval_init_def)
qed

text \<open>
  A \<^verbatim>\<open>parallel:\<close> block leaves the attribute bag, the payload and the modification flags as they
  were, whatever its branches do, and it never suspends.
\<close>

theorem parallel_isolated:
  assumes "dispatch_effect env ph src (Eff_Parallel es) st = (oc, st')"
  shows "es_bag st' = es_bag st \<and> es_payload st' = es_payload st
    \<and> es_args_modified st' = es_args_modified st \<and> es_result_modified st' = es_result_modified st
    \<and> (\<forall>b. oc \<noteq> Pending b)"
  using parallel_frame [of env "dispatch_branches env ph src 0 es st" st oc st'] assms by auto

theorem parallel_isolated_witness:
  "\<exists>oc st'. dispatch_effect quiet_env Pre ''s'' (Eff_Parallel [Eff_FieldOp ''args.id'' [Stage_Redact None]])
        (eval_init Map.empty (payload_new (JObj [(''id'', JStr ''x'')])) ()) = (oc, st')
      \<and> es_payload st' = payload_new (JObj [(''id'', JStr ''x'')])"
proof -
  let ?st = "eval_init Map.empty (payload_new (JObj [(''id'', JStr ''x'')])) ()"
  obtain oc st' where run:
    "dispatch_effect quiet_env Pre ''s'' (Eff_Parallel [Eff_FieldOp ''args.id'' [Stage_Redact None]]) ?st = (oc, st')"
    by force
  from parallel_isolated [OF run] run show ?thesis by (auto simp: eval_init_def)
qed

text \<open>
  C5: the load-time purity check is sound.  Under a policy effect that passes it, no branch of a
  \<^verbatim>\<open>parallel:\<close> block at any depth can change the bag, the payload or a flag of the state it runs on,
  or suspend; so running the branches on clones loses nothing.
\<close>

theorem purity_check_sound:
  assumes "validate_parallel_purity e = Inr ()" "under (Eff_Parallel es) e" "b \<in> set es"
    and "dispatch_effect env ph src b st = (oc, st')"
  shows "es_bag st' = es_bag st \<and> es_payload st' = es_payload st
    \<and> es_args_modified st' = es_args_modified st \<and> es_result_modified st' = es_result_modified st
    \<and> (\<forall>p. oc \<noteq> Pending p)"
proof -
  have "\<not> contains_mutation b" using assms(1-3) pure_iff_no_mutation_under_parallel by blast
  from pure_quiet [OF this, of st env ph src] assms(4) show ?thesis by (simp add: quiet_def)
qed

theorem purity_check_sound_witness:
  "\<exists>oc st'. validate_parallel_purity (Eff_Sequential [Eff_Parallel [Eff_Taint ''t'' []]]) = Inr ()
    \<and> dispatch_effect quiet_env Pre ''s'' (Eff_Taint ''t'' []) (eval_init Map.empty (payload_new JNull) ()) = (oc, st')
    \<and> es_bag st' = Map.empty"
proof -
  let ?e = "Eff_Sequential [Eff_Parallel [Eff_Taint ''t'' []]]"
  have pure: "validate_parallel_purity ?e = Inr ()" by simp
  have un: "under (Eff_Parallel [Eff_Taint ''t'' []]) ?e" by (rule under_seq [OF under_self]) simp
  obtain oc st' where run: "dispatch_effect quiet_env Pre ''s'' (Eff_Taint ''t'' []) (eval_init Map.empty (payload_new JNull) ())
      = (oc, st')" by force
  from purity_check_sound [OF pure un _ run] pure run show ?thesis by (auto simp: eval_init_def)
qed

text \<open>
  Without that check the guarantee fails.  A \<^verbatim>\<open>parallel:\<close> block around an elicitation that is still
  pending goes on as if it had been approved.
\<close>

definition pending_env :: "unit env" where
  "pending_env = quiet_env\<lparr>en_dispatch := auto_dispatch, en_check := (\<lambda>w _ _. (Inr St_Pending, w))\<rparr>"

definition demo_elicit :: elicit_step where
  "demo_elicit = \<lparr>el_kind = Approval, el_plugin_name = ''ciba'', el_channel = None, el_from = ''alice'',
     el_purpose = None, el_scope = None, el_timeout = None, el_config_override = None,
     el_on_error = None, el_source = ''policy[1]''\<rparr>"

theorem parallel_swallows_pending:
  "(\<exists>b. fst (dispatch_effect pending_env Pre ''s'' (Eff_Elicit demo_elicit)
       (eval_init Map.empty (payload_new JNull) ())) = Pending b)
   \<and> fst (dispatch_effect pending_env Pre ''s'' (Eff_Parallel [Eff_Elicit demo_elicit])
       (eval_init Map.empty (payload_new JNull) ())) = Continue
   \<and> validate_parallel_purity (Eff_Parallel [Eff_Elicit demo_elicit]) = Inl (Eff_Elicit demo_elicit)"
  by (simp add: dispatch_elicitation_def resolve_from_def looks_like_attribute_ref_def elicit_id_def
      elicit_pending_def pending_env_def quiet_env_def auto_dispatch_def demo_elicit_def eval_init_def
      payload_new_def record_dispatch_def set_key_def set_opt_key_def bag_defs dispatch_parallel_def
      branch_state_def parallel_fates_def branch_fate_of_def run_branches_def spawn_outcome_def
      parallel_config_def outcome_halts_def is_halt_def Let_def)

text \<open>
  C6: a PDP call lets the request go on only if the resolver answered, answered \<^verbatim>\<open>Allow\<close>, and every
  \<^verbatim>\<open>on_allow\<close> reaction went through: an error or a denial is never turned into an allow.
\<close>

theorem pdp_fail_closed:
  assumes "dispatch_effect env ph src (Eff_Pdp call on_allow on_deny) st = (Continue, st')"
  shows "\<exists>res w. en_pdp env (es_world st) call (es_bag st) = (Inr res, w) \<and> pdd_decision res = Dec_Allow
     \<and> dispatch_list env ph src on_allow (st\<lparr>es_world := w\<rparr>) = (Continue, st')"
  by (rule pdp_continue [OF assms])

theorem pdp_fail_closed_witness:
  "\<exists>res w. en_pdp (quiet_env\<lparr>en_pdp := (\<lambda>w _ _. (Inr \<lparr>pdd_decision = Dec_Allow, pdd_diagnostics = []\<rparr>, w))\<rparr>) ()
      \<lparr>pc_dialect = Cel, pc_args = YNull\<rparr> Map.empty = (Inr res, w) \<and> pdd_decision res = Dec_Allow"
proof -
  let ?env = "quiet_env\<lparr>en_pdp := (\<lambda>w _ _. (Inr \<lparr>pdd_decision = Dec_Allow, pdd_diagnostics = []\<rparr>, w))\<rparr>"
  let ?call = "\<lparr>pc_dialect = Cel, pc_args = YNull\<rparr>" and ?st = "eval_init Map.empty (payload_new JNull) ()"
  have "dispatch_effect ?env Pre ''s'' (Eff_Pdp ?call [] [Eff_Allow]) ?st = (Continue, ?st)"
    by (simp add: eval_init_def)
  from pdp_fail_closed [OF this] show ?thesis by (auto simp: eval_init_def)
qed

text \<open>
  C7: with the default error policy an elicitation lets the request go on only if the approver's
  identity resolved, the channel reports an approval, the plugin validated the response, and the
  scope predicate (if there is one) parses and holds of the request; the bag then records the approval.
\<close>

theorem elicitation_fail_closed:
  assumes "dispatch_effect env ph src (Eff_Elicit step) st = (Continue, st')"
    and "\<not> eq_ignore_ascii_case (unwrap_or (el_on_error step) ''deny'') ''continue''"
  shows "\<exists>resolved eid st1 w1 v w2.
     resolve_from step (es_bag st) = Some resolved
     \<and> elicit_id env step resolved st = (Inr eid, st1)
     \<and> en_check env (es_world st1) step eid = (Inr (St_Resolved Out_Approved), w1)
     \<and> en_validate env w1 step eid = (Inr v, w2) \<and> ev_valid v
     \<and> (\<forall>scope. el_scope step = Some scope \<longrightarrow>
          (\<exists>e. parse_predicate scope = Some (Inr e) \<and> eval_expression e (es_bag st1)))
     \<and> es_bag st' EL_OUTCOME = Some (AString ''approved'')"
  using elicitation_continue [of env step st st'] assms by (simp add: fail_closed_def scope_holds_def)

definition approving_env :: "unit env" where
  "approving_env = quiet_env\<lparr>en_dispatch := auto_dispatch, en_check := auto_check, en_validate := auto_validate\<rparr>"

theorem elicitation_fail_closed_witness:
  "\<exists>st' resolved. dispatch_effect approving_env Pre ''s'' (Eff_Elicit demo_elicit)
        (eval_init Map.empty (payload_new JNull) ()) = (Continue, st')
    \<and> resolve_from demo_elicit Map.empty = Some resolved
    \<and> es_bag st' EL_OUTCOME = Some (AString ''approved'')"
proof -
  let ?st = "eval_init Map.empty (payload_new JNull) ()"
  obtain st' where run: "dispatch_effect approving_env Pre ''s'' (Eff_Elicit demo_elicit) ?st = (Continue, st')"
    by (simp add: dispatch_elicitation_def resolve_from_def looks_like_attribute_ref_def elicit_id_def
        elicit_approved_def approving_env_def quiet_env_def auto_dispatch_def auto_check_def auto_validate_def
        demo_elicit_def eval_init_def record_dispatch_def scope_check_def bag_defs Let_def)
  have "\<not> eq_ignore_ascii_case (unwrap_or (el_on_error demo_elicit) ''deny'') ''continue''"
    by (simp add: demo_elicit_def eq_ignore_ascii_case_def to_ascii_lowercase_def)
  from elicitation_fail_closed [OF run this] run show ?thesis by (auto simp: eval_init_def)
qed

text \<open>
  An approver's "no" halts the request whatever the step's \<^verbatim>\<open>on_error\<close> says.
\<close>

theorem elicitation_denial_final:
  assumes "resolve_from step (es_bag st) = Some resolved" "elicit_id env step resolved st = (Inr eid, st1)"
    and "en_check env (es_world st1) step eid = (Inr (St_Resolved Out_Denied), w1)"
  shows "fst (dispatch_effect env ph src (Eff_Elicit step) st) =
     Halt (Dec_Deny (Some ''elicitation denied by approver'') (el_source step))"
  using elicitation_denied [OF assms] by auto

theorem elicitation_denial_final_witness:
  "fst (dispatch_effect (quiet_env\<lparr>en_check := (\<lambda>w _ _. (Inr (St_Resolved Out_Denied), w))\<rparr>) Pre ''s''
      (Eff_Elicit (demo_elicit\<lparr>el_on_error := Some ''continue''\<rparr>))
      (eval_init [EL_ID \<mapsto> AString ''e1''] (payload_new JNull) ())) =
    Halt (Dec_Deny (Some ''elicitation denied by approver'') ''policy[1]'')"
proof -
  let ?env = "quiet_env\<lparr>en_check := (\<lambda>w _ _. (Inr (St_Resolved Out_Denied), w))\<rparr>"
  let ?step = "demo_elicit\<lparr>el_on_error := Some ''continue''\<rparr>"
  let ?st = "eval_init [EL_ID \<mapsto> AString ''e1''] (payload_new JNull) ()"
  have res: "resolve_from ?step (es_bag ?st) = Some ''alice''"
    by (simp add: resolve_from_def demo_elicit_def looks_like_attribute_ref_def eval_init_def bag_defs EL_ID_def)
  have id: "elicit_id ?env ?step ''alice'' ?st = (Inr ''e1'', ?st)"
    by (simp add: elicit_id_def eval_init_def bag_defs)
  have chk: "en_check ?env (es_world ?st) ?step ''e1'' = (Inr (St_Resolved Out_Denied), ())" by simp
  from elicitation_denial_final [OF res id chk, of Pre "''s''"] show ?thesis by (simp add: demo_elicit_def)
qed

text \<open>
  C8: with the default error policy a delegation lets the request go on only if the invoker minted
  a credential; the bag then says so, and outside the reserved keys it is unchanged.
\<close>

theorem delegation_fail_closed:
  assumes "dispatch_effect env ph src (Eff_Delegate step) st = (Continue, st')"
    and "to_ascii_lowercase (unwrap_or (ds_on_error step) ''deny'') \<noteq> ''continue''"
  shows "\<exists>oc w. en_delegate env (es_world st) step = (Inr oc, w) \<and> do_decision oc = Dec_Allow
     \<and> es_bag st' GRANTED = Some (ABool True)
     \<and> (\<forall>k. k \<notin> {GRANTED, GRANTED_PERMISSIONS, GRANTED_AUDIENCE, GRANTED_EXPIRES_AT} \<longrightarrow> es_bag st' k = es_bag st k)"
proof -
  from assms have "dispatch_delegate env step st = (Continue, st')" "\<not> on_error_continue (ds_on_error step)"
    by (simp_all add: on_error_continue_def)
  from delegate_continue [OF this] obtain oc w where "en_delegate env (es_world st) step = (Inr oc, w)"
    "do_decision oc = Dec_Allow" "st' = record_grant oc (st\<lparr>es_world := w\<rparr>)" by blast
  moreover from this(3) have "es_bag st' GRANTED = Some (ABool True)"
    "\<And>k. k \<notin> {GRANTED, GRANTED_PERMISSIONS, GRANTED_AUDIENCE, GRANTED_EXPIRES_AT} \<Longrightarrow> es_bag st' k = es_bag st k"
    by (simp_all add: record_grant_bag)
  ultimately show ?thesis by blast
qed

theorem delegation_fail_closed_witness:
  "\<exists>st'. dispatch_effect (quiet_env\<lparr>en_delegate := (\<lambda>w _. (Inr (delegation_outcome_deny Dec_Allow), w))\<rparr>) Pre ''s''
      (Eff_Delegate \<lparr>ds_plugin_name = ''oauth'', ds_config_override = None, ds_on_error = None, ds_source = ''s''\<rparr>)
      (eval_init Map.empty (payload_new JNull) ()) = (Continue, st')
    \<and> es_bag st' GRANTED = Some (ABool True)"
proof -
  let ?env = "quiet_env\<lparr>en_delegate := (\<lambda>w _. (Inr (delegation_outcome_deny Dec_Allow), w))\<rparr>"
  let ?step = "\<lparr>ds_plugin_name = ''oauth'', ds_config_override = None, ds_on_error = None, ds_source = ''s''\<rparr>"
  obtain st' where run: "dispatch_effect ?env Pre ''s'' (Eff_Delegate ?step) (eval_init Map.empty (payload_new JNull) ())
      = (Continue, st')"
    by (simp add: dispatch_delegate_def delegation_outcome_deny_def Let_def)
  have "to_ascii_lowercase (unwrap_or (ds_on_error ?step) ''deny'') \<noteq> ''continue''"
    by (simp add: to_ascii_lowercase_def)
  from delegation_fail_closed [OF run this] run show ?thesis by auto
qed


text \<open>
  On rules whose effects only allow or deny, the synchronous fast path and the full evaluator
  agree: same decision, nothing emitted, nothing changed, nothing asked of the host.
\<close>

theorem fast_path_agrees:
  assumes "\<forall>r \<in> set rules. \<forall>e \<in> set (ru_effects r). e = Eff_Allow \<or> (\<exists>reason code. e = Eff_Deny reason code)"
  shows "evaluate_effects env ph (map effect_of_rule rules) bag payload w =
     (\<lparr>sv_decision = evaluate_rules rules bag, sv_taints = [], sv_constraints = [], sv_args_modified = False,
       sv_result_modified = False, sv_pending = None\<rparr>, eval_init bag payload w)"
proof -
  have "list_all control_rule rules"
    using assms by (simp add: list_all_iff control_rule_def control_effect_iff)
  from effects_loop_rules [OF this, of env ph "eval_init bag payload w"] show ?thesis
    by (simp add: evaluate_effects_def steps_of_def eval_init_def)
qed

theorem fast_path_agrees_witness:
  "fst (evaluate_effects quiet_env Pre (map effect_of_rule [rule_single (Cond (IsTrue ''a'')) (Eff_Deny None None) ''r''])
      [''a'' \<mapsto> ABool True] (payload_new JNull) ()) =
    \<lparr>sv_decision = Dec_Deny None ''r'', sv_taints = [], sv_constraints = [], sv_args_modified = False,
      sv_result_modified = False, sv_pending = None\<rparr>"
proof -
  let ?r = "rule_single (Cond (IsTrue ''a'')) (Eff_Deny None None) ''r''"
  have "\<forall>r \<in> set [?r]. \<forall>e \<in> set (ru_effects r). e = Eff_Allow \<or> (\<exists>reason code. e = Eff_Deny reason code)"
    by (simp add: rule_single_def)
  moreover have "evaluate_rules [?r] [''a'' \<mapsto> ABool True] = Dec_Deny None ''r''"
    by (simp add: rule_single_def bag_defs)
  ultimately show ?thesis
    using fast_path_agrees [of "[?r]" quiet_env Pre "[''a'' \<mapsto> ABool True]" "payload_new JNull" "()"]
    by (simp only: fst_conv)
qed

text \<open>A \<^verbatim>\<open>sequential:\<close> block means the same as its effects written in its place.\<close>

theorem sequential_is_inlining:
  "evaluate_effects env ph (xs @ Eff_Sequential es # ys) bag payload w =
   evaluate_effects env ph (xs @ es @ ys) bag payload w"
  by (rule evaluate_effects_sequential)

text \<open>
  A denial or a suspension ends the phase: the effects behind it change neither the decision nor
  what was emitted nor the state.
\<close>

theorem denial_is_final:
  assumes "evaluate_effects env ph xs bag payload w = (ev, st)"
    and "is_deny (sv_decision ev) \<or> sv_pending ev \<noteq> None"
  shows "evaluate_effects env ph (xs @ ys) bag payload w = (ev, st)"
  by (rule evaluate_effects_stops [OF assms])

theorem denial_is_final_witness:
  "\<exists>ev st. evaluate_effects quiet_env Pre [Eff_Deny (Some ''no'') None] Map.empty (payload_new JNull) () = (ev, st)
    \<and> evaluate_effects quiet_env Pre ([Eff_Deny (Some ''no'') None] @ [Eff_Taint ''t'' []]) Map.empty
        (payload_new JNull) () = (ev, st)"
proof -
  obtain ev st where run:
    "evaluate_effects quiet_env Pre [Eff_Deny (Some ''no'') None] Map.empty (payload_new JNull) () = (ev, st)"
    by force
  then have "is_deny (sv_decision ev) \<or> sv_pending ev \<noteq> None"
    by (auto simp: evaluate_effects_def steps_of_def)
  from denial_is_final [OF run this] run show ?thesis by blast
qed

text \<open>
  A field operation on a field that is present does what its pipeline says: a replacement is what
  the field reads afterwards, an omission makes it absent, each with the flag of its side set; a pass
  leaves the payload alone, and a denial halts with the payload as it was.
\<close>

theorem field_op_written:
  assumes "field_target path ph (es_payload st) = Inr (Some (root, sub, side))"
    and "get_dotted root sub = Some cur"
    and "evaluate_pipeline env \<lparr>pl_stages = stages\<rparr> cur (es_bag st) sub ph (es_world st) = (ev, w')"
    and "dispatch_effect env ph src (Eff_FieldOp path stages) st = (oc, st')"
  shows "case pv_outcome ev of
       FO_Replace v \<Rightarrow> oc = Continue \<and> side_flag side st'
         \<and> (\<exists>root'. side_root side (es_payload st') = Some root' \<and> get_dotted root' sub = Some v)
     | FO_Omit \<Rightarrow> oc = Continue \<and> side_flag side st'
         \<and> (\<exists>root'. side_root side (es_payload st') = Some root' \<and> get_dotted root' sub = None)
     | FO_Pass \<Rightarrow> oc = Continue \<and> es_payload st' = es_payload st
     | FO_Deny reason _ \<Rightarrow> oc = Halt (Dec_Deny (Some reason) src) \<and> es_payload st' = es_payload st"
  using field_op_effect [OF assms(1-3)] assms(4) by (auto split: field_outcome.split)

theorem field_op_written_witness:
  "\<exists>oc st'. dispatch_effect quiet_env Pre ''s'' (Eff_FieldOp ''args.id'' [Stage_Redact None])
        (eval_init Map.empty (payload_new (JObj [(''id'', JStr ''x'')])) ()) = (oc, st')
     \<and> (\<exists>root'. side_root Side_Args (es_payload st') = Some root' \<and> get_dotted root' ''id'' = Some redacted)"
proof -
  let ?st = "eval_init Map.empty (payload_new (JObj [(''id'', JStr ''x'')])) ()"
  let ?ev = "\<lparr>pv_outcome = FO_Replace redacted, pv_taints = []\<rparr>"
  have t: "field_target ''args.id'' Pre (es_payload ?st) = Inr (Some (JObj [(''id'', JStr ''x'')], ''id'', Side_Args))"
    by (simp add: field_target_def strip_prefix_def eval_init_def payload_new_def)
  have g: "get_dotted (JObj [(''id'', JStr ''x'')]) ''id'' = Some (JStr ''x'')" by (simp add: get_dotted_def)
  have e: "evaluate_pipeline quiet_env \<lparr>pl_stages = [Stage_Redact None]\<rparr> (JStr ''x'') (es_bag ?st) ''id'' Pre
      (es_world ?st) = (?ev, ())"
    by (simp add: evaluate_pipeline_def stage_redact_def rewrite_value_def)
  obtain oc st' where run: "dispatch_effect quiet_env Pre ''s'' (Eff_FieldOp ''args.id'' [Stage_Redact None]) ?st = (oc, st')"
    by force
  from field_op_written [OF t g e run] run show ?thesis by auto
qed

section \<open>The route handler\<close>

text \<open>
  C9: the route handler fails closed.  It lets a request through exactly if the payload is a message, the engine is
  alive, the labels of the session could be loaded, no plugin panicked, the route allowed without suspending, the
  caller does not merely peek at an approval, the labels could be stored and the backend constraints do not conflict.
\<close>

theorem handler_fail_closed:
  "handler_continues (hd_result (route_handler_invoke h base fresh rh payload ext cache engine host store)) \<longleftrightarrow>
     (\<exists>msg eng plan cache' eng' host' sid initial w0.
        as_message payload = Some msg \<and> engine = Some eng
        \<and> get_or_build h (rh_route rh) (rh_registry rh) cache eng host = ((plan, cache'), eng', host')
        \<and> for_request h (rh_session rh) store eng' (clone_extensions ext) msg host' = Inr (sid, initial, w0)
        \<and> (case phase_outcome h base rh plan msg w0 of
             (d, st) \<Rightarrow>
               rq_unwound (rs_world st) = None \<and> rd_decision d = Dec_Allow \<and> rd_pending d = None
               \<and> \<not> (elicitation_peek_from_headers (ah_uni h) (rq_extensions w0)
                      \<and> get_string (rs_bag st) EL_OUTCOME = Some ''approved'')
               \<and> fst (persist_session h (rh_session rh) sid initial
                       (rq_extensions (apply_session_taints (rd_taints d) (rs_world st))) store) = Inr ()
               \<and> (\<exists>c. fold_candidate_constraints (rd_constraints d) = Inr c)))"
  unfolding handler_passes phase_passes_def by (rule refl)

text \<open>
  C10: what a request adds to the labels of its session decides about the next one.  A request that continues leaves
  every session taint of its policy in its labels; and each label it ends with and did not come with, whether from
  the policy or from a plugin, is in the store when the next request of the session is set up, and in the set
  \<^verbatim>\<open>security.labels\<close> of the bag its policy is evaluated on.
\<close>

theorem session_labels_persist:
  assumes "session_store (so_load (rh_session rh)) (so_append (rh_session rh))"
    and "\<And>s. set (ah_order h s) = fset s"
    and "for_request h (rh_session rh) store eng ext msg host = Inr (Some sid, initial, w0)"
    and run: "run_phase h base fresh rh plan ext0 msg (Some sid) initial w0 store = (H_Ok (Some r), w, store')"
      "rf_continue_processing r"
    and "resolve_session (ah_fmt h) (ah_sha h) ext' = Some (sid, src)"
  shows "set (session_labels (rd_taints (fst (phase_outcome h base rh plan msg w0)))) \<subseteq> fset (snapshot_labels (rq_extensions w))
    \<and> (\<forall>l \<in> fset (snapshot_labels (rq_extensions w)) - fset (snapshot_labels ext).
         \<exists>initial' w' labels.
           for_request h (rh_session rh) store' eng' ext' msg' host' = Inr (Some sid, initial', w')
           \<and> request_bag h ph route tree (rq_extensions w') payload ''security.labels'' = Some (AStringSet labels)
           \<and> l |\<in>| labels)"
proof (intro conjI ballI)
  obtain d st where "phase_outcome h base rh plan msg w0 = (d, st)" "w = apply_session_taints (rd_taints d) (rs_world st)"
    using run_phase_persisted [OF run] by metis
  then show "set (session_labels (rd_taints (fst (phase_outcome h base rh plan msg w0)))) \<subseteq> fset (snapshot_labels (rq_extensions w))"
    by (auto simp: snapshot_session_taints fset_of_list.rep_eq)
next
  fix l
  assume "l \<in> fset (snapshot_labels (rq_extensions w)) - fset (snapshot_labels ext)"
  then have l: "l |\<in>| snapshot_labels (rq_extensions w)" "l |\<notin>| snapshot_labels ext" by simp_all
  obtain initial' w' s where
    "for_request h (rh_session rh) store' eng' ext' msg' host' = Inr (Some sid, initial', w')"
    "ex_security (rq_extensions w') = Some s" "l |\<in>| sc_labels s"
    using label_reaches_next_request [OF assms(1-3) run l assms(6)] by metis
  then show "\<exists>initial' w' labels.
      for_request h (rh_session rh) store' eng' ext' msg' host' = Inr (Some sid, initial', w')
      \<and> request_bag h ph route tree (rq_extensions w') payload ''security.labels'' = Some (AStringSet labels) \<and> l |\<in>| labels"
    by (auto simp: request_bag_labels)
qed

definition demo_subject :: "string \<Rightarrow> string fset \<Rightarrow> extensions" where
  "demo_subject sub labels = extensions_default\<lparr>ex_security := Some (security_default\<lparr>sc_labels := labels, sc_subject := Some
     \<lparr>sj_id = Some sub, sj_subject_type = None, sj_roles = {||}, sj_permissions = {||}, sj_teams = {||}, sj_claims = []\<rparr>\<rparr>)\<rparr>"

definition demo_handler :: "(unit, memory_store) route_handler" where
  "demo_handler = route_handler_new
     \<lparr>cf_name = ''route'', cf_kind = ''apl'', cf_description = None, cf_author = None, cf_version = None, cf_hooks = [],
      cf_mode = M_Sequential, cf_priority = 100, cf_on_error = OE_Fail, cf_capabilities = {||}, cf_tags = [],
      cf_conditions = [], cf_config = None\<rparr>
     ((compiled_route_new ''tool.read'')\<lparr>cr_policy := [Eff_Taint ''PII'' [Scope_Session]]\<rparr>)
     Pre Map.empty (memory_ops (\<lambda>s. sorted_list_of_set (fset s)))"

definition demo_message :: message where
  "demo_message = with_content RL_User
     [CP_ToolCall \<lparr>tc_tool_call_id = ''1'', tc_name = ''read'', tc_arguments = [(''a'', JStr ''x''), (''b'', JStr ''y'')], tc_namespace = None\<rparr>,
      CP_ToolResult \<lparr>tr_tool_call_id = ''1'', tr_tool_name = ''read'', tr_content = JObj [(''n'', JStr ''x'')], tr_is_error = False\<rparr>]"

abbreviation demo_ordered :: "unit apl_host \<Rightarrow> unit apl_host" where
  "demo_ordered h \<equiv> h\<lparr>ah_order := \<lambda>s. sorted_list_of_set (fset s)\<rparr>"

lemma demo_handler_sel [simp]:
  "rh_phase demo_handler = Pre" "rh_session demo_handler = memory_ops (\<lambda>s. sorted_list_of_set (fset s))"
  by (simp_all add: demo_handler_def route_handler_new_def)

lemma demo_session:
  "\<exists>sid. resolve_session fmt sha (demo_subject sub labels) = Some (sid, Src_Identity)"
  by (simp add: resolve_session_def demo_subject_def session_subject_id_def agent_session_def claim_session_def claim_str_def
      non_empty_def extensions_default_def security_default_def workload_client_def)

lemma demo_labels: "''PII'' \<in> set (session_labels [\<lparr>te_label = ''PII'', te_scopes = [Scope_Session]\<rparr>])"
  by (simp add: session_labels_def)

lemma demo_phase:
  "\<exists>d st. phase_outcome h base demo_handler plan msg w0 = (d, st)
     \<and> rd_decision d = Dec_Allow \<and> rd_pending d = None \<and> rd_taints d = [\<lparr>te_label = ''PII'', te_scopes = [Scope_Session]\<rparr>]
     \<and> rd_constraints d = [] \<and> rs_world st = w0"
  by (simp add: phase_outcome_def evaluate_phase_def demo_handler_def route_handler_new_def compiled_route_new_def
      evaluate_pre_def evaluate_effects_def eval_init_def push_taint_def steps_of_def Let_def)

lemma demo_continues:
  assumes "ex_http (rq_extensions w0) = None" "rq_unwound w0 = None"
  obtains r w store' where
    "run_phase (demo_ordered h) base fresh demo_handler plan ext0 msg (Some sid) initial w0 store = (H_Ok (Some r), w, store')"
    "rf_continue_processing r" "''PII'' |\<in>| snapshot_labels (rq_extensions w)"
proof -
  let ?h = "demo_ordered h"
  obtain d st where d: "phase_outcome ?h base demo_handler plan msg w0 = (d, st)" "rd_decision d = Dec_Allow"
      "rd_pending d = None" "rd_taints d = [\<lparr>te_label = ''PII'', te_scopes = [Scope_Session]\<rparr>]" "rd_constraints d = []"
      "rs_world st = w0"
    using demo_phase [of ?h base plan msg w0] by blast
  have "fst (persist_session ?h (rh_session demo_handler) (Some sid) initial e store) = Inr ()" for e
    by (cases "ex_security e") (simp_all add: persist_session_def memory_ops_def memory_append_labels_def Let_def)
  moreover have "\<not> elicitation_peek_from_headers (ah_uni ?h) (rq_extensions w0)"
    by (simp add: elicitation_peek_from_headers_def assms(1))
  ultimately obtain r w store' where
    run: "run_phase ?h base fresh demo_handler plan ext0 msg (Some sid) initial w0 store = (H_Ok (Some r), w, store')"
      "rf_continue_processing r"
    using run_phase_continues [of ?h base fresh demo_handler plan ext0 msg "Some sid" initial w0 store] d assms(2)
    by (auto simp: fold_candidate_constraints_def)
  have "w = apply_session_taints (rd_taints d) w0"
    using run_phase_persisted [OF run] d(1,6) by (metis prod.inject)
  then have "''PII'' |\<in>| snapshot_labels (rq_extensions w)"
    by (simp add: snapshot_session_taints session_labels_def d(4) del: fset_of_list.rep_eq)
  with run show thesis by (rule that)
qed

lemma demo_store: "session_store (so_load (rh_session demo_handler)) (so_append (rh_session demo_handler))"
  using memory_session_store [of "\<lambda>s. sorted_list_of_set (fset s)"] by (simp add: memory_ops_def)

lemma demo_start:
  assumes "resolve_session (ah_fmt h) (ah_sha h) ext = Some (sid, src)"
  shows "for_request h (rh_session demo_handler) Map.empty eng ext msg () =
    Inr (Some sid, snapshot_labels ext, request_start eng () msg ext)"
  using for_request_loads [OF assms, of "rh_session demo_handler" Map.empty "[]"]
  by (simp add: memory_ops_def memory_load_labels_def loaded_def)

theorem session_labels_persist_witness:
  "\<forall>h base plan eng. \<exists>sid initial r w store' initial' w' labels.
     for_request (demo_ordered h) (rh_session demo_handler) Map.empty eng (demo_subject ''alice'' {||}) demo_message () = Inr (Some sid, initial, w)
     \<and> run_phase (demo_ordered h) base False demo_handler plan (demo_subject ''alice'' {||}) demo_message (Some sid) initial w Map.empty
         = (H_Ok (Some r), w', store')
     \<and> (\<exists>w''. for_request (demo_ordered h) (rh_session demo_handler) store' eng (demo_subject ''alice'' {||}) demo_message () = Inr (Some sid, initial', w'')
          \<and> request_bag (demo_ordered h) Pre (rh_route demo_handler) (JObj []) (rq_extensions w'')
               (payload_new (JObj [])) ''security.labels'' = Some (AStringSet labels))
     \<and> ''PII'' |\<in>| labels"
proof (intro allI)
  fix h :: "unit apl_host" and base :: "unit request env" and plan :: "unit dispatch_plan"
    and eng :: "(plugin_payload, unit) engine"
  let ?h = "demo_ordered h" and ?ext = "demo_subject ''alice'' {||}"
  obtain sid where sid: "resolve_session (ah_fmt ?h) (ah_sha ?h) ?ext = Some (sid, Src_Identity)" using demo_session by metis
  have labels: "snapshot_labels ?ext = {||}" and http: "ex_http ?ext = None"
    by (simp_all add: snapshot_labels_def demo_subject_def security_default_def extensions_default_def)
  let ?w = "request_start eng () demo_message ?ext"
  obtain r w' store' where run:
    "run_phase ?h base False demo_handler plan ?ext demo_message (Some sid) {||} ?w Map.empty = (H_Ok (Some r), w', store')"
    "rf_continue_processing r" "''PII'' |\<in>| snapshot_labels (rq_extensions w')"
    by (rule demo_continues [of ?w h base False plan ?ext demo_message sid "{||}" Map.empty])
      (simp_all add: request_start_def http)
  have start: "for_request ?h (rh_session demo_handler) Map.empty eng ?ext demo_message () = Inr (Some sid, {||}, ?w)"
    using demo_start [OF sid] labels by simp
  have order: "set (ah_order ?h s) = fset s" for s by simp
  from session_labels_persist [OF demo_store order start run(1,2) sid, of eng demo_message "()" Pre "rh_route demo_handler" "JObj []"
      "payload_new (JObj [])"] run(3) labels start run(1)
  show "\<exists>sid initial r w store' initial' w' labels.
     for_request ?h (rh_session demo_handler) Map.empty eng ?ext demo_message () = Inr (Some sid, initial, w)
     \<and> run_phase ?h base False demo_handler plan ?ext demo_message (Some sid) initial w Map.empty = (H_Ok (Some r), w', store')
     \<and> (\<exists>w''. for_request ?h (rh_session demo_handler) store' eng ?ext demo_message () = Inr (Some sid, initial', w'')
          \<and> request_bag ?h Pre (rh_route demo_handler) (JObj []) (rq_extensions w'')
               (payload_new (JObj [])) ''security.labels'' = Some (AStringSet labels))
     \<and> ''PII'' |\<in>| labels"
    by fastforce
qed

text \<open>
  A session taint on a label the request already carries is lost.  If the label is on the request when it comes
  in, put there by a plugin that ran before the handler, and not yet in the store, it is not in the store afterwards
  either, although the policy taints the session with it: only labels that are new against the start of the request
  are stored.
\<close>

theorem carried_taint_lost:
  assumes "session_store (so_load (rh_session rh)) (so_append (rh_session rh))"
    and "\<And>s. set (ah_order h s) = fset s"
    and "for_request h (rh_session rh) store eng ext msg host = Inr (Some sid, initial, w0)"
    and "run_phase h base fresh rh plan ext0 msg (Some sid) initial w0 store = (H_Ok (Some r), w, store')"
    and "rf_continue_processing r"
    and "l \<in> set (session_labels (rd_taints (fst (phase_outcome h base rh plan msg w0))))"
    and "l |\<in>| snapshot_labels ext" "so_load (rh_session rh) store sid = Inr xs" "l \<notin> set xs"
  shows "\<exists>ys. so_load (rh_session rh) store' sid = Inr ys \<and> l \<notin> set ys"
  using carried_label_not_stored [OF assms(1-5,7-9)] by metis

theorem carried_taint_lost_witness:
  "\<forall>h base plan eng. \<exists>sid r w store' ys.
     run_phase (demo_ordered h) base False demo_handler plan (demo_subject ''alice'' {|''PII''|}) demo_message (Some sid)
       {|''PII''|} (request_start eng () demo_message (demo_subject ''alice'' {|''PII''|})) Map.empty = (H_Ok (Some r), w, store')
     \<and> rf_continue_processing r
     \<and> so_load (rh_session demo_handler) store' sid = Inr ys \<and> ''PII'' \<notin> set ys"
proof (intro allI)
  fix h :: "unit apl_host" and base :: "unit request env" and plan :: "unit dispatch_plan"
    and eng :: "(plugin_payload, unit) engine"
  let ?h = "demo_ordered h" and ?ext = "demo_subject ''alice'' {|''PII''|}"
  obtain sid where sid: "resolve_session (ah_fmt ?h) (ah_sha ?h) ?ext = Some (sid, Src_Identity)" using demo_session by metis
  have labels: "snapshot_labels ?ext = {|''PII''|}" and http: "ex_http ?ext = None"
    by (simp_all add: snapshot_labels_def demo_subject_def security_default_def extensions_default_def)
  let ?w = "request_start eng () demo_message ?ext"
  obtain r w' store' where run:
    "run_phase ?h base False demo_handler plan ?ext demo_message (Some sid) {|''PII''|} ?w Map.empty = (H_Ok (Some r), w', store')"
    "rf_continue_processing r"
    by (rule demo_continues [of ?w h base False plan ?ext demo_message sid "{|''PII''|}" Map.empty])
      (simp_all add: request_start_def http)
  have start: "for_request ?h (rh_session demo_handler) Map.empty eng ?ext demo_message () = Inr (Some sid, {|''PII''|}, ?w)"
    using demo_start [OF sid] labels by simp
  have order: "set (ah_order ?h s) = fset s" for s by simp
  have taint: "''PII'' \<in> set (session_labels (rd_taints (fst (phase_outcome ?h base demo_handler plan demo_message ?w))))"
    using demo_phase [of ?h base plan demo_message ?w] by (metis demo_labels fst_conv)
  have empty: "so_load (rh_session demo_handler) Map.empty sid = Inr []" by (simp add: memory_ops_def memory_load_labels_def)
  from carried_taint_lost [OF demo_store order start run taint _ empty] labels run
  show "\<exists>sid r w store' ys.
     run_phase ?h base False demo_handler plan ?ext demo_message (Some sid) {|''PII''|} ?w Map.empty = (H_Ok (Some r), w, store')
     \<and> rf_continue_processing r \<and> so_load (rh_session demo_handler) store' sid = Inr ys \<and> ''PII'' \<notin> set ys"
    by fastforce
qed






text \<open>
  A redaction by a plugin can be undone by a redaction in the pipeline.  If a plugin replaced a whole object of
  the result by a redacted text and a pipeline edited a field inside that object, the object comes back as the
  pipeline has it, with every other field in it in the clear.
\<close>

theorem redaction_resurrected:
  assumes "extract_result_from_message original = JObj pre" "json_wf (JObj post)"
    and "extract_result_from_message final = JObj base" "extract_result_parts (ms_content final) \<noteq> None"
    and "map_of pre k = Some u" "map_of post k = Some v" "\<not> json_eq u v"
    and "map_of base k = Some redaction" "\<not> is_object redaction"
  shows "get_path (extract_result_from_message (fold_result original final (JObj post))) (k # p) = get_path v p"
  by (rule redaction_undone [OF assms])

definition demo_result :: "json \<Rightarrow> message" where
  "demo_result v = with_content RL_Tool
     [CP_ToolResult \<lparr>tr_tool_call_id = ''1'', tr_tool_name = ''read'', tr_content = JObj [(''k'', v)], tr_is_error = False\<rparr>]"

theorem redaction_resurrected_witness:
  "get_path (extract_result_from_message (fold_result
       (demo_result (JObj [(''card'', JStr ''4111''), (''ssn'', JStr ''078'')]))
       (demo_result (JStr ''[REDACTED]''))
       (JObj [(''k'', JObj [(''card'', JStr ''****''), (''ssn'', JStr ''078'')])]))) [''k'', ''ssn''] = Some (JStr ''078'')"
  using redaction_resurrected [where k = "''k''" and p = "[''ssn'']"
      and original = "demo_result (JObj [(''card'', JStr ''4111''), (''ssn'', JStr ''078'')])"
      and post = "[(''k'', JObj [(''card'', JStr ''****''), (''ssn'', JStr ''078'')])]"
      and final = "demo_result (JStr ''[REDACTED]'')"]
  by (simp add: demo_result_def with_content_def extract_result_from_message_def norm_btree_def)

text \<open>
  A plugin stage in a field operation of a policy never reaches its plugin.  The dispatch plan of a route is built
  from the plugin effects and the stages of field rules, not from the stages of field operations; so for every engine,
  registry and plugin the operation denies the request as soon as the field is there.
\<close>

theorem field_op_plugin_unreachable:
  assumes "route = (compiled_route_new key)\<lparr>cr_policy := [Eff_FieldOp (''args.'' @ path) (Stage_Plugin name # stages)]\<rparr>"
    and "build_plan h route registry eng host = (plan, eng', host')"
    and "get_dotted (rp_args payload) path \<noteq> None"
  shows "\<exists>reason src. rd_decision (fst (evaluate_pre (handler_env h base pdp plan) route bag payload w)) = Dec_Deny (Some reason) src"
  unfolding assms(1) by (rule field_op_plugin_denies [OF assms(2) [unfolded assms(1)] assms(3)])

theorem field_op_plugin_unreachable_witness:
  "\<forall>(h :: unit apl_host) registry eng base pdp bag w. \<exists>plan reason src.
     rd_decision (fst (evaluate_pre (handler_env h base pdp plan)
       ((compiled_route_new ''tool.pay'')\<lparr>cr_policy := [Eff_FieldOp ''args.card'' [Stage_Plugin ''luhn'']]\<rparr>) bag
       (payload_new (JObj [(''card'', JStr ''4111'')])) w)) = Dec_Deny (Some reason) src"
proof (intro allI)
  fix h :: "unit apl_host" and registry eng base pdp bag w
  let ?route = "(compiled_route_new ''tool.pay'')\<lparr>cr_policy := [Eff_FieldOp ''args.card'' [Stage_Plugin ''luhn'']]\<rparr>"
  obtain plan eng' host' where "build_plan h ?route registry eng () = (plan, eng', host')" by (metis prod_cases3)
  then have "\<exists>reason src. rd_decision (fst (evaluate_pre (handler_env h base pdp plan) ?route bag
       (payload_new (JObj [(''card'', JStr ''4111'')])) w)) = Dec_Deny (Some reason) src"
    by (intro field_op_plugin_unreachable [where path = "''card''" and key = "''tool.pay''"])
      (simp_all add: payload_new_def get_dotted_def)
  then show "\<exists>plan reason src. rd_decision (fst (evaluate_pre (handler_env h base pdp plan) ?route bag
       (payload_new (JObj [(''card'', JStr ''4111'')])) w)) = Dec_Deny (Some reason) src" by blast
qed

text \<open>
  Once the bag has an elicitation id, it no longer matters whom a step asks.  The id, whether from the header of a
  retry or from an earlier step, is checked and validated by calls that do not carry the approver, so two steps that
  differ only in their \<^verbatim>\<open>from\<close>, both resolvable, behave alike: the approval of one stands in for that of the other.
\<close>

theorem elicitation_ignores_approver:
  assumes "get_string (es_bag st) EL_ID = Some eid"
    and "resolve_from step (es_bag st) \<noteq> None" "resolve_from (step\<lparr>el_from := other\<rparr>) (es_bag st) \<noteq> None"
  shows "dispatch_elicitation (handler_env h base pdp plan) (step\<lparr>el_from := other\<rparr>) st =
         dispatch_elicitation (handler_env h base pdp plan) step st"
  by (rule elicitation_ignores_from [OF assms])

theorem elicitation_ignores_approver_witness:
  "\<forall>(h :: unit apl_host) base pdp plan w.
     dispatch_elicitation (handler_env h base pdp plan) (demo_elicit\<lparr>el_from := ''mallory''\<rparr>)
       (eval_init [EL_ID \<mapsto> AString ''e1''] (payload_new JNull) w)
     = dispatch_elicitation (handler_env h base pdp plan) demo_elicit (eval_init [EL_ID \<mapsto> AString ''e1''] (payload_new JNull) w)"
  by (intro allI elicitation_ignores_approver [where eid = "''e1''"])
     (simp_all add: eval_init_def get_string_def resolve_from_def demo_elicit_def looks_like_attribute_ref_def EL_ID_def
      bag_get_def)

section \<open>Field pipelines\<close>

text \<open>
  A pipeline of validators passes a value exactly if every stage accepts it, and then without any
  change; otherwise it denies at the first stage that does not.
\<close>

theorem pipeline_validators:
  assumes "\<forall>s \<in> set (pl_stages pl). is_validator s"
    and "evaluate_pipeline env pl v bag field_name ph w = (ev, w')"
  shows "w' = w \<and> pv_taints ev = [] \<and>
     (if \<forall>s \<in> set (pl_stages pl). accepts_value env s v then pv_outcome ev = FO_Pass
      else \<exists>reason i. pv_outcome ev = FO_Deny reason i \<and> i < length (pl_stages pl)
             \<and> \<not> accepts_value env (pl_stages pl ! i) v \<and> (\<forall>j < i. accepts_value env (pl_stages pl ! j) v))"
  using run_validators [OF assms(1), of env bag field_name ph 0 v False "[]" w ev w'] assms(2)
  by (auto simp: evaluate_pipeline_def split: if_splits)

theorem pipeline_validators_witness:
  "\<exists>ev w'. evaluate_pipeline quiet_env \<lparr>pl_stages = [Stage_Type TC_Str, Stage_Enum [''a'']]\<rparr> (JStr ''b'') Map.empty ''f'' Pre ()
      = (ev, w') \<and> w' = () \<and> (\<exists>reason. pv_outcome ev = FO_Deny reason 1)"
proof -
  let ?pl = "\<lparr>pl_stages = [Stage_Type TC_Str, Stage_Enum [''a'']]\<rparr>"
  obtain ev w' where run: "evaluate_pipeline quiet_env ?pl (JStr ''b'') Map.empty ''f'' Pre () = (ev, w')"
    using prod.exhaust by blast
  have val: "\<forall>s \<in> set (pl_stages ?pl). is_validator s" by simp
  have "\<exists>reason. pv_outcome ev = FO_Deny reason 1"
    using run by (auto simp: evaluate_pipeline_def stage_type_def type_check_def keep_value_def stage_enum_def)
  with pipeline_validators [OF val run] run show ?thesis by blast
qed

text \<open>
  Masking keeps the number of characters of a text, its last \<open>k\<close> characters, and nothing else: every
  other character is a star.
\<close>

theorem mask_keeps_last:
  assumes "utf8_start s"
  shows "stage_mask k (JStr s) = Go (JStr (mask_string k s)) True []
    \<and> length (utf8_chars (mask_string k s)) = length (utf8_chars s)
    \<and> (\<forall>i < length (utf8_chars s). utf8_chars (mask_string k s) ! i =
         (if i < length (utf8_chars s) - k then ''*'' else utf8_chars s ! i))"
  using utf8_chars_mask [OF assms, of k] by (auto simp: stage_mask_def rewrite_value_def nth_append)

theorem mask_keeps_last_witness:
  "length (utf8_chars (mask_string 2 ''4111'')) = 4 \<and> mask_string 2 ''4111'' = ''**11''"
proof -
  have "utf8_start ''4111''" by (simp add: utf8_start_def is_cont_byte_def byte_of_def)
  moreover have "utf8_chars ''4111'' = [''4'', ''1'', ''1'', ''1'']"
    by (simp add: is_cont_byte_def byte_of_def)
  ultimately show ?thesis using mask_keeps_last [of "''4111''" 2] by (simp add: mask_string_def Let_def numeral_2_eq_2)
qed

text \<open>
  An unconditional redaction hides the value.  Behind validators that accept both of two values,
  a pipeline that redacts gives the same outcome, the same taints and the same calls for both.
\<close>

theorem redaction_hides:
  assumes "\<forall>s \<in> set vals. is_validator s"
    and "\<forall>s \<in> set vals. accepts_value env s v" "\<forall>s \<in> set vals. accepts_value env s v'"
  shows "evaluate_pipeline env \<lparr>pl_stages = vals @ Stage_Redact None # rest\<rparr> v bag field_name ph w =
     evaluate_pipeline env \<lparr>pl_stages = vals @ Stage_Redact None # rest\<rparr> v' bag field_name ph w"
proof -
  have skip: "run_stages env bag field_name ph n (vals @ ss) u r ts w =
      run_stages env bag field_name ph (n + length vals) ss u r ts w"
    if "\<forall>s \<in> set vals. accepts_value env s u" for ss u r ts n
    using assms(1) that by (induction vals arbitrary: n) (simp_all add: validator_step)
  show ?thesis
    using skip [OF assms(2), of 0] skip [OF assms(3), of 0] redact_hides
    by (simp add: evaluate_pipeline_def stage_redact_def rewrite_value_def)
qed

theorem redaction_hides_witness:
  "evaluate_pipeline quiet_env \<lparr>pl_stages = [Stage_Type TC_Str] @ Stage_Redact None # []\<rparr> (JStr ''a'') Map.empty ''f'' Pre () =
   evaluate_pipeline quiet_env \<lparr>pl_stages = [Stage_Type TC_Str] @ Stage_Redact None # []\<rparr> (JStr ''b'') Map.empty ''f'' Pre ()"
  by (rule redaction_hides) (simp_all add: accepts_value_def type_check_def)

text \<open>
  C13: the dotted-path operations are a lookup and an update: what was set is read back, what was removed
  is absent, a write or removal that reports failure changed nothing, a removal succeeds exactly on a
  field that is present, and a path that parts from the written one reads as before.
\<close>

theorem dotted_path_laws:
  assumes "set_dotted root path v = (root1, ok1)" "remove_dotted root path = (root2, ok2)"
  shows "(ok1 \<longrightarrow> get_dotted root1 path = Some v) \<and> (\<not> ok1 \<longrightarrow> root1 = root)
    \<and> (ok2 \<longrightarrow> get_dotted root2 path = None) \<and> (\<not> ok2 \<longrightarrow> root2 = root)
    \<and> (ok2 \<longleftrightarrow> get_dotted root path \<noteq> None) \<and> (get_dotted root path \<noteq> None \<longrightarrow> ok1)
    \<and> (\<forall>xs y ys z zs other. split_on (CHR ''.'') path = xs @ y # ys \<and> split_on (CHR ''.'') other = xs @ z # zs \<and> y \<noteq> z
        \<longrightarrow> get_dotted root1 other = get_dotted root other \<and> get_dotted root2 other = get_dotted root other)"
proof -
  let ?p = "split_on (CHR ''.'') path"
  have 1: "set_path root ?p v = (root1, ok1)" and 2: "remove_path root ?p = (root2, ok2)"
    using assms by (simp_all add: set_dotted_def remove_dotted_def)
  have "ok2 \<longleftrightarrow> get_dotted root path \<noteq> None"
    using remove_path_ok_iff [of ?p root] 2 by (simp add: get_dotted_def)
  moreover have "get_dotted root path \<noteq> None \<longrightarrow> ok1"
    using set_path_ok_of_get [of ?p root _ v] 1 by (auto simp: get_dotted_def)
  moreover have "get_dotted root1 other = get_dotted root other \<and> get_dotted root2 other = get_dotted root other"
    if "?p = xs @ y # ys" "split_on (CHR ''.'') other = xs @ z # zs" "y \<noteq> z" for xs y ys z zs other
    using get_path_set_other [of root xs y ys v root1 ok1 z zs] get_path_remove_other [of root xs y ys root2 ok2 z zs]
      1 2 that by (simp add: get_dotted_def)
  moreover have "ok1 \<longrightarrow> get_dotted root1 path = Some v" "\<not> ok1 \<longrightarrow> root1 = root"
    using get_path_set_path [of root ?p v root1] set_path_fail [of root ?p v root1] 1
    by (auto simp: get_dotted_def)
  moreover have "ok2 \<longrightarrow> get_dotted root2 path = None" "\<not> ok2 \<longrightarrow> root2 = root"
    using get_path_remove_path [of root ?p root2] remove_path_fail [of root ?p root2] 2
    by (auto simp: get_dotted_def)
  ultimately show ?thesis by blast
qed

theorem dotted_path_laws_witness:
  "\<exists>root1 ok1. set_dotted (JObj [(''a'', JObj [])]) ''a.b'' JNull = (root1, ok1)
     \<and> get_dotted root1 ''a.b'' = Some JNull"
proof -
  let ?r = "JObj [(''a'', JObj [])]"
  obtain root1 ok1 root2 ok2 where s: "set_dotted ?r ''a.b'' JNull = (root1, ok1)"
    and r: "remove_dotted ?r ''a.b'' = (root2, ok2)" by fastforce
  have ok1 using s by (simp add: set_dotted_def)
  with dotted_path_laws [OF s r] s show ?thesis by blast
qed


section \<open>Backend constraints\<close>

text \<open>
  A \<^verbatim>\<open>restrict\<close> effect fails closed.  It halts exactly if its deny list is a reference that does not
  resolve to a set; an allow list that does not resolve becomes the empty list, which no backend
  matches; everything else is taken over as written.
\<close>

theorem restrict_fails_closed:
  "((\<exists>d. fst (dispatch_effect env ph src (Eff_Restrict spec) st) = Halt d) \<longleftrightarrow>
      (\<exists>path. rs_deny_models spec = Some (SetRef path) \<and> resolve_set (SetRef path) (es_bag st) = None))
   \<and> (\<forall>c. restrict_resolve spec (es_bag st) = Inr c \<longrightarrow>
        (\<forall>s. rs_allow_models spec = Some s \<and> resolve_set s (es_bag st) = None \<longrightarrow> cc_allow_models c = Some [])
      \<and> (\<forall>s. rs_allow_regions spec = Some s \<and> resolve_set s (es_bag st) = None \<longrightarrow> cc_allow_regions c = Some [])
      \<and> (\<forall>s. rs_allow_sites spec = Some s \<and> resolve_set s (es_bag st) = None \<longrightarrow> cc_allow_sites c = Some [])
      \<and> (\<forall>b rank. \<not> (\<exists>s. rs_allow_models spec = Some s \<and> resolve_set s (es_bag st) = None
            \<and> ext_accepts (lift_constraint c) b rank)))"
proof -
  have "(\<exists>d. fst (dispatch_effect env ph src (Eff_Restrict spec) st) = Halt d) \<longleftrightarrow>
      (\<exists>e. restrict_resolve spec (es_bag st) = Inl e)"
    by (auto simp: dispatch_restrict_def split: sum.splits)
  moreover have "in_allow_list eq (Some []) l = False" for eq l
    by (simp add: in_allow_list_def split: option.split)
  ultimately show ?thesis
    unfolding restrict_resolve_error_iff
    by (auto simp: restrict_resolve_ok resolve_allow_unresolved ext_accepts_iff lift_constraint_def)
qed

theorem restrict_fails_closed_witness:
  "\<exists>d. fst (dispatch_effect quiet_env Pre ''s''
      (Eff_Restrict \<lparr>rs_allow_models = None, rs_deny_models = Some (SetRef ''data.blocked''), rs_allow_regions = None,
        rs_allow_sites = None, rs_max_cost_tier = None, rs_custom = [], rs_on_empty = OnEmpty_Deny\<rparr>)
      (eval_init Map.empty (payload_new JNull) ())) = Halt d"
proof -
  let ?spec = "\<lparr>rs_allow_models = None, rs_deny_models = Some (SetRef ''data.blocked''), rs_allow_regions = None,
        rs_allow_sites = None, rs_max_cost_tier = None, rs_custom = [], rs_on_empty = OnEmpty_Deny\<rparr>"
  let ?st = "eval_init Map.empty (payload_new JNull) ()"
  have "\<exists>path. rs_deny_models ?spec = Some (SetRef path) \<and> resolve_set (SetRef path) (es_bag ?st) = None"
    by (simp add: resolve_set_def eval_init_def bag_defs)
  with restrict_fails_closed [of quiet_env Pre "''s''" ?spec ?st] show ?thesis by blast
qed

text \<open>
  C14: folding the constraints of a request never widens what any one of them allows: a backend the
  folded constraint accepts (every backend, if nothing is left to constrain) is accepted by each.
\<close>

theorem fold_never_widens:
  assumes "fold_candidate_constraints cs = Inr r"
    and "\<forall>folded. r = Some folded \<longrightarrow> ext_accepts folded backend rank"
    and "c \<in> set cs"
  shows "ext_accepts (lift_constraint c) backend rank"
proof -
  from assms(3) have "cs \<noteq> []" by auto
  with assms(1) obtain st where st: "fold_run fold_init cs = Inr st"
    and r: "r = (if ext_is_empty (fold_finish st) then None else Some (fold_finish st))"
    by (auto simp: fold_candidate_constraints_def res_bind_eq_Inr Let_def split: if_splits)
  have "ext_accepts (fold_finish st) backend rank"
    using assms(2) r ext_is_empty_accepts by (cases "ext_is_empty (fold_finish st)") auto
  from fold_finish_accepts [OF st this assms(3)] show ?thesis .
qed

definition demo_constraint :: candidate_constraint where
  "demo_constraint = \<lparr>cc_allow_models = None, cc_deny_models = [], cc_allow_regions = Some [''eu''],
     cc_allow_sites = None, cc_max_cost_tier = None, cc_custom = [], cc_on_empty = OnEmpty_Deny\<rparr>"

theorem fold_never_widens_witness:
  "ext_accepts (lift_constraint demo_constraint) [''region'' \<mapsto> ''eu''] (\<lambda>_. None)"
proof (rule fold_never_widens)
  show "fold_candidate_constraints [demo_constraint] = Inr (Some (lift_constraint demo_constraint))"
    by (simp add: fold_candidate_constraints_def fold_step_def fold_init_def fold_finish_def ext_is_empty_def
        intersect_into_def lift_constraint_def strictest_def map_on_empty_def Let_def demo_constraint_def)
qed (simp_all add: ext_accepts_iff lift_constraint_def in_allow_list_def denied_model_def demo_constraint_def)

text \<open>
  The fold reports a conflict exactly if two of the constraints give one custom label two values,
  and then no backend satisfies all of them.
\<close>

theorem fold_conflict_iff:
  "((\<exists>cf. fold_candidate_constraints cs = Inl cf) \<longleftrightarrow> \<not> single_valued (\<Union>c \<in> set cs. set (cc_custom c)))
   \<and> (\<forall>cf. fold_candidate_constraints cs = Inl cf \<longrightarrow>
        \<not> (\<exists>backend rank. \<forall>c \<in> set cs. ext_accepts (lift_constraint c) backend rank))"
proof -
  have err: "(\<exists>cf. fold_candidate_constraints cs = Inl cf) \<longleftrightarrow> (\<exists>cf. fold_run fold_init cs = Inl cf)"
    by (cases cs) (auto simp: fold_candidate_constraints_def res_bind_eq_Inl Let_def split: if_splits)
  have "(\<exists>cf. fold_run fold_init cs = Inl cf) \<longleftrightarrow> \<not> (\<exists>st. fold_run fold_init cs = Inr st)"
    by (cases "fold_run fold_init cs") auto
  with err fold_run_ok_iff
  have iff: "(\<exists>cf. fold_candidate_constraints cs = Inl cf) \<longleftrightarrow> \<not> single_valued (\<Union>c \<in> set cs. set (cc_custom c))"
    by simp
  have "single_valued (\<Union>c \<in> set cs. set (cc_custom c))"
    if "\<forall>c \<in> set cs. ext_accepts (lift_constraint c) backend rank" for backend rank
  proof -
    have "backend k = Some v" if "(k, v) \<in> (\<Union>c \<in> set cs. set (cc_custom c))" for k v
      using that \<open>\<forall>c \<in> set cs. ext_accepts (lift_constraint c) backend rank\<close>
      by (auto simp: ext_accepts_iff lift_constraint_def)
    then show ?thesis unfolding single_valued_def by (metis option.inject)
  qed
  with iff show ?thesis by blast
qed

theorem fold_conflict_iff_witness:
  "\<exists>cf. fold_candidate_constraints
     [demo_constraint\<lparr>cc_custom := [(''pool'', ''a'')]\<rparr>, demo_constraint\<lparr>cc_custom := [(''pool'', ''b'')]\<rparr>] = Inl cf"
  using fold_conflict_iff [of "[demo_constraint\<lparr>cc_custom := [(''pool'', ''a'')]\<rparr>,
     demo_constraint\<lparr>cc_custom := [(''pool'', ''b'')]\<rparr>]"]
  by (force simp: single_valued_def)

text \<open>
  The order of the constraints and repetitions among them do not matter to the fold, so the
  constraints of \<^verbatim>\<open>parallel:\<close> branches may be appended in any order.
\<close>

theorem fold_order_independent:
  assumes "set cs = set ds"
  shows "fold_candidate_constraints cs = Inr r \<longleftrightarrow> fold_candidate_constraints ds = Inr r"
proof -
  have empty: "cs = [] \<longleftrightarrow> ds = []" using assms by auto
  have ok: "(\<exists>st. fold_run fold_init cs = Inr st) \<longleftrightarrow> (\<exists>st. fold_run fold_init ds = Inr st)"
    unfolding fold_run_ok_iff using assms by simp
  show ?thesis
  proof (cases "\<exists>st. fold_run fold_init cs = Inr st")
    case True
    then obtain st st' where "fold_run fold_init cs = Inr st" "fold_run fold_init ds = Inr st'" using ok by blast
    with fold_run_cong [OF assms this] empty show ?thesis by (simp add: fold_candidate_constraints_def)
  next
    case False
    then show ?thesis using ok empty by (auto simp: fold_candidate_constraints_def res_bind_eq_Inr)
  qed
qed

theorem fold_order_independent_witness:
  "\<forall>r. fold_candidate_constraints [demo_constraint, demo_constraint\<lparr>cc_deny_models := [''x'']\<rparr>] = Inr r \<longleftrightarrow>
       fold_candidate_constraints [demo_constraint\<lparr>cc_deny_models := [''x'']\<rparr>, demo_constraint] = Inr r"
  by (intro allI fold_order_independent) auto

text \<open>
  C15: on model names without a star the backtracking matcher decides the glob: \<open>*\<close> stands for any text,
  every other character for itself, and the pattern has to cover the whole name.
\<close>

theorem glob_match_correct:
  assumes "CHR ''*'' \<notin> set name"
  shows "glob_match pattern name \<longleftrightarrow> glob_spec pattern name"
  by (rule glob_match_spec [OF assms])

theorem glob_match_correct_witness:
  "glob_match ''gpt-*-mini'' ''gpt-4o-mini'' \<longleftrightarrow> glob_spec ''gpt-*-mini'' ''gpt-4o-mini''"
  by (rule glob_match_correct) simp

text \<open>
  On names that do contain a star it does not: the pattern \<open>*\<close> rejects \<open>*a\<close>, because the arm that
  compares the two characters is tried before the one for the wildcard.
\<close>

theorem glob_match_star_in_name:
  "glob_spec ''*'' ''*a'' \<and> \<not> glob_match ''*'' ''*a''"
  by (simp add: glob_match_def glob_loop.simps)

section \<open>Concurrent branches\<close>

text \<open>
  C16: the branch runner returns one outcome per branch in input order; under every schedule each
  outcome is what the branch would have produced, or \<^verbatim>\<open>Aborted\<close>; an abort happens only with
  short-circuiting on and a denial among the returned outcomes; and some returned outcome is a denial
  exactly if some branch produces one.
\<close>

theorem run_branches_contract:
  assumes "valid_schedule (length branches) sched"
  shows "length (run_branches branches config deny sched) = length branches
    \<and> (\<forall>i < length branches.
         run_branches branches config deny sched ! i \<in> {spawn_outcome config (branches ! i), Aborted}
       \<and> (run_branches branches config deny sched ! i = Aborted \<longrightarrow>
            bc_short_circuit_on_deny config
            \<and> (\<exists>oc \<in> set (run_branches branches config deny sched). outcome_halts deny oc)))
    \<and> ((\<exists>oc \<in> set (run_branches branches config deny sched). outcome_halts deny oc) \<longleftrightarrow>
         (\<exists>f \<in> set branches. outcome_halts deny (spawn_outcome config f)))"
  using rb.run_length [OF assms] rb.run_faithful [OF assms] rb.run_aborted [OF assms] rb.halts_iff [OF assms]
  by blast

theorem run_branches_contract_witness:
  "length (run_branches [Returns 1 True, Returns 2 False] branch_config_default id [(1, False), (0, True)]) = 2"
proof -
  have "valid_schedule (length [Returns 1 True, Returns 2 False]) [(1, False), (0, True)]"
    by (auto simp: valid_schedule_def)
  from run_branches_contract [OF this, of branch_config_default id] show ?thesis by simp
qed

section \<open>Predicates\<close>

text \<open>C17: the predicate parser always answers, on every source text: with an expression or with an error.\<close>

theorem predicate_parser_total:
  "(\<exists>e. parse_predicate src = Some (Inr e)) \<or> (\<exists>err. parse_predicate src = Some (Inl err))"
proof -
  obtain r where "parse_predicate src = Some r" using parse_predicate_total by blast
  then show ?thesis by (cases r) auto
qed

text \<open>
  Comparisons.  An integer attribute is compared with an integer literal exactly, at any size; an
  attribute that is missing makes every comparison false; and of a comparison and its opposite never
  both hold, whatever the types of the operands are.
\<close>

theorem comparison_semantics:
  assumes "CHR ''['' \<notin> set key"
  shows "(\<forall>a b. bag key = Some (AInt a) \<longrightarrow>
       (eval_condition (Comparison key CmpLt (LInt b)) bag \<longleftrightarrow> a < b)
     \<and> (eval_condition (Comparison key CmpGtEq (LInt b)) bag \<longleftrightarrow> a \<ge> b)
     \<and> (eval_condition (Comparison key CmpGt (LInt b)) bag \<longleftrightarrow> a > b)
     \<and> (eval_condition (Comparison key CmpLtEq (LInt b)) bag \<longleftrightarrow> a \<le> b)
     \<and> (eval_condition (Comparison key CmpEq (LInt b)) bag \<longleftrightarrow> a = b))
    \<and> (bag key = None \<longrightarrow> (\<forall>op l. \<not> eval_condition (Comparison key op l) bag))
    \<and> (\<forall>op l. op \<noteq> CmpContains \<longrightarrow>
         \<not> (eval_condition (Comparison key op l) bag \<and> eval_condition (Comparison key (opposite op) l) bag))"
  using assms eval_comparison_int [of bag key] eval_comparison_opposite [of _ key _ bag]
  by (auto simp: eval_comparison_def [of key _ _ bag] bag_get_def)

theorem comparison_semantics_witness:
  "eval_condition (Comparison ''args.amount'' CmpGt (LInt 9007199254740992))
     [''args.amount'' \<mapsto> AInt 9007199254740993]"
  using comparison_semantics [of "''args.amount''" "[''args.amount'' \<mapsto> AInt 9007199254740993]"] by simp

section \<open>Compiling policies\<close>


definition demo_raw :: route_yaml where
  "demo_raw = \<lparr>ry_pre_invocation = [YStr ''require(role.hr | role.admin)'',
       YMap [(YStr ''parallel'', YSeq [YStr ''taint(hr)'', YStr ''plugin(audit)''])]], ry_post_invocation = [],
     ry_authorization = None, ry_args = [(''id'', ''str'')], ry_result = [], ry_plugins = Map.empty, ry_other = []\<rparr>"

definition demo_compiled :: compiled_route where
  "demo_compiled = (compiled_route_new ''r'')\<lparr>
     cr_policy := [Eff_When (And [Cond (IsFalse ''role.hr''), Cond (IsFalse ''role.admin'')]) [Eff_Deny None None] ''r.pre_invocation[0]'',
       Eff_When Always [Eff_Parallel [Eff_Taint ''hr'' [Scope_Session], Eff_Plugin ''audit'']] ''r.pre_invocation[1]''],
     cr_args := [\<lparr>fr_field = ''id'', fr_pipeline = \<lparr>pl_stages = [Stage_Type TC_Str]\<rparr>, fr_source = ''r.args.id''\<rparr>]\<rparr>"

lemma demo_entries: "policy_entries pf ''r.pre_invocation'' 0 (ry_pre_invocation demo_raw) = Inr (cr_policy demo_compiled)"
  by code_simp

lemma demo_fields: "res_map (compile_field ''r'' ''args'') (ry_args demo_raw) = Inr (cr_args demo_compiled)"
  by code_simp

lemma demo_compiles: "compile_apl_blocks pf ''r'' demo_raw = Inr demo_compiled"
  unfolding compile_apl_blocks_iff reject_legacy_iff
  using demo_entries demo_fields
  by (auto simp: phase_entries_def doubled_def demo_raw_def demo_compiled_def compiled_route_new_def)


text \<open>
  C19: a compiled policy is well-formed.  At every depth its names, labels and bodies are not empty, a restriction restricts
  something, a field operation has a path below \<^verbatim>\<open>args\<close> or \<^verbatim>\<open>result\<close> and at least one stage, no stage is the
  unsupported \<^verbatim>\<open>validate\<close>, a range has a bound; and no branch of a \<^verbatim>\<open>parallel:\<close> block contains a mutation.
\<close>

theorem compiled_policy_wellformed:
  assumes "compile_apl_blocks pf source raw = Inr route"
  shows "(\<forall>e \<in> set (cr_policy route @ cr_post_policy route).
            effect_wf e \<and> (\<forall>es b. under (Eff_Parallel es) e \<longrightarrow> b \<in> set es \<longrightarrow> \<not> contains_mutation b))
       \<and> (\<forall>r \<in> set (cr_args route @ cr_result route). \<forall>st \<in> set (pl_stages (fr_pipeline r)). stage_wf st)"
proof -
  have "effect_wf e" "validate_parallel_purity e = Inr ()" if "e \<in> set (cr_policy route @ cr_post_policy route)" for e
    using shape.compiled_ok [OF assms that] purity.compiled_ok [OF assms that] by simp_all
  moreover obtain args result where "res_map (compile_field source ''args'') (ry_args raw) = Inr args"
    "res_map (compile_field source ''result'') (ry_result raw) = Inr result" "cr_args route = args" "cr_result route = result"
    using assms unfolding compile_apl_blocks_iff by (auto simp: compiled_route_new_def)
  ultimately show ?thesis
    using compiled_fields [of source "''args''"] compiled_fields [of source "''result''"] pure_iff_no_mutation_under_parallel by auto
qed

theorem compiled_policy_wellformed_witness:
  "\<forall>pf. compile_apl_blocks pf ''r'' demo_raw = Inr demo_compiled \<and> (\<forall>e \<in> set (cr_policy demo_compiled). effect_wf e)"
  using compiled_policy_wellformed [OF demo_compiles] demo_compiles by auto

text \<open>
  C20: what a \<^verbatim>\<open>require\<close> rule means.  A line that starts with \<^verbatim>\<open>require(\<close> and parses lists keys separated by commas only or
  by bars only.  With commas it denies exactly if some key is not true, with bars exactly if none is; a key that the bag
  does not have counts as not true.
\<close>

theorem require_semantics:
  assumes "is_require_call (trim line)" "parse_rule line source = Inr r"
  shows "\<exists>k ks sep. (sep = T_Comma \<or> sep = T_Or)
    \<and> lexer_tokens (trim line) = Inr (T_Require # T_LParen # T_Ident k # more_keys sep ks @ [T_RParen])
    \<and> (\<forall>bag. evaluate_rules [r] bag \<noteq> Dec_Allow \<longleftrightarrow>
         (if sep = T_Or then \<forall>key \<in> set (k # ks). \<not> eval_condition (IsTrue key) bag
          else \<exists>key \<in> set (k # ks). \<not> eval_condition (IsTrue key) bag))"
proof -
  obtain c where c: "parse_require_rule (trim line) = Inr c" "r = rule_single c (Eff_Deny None None) source"
    using assms parse_rule_require by blast
  then obtain toks where "lexer_tokens (trim line) = Inr toks" "require_tokens (trim line) toks = Inr c"
    by (auto simp: parse_require_rule_def res_bind_eq_Inr)
  then obtain k ks s where s: "s = T_Comma \<or> s = T_Or"
    "lexer_tokens (trim line) = Inr (T_Require # T_LParen # T_Ident k # more_keys s ks @ [T_RParen])"
    "c = require_condition (k # ks) (if ks = [] then None else Some s)"
    unfolding require_tokens_iff by blast
  have "eval_expression c bag \<longleftrightarrow> (if s = T_Or then \<forall>key \<in> set (k # ks). \<not> eval_condition (IsTrue key) bag
          else \<exists>key \<in> set (k # ks). \<not> eval_condition (IsTrue key) bag)" for bag
    unfolding s(3) by (subst require_condition_eval) (auto simp del: eval_condition.simps)
  with s(1,2) c(2) show ?thesis using rule_single_deny by blast
qed

theorem require_semantics_witness:
  "\<exists>r. parse_rule ''require(role.hr | role.admin)'' ''p'' = Inr r \<and> evaluate_rules [r] Map.empty \<noteq> Dec_Allow"
proof -
  let ?line = "''require(role.hr | role.admin)''"
  have line: "is_require_call (trim ?line)" by code_simp
  have parsed: "parse_rule ?line ''p'' = Inr \<lparr>ru_condition = And [Cond (IsFalse ''role.hr''), Cond (IsFalse ''role.admin'')],
      ru_effects = [Eff_Deny None None], ru_source = ''p''\<rparr>" by code_simp
  have no: "\<not> eval_condition (IsTrue key) Map.empty" for key
    by (rule missing_key_conditions(1)) simp
  from require_semantics [OF line parsed] parsed no show ?thesis by (metis list.set_intros(1))
qed
section \<open>Loading a document\<close>

definition demo_visitor_env :: "(unit, unit) visitor_env" where
  "demo_visitor_env = \<lparr>ve_fmt = \<lparr>pf_debug = \<lambda>_. [], pf_debug_map = \<lambda>_. [], pf_debug_effect = \<lambda>_. [], pf_number = \<lambda>_. [],
       pf_f64 = \<lambda>_. None, pf_alphanumeric = \<lambda>_. False\<rparr>,
     ve_route_yaml = (\<lambda>_. Inr \<lparr>ry_pre_invocation = [YStr ''deny''], ry_post_invocation = [], ry_authorization = None, ry_args = [],
       ry_result = [], ry_plugins = Map.empty, ry_other = []\<rparr>),
     ve_deny_response = (\<lambda>_. Inl []), ve_to_yaml = (\<lambda>_. Inl []),
     ve_files = \<lparr>fs_read = \<lambda>_. Inl [], fs_parse = \<lambda>_. Inl [], fs_text = \<lambda>_. []\<rparr>,
     ve_order = (\<lambda>_. []), ve_object = (\<lambda>_. \<lparr>ob_initialize = \<lambda>w. (None, w), ob_shutdown = \<lambda>w. (None, w)\<rparr>),
     ve_handler = (\<lambda>_. \<lparr>hh_invoke = \<lambda>w p e c. (0, H_Ok None, c, w), hh_hook_type_name = ''cmf''\<rparr>)\<rparr>"

definition demo_route_entry :: "string \<Rightarrow> route_entry" where
  "demo_route_entry pattern = \<lparr>re_tool = Some (SL_Single pattern), re_resource = None, re_prompt = None, re_llm = None, re_meta = None,
     re_groups = None, re_when = None, re_plugins = [], re_identity = None\<rparr>"

definition demo_policy_config :: "string \<Rightarrow> policy_config" where
  "demo_policy_config pattern = \<lparr>pcf_global = \<lparr>gc_policies = [], gc_defaults = [], gc_identity = None\<rparr>, pcf_plugin_dirs = [], pcf_plugins = [],
     pcf_groups = [], pcf_routes = [demo_route_entry pattern], pcf_plugin_settings = plugin_settings_default\<lparr>pse_routing_enabled := True\<rparr>\<rparr>"

definition demo_route_yaml :: "string \<Rightarrow> yaml" where
  "demo_route_yaml pattern = YMap [(YStr ''tool'', YStr pattern), (YStr ''pre_invocation'', YSeq [YStr ''deny''])]"

definition demo_document :: "string \<Rightarrow> yaml" where
  "demo_document pattern = YMap [(YStr ''routes'', YSeq [demo_route_yaml pattern])]"

definition demo_visitor :: "(unit, unit) apl_visitor" where
  "demo_visitor = visitor_new \<lparr>so_load = \<lambda>_ _. Inr [], so_append = \<lambda>s _ _. (Inr (), s)\<rparr>"

definition demo_layer :: "string \<Rightarrow> compiled_route" where
  "demo_layer source = (compiled_route_new source)\<lparr>cr_policy := [Eff_When Always [Eff_Deny None None] (source @ ''.pre_invocation[0]'')]\<rparr>"

lemma demo_deny: "policy_entries pf (source @ ''.pre_invocation'') 0 [YStr ''deny''] = Inr (cr_policy (demo_layer source))"
proof -
  have "parse_step pf (YStr ''deny'') s = Inr (Step_Rule \<lparr>ru_condition = Always, ru_effects = [Eff_Deny None None], ru_source = s\<rparr>)" for s
    by code_simp
  moreover have "nat_to_string 0 = ''0''" by code_simp
  ultimately show ?thesis by (simp add: demo_layer_def)
qed

lemma demo_compile_block: "compile_block demo_visitor_env source (YMap m) = Inr (demo_layer source)"
  by (simp add: compile_block_def compile_policy_block_value_def demo_visitor_env_def compile_apl_blocks_def reject_legacy_keys_def
      RENAMED_FIELDS_def Let_def demo_deny [simplified]) (simp add: demo_layer_def compiled_route_new_def)

lemma demo_subblock: "apl_subblock (demo_route_yaml pattern) = Some (YMap [(YStr ''pre_invocation'', YSeq [YStr ''deny''])])"
  by (simp add: apl_subblock_def demo_route_yaml_def yaml_get_def as_mapping_def flat_block_def FLAT_APL_KEYS_def List.map_filter_def)

lemma demo_route_facts [simp]:
  "entity_identity (demo_route_entry pattern) = Some (ENTITY_TOOL, [pattern])" "route_scope (demo_route_entry pattern) = None"
  "route_tags (demo_route_entry pattern) = []" "response_subblock demo_visitor_env (demo_route_yaml pattern) = None"
  "reject_legacy_apl_keys scope (demo_route_yaml pattern) = None"
  by (simp_all add: entity_identity_def demo_route_entry_def ENTITY_TOOL_def route_scope_def route_tags_def response_subblock_def
      response_yaml_block_def demo_route_yaml_def yaml_get_def reject_legacy_apl_keys_def RENAMED_APL_KEYS_def as_mapping_def)

definition demo_effective :: "string \<Rightarrow> compiled_route" where
  "demo_effective key = apply_layer (compiled_route_new key) (demo_layer (''routes.'' @ key @ ''.apl''))"

lemma demo_effective_simps [simp]:
  "demo_effective key\<lparr>cr_response := None\<rparr> = demo_effective key"
  "\<not> phase_set_is_empty (declared_phases (demo_effective key))"
  "validate_parallel_plugin_modes modes (demo_effective key) = Inr ()"
  by (simp_all add: demo_effective_def demo_layer_def apply_layer_def compiled_route_new_def declared_phases_def layer_fields_def
      validate_parallel_plugin_modes_def phase_errors_def phase_set_is_empty_def phase_set_insert_def phase_set_new_def phase_bit_def)

lemma demo_stacked:
  "effective_route demo_visitor_env demo_visitor ENTITY_TOOL [] (apl_subblock (demo_route_yaml pattern)) None key = Inr (demo_effective key)"
proof -
  have "stack_layers demo_visitor ENTITY_TOOL [] key = compiled_route_new key"
    by (simp add: stack_layers_def demo_visitor_def visitor_new_def add_layer_def)
  then show ?thesis
    using demo_effective_simps(1) [of key]
    by (simp add: effective_route_def demo_subblock demo_compile_block demo_effective_def)
qed

lemma demo_visits:
  "\<exists>eng'. visit_route demo_visitor_env (demo_route_yaml pattern, demo_route_entry pattern) (demo_visitor, eng) = (None, demo_visitor, eng')"
  by (simp add: visit_route_def visit_entity_def demo_stacked chain_def hook_pair_for_entity_def Let_def)

lemma demo_walks:
  "\<exists>eng'. walk_visitor (demo_document pattern) (demo_policy_config pattern) (apl_config_visitor demo_visitor_env) (demo_visitor, eng) = (None, demo_visitor, eng')"
proof -
  have raw: "yaml_get (demo_document pattern) ''global'' = None" "yaml_get (demo_document pattern) ''groups'' = None"
    "yaml_get (demo_document pattern) ''routes'' = Some (YSeq [demo_route_yaml pattern])"
    by (simp_all add: demo_document_def yaml_get_def)
  have yaml_get_null: "yaml_get YNull k = None" for k by (simp add: yaml_get_def)
  have "visit_plugins demo_visitor_env [] (demo_visitor, eng) = (None, demo_visitor, eng)"
    by (simp add: visit_plugins_def demo_visitor_def visitor_new_def)
  moreover have "visit_global demo_visitor_env YNull st = (None, st)" for st
    by (simp add: visit_global_def reject_legacy_apl_keys_def as_mapping_def apl_subblock_def flat_block_def yaml_get_def
        FLAT_APL_KEYS_def List.map_filter_def)
  moreover obtain eng' where "visit_route demo_visitor_env (demo_route_yaml pattern, demo_route_entry pattern) (demo_visitor, eng)
      = (None, demo_visitor, eng')"
    using demo_visits by blast
  ultimately show ?thesis
    by (simp add: walk_visitor_def raw apl_config_visitor_def in_context_def chain_def Let_def demo_policy_config_def policies_yaml_def
        string_entries_def route_pairs_def as_sequence_def yaml_get_null)
qed

lemma demo_loads:
  "\<exists>eng. load_config_yaml (\<lambda>_. Inr (demo_document pattern)) (\<lambda>_. Inr (demo_policy_config pattern)) [apl_config_visitor demo_visitor_env] []
     (demo_visitor, engine_new c) () = (None, (demo_visitor, eng), ())"
proof -
  have "reject_renamed_identity_key (demo_document pattern) = None"
    by (simp add: reject_renamed_identity_key_def demo_document_def demo_route_yaml_def yaml_get_def as_sequence_def renamed_section_def)
  moreover have "merge_groups_into_policies (demo_policy_config pattern) = demo_policy_config pattern"
    by (simp add: merge_groups_into_policies_def demo_policy_config_def)
  moreover have "validate_config (demo_policy_config pattern) = None"
    by (simp add: validate_config_def demo_policy_config_def demo_route_entry_def validate_route_def matcher_count_def routing_enabled_def unknown_ref_def)
  moreover obtain eng :: "(plugin_payload, unit) engine" where "load_config (demo_policy_config pattern) (engine_new c) () = (None, eng, ())"
    by (simp add: load_config_def demo_policy_config_def)
  moreover obtain eng' where "walk_visitor (demo_document pattern) (demo_policy_config pattern) (apl_config_visitor demo_visitor_env) (demo_visitor, eng)
      = (None, demo_visitor, eng')"
    using demo_walks by blast
  ultimately show ?thesis
    by (simp add: load_config_yaml_def chain_def Let_def)
qed

definition demo_meta_of :: "string \<Rightarrow> meta_extension" where
  "demo_meta_of name = \<lparr>me_entity_type = Some ''tool'', me_entity_name = Some name, me_tags = {||}, me_scope = None, me_properties = []\<rparr>"

definition demo_loaded :: "string \<Rightarrow> (plugin_payload, unit) engine \<Rightarrow> bool" where
  "demo_loaded pattern eng \<longleftrightarrow>
     load_config_yaml (\<lambda>_. Inr (demo_document pattern)) (\<lambda>_. Inr (demo_policy_config pattern)) [apl_config_visitor demo_visitor_env] []
       (demo_visitor, engine_new \<lparr>pec_executor = executor_config_default, pec_route_cache_max_entries = 10\<rparr>) ()
     = (None, (demo_visitor, eng), ())"



text \<open>
  C22: the policy of a route written as a pattern is bypassed.  Handlers are installed under the names a route lists, and
  found under the exact name of the request: whatever document was loaded, a request for a name that no route
  spells out meets no handler, also if a pattern of a route matches it.
\<close>

theorem pattern_policy_bypassed:
  assumes "load_config_yaml from_str from_value [apl_config_visitor ve] text (av, eng) w = (None, (av', eng'), w')"
    and "from_str text = Inr raw" "from_value raw = Inr parsed"
    and "\<forall>route \<in> set (pcf_routes parsed). \<forall>names. entity_identity route = Some (et, names) \<longrightarrow> en \<notin> set names"
    and "et \<noteq> ENTITY_HTTP" "me_entity_type meta = Some et" "me_entity_name meta = Some en"
  shows "find_annotation (eg_runtime eng') meta hook = None"
proof -
  have "map_of (annotations eng') (handler_key et en scope hook) = None" for scope
  proof (rule unlisted_not_annotated [OF loaded_sourced [OF assms(1-3)] assms(5)])
    fix v route names
    assume "(v, route) \<in> set (route_pairs raw (pcf_routes parsed))" "entity_identity route = Some (et, names)"
    with assms(4) routes_of_pairs [of raw "pcf_routes parsed"] show "en \<notin> set names" by force
  qed
  with assms(6,7) show ?thesis by (cases "me_scope meta") (simp_all add: find_annotation_def handler_key_def)
qed

theorem pattern_policy_bypassed_witness:
  "find_matching_route glob_match (demo_policy_config ''hr-*'') ''tool'' ''hr-payroll'' None = Some (demo_route_entry ''hr-*'')
   \<and> (\<exists>eng. demo_loaded ''hr-*'' eng \<and> find_annotation (eg_runtime eng) (demo_meta_of ''hr-payroll'') ''cmf.tool_pre_invoke'' = None)"
proof -
  obtain eng where loads: "demo_loaded ''hr-*'' eng" using demo_loads unfolding demo_loaded_def by blast
  have "find_annotation (eg_runtime eng) (demo_meta_of ''hr-payroll'') ''cmf.tool_pre_invoke'' = None"
    by (rule pattern_policy_bypassed [OF loads [unfolded demo_loaded_def] refl refl, where et = ENTITY_TOOL and en = "''hr-payroll''"])
      (simp_all add: demo_policy_config_def ENTITY_HTTP_def ENTITY_TOOL_def demo_meta_of_def)
  moreover have "find_matching_route glob_match (demo_policy_config ''hr-*'') ''tool'' ''hr-payroll'' None = Some (demo_route_entry ''hr-*'')"
    by code_simp
  ultimately show ?thesis using loads by blast
qed

text \<open>
  The \<^verbatim>\<open>groups\<close> of a route do not attach the policies of those groups.  A route is visited alike whatever
  groups it joins: only the tags in its \<^verbatim>\<open>meta\<close> select policy layers.
\<close>

theorem groups_sugar_ignored: "visit_route ve (v, route\<lparr>re_groups := groups\<rparr>) st = visit_route ve (v, route) st"
proof -
  have "entity_identity (route\<lparr>re_groups := groups\<rparr>) = entity_identity route"
    "visit_entity ve v (route\<lparr>re_groups := groups\<rparr>) = visit_entity ve v route"
    by (simp_all add: fun_eq_iff entity_identity_def visit_entity_def route_scope_def route_tags_def cong: option.case_cong)
  then show ?thesis by (simp add: visit_route_def cong: option.case_cong)
qed

text \<open>
  Attribute files are merged without loss.  If a list of files loads, every attribute a file sets has that value in
  the tree, up to the equality of JSON values, and every attribute of the tree is set so by one of the files: a
  file never overrides another silently.
\<close>

theorem attribute_files_merge:
  assumes "load_attribute_files fs paths = Inr tree"
  shows "(\<forall>p \<in> set paths. \<exists>data. file_data fs p data
         \<and> (\<forall>path v. leaf_at (JObj data) path v \<longrightarrow> (\<exists>w. leaf_at tree path w \<and> same_leaf w v)))
    \<and> (\<forall>path v. leaf_at tree path v \<longrightarrow> (\<exists>p \<in> set paths. \<exists>data. file_data fs p data \<and> occurs (JObj data) path v))"
  by (rule load_files_leaves [OF assms])

definition demo_files :: file_source where
  "demo_files = \<lparr>fs_read = Inr, fs_parse = (\<lambda>path. Inr (JObj [(''data'', JObj [(''hr'', JObj [(path, JInt 1), (''z'', JBool True)])])])), fs_text = (\<lambda>_. [])\<rparr>"

theorem attribute_files_merge_witness:
  "\<exists>tree. load_attribute_files demo_files [''a'', ''b''] = Inr tree \<and> leaf_at tree [''hr'', ''a''] (JInt 1) \<and> leaf_at tree [''hr'', ''z''] (JBool True)"
proof -
  have data: "file_data demo_files p data \<longleftrightarrow> data = [(''hr'', JObj [(p, JInt 1), (''z'', JBool True)])]" for p data
    by (auto simp: file_data_def demo_files_def extract_file_data_def)
  obtain tree where loads: "load_attribute_files demo_files [''a'', ''b''] = Inr tree"
    by (simp add: load_attribute_files_def read_attribute_file_def demo_files_def extract_file_data_def merge_object.simps(2))
  have merged: "\<exists>w. leaf_at tree path w \<and> same_leaf w v" if "leaf_at (JObj [(''hr'', JObj [(''a'', JInt 1), (''z'', JBool True)])]) path v" for path v
    using attribute_files_merge [OF loads] that by (simp add: data)
  have "json_eq w (JInt 1) \<longleftrightarrow> w = JInt 1" "json_eq w (JBool True) \<longleftrightarrow> w = JBool True" for w
    by (cases w; auto)+
  with merged [of "[''hr'', ''a'']" "JInt 1"] merged [of "[''hr'', ''z'']" "JBool True"] loads show ?thesis
    by (auto simp: leaf_at_simps same_leaf_def)
qed

section \<open>Policy layers\<close>

text \<open>
  Stacking policy layers is associative; the effects of both layers run, the general ones first; a
  field rule of the more specific layer replaces every rule for the same field, and a field has at
  most one rule if it had at most one in each layer.
\<close>

theorem layering_laws:
  "apply_layer (apply_layer a b) c = apply_layer a (apply_layer b c)
   \<and> cr_policy (apply_layer a b) = cr_policy a @ cr_policy b
   \<and> (\<forall>f \<in> set (cr_args (apply_layer a b)).
        f \<in> set (cr_args b) \<or> (f \<in> set (cr_args a) \<and> fr_field f \<notin> fr_field ` set (cr_args b)))
   \<and> (distinct (map fr_field (cr_args a)) \<and> distinct (map fr_field (cr_args b)) \<longrightarrow>
        distinct (map fr_field (cr_args (apply_layer a b))))
   \<and> (\<forall>p. phase_set_contains (declared_phases (apply_layer a b)) p \<longleftrightarrow>
        phase_set_contains (declared_phases a) p \<or> phase_set_contains (declared_phases b) p)"
proof -
  have "\<forall>f \<in> set (cr_args (apply_layer a b)).
      f \<in> set (cr_args b) \<or> (f \<in> set (cr_args a) \<and> fr_field f \<notin> fr_field ` set (cr_args b))"
    by (auto simp: apply_layer_def layer_fields_def)
  moreover have "distinct (map fr_field (cr_args a)) \<and> distinct (map fr_field (cr_args b)) \<longrightarrow>
      distinct (map fr_field (cr_args (apply_layer a b)))"
    by (simp add: apply_layer_def distinct_layer_fields)
  moreover have "cr_policy (apply_layer a b) = cr_policy a @ cr_policy b" by (simp add: apply_layer_def)
  ultimately show ?thesis using apply_layer_assoc declared_phases_layer by blast
qed

theorem layering_laws_witness:
  "apply_layer (apply_layer demo_route demo_route) demo_route = apply_layer demo_route (apply_layer demo_route demo_route)
   \<and> distinct (map fr_field (cr_args (apply_layer demo_route demo_route)))"
  using layering_laws [of demo_route demo_route demo_route] by (simp add: demo_route_def compiled_route_new_def)

section \<open>Plugins\<close>

text \<open>A plugin entry and a runtime to show the properties of this section on.\<close>

definition demo_entry ::
    "string \<Rightarrow> plugin_mode \<Rightarrow> string fset \<Rightarrow> (string \<Rightarrow> extensions \<Rightarrow> string handler_end) \<Rightarrow> (string, unit) hook_entry" where
  "demo_entry name mode caps answer =
     \<lparr>he_plugin_ref =
        \<lparr>pr_trusted_config =
           \<lparr>cf_name = name, cf_kind = ''builtin'', cf_description = None, cf_author = None, cf_version = None,
            cf_hooks = [''tool_pre_invoke''], cf_mode = mode, cf_priority = 100, cf_on_error = OE_Fail,
            cf_capabilities = caps, cf_tags = [], cf_conditions = [], cf_config = None\<rparr>,
         pr_id = length name\<rparr>,
      he_handler = \<lparr>hh_invoke = (\<lambda>w payload ext ctx. (0, answer payload ext, ctx, w)), hh_hook_type_name = ''tool_pre_invoke''\<rparr>\<rparr>"

definition answer_deny :: "string \<Rightarrow> extensions \<Rightarrow> string handler_end" where
  "answer_deny payload ext = H_Ok (Some \<lparr>rf_continue_processing = False, rf_modified_payload = None,
     rf_modified_extensions = None, rf_violation = Some (violation_new ''no'' ''not today'')\<rparr>)"

definition answer_pass :: "string \<Rightarrow> extensions \<Rightarrow> string handler_end" where
  "answer_pass payload ext = H_Ok (Some \<lparr>rf_continue_processing = True, rf_modified_payload = None,
     rf_modified_extensions = None, rf_violation = None\<rparr>)"

definition answer_panic :: "string \<Rightarrow> extensions \<Rightarrow> string handler_end" where
  "answer_panic payload ext = H_Panic ''boom''"

definition demo_runtime :: "unit runtime" where
  "demo_runtime = \<lparr>rt_fork = (\<lambda>w i. w), rt_sched = (\<lambda>w n. map (\<lambda>i. (i, False)) [0..<n]), rt_join = (\<lambda>w ws. w)\<rparr>"

lemma demo_runtime_valid: "valid_schedule n (rt_sched demo_runtime w n)"
  by (auto simp: valid_schedule_def demo_runtime_def o_def)

lemma demo_entry_simps [simp]:
  "entry_name (demo_entry name mode caps answer) = name"
  "entry_id (demo_entry name mode caps answer) = length name"
  "entry_on_error (demo_entry name mode caps answer) = OE_Fail"
  "entry_caps (demo_entry name mode caps answer) = caps"
  "entry_run (demo_entry name mode caps answer) w p x c = (0, answer p x, c, w)"
  by (simp_all add: demo_entry_def)

lemma demo_entry_mode: "ref_mode {} (he_plugin_ref (demo_entry name mode caps answer)) = mode"
  by (simp add: demo_entry_def ref_mode_def)

text \<open>
  C23: a hook call is denied exactly if an answer blocks it.  Either the sequential plugins before some
  plugin let it through and that plugin denied with a violation, or failed or timed out under the
  \<^verbatim>\<open>Fail\<close> policy; or the serial phases finished and, on the state they left, some concurrent plugin
  denied, or failed, timed out or panicked under the \<^verbatim>\<open>Fail\<close> policy.  No schedule of the concurrent
  tasks changes that.
\<close>

theorem pipeline_denied_iff:
  assumes "\<And>w n. valid_schedule n (rt_sched rt w n)"
    and "execute config rt entries payload ext table disabled w = (Inr (r, bg), st')"
  shows "is_denied r \<longleftrightarrow>
    (\<exists>pre e post st. in_mode disabled M_Sequential entries = pre @ e # post
       \<and> run_serial_phase config True True pre (exec_init payload ext table disabled w) = (Finished, st)
       \<and> answer_blocks config (entry_on_error e) (fst (serial_answer e st)) (fst (snd (serial_answer e st))))
    \<or> (\<exists>st i. before_concurrent config disabled entries (exec_init payload ext table disabled w) = (Finished, st)
       \<and> i < length (in_mode disabled M_Concurrent entries)
       \<and> task_blocks config (entry_on_error (in_mode disabled M_Concurrent entries ! i))
            (fst (task_answer rt st i (in_mode disabled M_Concurrent entries ! i)))
            (fst (snd (task_answer rt st i (in_mode disabled M_Concurrent entries ! i)))))"
  by (rule execute_denied_iff [OF assms])

theorem pipeline_denied_iff_witness:
  "\<exists>r bg st'. execute executor_config_default demo_runtime
      [demo_entry ''audit'' M_FireAndForget {||} answer_pass, demo_entry ''guard'' M_Sequential {||} answer_deny]
      ''hello'' extensions_default None {} () = (Inr (r, bg), st') \<and> is_denied r"
proof -
  let ?es = "[demo_entry ''audit'' M_FireAndForget {||} answer_pass, demo_entry ''guard'' M_Sequential {||} answer_deny]"
  obtain r bg st' where run: "execute executor_config_default demo_runtime ?es
      ''hello'' extensions_default None {} () = (Inr (r, bg), st')"
    using execute_returns [of ?es "{}" executor_config_default demo_runtime "''hello''" extensions_default None "()"]
    by (auto simp: never_panics_def answer_deny_def answer_pass_def)
  have "in_mode {} M_Sequential ?es = [] @ demo_entry ''guard'' M_Sequential {||} answer_deny # []"
    by (simp add: in_mode_def demo_entry_mode)
  moreover have "answer_blocks executor_config_default OE_Fail 0 (answer_deny p x)" for p x
    by (simp add: answer_blocks_def answer_deny_def)
  ultimately have "is_denied r"
    using pipeline_denied_iff [OF demo_runtime_valid run] by (force simp: serial_answer_def)
  with run show ?thesis by blast
qed

text \<open>
  An answer that asks to stop but carries no violation is let through by the sequential phase, while the
  concurrent phase denies on it.
\<close>

definition answer_mute :: "string \<Rightarrow> extensions \<Rightarrow> string handler_end" where
  "answer_mute payload ext = H_Ok (Some \<lparr>rf_continue_processing = False, rf_modified_payload = None,
     rf_modified_extensions = None, rf_violation = None\<rparr>)"

definition mute_verdict :: "plugin_mode \<Rightarrow> bool" where
  "mute_verdict mode =
     (case fst (execute executor_config_default demo_runtime [demo_entry ''mute'' mode {||} answer_mute]
              ''hello'' extensions_default None {} ()) of Inl _ \<Rightarrow> False | Inr (r, bg) \<Rightarrow> is_denied r)"

theorem deny_without_violation: "\<not> mute_verdict M_Sequential \<and> mute_verdict M_Concurrent"
proof -
  let ?run = "\<lambda>mode. execute executor_config_default demo_runtime [demo_entry ''mute'' mode {||} answer_mute]
    ''hello'' extensions_default None {} ()"
  have grouped: "in_mode {} m [demo_entry ''mute'' mode {||} answer_mute] =
      (if m = mode then [demo_entry ''mute'' mode {||} answer_mute] else [])" for m mode
    by (simp add: in_mode_def demo_entry_mode)
  have "\<exists>r bg st'. ?run mode = (Inr (r, bg), st')" for mode
    by (rule execute_returns) (simp add: never_panics_def answer_mute_def)
  then obtain r bg st' r2 bg2 st2 where run: "?run M_Sequential = (Inr (r, bg), st')" "?run M_Concurrent = (Inr (r2, bg2), st2)"
    by metis
  have "\<not> is_denied r"
    using execute_denied_iff [OF demo_runtime_valid run(1)]
    by (auto simp: grouped Cons_eq_append_conv serial_answer_def answer_blocks_def answer_mute_def)
  moreover have "is_denied r2"
    unfolding execute_denied_iff [OF demo_runtime_valid run(2)]
    by (auto simp: grouped before_concurrent_def task_answer_def task_blocks_def answer_mute_def)
  ultimately show ?thesis by (simp add: mute_verdict_def run)
qed

text \<open>
  C24: a hook call returns a result, an allow or a denial, unless a plugin of a serial phase panics; a
  panic among the concurrent plugins, an error or a timeout never keeps it from returning.
\<close>

theorem pipeline_returns:
  assumes "\<forall>e \<in> set entries. ref_mode disabled (he_plugin_ref e) \<in> unwinding_modes \<longrightarrow> never_panics e"
  shows "\<exists>r bg st'. execute config rt entries payload ext table disabled w = (Inr (r, bg), st')"
  by (rule execute_returns [OF assms])

theorem pipeline_returns_witness:
  "\<exists>r bg st'. execute executor_config_default demo_runtime
      [demo_entry ''wild'' M_Concurrent {||} answer_panic, demo_entry ''guard'' M_Sequential {||} answer_pass]
      ''hello'' extensions_default None {} () = (Inr (r, bg), st')"
  by (rule pipeline_returns) (simp add: never_panics_def answer_pass_def demo_entry_mode unwinding_modes_def)


text \<open>
  C26: writes need their capability.  If no plugin of the call holds \<^verbatim>\<open>write_headers\<close>, the HTTP slot is
  what it was; the same for the security slot and \<^verbatim>\<open>append_labels\<close>, the delegation slot and
  \<^verbatim>\<open>append_delegation\<close>, the candidate constraint and \<^verbatim>\<open>write_candidate_constraint\<close>.
\<close>

theorem pipeline_write_capabilities:
  fixes config rt entries payload ext table disabled w
  defines "after \<equiv> xs_extensions (snd (execute config rt entries payload ext table disabled w))"
    and "nobody_holds \<equiv> \<lambda>cap. \<forall>e \<in> set entries. cap |\<notin>| entry_caps e"
  shows "(nobody_holds ''write_headers'' \<longrightarrow> ex_http after = ex_http ext)
     \<and> (nobody_holds ''append_labels'' \<longrightarrow> ex_security after = ex_security ext)
     \<and> (nobody_holds ''append_delegation'' \<longrightarrow> ex_delegation after = ex_delegation ext)
     \<and> (nobody_holds CAP_WRITE_CANDIDATE_CONSTRAINT \<longrightarrow> ex_candidate_constraint after = ex_candidate_constraint ext)"
  unfolding after_def nobody_holds_def
  by (intro conjI impI headers.execute_frame labels.execute_frame lineage.execute_frame constraint.execute_frame)

theorem pipeline_write_capabilities_witness:
  "ex_http (xs_extensions (snd (execute executor_config_default demo_runtime
      [demo_entry ''guard'' M_Sequential {|''read_headers''|} answer_pass]
      ''hello'' extensions_default None {} ()))) = None"
  using pipeline_write_capabilities [where ext = extensions_default and config = executor_config_default
      and entries = "[demo_entry ''guard'' M_Sequential {|''read_headers''|} answer_pass]" and rt = demo_runtime
      and payload = "''hello''" and table = None and disabled = "{}" and w = "()"]
  by (simp add: extensions_default_def)

text \<open>
  An allowed call hands back the payload and the extensions its phases left, and if it does not
  report the payload as modified, that payload is the one it was given.
\<close>

theorem pipeline_payload_flag:
  assumes "execute config rt entries payload ext table disabled w = (Inr (r, bg), st')" "\<not> is_denied r"
  shows "pl_modified_payload r = Some (xs_payload st') \<and> pl_modified_extensions r = Some (xs_extensions st')
    \<and> pl_context_table r = xs_ctx_table st' \<and> pl_errors r = xs_errors st'
    \<and> (\<not> pl_payload_modified r \<longrightarrow> xs_payload st' = payload)"
  by (rule execute_payload [OF assms])

theorem pipeline_payload_flag_witness:
  "\<exists>r bg st'. execute executor_config_default demo_runtime [] ''hello'' extensions_default None {} () = (Inr (r, bg), st')
     \<and> pl_modified_payload r = Some ''hello''"
proof -
  obtain r bg st' where run:
    "execute executor_config_default demo_runtime [] ''hello'' extensions_default None {} () = (Inr (r, bg), st')"
    "\<not> is_denied r" "\<not> pl_payload_modified r"
    by (simp add: execute_def is_denied_def allowed_with_def)
  with pipeline_payload_flag [OF run(1,2)] show ?thesis by auto
qed

text \<open>
  A plugin taken out of rotation takes no part in a call: removing it from the list of entries gives
  the same result and the same state.
\<close>

theorem pipeline_skips_disabled:
  "execute config rt (filter (\<lambda>e. entry_id e \<notin> disabled) entries) payload ext table disabled w =
   execute config rt entries payload ext table disabled w"
  by (rule execute_skips_disabled)

text \<open>
  C27: in every registry a host can build by registrations and removals, the plugins of a hook are listed
  by ascending priority, each is the one registered under its name, a name is registered under its own
  configuration, and after a removal no hook lists the removed plugin.
\<close>

theorem registry_invariant:
  assumes "registry_reachable reg"
  shows "registry_wf reg
    \<and> (\<forall>name hook e. e \<in> set (entries_for_hook (snd (unregister name reg)) hook) \<longrightarrow> entry_name e \<noteq> name)"
proof -
  have wf: "registry_wf reg" using assms by (rule registry_reachable_wf)
  moreover have "\<forall>hook. \<forall>e \<in> set (entries_for_hook (snd (unregister name reg)) hook). entry_name e \<noteq> name" for name
    by (rule unregister_wf(2) [OF wf, of _ "fst (unregister name reg)"]) simp
  ultimately show ?thesis by blast
qed

theorem registry_invariant_witness:
  "\<exists>reg :: (string, unit) plugin_registry. registry_wf reg \<and> entries_for_hook reg ''tool_pre_invoke'' \<noteq> []"
proof -
  let ?e = "demo_entry ''guard'' M_Sequential {||} answer_pass"
  obtain reg :: "(string, unit) plugin_registry" where reg:
    "register_multi_handler 7 (pr_trusted_config (he_plugin_ref ?e)) [(''tool_pre_invoke'', he_handler ?e)] registry_new = Inr reg"
    by (simp add: register_multi_handler_def registry_new_def Let_def)
  then have "registry_reachable reg" by (intro registry_reachable.register [OF registry_reachable.new])
  with reg show ?thesis
    using registry_invariant [of reg] by (intro exI [of _ reg]) (auto simp: register_multi_handler_def registry_new_def
      Let_def entries_for_hook_def push_entry_def sort_hook_def)
qed

section \<open>Identity\<close>

text \<open>
  C28: the token resolver fails closed.  It accepts a request exactly if there is a token, its claimed issuer is
  trusted, a key of that issuer verifies the token under the issuer's algorithms, name, audience and clock
  tolerance, and the claims fill the slot of the resolver's role; in every other case it denies and changes nothing.
\<close>

theorem jwt_fail_closed:
  "\<not> result_is_denied (jwt_handle je role_text now r p) \<longleftrightarrow>
     (\<exists>token iss issuer kid key claims updated.
        request_token role_text r p = Inr token \<and> token \<noteq> [] \<and> peek_issuer je token = Some iss
      \<and> issuer \<in> set (jr_trusted_issuers r) \<and> ti_issuer issuer = iss
      \<and> find (\<lambda>i. ti_issuer i = iss) (jr_trusted_issuers r) = Some issuer
      \<and> jv_header_kid je token = Inr kid \<and> select_key (ti_keys issuer) kid = Some key \<and> ti_algorithms issuer \<noteq> []
      \<and> jv_decode je token key
           \<lparr>vd_algorithms = ti_algorithms issuer, vd_iss = [iss], vd_validate_nbf = True,
            vd_leeway = (if ti_leeway_seconds issuer = 0 then 60 else ti_leeway_seconds issuer),
            vd_aud = (if ti_audiences issuer = [] then None else Some (ti_audiences issuer))\<rparr> = Inr claims
      \<and> fill_slot (jr_claim_mapper r) (jr_role r) claims p = Inr updated
      \<and> jwt_handle je role_text now r p = modify_payload (stash_token now (jr_role r) token (jr_header r) claims updated))"
  (is "?L \<longleftrightarrow> ?R")
proof
  assume ?L
  then obtain p' where "resolve_identity je role_text now r p = Inr p'" by (auto simp: jwt_handle_denied)
  then obtain token claims updated iss issuer where acc: "request_token role_text r p = Inr token" "peek_issuer je token = Some iss"
    "find (\<lambda>i. ti_issuer i = iss) (jr_trusted_issuers r) = Some issuer" "validated je issuer token claims"
    and upd: "fill_slot (jr_claim_mapper r) (jr_role r) claims p = Inr updated"
      "resolve_identity je role_text now r p = Inr (stash_token now (jr_role r) token (jr_header r) claims updated)"
    by (auto simp: resolve_identity_iff accepts_def)
  from acc(3) have "issuer \<in> set (jr_trusted_issuers r)" "ti_issuer issuer = iss" by (auto simp: find_Some_iff)
  moreover from acc(1) have "token \<noteq> []" by (auto simp: request_token_def Let_def res_bind_eq_Inr split: if_splits)
  moreover from upd(2) have "jwt_handle je role_text now r p = modify_payload (stash_token now (jr_role r) token (jr_header r) claims updated)"
    by (simp add: jwt_handle_def)
  ultimately show ?R using acc upd(1) unfolding validated_def issuer_validation_def DEFAULT_LEEWAY_SECONDS_def by blast
qed auto

text \<open>
  C29: the identity of a request comes from validated tokens.  If the plugins of a call of the identity hook are token
  resolvers and the call is allowed, the payload it returns has the wire data it came with, and each of its
  identity slots is as it was or is filled from the claims of a token of the request that a resolver accepted.
\<close>

theorem identity_from_tokens:
  assumes "\<forall>e \<in> set entries. jwt_entry jw e"
    and "execute config rt entries (PP_Identity p) ext table disabled w = (Inr (r, bg), st)" "\<not> is_denied r"
  shows "\<exists>p'. identity_from_result r = Some p' \<and> wire p' = wire p
    \<and> (ip_subject p' = ip_subject p \<or> (\<exists>name token claims. accepts (jw_env jw w) (jw_role_text jw) (jw_resolver jw w name) p token claims
         \<and> ip_subject p' = cm_map_subject (jr_claim_mapper (jw_resolver jw w name)) claims))
    \<and> (ip_client p' = ip_client p \<or> (\<exists>name token claims. accepts (jw_env jw w) (jw_role_text jw) (jw_resolver jw w name) p token claims
         \<and> ip_client p' = cm_map_client (jr_claim_mapper (jw_resolver jw w name)) claims))
    \<and> (ip_caller_workload p' = ip_caller_workload p
       \<or> (\<exists>name token claims. accepts (jw_env jw w) (jw_role_text jw) (jw_resolver jw w name) p token claims
            \<and> ip_caller_workload p' = cm_map_workload (jr_claim_mapper (jw_resolver jw w name)) claims))"
proof -
  have "payload_backed jw w (PP_Identity p) (xs_payload (snd (execute config rt entries (PP_Identity p) ext table disabled w)))"
    by (rule jwt.execute_kept) (use assms(1) in auto)
  then have "payload_backed jw w (PP_Identity p) (xs_payload st)" by (simp add: assms(2))
  then obtain p' where p': "xs_payload st = PP_Identity p'" "identity_backed jw w p p'"
    using identity_backed_refl unfolding payload_backed_def plugin_payload.inject by metis
  from execute_payload [OF assms(2,3)] p'(1) have "identity_from_result r = Some p'" by (simp add: identity_from_result_def)
  with p'(2) show ?thesis unfolding identity_backed_def slot_backed_def by blast
qed

definition demo_jwt_env :: "(string, unit) jwt_env" where
  "demo_jwt_env = \<lparr>jv_rsa_pem = Inl, jv_ec_pem = Inl, jv_ed_pem = Inl, jv_secret = id, jv_jwk = (\<lambda>_. Inl []), jv_jwks = Inl, jv_read_file = Inl,
     jv_base64 = Some, jv_json = (\<lambda>_. Some (JObj [(''iss'', JStr ''idp'')])), jv_header_kid = (\<lambda>_. Inr None),
     jv_decode = (\<lambda>token key v. if key = ''secret'' \<and> vd_iss v = [''idp''] then Inr [(''sub'', JStr ''alice''), (''roles'', JArr [JStr ''hr''])]
        else Inl \<lparr>jx_kind = InvalidSignature, jx_text = []\<rparr>)\<rparr>"


definition demo_jwt_plugin :: plugin_config where
  "demo_jwt_plugin = (pr_trusted_config (he_plugin_ref (demo_entry ''jwt'' M_Sequential {||} answer_pass)))\<lparr>cf_config := Some JNull\<rparr>"

definition demo_issuer :: "(string, unit) trusted_issuer" where
  "demo_issuer = \<lparr>ti_issuer = ''idp'', ti_audiences = [], ti_keys = single_fallback ''secret'', ti_algorithms = [()], ti_leeway_seconds = 0\<rparr>"

definition demo_resolver :: "(string, unit) jwt_resolver" where
  "demo_resolver = \<lparr>jr_cfg = demo_jwt_plugin, jr_trusted_issuers = [demo_issuer], jr_pending_jwks = [], jr_claim_mapper = StandardClaimMap,
     jr_role = Role_User, jr_header = ''Authorization'', jr_refresh_tasks = []\<rparr>"


definition demo_jw :: "(string, unit, unit) jwt_world" where
  "demo_jw = \<lparr>jw_resolver = (\<lambda>_ _. demo_resolver), jw_set = (\<lambda>_ _ w. w), jw_env = (\<lambda>_. demo_jwt_env), jw_now = (\<lambda>_. 0),
     jw_fetch = (\<lambda>_ _. FR_Send []), jw_elapsed = (\<lambda>_. 0), jw_role_text = (\<lambda>_. []), jw_type_name = []\<rparr>"

definition demo_jwt_entry :: "(plugin_payload, unit) hook_entry" where
  "demo_jwt_entry = \<lparr>he_plugin_ref = he_plugin_ref (demo_entry ''jwt'' M_Sequential {||} answer_pass), he_handler = jwt_handler demo_jw ''jwt''\<rparr>"

lemma demo_token: "request_token rt demo_resolver (identity_payload_new ''h.p.s'' TS_Bearer) = Inr ''h.p.s''"
  by (simp add: request_token_def demo_resolver_def identity_payload_new_def)

lemma demo_accepts: "\<exists>p'. resolve_identity demo_jwt_env rt now demo_resolver (identity_payload_new ''h.p.s'' TS_Bearer) = Inr p'"
proof -
  let ?claims = "[(''sub'', JStr ''alice''), (''roles'', JArr [JStr ''hr''])]"
  have "peek_issuer demo_jwt_env ''h.p.s'' = Some ''idp''" by (simp add: peek_issuer_def demo_jwt_env_def)
  moreover have "find (\<lambda>i. ti_issuer i = ''idp'') (jr_trusted_issuers demo_resolver) = Some demo_issuer"
    by (simp add: demo_resolver_def demo_issuer_def)
  moreover have "validated demo_jwt_env demo_issuer ''h.p.s'' ?claims"
    by (simp add: validated_def demo_jwt_env_def demo_issuer_def single_fallback_def select_key_def issuer_validation_def)
  ultimately have "accepts demo_jwt_env rt demo_resolver (identity_payload_new ''h.p.s'' TS_Bearer) ''h.p.s'' ?claims"
    by (simp add: accepts_def demo_token)
  moreover have "\<exists>u. fill_slot (jr_claim_mapper demo_resolver) (jr_role demo_resolver) ?claims p = Inr u" for p
    by (simp add: fill_slot_def demo_resolver_def StandardClaimMap_def map_subject_def claim_str_of_def)
  ultimately show ?thesis unfolding resolve_identity_iff by metis
qed

theorem identity_from_tokens_witness:
  "\<exists>r bg st p'. execute executor_config_default demo_runtime [demo_jwt_entry] (PP_Identity (identity_payload_new ''h.p.s'' TS_Bearer))
      extensions_default None {} () = (Inr (r, bg), st) \<and> \<not> is_denied r \<and> identity_from_result r = Some p' \<and> ip_raw_token p' = ''h.p.s''"
proof -
  let ?p = "identity_payload_new ''h.p.s'' TS_Bearer"
  obtain p' where p': "resolve_identity demo_jwt_env (\<lambda>_. []) 0 demo_resolver ?p = Inr p'" using demo_accepts by blast
  have run: "entry_run demo_jwt_entry w (PP_Identity ?p) x c = (0, H_Ok (Some \<lparr>rf_continue_processing = True, rf_modified_payload = Some (PP_Identity p'),
      rf_modified_extensions = None, rf_violation = None\<rparr>), c, w)" for w x c
    by (simp add: demo_jwt_entry_def jwt_handler_def typed_adapter_def demo_jw_def jwt_handle_def p' erase_result_def modify_payload_def)
  have mode: "in_mode {} m [demo_jwt_entry] = (if m = M_Sequential then [demo_jwt_entry] else [])" for m
    by (simp add: in_mode_def demo_jwt_entry_def demo_entry_mode)
  have "never_panics demo_jwt_entry"
    by (auto simp: never_panics_def demo_jwt_entry_def jwt_handler_def typed_adapter_def split: option.splits)
  then obtain r bg st where exec: "execute executor_config_default demo_runtime [demo_jwt_entry] (PP_Identity ?p) extensions_default None {} () = (Inr (r, bg), st)"
    using execute_returns [of "[demo_jwt_entry]" "{}" executor_config_default demo_runtime "PP_Identity ?p" extensions_default None "()"] by auto
  have allowed: "\<not> is_denied r"
    using execute_denied_iff [OF demo_runtime_valid exec]
    by (auto simp: mode Cons_eq_append_conv serial_answer_def answer_blocks_def exec_init_def run)
  have "\<forall>e \<in> set [demo_jwt_entry]. jwt_entry demo_jw e" by (auto simp: jwt_entry_def demo_jwt_entry_def)
  from identity_from_tokens [OF this exec allowed] obtain p'' where "identity_from_result r = Some p''" "wire p'' = wire ?p" by blast
  with exec allowed show ?thesis by (auto simp: wire_def identity_payload_new_def)
qed



section \<open>Built-in plugins and decision points\<close>

text \<open>
  C31: an approval by CIBA is authentic.  Whatever requests an approver was handed before and whatever the network answered, it
  validates an elicitation id, as approved by \<open>x\<close>, exactly if the provider once handed out that id for a request that asked \<open>x\<close>
  and was not answered with the same id again since, and the first poll of the id after that whose token names anyone names \<open>x\<close>.
\<close>

theorem ciba_approval_authentic:
  assumes "ciba_new env cfg = Inr a" "ey_operation p = EO_Validate" "ey_elicitation_id p = Some eid"
  shows "(\<exists>p'. ciba_handle env net now a (ciba_run env a calls Map.empty) p = (Inr (modify_payload p'), ciba_run env a calls Map.empty)
            \<and> ey_valid p' = Some True \<and> ey_approver p' = Some x)
    \<longleftrightarrow> (\<exists>before d between c after. calls = before @ d # between @ c # after
           \<and> asked env a eid d = Some x \<and> named env a eid c = Some x
           \<and> (\<forall>k \<in> set (between @ c # after). asked env a eid k = None) \<and> (\<forall>k \<in> set between. named env a eid k = None))"
  unfolding mem.validate_iff [OF ciba_new_store [OF assms(1)] assms(2,3)] mem.run_view [OF ciba_new_store [OF assms(1)]] by (rule history_iff)

definition demo_client_env :: client_env where
  "demo_client_env = \<lparr>ce_env_var = Inr, ce_read_file = Inr, ce_build_client = (\<lambda>_. Inr ()), ce_base64 = Some,
     ce_json = (\<lambda>_. Some (JObj [(''preferred_username'', JStr ''alice'')])), ce_plus_seconds = (\<lambda>t s. Inr (t + s))\<rparr>"

definition demo_ciba_config :: ciba_config where
  "demo_ciba_config = \<lparr>cb_backchannel_endpoint = ''https://op/ciba'', cb_token_endpoint = ''https://op/token'', cb_client_id = ''gw'',
     cb_client_secret_source = CS_Literal ''s'', cb_scope = ''openid'', cb_default_requested_expiry_seconds = 300,
     cb_http_timeout_seconds = 5, cb_approver_claim = ''preferred_username'', cb_insecure_http = False\<rparr>"

definition demo_ciba_env :: ciba_env where
  "demo_ciba_env = \<lparr>ci_client = demo_client_env, ci_config = (\<lambda>_. Inr demo_ciba_config),
     ci_backchannel = (\<lambda>_. Inr \<lparr>br_auth_req_id = ''r1'', br_expires_in = None\<rparr>),
     ci_token = (\<lambda>_. Inr \<lparr>tk_access_token = None, tk_id_token = Some ''h.p.s''\<rparr>), ci_oauth_error = Inr, ci_rfc3339 = (\<lambda>_. [])\<rparr>"

definition demo_net :: http_client where
  "demo_net = (\<lambda>_. Inr \<lparr>hr_status = 200, hr_status_text = ''200 OK'', hr_body = Inr []\<rparr>)"

definition demo_approver :: "correlation_map ciba_approver" where
  "demo_approver = \<lparr>ca_cfg = demo_jwt_plugin, ca_typed = demo_ciba_config, ca_client_secret = ''s'',
     ca_store = InMemoryCorrelationStore\<rparr>"

definition demo_dispatch :: elicitation_payload where
  "demo_dispatch = elicitation_payload_new EO_Dispatch ''approval'' ''alice''"

definition demo_check :: elicitation_payload where
  "demo_check = (elicitation_payload_new EO_Check ''approval'' [])\<lparr>ey_elicitation_id := Some ''r1''\<rparr>"

definition demo_validate :: elicitation_payload where
  "demo_validate = (elicitation_payload_new EO_Validate ''approval'' [])\<lparr>ey_elicitation_id := Some ''r1''\<rparr>"

definition demo_calls :: "ciba_call list" where
  "demo_calls = [(demo_net, 0, demo_dispatch), (demo_net, 0, demo_check)]"

lemma demo_ciba_new: "ciba_new demo_ciba_env demo_jwt_plugin = Inr demo_approver"
proof -
  have "trim ''https://op/ciba'' = ''https://op/ciba''" "trim ''https://op/token'' = ''https://op/token''" "trim ''gw'' = ''gw''"
    "endpoint_https ''https://op/ciba'' False = Inr ()" "endpoint_https ''https://op/token'' False = Inr ()" by code_simp+
  then show ?thesis
    by (simp add: ciba_new_def demo_ciba_env_def demo_ciba_config_def demo_client_env_def demo_approver_def check_endpoint_def ok_or_def demo_jwt_plugin_def)
qed

lemma demo_events:
  "asked demo_ciba_env demo_approver ''r1'' (demo_net, 0, demo_dispatch) = Some ''alice''"
  "asked demo_ciba_env demo_approver ''r1'' (demo_net, 0, demo_check) = None"
  "named demo_ciba_env demo_approver ''r1'' (demo_net, 0, demo_check) = Some ''alice''"
proof -
  have "split_on (CHR ''.'') ''h.p.s'' = [''h'', ''p'', ''s'']" by code_simp
  then show "named demo_ciba_env demo_approver ''r1'' (demo_net, 0, demo_check) = Some ''alice''"
    by (simp add: named_def demo_check_def elicitation_payload_new_def demo_net_def demo_ciba_env_def is_success_def token_approver_def
        decode_jwt_claim_def token_claims_def demo_client_env_def demo_approver_def demo_ciba_config_def)
qed (simp_all add: asked_def demo_check_def demo_dispatch_def elicitation_payload_new_def demo_net_def demo_ciba_env_def is_success_def body_json_def)

theorem ciba_approval_authentic_witness:
  "\<exists>p'. ciba_handle demo_ciba_env demo_net 0 demo_approver (ciba_run demo_ciba_env demo_approver demo_calls Map.empty) demo_validate
        = (Inr (modify_payload p'), ciba_run demo_ciba_env demo_approver demo_calls Map.empty)
      \<and> ey_valid p' = Some True \<and> ey_approver p' = Some ''alice''"
proof -
  have v: "ey_operation demo_validate = EO_Validate" "ey_elicitation_id demo_validate = Some ''r1''"
    by (simp_all add: demo_validate_def elicitation_payload_new_def)
  show ?thesis unfolding ciba_approval_authentic [OF demo_ciba_new v] demo_calls_def
    by (intro exI [of _ "[]"] exI [of _ "(demo_net, 0, demo_dispatch)"] exI [of _ "(demo_net, 0, demo_check)"]) (simp add: demo_events)
qed

text \<open>
  C32: an approval by CIBA is not bound to what was asked.  Once an id validates, every check and every validation of it succeeds,
  again and again and without asking the provider, for a step with any other approver, purpose, scope or channel.
\<close>

theorem ciba_approval_replayed:
  assumes "ciba_new env cfg = Inr a" "ey_operation p = EO_Validate" "ey_elicitation_id p = Some eid"
    and "ciba_handle env net now a s p = (Inr (modify_payload p'), s)" "ey_valid p' = Some True"
    and "ey_elicitation_id q = Some eid"
  shows "(ey_operation q = EO_Check \<longrightarrow> ciba_handle env net' now' a s q
            = (Inr (modify_payload (q\<lparr>ey_status := Some EK_Resolved, ey_outcome := Some EU_Approved\<rparr>)), s))
       \<and> (ey_operation q = EO_Validate \<longrightarrow> ciba_handle env net' now' a s q
            = (Inr (modify_payload (q\<lparr>ey_approver := ey_approver p', ey_valid := Some True\<rparr>)), s))"
proof -
  have store: "ca_store a = InMemoryCorrelationStore" by (rule ciba_new_store [OF assms(1)])
  obtain x where x: "ey_approver p' = Some x"
    using assms(2-5) by (auto simp: ciba_handle_def do_validate_def invalid_def ciba_deny_def result_deny_def modify_payload_def split: option.splits if_splits)
  with mem.validate_iff [OF store assms(2,3), of env net now s x] assms(4,5)
  have "corr_view (cs_get (ca_store a) s eid) = Some (x, Some x)" unfolding store by blast
  then have "cs_get (ca_store a) s eid = Some \<lparr>co_expected_approver = x, co_resolved_approver = Some x\<rparr>"
    by (auto simp: corr_view_def)
  from resolved_replay [OF this assms(6)] show ?thesis by (simp add: ciba_handle_def x)
qed

theorem ciba_approval_replayed_witness:
  "\<exists>s. ciba_handle demo_ciba_env (\<lambda>_. Inl \<lparr>he_is_timeout = True, he_text = []\<rparr>) 9 demo_approver s
         (demo_check\<lparr>ey_from := ''bob'', ey_purpose := Some ''wire all funds''\<rparr>)
       = (Inr (modify_payload (demo_check\<lparr>ey_from := ''bob'', ey_purpose := Some ''wire all funds'',
            ey_status := Some EK_Resolved, ey_outcome := Some EU_Approved\<rparr>)), s)"
proof -
  let ?s = "ciba_run demo_ciba_env demo_approver demo_calls Map.empty"
  let ?q = "demo_check\<lparr>ey_from := ''bob'', ey_purpose := Some ''wire all funds''\<rparr>"
  have v: "ey_operation demo_validate = EO_Validate" "ey_elicitation_id demo_validate = Some ''r1''"
    by (simp_all add: demo_validate_def elicitation_payload_new_def)
  have q: "ey_elicitation_id ?q = Some ''r1''" "ey_operation ?q = EO_Check" by (simp_all add: demo_check_def elicitation_payload_new_def)
  have "history (asked demo_ciba_env demo_approver ''r1'') (named demo_ciba_env demo_approver ''r1'') demo_calls = Some (''alice'', Some ''alice'')"
    unfolding history_iff demo_calls_def
    by (intro exI [of _ "[]"] exI [of _ "(demo_net, 0, demo_dispatch)"] exI [of _ "(demo_net, 0, demo_check)"]) (simp add: demo_events)
  then obtain p' where "ciba_handle demo_ciba_env demo_net 0 demo_approver ?s demo_validate = (Inr (modify_payload p'), ?s)" "ey_valid p' = Some True"
    using mem.validate_iff [OF ciba_new_store [OF demo_ciba_new] v, of demo_ciba_env demo_net 0 ?s "''alice''"]
      mem.run_view [OF ciba_new_store [OF demo_ciba_new], of demo_ciba_env demo_calls "''r1''"] by auto
  from ciba_approval_replayed [OF demo_ciba_new v this q(1), of "\<lambda>_. Inl \<lparr>he_is_timeout = True, he_text = []\<rparr>" 9] q(2)
  show ?thesis by (intro exI [of _ ?s]) simp
qed

text \<open>
  C33: a delegated token is what was asked for.  A token the exchange plugin hands on comes from a successful answer of the
  configured provider to an exchange of the caller's credential (for a workload, of the base token the provider gave for it), for
  the audience of the target.  If the provider says which scopes it granted, they are the scopes of the token and every required
  permission is among them; otherwise the token counts for the requested ones.  It lives no longer than the provider and the
  attenuation of the route say.
\<close>

theorem oauth_token_authentic:
  assumes "oauth_handle env net now later d payload = (Inr r, d')" "pu_modified_payload r = Some p'"
  shows "\<exists>audience st response parsed token ttl.
     dl_target_audience payload = Some audience \<and> audience \<noteq> []
     \<and> subject_credential env net d payload st
     \<and> net (exchange_request d payload audience st) = Inr response \<and> is_success response
     \<and> body_json (oe_exchange env) response = Inr parsed
     \<and> dl_delegated_token p' = Some token \<and> rd_token token = tx_access_token parsed \<and> rd_audience token = audience
     \<and> (\<forall>granted. tx_scope parsed = Some granted \<longrightarrow>
          rd_scopes token = split_whitespace granted \<and> set (dl_required_permissions payload) \<subseteq> set (rd_scopes token))
     \<and> (tx_scope parsed = None \<longrightarrow> rd_scopes token = split_whitespace (requested_scopes payload))
     \<and> ce_plus_seconds (oe_client env) now ttl = Inr (rd_expires_at token)
     \<and> ttl \<le> unwrap_or (tx_expires_in parsed) 300
     \<and> (\<forall>att hint. dl_route_attenuation payload = Some att \<longrightarrow> ac_ttl_seconds att = Some hint \<longrightarrow> ttl \<le> uint hint)"
proof -
  from oauth_handle_minted [of env net now later d payload r p'] assms
  obtain audience parsed expires where x: "oauth_exchange env net d payload = Inr (audience, parsed)"
    and e: "ce_plus_seconds (oe_client env) now (ttl_secs payload parsed) = Inr expires"
    and p': "p' = minted_payload d later payload audience parsed expires" by auto
  from x obtain st response where s: "dl_target_audience payload = Some audience" "audience \<noteq> []" "subject_credential env net d payload st"
    "net (exchange_request d payload audience st) = Inr response" "is_success response" "body_json (oe_exchange env) response = Inr parsed"
    and scopes: "missing_scopes payload parsed = []" by (auto simp: oauth_exchange_Inr)
  let ?token = "delegated_token_new (tx_access_token parsed) (oc_default_outbound_header (od_typed d)) audience (effective_scopes payload parsed) expires"
  have "dl_delegated_token p' = Some ?token" by (simp add: p' minted_payload_def)
  then show ?thesis
    using s scopes e
    by (intro exI [of _ audience] exI [of _ st] exI [of _ response] exI [of _ parsed] exI [of _ ?token] exI [of _ "ttl_secs payload parsed"])
       (auto simp: delegated_token_new_def effective_scopes_eq missing_scopes_Nil intro: ttl_bounds)
qed

definition demo_oauth_env :: oauth_env where
  "demo_oauth_env = \<lparr>oe_client = demo_client_env, oe_config = (\<lambda>_. Inl []),
     oe_exchange = (\<lambda>_. Inr \<lparr>tx_access_token = ''minted'', tx_issued_token_type = None, tx_expires_in = Some 3600, tx_scope = Some ''read write''\<rparr>),
     oe_error = (\<lambda>_. Inl [])\<rparr>"

definition demo_oauth :: oauth_delegator where
  "demo_oauth = \<lparr>od_cfg = demo_jwt_plugin, od_typed = \<lparr>oc_token_endpoint = ''https://idp/token'', oc_client_id = ''gw'',
     oc_client_secret_source = CS_Literal ''s'', oc_subject_token_type = ''jwt'', oc_timeout_seconds = 5, oc_default_outbound_header = ''Authorization'',
     oc_insecure_http = False, oc_actor_token_type = ''jwt'', oc_workload_assertion_type = ''spiffe''\<rparr>, od_client_secret = ''s'',
     od_warned_missing_act = False\<rparr>"

definition demo_delegation :: delegation_payload where
  "demo_delegation = (delegation_payload_new ''caller'' ''tool'')\<lparr>dl_target_audience := Some ''api'', dl_required_permissions := [''read'']\<rparr>"

theorem oauth_token_authentic_witness:
  "\<exists>r p' token. oauth_handle demo_oauth_env demo_net 0 0 demo_oauth demo_delegation = (Inr r, demo_oauth) \<and> pu_modified_payload r = Some p'
     \<and> dl_delegated_token p' = Some token \<and> rd_audience token = ''api''"
proof -
  have words: "split_whitespace ''read write'' = [''read'', ''write'']" by code_simp
  have actor: "dl_actor_token demo_delegation = []" by (simp add: demo_delegation_def delegation_payload_new_def)
  have "\<exists>parsed. oauth_exchange demo_oauth_env demo_net demo_oauth demo_delegation = Inr (''api'', parsed)"
    unfolding oauth_exchange_Inr
    by (simp add: demo_delegation_def delegation_payload_new_def demo_net_def is_success_def body_json_def demo_oauth_env_def
        subject_credential_def missing_scopes_Nil words)
  then obtain parsed where x: "oauth_exchange demo_oauth_env demo_net demo_oauth demo_delegation = Inr (''api'', parsed)" by blast
  have "ce_plus_seconds (oe_client demo_oauth_env) 0 n = Inr n" for n by (simp add: demo_oauth_env_def demo_client_env_def)
  with x obtain p' where run: "oauth_handle demo_oauth_env demo_net 0 0 demo_oauth demo_delegation = (Inr (modify_payload p'), demo_oauth)"
    by (simp add: oauth_handle_def actor)
  moreover have "pu_modified_payload (modify_payload p') = Some p'" by (simp add: modify_payload_def)
  ultimately show ?thesis using oauth_token_authentic [OF run, of p'] by (auto simp: demo_delegation_def)
qed

text \<open>
  C34: the OPA decision point fails closed.  After any calls, a resolver with the default error policy allows a step only if the step
  names a query, the query runs on the base policy or, for a step with an inline module, on the base policy with that module, whose
  package is none of the global ones, and its value over the input made of the bag grants: it is true, an object whose decision field
  is true, or an empty collection of violations.
\<close>

theorem opa_fail_closed:
  assumes "opa_evaluate rg r call entries (opa_cache rg r calls) = (Inr d, cache')" "pdd_decision d = Dec_Allow"
    and "op_on_error r = OnError_Deny"
  shows "\<exists>query engine engine' v. step_arg call ''query'' = Some query
     \<and> (case step_arg call ''module'' of
          None \<Rightarrow> engine = op_base_engine r
        | Some src \<Rightarrow> (\<exists>package. rg_add_policy rg (op_base_engine r) INLINE_MODULE_NAME src = Inr (engine, package)
                       \<and> package \<notin> op_global_packages r))
     \<and> rg_set_input_json rg engine (rg_json_text rg (bag_to_input entries)) = Inr engine'
     \<and> rg_eval_rule rg engine' query = RO_Value v
     \<and> (v = RV_Bool True \<or> v = RV_Set [] \<or> v = RV_Array []
        \<or> (\<exists>obj. v = RV_Object obj \<and> map_of obj (RV_String (op_decision_field r)) = Some (RV_Bool True)))"
  using opa_allows [OF opa_cache_sound, of rg r call entries calls d] assms unfolding opa_compiles_def grants_def by auto

definition demo_rego :: "unit rego" where
  "demo_rego = \<lparr>rg_new = (), rg_add_policy = (\<lambda>_ name text. Inr ((), text)), rg_add_data_json = (\<lambda>_ _. Inr ()),
     rg_set_input_json = (\<lambda>_ _. Inr ()), rg_eval_rule = (\<lambda>_ _. RO_Value (RV_Bool True)), rg_to_json_str = (\<lambda>_. None),
     rg_json_text = (\<lambda>_. []), rg_yaml_json = (\<lambda>_. Inr []), rg_parse_yaml = (\<lambda>_. Inr YNull), rg_read_file = Inr\<rparr>"

definition demo_opa :: "unit opa_resolver" where
  "demo_opa = \<lparr>op_dialect = Opa, op_on_error = OnError_Deny, op_decision_field = ''allow'', op_base_engine = (),
     op_global_packages = {''data.authz''}, op_max_cache_entries = 8\<rparr>"

definition demo_opa_call :: "string \<Rightarrow> pdp_call" where
  "demo_opa_call src = \<lparr>pc_dialect = Opa, pc_args = YMap [(YStr ''query'', YStr ''data.x.allow''), (YStr ''module'', YStr src)]\<rparr>"

theorem opa_fail_closed_witness:
  "\<exists>d. fst (opa_evaluate demo_rego demo_opa (demo_opa_call ''data.x'') [] (opa_cache demo_rego demo_opa [])) = Inr d \<and> pdd_decision d = Dec_Allow
     \<and> step_arg (demo_opa_call ''data.x'') ''query'' \<noteq> None"
proof -
  obtain d cache' where "opa_evaluate demo_rego demo_opa (demo_opa_call ''data.x'') [] (opa_cache demo_rego demo_opa []) = (Inr d, cache')"
    "pdd_decision d = Dec_Allow"
    by (simp add: opa_evaluate_def step_arg_def demo_opa_call_def as_mapping_def yaml_as_str_def engine_for_def opa_cache_def prepare_engine_def
        cache_insert_def demo_rego_def demo_opa_def eval_task_def opa_allow_def)
  with opa_fail_closed [OF this] show ?thesis by (auto simp: demo_opa_def)
qed

text \<open>
  C35: a decision point sees the attribute bag.  In the input document every attribute is found under its dotted key with its value,
  unless a longer key of the bag makes a namespace of that key; a key leads to an object exactly if it is such a namespace; nothing
  else is found, and the order in which the hash map yields its entries does not change the document.
\<close>

theorem pdp_input_faithful:
  assumes "distinct (map fst entries)" "map_of entries = bag"
  shows "(\<forall>key x. get_dotted (bag_to_input entries) key = Some x \<and> \<not> is_object x
            \<longleftrightarrow> (\<exists>v. bag key = Some v \<and> x = opa_attr_to_value v \<and> \<not> shadowed bag key))
       \<and> (\<forall>key. (\<exists>m. get_dotted (bag_to_input entries) key = Some (JObj m)) \<longleftrightarrow> shadowed bag key)
       \<and> (\<forall>entries'. distinct (map fst entries') \<and> map_of entries' = bag \<longrightarrow> bag_to_input entries' = bag_to_input entries)"
proof (intro conjI allI impI)
  fix entries' assume e': "distinct (map fst entries') \<and> map_of entries' = bag"
  then have "set entries' = set entries" using assms map_of_inject_set [of entries' entries] by simp
  then have "mset entries' = mset entries" using e' assms(1) by (metis distinct_map set_eq_iff_mset_eq_distinct)
  then show "bag_to_input entries' = bag_to_input entries" unfolding bag_to_input_def using build_tree_order [OF assms(1)] by metis
qed (rule input_leaf [OF assms] input_namespace [OF assms(2)])+

theorem pdp_input_faithful_witness:
  "get_dotted (bag_to_input [(''subject.id'', AString ''alice''), (''subject'', ABool True)]) ''subject.id'' = Some (JStr ''alice'')"
proof -
  let ?es = "[(''subject.id'', AString ''alice''), (''subject'', ABool True)]"
  have d: "distinct (map fst ?es)" by simp
  have segs: "split_on (CHR ''.'') ''subject.id'' = [''subject'', ''id'']" "split_on (CHR ''.'') ''subject'' = [''subject'']" by code_simp+
  have "dom (map_of ?es) = {''subject.id'', ''subject''}" by (simp add: dom_map_of_conv_image_fst)
  then have "\<not> shadowed (map_of ?es) ''subject.id''" unfolding shadowed_def by (simp add: segs)
  moreover have "map_of ?es ''subject.id'' = Some (AString ''alice'')" by simp
  moreover have "JStr ''alice'' = opa_attr_to_value (AString ''alice'')" by simp
  ultimately show ?thesis
    using pdp_input_faithful [OF d refl, THEN conjunct1, THEN spec, THEN spec, THEN iffD2, THEN conjunct1] by blast
qed

section \<open>The engine\<close>

text \<open>
  Exactly these policy documents pass the check: no plugin name is declared twice, and with routing
  on, every route has exactly one entity matcher, refers to declared plugins only and joins defined
  groups only, and every group refers to declared plugins only.
\<close>

theorem config_validation:
  "validate_config config = None \<longleftrightarrow>
     distinct (map cf_name (pcf_plugins config))
   \<and> (routing_enabled config \<longrightarrow>
        (\<forall>route \<in> set (pcf_routes config). route_ok config route)
      \<and> (\<forall>(n, g) \<in> set (gc_policies (pcf_global config)). refs_known config (pg_plugins g)))"
  by (rule validate_config_None)

definition demo_group :: "string list \<Rightarrow> policy_group" where
  "demo_group names = \<lparr>pg_description = None, pg_metadata = [], pg_plugins = map Ref_Name names, pg_identity = None\<rparr>"

definition demo_tool_route :: "string_or_list \<Rightarrow> route_entry" where
  "demo_tool_route sl = \<lparr>re_tool = Some sl, re_resource = None, re_prompt = None, re_llm = None, re_meta = None,
     re_groups = None, re_when = None, re_plugins = [], re_identity = None\<rparr>"

definition demo_config :: "(string \<times> policy_group) list \<Rightarrow> policy_config" where
  "demo_config groups = \<lparr>pcf_global = \<lparr>gc_policies = groups, gc_defaults = [], gc_identity = None\<rparr>,
     pcf_plugin_dirs = [], pcf_plugins = [], pcf_groups = [], pcf_routes = [demo_tool_route (SL_Single ''pay'')],
     pcf_plugin_settings = plugin_settings_default\<lparr>pse_routing_enabled := True\<rparr>\<rparr>"

theorem config_validation_witness: "validate_config (demo_config [(''all'', demo_group [])]) = None"
  using config_validation [of "demo_config [(''all'', demo_group [])]"]
  by (simp add: demo_config_def demo_group_def demo_tool_route_def route_ok_def refs_known_def matcher_count_def)



text \<open>
  A pattern with \<^verbatim>\<open>?\<close> counts as an exact name: it outranks a list that names the entity.
\<close>

theorem question_mark_is_exact:
  "specificity (SL_Single ''pay-?'') = SPECIFICITY_EXACT_NAME \<and> specificity (SL_List [''pay-a'']) < specificity (SL_Single ''pay-?'')"
  by (simp add: specificity_def SPECIFICITY_EXACT_NAME_def SPECIFICITY_NAME_LIST_def)


definition demo_params :: engine_params where
  "demo_params = \<lparr>gp_fmt = (\<lambda>x. []), gp_wild = (=), gp_order = (\<lambda>s. sorted_list_of_set (fset s))\<rparr>"

definition demo_object :: "unit plugin_object" where
  "demo_object = \<lparr>ob_initialize = Pair None, ob_shutdown = Pair None\<rparr>"

definition demo_plugin :: "(string, unit) hook_entry" where
  "demo_plugin = demo_entry ''scanner'' M_Sequential {||} answer_pass"

definition demo_registered :: "(string, unit) engine" where
  "demo_registered = snd (register_handler_for_names demo_object (pr_trusted_config (he_plugin_ref demo_plugin))
     (he_handler demo_plugin) [''tool_pre_invoke''] (engine_new policy_engine_config_default))"

definition demo_engine :: "(string \<times> policy_group) list \<Rightarrow> (string, unit) engine" where
  "demo_engine groups = fst (snd (load_config (demo_config groups) demo_registered ()))"

definition demo_request :: "string fset \<Rightarrow> extensions" where
  "demo_request tags = extensions_default\<lparr>ex_meta := Some (0, \<lparr>me_entity_type = Some ''tool'', me_entity_name = Some ''pay'',
     me_tags = tags, me_scope = None, me_properties = []\<rparr>)\<rparr>"

definition demo_key :: route_cache_key where
  "demo_key = \<lparr>rk_entity_type = ''tool'', rk_entity_name = ''pay'', rk_hook_name = ''tool_pre_invoke'', rk_scope = None\<rparr>"

lemmas demo_engine_simps = demo_engine_def load_config_def demo_registered_def register_handler_for_names_def
  take_id_def try_mutate_runtime_def engine_new_def register_for_names_inner_def registry_new_def push_entry_def sort_hook_def
  clear_routing_cache_def snapshot_from_config_def demo_plugin_def demo_entry_def entries_for_hook_def

lemma demo_engine_facts:
  "entry_name ` set (entries_for_hook (sn_registry (eg_runtime (demo_engine groups))) ''tool_pre_invoke'') = {''scanner''}"
  "sn_policy_config (eg_runtime (demo_engine groups)) = Some (demo_config groups)"
  "sn_route_annotations (eg_runtime (demo_engine groups)) = []"
  "eg_route_cache (demo_engine groups) = []"
  "sn_route_cache_max_entries (eg_runtime (demo_engine groups)) = 10000"
  by (simp_all add: demo_engine_simps demo_config_def plugin_settings_default_def default_route_cache_max_entries_def Let_def)

lemma demo_routed: "routed_request (demo_engine groups) (demo_request tags) ''tool_pre_invoke'' (demo_config groups) demo_key tags"
  by (simp add: routed_request_def demo_engine_facts demo_request_def find_annotation_def demo_key_def routing_enabled_def)
     (simp add: demo_config_def)



lemma demo_route: "find_matching_route (=) (demo_config groups) ''tool'' ''pay'' None = Some (demo_tool_route (SL_Single ''pay''))"
  by (simp add: find_matching_route_def demo_config_def demo_tool_route_def route_score_def scope_bonus_def
      score_entity_match_def entity_matcher_def)


text \<open>
  The tags a request carries take part in the resolution but not in the cache key.  The first routed
  request of an entity decides the plugins of all later ones: a second request with other tags gets the
  list of the first, also where its own tags call for a group the first did not have.
\<close>

theorem cache_ignores_tags:
  assumes "routed_request eng ext hook config key tags" "routed_request eng ext2 hook config key tags2"
    and "map_of (eg_route_cache eng) key = None"
    and "length (eg_route_cache eng) < sn_route_cache_max_entries (eg_runtime eng)"
    and "filter_entries_by_route gp (eg_runtime eng) (entries_for_hook (sn_registry (eg_runtime eng)) hook) ext hook eng w
      = (es, eng', w')"
  shows "map entry_name es =
      known_names (entries_for_hook (sn_registry (eg_runtime eng)) hook) (resolved_for gp config key tags)
    \<and> filter_entries_by_route gp (eg_runtime eng') (entries_for_hook (sn_registry (eg_runtime eng')) hook) ext2 hook eng' w2
      = (es, eng', w2)"
  using second_request_reuses [OF assms] by blast

lemmas demo_resolve = resolved_for_def demo_key_def HOOK_IDENTITY_RESOLVE_def resolve_plugins_for_entity_def
  resolve_layers_def dedup_resolved_def demo_params_def collect_plugin_refs_def group_refs_def policy_of_def
  route_static_tags_def demo_route routing_enabled_def

theorem cache_ignores_tags_witness:
  "let eng = demo_engine [(''pii'', demo_group [''scanner''])];
       run = (\<lambda>tags eng. filter_entries_by_route demo_params (eg_runtime eng)
         (entries_for_hook (sn_registry (eg_runtime eng)) ''tool_pre_invoke'') (demo_request tags) ''tool_pre_invoke'' eng ())
   in map entry_name (fst (run {|''pii''|} eng)) = [''scanner'']
    \<and> map entry_name (fst (run {|''pii''|} (fst (snd (run {||} eng))))) = []"
proof -
  let ?eng = "demo_engine [(''pii'', demo_group [''scanner''])]"
  let ?run = "\<lambda>tags eng. filter_entries_by_route demo_params (eg_runtime eng)
         (entries_for_hook (sn_registry (eg_runtime eng)) ''tool_pre_invoke'') (demo_request tags) ''tool_pre_invoke'' eng ()"
  obtain es eng1 u1 where first: "?run {||} ?eng = (es, eng1, u1)" by (metis prod_cases3)
  obtain es2 eng2 u2 where own: "?run {|''pii''|} ?eng = (es2, eng2, u2)" by (metis prod_cases3)
  have "length (eg_route_cache ?eng) < sn_route_cache_max_entries (eg_runtime ?eng)"
    "map_of (eg_route_cache ?eng) demo_key = None" by (simp_all add: demo_engine_facts)
  note shared = cache_ignores_tags [OF demo_routed demo_routed this(2,1)]
  have "resolved_for demo_params (demo_config [(''pii'', demo_group [''scanner''])]) demo_key {||} = []"
    by (simp add: demo_resolve) (simp add: demo_config_def demo_tool_route_def)
  moreover have "map rsp_name (resolved_for demo_params (demo_config [(''pii'', demo_group [''scanner''])]) demo_key {|''pii''|}) = [''scanner'']"
    by (simp add: demo_resolve)
       (simp add: demo_config_def demo_tool_route_def demo_group_def policy_of_def group_refs_def collect_plugin_refs_def)
  ultimately show ?thesis
    using shared [OF first, of "{|''pii''|}" "()"] shared [OF own, of "{|''pii''|}" "()"]
    by (simp add: Let_def first own known_names_def demo_engine_facts)
qed

section \<open>Extensions\<close>

text \<open>
  C38: a plugin sees of the extensions what its capabilities open and nothing else: two extension sets
  give it the same view exactly if they agree on the open components (\<open>extensions_view\<close>).  In
  particular headers, labels, roles, permissions, teams, claims, clients, workloads, the agent, the
  delegation and both kinds of raw tokens can differ freely without the capability that opens them.
\<close>

theorem capability_noninterference:
  "filter_extensions e caps = filter_extensions e' caps \<longleftrightarrow> extensions_view caps e = extensions_view caps e'"
  by (rule filter_extensions_eq_iff)

text \<open>
  A plugin that hands its view back untouched changes nothing, as long as it may read both kinds of
  raw tokens or neither.
\<close>

theorem untouched_roundtrip:
  assumes "extensions_wf e"
    and "''read_inbound_credentials'' |\<in>| caps \<longleftrightarrow> ''read_delegated_tokens'' |\<in>| caps"
  shows "ex_http (merge_owned e (untouched e caps)) = ex_http e
    \<and> ex_security (merge_owned e (untouched e caps)) = ex_security e
    \<and> ex_delegation (merge_owned e (untouched e caps)) = ex_delegation e
    \<and> ex_raw_credentials (merge_owned e (untouched e caps)) = ex_raw_credentials e
    \<and> fixed_slots (merge_owned e (untouched e caps)) = fixed_slots e"
  using untouched_http untouched_security untouched_delegation [OF assms(1)] assms(2)
  by (auto simp: untouched_credentials merge_owned_components(7) build_filtered_raw_credentials_def split: option.split)

theorem untouched_roundtrip_witness:
  "ex_http (merge_owned (extensions_default\<lparr>ex_http := Some http_default\<rparr>)
      (untouched (extensions_default\<lparr>ex_http := Some http_default\<rparr>) {||})) = Some http_default"
  using untouched_roundtrip [of "extensions_default\<lparr>ex_http := Some http_default\<rparr>" "{||}"]
  by (simp add: extensions_wf_def extensions_default_def)

text \<open>
  With one of the two it is not so: a plugin that may read only the inbound tokens and returns its view
  untouched wipes the delegated tokens.
\<close>

theorem credentials_wiped:
  fixes r :: raw_credentials_extension
  assumes "ex_raw_credentials e = Some r"
  shows "ex_raw_credentials (merge_owned e (untouched e {|''read_inbound_credentials''|})) =
    Some (r\<lparr>rc_delegated_tokens := Map.empty\<rparr>)"
  using assms by (simp add: untouched_credentials build_filtered_raw_credentials_def)

text \<open>
  C39: the depth of a delegation is the number of its hops, at most \<open>2\<^sup>3\<^sup>2 - 1\<close>, and a delegation counts as
  delegated exactly if it has a hop; no hook call breaks that, and appending a hop establishes it.
\<close>

theorem delegation_depth:
  assumes "extensions_wf ext"
    and "ex_delegation (xs_extensions (snd (execute config rt entries payload ext table disabled w))) = Some d"
  shows "unat (dg_depth d) = min (length (dg_chain d)) (2 ^ 32 - 1) \<and> (dg_delegated d \<longleftrightarrow> dg_chain d \<noteq> [])"
proof -
  have "extensions_wf (xs_extensions (snd (execute config rt entries payload ext table disabled w)))"
    using wf.execute_frame [of entries ext config rt payload table disabled w] assms(1) by simp
  with assms(2) show ?thesis by (simp add: extensions_wf_def delegation_wf_def unat_u32_of_len)
qed

definition demo_hop :: delegation_hop where
  "demo_hop = \<lparr>hop_subject_id = ''svc'', hop_subject_type = None, hop_audience = None, hop_scopes_granted = [],
     hop_authorization_details = [], hop_timestamp = 0, hop_ttl_seconds = None, hop_strategy = None,
     hop_from_cache = False\<rparr>"

theorem delegation_depth_witness:
  "unat (dg_depth (append_hop delegation_default demo_hop)) = 1"
  using delegation_depth [of "extensions_default\<lparr>ex_delegation := Some (append_hop delegation_default demo_hop)\<rparr>"
      executor_config_default demo_runtime "[]" "''hello''" None "{}" "()" "append_hop delegation_default demo_hop"]
    append_hop_wf [of delegation_default demo_hop]
  by (simp add: extensions_wf_def execute_def append_hop_def delegation_default_def Let_def)

section \<open>The attribute bag of a request\<close>

text \<open>
  C40: the identity keys a policy tests are those of the authenticated subject and no one else's.  In the
  bag built from the view a set of capabilities opens, with the route key, any external data and any
  arguments of the call written on top, \<^verbatim>\<open>role.x\<close> holds exactly if the view may show roles and the
  subject has the role; the same for permissions and teams; \<^verbatim>\<open>authenticated\<close> holds exactly if some
  subject capability is held and the subject has an id.  Nothing a caller puts into the arguments can
  set or clear one of these keys.
\<close>

theorem bag_identity:
  fixes fmt uni e caps route_key ext_data call_args
  defines "bag \<equiv> extract_args fmt call_args (extract_data fmt ext_data (with_route_key route_key
      (extract_extensions fmt uni (filter_extensions e caps) bag_new)))"
  shows "bag (''role.'' @ x) =
       (if ''read_roles'' |\<in>| caps \<and> (\<exists>s. subject_of e = Some s \<and> x |\<in>| sj_roles s) then Some (ABool True) else None)
   \<and> bag (''perm.'' @ x) =
       (if ''read_permissions'' |\<in>| caps \<and> (\<exists>s. subject_of e = Some s \<and> x |\<in>| sj_permissions s) then Some (ABool True) else None)
   \<and> bag (''team.'' @ x) =
       (if ''read_teams'' |\<in>| caps \<and> (\<exists>s. subject_of e = Some s \<and> x |\<in>| sj_teams s) then Some (ABool True) else None)
   \<and> bag ''authenticated'' =
       (if has_any_subject_capability caps \<and> (\<exists>s. subject_of e = Some s \<and> sj_id s \<noteq> None) then Some (ABool True) else None)"
proof -
  have "bag k = extract_extensions fmt uni (filter_extensions e caps) bag_new k"
    if "\<not> below ''args'' k" "\<not> below ''data'' k" "k \<noteq> ''route.key''" for k
    using that by (simp add: bag_def args.frame data.frame with_route_key_def put_other)
  then have "bag k = extract_extensions fmt uni (filter_extensions e caps) bag_new k"
    if "k \<in> {''role.'' @ x, ''perm.'' @ x, ''team.'' @ x, ''authenticated''}" for k
    using that by (auto simp: below_def)
  then show ?thesis by (simp only: insert_iff simp_thms identity_keys)
qed

end
